(* ===== verification/Prelude.thy ===== *)
theory Prelude
  imports Complex_Main
begin

text \<open>
  What every component theory of the development shares: the exceptions a Python
  expression of the sources can raise, the type of a computation that may raise or
  may not return, and the lemma collections the component proofs draw from.
\<close>

section \<open>Collections\<close>

named_theorems comp_simps \<open>rewrite rules for computations that may raise or diverge\<close>
named_theorems dec_simps \<open>evaluation of decimal arithmetic on exactly representable operands\<close>
named_theorems dec_intros \<open>sign and order facts of decimal arithmetic\<close>

section \<open>Computations\<close>

text \<open>
  The exceptions the modelled code can raise, with the message where the source gives
  one. \<open>DivisionByZero\<close> and \<open>InvalidOperation\<close> are the two signals the default decimal
  context traps on a division; \<open>MultipleResultsFound\<close>, \<open>NoResultFound\<close> and \<open>IntegrityError\<close> are those
  of the database layer, for a query with too many rows or none and for a violated constraint. The
  subclasses of \<open>ValueError\<close> the sources define are \<open>ValueError\<close> with their message. The six from
  \<open>RetryableContextNotReady\<close> on are the classes of \<open>market_event_errors.py\<close>, by which the event bridge
  classifies a failure; those with a fixed code carry no argument. The last ones are those of the research
  services: a transition error of the job stores carries the status it found.
\<close>

datatype py_error =
    ValueError string
  | TypeError
  | DivisionByZero
  | InvalidOperation
  | IndexError
  | KeyError
  | LookupError string
  | AssertionError
  | MultipleResultsFound
  | IntegrityError string
  | NoResultFound
  | RuntimeError string
  | RetryableContextNotReady
  | RetryableSchedulerDeferred
  | FillNotDue
  | DailyEvaluationNotDue
  | PermanentConfigurationFailure string
  | DailyOpenSequenceFailure string string
  | TimeoutError
  | FileNotFoundError string
  | JobTransitionError string "string option"
  | GatePolicyError string
  | GateEvaluationError string
  | ResearchWriteError string

text \<open>
  \<open>None\<close>: the computation does not return; \<open>Some (Inl e)\<close>: it raises \<open>e\<close>;
  \<open>Some (Inr v)\<close>: it returns \<open>v\<close>.
\<close>

type_synonym 'a comp = "(py_error + 'a) option"

definition ret :: "'a \<Rightarrow> 'a comp" where
  "ret v = Some (Inr v)"

definition raise :: "py_error \<Rightarrow> 'a comp" where
  "raise e = Some (Inl e)"

definition cbind :: "'a comp \<Rightarrow> ('a \<Rightarrow> 'b comp) \<Rightarrow> 'b comp" where
  "cbind m f = (case m of None \<Rightarrow> None | Some (Inl e) \<Rightarrow> Some (Inl e) | Some (Inr v) \<Rightarrow> f v)"

lemma cbind_ret [simp, comp_simps]: "cbind (ret v) f = f v"
  by (simp add: cbind_def ret_def)

lemma cbind_raise [simp, comp_simps]: "cbind (raise e) f = raise e"
  by (simp add: cbind_def raise_def)

lemma ret_eq_ret [simp, comp_simps]: "ret v = ret w \<longleftrightarrow> v = w"
  by (simp add: ret_def)

lemma ret_neq_raise [simp, comp_simps]: "ret v \<noteq> raise e" "raise e \<noteq> ret v"
  by (simp_all add: ret_def raise_def)

lemma cbind_eq_ret [comp_simps]: "cbind m f = ret w \<longleftrightarrow> (\<exists>v. m = ret v \<and> f v = ret w)"
  by (auto simp: cbind_def ret_def split: option.splits sum.splits)

lemma cbind_retE:
  assumes "cbind m f = ret w"
  obtains v where "m = ret v" and "f v = ret w"
  using assms by (auto simp: cbind_eq_ret)

lemma cbind_ret_right [simp]: "cbind m ret = m"
  by (auto simp: cbind_def ret_def split: option.splits sum.splits)

lemma cbind_assoc: "cbind (cbind m f) g = cbind m (\<lambda>v. cbind (f v) g)"
  by (auto simp: cbind_def split: option.splits sum.splits)

text \<open>The loop of a comprehension whose body may raise: left to right, first failure wins.\<close>

fun cmapM :: "('a \<Rightarrow> 'b comp) \<Rightarrow> 'a list \<Rightarrow> 'b list comp" where
  "cmapM f [] = ret []"
| "cmapM f (x # xs) = cbind (f x) (\<lambda>y. cbind (cmapM f xs) (\<lambda>ys. ret (y # ys)))"

lemma cmapM_eq_ret: "cmapM f xs = ret ys \<longleftrightarrow> list_all2 (\<lambda>x y. f x = ret y) xs ys"
proof (induction xs arbitrary: ys)
  case Nil
  then show ?case by (auto simp: comp_simps)
next
  case (Cons x xs)
  then show ?case by (cases ys) (auto simp: cbind_eq_ret)
qed

lemma cmapM_append:
  "cmapM f (xs @ ys) = cbind (cmapM f xs) (\<lambda>us. cbind (cmapM f ys) (\<lambda>vs. ret (us @ vs)))"
  by (induction xs) (simp_all add: cbind_assoc)

fun cfoldl :: "('s \<Rightarrow> 'a \<Rightarrow> 's comp) \<Rightarrow> 's \<Rightarrow> 'a list \<Rightarrow> 's comp" where
  "cfoldl f s [] = ret s"
| "cfoldl f s (x # xs) = cbind (f s x) (\<lambda>s'. cfoldl f s' xs)"

text \<open>An invariant of a loop body that returns is an invariant of the loop.\<close>

lemma cfoldl_invariant:
  assumes "cfoldl f s xs = ret t" and "P s"
    and "\<And>s x s'. P s \<Longrightarrow> x \<in> set xs \<Longrightarrow> f s x = ret s' \<Longrightarrow> P s'"
  shows "P t"
  using assms
proof (induction xs arbitrary: s)
  case Nil
  then show ?case by simp
next
  case (Cons x xs)
  from Cons.prems(1) obtain s' where s': "f s x = ret s'" and rest: "cfoldl f s' xs = ret t"
    by (auto simp: cbind_eq_ret)
  have "P s'" using Cons.prems(3) [OF Cons.prems(2) _ s'] by simp
  then show ?case
  proof (rule Cons.IH [OF rest])
    show "P v" if "P u" "y \<in> set xs" "f u y = ret v" for u y v
      using Cons.prems(3) [OF that(1) _ that(3)] that(2) by simp
  qed
qed

lemma cfoldl_append: "cfoldl f s (xs @ ys) = cbind (cfoldl f s xs) (\<lambda>s'. cfoldl f s' ys)"
  by (induction xs arbitrary: s) (simp_all add: cbind_assoc)

section \<open>Finite lists\<close>

text \<open>Python's \<open>xs[i]\<close>: a negative index counts from the end, out of range raises.\<close>

definition py_get :: "'a list \<Rightarrow> int \<Rightarrow> 'a comp" where
  "py_get xs i =
     (let n = int (length xs); j = (if i < 0 then n + i else i)
      in if 0 \<le> j \<and> j < n then ret (xs ! nat j) else raise IndexError)"

lemma py_get_last: "xs \<noteq> [] \<Longrightarrow> py_get xs (int (length xs) - 1) = ret (last xs)"
  by (cases xs) (auto simp: py_get_def Let_def last_conv_nth nat_diff_distrib)

lemma py_get_in_range: "0 \<le> i \<Longrightarrow> i < int (length xs) \<Longrightarrow> py_get xs i = ret (xs ! nat i)"
  by (simp add: py_get_def)

text \<open>Python's \<open>max\<close> and \<open>min\<close> over a non-empty sequence, read left to right.\<close>

definition list_max :: "'a::linorder \<Rightarrow> 'a list \<Rightarrow> 'a" where
  "list_max x xs = foldl max x xs"

lemma list_max_Cons [simp]: "list_max x (y # ys) = list_max (max x y) ys"
  and list_max_Nil [simp]: "list_max x [] = x"
  by (simp_all add: list_max_def)

lemma list_max_first: "x \<le> list_max x xs"
proof (induction xs arbitrary: x)
  case Nil
  then show ?case by simp
next
  case (Cons y ys)
  have "x \<le> max x y" by simp
  also have "\<dots> \<le> list_max (max x y) ys" by (rule Cons.IH)
  finally show ?case by simp
qed

lemma list_max_ge: "y \<in> set (x # xs) \<Longrightarrow> y \<le> list_max x xs"
proof (induction xs arbitrary: x)
  case Nil
  then show ?case by simp
next
  case (Cons z zs)
  have "max x z \<le> list_max (max x z) zs" by (rule list_max_first)
  with Cons show ?case by auto
qed

lemma list_max_mem: "list_max x xs \<in> set (x # xs)"
proof (induction xs arbitrary: x)
  case Nil
  then show ?case by simp
next
  case (Cons z zs)
  show ?case using Cons.IH [of "max x z"] by (auto simp: max_def split: if_splits)
qed

lemma list_max_Max: "list_max x xs = Max (set (x # xs))"
  by (rule Max_eqI [symmetric]) (auto intro: list_max_ge simp: list_max_mem [simplified])

end
