(* ===== verification/Decimal.thy ===== *)
theory Decimal
  imports Prelude
begin

text \<open>
  Python's \<open>decimal.Decimal\<close> under the default context: 28 significant digits, rounding
  half to even, with division by zero trapped. A finite decimal is its value, a rational
  number, so that equality and order are by value as in Python; every arithmetic
  operation rounds its exact result by \<open>dround\<close>, while comparison, \<open>max\<close>, \<open>min\<close> and
  \<open>to_integral_value\<close> do not round. The exponent limits of the context (999999) are not
  modelled, and neither are NaN and the infinities, which the pydantic models refuse for
  a \<open>Decimal\<close> field.

  The theory first shows that \<open>dround\<close> is a rounding (monotone, odd, the identity on
  28-digit numbers, with relative error at most half a unit of the last digit), states
  what the components rely on as the locale \<open>rounding\<close>, and then treats the flooring of
  a number to a grid of exchange steps.
\<close>

section \<open>Definitions\<close>

type_synonym decimal = rat

text \<open>The precision of the default context.\<close>

definition dec_prec :: nat where
  "dec_prec = 28"

definition round_half_even :: "rat \<Rightarrow> int" where
  "round_half_even r =
     (let f = \<lfloor>r\<rfloor>; d = r - of_int f
      in if d < 1/2 then f else if 1/2 < d then f + 1 else if even f then f else f + 1)"

fun ndigits :: "nat \<Rightarrow> nat" where
  "ndigits n = (if n < 10 then 1 else Suc (ndigits (n div 10)))"

declare ndigits.simps [simp del]

definition adjusted :: "rat \<Rightarrow> int" where
  "adjusted x =
     (let (n, d) = quotient_of \<bar>x\<bar>;
          e = int (ndigits (nat n)) - int (ndigits (nat d))
      in if 10 powi e \<le> \<bar>x\<bar> then e else e - 1)"

definition dround :: "rat \<Rightarrow> decimal" where
  "dround x =
     (if x = 0 then 0
      else let u = 10 powi (adjusted x - int dec_prec + 1)
           in sgn x * of_int (round_half_even (\<bar>x\<bar> / u)) * u)"

text \<open>The operators: each rounds the exact result.\<close>

definition dadd :: "decimal \<Rightarrow> decimal \<Rightarrow> decimal" where
  "dadd a b = dround (a + b)"

definition dsub :: "decimal \<Rightarrow> decimal \<Rightarrow> decimal" where
  "dsub a b = dround (a - b)"

definition dmul :: "decimal \<Rightarrow> decimal \<Rightarrow> decimal" where
  "dmul a b = dround (a * b)"

definition dabs :: "decimal \<Rightarrow> decimal" where
  "dabs a = dround \<bar>a\<bar>"

text \<open>
  Division: \<open>dquot\<close> is the quotient for a divisor that is not zero, \<open>ddiv\<close> the operator
  with its traps (\<open>x / 0\<close> signals DivisionByZero, \<open>0 / 0\<close> InvalidOperation).
\<close>

definition dquot :: "decimal \<Rightarrow> decimal \<Rightarrow> decimal" where
  "dquot a b = dround (a / b)"

definition ddiv :: "decimal \<Rightarrow> decimal \<Rightarrow> decimal comp" where
  "ddiv a b =
     (if b = 0 then raise (if a = 0 then InvalidOperation else DivisionByZero)
      else ret (dquot a b))"

text \<open>\<open>sum(xs, Decimal("0"))\<close>.\<close>

definition dsum :: "decimal list \<Rightarrow> decimal" where
  "dsum xs = foldl dadd 0 xs"

text \<open>\<open>to_integral_value\<close> with ROUND_DOWN and with the context's rounding; exact.\<close>

definition dtrunc :: "decimal \<Rightarrow> decimal" where
  "dtrunc x = of_int (if 0 \<le> x then \<lfloor>x\<rfloor> else \<lceil>x\<rceil>)"

definition dintegral :: "decimal \<Rightarrow> decimal" where
  "dintegral x = of_int (round_half_even x)"

text \<open>
  \<open>math.isfinite(float(x))\<close>: the conversion rounds to the nearest double, and overflows
  to infinity from the midpoint beyond the largest double on.
\<close>

definition float_is_finite :: "decimal \<Rightarrow> bool" where
  "float_is_finite x \<longleftrightarrow> \<bar>x\<bar> < 2 ^ 1024 - 2 ^ 970"

text \<open>The numbers of at most 28 significant digits.\<close>

definition representable :: "rat \<Rightarrow> bool" where
  "representable x \<longleftrightarrow> (\<exists>c e. x = of_int c * 10 powi e \<and> \<bar>c\<bar> \<le> 10 ^ dec_prec)"

section \<open>The rounding\<close>

lemma ndigits_bounds:
  "(0 < n \<longrightarrow> 10 ^ (ndigits n - 1) \<le> n) \<and> n < 10 ^ ndigits n \<and> 0 < ndigits n"
proof (induction n rule: ndigits.induct)
  case (1 n)
  show ?case
  proof (cases "n < 10")
    case True
    then show ?thesis by (simp add: ndigits.simps [of n])
  next
    case False
    let ?m = "ndigits (n div 10)"
    from False 1 have lo: "10 ^ (?m - 1) \<le> n div 10" and hi: "n div 10 < 10 ^ ?m" and pos: "0 < ?m"
      by auto
    from lo pos have "10 ^ ?m \<le> n"
      by (cases ?m) auto
    moreover from hi have "n < 10 ^ Suc ?m" by simp
    ultimately show ?thesis using False by (simp add: ndigits.simps [of n])
  qed
qed

lemma adjusted_bounds:
  assumes "x \<noteq> 0"
  shows "10 powi adjusted x \<le> \<bar>x\<bar>" and "\<bar>x\<bar> < 10 powi (adjusted x + 1)"
proof -
  obtain n d where nd: "quotient_of \<bar>x\<bar> = (n, d)" by fastforce
  have d: "0 < d" using quotient_of_denom_pos [OF nd] .
  have x: "\<bar>x\<bar> = of_int n / of_int d" using quotient_of_div [OF nd] .
  have n: "0 < n"
  proof -
    from assms have "0 < \<bar>x\<bar>" by simp
    with x d show ?thesis by (simp add: zero_less_divide_iff)
  qed
  define a b where "a = ndigits (nat n)" and "b = ndigits (nat d)"
  have a: "10 ^ (a - 1) \<le> nat n" "nat n < 10 ^ a" "0 < a"
    using ndigits_bounds [of "nat n"] n by (auto simp: a_def)
  have b: "10 ^ (b - 1) \<le> nat d" "nat d < 10 ^ b" "0 < b"
    using ndigits_bounds [of "nat d"] d by (auto simp: b_def)
  have rn: "(of_nat (nat n) :: rat) = of_int n" and rd: "(of_nat (nat d) :: rat) = of_int d"
    using n d by simp_all
  have n1: "(10::rat) ^ (a - 1) \<le> of_int n" and n2: "of_int n < (10::rat) ^ a"
    using a rn by (metis of_nat_le_iff of_nat_less_iff of_nat_numeral of_nat_power)+
  have d1: "(10::rat) ^ (b - 1) \<le> of_int d" and d2: "of_int d < (10::rat) ^ b"
    using b rd by (metis of_nat_le_iff of_nat_less_iff of_nat_numeral of_nat_power)+
  let ?e = "int a - int b"
  have lo: "10 powi (?e - 1) \<le> \<bar>x\<bar>"
  proof -
    have "10 powi (?e - 1) = (10::rat) powi (int (a - 1) - int b)"
      using a by (simp add: of_nat_diff algebra_simps)
    also have "\<dots> = 10 ^ (a - 1) / 10 ^ b"
      by (simp add: power_int_diff)
    also have "\<dots> \<le> of_int n / of_int d"
      using n1 d2 d n by (intro frac_le) auto
    finally show ?thesis using x by simp
  qed
  have hi: "\<bar>x\<bar> < 10 powi (?e + 1)"
  proof -
    have "of_int n / of_int d < (10::rat) ^ a / 10 ^ (b - 1)"
      using n2 d1 n d by (intro frac_less) auto
    also have "\<dots> = 10 powi (int a - int (b - 1))"
      by (simp add: power_int_diff)
    also have "int a - int (b - 1) = ?e + 1"
      using b by (simp add: of_nat_diff)
    finally show ?thesis using x by simp
  qed
  have adj: "adjusted x = (if 10 powi ?e \<le> \<bar>x\<bar> then ?e else ?e - 1)"
    by (simp add: adjusted_def nd a_def b_def)
  show "10 powi adjusted x \<le> \<bar>x\<bar>" using adj lo by auto
  show "\<bar>x\<bar> < 10 powi (adjusted x + 1)" using adj hi by auto
qed


lemma rhe_bounds: "\<lfloor>r\<rfloor> \<le> round_half_even r" "round_half_even r \<le> \<lfloor>r\<rfloor> + 1"
  by (auto simp: round_half_even_def Let_def)

lemma rhe_of_int [simp]: "round_half_even (of_int k) = k"
  by (simp add: round_half_even_def)

lemma rhe_mono: "r \<le> s \<Longrightarrow> round_half_even r \<le> round_half_even s"
proof -
  assume rs: "r \<le> s"
  show ?thesis
  proof (cases "\<lfloor>r\<rfloor> = \<lfloor>s\<rfloor>")
    case True
    with rs show ?thesis by (auto simp: round_half_even_def Let_def)
  next
    case False
    with floor_mono [OF rs] have "\<lfloor>r\<rfloor> + 1 \<le> \<lfloor>s\<rfloor>" by linarith
    with rhe_bounds [of r] rhe_bounds [of s] show ?thesis by linarith
  qed
qed

lemma rhe_error: "\<bar>of_int (round_half_even r) - r\<bar> \<le> 1/2"
proof -
  have "of_int \<lfloor>r\<rfloor> \<le> r" "r < of_int \<lfloor>r\<rfloor> + 1" by linarith+
  then show ?thesis by (auto simp: round_half_even_def Let_def abs_le_iff)
qed

lemma rhe_ge_of_int: "of_int k \<le> r \<Longrightarrow> k \<le> round_half_even r"
  using rhe_mono [of "of_int k" r] by simp

lemma rhe_le_of_int: "r \<le> of_int k \<Longrightarrow> round_half_even r \<le> k"
  using rhe_mono [of r "of_int k"] by simp

lemma representable_0 [simp]: "representable 0"
  unfolding representable_def by (rule exI [of _ 0]) simp

abbreviation ulp :: "rat \<Rightarrow> rat" where
  "ulp x \<equiv> 10 powi (adjusted x - int dec_prec + 1)"

lemma ulp_pos: "0 < ulp x"
  by simp

lemma ten_powi_add: "(10::rat) powi a * 10 powi b = 10 powi (a + b)"
  by (simp add: power_int_add)

lemma ulp_scale: "of_int (10 ^ dec_prec) * ulp x = 10 powi (adjusted x + 1)"
proof -
  have "(of_int (10 ^ dec_prec) :: rat) = 10 powi int dec_prec" by simp
  then have "of_int (10 ^ dec_prec) * ulp x = 10 powi (int dec_prec + (adjusted x - int dec_prec + 1))"
    by (simp only: power_int_add [OF disjI1] flip: power_int_add)
  then show ?thesis by simp
qed

lemma ulp_scale': "of_int (10 ^ (dec_prec - 1)) * ulp x = 10 powi adjusted x"
proof -
  have "(of_int (10 ^ (dec_prec - 1)) :: rat) = 10 powi (int dec_prec - 1)"
    by (simp add: dec_prec_def)
  then have "of_int (10 ^ (dec_prec - 1)) * ulp x = 10 powi ((int dec_prec - 1) + (adjusted x - int dec_prec + 1))"
    by (simp only: ten_powi_add)
  then show ?thesis by simp
qed

lemma scaled_bounds:
  assumes "x \<noteq> 0"
  shows "of_int (10 ^ (dec_prec - 1)) \<le> \<bar>x\<bar> / ulp x" and "\<bar>x\<bar> / ulp x < of_int (10 ^ dec_prec)"
  using adjusted_bounds [OF assms] ulp_pos [of x]
  by (simp_all only: pos_le_divide_eq pos_divide_less_eq ulp_scale ulp_scale')

lemma rhe_scaled_bounds:
  assumes "x \<noteq> 0"
  shows "10 ^ (dec_prec - 1) \<le> round_half_even (\<bar>x\<bar> / ulp x)"
    and "round_half_even (\<bar>x\<bar> / ulp x) \<le> 10 ^ dec_prec"
  using scaled_bounds [OF assms] by (auto intro: rhe_ge_of_int rhe_le_of_int)

lemma dround_0 [simp]: "dround 0 = 0"
  by (simp add: dround_def)

lemma dround_nz: "x \<noteq> 0 \<Longrightarrow> dround x = sgn x * of_int (round_half_even (\<bar>x\<bar> / ulp x)) * ulp x"
  by (simp add: dround_def Let_def)

lemma adjusted_minus [simp]: "adjusted (- x) = adjusted x"
  by (simp add: adjusted_def)

lemma dround_minus: "dround (- x) = - dround x"
  by (cases "x = 0") (simp_all add: dround_nz)

lemma representable_dround: "representable (dround x)"
proof (cases "x = 0")
  case True
  then show ?thesis by simp
next
  case False
  let ?k = "round_half_even (\<bar>x\<bar> / ulp x)"
  let ?c = "(if 0 < x then 1 else - 1) * ?k"
  have "dround x = of_int ?c * ulp x"
    using False by (simp add: dround_nz sgn_if)
  moreover have "\<bar>?c\<bar> \<le> 10 ^ dec_prec"
  proof -
    have "0 \<le> ?k"
      using rhe_scaled_bounds(1) [OF False] by (rule order_trans [rotated]) simp
    then show ?thesis using rhe_scaled_bounds(2) [OF False] by (auto simp: abs_mult)
  qed
  ultimately show ?thesis unfolding representable_def by blast
qed

lemma dround_id:
  assumes "representable x"
  shows "dround x = x"
proof (cases "x = 0")
  case True
  then show ?thesis by simp
next
  case False
  from assms obtain c e where x: "x = of_int c * 10 powi e" and c: "\<bar>c\<bar> \<le> 10 ^ dec_prec"
    unfolding representable_def by blast
  have ax: "\<bar>x\<bar> = of_int \<bar>c\<bar> * 10 powi e" by (simp add: x abs_mult)
  have "\<exists>k. \<bar>x\<bar> / ulp x = of_int k"
  proof (cases "adjusted x - int dec_prec + 1 \<le> e")
    case True
    let ?n = "nat (e - (adjusted x - int dec_prec + 1))"
    have "\<bar>x\<bar> / ulp x = of_int \<bar>c\<bar> * 10 powi (e - (adjusted x - int dec_prec + 1))"
      by (simp add: ax power_int_diff)
    also have "\<dots> = of_int \<bar>c\<bar> * 10 ^ ?n"
      using True by (simp add: power_int_def)
    also have "\<dots> = of_int (\<bar>c\<bar> * 10 ^ ?n)" by simp
    finally show ?thesis by blast
  next
    case False
    have "\<bar>x\<bar> \<le> of_int (10 ^ dec_prec) * 10 powi e"
      unfolding ax using c by (intro mult_right_mono) (simp_all only: of_int_le_iff zero_le_power_int zero_le_numeral)
    also have "\<dots> = 10 powi (int dec_prec + e)"
      by (simp add: power_int_add)
    also have "\<dots> \<le> 10 powi adjusted x"
      using False by (intro power_int_increasing) auto
    finally have "\<bar>x\<bar> = 10 powi adjusted x"
      using adjusted_bounds(1) [OF \<open>x \<noteq> 0\<close>] by simp
    then have "\<bar>x\<bar> = of_int (10 ^ (dec_prec - 1)) * ulp x" by (simp only: ulp_scale')
    then have "\<bar>x\<bar> / ulp x = of_int (10 ^ (dec_prec - 1))"
      by (simp only: nonzero_mult_div_cancel_right [OF less_imp_neq [OF ulp_pos, symmetric]])
    then show ?thesis by blast
  qed
  then obtain k where k: "\<bar>x\<bar> / ulp x = of_int k" by blast
  then have "dround x = sgn x * of_int k * ulp x"
    using False by (simp add: dround_nz)
  also have "\<dots> = sgn x * \<bar>x\<bar>"
  proof -
    from k have "of_int k * ulp x = \<bar>x\<bar>" by (simp add: field_simps)
    then show ?thesis by (simp add: mult.assoc)
  qed
  also have "\<dots> = x" by (simp add: sgn_if)
  finally show ?thesis .
qed

lemma dround_idem [simp]: "dround (dround x) = dround x"
  by (rule dround_id [OF representable_dround])

lemma adjusted_mono:
  assumes "0 < x" and "x \<le> y"
  shows "adjusted x \<le> adjusted y"
proof (rule ccontr)
  assume "\<not> adjusted x \<le> adjusted y"
  then have "10 powi (adjusted y + 1) \<le> (10::rat) powi adjusted x"
    by (intro power_int_increasing) auto
  with adjusted_bounds [of x] adjusted_bounds [of y] assms show False by auto
qed

lemma dround_pos_mono:
  assumes "0 < x" and "x \<le> y"
  shows "dround x \<le> dround y"
proof (cases "adjusted x = adjusted y")
  case True
  have "round_half_even (x / ulp x) \<le> round_half_even (y / ulp x)"
    using assms by (intro rhe_mono divide_right_mono) auto
  then have "of_int (round_half_even (x / ulp x)) * ulp x \<le> of_int (round_half_even (y / ulp x)) * ulp x"
    by (intro mult_right_mono) auto
  with True assms show ?thesis by (simp add: dround_nz)
next
  case False
  with adjusted_mono [OF assms] have lt: "adjusted x + 1 \<le> adjusted y" by simp
  have "dround x = of_int (round_half_even (\<bar>x\<bar> / ulp x)) * ulp x"
    using assms by (simp add: dround_nz)
  also have "\<dots> \<le> of_int (10 ^ dec_prec) * ulp x"
    using rhe_scaled_bounds(2) [of x] assms by (intro mult_right_mono) (simp_all only: of_int_le_iff, auto)
  also have "\<dots> = 10 powi (adjusted x + 1)"
    by (rule ulp_scale)
  also have "\<dots> \<le> 10 powi adjusted y"
    using lt by (intro power_int_increasing) auto
  also have "\<dots> = of_int (10 ^ (dec_prec - 1)) * ulp y"
    by (rule ulp_scale' [symmetric])
  also have "\<dots> \<le> of_int (round_half_even (\<bar>y\<bar> / ulp y)) * ulp y"
    using rhe_scaled_bounds(1) [of y] assms by (intro mult_right_mono) (simp_all only: of_int_le_iff, auto)
  also have "\<dots> = dround y"
    using assms by (simp add: dround_nz)
  finally show ?thesis .
qed

lemma dround_pos: "0 < x \<Longrightarrow> 0 < dround x"
proof -
  assume x: "0 < x"
  have "(0::int) < 10 ^ (dec_prec - 1)" by simp
  also have "\<dots> \<le> round_half_even (\<bar>x\<bar> / ulp x)"
    using x by (intro rhe_scaled_bounds(1)) simp
  finally have "0 < (of_int (round_half_even (\<bar>x\<bar> / ulp x)) :: rat)" by simp
  then have "0 < of_int (round_half_even (\<bar>x\<bar> / ulp x)) * ulp x"
    by (intro mult_pos_pos ulp_pos)
  with x show ?thesis by (simp add: dround_nz)
qed

lemma dround_mono: "x \<le> y \<Longrightarrow> dround x \<le> dround y"
proof -
  assume xy: "x \<le> y"
  consider "0 < x" | "y < 0" | "x \<le> 0" "0 \<le> y" by linarith
  then show ?thesis
  proof cases
    case 1
    with xy show ?thesis by (rule dround_pos_mono [rotated])
  next
    case 2
    then have "dround (- y) \<le> dround (- x)"
      using xy by (intro dround_pos_mono) auto
    then show ?thesis by (simp add: dround_minus)
  next
    case 3
    have "dround x \<le> 0"
      using 3 dround_pos [of "- x"] by (cases "x = 0") (auto simp: dround_minus)
    moreover have "0 \<le> dround y"
      using 3 dround_pos [of y] by (cases "y = 0") auto
    ultimately show ?thesis by simp
  qed
qed

lemma dround_error: "\<bar>dround x - x\<bar> \<le> \<bar>x\<bar> * (5 / 10 ^ dec_prec)"
proof (cases "x = 0")
  case True
  then show ?thesis by simp
next
  case False
  let ?r = "\<bar>x\<bar> / ulp x"
  have "dround x - x = sgn x * (of_int (round_half_even ?r) - ?r) * ulp x"
    using False by (simp add: dround_nz sgn_if algebra_simps)
  then have "\<bar>dround x - x\<bar> = \<bar>of_int (round_half_even ?r) - ?r\<bar> * ulp x"
    using False by (simp add: abs_mult abs_sgn_eq)
  also have "\<dots> \<le> 1/2 * ulp x"
    by (intro mult_right_mono rhe_error) simp
  also have "\<dots> \<le> 1/2 * (\<bar>x\<bar> / 10 ^ (dec_prec - 1))"
  proof -
    have "10 ^ (dec_prec - 1) * ulp x \<le> \<bar>x\<bar>"
      using scaled_bounds(1) [OF False] by (simp add: pos_le_divide_eq)
    then show ?thesis by (simp add: field_simps)
  qed
  also have "\<dots> = \<bar>x\<bar> * (5 / 10 ^ dec_prec)"
    by (simp add: dec_prec_def)
  finally show ?thesis .
qed


lemma dround_error_nonneg:
  assumes "0 \<le> x"
  shows "x * (1 - 5 / 10 ^ dec_prec) \<le> dround x" and "dround x \<le> x * (1 + 5 / 10 ^ dec_prec)"
  using dround_error [of x] assms by (simp_all add: abs_le_iff algebra_simps)

section \<open>The interface of a rounding\<close>

text \<open>
  What the components rely on: a rounding is monotone, keeps zero, is odd and leaves
  rounded numbers alone. The consequences for signs, bounds by representable numbers and
  sums are proved here once and used through the interpretation on \<open>dround\<close>.
\<close>

locale rounding =
  fixes rnd :: "rat \<Rightarrow> rat"
  assumes rnd_mono: "x \<le> y \<Longrightarrow> rnd x \<le> rnd y"
    and rnd_zero: "rnd 0 = 0"
    and rnd_minus: "rnd (- x) = - rnd x"
    and rnd_idem: "rnd (rnd x) = rnd x"
begin

lemma nonneg: "0 \<le> x \<Longrightarrow> 0 \<le> rnd x"
  using rnd_mono [of 0 x] by (simp add: rnd_zero)

lemma nonpos: "x \<le> 0 \<Longrightarrow> rnd x \<le> 0"
  using rnd_mono [of x 0] by (simp add: rnd_zero)

lemma pos_imp: "0 < rnd x \<Longrightarrow> 0 < x"
  using nonpos [of x] by (cases "0 < x") simp_all

lemma le_fixed: "rnd y = y \<Longrightarrow> x \<le> y \<Longrightarrow> rnd x \<le> y"
  using rnd_mono [of x y] by simp

lemma ge_fixed: "rnd y = y \<Longrightarrow> y \<le> x \<Longrightarrow> y \<le> rnd x"
  using rnd_mono [of y x] by simp

lemma less_fixed: "rnd y = y \<Longrightarrow> rnd x < y \<Longrightarrow> x < y"
  using rnd_mono [of y x] by (cases "x < y") auto

lemma mult_mono_left: "0 \<le> c \<Longrightarrow> x \<le> y \<Longrightarrow> rnd (x * c) \<le> rnd (y * c)"
  by (intro rnd_mono mult_right_mono)

lemma divide_mono: "0 \<le> c \<Longrightarrow> x \<le> y \<Longrightarrow> rnd (x / c) \<le> rnd (y / c)"
  by (intro rnd_mono divide_right_mono)

lemma shrink: "rnd x = x \<Longrightarrow> 0 \<le> x \<Longrightarrow> c \<le> 1 \<Longrightarrow> rnd (x * c) \<le> x"
  by (rule le_fixed) (simp_all add: mult_left_le)

lemma grow: "rnd x = x \<Longrightarrow> 0 \<le> x \<Longrightarrow> 1 \<le> c \<Longrightarrow> x \<le> rnd (x * c)"
  by (rule ge_fixed) (simp_all add: mult_le_cancel_left1)

lemma foldl_nonneg:
  "0 \<le> a \<Longrightarrow> \<forall>x \<in> set xs. 0 \<le> x \<Longrightarrow> 0 \<le> foldl (\<lambda>s x. rnd (s + x)) a xs"
  by (induction xs arbitrary: a) (simp_all add: nonneg)

lemma foldl_zero: "\<forall>x \<in> set xs. x = 0 \<Longrightarrow> foldl (\<lambda>s x. rnd (s + x)) 0 xs = 0"
  by (induction xs) (simp_all add: rnd_zero)

end

interpretation dr: rounding dround
  by unfold_locales (simp_all add: dround_mono dround_minus)

lemmas dec_defs = dadd_def dsub_def dmul_def dquot_def dabs_def

lemma dround_pos_iff: "0 < dround x \<longleftrightarrow> 0 < x"
  using dround_pos dr.pos_imp by blast

lemma dround_eq_0_iff: "dround x = 0 \<longleftrightarrow> x = 0"
proof
  assume "dround x = 0"
  then show "x = 0"
    using dround_pos [of x] dround_pos [of "- x"] by (cases x "0 :: rat" rule: linorder_cases) (auto simp: dround_minus)
qed simp

lemma dmul_nonneg [dec_intros]: "0 \<le> a \<Longrightarrow> 0 \<le> b \<Longrightarrow> 0 \<le> dmul a b"
  by (simp add: dmul_def dr.nonneg)

lemma dmul_pos [dec_intros]: "0 < a \<Longrightarrow> 0 < b \<Longrightarrow> 0 < dmul a b"
  by (simp add: dmul_def dround_pos)

lemma dadd_nonneg [dec_intros]: "0 \<le> a \<Longrightarrow> 0 \<le> b \<Longrightarrow> 0 \<le> dadd a b"
  by (simp add: dadd_def dr.nonneg)

lemma dadd_pos [dec_intros]: "0 < a \<Longrightarrow> 0 \<le> b \<Longrightarrow> 0 < dadd a b"
  by (simp add: dadd_def dround_pos)

lemma dsub_nonneg [dec_intros]: "b \<le> a \<Longrightarrow> 0 \<le> dsub a b"
  by (simp add: dsub_def dr.nonneg)

lemma dsub_pos [dec_intros]: "b < a \<Longrightarrow> 0 < dsub a b"
  by (simp add: dsub_def dround_pos)

lemma dsub_pos_iff: "0 < dsub a b \<longleftrightarrow> b < a"
  by (simp add: dsub_def dround_pos_iff)

lemma dquot_nonneg [dec_intros]: "0 \<le> a \<Longrightarrow> 0 \<le> b \<Longrightarrow> 0 \<le> dquot a b"
  by (simp add: dquot_def dr.nonneg)

lemma dquot_pos [dec_intros]: "0 < a \<Longrightarrow> 0 < b \<Longrightarrow> 0 < dquot a b"
  by (simp add: dquot_def dround_pos)

lemma dabs_nonneg [dec_intros]: "0 \<le> dabs a"
  by (simp add: dabs_def dr.nonneg)

lemma dmul_mono: "0 \<le> c \<Longrightarrow> a \<le> b \<Longrightarrow> dmul a c \<le> dmul b c"
  by (simp add: dmul_def dr.mult_mono_left)

lemma dquot_mono: "0 \<le> c \<Longrightarrow> a \<le> b \<Longrightarrow> dquot a c \<le> dquot b c"
  by (simp add: dquot_def dr.divide_mono)

lemma dadd_mono: "a \<le> b \<Longrightarrow> c \<le> d \<Longrightarrow> dadd a c \<le> dadd b d"
  by (simp add: dadd_def dr.rnd_mono)

lemma dsum_foldl: "dsum xs = foldl (\<lambda>s x. dround (s + x)) 0 xs"
  by (simp add: dsum_def dadd_def [abs_def])

lemma dsum_nonneg [dec_intros]: "\<forall>x \<in> set xs. 0 \<le> x \<Longrightarrow> 0 \<le> dsum xs"
  unfolding dsum_foldl by (rule dr.foldl_nonneg) simp_all

lemma ddiv_nonzero [simp, comp_simps]: "b \<noteq> 0 \<Longrightarrow> ddiv a b = ret (dquot a b)"
  by (simp add: ddiv_def)

lemma ddiv_zero: "ddiv a 0 = raise (if a = 0 then InvalidOperation else DivisionByZero)"
  by (simp add: ddiv_def)

lemma ddiv_eq_ret: "ddiv a b = ret q \<longleftrightarrow> b \<noteq> 0 \<and> q = dquot a b"
  by (auto simp: ddiv_def)

section \<open>Evaluation on short decimals\<close>

text \<open>A number with at most \<open>k\<close> decimal places and 28 digits in all is kept as it is.\<close>

lemma representable_scaled:
  assumes "x * 10 ^ k \<in> \<int>" and "\<bar>x * 10 ^ k\<bar> \<le> 10 ^ dec_prec"
  shows "representable x"
proof -
  from assms(1) obtain c where c: "x * 10 ^ k = of_int c" by (auto elim: Ints_cases)
  have "x = of_int c * 10 powi (- int k)"
    using c by (simp add: power_int_minus field_simps)
  moreover from assms(2) have "of_int \<bar>c\<bar> \<le> (of_int (10 ^ dec_prec) :: rat)"
    by (simp add: c)
  then have "\<bar>c\<bar> \<le> 10 ^ dec_prec" by (simp only: of_int_le_iff)
  ultimately show ?thesis unfolding representable_def by blast
qed

lemma dround_scaled:
  "x * 10 ^ k \<in> \<int> \<Longrightarrow> \<bar>x * 10 ^ k\<bar> \<le> 10 ^ dec_prec \<Longrightarrow> dround x = x"
  by (rule dround_id [OF representable_scaled])

lemma dround_short [dec_simps]:
  assumes "x * 10000000000 \<in> \<int>" and "\<bar>x\<bar> \<le> 1000000000000000000"
  shows "dround x = x"
  using dround_scaled [of x 10] assms by (simp add: dec_prec_def abs_mult)

lemma representable_of_int: "\<bar>k\<bar> \<le> 10 ^ dec_prec \<Longrightarrow> representable (of_int k)"
  unfolding representable_def by (intro exI [of _ k] exI [of _ 0]) simp

section \<open>Grids of exchange steps\<close>

text \<open>
  \<open>grid_ok s n\<close>: the multiples of \<open>s\<close> up to \<open>n\<close> times \<open>s\<close> are 28-digit numbers, so that
  arithmetic on that part of the grid is exact.
\<close>

definition grid_ok :: "decimal \<Rightarrow> int \<Rightarrow> bool" where
  "grid_ok s n \<longleftrightarrow> 0 < s \<and> 0 \<le> n \<and> n \<le> 10 ^ dec_prec \<and>
     (\<forall>k. \<bar>k\<bar> \<le> n \<longrightarrow> representable (of_int k * s))"

lemma grid_okI:
  assumes "s = of_int c * 10 powi e" and "0 < c" and "0 \<le> n" and "n * c \<le> 10 ^ dec_prec"
  shows "grid_ok s n"
proof -
  have "n \<le> n * c" using assms by (simp add: mult_le_cancel_left1)
  moreover have "representable (of_int k * s)" if "\<bar>k\<bar> \<le> n" for k
  proof -
    have "\<bar>k * c\<bar> \<le> n * c" using that assms by (simp add: abs_mult mult_right_mono)
    then show ?thesis
      unfolding representable_def using assms
      by (intro exI [of _ "k * c"] exI [of _ e]) auto
  qed
  ultimately show ?thesis using assms by (simp add: grid_ok_def)
qed

lemma grid_ok_step_pos: "grid_ok s n \<Longrightarrow> 0 < s"
  by (simp add: grid_ok_def)

lemma grid_ok_mono: "grid_ok s n \<Longrightarrow> 0 \<le> m \<Longrightarrow> m \<le> n \<Longrightarrow> grid_ok s m"
  by (simp add: grid_ok_def)

lemma grid_round: "grid_ok s n \<Longrightarrow> \<bar>k\<bar> \<le> n \<Longrightarrow> dround (of_int k * s) = of_int k * s"
  by (rule dround_id) (simp add: grid_ok_def)

lemma grid_round_int: "grid_ok s n \<Longrightarrow> \<bar>k\<bar> \<le> n \<Longrightarrow> dround (of_int k) = of_int k"
  by (rule dround_id [OF representable_of_int]) (simp add: grid_ok_def)

lemma dtrunc_of_int [simp]: "dtrunc (of_int k) = of_int k"
  by (simp add: dtrunc_def)

lemma dtrunc_nonneg: "0 \<le> x \<Longrightarrow> dtrunc x = of_int \<lfloor>x\<rfloor>"
  by (simp add: dtrunc_def)

end
