(* ===== verification/Datetime.thy ===== *)
theory Datetime
  imports Prelude
begin

text \<open>
  Points in time. Every datetime the sources compare, add to or subtract is
  timezone-aware and in UTC; it is modelled as the number of microseconds since
  1970-01-01T00:00:00Z, the resolution of Python's \<open>datetime\<close>. The proleptic Gregorian
  calendar that printing a datetime needs is written as CPython computes it, by cycles of
  400, 100, 4 and 1 years; the lemmas show that the printed date determines the day.
\<close>

type_synonym datetime = int

definition us_per_second :: int where
  "us_per_second = 1000000"

definition us_per_day :: int where
  "us_per_day = 86400 * us_per_second"

text \<open>\<open>timedelta(seconds=n)\<close> and \<open>timedelta.days\<close>, which rounds down.\<close>

definition seconds :: "int \<Rightarrow> int" where
  "seconds n = n * us_per_second"

definition days_of :: "int \<Rightarrow> int" where
  "days_of dt = dt div us_per_day"

section \<open>Calendar\<close>

text \<open>The ordinal of a day counts from 0001-01-01, day 1; 1970-01-01 is day 719163.\<close>

definition epoch_ordinal :: int where
  "epoch_ordinal = 719163"

definition is_leap :: "int \<Rightarrow> bool" where
  "is_leap y \<longleftrightarrow> y mod 4 = 0 \<and> (y mod 100 \<noteq> 0 \<or> y mod 400 = 0)"

definition days_before_year :: "int \<Rightarrow> int" where
  "days_before_year year = (let y = year - 1 in y * 365 + y div 4 - y div 100 + y div 400)"

definition month_lengths :: "int \<Rightarrow> int list" where
  "month_lengths y = [31, if is_leap y then 29 else 28, 31, 30, 31, 30, 31, 31, 30, 31, 30, 31]"

text \<open>The month in which a day of the year (from 0) falls, with the day of that month.\<close>

fun month_of :: "int \<Rightarrow> int list \<Rightarrow> int \<Rightarrow> int \<times> int" where
  "month_of m [] d = (m, d + 1)"
| "month_of m [l] d = (m, d + 1)"
| "month_of m (l # ls) d = (if d < l then (m, d + 1) else month_of (m + 1) ls (d - l))"

text \<open>Year and day of the year (from 0) of an ordinal: \<open>_ord2ymd\<close> up to the month.\<close>

definition year_and_day :: "int \<Rightarrow> int \<times> int" where
  "year_and_day ordinal =
     (let n = ordinal - 1;
          n400 = n div 146097; n = n mod 146097;
          n100 = n div 36524; n = n mod 36524;
          n4 = n div 1461; n = n mod 1461;
          n1 = n div 365; n = n mod 365;
          year = n400 * 400 + n100 * 100 + n4 * 4 + n1 + 1
      in if n1 = 4 \<or> n100 = 4 then (year - 1, 365) else (year, n))"

definition ord2ymd :: "int \<Rightarrow> int \<times> int \<times> int" where
  "ord2ymd ordinal =
     (let (y, d) = year_and_day ordinal; (m, dd) = month_of 1 (month_lengths y) d in (y, m, dd))"

section \<open>Printing\<close>

definition digit_char :: "int \<Rightarrow> char" where
  "digit_char d = char_of (48 + nat d)"

text \<open>A number in a fixed number of decimal digits, as \<open>%0wd\<close> prints one that fits.\<close>

fun padded :: "nat \<Rightarrow> int \<Rightarrow> string" where
  "padded 0 n = []"
| "padded (Suc w) n = padded w (n div 10) @ [digit_char (n mod 10)]"

text \<open>A natural number as \<open>str\<close> prints it.\<close>

fun nat_text :: "nat \<Rightarrow> string" where
  "nat_text n = (if n < 10 then [char_of (48 + n)] else nat_text (n div 10) @ [char_of (48 + n mod 10)])"

declare nat_text.simps [simp del]

definition clock_text :: "int \<Rightarrow> string" where
  "clock_text s = padded 2 (s div 3600) @ '':'' @ padded 2 (s div 60 mod 60) @ '':'' @ padded 2 (s mod 60)"

definition date_text :: "int \<Rightarrow> string" where
  "date_text day =
     (let (y, m, d) = ord2ymd day in padded 4 y @ ''-'' @ padded 2 m @ ''-'' @ padded 2 d)"

text \<open>
  \<open>strftime("%Y-%m-%dT%H:%M:%SZ")\<close> for the years with four digits, and \<open>isoformat()\<close>, which
  prints microseconds unless they are zero.
\<close>

definition second_text :: "datetime \<Rightarrow> string" where
  "second_text t = date_text (t div us_per_day + epoch_ordinal) @ ''T'' @
     clock_text (t mod us_per_day div us_per_second)"

definition strftime_utc :: "datetime \<Rightarrow> string" where
  "strftime_utc t = second_text t @ ''Z''"

definition isoformat :: "datetime \<Rightarrow> string" where
  "isoformat t = second_text t @
     (if t mod us_per_second = 0 then [] else ''.'' @ padded 6 (t mod us_per_second)) @ ''+00:00''"

section \<open>The printed second determines the second\<close>

text \<open>The times whose year has four digits: 0001-01-01 up to the end of 9999.\<close>

definition printable_day :: "int \<Rightarrow> bool" where
  "printable_day n \<longleftrightarrow> 1 \<le> n \<and> n \<le> 3652059"

definition printable :: "datetime \<Rightarrow> bool" where
  "printable t \<longleftrightarrow> printable_day (t div us_per_day + epoch_ordinal)"

lemma length_padded [simp]: "length (padded w n) = w"
  by (induction w arbitrary: n) simp_all

lemma digit_char_inj: "0 \<le> a \<Longrightarrow> a < 10 \<Longrightarrow> 0 \<le> b \<Longrightarrow> b < 10 \<Longrightarrow> digit_char a = digit_char b \<Longrightarrow> a = b"
  unfolding digit_char_def by (drule arg_cong [where f = "of_char :: char \<Rightarrow> nat"]) simp

lemma padded_inj:
  "0 \<le> a \<Longrightarrow> a < 10 ^ w \<Longrightarrow> 0 \<le> b \<Longrightarrow> b < 10 ^ w \<Longrightarrow> padded w a = padded w b \<Longrightarrow> a = b"
proof (induction w arbitrary: a b)
  case 0
  then show ?case by simp
next
  case (Suc w)
  have "a div 10 = b div 10"
    using Suc.prems by (intro Suc.IH) (auto simp: div_less_iff_less_mult pos_imp_zdiv_nonneg_iff)
  moreover have "a mod 10 = b mod 10"
    using Suc.prems by (intro digit_char_inj) auto
  ultimately show ?case by (metis div_mult_mod_eq)
qed

lemma div_of_sum: "0 \<le> r \<Longrightarrow> r < k \<Longrightarrow> (q * k + r) div k = q" for q r k :: int
  by (simp add: div_add1_eq)

lemma mod_of_sum: "0 \<le> r \<Longrightarrow> r < k \<Longrightarrow> (q * k + r) mod k = r" for q r k :: int
  by simp

lemma div_mod_facts:
  fixes x k :: int
  assumes "0 < k"
  shows "x = x div k * k + x mod k" and "0 \<le> x mod k" and "x mod k < k"
    and "0 \<le> x \<Longrightarrow> 0 \<le> x div k"
  using assms by (simp_all only: div_mult_mod_eq pos_mod_sign pos_mod_bound pos_imp_zdiv_nonneg_iff)

lemma year_cycle:
  fixes a b c d :: int
  assumes "0 \<le> b" "b \<le> 3" "0 \<le> c" "c \<le> 24" "0 \<le> d" "d \<le> 3"
  shows "(a * 400 + b * 100 + c * 4 + d) div 4 = a * 100 + b * 25 + c"
    and "(a * 400 + b * 100 + c * 4 + d) div 100 = a * 4 + b"
    and "(a * 400 + b * 100 + c * 4 + d) div 400 = a"
  using assms div_of_sum [of d 4 "a * 100 + b * 25 + c"] div_of_sum [of "c * 4 + d" 100 "a * 4 + b"]
    div_of_sum [of "b * 100 + c * 4 + d" 400 a]
  by (simp_all add: algebra_simps)

lemma days_before_cycle:
  fixes a b c d :: int
  assumes "0 \<le> b" "b \<le> 3" "0 \<le> c" "c \<le> 24" "0 \<le> d" "d \<le> 3"
  shows "days_before_year (a * 400 + b * 100 + c * 4 + d + 1) = a * 146097 + b * 36524 + c * 1461 + d * 365"
  using year_cycle [OF assms, of a] by (simp add: days_before_year_def Let_def)

lemma is_leap_cycle:
  fixes a b c :: int
  assumes "0 \<le> b" "b \<le> 3" "0 \<le> c" "c \<le> 24" "c < 24 \<or> b = 3"
  shows "is_leap (a * 400 + b * 100 + c * 4 + 3 + 1)"
proof (cases "c < 24")
  case True
  let ?y = "a * 400 + b * 100 + c * 4 + 3 + 1"
  have "?y = (a * 4 + b) * 100 + (c * 4 + 4)" "?y = (a * 100 + b * 25 + c + 1) * 4 + 0"
    by (simp_all only: distrib_right mult.assoc)
  moreover have "0 \<le> c * 4 + 4" "c * 4 + 4 < 100" using True assms(3) by linarith+
  ultimately have "?y mod 100 = c * 4 + 4" "?y mod 4 = 0"
    using mod_of_sum [of "c * 4 + 4" 100 "a * 4 + b"] mod_of_sum [of 0 4 "a * 100 + b * 25 + c + 1"]
    by (simp_all only:)
  moreover have "c * 4 + 4 \<noteq> 0" using assms(3) by linarith
  ultimately show ?thesis unfolding is_leap_def by metis
next
  case False
  then have "a * 400 + b * 100 + c * 4 + 3 + 1 = (a + 1) * 400" using assms by simp
  moreover have "is_leap ((a + 1) * 400)"
    using mod_of_sum [of 0 4 "(a + 1) * 100"] by (simp add: is_leap_def)
  ultimately show ?thesis by (simp only:)
qed

text \<open>The year and the day in it give the ordinal back.\<close>

lemma year_and_day:
  assumes "year_and_day n = (y, d)"
  shows "n = days_before_year y + d + 1" and "0 \<le> d" and "d < (if is_leap y then 366 else 365)"
proof -
  define a where "a = (n - 1) div 146097"
  define r1 where "r1 = (n - 1) mod 146097"
  define b where "b = r1 div 36524"
  define r2 where "r2 = r1 mod 36524"
  define c where "c = r2 div 1461"
  define r3 where "r3 = r2 mod 1461"
  define e where "e = r3 div 365"
  define r4 where "r4 = r3 mod 365"
  note n = div_mod_facts [of 146097 "n - 1", folded a_def r1_def, simplified]
  note r1 = div_mod_facts [of 36524 r1, folded b_def r2_def, simplified]
  note r2 = div_mod_facts [of 1461 r2, folded c_def r3_def, simplified]
  note r3 = div_mod_facts [of 365 r3, folded e_def r4_def, simplified]
  have nonneg: "0 \<le> b" "0 \<le> c" "0 \<le> e" using r1(4) r2(4) r3(4) n(2) r1(2) r2(2) by blast+
  have bounds: "b \<le> 4" "c \<le> 24" "e \<le> 4"
    using n(3) r1(1,2) by linarith (use r1(3) r2(1,2) r2(3) r3(1,2) in linarith)+
  have res: "(y, d) = (if e = 4 \<or> b = 4 then (a * 400 + b * 100 + c * 4 + e, 365)
      else (a * 400 + b * 100 + c * 4 + e + 1, r4))"
    using assms
    unfolding year_and_day_def Let_def a_def [symmetric] r1_def [symmetric] b_def [symmetric] r2_def [symmetric]
      c_def [symmetric] r3_def [symmetric] e_def [symmetric] r4_def [symmetric]
    by (auto split: if_splits)
  consider "b = 4" | "b \<le> 3" "e = 4" | "b \<le> 3" "e \<le> 3" using bounds by linarith
  then have "n = days_before_year y + d + 1 \<and> 0 \<le> d \<and> d < (if is_leap y then 366 else 365)"
  proof cases
    case 1
    then have "r2 = 0" using n(3) r1(1,2) by linarith
    then have z: "c = 0" "r3 = 0" using r2(1,2) nonneg(2) by linarith+
    then have "e = 0" "r4 = 0" using r3(1,2) nonneg(3) by linarith+
    with 1 z res have y: "y = a * 400 + 3 * 100 + 24 * 4 + 3 + 1" "d = 365" by simp_all
    have "days_before_year y = a * 146097 + 145731" "is_leap y"
      using days_before_cycle [of 3 24 3 a] is_leap_cycle [of 3 24 a] unfolding y by simp_all
    with y(2) show ?thesis using n(1) r1(1) 1 \<open>r2 = 0\<close> by simp
  next
    case 2
    then have r4: "r4 = 0" using r2(3) r3(1,2) by linarith
    have "r2 = c * 1461 + 1460" using r2(1) r3(1) 2 r4 by linarith
    then have c: "c < 24" using r1(3) by linarith
    have y: "y = a * 400 + b * 100 + c * 4 + 3 + 1" "d = 365" using 2 res by simp_all
    have "days_before_year y = a * 146097 + b * 36524 + c * 1461 + 1095" "is_leap y"
      using days_before_cycle [of b c 3 a] is_leap_cycle [of b c a] 2(1) c nonneg unfolding y by simp_all
    with y(2) show ?thesis using n(1) r1(1) r2(1) r3(1) 2(2) r4 by simp
  next
    case 3
    have y: "y = a * 400 + b * 100 + c * 4 + e + 1" "d = r4" using 3 res by auto
    have "days_before_year y = a * 146097 + b * 36524 + c * 1461 + e * 365"
      using days_before_cycle [of b c e a] 3 bounds(2) nonneg unfolding y by simp
    with y(2) show ?thesis using n(1) r1(1) r2(1) r3 by simp
  qed
  then show "n = days_before_year y + d + 1" "0 \<le> d" "d < (if is_leap y then 366 else 365)" by blast+
qed

text \<open>The month and the day in it are in range and give the day of the year back.\<close>

lemma month_of_bounds:
  assumes "month_of m ls d = (m', d')" and "ls \<noteq> []" and "0 \<le> d" and "d < sum_list ls"
  shows "\<exists>i < length ls. m' = m + int i \<and> d' = d - sum_list (take i ls) + 1 \<and> 1 \<le> d' \<and> d' \<le> ls ! i"
  using assms
proof (induction m ls d rule: month_of.induct)
  case (1 m d)
  then show ?case by simp
next
  case (2 m l d)
  then show ?case by (intro exI [of _ 0]) auto
next
  case (3 m l k ls d)
  show ?case
  proof (cases "d < l")
    case True
    with 3(2,4) show ?thesis by (intro exI [of _ 0]) auto
  next
    case False
    with 3 obtain i where "i < length (k # ls)" "m' = m + 1 + int i"
      "d' = d - l - sum_list (take i (k # ls)) + 1" "1 \<le> d'" "d' \<le> (k # ls) ! i"
      by auto
    then show ?thesis by (intro exI [of _ "Suc i"]) auto
  qed
qed

lemma ord2ymd_inverse:
  assumes "ord2ymd n = (y, m, d)"
  shows "1 \<le> m \<and> m \<le> 12 \<and> 1 \<le> d \<and> d \<le> 31 \<and>
    n = days_before_year y + sum_list (take (nat (m - 1)) (month_lengths y)) + d"
proof -
  obtain d0 where yd: "year_and_day n = (y, d0)" and md: "month_of 1 (month_lengths y) d0 = (m, d)"
    using assms by (auto simp: ord2ymd_def Let_def split: prod.splits)
  note yd' = year_and_day [OF yd]
  have "d0 < sum_list (month_lengths y)" using yd' by (auto simp: month_lengths_def split: if_splits)
  from month_of_bounds [OF md _ yd'(2) this] obtain i where i: "i < length (month_lengths y)"
    "m = 1 + int i" "d = d0 - sum_list (take i (month_lengths y)) + 1" "1 \<le> d" "d \<le> month_lengths y ! i"
    by (auto simp: month_lengths_def)
  have "\<forall>l \<in> set (month_lengths y). l \<le> 31" by (simp add: month_lengths_def)
  then have "d \<le> 31" using i(1,5) by (meson nth_mem order.trans)
  with i yd' show ?thesis by (auto simp: month_lengths_def)
qed

lemma printable_year:
  assumes "printable_day n" and "ord2ymd n = (y, m, d)"
  shows "0 \<le> y \<and> y < 10000"
proof -
  obtain d0 where yd: "year_and_day n = (y, d0)"
    using assms by (auto simp: ord2ymd_def Let_def split: prod.splits)
  note yd' = year_and_day [OF yd]
  have mono: "days_before_year u \<le> days_before_year v" if "u \<le> v" for u v
  proof -
    have "(u - 1) div 4 \<le> (v - 1) div 4" "(u - 1) div 400 \<le> (v - 1) div 400"
      using that by (simp_all add: zdiv_mono1)
    moreover have "(v - 1) div 100 \<le> (u - 1 + (v - u) * 100) div 100"
      using that by (intro zdiv_mono1) auto
    then have "(v - 1) div 100 \<le> (u - 1) div 100 + (v - u)" by simp
    ultimately show ?thesis using that by (simp add: days_before_year_def Let_def)
  qed
  have "\<not> y \<le> 0" using yd' mono [of y 0] assms(1)
    by (auto simp: printable_day_def days_before_year_def split: if_splits)
  moreover have "\<not> 10000 \<le> y" using yd' mono [of 10000 y] assms(1)
    by (auto simp: printable_day_def days_before_year_def)
  ultimately show ?thesis by simp
qed

lemma date_text_inj:
  assumes "printable_day a" and "printable_day b" and "date_text a = date_text b"
  shows "a = b"
proof -
  obtain y m d y' m' d' where a: "ord2ymd a = (y, m, d)" and b: "ord2ymd b = (y', m', d')"
    by (metis prod_cases3)
  note ia = ord2ymd_inverse [OF a] printable_year [OF assms(1) a]
  note ib = ord2ymd_inverse [OF b] printable_year [OF assms(2) b]
  have "padded 4 y = padded 4 y'" "padded 2 m = padded 2 m'" "padded 2 d = padded 2 d'"
    using assms(3) by (simp_all add: date_text_def a b)
  then have "y = y'" "m = m'" "d = d'"
    using ia ib padded_inj [of y 4 y'] padded_inj [of m 2 m'] padded_inj [of d 2 d'] by simp_all
  with ia ib show ?thesis by simp
qed

lemma length_clock_text [simp]: "length (clock_text s) = 8"
  by (simp add: clock_text_def)

lemma two_digits_inj:
  "0 \<le> u \<Longrightarrow> u < 100 \<Longrightarrow> 0 \<le> v \<Longrightarrow> v < 100 \<Longrightarrow> padded 2 u = padded 2 v \<Longrightarrow> u = v"
  using padded_inj [of u 2 v] by simp

lemma clock_fields:
  fixes x :: int
  assumes "0 \<le> x" and "x < 86400"
  shows "0 \<le> x div 3600" "x div 3600 < 100" "0 \<le> x div 60 mod 60" "x div 60 mod 60 < 100"
    "0 \<le> x mod 60" "x mod 60 < 100" "x = (x div 3600) * 3600 + (x div 60 mod 60) * 60 + x mod 60"
proof -
  have h: "x div 3600 = x div 60 div 60" by (simp add: zdiv_zmult2_eq [symmetric])
  note d1 = div_mod_facts [of 60 x, OF zero_less_numeral]
    and d2 = div_mod_facts [of 60 "x div 60", OF zero_less_numeral]
  show "0 \<le> x div 3600" "0 \<le> x div 60 mod 60" "0 \<le> x mod 60"
    using assms(1) d1(2) d2(2) div_mod_facts(4) [of 3600 x] by simp_all
  show "x div 60 mod 60 < 100" "x mod 60 < 100" using d1(3) d2(3) by linarith+
  show "x = (x div 3600) * 3600 + (x div 60 mod 60) * 60 + x mod 60"
    unfolding h using d1(1) d2(1) by linarith
  show "x div 3600 < 100"
    using div_mod_facts(1,2) [of 3600 x] assms(2) by linarith
qed

lemma clock_text_inj:
  assumes "0 \<le> a" "a < 86400" "0 \<le> b" "b < 86400" "clock_text a = clock_text b"
  shows "a = b"
proof -
  have eqs: "padded 2 (a div 3600) = padded 2 (b div 3600)"
    "padded 2 (a div 60 mod 60) = padded 2 (b div 60 mod 60)" "padded 2 (a mod 60) = padded 2 (b mod 60)"
    using assms(5) by (simp_all add: clock_text_def)
  note fa = clock_fields [OF assms(1,2)] and fb = clock_fields [OF assms(3,4)]
  have "a div 3600 = b div 3600" "a div 60 mod 60 = b div 60 mod 60" "a mod 60 = b mod 60"
    using two_digits_inj [OF fa(1,2) fb(1,2) eqs(1)] two_digits_inj [OF fa(3,4) fb(3,4) eqs(2)]
      two_digits_inj [OF fa(5,6) fb(5,6) eqs(3)] by blast+
  then show ?thesis using fa(7) fb(7) by metis
qed

lemma length_second_text: "length (second_text t) = 19"
  by (simp add: second_text_def date_text_def split: prod.splits)

lemma length_strftime_utc [simp]: "length (strftime_utc t) = 20"
  by (simp add: strftime_utc_def length_second_text)

lemma second_text_inj:
  assumes "printable t" and "printable u" and "second_text t = second_text u"
  shows "t div us_per_second = u div us_per_second"
proof -
  let ?sec = "\<lambda>t. t mod us_per_day div us_per_second"
  have len: "length (date_text a) = 10" for a by (simp add: date_text_def split: prod.splits)
  have eqs: "date_text (t div us_per_day + epoch_ordinal) = date_text (u div us_per_day + epoch_ordinal)"
    "clock_text (?sec t) = clock_text (?sec u)"
    using assms(3) by (simp_all add: second_text_def len)
  have day: "t div us_per_day = u div us_per_day"
    using date_text_inj [OF _ _ eqs(1)] assms(1,2) by (simp add: printable_def)
  have range: "0 \<le> ?sec x" "?sec x < 86400" for x
    by (simp_all add: us_per_day_def us_per_second_def pos_imp_zdiv_nonneg_iff div_less_iff_less_mult)
  have "?sec t = ?sec u" using clock_text_inj [OF range range eqs(2)] .
  moreover have "x div us_per_second = x div us_per_day * 86400 + ?sec x" for x
  proof -
    have "x div us_per_second = (x mod us_per_day + (x div us_per_day * 86400) * us_per_second) div us_per_second"
      using mod_div_mult_eq [of x us_per_day, symmetric] by (simp only: us_per_day_def mult.assoc)
    also have "\<dots> = x div us_per_day * 86400 + ?sec x"
      by (rule div_mult_self1) (simp add: us_per_second_def)
    finally show ?thesis .
  qed
  ultimately show ?thesis using day by metis
qed

end
