(* ===== verification/Strategy_Models.thy ===== *)
theory Strategy_Models
  imports Decimal Datetime
begin

text \<open>
  The data of the strategy engine (\<open>services/strategy_engine/models.py\<close> and
  \<open>constants.py\<close>): the enumerations as datatypes, the frozen pydantic models as records
  and their field defaults as constants. Field names carry a prefix where the source
  uses one name in several models.
\<close>

section \<open>Enumerations\<close>

datatype timeframe = DAILY | WEEKLY | MONTHLY

datatype reason_code =
    RC_ENTRY_BREAKOUT_20D
  | RC_ENTRY_PULLBACK_EMA20
  | RC_EXIT_STOP_INITIAL
  | RC_EXIT_STOP_TRAILING
  | RC_EXIT_STOP_GAP
  | RC_EXIT_REGIME_MONTHLY
  | RC_EXIT_MANUAL
  | RC_REJECT_REGIME
  | RC_REJECT_TREND
  | RC_REJECT_VOLUME
  | RC_REJECT_WARMUP
  | RC_REJECT_DATA
  | RC_REJECT_DUPLICATE_SYMBOL
  | RC_REJECT_RISK_TRADE
  | RC_REJECT_RISK_PORTFOLIO
  | RC_REJECT_MAX_POSITIONS
  | RC_REJECT_LEVERAGE
  | RC_REJECT_NO_SIGNAL
  | RC_RISK_APPROVED

datatype entry_type = BREAKOUT | PULLBACK

datatype signal_intent_kind = LONG_ENTRY | NO_ENTRY | INVALID_DATA | INSUFFICIENT_HISTORY

datatype data_quality_status = DQ_OK | DQ_INVALID_DATA | DQ_INSUFFICIENT_HISTORY

text \<open>\<open>StrEnum.value\<close> of the enumerations whose text the sources print.\<close>

fun timeframe_value :: "timeframe \<Rightarrow> string" where
  "timeframe_value DAILY = ''1D''"
| "timeframe_value WEEKLY = ''1W''"
| "timeframe_value MONTHLY = ''1M''"

fun entry_type_value :: "entry_type \<Rightarrow> string" where
  "entry_type_value BREAKOUT = ''BREAKOUT''"
| "entry_type_value PULLBACK = ''PULLBACK''"

text \<open>
  The values of a \<open>details\<close> dictionary. A datetime or a decimal that the source prints
  (\<open>isoformat()\<close>, \<open>str(value)\<close>) is kept as the value that is printed.
\<close>

datatype detail = DStr string | DInt int | DTime datetime | DDec decimal

type_synonym details = "(string \<times> detail) list"

section \<open>Candles and parameters\<close>

record candle =
  c_symbol :: string
  c_timeframe :: timeframe
  open_time :: datetime
  close_time :: datetime
  c_open :: decimal
  c_high :: decimal
  c_low :: decimal
  c_close :: decimal
  c_volume :: decimal
  is_closed :: bool

record candle_series =
  s_symbol :: string
  s_timeframe :: timeframe
  candles :: "candle list"

definition series_length :: "candle_series \<Rightarrow> nat" where
  "series_length s = length (candles s)"

text \<open>Indicator periods are natural numbers: a negative period is outside the model.\<close>

record strategy_parameters =
  sp_strategy_version :: string
  monthly_ema_period :: nat
  weekly_ema_fast :: nat
  weekly_ema_slow :: nat
  daily_ema_period :: nat
  breakout_lookback :: nat
  atr_period :: nat
  volume_sma_period :: nat
  volume_ratio_min :: decimal
  pullback_ema_tolerance :: decimal
  stop_initial_atr_mult :: decimal
  trail_atr_mult :: decimal

definition STRATEGY_VERSION :: string where
  "STRATEGY_VERSION = ''1.0.0''"

definition default_strategy_parameters :: strategy_parameters where
  "default_strategy_parameters =
     \<lparr>sp_strategy_version = STRATEGY_VERSION,
      monthly_ema_period = 20,
      weekly_ema_fast = 20,
      weekly_ema_slow = 50,
      daily_ema_period = 20,
      breakout_lookback = 20,
      atr_period = 14,
      volume_sma_period = 20,
      volume_ratio_min = 1,
      pullback_ema_tolerance = 5 / 1000,
      stop_initial_atr_mult = 5 / 2,
      trail_atr_mult = 3\<rparr>"

section \<open>Results\<close>

record indicator_snapshot =
  evaluation_index :: int
  ema20_daily :: "decimal option"
  ema20_weekly :: "decimal option"
  ema50_weekly :: "decimal option"
  ema20_monthly :: "decimal option"
  atr14_daily :: "decimal option"
  volume_sma20 :: "decimal option"
  i_volume_ratio :: "decimal option"
  i_high20 :: "decimal option"
  i_monthly_close :: "decimal option"

record regime_result =
  regime_long :: bool
  r_monthly_close :: "decimal option"
  r_ema20_monthly :: "decimal option"
  r_reason_code :: "reason_code option"

record trend_result =
  trend_confirmed :: bool
  t_ema20_weekly :: "decimal option"
  t_ema50_weekly :: "decimal option"
  t_reason_code :: "reason_code option"

record pullback_conditions_rec =
  p1_close_above_ema :: bool
  p2_low_touches_ema :: bool
  p3_prior_close_above_ema :: bool
  p4_regime_long :: bool
  p5_trend_confirmed :: bool
  p6_volume_ok :: bool

definition default_pullback_conditions :: pullback_conditions_rec where
  "default_pullback_conditions =
     \<lparr>p1_close_above_ema = False, p2_low_touches_ema = False, p3_prior_close_above_ema = False,
      p4_regime_long = False, p5_trend_confirmed = False, p6_volume_ok = False\<rparr>"

record entry_setup_result =
  breakout_entry :: bool
  pullback_entry :: bool
  breakout_price_condition :: bool
  close_above_ema20 :: bool
  volume_ok :: bool
  pullback_conditions :: pullback_conditions_rec
  e_high20 :: "decimal option"
  ema_touch_upper :: "decimal option"

definition default_entry_setup :: entry_setup_result where
  "default_entry_setup =
     \<lparr>breakout_entry = False, pullback_entry = False, breakout_price_condition = False,
      close_above_ema20 = False, volume_ok = False,
      pullback_conditions = default_pullback_conditions,
      e_high20 = None, ema_touch_upper = None\<rparr>"

record signal_intent =
  si_kind :: signal_intent_kind
  si_entry_type :: "entry_type option"
  si_entry_price :: "decimal option"
  si_stop_initial :: "decimal option"
  primary_reason_code :: "reason_code option"

record strategy_error =
  se_code :: reason_code
  se_message :: string
  se_details :: details

record strategy_evaluation =
  ev_symbol :: string
  ev_time :: datetime
  ev_strategy_version :: string
  ev_parameters :: strategy_parameters
  monthly_regime :: regime_result
  weekly_trend :: trend_result
  breakout_result :: entry_setup_result
  pullback_result :: entry_setup_result
  indicators :: indicator_snapshot
  ev_volume_ratio :: "decimal option"
  ev_atr :: "decimal option"
  selected_entry_type :: "entry_type option"
  ev_signal_intent :: signal_intent
  ev_reason_codes :: "reason_code list"
  ev_data_quality :: data_quality_status
  ev_errors :: "strategy_error list"

record trailing_stop_state =
  ts_entry_price :: decimal
  ts_stop_initial :: decimal
  ts_highest_close :: decimal
  ts_trail_stop :: decimal
  ts_effective_stop :: decimal

end
