(* ===== verification/Risk_Models.thy ===== *)
theory Risk_Models
  imports Strategy_Models
begin

text \<open>
  The data of the risk engine (\<open>services/risk_engine/models.py\<close> and \<open>constants.py\<close>).
  \<open>max_open_positions\<close> is a Python \<open>int\<close> and may be negative before it is validated.
\<close>

datatype trade_side = LONG | SHORT

datatype market_data_status = MD_OK | MD_INVALID | MD_STALE | MD_INCOMPLETE

datatype bot_system_state =
  BOT_OFF | BOT_WARMUP | BOT_ACTIVE | BOT_PAUSED | BOT_DEGRADED | BOT_ERROR | BOT_UNKNOWN

fun market_data_status_value :: "market_data_status \<Rightarrow> string" where
  "market_data_status_value MD_OK = ''OK''"
| "market_data_status_value MD_INVALID = ''INVALID''"
| "market_data_status_value MD_STALE = ''STALE''"
| "market_data_status_value MD_INCOMPLETE = ''INCOMPLETE''"

fun bot_system_state_value :: "bot_system_state \<Rightarrow> string" where
  "bot_system_state_value BOT_OFF = ''OFF''"
| "bot_system_state_value BOT_WARMUP = ''WARMUP''"
| "bot_system_state_value BOT_ACTIVE = ''ACTIVE''"
| "bot_system_state_value BOT_PAUSED = ''PAUSED''"
| "bot_system_state_value BOT_DEGRADED = ''DEGRADED''"
| "bot_system_state_value BOT_ERROR = ''ERROR''"
| "bot_system_state_value BOT_UNKNOWN = ''UNKNOWN''"

definition RISK_SPECIFICATION_VERSION :: string where
  "RISK_SPECIFICATION_VERSION = ''1.0.0''"

definition DEFAULT_RISK_PER_TRADE_PCT :: decimal where
  "DEFAULT_RISK_PER_TRADE_PCT = 5 / 1000"

definition DEFAULT_MAX_PORTFOLIO_RISK_PCT :: decimal where
  "DEFAULT_MAX_PORTFOLIO_RISK_PCT = 2 / 100"

definition DEFAULT_MAX_OPEN_POSITIONS :: int where
  "DEFAULT_MAX_OPEN_POSITIONS = 3"

definition DEFAULT_MAX_LEVERAGE :: decimal where
  "DEFAULT_MAX_LEVERAGE = 2"

definition DEFAULT_RISK_ROUNDING_TOLERANCE :: decimal where
  "DEFAULT_RISK_ROUNDING_TOLERANCE = 1 / 1000"

lemmas risk_defaults = DEFAULT_RISK_PER_TRADE_PCT_def DEFAULT_MAX_PORTFOLIO_RISK_PCT_def
  DEFAULT_MAX_OPEN_POSITIONS_def DEFAULT_MAX_LEVERAGE_def DEFAULT_RISK_ROUNDING_TOLERANCE_def

record loss_limit_config =
  daily_loss_limit_enabled :: bool
  max_daily_loss_pct :: "decimal option"
  weekly_loss_limit_enabled :: bool
  max_weekly_loss_pct :: "decimal option"
  drawdown_limit_enabled :: bool
  max_drawdown_pct :: "decimal option"

definition default_loss_limits :: loss_limit_config where
  "default_loss_limits =
     \<lparr>daily_loss_limit_enabled = False, max_daily_loss_pct = None,
      weekly_loss_limit_enabled = False, max_weekly_loss_pct = None,
      drawdown_limit_enabled = False, max_drawdown_pct = None\<rparr>"

record risk_parameters =
  rp_risk_specification_version :: string
  rp_strategy_version :: string
  risk_per_trade_pct :: decimal
  max_portfolio_risk_pct :: decimal
  max_open_positions :: int
  max_leverage :: decimal
  risk_rounding_tolerance :: decimal
  loss_limits :: loss_limit_config

definition default_risk_parameters :: risk_parameters where
  "default_risk_parameters =
     \<lparr>rp_risk_specification_version = RISK_SPECIFICATION_VERSION,
      rp_strategy_version = STRATEGY_VERSION,
      risk_per_trade_pct = DEFAULT_RISK_PER_TRADE_PCT,
      max_portfolio_risk_pct = DEFAULT_MAX_PORTFOLIO_RISK_PCT,
      max_open_positions = DEFAULT_MAX_OPEN_POSITIONS,
      max_leverage = DEFAULT_MAX_LEVERAGE,
      risk_rounding_tolerance = DEFAULT_RISK_ROUNDING_TOLERANCE,
      loss_limits = default_loss_limits\<rparr>"

record symbol_constraints =
  quantity_step :: decimal
  minimum_quantity :: decimal
  minimum_notional :: decimal
  price_tick_size :: decimal

record account_state =
  equity_usd :: decimal
  available_margin_usd :: decimal
  daily_realized_pnl_usd :: decimal
  weekly_realized_pnl_usd :: decimal
  peak_equity_usd :: "decimal option"

record position_state =
  ps_symbol :: string
  ps_entry_price :: decimal
  ps_position_size :: decimal
  ps_stop_initial :: decimal
  ps_trail_stop :: decimal
  ps_mark_price :: decimal

record open_order_state =
  oo_symbol :: string
  oo_client_intent_id :: string
  oo_side :: trade_side
  oo_is_entry :: bool

record trade_proposal =
  tp_symbol :: string
  tp_side :: trade_side
  tp_entry_price :: decimal
  tp_stop_price :: decimal
  tp_client_intent_id :: string
  tp_signal_intent_kind :: signal_intent_kind
  tp_strategy_approved :: bool
  tp_market_data_status :: market_data_status
  tp_bot_system_state :: bot_system_state
  tp_atr14 :: "decimal option"

record position_sizing_result =
  sz_risk_budget_usd :: decimal
  sz_stop_distance_usd :: decimal
  sz_raw_quantity :: decimal
  sz_rounded_quantity :: decimal
  sz_actual_trade_risk_usd :: decimal
  sz_actual_trade_risk_pct :: decimal

record portfolio_risk_snapshot =
  pr_current_open_risk_usd :: decimal
  pr_current_open_risk_pct :: decimal
  pr_projected_portfolio_risk_usd :: decimal
  pr_projected_portfolio_risk_pct :: decimal
  pr_total_notional_usd :: decimal
  pr_projected_notional_usd :: decimal
  pr_effective_leverage :: decimal

record risk_error =
  re_code :: reason_code
  re_message :: string
  re_details :: details

record risk_decision =
  approved :: bool
  rd_symbol :: string
  requested_entry_price :: decimal
  requested_stop_price :: decimal
  raw_quantity :: "decimal option"
  rounded_quantity :: "decimal option"
  actual_trade_risk_usd :: "decimal option"
  actual_trade_risk_pct :: "decimal option"
  rd_current_open_risk_usd :: "decimal option"
  projected_portfolio_risk_usd :: "decimal option"
  projected_portfolio_risk_pct :: "decimal option"
  required_margin_usd :: "decimal option"
  effective_leverage :: "decimal option"
  rd_reason_codes :: "reason_code list"
  rd_strategy_version :: string
  rd_risk_specification_version :: string
  rd_errors :: "risk_error list"

end
