(* ===== verification/Py_Dict.thy ===== *)
theory Py_Dict
  imports "HOL-Library.AList" Prelude
begin

text \<open>
  Python dictionaries with their insertion order, which the sources observe when they sum
  over \<open>values()\<close> in rounded arithmetic. A dictionary is an association list with distinct
  keys: assignment updates in place or appends (\<open>AList.update\<close>), \<open>del\<close> and \<open>pop\<close> remove
  (\<open>AList.delete\<close>), \<open>get\<close> is \<open>map_of\<close>.
\<close>

type_synonym ('k, 'v) dict = "('k \<times> 'v) list"

abbreviation dict_put :: "'k \<Rightarrow> 'v \<Rightarrow> ('k, 'v) dict \<Rightarrow> ('k, 'v) dict" where
  "dict_put \<equiv> AList.update"

abbreviation dict_del :: "'k \<Rightarrow> ('k, 'v) dict \<Rightarrow> ('k, 'v) dict" where
  "dict_del \<equiv> AList.delete"

abbreviation dict_get :: "('k, 'v) dict \<Rightarrow> 'k \<Rightarrow> 'v option" where
  "dict_get \<equiv> map_of"

definition dict_keys :: "('k, 'v) dict \<Rightarrow> 'k list" where
  "dict_keys d = map fst d"

definition dict_values :: "('k, 'v) dict \<Rightarrow> 'v list" where
  "dict_values d = map snd d"

definition get_default :: "('k, 'v) dict \<Rightarrow> 'k \<Rightarrow> 'v \<Rightarrow> 'v" where
  "get_default d k v = (case map_of d k of None \<Rightarrow> v | Some x \<Rightarrow> x)"

text \<open>A dictionary comprehension: later entries win, at the place of the first.\<close>

definition dict_of :: "('k \<times> 'v) list \<Rightarrow> ('k, 'v) dict" where
  "dict_of ps = foldl (\<lambda>d (k, v). dict_put k v d) [] ps"

section \<open>Lemmas\<close>

lemma values_Nil [simp]: "dict_values [] = []" and keys_Nil [simp]: "dict_keys [] = []"
  by (simp_all add: dict_values_def dict_keys_def)

lemma length_values [simp]: "length (dict_values d) = length d" and length_keys [simp]: "length (dict_keys d) = length d"
  by (simp_all add: dict_values_def dict_keys_def)

lemma keys_put: "dict_keys (dict_put k v d) = (if k \<in> set (dict_keys d) then dict_keys d else dict_keys d @ [k])"
  by (simp add: dict_keys_def AList.update_keys)

lemma get_None_iff: "dict_get d k = None \<longleftrightarrow> k \<notin> set (dict_keys d)"
  by (simp add: dict_keys_def map_of_eq_None_iff)

lemma keys_put_old: "dict_get d k \<noteq> None \<Longrightarrow> dict_keys (dict_put k v d) = dict_keys d"
  by (simp add: keys_put get_None_iff)

lemma keys_del: "dict_keys (dict_del k d) = removeAll k (dict_keys d)"
  by (simp add: dict_keys_def AList.delete_keys)

lemma get_put [simp]: "dict_get (dict_put k v d) = (dict_get d)(k \<mapsto> v)"
  by (rule AList.update_conv')

lemma get_del [simp]: "dict_get (dict_del k d) = (dict_get d)(k := None)"
  by (rule AList.delete_conv')

lemma distinct_keys_put: "distinct (dict_keys d) \<Longrightarrow> distinct (dict_keys (dict_put k v d))"
  by (simp add: keys_put)

lemma distinct_keys_del: "distinct (dict_keys d) \<Longrightarrow> distinct (dict_keys (dict_del k d))"
  by (simp add: keys_del distinct_removeAll)

lemma put_new: "k \<notin> set (dict_keys d) \<Longrightarrow> dict_put k v d = d @ [(k, v)]"
  by (induction d) (auto simp: dict_keys_def)

lemma values_put_new: "k \<notin> set (dict_keys d) \<Longrightarrow> dict_values (dict_put k v d) = dict_values d @ [v]"
  by (simp add: put_new dict_values_def)

lemma length_put: "length (dict_put k v d) = (if k \<in> set (dict_keys d) then length d else Suc (length d))"
  using keys_put [of k v d] by (metis length_append_singleton length_keys)

text \<open>A property of all entries, kept by assignment and removal.\<close>

definition all_entries :: "('k \<Rightarrow> 'v \<Rightarrow> bool) \<Rightarrow> ('k, 'v) dict \<Rightarrow> bool" where
  "all_entries P d \<longleftrightarrow> (\<forall>k v. dict_get d k = Some v \<longrightarrow> P k v)"

lemma all_entries_Nil [simp]: "all_entries P []"
  by (simp add: all_entries_def)

lemma all_entries_put: "all_entries P d \<Longrightarrow> P k v \<Longrightarrow> all_entries P (dict_put k v d)"
  by (simp add: all_entries_def)

lemma all_entries_del: "all_entries P d \<Longrightarrow> all_entries P (dict_del k d)"
  by (simp add: all_entries_def)

lemma all_entriesD: "all_entries P d \<Longrightarrow> dict_get d k = Some v \<Longrightarrow> P k v"
  by (simp add: all_entries_def)

lemma values_mem_iff: "distinct (dict_keys d) \<Longrightarrow> v \<in> set (dict_values d) \<longleftrightarrow> (\<exists>k. dict_get d k = Some v)"
  by (force simp: dict_keys_def dict_values_def)

lemma all_entries_values:
  assumes "distinct (dict_keys d)" and "all_entries P d" and "v \<in> set (dict_values d)"
  shows "\<exists>k. P k v"
  using assms by (auto simp: values_mem_iff all_entries_def)

lemma length_del_le: "length (dict_del k d) \<le> length d"
  by (rule AList.length_delete_le)

lemma distinct_keys_dict_of: "distinct (dict_keys (dict_of ps))"
proof -
  have "distinct (dict_keys (foldl (\<lambda>d (k, v). dict_put k v d) d ps))" if "distinct (dict_keys d)" for d
    using that by (induction ps arbitrary: d) (auto intro: distinct_keys_put)
  then show ?thesis by (simp add: dict_of_def)
qed

lemma dict_of_append: "dict_of (ps @ [(k, v)]) = dict_put k v (dict_of ps)"
  by (simp add: dict_of_def)

lemma get_dict_of: "dict_get (dict_of ps) k = map_of (rev ps) k"
  by (induction ps rule: rev_induct) (auto simp: dict_of_append, simp add: dict_of_def)

end
