(* ===== verification/Backtest_Models.thy ===== *)
theory Backtest_Models
  imports Risk_Models Py_Dict
begin

text \<open>
  The data of the backtester (\<open>services/backtester/models.py\<close>, \<open>constants.py\<close>,
  \<open>core_metadata.py\<close> and the dataclasses of \<open>paper_lifecycle.py\<close>). Fields the engine carries
  unchanged keep their place, so that a record reads like its model.
\<close>

datatype order_status = OS_PENDING | OS_FILLED | OS_REJECTED | OS_CANCELLED

datatype exit_reason = STOP_INITIAL | STOP_TRAILING | STOP_GAP | END_OF_BACKTEST

definition BACKTESTER_VERSION :: string where
  "BACKTESTER_VERSION = ''1.0.0''"

definition DEFAULT_SYMBOLS :: "string list" where
  "DEFAULT_SYMBOLS = [''BTC'', ''ETH'', ''SOL'']"

definition EVALUATION_BUFFER_SECONDS :: int where
  "EVALUATION_BUFFER_SECONDS = 5"

definition INTRABAR_ASSUMPTION :: string where
  "INTRABAR_ASSUMPTION = ''ENTRY_AT_OPEN_THEN_STOP_SAME_CANDLE''"

datatype accounting_model = PERPETUAL_MARGIN

datatype audit_status = PAPER_TRADING_APPROVED

record core_engine_metadata =
  cm_strategy_version :: string
  cm_risk_version :: string
  cm_backtester_version :: string
  cm_accounting_model :: accounting_model
  cm_audit_status :: audit_status

definition CORE_ENGINE_METADATA :: core_engine_metadata where
  "CORE_ENGINE_METADATA =
     \<lparr>cm_strategy_version = ''1.0'', cm_risk_version = ''1.0'', cm_backtester_version = ''1.0'',
      cm_accounting_model = PERPETUAL_MARGIN, cm_audit_status = PAPER_TRADING_APPROVED\<rparr>"

record fee_model =
  entry_fee_rate :: decimal
  exit_fee_rate :: decimal

definition default_fee_model :: fee_model where
  "default_fee_model = \<lparr>entry_fee_rate = 5 / 10000, exit_fee_rate = 5 / 10000\<rparr>"

record slippage_model =
  slippage_bps :: decimal

definition default_slippage_model :: slippage_model where
  "default_slippage_model = \<lparr>slippage_bps = 5\<rparr>"

record funding_event =
  fe_timestamp :: datetime
  fe_funding_rate :: decimal

record funding_model =
  funding_on :: bool
  assumed_rate :: "decimal option"

definition default_funding_model :: funding_model where
  "default_funding_model = \<lparr>funding_on = False, assumed_rate = None\<rparr>"

record backtest_config =
  cfg_symbols :: "string list"
  initial_cash :: decimal
  strategy_params :: strategy_parameters
  risk_params :: risk_parameters
  cfg_fee_model :: fee_model
  cfg_slippage_model :: slippage_model
  cfg_funding_model :: funding_model
  cfg_symbol_constraints :: "(string, symbol_constraints) dict"
  initial_processed_intent_ids :: "string list"
  cfg_backtester_version :: string
  cfg_core_metadata :: core_engine_metadata

definition default_backtest_config :: backtest_config where
  "default_backtest_config =
     \<lparr>cfg_symbols = DEFAULT_SYMBOLS, initial_cash = 100000,
      strategy_params = default_strategy_parameters, risk_params = default_risk_parameters,
      cfg_fee_model = default_fee_model, cfg_slippage_model = default_slippage_model,
      cfg_funding_model = default_funding_model, cfg_symbol_constraints = [],
      initial_processed_intent_ids = [], cfg_backtester_version = BACKTESTER_VERSION,
      cfg_core_metadata = CORE_ENGINE_METADATA\<rparr>"

record historical_data_bundle =
  hd_daily :: "(string, candle list) dict"
  hd_weekly :: "(string, candle list) dict"
  hd_monthly :: "(string, candle list) dict"
  hd_funding :: "(string, funding_event list) dict"
  hd_warnings :: "string list"

record pending_intent =
  pi_client_intent_id :: string
  pi_symbol :: string
  pi_strategy_version :: string
  pi_entry_type :: entry_type
  pi_strategy_reason_codes :: "reason_code list"
  pi_signal_time :: datetime
  pi_order_time :: datetime
  pi_signal_close_price :: decimal
  pi_stop_price :: decimal
  pi_atr14 :: decimal
  pi_strategy_evaluation :: strategy_evaluation

record simulated_order =
  so_client_intent_id :: string
  so_symbol :: string
  so_status :: order_status
  so_quantity :: "decimal option"
  so_reference_price :: "decimal option"

record trailing_stop_snapshot =
  sn_time :: datetime
  sn_trail_stop :: decimal
  sn_effective_stop :: decimal

record simulated_position =
  pos_symbol :: string
  pos_quantity :: decimal
  pos_entry_price :: decimal
  pos_entry_time :: datetime
  pos_initial_stop :: decimal
  pos_trail_stop :: decimal
  pos_effective_stop :: decimal
  pos_highest_close :: decimal
  pos_entry_atr14 :: decimal
  pos_client_intent_id :: string
  pos_margin_reserved :: decimal

record portfolio_state =
  pf_cash :: decimal
  pf_positions :: "simulated_position list"
  pf_pending_intents :: "pending_intent list"
  pf_total_fees :: decimal
  pf_total_funding :: decimal
  pf_total_slippage :: decimal
  pf_realized_pnl :: decimal

record backtest_trade =
  bt_symbol :: string
  bt_client_intent_id :: string
  bt_strategy_version :: string
  bt_entry_type :: entry_type
  bt_strategy_reason_codes :: "reason_code list"
  bt_risk_reason_codes :: "reason_code list"
  bt_signal_time :: datetime
  bt_order_time :: datetime
  bt_entry_time :: datetime
  bt_entry_reference_price :: decimal
  bt_entry_fill_price :: decimal
  bt_quantity :: decimal
  bt_initial_stop :: decimal
  bt_trailing_stop_history :: "trailing_stop_snapshot list"
  bt_exit_time :: "datetime option"
  bt_exit_reason :: "exit_reason option"
  bt_exit_reference_price :: "decimal option"
  bt_exit_fill_price :: "decimal option"
  bt_gross_pnl :: "decimal option"
  bt_fees :: decimal
  bt_funding :: decimal
  bt_slippage_cost :: decimal
  bt_net_pnl :: "decimal option"
  bt_initial_risk_usd :: "decimal option"
  bt_r_multiple :: "decimal option"
  bt_holding_period_days :: "int option"

record equity_snapshot =
  eq_time :: datetime
  eq_cash :: decimal
  eq_equity :: decimal
  eq_unrealized_pnl :: decimal
  eq_open_positions :: nat

record drawdown_snapshot =
  dd_time :: datetime
  dd_equity :: decimal
  dd_peak_equity :: decimal
  dd_drawdown_pct :: decimal

record risk_rejection_record =
  rr_time :: datetime
  rr_symbol :: string
  rr_client_intent_id :: string
  rr_reason_codes :: "reason_code list"
  rr_strategy_reason_codes :: "reason_code list"

record symbol_metrics =
  sm_symbol :: string
  sm_trade_count :: nat
  sm_net_pnl :: decimal
  sm_win_rate :: "decimal option"

record entry_type_metrics =
  em_entry_type :: entry_type
  em_trade_count :: nat
  em_net_pnl :: decimal
  em_win_rate :: "decimal option"

record backtest_metrics =
  mt_total_return_pct :: "decimal option"
  mt_cagr_pct :: "decimal option"
  mt_max_drawdown_pct :: decimal
  mt_win_rate :: "decimal option"
  mt_profit_factor :: "decimal option"
  mt_expectancy_usd :: "decimal option"
  mt_expectancy_r :: "decimal option"
  mt_average_winner :: "decimal option"
  mt_average_loser :: "decimal option"
  mt_average_r_multiple :: "decimal option"
  mt_max_win_streak :: nat
  mt_max_loss_streak :: nat
  mt_sharpe_ratio :: "decimal option"
  mt_sortino_ratio :: "decimal option"
  mt_time_in_market_pct :: "decimal option"
  mt_trade_count :: nat
  mt_total_fees :: decimal
  mt_total_funding :: decimal
  mt_total_slippage :: decimal
  mt_per_symbol :: "symbol_metrics list"
  mt_per_entry_type :: "entry_type_metrics list"

record backtest_result =
  br_config :: backtest_config
  br_core_metadata :: core_engine_metadata
  br_strategy_version :: string
  br_risk_specification_version :: string
  br_data_start :: "datetime option"
  br_data_end :: "datetime option"
  br_start_capital :: decimal
  br_end_capital :: decimal
  br_trades :: "backtest_trade list"
  br_open_positions :: "simulated_position list"
  br_equity_curve :: "equity_snapshot list"
  br_drawdown_curve :: "drawdown_snapshot list"
  br_risk_rejections :: "risk_rejection_record list"
  br_strategy_evaluations :: "strategy_evaluation list"
  br_total_fees :: decimal
  br_total_funding :: decimal
  br_total_slippage :: decimal
  br_warnings :: "string list"
  br_model_assumptions :: "string list"
  br_funding_enabled :: bool
  br_metrics :: backtest_metrics
  br_processed_intent_ids :: "string list"

section \<open>Dataclasses of the lifecycle\<close>

record entry_fill_computation =
  ef_open_ref :: decimal
  ef_fill_price :: decimal
  ef_stop_initial :: decimal
  ef_slippage_cost :: decimal

record entry_accounting =
  ea_quantity :: decimal
  ea_notional :: decimal
  ea_fee :: decimal
  ea_slippage_cost :: decimal
  ea_margin_reserved :: decimal
  ea_initial_risk_usd :: decimal
  ea_trail_state :: trailing_stop_state

record stop_trigger_result =
  st_exit_reference :: decimal
  st_exit_reason :: exit_reason

record exit_accounting =
  xa_fill_price :: decimal
  xa_fee :: decimal
  xa_slippage_cost :: decimal
  xa_gross_pnl :: decimal
  xa_net_wallet_delta :: decimal

end
