(* ===== verification/Rounding.thy ===== *)
theory Rounding
  imports Decimal
begin

text \<open>
  Rounding to exchange steps (\<open>services/risk_engine/rounding.py\<close>). Quantities are floored
  to the quantity step, prices to the tick; both divide in 28-digit arithmetic, truncate
  and multiply back. The lemmas say when this is the floor it is meant to be: on the part
  of the grid that 28 digits hold exactly, and for a step that is a power of ten.
\<close>

section \<open>Definitions\<close>

definition floor_to_step :: "decimal \<Rightarrow> decimal \<Rightarrow> decimal comp" where
  "floor_to_step value step =
     (if step \<le> 0 then raise (ValueError ''step must be positive'')
      else cbind (ddiv value step) (\<lambda>q. ret (dmul (dtrunc q) step)))"

definition round_to_tick :: "decimal \<Rightarrow> decimal \<Rightarrow> decimal comp" where
  "round_to_tick price tick_size =
     (if tick_size \<le> 0 then raise (ValueError ''tick_size must be positive'')
      else cbind (ddiv price tick_size) (\<lambda>q. ret (dmul (dtrunc q) tick_size)))"

text \<open>The value both return for a positive step.\<close>

definition fts :: "decimal \<Rightarrow> decimal \<Rightarrow> decimal" where
  "fts v s = dmul (dtrunc (dquot v s)) s"

section \<open>Lemmas\<close>

lemma floor_to_step_pos [simp]: "0 < s \<Longrightarrow> floor_to_step v s = ret (fts v s)"
  by (simp add: floor_to_step_def fts_def)

lemma round_to_tick_pos [simp]: "0 < s \<Longrightarrow> round_to_tick v s = ret (fts v s)"
  by (simp add: round_to_tick_def fts_def)

lemma floor_to_step_eq_ret: "floor_to_step v s = ret x \<longleftrightarrow> 0 < s \<and> x = fts v s"
  by (cases "0 < s") (auto simp: floor_to_step_def fts_def)

lemma round_to_tick_eq_ret: "round_to_tick v s = ret x \<longleftrightarrow> 0 < s \<and> x = fts v s"
  by (cases "0 < s") (auto simp: round_to_tick_def fts_def)

lemma dtrunc_mono: "x \<le> y \<Longrightarrow> dtrunc x \<le> dtrunc y"
proof -
  assume xy: "x \<le> y"
  consider "0 \<le> x" | "x < 0" "0 \<le> y" | "y < 0" by linarith
  then show ?thesis
  proof cases
    case 1
    with xy show ?thesis by (simp add: dtrunc_def floor_mono)
  next
    case 2
    then have "\<lceil>x\<rceil> \<le> 0" "0 \<le> \<lfloor>y\<rfloor>" by (simp_all add: ceiling_le_iff le_floor_iff)
    with 2 have "\<lceil>x\<rceil> \<le> \<lfloor>y\<rfloor>" by linarith
    with 2 show ?thesis by (simp add: dtrunc_def)
  next
    case 3
    with xy show ?thesis by (simp add: dtrunc_def ceiling_mono)
  qed
qed

lemma fts_mono: "0 < s \<Longrightarrow> x \<le> y \<Longrightarrow> fts x s \<le> fts y s"
  unfolding fts_def by (intro dmul_mono dtrunc_mono dquot_mono) simp_all

lemma fts_zero [simp]: "fts 0 s = 0"
  by (simp add: fts_def dquot_def dmul_def dtrunc_def)

lemma fts_nonneg: "0 < s \<Longrightarrow> 0 \<le> v \<Longrightarrow> 0 \<le> fts v s"
  using fts_mono [of s 0 v] by simp

lemma fts_nonpos: "0 < s \<Longrightarrow> v \<le> 0 \<Longrightarrow> fts v s \<le> 0"
  using fts_mono [of s v 0] by simp

lemma fts_grid:
  assumes "grid_ok s n" and "\<bar>k\<bar> \<le> n"
  shows "fts (of_int k * s) s = of_int k * s"
proof -
  have "0 < s" using grid_ok_step_pos [OF assms(1)] .
  then have "dquot (of_int k * s) s = of_int k"
    by (simp add: dquot_def grid_round_int [OF assms])
  then show ?thesis by (simp add: fts_def dmul_def grid_round [OF assms])
qed

lemma fts_on_grid:
  assumes "grid_ok s n" and "0 \<le> v" and "v \<le> of_int n * s"
  obtains k where "0 \<le> k" and "k \<le> n" and "fts v s = of_int k * s"
proof -
  have s: "0 < s" using grid_ok_step_pos [OF assms(1)] .
  have n: "0 \<le> n" using assms(1) by (simp add: grid_ok_def)
  let ?q = "dquot v s"
  have q0: "0 \<le> ?q" using assms(2) s by (simp add: dquot_nonneg)
  have "v / s \<le> of_int n" using assms(3) s by (simp add: divide_le_eq)
  then have qn: "?q \<le> of_int n"
    unfolding dquot_def using grid_round_int [OF assms(1), of n] n by (intro dr.le_fixed) simp_all
  let ?k = "\<lfloor>?q\<rfloor>"
  have k: "0 \<le> ?k" "?k \<le> n" using q0 qn by (simp_all add: le_floor_iff floor_le_iff)
  have "fts v s = of_int ?k * s"
    using k q0 by (simp add: fts_def dmul_def dtrunc_nonneg grid_round [OF assms(1)])
  with k show ?thesis by (rule that)
qed

text \<open>Flooring never goes below a grid point that the value has reached.\<close>

lemma fts_ge_grid:
  assumes "grid_ok s n" and "\<bar>k\<bar> \<le> n" and "of_int k * s \<le> v"
  shows "of_int k * s \<le> fts v s"
  using fts_mono [OF grid_ok_step_pos [OF assms(1)] assms(3)] fts_grid [OF assms(1,2)] by simp

text \<open>Flooring exceeds the value by the two roundings at most.\<close>

lemma fts_upper:
  assumes "0 < s" and "0 \<le> v"
  shows "fts v s \<le> v * (1 + 5 / 10 ^ dec_prec)\<^sup>2"
proof -
  let ?d = "1 + 5 / 10 ^ dec_prec :: rat"
  have q: "dquot v s \<le> v / s * ?d"
    unfolding dquot_def using assms by (intro dround_error_nonneg(2)) simp
  have q0: "0 \<le> dquot v s" using assms by (simp add: dquot_nonneg)
  then have t: "0 \<le> dtrunc (dquot v s)" "dtrunc (dquot v s) \<le> dquot v s"
    by (simp_all add: dtrunc_nonneg)
  have "fts v s \<le> dtrunc (dquot v s) * s * ?d"
    unfolding fts_def dmul_def using t assms by (intro dround_error_nonneg(2)) simp
  also have "\<dots> \<le> (v / s * ?d) * s * ?d"
    using t q assms by (intro mult_right_mono) auto
  also have "\<dots> = v * ?d\<^sup>2"
    using assms by (simp add: power2_eq_square)
  finally show ?thesis .
qed

subsection \<open>Steps that are powers of ten\<close>

lemma representable_shift: "representable x \<Longrightarrow> representable (x * 10 powi e)"
proof -
  assume "representable x"
  then obtain c e' where "x = of_int c * 10 powi e'" "\<bar>c\<bar> \<le> 10 ^ dec_prec"
    unfolding representable_def by blast
  then have "x * 10 powi e = of_int c * 10 powi (e' + e)" "\<bar>c\<bar> \<le> 10 ^ dec_prec"
    by (simp_all add: ten_powi_add mult.assoc)
  then show ?thesis unfolding representable_def by blast
qed

lemma representable_unshift: "representable x \<Longrightarrow> representable (x / 10 powi e)"
  using representable_shift [of x "- e"] by (simp add: power_int_minus divide_inverse)

lemma representable_floor:
  assumes "representable x" and "0 \<le> x"
  shows "representable (of_int \<lfloor>x\<rfloor>)"
proof -
  from assms obtain c e where x: "x = of_int c * 10 powi e" and c: "\<bar>c\<bar> \<le> 10 ^ dec_prec"
    unfolding representable_def by blast
  show ?thesis
  proof (cases "0 \<le> e")
    case True
    then have "x = of_int (c * 10 ^ nat e)" by (simp add: x power_int_def)
    with assms(1) show ?thesis by (simp only: floor_of_int)
  next
    case False
    then have "(10::rat) powi e \<le> 10 powi 0" by (intro power_int_increasing) auto
    then have e1: "(10::rat) powi e \<le> 1" by simp
    have "(0::rat) < 10 powi e" by simp
    then have c0: "0 \<le> c" using assms(2) by (simp add: x zero_le_mult_iff del: zero_less_power_int)
    have "x \<le> of_int c" using e1 c0 by (simp add: x mult_left_le)
    then have "\<lfloor>x\<rfloor> \<le> c" by (simp add: floor_le_iff)
    moreover have "0 \<le> \<lfloor>x\<rfloor>" using assms(2) by (simp add: le_floor_iff)
    ultimately show ?thesis using c by (intro representable_of_int) linarith
  qed
qed

lemma fts_power_of_ten:
  assumes "representable v" and "0 \<le> v" and "s = 10 powi e"
  shows "fts v s = of_int \<lfloor>v / s\<rfloor> * s"
proof -
  have r: "representable (v / s)" using assms by (simp add: representable_unshift)
  have q: "dquot v s = v / s" unfolding dquot_def by (rule dround_id [OF r])
  have p: "0 \<le> v / s" using assms by simp
  have "representable (of_int \<lfloor>v / s\<rfloor> * s)"
    unfolding assms(3) using representable_floor [OF r p] by (intro representable_shift) (simp add: assms(3))
  then show ?thesis by (simp add: fts_def q dtrunc_nonneg [OF p] dmul_def dround_id)
qed

lemma fts_power_of_ten_bounds:
  assumes "representable v" and "0 \<le> v" and "s = 10 powi e"
  shows "fts v s \<le> v" and "v < fts v s + s"
proof -
  have s: "0 < s" using assms(3) by simp
  have "of_int \<lfloor>v / s\<rfloor> \<le> v / s" "v / s < of_int \<lfloor>v / s\<rfloor> + 1" by linarith+
  then have "of_int \<lfloor>v / s\<rfloor> * s \<le> v" "v < (of_int \<lfloor>v / s\<rfloor> + 1) * s"
    by (simp_all only: pos_le_divide_eq [OF s] pos_divide_less_eq [OF s])
  then show "fts v s \<le> v" "v < fts v s + s"
    by (simp_all add: fts_power_of_ten [OF assms] distrib_right)
qed

end
