(* ===== verification/Stops.thy ===== *)
theory Stops
  imports Strategy_Models Rounding
begin

text \<open>
  The ATR stops of \<open>services/strategy_engine/stops.py\<close>: the initial stop, the trailing
  stop at entry and its daily update. The main result is that the stop of a position
  never moves down: every update of a state whose stop is a tick multiple keeps it one and
  does not lower it.
\<close>

section \<open>Definitions\<close>

text \<open>The module's own copy of the tick rounding.\<close>

definition stops_round_to_tick :: "decimal \<Rightarrow> decimal \<Rightarrow> decimal comp" where
  "stops_round_to_tick price tick_size =
     (if tick_size \<le> 0 then raise (ValueError ''tick_size must be positive'')
      else cbind (ddiv price tick_size) (\<lambda>q. ret (dmul (dtrunc q) tick_size)))"

definition opt_round_to_tick :: "decimal \<Rightarrow> decimal option \<Rightarrow> decimal comp" where
  "opt_round_to_tick stop tick_size =
     (case tick_size of None \<Rightarrow> ret stop | Some t \<Rightarrow> stops_round_to_tick stop t)"

definition compute_initial_stop ::
  "decimal \<Rightarrow> decimal \<Rightarrow> strategy_parameters \<Rightarrow> decimal option \<Rightarrow> decimal comp" where
  "compute_initial_stop entry_price atr14 params tick_size =
     (let stop = dsub entry_price (dmul (stop_initial_atr_mult params) atr14)
      in opt_round_to_tick stop tick_size)"

definition initialize_trailing_stop ::
  "decimal \<Rightarrow> decimal \<Rightarrow> decimal \<Rightarrow> strategy_parameters \<Rightarrow> decimal option \<Rightarrow> trailing_stop_state comp"
where
  "initialize_trailing_stop entry_price atr14_at_entry stop_initial params tick_size =
     (let highest_close = entry_price;
          trail_stop = dsub highest_close (dmul (trail_atr_mult params) atr14_at_entry);
          trail_stop = max trail_stop stop_initial
      in cbind (opt_round_to_tick trail_stop tick_size) (\<lambda>trail_stop.
         ret \<lparr>ts_entry_price = entry_price,
              ts_stop_initial = stop_initial,
              ts_highest_close = highest_close,
              ts_trail_stop = trail_stop,
              ts_effective_stop = max stop_initial trail_stop\<rparr>))"

definition update_trailing_stop ::
  "trailing_stop_state \<Rightarrow> decimal \<Rightarrow> decimal \<Rightarrow> strategy_parameters \<Rightarrow> decimal option \<Rightarrow> trailing_stop_state comp"
where
  "update_trailing_stop state close_t atr14_daily_t params tick_size =
     (let highest_close = max (ts_highest_close state) close_t;
          trail_candidate = dsub highest_close (dmul (trail_atr_mult params) atr14_daily_t);
          trail_stop = max (ts_trail_stop state) trail_candidate;
          trail_stop = max trail_stop (ts_stop_initial state)
      in cbind (opt_round_to_tick trail_stop tick_size) (\<lambda>trail_stop.
         ret \<lparr>ts_entry_price = ts_entry_price state,
              ts_stop_initial = ts_stop_initial state,
              ts_highest_close = highest_close,
              ts_trail_stop = trail_stop,
              ts_effective_stop = max (ts_stop_initial state) trail_stop\<rparr>))"

text \<open>The updates of successive daily closes, each with the ATR of its day.\<close>

definition run_updates ::
  "strategy_parameters \<Rightarrow> decimal option \<Rightarrow> trailing_stop_state \<Rightarrow> (decimal \<times> decimal) list \<Rightarrow> trailing_stop_state comp"
where
  "run_updates params tick = cfoldl (\<lambda>st (c, a). update_trailing_stop st c a params tick)"

section \<open>Tick rounding\<close>

lemma stops_round_to_tick_eq: "stops_round_to_tick = round_to_tick"
  by (simp add: fun_eq_iff stops_round_to_tick_def round_to_tick_def)

lemma opt_round_to_tick_eq_ret:
  "opt_round_to_tick v tick = ret x \<longleftrightarrow>
     (case tick of None \<Rightarrow> x = v | Some t \<Rightarrow> 0 < t \<and> x = fts v t)"
  by (auto simp: opt_round_to_tick_def stops_round_to_tick_eq round_to_tick_eq_ret split: option.splits)

text \<open>
  A stop that the tick leaves alone: any stop without a tick, a multiple of the tick that
  28 digits hold with one.
\<close>

definition tick_aligned :: "decimal option \<Rightarrow> decimal \<Rightarrow> bool" where
  "tick_aligned tick v \<longleftrightarrow>
     (case tick of None \<Rightarrow> True | Some t \<Rightarrow> (\<exists>n k. grid_ok t n \<and> \<bar>k\<bar> \<le> n \<and> v = of_int k * t))"

lemma tick_aligned_le:
  assumes "tick_aligned tick v" and "v \<le> w" and "opt_round_to_tick w tick = ret x"
  shows "v \<le> x"
  using assms fts_ge_grid
  by (fastforce simp: tick_aligned_def opt_round_to_tick_eq_ret split: option.splits)

section \<open>The stop never moves down\<close>

lemma update_trailing_stopE:
  assumes "update_trailing_stop st c a params tick = ret st'"
  obtains x where "opt_round_to_tick (max (max (ts_trail_stop st)
        (dsub (max (ts_highest_close st) c) (dmul (trail_atr_mult params) a))) (ts_stop_initial st)) tick = ret x"
    and "st' = \<lparr>ts_entry_price = ts_entry_price st, ts_stop_initial = ts_stop_initial st,
      ts_highest_close = max (ts_highest_close st) c, ts_trail_stop = x,
      ts_effective_stop = max (ts_stop_initial st) x\<rparr>"
  using assms by (auto simp: update_trailing_stop_def Let_def cbind_eq_ret)

lemma update_trailing_stop_frame:
  assumes "update_trailing_stop st c a params tick = ret st'"
  shows "ts_entry_price st' = ts_entry_price st" and "ts_stop_initial st' = ts_stop_initial st"
    and "ts_highest_close st' = max (ts_highest_close st) c"
    and "ts_effective_stop st' = max (ts_stop_initial st') (ts_trail_stop st')"
  using assms by (auto elim!: update_trailing_stopE)

lemma update_trailing_stop_ge:
  assumes "update_trailing_stop st c a params tick = ret st'" and "tick_aligned tick (ts_trail_stop st)"
  shows "ts_trail_stop st \<le> ts_trail_stop st'"
  using assms(1)
proof (rule update_trailing_stopE)
  fix x
  assume x: "opt_round_to_tick (max (max (ts_trail_stop st)
        (dsub (max (ts_highest_close st) c) (dmul (trail_atr_mult params) a))) (ts_stop_initial st)) tick = ret x"
    and st': "st' = \<lparr>ts_entry_price = ts_entry_price st, ts_stop_initial = ts_stop_initial st,
      ts_highest_close = max (ts_highest_close st) c, ts_trail_stop = x,
      ts_effective_stop = max (ts_stop_initial st) x\<rparr>"
  have "ts_trail_stop st \<le> x" by (rule tick_aligned_le [OF assms(2) _ x]) simp
  then show ?thesis by (simp add: st')
qed


text \<open>
  The invariant of a stop state on the tick grid: the trailing stop is a non-negative
  multiple of the tick within the exact range, the other prices lie in that range, and
  the effective stop is the larger of the two stops.
\<close>

definition stop_inv :: "decimal \<Rightarrow> int \<Rightarrow> trailing_stop_state \<Rightarrow> bool" where
  "stop_inv t n st \<longleftrightarrow>
     (\<exists>k. 0 \<le> k \<and> k \<le> n \<and> ts_trail_stop st = of_int k * t) \<and>
     ts_highest_close st \<le> of_int n * t \<and> ts_stop_initial st \<le> of_int n * t \<and>
     ts_effective_stop st = max (ts_stop_initial st) (ts_trail_stop st)"

lemma stop_inv_aligned: "grid_ok t n \<Longrightarrow> stop_inv t n st \<Longrightarrow> tick_aligned (Some t) (ts_trail_stop st)"
  unfolding stop_inv_def tick_aligned_def option.case
  by (elim conjE exE) (rule exI [of _ n], force)

lemma stop_inv_nonneg: "grid_ok t n \<Longrightarrow> stop_inv t n st \<Longrightarrow> 0 \<le> ts_trail_stop st"
  by (auto simp: stop_inv_def grid_ok_def)

lemma trail_candidate_le:
  assumes "grid_ok t n" and "h \<le> of_int n * t" and "0 \<le> m" and "0 \<le> a"
  shows "dsub h (dmul m a) \<le> of_int n * t"
  unfolding dsub_def
proof (rule dr.le_fixed)
  show "dround (of_int n * t) = of_int n * t"
    using assms(1) by (intro grid_round) (auto simp: grid_ok_def)
  show "h - dmul m a \<le> of_int n * t"
    using assms dmul_nonneg [of m a] by linarith
qed

lemma initialize_trailing_stop_inv:
  assumes "grid_ok t n" and "0 \<le> stop" and "stop \<le> of_int n * t" and "entry \<le> of_int n * t"
    and "0 \<le> trail_atr_mult params" and "0 \<le> atr"
  obtains st where "initialize_trailing_stop entry atr stop params (Some t) = ret st"
    and "stop_inv t n st" and "ts_stop_initial st = stop"
proof -
  have t: "0 < t" using grid_ok_step_pos [OF assms(1)] .
  let ?w = "max (dsub entry (dmul (trail_atr_mult params) atr)) stop"
  have "?w \<le> of_int n * t" "0 \<le> ?w"
    using trail_candidate_le [OF assms(1,4,5,6)] assms(2,3) by auto
  then obtain k where k: "0 \<le> k" "k \<le> n" "fts ?w t = of_int k * t"
    using fts_on_grid [OF assms(1)] by metis
  let ?st = "\<lparr>ts_entry_price = entry, ts_stop_initial = stop, ts_highest_close = entry,
      ts_trail_stop = fts ?w t, ts_effective_stop = max stop (fts ?w t)\<rparr>"
  have "initialize_trailing_stop entry atr stop params (Some t) = ret ?st"
    using t by (simp add: initialize_trailing_stop_def opt_round_to_tick_def stops_round_to_tick_eq Let_def)
  moreover have "stop_inv t n ?st" using k assms by (auto simp: stop_inv_def)
  ultimately show ?thesis by (rule that) simp
qed

lemma update_trailing_stop_inv:
  assumes "grid_ok t n" and "stop_inv t n st" and "c \<le> of_int n * t" and "0 \<le> a"
    and "0 \<le> trail_atr_mult params"
  obtains st' where "update_trailing_stop st c a params (Some t) = ret st'" and "stop_inv t n st'"
    and "ts_trail_stop st \<le> ts_trail_stop st'" and "ts_effective_stop st \<le> ts_effective_stop st'"
proof -
  have t: "0 < t" using grid_ok_step_pos [OF assms(1)] .
  let ?h = "max (ts_highest_close st) c"
  let ?w = "max (max (ts_trail_stop st) (dsub ?h (dmul (trail_atr_mult params) a))) (ts_stop_initial st)"
  have h: "?h \<le> of_int n * t" using assms by (simp add: stop_inv_def)
  have "ts_trail_stop st \<le> of_int n * t"
    using assms(2) t by (auto simp: stop_inv_def)
  then have "?w \<le> of_int n * t"
    using trail_candidate_le [OF assms(1) h assms(5,4)] assms(2) by (simp add: stop_inv_def)
  moreover have "0 \<le> ?w" using stop_inv_nonneg [OF assms(1,2)] by simp
  ultimately obtain k where k: "0 \<le> k" "k \<le> n" "fts ?w t = of_int k * t"
    using fts_on_grid [OF assms(1)] by metis
  let ?st = "\<lparr>ts_entry_price = ts_entry_price st, ts_stop_initial = ts_stop_initial st,
      ts_highest_close = ?h, ts_trail_stop = fts ?w t,
      ts_effective_stop = max (ts_stop_initial st) (fts ?w t)\<rparr>"
  have run: "update_trailing_stop st c a params (Some t) = ret ?st"
    using t by (simp add: update_trailing_stop_def opt_round_to_tick_def stops_round_to_tick_eq Let_def)
  have up: "ts_trail_stop st \<le> ts_trail_stop ?st"
    using update_trailing_stop_ge [OF run stop_inv_aligned [OF assms(1,2)]] .
  have inv: "stop_inv t n ?st" using k h assms(2) by (auto simp: stop_inv_def)
  have "ts_effective_stop st \<le> ts_effective_stop ?st"
    using up assms(2) by (auto simp: stop_inv_def)
  with run inv up show ?thesis by (rule that)
qed

lemma run_updates_inv:
  assumes "grid_ok t n" and "0 \<le> trail_atr_mult params" and "stop_inv t n st"
    and "\<forall>(c, a) \<in> set days. c \<le> of_int n * t \<and> 0 \<le> a"
  shows "\<exists>st'. run_updates params (Some t) st days = ret st' \<and> stop_inv t n st' \<and>
     ts_trail_stop st \<le> ts_trail_stop st' \<and> ts_effective_stop st \<le> ts_effective_stop st'"
  using assms(3,4)
proof (induction days arbitrary: st)
  case Nil
  then show ?case by (simp add: run_updates_def)
next
  case (Cons d days)
  obtain c a where d: "d = (c, a)" by fastforce
  with Cons.prems obtain st1 where st1: "update_trailing_stop st c a params (Some t) = ret st1"
    "stop_inv t n st1" "ts_trail_stop st \<le> ts_trail_stop st1" "ts_effective_stop st \<le> ts_effective_stop st1"
    using update_trailing_stop_inv [OF assms(1) Cons.prems(1) _ _ assms(2), of c a] by auto
  with Cons.IH [OF st1(2)] Cons.prems(2) show ?case
    by (fastforce simp: run_updates_def d)
qed

end
