(* ===== verification/Trading_Constraints.thy ===== *)
theory Trading_Constraints
  imports Risk_Models
begin

text \<open>
  The validation of the exchange constraints of a symbol
  (\<open>services/trading_constraints/validation.py\<close>), shared by every entry point. The result
  \<open>None\<close> means valid; the lemma at the end says exactly which constraints are.
\<close>

section \<open>Definitions\<close>

record constraint_validation_error =
  cv_field :: string
  cv_code :: string
  cv_message :: string

definition INVALID_TICK_SIZE :: string where
  "INVALID_TICK_SIZE = ''INVALID_TICK_SIZE''"

definition INVALID_QUANTITY_STEP :: string where
  "INVALID_QUANTITY_STEP = ''INVALID_QUANTITY_STEP''"

definition INVALID_MIN_QUANTITY :: string where
  "INVALID_MIN_QUANTITY = ''INVALID_MIN_QUANTITY''"

definition INVALID_MIN_NOTIONAL :: string where
  "INVALID_MIN_NOTIONAL = ''INVALID_MIN_NOTIONAL''"

definition PRECISION_MISMATCH :: string where
  "PRECISION_MISMATCH = ''PRECISION_MISMATCH''"

definition constraint_error :: "string \<Rightarrow> string \<Rightarrow> string \<Rightarrow> constraint_validation_error" where
  "constraint_error f c m = \<lparr>cv_field = f, cv_code = c, cv_message = m\<rparr>"

text \<open>The division is guarded by the sign of the step, so it cannot raise.\<close>

definition is_step_aligned :: "decimal \<Rightarrow> decimal \<Rightarrow> bool" where
  "is_step_aligned v step =
     (if step \<le> 0 then False
      else let quotient = dquot v step in quotient = dintegral quotient)"

fun first_not_positive ::
  "(string \<times> decimal \<times> string) list \<Rightarrow> constraint_validation_error option" where
  "first_not_positive [] = None"
| "first_not_positive ((name, v, code) # rest) =
     (if \<not> float_is_finite v then Some (constraint_error name code (name @ '' must be finite''))
      else if v \<le> 0 then Some (constraint_error name code (name @ '' must be > 0''))
      else first_not_positive rest)"

definition validate_symbol_constraints_core ::
  "symbol_constraints \<Rightarrow> constraint_validation_error option" where
  "validate_symbol_constraints_core cs =
     (case first_not_positive
             [(''price_tick_size'', price_tick_size cs, INVALID_TICK_SIZE),
              (''quantity_step'', quantity_step cs, INVALID_QUANTITY_STEP),
              (''minimum_quantity'', minimum_quantity cs, INVALID_MIN_QUANTITY)] of
        Some e \<Rightarrow> Some e
      | None \<Rightarrow>
          if \<not> float_is_finite (minimum_notional cs)
          then Some (constraint_error ''minimum_notional'' INVALID_MIN_NOTIONAL
                       ''minimum_notional must be finite'')
          else if minimum_notional cs < 0
          then Some (constraint_error ''minimum_notional'' INVALID_MIN_NOTIONAL
                       ''minimum_notional must be >= 0'')
          else if minimum_quantity cs < quantity_step cs
          then Some (constraint_error ''minimum_quantity'' PRECISION_MISMATCH
                       ''minimum_quantity below quantity_step'')
          else if \<not> is_step_aligned (minimum_quantity cs) (quantity_step cs)
          then Some (constraint_error ''minimum_quantity'' PRECISION_MISMATCH
                       ''minimum_quantity not aligned to quantity_step'')
          else None)"

section \<open>Valid constraints\<close>

definition valid_constraints :: "symbol_constraints \<Rightarrow> bool" where
  "valid_constraints cs \<longleftrightarrow>
     float_is_finite (price_tick_size cs) \<and> 0 < price_tick_size cs \<and>
     float_is_finite (quantity_step cs) \<and> 0 < quantity_step cs \<and>
     float_is_finite (minimum_quantity cs) \<and> quantity_step cs \<le> minimum_quantity cs \<and>
     float_is_finite (minimum_notional cs) \<and> 0 \<le> minimum_notional cs \<and>
     (\<exists>k::int. dquot (minimum_quantity cs) (quantity_step cs) = of_int k)"

lemma is_step_aligned_iff: "is_step_aligned v s \<longleftrightarrow> 0 < s \<and> (\<exists>k::int. dquot v s = of_int k)"
  by (auto simp: is_step_aligned_def dintegral_def Let_def)

lemma validate_core_None: "validate_symbol_constraints_core cs = None \<longleftrightarrow> valid_constraints cs"
  by (auto simp: validate_symbol_constraints_core_def valid_constraints_def is_step_aligned_iff
      split: if_splits)

text \<open>On exactly representable constraints, alignment is divisibility.\<close>

lemma is_step_aligned_grid:
  assumes "grid_ok s n" and "\<bar>k\<bar> \<le> n"
  shows "is_step_aligned (of_int k * s) s"
  using grid_ok_step_pos [OF assms(1)] grid_round_int [OF assms]
  by (auto simp: is_step_aligned_iff dquot_def)

end
