(* ===== verification/Risk_Validation.thy ===== *)
theory Risk_Validation
  imports Trading_Constraints
begin

text \<open>
  The input checks of the risk engine (\<open>services/risk_engine/validation.py\<close>), each with
  the lemma that says what it accepts.
\<close>

section \<open>Definitions\<close>

definition risk_error_of :: "reason_code \<Rightarrow> string \<Rightarrow> risk_error" where
  "risk_error_of code msg = \<lparr>re_code = code, re_message = msg, re_details = []\<rparr>"

definition risk_error_with :: "reason_code \<Rightarrow> string \<Rightarrow> details \<Rightarrow> risk_error" where
  "risk_error_with code msg ds = \<lparr>re_code = code, re_message = msg, re_details = ds\<rparr>"

definition validate_account :: "account_state \<Rightarrow> risk_error option" where
  "validate_account account =
     (if \<not> float_is_finite (equity_usd account) \<or> \<not> float_is_finite (available_margin_usd account)
      then Some (risk_error_of RC_REJECT_DATA ''Account values must be finite'')
      else if equity_usd account \<le> 0
      then Some (risk_error_of RC_REJECT_DATA ''Equity must be greater than zero'')
      else if available_margin_usd account < 0
      then Some (risk_error_of RC_REJECT_DATA ''Available margin must not be negative'')
      else None)"

definition validate_constraints :: "symbol_constraints \<Rightarrow> risk_error option" where
  "validate_constraints cs =
     (case validate_symbol_constraints_core cs of
        None \<Rightarrow> None
      | Some v \<Rightarrow> Some (risk_error_with RC_REJECT_DATA (cv_message v)
                         [(''field'', DStr (cv_field v)), (''code'', DStr (cv_code v))]))"

fun first_bad_limit :: "(string \<times> decimal \<times> decimal) list \<Rightarrow> risk_error option" where
  "first_bad_limit [] = None"
| "first_bad_limit ((name, v, frozen_maximum) # rest) =
     (if \<not> float_is_finite v \<or> v \<le> 0 \<or> frozen_maximum < v
      then Some (risk_error_with RC_REJECT_DATA
                   (''Invalid '' @ name @ '' for Specification Freeze 1.0'')
                   [(name, DDec v), (''maximum'', DDec frozen_maximum)])
      else first_bad_limit rest)"

definition validate_parameters :: "risk_parameters \<Rightarrow> risk_error option" where
  "validate_parameters params =
     (case first_bad_limit
             [(''risk_per_trade_pct'', risk_per_trade_pct params, DEFAULT_RISK_PER_TRADE_PCT),
              (''max_portfolio_risk_pct'', max_portfolio_risk_pct params, DEFAULT_MAX_PORTFOLIO_RISK_PCT),
              (''max_leverage'', max_leverage params, DEFAULT_MAX_LEVERAGE)] of
        Some e \<Rightarrow> Some e
      | None \<Rightarrow>
          if max_open_positions params \<le> 0 \<or> DEFAULT_MAX_OPEN_POSITIONS < max_open_positions params
          then Some (risk_error_of RC_REJECT_DATA
                       ''Invalid max_open_positions for Specification Freeze 1.0'')
          else if \<not> float_is_finite (risk_rounding_tolerance params) \<or> risk_rounding_tolerance params < 0
          then Some (risk_error_of RC_REJECT_DATA ''Invalid risk_rounding_tolerance'')
          else None)"

fun first_bad_price :: "string \<Rightarrow> (string \<times> decimal) list \<Rightarrow> risk_error option" where
  "first_bad_price sy [] = None"
| "first_bad_price sy ((name, v) # rest) =
     (if \<not> float_is_finite v \<or> v \<le> 0
      then Some (risk_error_with RC_REJECT_DATA (''Invalid open-position '' @ name)
                   [(''symbol'', DStr sy), (name, DDec v)])
      else first_bad_price sy rest)"

fun positions_loop :: "string set \<Rightarrow> position_state list \<Rightarrow> risk_error option" where
  "positions_loop seen [] = None"
| "positions_loop seen (p # ps) =
     (if ps_symbol p = [] \<or> ps_symbol p \<in> seen
      then Some (risk_error_of RC_REJECT_DATA ''Invalid or duplicate symbol in open positions'')
      else case first_bad_price (ps_symbol p)
                  [(''entry_price'', ps_entry_price p), (''position_size'', ps_position_size p),
                   (''stop_initial'', ps_stop_initial p), (''trail_stop'', ps_trail_stop p),
                   (''mark_price'', ps_mark_price p)] of
             Some e \<Rightarrow> Some e
           | None \<Rightarrow>
               if ps_entry_price p \<le> ps_stop_initial p
               then Some (risk_error_with RC_REJECT_DATA
                            ''Open-position initial stop must be below entry price''
                            [(''symbol'', DStr (ps_symbol p))])
               else positions_loop (insert (ps_symbol p) seen) ps)"

definition validate_open_positions :: "position_state list \<Rightarrow> risk_error option" where
  "validate_open_positions ps = positions_loop {} ps"

definition price_errors :: "string \<Rightarrow> decimal \<Rightarrow> risk_error list" where
  "price_errors name v =
     (if \<not> float_is_finite v \<or> v \<le> 0
      then [risk_error_of RC_REJECT_DATA (''Invalid '' @ name)] else [])"

definition validate_proposal :: "trade_proposal \<Rightarrow> risk_error list" where
  "validate_proposal p =
     (if tp_side p \<noteq> LONG
      then [risk_error_of RC_REJECT_DATA ''V1 is long-only; short proposals rejected''] else []) @
     price_errors ''entry_price'' (tp_entry_price p) @
     price_errors ''stop_price'' (tp_stop_price p) @
     (case tp_atr14 p of
        None \<Rightarrow> []
      | Some a \<Rightarrow> if \<not> float_is_finite a \<or> a \<le> 0
                  then [risk_error_of RC_REJECT_DATA ''Invalid ATR14''] else []) @
     (if tp_signal_intent_kind p \<noteq> LONG_ENTRY
      then [risk_error_of RC_REJECT_NO_SIGNAL ''Signal intent must be LONG_ENTRY''] else []) @
     (if \<not> tp_strategy_approved p
      then [risk_error_of RC_REJECT_NO_SIGNAL ''Strategy approval missing''] else []) @
     (if tp_market_data_status p \<noteq> MD_OK
      then [risk_error_with RC_REJECT_DATA ''Market data not OK''
              [(''status'', DStr (market_data_status_value (tp_market_data_status p)))]] else []) @
     (if tp_bot_system_state p \<noteq> BOT_ACTIVE
      then [risk_error_with RC_REJECT_DATA ''Bot system state does not allow entries''
              [(''state'', DStr (bot_system_state_value (tp_bot_system_state p)))]] else [])"

definition validate_long_stop :: "decimal \<Rightarrow> decimal \<Rightarrow> risk_error option" where
  "validate_long_stop entry_price stop_price =
     (if entry_price \<le> stop_price
      then Some (risk_error_of RC_REJECT_DATA ''Long stop must be below entry price'')
      else if dsub entry_price stop_price \<le> 0
      then Some (risk_error_of RC_REJECT_DATA ''Stop distance must be positive'')
      else None)"

text \<open>
  One realised-loss limit: the daily and the weekly check have the same body. The
  division by the equity comes after its validation; the checked operator is kept.
\<close>

definition check_realized_loss ::
  "string \<Rightarrow> bool \<Rightarrow> decimal option \<Rightarrow> decimal \<Rightarrow> decimal \<Rightarrow> risk_error option comp" where
  "check_realized_loss name enabled limit pnl equity =
     (if \<not> enabled then ret None
      else case limit of
             None \<Rightarrow> ret (Some (risk_error_of RC_REJECT_DATA
                           (name @ '' loss limit configuration or account value invalid'')))
           | Some l \<Rightarrow>
               if \<not> float_is_finite l \<or> l < 0 \<or> \<not> float_is_finite pnl
               then ret (Some (risk_error_of RC_REJECT_DATA
                           (name @ '' loss limit configuration or account value invalid'')))
               else if pnl < 0
               then cbind (ddiv (dabs pnl) equity) (\<lambda>loss_pct.
                    if l < loss_pct
                    then ret (Some (risk_error_of RC_REJECT_DATA (name @ '' loss limit reached'')))
                    else ret None)
               else ret None)"

definition check_drawdown :: "bool \<Rightarrow> decimal option \<Rightarrow> decimal option \<Rightarrow> decimal \<Rightarrow> risk_error option comp" where
  "check_drawdown enabled limit peak equity =
     (if \<not> enabled then ret None
      else case (limit, peak) of
             (Some l, Some pk) \<Rightarrow>
               if \<not> float_is_finite l \<or> l < 0 \<or> \<not> float_is_finite pk \<or> pk \<le> 0
               then ret (Some (risk_error_of RC_REJECT_DATA
                           ''Drawdown limit enabled but configuration incomplete''))
               else cbind (ddiv (dsub pk equity) pk) (\<lambda>drawdown.
                    if l < drawdown
                    then ret (Some (risk_error_of RC_REJECT_DATA ''Drawdown limit reached''))
                    else ret None)
           | _ \<Rightarrow> ret (Some (risk_error_of RC_REJECT_DATA
                         ''Drawdown limit enabled but configuration incomplete'')))"

definition check_loss_limits :: "account_state \<Rightarrow> risk_parameters \<Rightarrow> risk_error option comp" where
  "check_loss_limits account params =
     (let cfg = loss_limits params
      in cbind (check_realized_loss ''Daily'' (daily_loss_limit_enabled cfg) (max_daily_loss_pct cfg)
                  (daily_realized_pnl_usd account) (equity_usd account)) (\<lambda>r.
         case r of
           Some e \<Rightarrow> ret (Some e)
         | None \<Rightarrow>
             cbind (check_realized_loss ''Weekly'' (weekly_loss_limit_enabled cfg) (max_weekly_loss_pct cfg)
                      (weekly_realized_pnl_usd account) (equity_usd account)) (\<lambda>r.
             case r of
               Some e \<Rightarrow> ret (Some e)
             | None \<Rightarrow> check_drawdown (drawdown_limit_enabled cfg) (max_drawdown_pct cfg)
                         (peak_equity_usd account) (equity_usd account))))"

section \<open>What the checks accept\<close>

definition valid_account :: "account_state \<Rightarrow> bool" where
  "valid_account a \<longleftrightarrow>
     float_is_finite (equity_usd a) \<and> 0 < equity_usd a \<and>
     float_is_finite (available_margin_usd a) \<and> 0 \<le> available_margin_usd a"

lemma validate_account_None: "validate_account a = None \<longleftrightarrow> valid_account a"
  by (auto simp: validate_account_def valid_account_def split: if_splits)

lemma validate_constraints_None: "validate_constraints cs = None \<longleftrightarrow> valid_constraints cs"
  by (auto simp: validate_constraints_def validate_core_None [symmetric] split: option.splits)

definition valid_parameters :: "risk_parameters \<Rightarrow> bool" where
  "valid_parameters p \<longleftrightarrow>
     0 < risk_per_trade_pct p \<and> risk_per_trade_pct p \<le> DEFAULT_RISK_PER_TRADE_PCT \<and>
     0 < max_portfolio_risk_pct p \<and> max_portfolio_risk_pct p \<le> DEFAULT_MAX_PORTFOLIO_RISK_PCT \<and>
     0 < max_leverage p \<and> max_leverage p \<le> DEFAULT_MAX_LEVERAGE \<and>
     0 < max_open_positions p \<and> max_open_positions p \<le> DEFAULT_MAX_OPEN_POSITIONS \<and>
     float_is_finite (risk_rounding_tolerance p) \<and> 0 \<le> risk_rounding_tolerance p"

text \<open>A value between zero and a frozen maximum is a finite float.\<close>

lemma float_is_finite_small: "0 \<le> x \<Longrightarrow> x \<le> 2 \<Longrightarrow> float_is_finite x"
  by (simp add: float_is_finite_def)

lemma validate_parameters_None: "validate_parameters p = None \<longleftrightarrow> valid_parameters p"
proof -
  have "float_is_finite v" if "0 < v" "v \<le> DEFAULT_RISK_PER_TRADE_PCT \<or>
      v \<le> DEFAULT_MAX_PORTFOLIO_RISK_PCT \<or> v \<le> DEFAULT_MAX_LEVERAGE" for v
    using that by (intro float_is_finite_small) (auto simp: risk_defaults)
  then show ?thesis
    by (auto simp: validate_parameters_def valid_parameters_def split: if_splits)
qed

definition valid_position :: "position_state \<Rightarrow> bool" where
  "valid_position p \<longleftrightarrow>
     ps_symbol p \<noteq> [] \<and>
     (\<forall>v \<in> {ps_entry_price p, ps_position_size p, ps_stop_initial p, ps_trail_stop p, ps_mark_price p}.
        float_is_finite v \<and> 0 < v) \<and>
     ps_stop_initial p < ps_entry_price p"

lemma positions_loop_None:
  "positions_loop seen ps = None \<longleftrightarrow>
     (\<forall>p \<in> set ps. valid_position p \<and> ps_symbol p \<notin> seen) \<and> distinct (map ps_symbol ps)"
proof (induction ps arbitrary: seen)
  case Nil
  then show ?case by simp
next
  case (Cons p ps)
  have one: "positions_loop seen (p # ps) = None \<longleftrightarrow>
      valid_position p \<and> ps_symbol p \<notin> seen \<and> positions_loop (insert (ps_symbol p) seen) ps = None"
    by (auto simp: valid_position_def not_le split: if_splits)
  show ?case unfolding one Cons.IH by (auto simp: image_iff)
qed

lemma validate_open_positions_None:
  "validate_open_positions ps = None \<longleftrightarrow>
     (\<forall>p \<in> set ps. valid_position p) \<and> distinct (map ps_symbol ps)"
  by (simp add: validate_open_positions_def positions_loop_None)

definition valid_proposal :: "trade_proposal \<Rightarrow> bool" where
  "valid_proposal p \<longleftrightarrow>
     tp_side p = LONG \<and> float_is_finite (tp_entry_price p) \<and> 0 < tp_entry_price p \<and>
     float_is_finite (tp_stop_price p) \<and> 0 < tp_stop_price p \<and>
     (\<forall>a. tp_atr14 p = Some a \<longrightarrow> float_is_finite a \<and> 0 < a) \<and>
     tp_signal_intent_kind p = LONG_ENTRY \<and> tp_strategy_approved p \<and>
     tp_market_data_status p = MD_OK \<and> tp_bot_system_state p = BOT_ACTIVE"

lemma validate_proposal_Nil: "validate_proposal p = [] \<longleftrightarrow> valid_proposal p"
  by (auto simp: validate_proposal_def valid_proposal_def price_errors_def not_le split: option.splits if_splits)

lemma validate_long_stop_None: "validate_long_stop e s = None \<longleftrightarrow> s < e"
  using dsub_pos [of s e] by (cases "s < e") (auto simp: validate_long_stop_def)

lemma check_realized_loss_returns: "0 < eq \<Longrightarrow> \<exists>r. check_realized_loss name en l pnl eq = ret r"
  by (auto simp: check_realized_loss_def split: option.splits)

lemma check_drawdown_returns: "\<exists>r. check_drawdown en l pk eq = ret r"
  by (auto simp: check_drawdown_def split: option.splits)

lemma check_loss_limits_returns:
  assumes "0 < equity_usd a"
  shows "\<exists>r. check_loss_limits a p = ret r"
proof -
  let ?c = "loss_limits p"
  obtain r1 r2 r3 where
    "check_realized_loss ''Daily'' (daily_loss_limit_enabled ?c) (max_daily_loss_pct ?c)
       (daily_realized_pnl_usd a) (equity_usd a) = ret r1"
    "check_realized_loss ''Weekly'' (weekly_loss_limit_enabled ?c) (max_weekly_loss_pct ?c)
       (weekly_realized_pnl_usd a) (equity_usd a) = ret r2"
    "check_drawdown (drawdown_limit_enabled ?c) (max_drawdown_pct ?c) (peak_equity_usd a) (equity_usd a) = ret r3"
    using check_realized_loss_returns [OF assms] check_drawdown_returns by metis
  then show ?thesis
    by (simp add: check_loss_limits_def Let_def split: option.split)
qed

lemma check_realized_loss_code:
  "check_realized_loss name en l pnl eq = ret (Some e) \<Longrightarrow> re_code e = RC_REJECT_DATA"
  by (auto simp: check_realized_loss_def risk_error_of_def cbind_eq_ret split: option.splits if_splits)

lemma check_drawdown_code: "check_drawdown en l pk eq = ret (Some e) \<Longrightarrow> re_code e = RC_REJECT_DATA"
  by (auto simp: check_drawdown_def risk_error_of_def cbind_eq_ret split: option.splits if_splits)

lemma check_loss_limits_code:
  "check_loss_limits a p = ret (Some e) \<Longrightarrow> re_code e = RC_REJECT_DATA"
  by (auto simp: check_loss_limits_def Let_def split: option.splits elim!: cbind_retE
      dest!: check_realized_loss_code check_drawdown_code)

lemma validation_codes:
  "validate_account a = Some e \<Longrightarrow> re_code e = RC_REJECT_DATA"
  "validate_constraints cs = Some e \<Longrightarrow> re_code e = RC_REJECT_DATA"
  "validate_open_positions ps = Some e \<Longrightarrow> re_code e = RC_REJECT_DATA"
  "validate_long_stop en st = Some e \<Longrightarrow> re_code e = RC_REJECT_DATA"
  "validate_parameters p = Some e \<Longrightarrow> re_code e = RC_REJECT_DATA"
proof -
  have loop: "positions_loop seen ps = Some e \<Longrightarrow> re_code e = RC_REJECT_DATA" for seen
    by (induction ps arbitrary: seen)
      (auto simp: risk_error_of_def risk_error_with_def split: if_splits option.splits)
  show "validate_open_positions ps = Some e \<Longrightarrow> re_code e = RC_REJECT_DATA"
    by (simp add: validate_open_positions_def loop)
qed (auto simp: validate_account_def validate_constraints_def validate_long_stop_def
    validate_parameters_def risk_error_of_def risk_error_with_def split: if_splits option.splits)

lemma validate_proposal_codes:
  "e \<in> set (validate_proposal p) \<Longrightarrow> re_code e \<in> {RC_REJECT_DATA, RC_REJECT_NO_SIGNAL}"
  by (auto simp: validate_proposal_def price_errors_def risk_error_of_def risk_error_with_def
      split: option.splits if_splits)

end
