(* ===== verification/Risk_Sizing.thy ===== *)
theory Risk_Sizing
  imports Risk_Models Rounding
begin

text \<open>
  Portfolio risk (\<open>services/risk_engine/portfolio.py\<close>) and position sizing
  (\<open>services/risk_engine/sizing.py\<close>).

  The loop \<open>apply_risk_cap_after_rounding\<close> steps a quantity down until its risk is within
  the limits. It is defined by \<open>partial_function\<close>: with 28-digit arithmetic nothing in the
  code bounds the number of steps, so that it returns is a theorem, on the part of the
  grid the arithmetic represents exactly; there it returns the largest admissible
  quantity.
\<close>

section \<open>Portfolio\<close>

definition effective_stop_of :: "decimal \<Rightarrow> decimal \<Rightarrow> decimal" where
  "effective_stop_of stop_initial trail_stop = max stop_initial trail_stop"

definition open_risk_usd :: "position_state \<Rightarrow> decimal" where
  "open_risk_usd p =
     (let eff = effective_stop_of (ps_stop_initial p) (ps_trail_stop p);
          distance = max 0 (dsub (ps_entry_price p) eff)
      in dmul (ps_position_size p) distance)"

definition current_open_risk_usd :: "position_state list \<Rightarrow> decimal" where
  "current_open_risk_usd ps = dsum (map open_risk_usd ps)"

definition total_notional_usd :: "position_state list \<Rightarrow> decimal" where
  "total_notional_usd ps = dsum (map (\<lambda>p. dmul (ps_position_size p) (ps_mark_price p)) ps)"

definition build_portfolio_snapshot ::
  "decimal \<Rightarrow> position_state list \<Rightarrow> decimal \<Rightarrow> decimal \<Rightarrow> decimal \<Rightarrow> portfolio_risk_snapshot"
where
  "build_portfolio_snapshot equity_usd' ps new_entry_price new_quantity new_stop_distance =
     (let current = current_open_risk_usd ps;
          actual_new_risk = dmul new_quantity new_stop_distance;
          projected = dadd current actual_new_risk;
          total_notional = total_notional_usd ps;
          projected_notional = dadd total_notional (dmul new_quantity new_entry_price);
          equity = (if 0 < equity_usd' then equity_usd' else 1)
      in \<lparr>pr_current_open_risk_usd = current,
          pr_current_open_risk_pct = dquot current equity,
          pr_projected_portfolio_risk_usd = projected,
          pr_projected_portfolio_risk_pct = dquot projected equity,
          pr_total_notional_usd = total_notional,
          pr_projected_notional_usd = projected_notional,
          pr_effective_leverage = dquot projected_notional equity\<rparr>)"

section \<open>Sizing\<close>

definition compute_stop_distance :: "decimal \<Rightarrow> decimal \<Rightarrow> decimal" where
  "compute_stop_distance entry_price stop_price = dsub entry_price stop_price"

definition compute_risk_budget :: "decimal \<Rightarrow> risk_parameters \<Rightarrow> decimal" where
  "compute_risk_budget equity params = dmul equity (risk_per_trade_pct params)"

definition compute_raw_quantity :: "decimal \<Rightarrow> decimal \<Rightarrow> decimal comp" where
  "compute_raw_quantity risk_budget stop_distance = ddiv risk_budget stop_distance"

partial_function (option) risk_cap_loop ::
  "decimal \<Rightarrow> decimal \<Rightarrow> decimal \<Rightarrow> decimal \<Rightarrow> decimal \<Rightarrow> decimal \<Rightarrow> decimal \<Rightarrow> (py_error + decimal option) option"
where
  "risk_cap_loop stop_distance equity risk_budget step minq trade_limit qty =
     (if qty < minq then ret None
      else case ddiv (dmul qty stop_distance) equity of
             None \<Rightarrow> None
           | Some (Inl e) \<Rightarrow> raise e
           | Some (Inr actual_pct) \<Rightarrow>
               if dmul qty stop_distance \<le> risk_budget \<and> actual_pct \<le> trade_limit then ret (Some qty)
               else case floor_to_step (dsub qty step) step of
                      None \<Rightarrow> None
                    | Some (Inl e) \<Rightarrow> raise e
                    | Some (Inr next_qty) \<Rightarrow>
                        if next_qty = qty then ret None
                        else risk_cap_loop stop_distance equity risk_budget step minq trade_limit next_qty)"

definition apply_risk_cap_after_rounding ::
  "decimal \<Rightarrow> decimal \<Rightarrow> decimal \<Rightarrow> decimal \<Rightarrow> decimal \<Rightarrow> decimal \<Rightarrow> risk_parameters \<Rightarrow> decimal option comp"
where
  "apply_risk_cap_after_rounding quantity stop_distance equity risk_budget step minq params =
     (let trade_limit = dmul (risk_per_trade_pct params) (dadd 1 (risk_rounding_tolerance params))
      in risk_cap_loop stop_distance equity risk_budget step minq trade_limit quantity)"

definition zero_sizing :: "decimal \<Rightarrow> decimal \<Rightarrow> decimal \<Rightarrow> position_sizing_result" where
  "zero_sizing risk_budget stop_distance raw_qty =
     \<lparr>sz_risk_budget_usd = risk_budget, sz_stop_distance_usd = stop_distance,
      sz_raw_quantity = raw_qty, sz_rounded_quantity = 0,
      sz_actual_trade_risk_usd = 0, sz_actual_trade_risk_pct = 0\<rparr>"

definition compute_position_sizing ::
  "decimal \<Rightarrow> decimal \<Rightarrow> decimal \<Rightarrow> decimal \<Rightarrow> decimal \<Rightarrow> risk_parameters \<Rightarrow> position_sizing_result option comp"
where
  "compute_position_sizing equity entry_price stop_price step minq params =
     (let stop_distance = compute_stop_distance entry_price stop_price
      in if stop_distance \<le> 0 then ret None
         else let risk_budget = compute_risk_budget equity params
              in cbind (compute_raw_quantity risk_budget stop_distance) (\<lambda>raw_qty.
                 cbind (floor_to_step raw_qty step) (\<lambda>rounded.
                 if rounded \<le> 0 then ret (Some (zero_sizing risk_budget stop_distance raw_qty))
                 else cbind (apply_risk_cap_after_rounding rounded stop_distance equity risk_budget
                               step minq params) (\<lambda>final_qty.
                      case final_qty of
                        None \<Rightarrow> ret (Some (zero_sizing risk_budget stop_distance raw_qty))
                      | Some q \<Rightarrow>
                          let actual_risk = dmul q stop_distance
                          in cbind (ddiv actual_risk equity) (\<lambda>pct.
                             ret (Some \<lparr>sz_risk_budget_usd = risk_budget,
                                        sz_stop_distance_usd = stop_distance,
                                        sz_raw_quantity = raw_qty,
                                        sz_rounded_quantity = q,
                                        sz_actual_trade_risk_usd = actual_risk,
                                        sz_actual_trade_risk_pct = pct\<rparr>))))))"

definition cap_quantity_for_leverage ::
  "decimal \<Rightarrow> decimal \<Rightarrow> decimal \<Rightarrow> decimal \<Rightarrow> decimal \<Rightarrow> decimal \<Rightarrow> decimal comp"
where
  "cap_quantity_for_leverage quantity entry_price equity total_notional step max_lev =
     (let projected_notional = dadd total_notional (dmul quantity entry_price)
      in cbind (ddiv projected_notional equity) (\<lambda>projected_leverage.
         if projected_leverage \<le> max_lev then ret quantity
         else let max_new_notional = dsub (dmul max_lev equity) total_notional
              in if max_new_notional \<le> 0 then ret 0
                 else cbind (ddiv max_new_notional entry_price) (\<lambda>q.
                      cbind (floor_to_step q step) (\<lambda>capped. ret (min quantity capped)))))"

definition cap_quantity_for_margin ::
  "decimal \<Rightarrow> decimal \<Rightarrow> decimal \<Rightarrow> decimal \<Rightarrow> decimal \<Rightarrow> decimal comp"
where
  "cap_quantity_for_margin quantity entry_price available_margin max_lev step =
     (if available_margin < 0 then ret 0
      else let notional = dmul quantity entry_price
           in cbind (ddiv notional max_lev) (\<lambda>required_margin.
              if required_margin \<le> available_margin then ret quantity
              else let max_notional = dmul available_margin max_lev
                   in if max_notional \<le> 0 then ret 0
                      else cbind (ddiv max_notional entry_price) (\<lambda>q.
                           cbind (floor_to_step q step) (\<lambda>capped. ret (min quantity capped)))))"


section \<open>The risk cap\<close>

text \<open>The test of the loop: the risk of a quantity is within the budget and the limit.\<close>

definition risk_ok :: "decimal \<Rightarrow> decimal \<Rightarrow> decimal \<Rightarrow> decimal \<Rightarrow> decimal \<Rightarrow> bool" where
  "risk_ok stop_distance equity risk_budget trade_limit q \<longleftrightarrow>
     dmul q stop_distance \<le> risk_budget \<and> dquot (dmul q stop_distance) equity \<le> trade_limit"

text \<open>A smaller quantity has no more risk, so admissibility is downward closed.\<close>

lemma risk_ok_antimono:
  assumes "risk_ok sd eq b l q" and "q' \<le> q" and "0 \<le> sd" and "0 < eq"
  shows "risk_ok sd eq b l q'"
proof -
  have "dmul q' sd \<le> dmul q sd" using assms by (intro dmul_mono)
  moreover from this have "dquot (dmul q' sd) eq \<le> dquot (dmul q sd) eq"
    using assms by (intro dquot_mono) simp_all
  ultimately show ?thesis using assms(1) by (simp add: risk_ok_def)
qed

lemma risk_cap_loop_unfold:
  assumes "0 < eq" and "0 < s"
  shows "risk_cap_loop sd eq b s m l q =
     (if q < m then ret None
      else if risk_ok sd eq b l q then ret (Some q)
      else let n = fts (dsub q s) s in if n = q then ret None else risk_cap_loop sd eq b s m l n)"
  using assms by (subst risk_cap_loop.simps) (simp add: ret_def risk_ok_def Let_def)

text \<open>Whatever the loop returns is at least the minimum and within the limits.\<close>

lemma risk_cap_loop_sound:
  assumes "risk_cap_loop sd eq b s m l q = ret (Some r)"
  shows "m \<le> r \<and> eq \<noteq> 0 \<and> risk_ok sd eq b l r"
proof -
  have "\<forall>r. z = Inr (Some r) \<longrightarrow> m \<le> r \<and> eq \<noteq> 0 \<and> risk_ok sd eq b l r"
    if "risk_cap_loop sd eq b s m l q = Some z" for z
    using that
  proof (rule risk_cap_loop.raw_induct [rotated, where P = "\<lambda>sd eq b s m l q z.
        \<forall>r. z = Inr (Some r) \<longrightarrow> m \<le> r \<and> eq \<noteq> 0 \<and> risk_ok sd eq b l r"])
  qed (auto simp: ret_def raise_def ddiv_def risk_ok_def split: if_splits option.splits sum.splits)
  with assms show ?thesis by (simp add: ret_def)
qed

text \<open>
  On the exact part of the grid the loop returns, and finds the largest admissible grid
  quantity: \<open>cap_result\<close> states this of the result for the start \<open>k\<close> steps.
\<close>

definition cap_result :: "decimal \<Rightarrow> decimal \<Rightarrow> (decimal \<Rightarrow> bool) \<Rightarrow> int \<Rightarrow> decimal option \<Rightarrow> bool" where
  "cap_result m s ok k res \<longleftrightarrow>
     (case res of
        None \<Rightarrow> \<forall>j \<le> k. m \<le> of_int j * s \<longrightarrow> \<not> ok (of_int j * s)
      | Some r \<Rightarrow> \<exists>j \<le> k. r = of_int j * s \<and> m \<le> r \<and> ok r \<and> (\<forall>i. j < i \<and> i \<le> k \<longrightarrow> \<not> ok (of_int i * s)))"

lemma cap_result_step:
  assumes "cap_result m s ok (k - 1) res" and "\<not> ok (of_int k * s)"
  shows "cap_result m s ok k res"
proof (cases res)
  case None
  with assms have none: "\<forall>j \<le> k - 1. m \<le> of_int j * s \<longrightarrow> \<not> ok (of_int j * s)"
    by (simp add: cap_result_def)
  have "\<not> ok (of_int j * s)" if "j \<le> k" "m \<le> of_int j * s" for j
    using that none assms(2) by (cases "j = k") auto
  with None show ?thesis by (simp add: cap_result_def)
next
  case (Some r)
  with assms obtain j where j: "j \<le> k - 1" "r = of_int j * s" "m \<le> r" "ok r"
    "\<forall>i. j < i \<and> i \<le> k - 1 \<longrightarrow> \<not> ok (of_int i * s)"
    by (auto simp: cap_result_def)
  have "\<not> ok (of_int i * s)" if "j < i" "i \<le> k" for i
    using that j(5) assms(2) by (cases "i = k") auto
  with j(1-4) Some show ?thesis by (auto simp: cap_result_def intro!: exI [of _ j])
qed

lemma risk_cap_loop_grid:
  assumes grid: "grid_ok s n" and eq: "0 < eq" and m: "0 < m"
  shows "k \<le> n \<Longrightarrow> \<exists>res. risk_cap_loop sd eq b s m l (of_int k * s) = ret res \<and>
    cap_result m s (risk_ok sd eq b l) k res"
proof (induction "nat k" arbitrary: k rule: less_induct)
  case less
  have s: "0 < s" using grid_ok_step_pos [OF grid] .
  note unfold = risk_cap_loop_unfold [OF eq s, of sd b m l "of_int k * s"]
  consider "of_int k * s < m" | "m \<le> of_int k * s" "risk_ok sd eq b l (of_int k * s)"
    | "m \<le> of_int k * s" "\<not> risk_ok sd eq b l (of_int k * s)"
    by linarith
  then show ?case
  proof cases
    case 1
    have "\<not> m \<le> of_int j * s" if "j \<le> k" for j
      unfolding not_le using 1 that s by (intro le_less_trans [OF _ 1] mult_right_mono) simp_all
    then show ?thesis using 1 by (auto simp: unfold cap_result_def)
  next
    case 2
    then show ?thesis by (auto simp: unfold cap_result_def intro!: exI [of _ k])
  next
    case 3
    have "0 < of_int k * s" using 3 m by linarith
    then have k: "0 < k" using s by (simp add: zero_less_mult_iff)
    have "dsub (of_int k * s) s = dround (of_int (k - 1) * s)"
      by (simp add: dsub_def algebra_simps)
    then have "fts (dsub (of_int k * s) s) s = of_int (k - 1) * s"
      using k less.prems grid_round [OF grid, of "k - 1"] fts_grid [OF grid, of "k - 1"] by simp
    moreover have "of_int (k - 1) * s \<noteq> of_int k * s" using s by simp
    ultimately have step: "risk_cap_loop sd eq b s m l (of_int k * s) =
        risk_cap_loop sd eq b s m l (of_int (k - 1) * s)"
      using 3 by (simp add: unfold Let_def)
    from less.hyps [of "k - 1"] k less.prems obtain res where
      "risk_cap_loop sd eq b s m l (of_int (k - 1) * s) = ret res"
      "cap_result m s (risk_ok sd eq b l) (k - 1) res"
      by auto
    then show ?thesis
      using step cap_result_step [of m s "risk_ok sd eq b l" k res] 3(2) by auto
  qed
qed

section \<open>Caps only reduce\<close>

text \<open>A multiple of the quantity step, as the code computes it.\<close>

definition step_multiple :: "decimal \<Rightarrow> decimal \<Rightarrow> bool" where
  "step_multiple s q \<longleftrightarrow> (\<exists>k::int. q = dround (of_int k * s))"

lemma step_multiple_0 [simp]: "step_multiple s 0"
  unfolding step_multiple_def by (rule exI [of _ 0]) simp

lemma step_multiple_fts [simp]: "step_multiple s (fts v s)"
  unfolding step_multiple_def fts_def dmul_def dtrunc_def by blast

lemma step_multiple_min: "step_multiple s a \<Longrightarrow> step_multiple s b \<Longrightarrow> step_multiple s (min a b)"
  by (simp add: min_def)

lemma risk_cap_loop_multiple:
  assumes "risk_cap_loop sd eq b s m l q = ret (Some r)" and "step_multiple s q"
  shows "step_multiple s r"
proof -
  have "step_multiple s q \<longrightarrow> (\<forall>r. z = Inr (Some r) \<longrightarrow> step_multiple s r)"
    if "risk_cap_loop sd eq b s m l q = Some z" for z
    using that
  proof (rule risk_cap_loop.raw_induct [rotated, where P = "\<lambda>sd eq b s m l q z.
        step_multiple s q \<longrightarrow> (\<forall>r. z = Inr (Some r) \<longrightarrow> step_multiple s r)"])
    fix loop :: "rat \<Rightarrow> rat \<Rightarrow> rat \<Rightarrow> rat \<Rightarrow> rat \<Rightarrow> rat \<Rightarrow> rat \<Rightarrow> (py_error + rat option) option"
    fix sd eq b s m l q z
    assume IH: "\<And>sd eq b s m l q z. loop sd eq b s m l q = Some z \<Longrightarrow>
        step_multiple s q \<longrightarrow> (\<forall>r. z = Inr (Some r) \<longrightarrow> step_multiple s r)"
      and body: "(if q < m then ret None
       else case ddiv (dmul q sd) eq of None \<Rightarrow> None | Some (Inl e) \<Rightarrow> raise e
         | Some (Inr pct) \<Rightarrow> if dmul q sd \<le> b \<and> pct \<le> l then ret (Some q)
             else case floor_to_step (dsub q s) s of None \<Rightarrow> None | Some (Inl e) \<Rightarrow> raise e
               | Some (Inr n) \<Rightarrow> if n = q then ret None else loop sd eq b s m l n) = Some z"
    have "step_multiple s n" if "floor_to_step (dsub q s) s = Some (Inr n)" for n
      using that floor_to_step_eq_ret [of "dsub q s" s n] by (simp add: ret_def)
    with body IH show "step_multiple s q \<longrightarrow> (\<forall>r. z = Inr (Some r) \<longrightarrow> step_multiple s r)"
      by (auto simp: ret_def raise_def split: if_splits option.splits sum.splits)
  qed
  with assms show ?thesis by (simp add: ret_def)
qed

text \<open>
  The contract of the leverage and the margin cap: a cap never raises a quantity and
  keeps it a multiple of the step; two caps in a row are a cap again.
\<close>

locale quantity_cap =
  fixes cap :: "decimal \<Rightarrow> decimal comp" and step :: decimal
  assumes cap_le: "0 \<le> q \<Longrightarrow> cap q = ret r \<Longrightarrow> r \<le> q"
    and cap_multiple: "step_multiple step q \<Longrightarrow> cap q = ret r \<Longrightarrow> step_multiple step r"

locale two_caps = first: quantity_cap cap1 step + second: quantity_cap cap2 step
  for cap1 cap2 step +
  assumes first_nonneg: "0 \<le> q \<Longrightarrow> cap1 q = ret r \<Longrightarrow> 0 \<le> r"
begin

lemma both_le:
  assumes "0 \<le> q" and "cbind (cap1 q) cap2 = ret r"
  shows "r \<le> q"
proof -
  from assms(2) obtain x where x: "cap1 q = ret x" "cap2 x = ret r" by (auto simp: cbind_eq_ret)
  have "r \<le> x" using first_nonneg [OF assms(1) x(1)] x(2) by (rule second.cap_le)
  also have "x \<le> q" using assms(1) x(1) by (rule first.cap_le)
  finally show ?thesis .
qed

lemma both_multiple: "step_multiple step q \<Longrightarrow> cbind (cap1 q) cap2 = ret r \<Longrightarrow> step_multiple step r"
  by (auto simp: cbind_eq_ret intro: first.cap_multiple second.cap_multiple)

end

lemma cap_leverage_cases:
  assumes "cap_quantity_for_leverage q e eq tn s ml = ret r"
  shows "eq \<noteq> 0 \<and> (r = q \<and> dquot (dadd tn (dmul q e)) eq \<le> ml \<or> r = 0 \<or>
     (\<exists>x. 0 < s \<and> e \<noteq> 0 \<and> 0 < x \<and> r = min q (fts (dquot x e) s)))"
  using assms
  by (auto simp: cap_quantity_for_leverage_def Let_def cbind_eq_ret ddiv_eq_ret floor_to_step_eq_ret not_le
      split: if_splits)

lemma cap_margin_cases:
  assumes "cap_quantity_for_margin q e am ml s = ret r"
  shows "r = q \<or> r = 0 \<or> (\<exists>x. 0 < s \<and> e \<noteq> 0 \<and> 0 < x \<and> r = min q (fts (dquot x e) s))"
  using assms
  by (auto simp: cap_quantity_for_margin_def Let_def cbind_eq_ret ddiv_eq_ret floor_to_step_eq_ret not_le
      split: if_splits)

interpretation lev: quantity_cap "\<lambda>q. cap_quantity_for_leverage q e eq tn s ml" s for e eq tn s ml
  by unfold_locales (auto dest!: cap_leverage_cases intro: step_multiple_min)

interpretation mar: quantity_cap "\<lambda>q. cap_quantity_for_margin q e am ml s" s for e am ml s
  by unfold_locales (auto dest!: cap_margin_cases intro: step_multiple_min)

text \<open>For a positive price the leverage cap keeps a quantity non-negative.\<close>

lemma cap_leverage_nonneg:
  assumes "0 < e" and "0 \<le> q" and "cap_quantity_for_leverage q e eq tn s ml = ret r"
  shows "0 \<le> r"
  using cap_leverage_cases [OF assms(3)] assms(1,2) by (auto intro!: fts_nonneg dquot_nonneg)

text \<open>
  The caps in the order of the engine. A validated price is positive; writing it as an
  absolute value states the contract for every price.
\<close>

interpretation lev_mar: two_caps
  "\<lambda>q. cap_quantity_for_leverage q \<bar>e\<bar> eq tn s ml" "\<lambda>q. cap_quantity_for_margin q \<bar>e\<bar> am ml s" s
  for e eq tn s ml am
proof unfold_locales
  fix q r
  assume "0 \<le> q" and cap: "cap_quantity_for_leverage q \<bar>e\<bar> eq tn s ml = ret r"
  show "0 \<le> r"
  proof (cases "e = 0")
    case True
    with \<open>0 \<le> q\<close> show ?thesis using cap_leverage_cases [OF cap] by auto
  next
    case False
    with \<open>0 \<le> q\<close> show ?thesis by (intro cap_leverage_nonneg [OF _ _ cap]) simp_all
  qed
qed

section \<open>The sizing returns on the exact grid\<close>

definition on_grid :: "decimal \<Rightarrow> int \<Rightarrow> decimal \<Rightarrow> bool" where
  "on_grid s n q \<longleftrightarrow> (\<exists>k. 0 \<le> k \<and> k \<le> n \<and> q = of_int k * s)"

lemma on_grid_bounds: "on_grid s n q \<Longrightarrow> 0 < s \<Longrightarrow> 0 \<le> q \<and> q \<le> of_int n * s"
  by (auto simp: on_grid_def intro!: mult_right_mono)

lemma on_grid_0: "0 \<le> n \<Longrightarrow> on_grid s n 0"
  unfolding on_grid_def by (rule exI [of _ 0]) simp

lemma on_grid_fts:
  assumes "grid_ok s n" and "0 \<le> v" and "v \<le> of_int n * s"
  shows "on_grid s n (fts v s)"
  using fts_on_grid [OF assms] unfolding on_grid_def by metis

lemma on_grid_min_fts:
  assumes grid: "grid_ok s n" and "on_grid s n q" and "0 \<le> v"
  shows "on_grid s n (min q (fts v s))"
proof (cases "v \<le> of_int n * s")
  case True
  then show ?thesis using on_grid_fts [OF grid assms(3)] assms(2) by (simp add: min_def)
next
  case False
  then have "of_int n * s \<le> fts v s"
    using grid by (intro fts_ge_grid [OF grid]) (auto simp: grid_ok_def)
  then have "q \<le> fts v s" using on_grid_bounds [OF assms(2) grid_ok_step_pos [OF grid]] by simp
  with assms(2) show ?thesis by (simp add: min_def)
qed

lemma risk_cap_returns:
  assumes grid: "grid_ok s n" and eq: "0 < eq" and m: "0 < m" and q: "on_grid s n q"
  obtains res where "apply_risk_cap_after_rounding q sd eq b s m p = ret res"
    and "\<And>r. res = Some r \<Longrightarrow> on_grid s n r \<and> r \<le> q"
proof -
  from q obtain k where k: "0 \<le> k" "k \<le> n" "q = of_int k * s" by (auto simp: on_grid_def)
  obtain res where res: "apply_risk_cap_after_rounding q sd eq b s m p = ret res"
    "cap_result m s (risk_ok sd eq b (dmul (risk_per_trade_pct p) (dadd 1 (risk_rounding_tolerance p)))) k res"
    using risk_cap_loop_grid [OF grid eq m k(2), of sd b
        "dmul (risk_per_trade_pct p) (dadd 1 (risk_rounding_tolerance p))"]
    unfolding apply_risk_cap_after_rounding_def k(3) Let_def by blast
  have s: "0 < s" using grid_ok_step_pos [OF grid] .
  have "on_grid s n r \<and> r \<le> q" if "res = Some r" for r
  proof -
    from that res(2) obtain j where j: "j \<le> k" "r = of_int j * s" "m \<le> r"
      by (auto simp: cap_result_def)
    then have "0 < of_int j * s" using m by linarith
    then have "0 \<le> j" using s by (simp add: zero_less_mult_iff)
    with j k s show ?thesis by (auto simp: on_grid_def intro!: mult_right_mono)
  qed
  with res(1) show ?thesis by (rule that)
qed

lemma cap_leverage_returns:
  assumes "grid_ok s n" and "on_grid s n q" and "0 < e" and "0 < eq"
  obtains r where "cap_quantity_for_leverage q e eq tn s ml = ret r" and "on_grid s n r"
proof -
  have s: "0 < s" "0 \<le> n" using assms(1) by (auto simp: grid_ok_def)
  have "\<exists>r. cap_quantity_for_leverage q e eq tn s ml = ret r"
    using assms s by (simp add: cap_quantity_for_leverage_def Let_def)
  then obtain r where r: "cap_quantity_for_leverage q e eq tn s ml = ret r" ..
  have "on_grid s n r"
    using cap_leverage_cases [OF r] assms s
    by (auto intro!: on_grid_0 on_grid_min_fts [OF assms(1,2)] dquot_nonneg)
  with r show ?thesis by (rule that)
qed

lemma cap_margin_returns:
  assumes "grid_ok s n" and "on_grid s n q" and "0 < e" and "0 < ml"
  obtains r where "cap_quantity_for_margin q e am ml s = ret r" and "on_grid s n r"
proof -
  have s: "0 < s" "0 \<le> n" using assms(1) by (auto simp: grid_ok_def)
  have "\<exists>r. cap_quantity_for_margin q e am ml s = ret r"
    using assms s by (simp add: cap_quantity_for_margin_def Let_def)
  then obtain r where r: "cap_quantity_for_margin q e am ml s = ret r" ..
  have "on_grid s n r"
    using cap_margin_cases [OF r] assms s
    by (auto intro!: on_grid_0 on_grid_min_fts [OF assms(1,2)] dquot_nonneg)
  with r show ?thesis by (rule that)
qed

text \<open>The sizing, too, returns on the exact grid, and its quantity stays there.\<close>

lemma position_sizing_returns:
  assumes grid: "grid_ok s n" and eq: "0 < eq" and m: "0 < m" and p: "0 < risk_per_trade_pct p"
    and range: "dquot (compute_risk_budget eq p) (dsub e st) \<le> of_int n * s"
  obtains res where "compute_position_sizing eq e st s m p = ret res"
    and "\<And>z. res = Some z \<Longrightarrow> on_grid s n (sz_rounded_quantity z)"
proof (cases "dsub e st \<le> 0")
  case True
  then have "compute_position_sizing eq e st s m p = ret None"
    by (simp add: compute_position_sizing_def compute_stop_distance_def)
  then show ?thesis by (rule that) simp
next
  case False
  let ?raw = "dquot (compute_risk_budget eq p) (dsub e st)"
  have s: "0 < s" "0 \<le> n" using grid by (auto simp: grid_ok_def)
  have "0 \<le> compute_risk_budget eq p" using eq p by (simp add: compute_risk_budget_def dmul_nonneg)
  then have raw: "on_grid s n (fts ?raw s)"
    using False range by (intro on_grid_fts [OF grid]) (auto intro: dquot_nonneg)
  obtain res where res:
    "apply_risk_cap_after_rounding (fts ?raw s) (dsub e st) eq (compute_risk_budget eq p) s m p = ret res"
    "\<And>r. res = Some r \<Longrightarrow> on_grid s n r \<and> r \<le> fts ?raw s"
    using risk_cap_returns [OF grid eq m raw] by metis
  show ?thesis
  proof (cases "fts ?raw s \<le> 0 \<or> res = None")
    case True
    then have "compute_position_sizing eq e st s m p =
        ret (Some (zero_sizing (compute_risk_budget eq p) (dsub e st) ?raw))"
      using False s res(1)
      by (auto simp: compute_position_sizing_def compute_stop_distance_def compute_raw_quantity_def Let_def)
    then show ?thesis by (rule that) (use s in \<open>simp add: zero_sizing_def on_grid_0\<close>)
  next
    case nonzero: False
    then obtain q where q: "res = Some q" by auto
    show ?thesis
      by (rule that) (use False s res(1) nonzero q eq res(2) [OF q] in
          \<open>auto simp: compute_position_sizing_def compute_stop_distance_def compute_raw_quantity_def Let_def\<close>)
  qed
qed

end
