(* ===== verification/Risk_Engine.thy ===== *)
theory Risk_Engine
  imports Risk_Validation Risk_Sizing
begin

text \<open>
  \<open>RiskEngine.evaluate\<close> of \<open>services/risk_engine/engine.py\<close>, in the order of the code: the
  admission checks, the sizing with its caps, and the portfolio limits. An early return is
  the left summand of a stage's result.
\<close>

section \<open>Definitions\<close>

definition reject ::
  "trade_proposal \<Rightarrow> reason_code list \<Rightarrow> risk_error list \<Rightarrow> risk_parameters \<Rightarrow> decimal option \<Rightarrow>
   risk_decision"
where
  "reject proposal reason_codes errors params current_open_risk =
     \<lparr>approved = False,
      rd_symbol = tp_symbol proposal,
      requested_entry_price = tp_entry_price proposal,
      requested_stop_price = tp_stop_price proposal,
      raw_quantity = None, rounded_quantity = None,
      actual_trade_risk_usd = None, actual_trade_risk_pct = None,
      rd_current_open_risk_usd = current_open_risk,
      projected_portfolio_risk_usd = None, projected_portfolio_risk_pct = None,
      required_margin_usd = None, effective_leverage = None,
      rd_reason_codes = reason_codes,
      rd_strategy_version = rp_strategy_version params,
      rd_risk_specification_version = rp_risk_specification_version params,
      rd_errors = errors\<rparr>"

definition stop_here :: "trade_proposal \<Rightarrow> risk_error \<Rightarrow> risk_parameters \<Rightarrow> (risk_decision + 'a) comp" where
  "stop_here proposal e params = ret (Inl (reject proposal [re_code e] [e] params None))"

text \<open>The rest of the method runs unless the stage returned a decision.\<close>

definition or_return :: "('d + 'a) comp \<Rightarrow> ('a \<Rightarrow> 'd comp) \<Rightarrow> 'd comp" where
  "or_return m f = cbind m (\<lambda>r. case r of Inl d \<Rightarrow> ret d | Inr v \<Rightarrow> f v)"

text \<open>Parameters, account, constraints, proposal, positions and loss limits.\<close>

definition check_inputs ::
  "trade_proposal \<Rightarrow> account_state \<Rightarrow> symbol_constraints \<Rightarrow> position_state list \<Rightarrow> risk_parameters \<Rightarrow>
   (risk_decision + unit) comp"
where
  "check_inputs proposal account constraints open_positions p =
     (case validate_parameters p of Some e \<Rightarrow> stop_here proposal e p | None \<Rightarrow>
      case validate_account account of Some e \<Rightarrow> stop_here proposal e p | None \<Rightarrow>
      case validate_constraints constraints of Some e \<Rightarrow> stop_here proposal e p | None \<Rightarrow>
      if validate_proposal proposal \<noteq> []
      then ret (Inl (reject proposal (map re_code (validate_proposal proposal))
                      (validate_proposal proposal) p None))
      else
      case validate_open_positions open_positions of Some e \<Rightarrow> stop_here proposal e p | None \<Rightarrow>
      cbind (check_loss_limits account p) (\<lambda>loss_err.
      case loss_err of Some e \<Rightarrow> stop_here proposal e p | None \<Rightarrow> ret (Inr ())))"

text \<open>The stop on the tick grid, duplicates, and the number of positions.\<close>

definition check_admission ::
  "trade_proposal \<Rightarrow> symbol_constraints \<Rightarrow> position_state list \<Rightarrow> open_order_state list \<Rightarrow> string set \<Rightarrow>
   risk_parameters \<Rightarrow> (risk_decision + decimal) comp"
where
  "check_admission proposal constraints open_positions open_orders processed p =
     cbind (round_to_tick (tp_stop_price proposal) (price_tick_size constraints)) (\<lambda>stop_price.
     case validate_long_stop (tp_entry_price proposal) stop_price of
       Some e \<Rightarrow> stop_here proposal e p
     | None \<Rightarrow>
         if tp_client_intent_id proposal \<in> processed
         then stop_here proposal
                (risk_error_of RC_REJECT_DATA ''Duplicate client_intent_id already processed'') p
         else if list_ex (\<lambda>pos. ps_symbol pos = tp_symbol proposal) open_positions
         then stop_here proposal
                (risk_error_of RC_REJECT_DUPLICATE_SYMBOL ''Position already open for symbol'') p
         else if list_ex (\<lambda>ord. oo_symbol ord = tp_symbol proposal \<and> oo_is_entry ord) open_orders
         then stop_here proposal
                (risk_error_of RC_REJECT_DUPLICATE_SYMBOL ''Conflicting open entry order for symbol'') p
         else if max_open_positions p \<le> int (length open_positions)
         then stop_here proposal
                (risk_error_of RC_REJECT_MAX_POSITIONS ''Maximum open positions reached'') p
         else ret (Inr stop_price))"

text \<open>The quantity: the sizing, the leverage and margin caps, the risk cap, the minima.\<close>

definition size_quantity ::
  "trade_proposal \<Rightarrow> account_state \<Rightarrow> symbol_constraints \<Rightarrow> position_state list \<Rightarrow> risk_parameters \<Rightarrow>
   decimal \<Rightarrow> (risk_decision + position_sizing_result \<times> decimal) comp"
where
  "size_quantity proposal account constraints open_positions p stop_price =
     cbind (compute_position_sizing (equity_usd account) (tp_entry_price proposal) stop_price
              (quantity_step constraints) (minimum_quantity constraints) p) (\<lambda>sizing_opt.
     case sizing_opt of
       None \<Rightarrow> stop_here proposal (risk_error_of RC_REJECT_DATA ''Invalid stop distance'') p
     | Some sizing \<Rightarrow>
         if sz_rounded_quantity sizing \<le> 0
         then stop_here proposal (risk_error_of RC_REJECT_RISK_TRADE ''Quantity zero after rounding'') p
         else
         let stop_distance = sz_stop_distance_usd sizing;
             risk_budget = compute_risk_budget (equity_usd account) p;
             existing_notional = total_notional_usd open_positions
         in cbind (cap_quantity_for_leverage (sz_rounded_quantity sizing) (tp_entry_price proposal)
                     (equity_usd account) existing_notional (quantity_step constraints) (max_leverage p))
              (\<lambda>quantity.
            cbind (cap_quantity_for_margin quantity (tp_entry_price proposal)
                     (available_margin_usd account) (max_leverage p) (quantity_step constraints))
              (\<lambda>quantity.
            cbind (apply_risk_cap_after_rounding quantity stop_distance (equity_usd account) risk_budget
                     (quantity_step constraints) (minimum_quantity constraints) p)
              (\<lambda>capped.
            case capped of
              None \<Rightarrow> stop_here proposal (risk_error_of RC_REJECT_LEVERAGE
                         ''Quantity insufficient after leverage/margin reduction'') p
            | Some quantity \<Rightarrow>
                if quantity \<le> 0
                then stop_here proposal (risk_error_of RC_REJECT_LEVERAGE
                       ''Quantity insufficient after leverage/margin reduction'') p
                else if quantity < minimum_quantity constraints
                then stop_here proposal (risk_error_of RC_REJECT_RISK_TRADE ''Minimum quantity not met'') p
                else if dmul quantity (tp_entry_price proposal) < minimum_notional constraints
                then stop_here proposal (risk_error_of RC_REJECT_RISK_TRADE ''Minimum notional not met'') p
                else ret (Inr (sizing, quantity))))))"

text \<open>The portfolio limits and the approval.\<close>

definition check_limits ::
  "trade_proposal \<Rightarrow> account_state \<Rightarrow> position_state list \<Rightarrow> risk_parameters \<Rightarrow> decimal \<Rightarrow>
   position_sizing_result \<Rightarrow> decimal \<Rightarrow> risk_decision comp"
where
  "check_limits proposal account open_positions p stop_price sizing quantity =
     (let entry_price = tp_entry_price proposal;
          stop_distance = sz_stop_distance_usd sizing;
          notional = dmul quantity entry_price;
          portfolio = build_portfolio_snapshot (equity_usd account) open_positions entry_price
                        quantity stop_distance;
          max_portfolio_risk_usd = dmul (equity_usd account) (max_portfolio_risk_pct p);
          reject_with = (\<lambda>code msg. ret (reject proposal [code] [risk_error_of code msg] p
                                          (Some (pr_current_open_risk_usd portfolio))))
      in if max_portfolio_risk_usd < pr_projected_portfolio_risk_usd portfolio
         then reject_with RC_REJECT_RISK_PORTFOLIO ''Projected portfolio risk exceeds limit''
         else if max_leverage p < pr_effective_leverage portfolio
         then reject_with RC_REJECT_LEVERAGE ''Effective leverage exceeds max_leverage''
         else cbind (ddiv notional (max_leverage p)) (\<lambda>required_margin.
              if available_margin_usd account < required_margin
              then reject_with RC_REJECT_LEVERAGE ''Insufficient available margin''
              else let actual_risk = dmul quantity stop_distance
                   in cbind (ddiv actual_risk (equity_usd account)) (\<lambda>risk_pct.
                      ret \<lparr>approved = True,
                           rd_symbol = tp_symbol proposal,
                           requested_entry_price = entry_price,
                           requested_stop_price = stop_price,
                           raw_quantity = Some (sz_raw_quantity sizing),
                           rounded_quantity = Some quantity,
                           actual_trade_risk_usd = Some actual_risk,
                           actual_trade_risk_pct = Some risk_pct,
                           rd_current_open_risk_usd = Some (pr_current_open_risk_usd portfolio),
                           projected_portfolio_risk_usd = Some (pr_projected_portfolio_risk_usd portfolio),
                           projected_portfolio_risk_pct = Some (pr_projected_portfolio_risk_pct portfolio),
                           required_margin_usd = Some required_margin,
                           effective_leverage = Some (pr_effective_leverage portfolio),
                           rd_reason_codes = [RC_RISK_APPROVED],
                           rd_strategy_version = rp_strategy_version p,
                           rd_risk_specification_version = rp_risk_specification_version p,
                           rd_errors = []\<rparr>)))"

definition risk_evaluate ::
  "trade_proposal \<Rightarrow> account_state \<Rightarrow> symbol_constraints \<Rightarrow> position_state list \<Rightarrow>
   open_order_state list \<Rightarrow> string set \<Rightarrow> risk_parameters option \<Rightarrow> risk_decision comp"
where
  "risk_evaluate proposal account constraints open_positions open_orders processed params =
     (let p = (case params of None \<Rightarrow> default_risk_parameters | Some p \<Rightarrow> p)
      in or_return (check_inputs proposal account constraints open_positions p) (\<lambda>_.
         or_return (check_admission proposal constraints open_positions open_orders processed p) (\<lambda>stop_price.
         or_return (size_quantity proposal account constraints open_positions p stop_price)
           (\<lambda>(sizing, quantity).
         check_limits proposal account open_positions p stop_price sizing quantity))))"


section \<open>Stages\<close>

lemma or_return_eq_ret:
  "or_return m f = ret d \<longleftrightarrow> m = ret (Inl d) \<or> (\<exists>v. m = ret (Inr v) \<and> f v = ret d)"
proof
  assume "or_return m f = ret d"
  then obtain r where "m = ret r" "(case r of Inl d \<Rightarrow> ret d | Inr v \<Rightarrow> f v) = ret d"
    unfolding or_return_def by (elim cbind_retE)
  then show "m = ret (Inl d) \<or> (\<exists>v. m = ret (Inr v) \<and> f v = ret d)"
    by (cases r) auto
qed (auto simp: or_return_def)

text \<open>A rejection: the fields of \<open>_reject\<close>, with at least one error and its code.\<close>

definition is_rejection :: "trade_proposal \<Rightarrow> risk_parameters \<Rightarrow> risk_decision \<Rightarrow> bool" where
  "is_rejection proposal p d \<longleftrightarrow>
     (\<exists>errors cor. d = reject proposal (map re_code errors) errors p cor \<and> errors \<noteq> [] \<and>
        RC_RISK_APPROVED \<notin> re_code ` set errors)"

lemma is_rejectionI:
  "re_code e \<noteq> RC_RISK_APPROVED \<Longrightarrow> is_rejection proposal p (reject proposal [re_code e] [e] p cor)"
  unfolding is_rejection_def by (intro exI [of _ "[e]"] exI [of _ cor]) auto

lemma risk_error_of_code [simp]: "re_code (risk_error_of c m) = c"
  by (simp add: risk_error_of_def)

lemma is_rejection_of:
  "c \<noteq> RC_RISK_APPROVED \<Longrightarrow>
   is_rejection proposal p (reject proposal [c] [risk_error_of c msg] p cor)"
  using is_rejectionI [of "risk_error_of c msg"] by simp

lemma stop_here_eq:
  "stop_here proposal e p = ret (Inl d) \<longleftrightarrow> d = reject proposal [re_code e] [e] p None"
  "stop_here proposal e p \<noteq> ret (Inr v)" "stop_here proposal e p \<noteq> raise err" "stop_here proposal e p \<noteq> None"
  by (auto simp: stop_here_def) (simp_all add: ret_def)

definition inputs_ok ::
  "trade_proposal \<Rightarrow> account_state \<Rightarrow> symbol_constraints \<Rightarrow> position_state list \<Rightarrow> risk_parameters \<Rightarrow> bool"
where
  "inputs_ok proposal account constraints ps p \<longleftrightarrow>
     valid_parameters p \<and> valid_account account \<and> valid_constraints constraints \<and>
     valid_proposal proposal \<and> (\<forall>x \<in> set ps. valid_position x) \<and> distinct (map ps_symbol ps) \<and>
     check_loss_limits account p = ret None"

lemmas validations = validate_parameters_None validate_account_None validate_constraints_None
  validate_proposal_Nil validate_open_positions_None

lemma check_inputs_Inr: "check_inputs proposal account cs ps p = ret (Inr u) \<longleftrightarrow> inputs_ok proposal account cs ps p"
proof -
  have positions: "(\<forall>x \<in> set ps. valid_position x) \<and> distinct (map ps_symbol ps) \<longleftrightarrow>
      validate_open_positions ps = None"
    by (simp add: validate_open_positions_None)
  have "inputs_ok proposal account cs ps p \<longleftrightarrow> validate_parameters p = None \<and>
      validate_account account = None \<and> validate_constraints cs = None \<and> validate_proposal proposal = [] \<and>
      validate_open_positions ps = None \<and> check_loss_limits account p = ret None"
    unfolding inputs_ok_def positions [symmetric] by (simp add: validations)
  then show ?thesis
    by (auto simp: check_inputs_def stop_here_eq split: option.splits if_splits elim!: cbind_retE)
qed

lemma check_inputs_Inl:
  assumes "check_inputs proposal account cs ps p = ret (Inl d)"
  shows "is_rejection proposal p d"
proof -
  have "is_rejection proposal p (reject proposal (map re_code (validate_proposal proposal)) (validate_proposal proposal) p None)"
    if "validate_proposal proposal \<noteq> []"
    unfolding is_rejection_def using that validate_proposal_codes by fastforce
  then show ?thesis
    using assms
    by (auto simp: check_inputs_def stop_here_eq split: option.splits if_splits elim!: cbind_retE
        intro!: is_rejectionI dest!: validation_codes check_loss_limits_code)
qed

lemma check_inputs_returns: "\<exists>r. check_inputs proposal account cs ps p = ret r"
proof (cases "validate_account account = None")
  case True
  then have "0 < equity_usd account" by (simp add: validate_account_None valid_account_def)
  from check_loss_limits_returns [OF this, of p] show ?thesis
    by (auto simp: check_inputs_def stop_here_def split: option.splits)
next
  case False
  then show ?thesis by (auto simp: check_inputs_def stop_here_def split: option.splits)
qed

definition admitted ::
  "trade_proposal \<Rightarrow> position_state list \<Rightarrow> open_order_state list \<Rightarrow> string set \<Rightarrow> risk_parameters \<Rightarrow> bool"
where
  "admitted proposal ps ords processed p \<longleftrightarrow>
     tp_client_intent_id proposal \<notin> processed \<and>
     (\<forall>pos \<in> set ps. ps_symbol pos \<noteq> tp_symbol proposal) \<and>
     (\<forall>ord \<in> set ords. oo_symbol ord = tp_symbol proposal \<longrightarrow> \<not> oo_is_entry ord) \<and>
     int (length ps) < max_open_positions p"

lemma check_admission_Inr:
  "check_admission proposal cs ps ords processed p = ret (Inr stop) \<longleftrightarrow>
     0 < price_tick_size cs \<and> stop = fts (tp_stop_price proposal) (price_tick_size cs) \<and>
     stop < tp_entry_price proposal \<and> admitted proposal ps ords processed p"
  by (auto simp: check_admission_def admitted_def cbind_eq_ret round_to_tick_eq_ret stop_here_eq
      list_ex_iff validate_long_stop_None [symmetric] split: option.splits if_splits)

lemma check_admission_Inl:
  "check_admission proposal cs ps ords processed p = ret (Inl d) \<Longrightarrow> is_rejection proposal p d"
  by (auto simp: check_admission_def stop_here_eq elim!: cbind_retE split: option.splits if_splits
      intro!: is_rejectionI is_rejection_of dest!: validation_codes)

lemma check_admission_returns:
  "0 < price_tick_size cs \<Longrightarrow> \<exists>r. check_admission proposal cs ps ords processed p = ret r"
  by (auto simp: check_admission_def stop_here_def split: option.splits)

abbreviation trade_limit_of :: "risk_parameters \<Rightarrow> decimal" where
  "trade_limit_of p \<equiv> dmul (risk_per_trade_pct p) (dadd 1 (risk_rounding_tolerance p))"

lemma apply_risk_cap_sound:
  assumes "apply_risk_cap_after_rounding q sd eq b s m p = ret (Some r)"
  shows "m \<le> r \<and> eq \<noteq> 0 \<and> risk_ok sd eq b (trade_limit_of p) r"
  using assms by (simp add: apply_risk_cap_after_rounding_def risk_cap_loop_sound)

lemma sizing_inversion:
  assumes "compute_position_sizing eq e st s m p = ret (Some z)"
  shows "sz_stop_distance_usd z = dsub e st" and "0 < dsub e st"
    and "sz_raw_quantity z = dquot (compute_risk_budget eq p) (dsub e st)"
    and "step_multiple s (sz_rounded_quantity z)"
proof -
  have multiple: "step_multiple s q"
    if "apply_risk_cap_after_rounding (fts v s) (dsub e st) eq b s m p = ret (Some q)" for v b q
    using that unfolding apply_risk_cap_after_rounding_def Let_def
    by (rule risk_cap_loop_multiple) simp
  show "sz_stop_distance_usd z = dsub e st" and "0 < dsub e st"
    and "sz_raw_quantity z = dquot (compute_risk_budget eq p) (dsub e st)"
    and "step_multiple s (sz_rounded_quantity z)"
    using assms multiple
    by (auto simp: compute_position_sizing_def compute_stop_distance_def compute_raw_quantity_def
        zero_sizing_def Let_def ddiv_eq_ret floor_to_step_eq_ret elim!: cbind_retE split: if_splits option.splits)
qed

definition sized_ok ::
  "trade_proposal \<Rightarrow> account_state \<Rightarrow> symbol_constraints \<Rightarrow> risk_parameters \<Rightarrow> decimal \<Rightarrow> decimal \<Rightarrow> bool"
where
  "sized_ok proposal account cs p stop q \<longleftrightarrow>
     0 < q \<and> step_multiple (quantity_step cs) q \<and> minimum_quantity cs \<le> q \<and>
     minimum_notional cs \<le> dmul q (tp_entry_price proposal) \<and>
     risk_ok (dsub (tp_entry_price proposal) stop) (equity_usd account)
       (compute_risk_budget (equity_usd account) p) (trade_limit_of p) q"

lemma size_quantity_inversion:
  assumes "size_quantity proposal account cs ps p stop = ret (Inr (sizing, q))"
  obtains q1 q2 where
    "compute_position_sizing (equity_usd account) (tp_entry_price proposal) stop
       (quantity_step cs) (minimum_quantity cs) p = ret (Some sizing)"
    and "0 < sz_rounded_quantity sizing"
    and "cap_quantity_for_leverage (sz_rounded_quantity sizing) (tp_entry_price proposal)
       (equity_usd account) (total_notional_usd ps) (quantity_step cs) (max_leverage p) = ret q1"
    and "cap_quantity_for_margin q1 (tp_entry_price proposal) (available_margin_usd account)
       (max_leverage p) (quantity_step cs) = ret q2"
    and "apply_risk_cap_after_rounding q2 (sz_stop_distance_usd sizing) (equity_usd account)
       (compute_risk_budget (equity_usd account) p) (quantity_step cs) (minimum_quantity cs) p = ret (Some q)"
    and "0 < q" and "minimum_notional cs \<le> dmul q (tp_entry_price proposal)"
  using assms that
  by (auto simp: size_quantity_def stop_here_eq Let_def not_le not_less
      split: option.splits if_splits elim!: cbind_retE)

lemma size_quantity_Inr:
  assumes "size_quantity proposal account cs ps p stop = ret (Inr (sizing, q))"
  shows "sized_ok proposal account cs p stop q"
    and "sz_stop_distance_usd sizing = dsub (tp_entry_price proposal) stop"
    and "sz_raw_quantity sizing =
      dquot (compute_risk_budget (equity_usd account) p) (dsub (tp_entry_price proposal) stop)"
proof -
  from assms obtain q1 q2 where sizing: "compute_position_sizing (equity_usd account)
        (tp_entry_price proposal) stop (quantity_step cs) (minimum_quantity cs) p = ret (Some sizing)"
    and lev: "cap_quantity_for_leverage (sz_rounded_quantity sizing) (tp_entry_price proposal)
       (equity_usd account) (total_notional_usd ps) (quantity_step cs) (max_leverage p) = ret q1"
    and mar: "cap_quantity_for_margin q1 (tp_entry_price proposal) (available_margin_usd account)
       (max_leverage p) (quantity_step cs) = ret q2"
    and cap: "apply_risk_cap_after_rounding q2 (sz_stop_distance_usd sizing) (equity_usd account)
       (compute_risk_budget (equity_usd account) p) (quantity_step cs) (minimum_quantity cs) p = ret (Some q)"
    and q: "0 < q" "minimum_notional cs \<le> dmul q (tp_entry_price proposal)"
    by (elim size_quantity_inversion)
  note inv = sizing_inversion [OF sizing]
  show sd: "sz_stop_distance_usd sizing = dsub (tp_entry_price proposal) stop"
    and "sz_raw_quantity sizing =
      dquot (compute_risk_budget (equity_usd account) p) (dsub (tp_entry_price proposal) stop)"
    using inv by simp_all
  have "step_multiple (quantity_step cs) q1"
    using inv(4) lev by (rule lev.cap_multiple)
  then have "step_multiple (quantity_step cs) q2"
    using mar by (rule mar.cap_multiple)
  with cap [unfolded apply_risk_cap_after_rounding_def Let_def]
  have "step_multiple (quantity_step cs) q" by (rule risk_cap_loop_multiple)
  with apply_risk_cap_sound [OF cap] q sd show "sized_ok proposal account cs p stop q"
    by (simp add: sized_ok_def)
qed

lemma size_quantity_Inl:
  "size_quantity proposal account cs ps p stop = ret (Inl d) \<Longrightarrow> is_rejection proposal p d"
  by (auto simp: size_quantity_def stop_here_eq Let_def split: option.splits if_splits
      elim!: cbind_retE intro!: is_rejection_of)

lemma size_quantity_returns:
  assumes grid: "grid_ok (quantity_step cs) n" and "inputs_ok proposal account cs ps p"
    and range: "dquot (compute_risk_budget (equity_usd account) p) (dsub (tp_entry_price proposal) stop)
      \<le> of_int n * quantity_step cs"
  shows "\<exists>r. size_quantity proposal account cs ps p stop = ret r"
proof -
  have pos: "0 < equity_usd account" "0 < minimum_quantity cs" "0 < tp_entry_price proposal"
      "0 < max_leverage p" "0 < risk_per_trade_pct p"
    using assms(2) by (auto simp: inputs_ok_def valid_account_def valid_constraints_def
        valid_proposal_def valid_parameters_def)
  obtain res where sizing: "compute_position_sizing (equity_usd account) (tp_entry_price proposal) stop
        (quantity_step cs) (minimum_quantity cs) p = ret res"
    and on: "\<And>z. res = Some z \<Longrightarrow> on_grid (quantity_step cs) n (sz_rounded_quantity z)"
    using position_sizing_returns [OF grid pos(1,2,5) range] by metis
  show ?thesis
  proof (cases "\<exists>z. res = Some z \<and> 0 < sz_rounded_quantity z")
    case False
    then show ?thesis using sizing
      by (auto simp: size_quantity_def stop_here_def not_less split: option.split)
  next
    case True
    then obtain z where z: "res = Some z" "0 < sz_rounded_quantity z" by blast
    obtain q1 where q1: "cap_quantity_for_leverage (sz_rounded_quantity z) (tp_entry_price proposal)
        (equity_usd account) (total_notional_usd ps) (quantity_step cs) (max_leverage p) = ret q1"
      "on_grid (quantity_step cs) n q1"
      using cap_leverage_returns [OF grid on [OF z(1)] pos(3,1)] by metis
    obtain q2 where q2: "cap_quantity_for_margin q1 (tp_entry_price proposal)
        (available_margin_usd account) (max_leverage p) (quantity_step cs) = ret q2"
      "on_grid (quantity_step cs) n q2"
      using cap_margin_returns [OF grid q1(2) pos(3,4)] by metis
    obtain r where "apply_risk_cap_after_rounding q2 (sz_stop_distance_usd z) (equity_usd account)
        (compute_risk_budget (equity_usd account) p) (quantity_step cs) (minimum_quantity cs) p = ret r"
      using risk_cap_returns [OF grid pos(1,2) q2(2)] by metis
    then show ?thesis using sizing z q1(1) q2(1)
      by (simp add: size_quantity_def stop_here_def Let_def split: option.split)
  qed
qed

text \<open>From rounded to exact products: the bound of a rounded risk as one of the true risk.\<close>

lemma exact_product_bound:
  assumes "0 < q" and "stop < e" and "dmul q (dsub e stop) \<le> dmul eq pct" and "0 \<le> eq" and "0 \<le> pct"
  shows "q * (e - stop) * (1 - 5 / 10 ^ dec_prec)\<^sup>2 \<le> eq * pct * (1 + 5 / 10 ^ dec_prec)"
proof -
  let ?l = "1 - 5 / 10 ^ dec_prec :: rat"
  have l: "0 \<le> ?l" by (simp add: dec_prec_def)
  have d: "(e - stop) * ?l \<le> dsub e stop"
    unfolding dsub_def using assms(2) by (intro dround_error_nonneg) simp
  have "q * (e - stop) * ?l\<^sup>2 = q * ((e - stop) * ?l) * ?l" by (simp add: power2_eq_square)
  also have "\<dots> \<le> q * dsub e stop * ?l"
    using d assms(1) l by (intro mult_right_mono mult_left_mono) simp_all
  also have "\<dots> \<le> dmul q (dsub e stop)"
    unfolding dmul_def using assms(1,2) dsub_nonneg [of stop e] by (intro dround_error_nonneg) simp
  also have "\<dots> \<le> dmul eq pct" by (rule assms(3))
  also have "\<dots> \<le> eq * pct * (1 + 5 / 10 ^ dec_prec)"
    unfolding dmul_def using assms(4,5) by (intro dround_error_nonneg) simp
  finally show ?thesis .
qed

section \<open>Decisions\<close>

definition limits_ok ::
  "trade_proposal \<Rightarrow> account_state \<Rightarrow> position_state list \<Rightarrow> risk_parameters \<Rightarrow> decimal \<Rightarrow> decimal \<Rightarrow> bool"
where
  "limits_ok proposal account ps p stop q \<longleftrightarrow>
     dadd (current_open_risk_usd ps) (dmul q (dsub (tp_entry_price proposal) stop))
       \<le> dmul (equity_usd account) (max_portfolio_risk_pct p) \<and>
     dquot (dadd (total_notional_usd ps) (dmul q (tp_entry_price proposal))) (equity_usd account)
       \<le> max_leverage p \<and>
     dquot (dmul q (tp_entry_price proposal)) (max_leverage p) \<le> available_margin_usd account"

text \<open>What an approval says: the fields the rest of the system reads.\<close>

definition is_approval ::
  "trade_proposal \<Rightarrow> account_state \<Rightarrow> risk_parameters \<Rightarrow> decimal \<Rightarrow> decimal \<Rightarrow> risk_decision \<Rightarrow> bool"
where
  "is_approval proposal account p stop q d \<longleftrightarrow>
     approved d \<and> rd_symbol d = tp_symbol proposal \<and>
     requested_entry_price d = tp_entry_price proposal \<and> requested_stop_price d = stop \<and>
     rounded_quantity d = Some q \<and>
     actual_trade_risk_usd d = Some (dmul q (dsub (tp_entry_price proposal) stop)) \<and>
     actual_trade_risk_pct d =
       Some (dquot (dmul q (dsub (tp_entry_price proposal) stop)) (equity_usd account)) \<and>
     rd_reason_codes d = [RC_RISK_APPROVED] \<and> rd_errors d = []"

lemma check_limits_cases:
  assumes "check_limits proposal account ps p stop sizing q = ret d"
    and "sz_stop_distance_usd sizing = dsub (tp_entry_price proposal) stop"
    and "0 < equity_usd account"
  shows "is_rejection proposal p d \<or>
    is_approval proposal account p stop q d \<and> limits_ok proposal account ps p stop q"
  using assms
  by (auto simp: check_limits_def Let_def build_portfolio_snapshot_def is_approval_def limits_ok_def
      ddiv_eq_ret not_less elim!: cbind_retE split: if_splits intro!: is_rejection_of)

lemma check_limits_returns:
  "0 < equity_usd account \<Longrightarrow> 0 < max_leverage p \<Longrightarrow>
   \<exists>d. check_limits proposal account ps p stop sizing q = ret d"
  by (auto simp: check_limits_def Let_def)

abbreviation params_or_default :: "risk_parameters option \<Rightarrow> risk_parameters" where
  "params_or_default params \<equiv> (case params of None \<Rightarrow> default_risk_parameters | Some p \<Rightarrow> p)"

text \<open>Every decision is a rejection, or an approval for which all the checks passed.\<close>

definition approval_conditions ::
  "trade_proposal \<Rightarrow> account_state \<Rightarrow> symbol_constraints \<Rightarrow> position_state list \<Rightarrow>
   open_order_state list \<Rightarrow> string set \<Rightarrow> risk_parameters \<Rightarrow> decimal \<Rightarrow> decimal \<Rightarrow> bool"
where
  "approval_conditions proposal account cs ps ords processed p stop q \<longleftrightarrow>
     inputs_ok proposal account cs ps p \<and> admitted proposal ps ords processed p \<and>
     stop = fts (tp_stop_price proposal) (price_tick_size cs) \<and> stop < tp_entry_price proposal \<and>
     sized_ok proposal account cs p stop q \<and> limits_ok proposal account ps p stop q"

lemma risk_evaluate_cases:
  assumes "risk_evaluate proposal account cs ps ords processed params = ret d"
  shows "is_rejection proposal (params_or_default params) d \<or>
    (\<exists>stop q. is_approval proposal account (params_or_default params) stop q d \<and>
       approval_conditions proposal account cs ps ords processed (params_or_default params) stop q)"
proof -
  let ?p = "params_or_default params"
  from assms consider "check_inputs proposal account cs ps ?p = ret (Inl d)"
    | "check_admission proposal cs ps ords processed ?p = ret (Inl d)"
    | stop where "size_quantity proposal account cs ps ?p stop = ret (Inl d)"
    | u stop sizing q where "check_inputs proposal account cs ps ?p = ret (Inr u)"
        "check_admission proposal cs ps ords processed ?p = ret (Inr stop)"
        "size_quantity proposal account cs ps ?p stop = ret (Inr (sizing, q))"
        "check_limits proposal account ps ?p stop sizing q = ret d"
    unfolding risk_evaluate_def Let_def or_return_eq_ret by (auto split: prod.splits)
  then show ?thesis
  proof cases
    case 4
    have inputs: "inputs_ok proposal account cs ps ?p" using 4(1) by (simp add: check_inputs_Inr)
    then have "0 < equity_usd account" by (simp add: inputs_ok_def valid_account_def)
    from check_limits_cases [OF 4(4) size_quantity_Inr(2) [OF 4(3)] this]
    show ?thesis
      using inputs 4(2) size_quantity_Inr(1) [OF 4(3)]
      by (auto simp: approval_conditions_def check_admission_Inr)
  qed (auto dest: check_inputs_Inl check_admission_Inl size_quantity_Inl)
qed

lemma is_rejection_not_approved:
  "is_rejection proposal p d \<Longrightarrow> \<not> approved d \<and> rounded_quantity d = None \<and> rd_errors d \<noteq> [] \<and>
     rd_reason_codes d = map re_code (rd_errors d) \<and> RC_RISK_APPROVED \<notin> set (rd_reason_codes d)"
  by (auto simp: is_rejection_def reject_def)

lemma risk_evaluate_approved:
  assumes "risk_evaluate proposal account cs ps ords processed params = ret d" and "approved d"
  obtains stop q where "is_approval proposal account (params_or_default params) stop q d"
    and "approval_conditions proposal account cs ps ords processed (params_or_default params) stop q"
  using risk_evaluate_cases [OF assms(1)] assms(2) is_rejection_not_approved by blast

lemma risk_evaluate_returns:
  assumes grid: "grid_ok (quantity_step cs) n"
    and range: "dquot (compute_risk_budget (equity_usd account) (params_or_default params))
      (dsub (tp_entry_price proposal) (fts (tp_stop_price proposal) (price_tick_size cs)))
      \<le> of_int n * quantity_step cs"
  shows "\<exists>d. risk_evaluate proposal account cs ps ords processed params = ret d"
proof -
  let ?p = "params_or_default params"
  let ?stop = "fts (tp_stop_price proposal) (price_tick_size cs)"
  obtain r1 where r1: "check_inputs proposal account cs ps ?p = ret r1"
    using check_inputs_returns by blast
  show ?thesis
  proof (cases r1)
    case (Inl d)
    with r1 show ?thesis by (auto simp: risk_evaluate_def or_return_def)
  next
    case (Inr u)
    with r1 have inputs: "inputs_ok proposal account cs ps ?p" by (simp add: check_inputs_Inr)
    then have pos: "0 < equity_usd account" "0 < max_leverage ?p" "0 < price_tick_size cs"
      by (auto simp: inputs_ok_def valid_account_def valid_parameters_def valid_constraints_def)
    obtain r2 where r2: "check_admission proposal cs ps ords processed ?p = ret r2"
      using check_admission_returns [OF pos(3)] by blast
    obtain r3 where r3: "size_quantity proposal account cs ps ?p ?stop = ret r3"
      using size_quantity_returns [OF grid inputs range] by blast
    have stop: "r2 = Inr stop \<Longrightarrow> stop = ?stop" for stop
      using r2 by (simp add: check_admission_Inr)
    obtain d where d: "\<And>sizing q. check_limits proposal account ps ?p ?stop sizing q = ret (d sizing q)"
      using check_limits_returns [OF pos(1,2)] by metis
    show ?thesis
      using r1 r2 r3 Inr stop d
      by (cases r2; cases r3) (auto simp: risk_evaluate_def or_return_def split: prod.splits)
  qed
qed

end
