(* ===== verification/Paper_Lifecycle.thy ===== *)
theory Paper_Lifecycle
  imports Backtest_Models Stops Risk_Engine
begin

text \<open>
  The pure lifecycle calculations that the backtester and paper trading share:
  \<open>services/backtester/execution.py\<close>, \<open>intent.py\<close>, \<open>portfolio.py\<close> and \<open>paper_lifecycle.py\<close>. The
  risk engine is an argument where the source passes one in.
\<close>

section \<open>Execution\<close>

definition apply_entry_slippage :: "decimal \<Rightarrow> slippage_model \<Rightarrow> decimal" where
  "apply_entry_slippage reference model = dmul reference (dadd 1 (dquot (slippage_bps model) 10000))"

definition apply_exit_slippage :: "decimal \<Rightarrow> slippage_model \<Rightarrow> decimal" where
  "apply_exit_slippage reference model = dmul reference (dsub 1 (dquot (slippage_bps model) 10000))"

definition compute_fee :: "decimal \<Rightarrow> decimal \<Rightarrow> decimal" where
  "compute_fee notional rate = dmul notional rate"

definition compute_slippage_cost :: "decimal \<Rightarrow> decimal \<Rightarrow> decimal \<Rightarrow> decimal" where
  "compute_slippage_cost reference fill quantity = dmul (dabs (dsub fill reference)) quantity"

definition compute_funding_payment :: "decimal \<Rightarrow> decimal \<Rightarrow> decimal" where
  "compute_funding_payment notional funding_rate = dmul notional funding_rate"

definition build_client_intent_id :: "string \<Rightarrow> string \<Rightarrow> datetime \<Rightarrow> entry_type \<Rightarrow> string" where
  "build_client_intent_id symbol strategy_version signal_time entry =
     (let ts = strftime_utc signal_time
      in symbol @ '':'' @ strategy_version @ '':'' @ ts @ '':'' @ entry_type_value entry)"

section \<open>Portfolio\<close>

definition mark_prices_from_candles ::
  "simulated_position list \<Rightarrow> (string, decimal) dict \<Rightarrow> (string, decimal) dict" where
  "mark_prices_from_candles positions closes =
     dict_of (map (\<lambda>p. (pos_symbol p, get_default closes (pos_symbol p) (pos_entry_price p))) positions)"

definition mark_at_open ::
  "(string, candle) dict \<Rightarrow> (string, decimal) dict \<Rightarrow> simulated_position \<Rightarrow> decimal" where
  "mark_at_open day_candles prior_closes p =
     (case dict_get day_candles (pos_symbol p) of
        Some c \<Rightarrow> c_open c
      | None \<Rightarrow> (case dict_get prior_closes (pos_symbol p) of
                   Some x \<Rightarrow> x
                 | None \<Rightarrow> pos_entry_price p))"

definition resolve_marks_at_open ::
  "simulated_position list \<Rightarrow> (string, candle) dict \<Rightarrow> (string, decimal) dict \<Rightarrow> (string, decimal) dict" where
  "resolve_marks_at_open positions day_candles prior_closes =
     foldl (\<lambda>marks p. dict_put (pos_symbol p) (mark_at_open day_candles prior_closes p) marks) [] positions"

definition compute_used_margin :: "simulated_position list \<Rightarrow> decimal" where
  "compute_used_margin positions = dsum (map pos_margin_reserved positions)"

definition compute_unrealized_pnl :: "simulated_position list \<Rightarrow> (string, decimal) dict \<Rightarrow> decimal" where
  "compute_unrealized_pnl positions mark_prices =
     foldl (\<lambda>total p. let mark = get_default mark_prices (pos_symbol p) (pos_entry_price p)
                      in dadd total (dmul (pos_quantity p) (dsub mark (pos_entry_price p)))) 0 positions"

definition compute_equity :: "decimal \<Rightarrow> simulated_position list \<Rightarrow> (string, decimal) dict \<Rightarrow> decimal" where
  "compute_equity wallet_balance positions mark_prices =
     dadd wallet_balance (compute_unrealized_pnl positions mark_prices)"

definition compute_available_margin ::
  "decimal \<Rightarrow> simulated_position list \<Rightarrow> (string, decimal) dict \<Rightarrow> decimal" where
  "compute_available_margin wallet_balance positions mark_prices =
     (let equity = compute_equity wallet_balance positions mark_prices;
          used = compute_used_margin positions
      in max 0 (dsub equity used))"

definition position_margin :: "decimal \<Rightarrow> decimal \<Rightarrow> decimal" where
  "position_margin notional max_lev = (if max_lev \<le> 0 then notional else dquot notional max_lev)"

definition to_position_states :: "simulated_position list \<Rightarrow> (string, decimal) dict \<Rightarrow> position_state list" where
  "to_position_states positions mark_prices =
     concat (map (\<lambda>p. let mark = get_default mark_prices (pos_symbol p) (pos_entry_price p)
                      in if pos_quantity p \<le> 0 \<or> mark \<le> 0 then []
                         else [\<lparr>ps_symbol = pos_symbol p, ps_entry_price = pos_entry_price p,
                                ps_position_size = pos_quantity p, ps_stop_initial = pos_initial_stop p,
                                ps_trail_stop = pos_trail_stop p, ps_mark_price = mark\<rparr>]) positions)"

definition to_open_orders :: "pending_intent list \<Rightarrow> open_order_state list" where
  "to_open_orders pending =
     map (\<lambda>i. \<lparr>oo_symbol = pi_symbol i, oo_client_intent_id = pi_client_intent_id i,
               oo_side = LONG, oo_is_entry = True\<rparr>) pending"

definition build_portfolio_state ::
  "decimal \<Rightarrow> simulated_position list \<Rightarrow> pending_intent list \<Rightarrow> decimal \<Rightarrow> decimal \<Rightarrow> decimal \<Rightarrow> decimal \<Rightarrow>
   portfolio_state" where
  "build_portfolio_state wallet_balance positions pending fees funding slippage pnl =
     \<lparr>pf_cash = wallet_balance, pf_positions = positions, pf_pending_intents = pending,
      pf_total_fees = fees, pf_total_funding = funding, pf_total_slippage = slippage,
      pf_realized_pnl = pnl\<rparr>"

text \<open>The methods of \<open>PortfolioState\<close>.\<close>

definition pf_used_margin_usd :: "portfolio_state \<Rightarrow> decimal" where
  "pf_used_margin_usd s = dsum (map pos_margin_reserved (pf_positions s))"

definition pf_unrealized_pnl_usd :: "portfolio_state \<Rightarrow> (string, decimal) dict \<Rightarrow> decimal" where
  "pf_unrealized_pnl_usd s mark_prices =
     foldl (\<lambda>total p. let mark = get_default mark_prices (pos_symbol p) (pos_entry_price p)
                      in dadd total (dmul (pos_quantity p) (dsub mark (pos_entry_price p)))) 0 (pf_positions s)"

definition pf_equity_usd :: "portfolio_state \<Rightarrow> (string, decimal) dict \<Rightarrow> decimal" where
  "pf_equity_usd s mark_prices = dadd (pf_cash s) (pf_unrealized_pnl_usd s mark_prices)"

definition pf_available_margin_usd :: "portfolio_state \<Rightarrow> (string, decimal) dict \<Rightarrow> decimal" where
  "pf_available_margin_usd s mark_prices = max 0 (dsub (pf_equity_usd s mark_prices) (pf_used_margin_usd s))"

definition build_account_state ::
  "portfolio_state \<Rightarrow> (string, decimal) dict \<Rightarrow> decimal \<Rightarrow> account_state" where
  "build_account_state portfolio mark_prices max_lev =
     (let equity = pf_equity_usd portfolio mark_prices;
          used = pf_used_margin_usd portfolio;
          available = max 0 (dsub equity used)
      in \<lparr>equity_usd = equity, available_margin_usd = available,
          daily_realized_pnl_usd = 0, weekly_realized_pnl_usd = 0, peak_equity_usd = Some equity\<rparr>)"

definition current_open_risk :: "simulated_position list \<Rightarrow> (string, decimal) dict \<Rightarrow> decimal" where
  "current_open_risk positions marks = current_open_risk_usd (to_position_states positions marks)"

text \<open>\<open>daily_by_sym\<close>: for each symbol the daily candles by opening time, with their index.\<close>

type_synonym candles_by_time = "(datetime, nat \<times> candle) dict"

definition latest_before :: "datetime \<Rightarrow> datetime list \<Rightarrow> datetime option" where
  "latest_before before_open ots =
     foldl (\<lambda>prior ot. if ot < before_open \<and> (case prior of None \<Rightarrow> True | Some q \<Rightarrow> q < ot)
                       then Some ot else prior) None ots"

definition prior_closes_from_timeline ::
  "(string, candles_by_time) dict \<Rightarrow> string list \<Rightarrow> datetime \<Rightarrow> (string, decimal) dict" where
  "prior_closes_from_timeline daily_by_sym symbols before_open =
     foldl (\<lambda>result s.
              let by_time = get_default daily_by_sym s []
              in case latest_before before_open (dict_keys by_time) of
                   None \<Rightarrow> result
                 | Some prior \<Rightarrow> (case dict_get by_time prior of
                                    Some (i, c) \<Rightarrow> dict_put s (c_close c) result
                                  | None \<Rightarrow> result)) [] symbols"

section \<open>Lifecycle\<close>

definition slippage_model_from_bps :: "decimal \<Rightarrow> slippage_model" where
  "slippage_model_from_bps bps = \<lparr>slippage_bps = bps\<rparr>"

definition compute_entry_fill_prices ::
  "decimal \<Rightarrow> decimal \<Rightarrow> decimal \<Rightarrow> strategy_parameters \<Rightarrow> decimal \<Rightarrow> entry_fill_computation comp" where
  "compute_entry_fill_prices open_ref atr14 bps params tick =
     (let model = slippage_model_from_bps bps;
          fill_price = apply_entry_slippage open_ref model
      in cbind (compute_initial_stop fill_price atr14 params (Some tick)) (\<lambda>stop_initial.
         ret \<lparr>ef_open_ref = open_ref, ef_fill_price = fill_price, ef_stop_initial = stop_initial,
              ef_slippage_cost = compute_slippage_cost open_ref fill_price 1\<rparr>))"

type_synonym risk_fn =
  "trade_proposal \<Rightarrow> account_state \<Rightarrow> symbol_constraints \<Rightarrow> position_state list \<Rightarrow>
   open_order_state list \<Rightarrow> string set \<Rightarrow> risk_parameters option \<Rightarrow> risk_decision comp"

definition entry_proposal ::
  "string \<Rightarrow> decimal \<Rightarrow> decimal \<Rightarrow> string \<Rightarrow> decimal \<Rightarrow> market_data_status \<Rightarrow> bot_system_state \<Rightarrow> trade_proposal" where
  "entry_proposal symbol fill_price stop_initial intent_id atr14 md bss =
     \<lparr>tp_symbol = symbol, tp_side = LONG, tp_entry_price = fill_price, tp_stop_price = stop_initial,
      tp_client_intent_id = intent_id, tp_signal_intent_kind = LONG_ENTRY, tp_strategy_approved = True,
      tp_market_data_status = md, tp_bot_system_state = bss, tp_atr14 = Some atr14\<rparr>"

definition evaluate_entry_risk_decision ::
  "risk_fn \<Rightarrow> string \<Rightarrow> decimal \<Rightarrow> decimal \<Rightarrow> string \<Rightarrow> decimal \<Rightarrow> symbol_constraints \<Rightarrow> decimal \<Rightarrow>
   simulated_position list \<Rightarrow> pending_intent list \<Rightarrow> string set \<Rightarrow> (string, candle) dict \<Rightarrow>
   (string, decimal) dict \<Rightarrow> risk_parameters \<Rightarrow> market_data_status \<Rightarrow> bot_system_state \<Rightarrow> risk_decision comp"
where
  "evaluate_entry_risk_decision risk symbol fill_price stop_initial intent_id atr14 constraints wallet_cash
     open_positions pending processed day_candles prior_closes params md bss =
     (let marks = resolve_marks_at_open open_positions day_candles prior_closes;
          portfolio = build_portfolio_state wallet_cash open_positions [] 0 0 0 0;
          account = build_account_state portfolio marks (max_leverage params);
          proposal = entry_proposal symbol fill_price stop_initial intent_id atr14 md bss
      in risk proposal account constraints (to_position_states open_positions marks)
           (to_open_orders pending) processed (Some params))"

definition compute_entry_accounting ::
  "decimal \<Rightarrow> decimal \<Rightarrow> decimal \<Rightarrow> decimal \<Rightarrow> decimal \<Rightarrow> decimal \<Rightarrow> decimal \<Rightarrow> strategy_parameters \<Rightarrow>
   decimal \<Rightarrow> decimal \<Rightarrow> entry_accounting comp"
where
  "compute_entry_accounting fill_price open_ref quantity stop_initial fee_rate bps max_lev params tick atr14 =
     (let notional = dmul fill_price quantity;
          fee = compute_fee notional fee_rate;
          slip = compute_slippage_cost open_ref fill_price quantity;
          margin = position_margin notional max_lev
      in cbind (initialize_trailing_stop fill_price atr14 stop_initial params (Some tick)) (\<lambda>trail_state.
         ret \<lparr>ea_quantity = quantity, ea_notional = notional, ea_fee = fee, ea_slippage_cost = slip,
              ea_margin_reserved = margin,
              ea_initial_risk_usd = dmul quantity (dsub fill_price stop_initial),
              ea_trail_state = trail_state\<rparr>))"

definition filter_rejection_reason_codes :: "risk_decision \<Rightarrow> reason_code list" where
  "filter_rejection_reason_codes decision =
     (let codes = filter (\<lambda>c. c \<noteq> RC_RISK_APPROVED) (rd_reason_codes decision)
      in if codes = [] then rd_reason_codes decision else codes)"

definition compute_gap_stop_at_open :: "candle \<Rightarrow> decimal \<Rightarrow> stop_trigger_result option" where
  "compute_gap_stop_at_open c effective_stop =
     (if c_open c < effective_stop
      then Some \<lparr>st_exit_reference = c_open c, st_exit_reason = STOP_GAP\<rparr> else None)"

definition compute_intraday_stop ::
  "candle \<Rightarrow> decimal \<Rightarrow> decimal \<Rightarrow> decimal \<Rightarrow> stop_trigger_result option" where
  "compute_intraday_stop c effective_stop initial_stop trail_stop =
     (if c_low c \<le> effective_stop
      then let reason = (if initial_stop \<le> trail_stop then STOP_TRAILING else STOP_INITIAL)
           in Some \<lparr>st_exit_reference = effective_stop, st_exit_reason = reason\<rparr>
      else None)"

definition compute_stop_trigger ::
  "candle \<Rightarrow> decimal \<Rightarrow> decimal \<Rightarrow> decimal \<Rightarrow> stop_trigger_result option" where
  "compute_stop_trigger c effective_stop initial_stop trail_stop =
     (case compute_gap_stop_at_open c effective_stop of
        Some gap \<Rightarrow> Some gap
      | None \<Rightarrow> compute_intraday_stop c effective_stop initial_stop trail_stop)"

definition compute_exit_accounting ::
  "decimal \<Rightarrow> decimal \<Rightarrow> decimal \<Rightarrow> decimal \<Rightarrow> decimal \<Rightarrow> exit_accounting" where
  "compute_exit_accounting exit_reference quantity entry_price bps fee_rate =
     (let model = slippage_model_from_bps bps;
          fill_price = apply_exit_slippage exit_reference model;
          notional = dmul fill_price quantity;
          fee = compute_fee notional fee_rate;
          slip = compute_slippage_cost exit_reference fill_price quantity;
          gross = dmul (dsub fill_price entry_price) quantity
      in \<lparr>xa_fill_price = fill_price, xa_fee = fee, xa_slippage_cost = slip, xa_gross_pnl = gross,
          xa_net_wallet_delta = dsub gross fee\<rparr>)"

definition compute_trailing_stop_update ::
  "trailing_stop_state \<Rightarrow> decimal \<Rightarrow> decimal \<Rightarrow> strategy_parameters \<Rightarrow> decimal \<Rightarrow> trailing_stop_state comp" where
  "compute_trailing_stop_update state daily_close atr14 params tick =
     update_trailing_stop state daily_close atr14 params (Some tick)"

definition build_simulated_position_from_entry ::
  "string \<Rightarrow> decimal \<Rightarrow> decimal \<Rightarrow> datetime \<Rightarrow> entry_accounting \<Rightarrow> decimal \<Rightarrow> string \<Rightarrow> simulated_position" where
  "build_simulated_position_from_entry symbol quantity fill_price entry_time accounting atr14 intent_id =
     (let trail = ea_trail_state accounting
      in \<lparr>pos_symbol = symbol, pos_quantity = quantity, pos_entry_price = fill_price,
          pos_entry_time = entry_time, pos_initial_stop = ts_stop_initial trail,
          pos_trail_stop = ts_trail_stop trail, pos_effective_stop = ts_effective_stop trail,
          pos_highest_close = ts_highest_close trail, pos_entry_atr14 = atr14,
          pos_client_intent_id = intent_id, pos_margin_reserved = ea_margin_reserved accounting\<rparr>)"

section \<open>Client intent identifiers\<close>

text \<open>
  The identifier ends in a time of 20 characters and an entry type of 8, so that for one
  strategy version it determines the symbol, the second of the signal and the entry type,
  whatever characters the symbol has.
\<close>

lemma length_entry_type_value: "length (entry_type_value e) = 8"
  by (cases e) simp_all

lemma entry_type_value_inj: "entry_type_value a = entry_type_value b \<Longrightarrow> a = b"
  by (cases a; cases b) simp_all

lemma build_client_intent_id_inj:
  assumes "build_client_intent_id s v t e = build_client_intent_id s' v t' e'"
    and "printable t" and "printable t'"
  shows "s = s' \<and> t div us_per_second = t' div us_per_second \<and> e = e'"
proof -
  note eq = assms(1) [unfolded build_client_intent_id_def Let_def]
  have "e = e'"
  proof (rule entry_type_value_inj)
    show "entry_type_value e = entry_type_value e'"
      using arg_cong [OF eq, of "\<lambda>x. rev (take 8 (rev x))"] by (simp add: length_entry_type_value)
  qed
  moreover have ts: "strftime_utc t = strftime_utc t'"
    using arg_cong [OF eq, of "\<lambda>x. rev (take 20 (drop 9 (rev x)))"] by (simp add: length_entry_type_value)
  moreover from ts have "t div us_per_second = t' div us_per_second"
    using second_text_inj [OF assms(2,3)] by (simp add: strftime_utc_def)
  ultimately show ?thesis using eq by simp
qed

section \<open>Marks at the open\<close>

lemma get_marks_at_open:
  assumes "distinct (map pos_symbol ps)" and "p \<in> set ps"
  shows "dict_get (resolve_marks_at_open ps day prior) (pos_symbol p) = Some (mark_at_open day prior p)"
proof -
  have other: "dict_get (foldl (\<lambda>marks p. dict_put (pos_symbol p) (f p) marks) d qs) k = dict_get d k"
    if "k \<notin> pos_symbol ` set qs" for f d qs k
    using that by (induction qs arbitrary: d) auto
  have "dict_get (foldl (\<lambda>marks p. dict_put (pos_symbol p) (f p) marks) d qs) (pos_symbol p) = Some (f p)"
    if "distinct (map pos_symbol qs)" "p \<in> set qs" for f d qs
    using that by (induction qs arbitrary: d) (auto simp: other)
  with assms show ?thesis by (simp add: resolve_marks_at_open_def)
qed

text \<open>The marks are a function of the opens of the day, not of its other prices.\<close>

definition same_opens :: "(string, candle) dict \<Rightarrow> (string, candle) dict \<Rightarrow> bool" where
  "same_opens d d' \<longleftrightarrow> (\<forall>s. map_option c_open (dict_get d s) = map_option c_open (dict_get d' s))"

lemma mark_at_open_cong: "same_opens d d' \<Longrightarrow> mark_at_open d prior p = mark_at_open d' prior p"
  unfolding same_opens_def mark_at_open_def by (drule spec [of _ "pos_symbol p"]) (auto split: option.splits)

lemma resolve_marks_at_open_cong:
  "same_opens d d' \<Longrightarrow> resolve_marks_at_open ps d prior = resolve_marks_at_open ps d' prior"
  by (simp add: resolve_marks_at_open_def mark_at_open_cong)

lemma evaluate_entry_risk_decision_cong:
  "same_opens d d' \<Longrightarrow>
   evaluate_entry_risk_decision risk s f st i a cs w ps pend proc d prior par md bss =
   evaluate_entry_risk_decision risk s f st i a cs w ps pend proc d' prior par md bss"
  by (simp add: evaluate_entry_risk_decision_def resolve_marks_at_open_cong)

section \<open>Prior closes\<close>

lemma latest_before_Some:
  assumes "latest_before b ts = Some t"
  shows "t \<in> set ts \<and> t < b \<and> (\<forall>u \<in> set ts. u < b \<longrightarrow> u \<le> t)"
  using assms
proof (induction ts arbitrary: t rule: rev_induct)
  case Nil
  then show ?case by (simp add: latest_before_def)
next
  case (snoc x ts)
  have step: "latest_before b (ts @ [x]) =
      (if x < b \<and> (case latest_before b ts of None \<Rightarrow> True | Some q \<Rightarrow> q < x) then Some x else latest_before b ts)"
    by (simp add: latest_before_def)
  have none: "\<forall>u \<in> set us. \<not> u < b" if "latest_before b us = None" for us
    using that by (induction us rule: rev_induct) (auto simp: latest_before_def split: if_splits option.splits)
  show ?case
  proof (cases "latest_before b ts")
    case None
    with snoc.prems step none [OF None] show ?thesis by (auto split: if_splits)
  next
    case (Some q)
    with snoc.IH [OF Some] snoc.prems step show ?thesis by (force split: if_splits)
  qed
qed

section \<open>Stops\<close>

text \<open>
  A stop triggers exactly when the day trades at or below it; the exit is at the stop, or
  at the open when the day opens below, so never above the stop nor above the open.
\<close>

lemma compute_stop_trigger_iff:
  "compute_stop_trigger c eff ini tr \<noteq> None \<longleftrightarrow> c_open c < eff \<or> c_low c \<le> eff"
  by (simp add: compute_stop_trigger_def compute_gap_stop_at_open_def compute_intraday_stop_def Let_def)

lemma compute_stop_trigger_reference:
  "compute_stop_trigger c eff ini tr = Some r \<Longrightarrow>
   st_exit_reference r = (if c_open c < eff then c_open c else eff) \<and>
   st_exit_reason r = (if c_open c < eff then STOP_GAP
                       else if ini \<le> tr then STOP_TRAILING else STOP_INITIAL)"
  by (auto simp: compute_stop_trigger_def compute_gap_stop_at_open_def compute_intraday_stop_def Let_def
      split: if_splits)

section \<open>Accounting\<close>

text \<open>Slippage is adverse, fees and slippage costs are not negative.\<close>

lemma entry_slippage_adverse:
  assumes "representable r" and "0 \<le> r" and "0 \<le> slippage_bps m"
  shows "r \<le> apply_entry_slippage r m"
proof -
  have "0 \<le> dquot (slippage_bps m) 10000" using assms(3) by (intro dquot_nonneg) simp_all
  then have "1 \<le> dadd 1 (dquot (slippage_bps m) 10000)"
    unfolding dadd_def using representable_of_int [of 1]
    by (intro dr.ge_fixed) (auto simp: dround_id dec_prec_def)
  then show ?thesis
    unfolding apply_entry_slippage_def dmul_def using assms by (intro dr.grow) (auto intro: dround_id)
qed

lemma exit_slippage_adverse:
  assumes "representable r" and "0 \<le> r" and "0 \<le> slippage_bps m"
  shows "apply_exit_slippage r m \<le> r"
proof -
  have "0 \<le> dquot (slippage_bps m) 10000" using assms(3) by (intro dquot_nonneg) simp_all
  then have "dsub 1 (dquot (slippage_bps m) 10000) \<le> 1"
    unfolding dsub_def using representable_of_int [of 1]
    by (intro dr.le_fixed) (auto simp: dround_id dec_prec_def)
  then show ?thesis
    unfolding apply_exit_slippage_def dmul_def using assms
    by (intro dr.le_fixed) (auto intro: dround_id simp: mult_left_le)
qed

lemma compute_slippage_cost_nonneg: "0 \<le> q \<Longrightarrow> 0 \<le> compute_slippage_cost r f q"
  by (simp add: compute_slippage_cost_def dmul_nonneg dabs_nonneg)

text \<open>The two copies of the portfolio arithmetic agree.\<close>

lemma portfolio_methods_agree:
  "pf_equity_usd (build_portfolio_state w ps pend a b c d) marks = compute_equity w ps marks"
  "pf_used_margin_usd (build_portfolio_state w ps pend a b c d) = compute_used_margin ps"
  "pf_available_margin_usd (build_portfolio_state w ps pend a b c d) marks = compute_available_margin w ps marks"
  by (simp_all add: pf_equity_usd_def pf_unrealized_pnl_usd_def pf_used_margin_usd_def build_portfolio_state_def
      compute_equity_def compute_unrealized_pnl_def compute_used_margin_def pf_available_margin_usd_def
      compute_available_margin_def Let_def)

text \<open>No position is dropped on the way to the risk engine when sizes and marks are positive.\<close>

lemma to_position_states_all:
  assumes "\<forall>p \<in> set ps. 0 < pos_quantity p \<and> 0 < get_default marks (pos_symbol p) (pos_entry_price p)"
  shows "map ps_symbol (to_position_states ps marks) = map pos_symbol ps"
  using assms by (induction ps) (auto simp: to_position_states_def Let_def)

end
