(* ===== verification/Backtest_Data.thy ===== *)
theory Backtest_Data
  imports Backtest_Models
begin

text \<open>
  Slicing of the historical data (\<open>services/backtester/data.py\<close>): only candles closed at the
  evaluation time are visible. \<open>validate_chronological\<close> warns about what is out of order.
\<close>

section \<open>Definitions\<close>

definition slice_closed_candles :: "candle list \<Rightarrow> datetime \<Rightarrow> candle list" where
  "slice_closed_candles cs as_of = filter (\<lambda>c. is_closed c \<and> close_time c \<le> as_of) cs"

definition build_candle_series :: "string \<Rightarrow> timeframe \<Rightarrow> candle list \<Rightarrow> datetime \<Rightarrow> candle_series" where
  "build_candle_series symbol tf cs as_of =
     \<lparr>s_symbol = symbol, s_timeframe = tf, candles = slice_closed_candles cs as_of\<rparr>"

definition evaluation_time_for_daily :: "candle \<Rightarrow> datetime" where
  "evaluation_time_for_daily c = close_time c + seconds 5"

definition candle_label :: "candle \<Rightarrow> string" where
  "candle_label c = c_symbol c @ '' '' @ isoformat (open_time c)"

fun chronological_loop :: "datetime set \<Rightarrow> datetime option \<Rightarrow> candle list \<Rightarrow> string list" where
  "chronological_loop seen prev [] = []"
| "chronological_loop seen prev (c # cs) =
     (if open_time c \<in> seen then [''duplicate candle '' @ candle_label c] else []) @
     (case prev of
        None \<Rightarrow> []
      | Some p \<Rightarrow> if open_time c \<le> p then [''unsorted candle '' @ candle_label c] else []) @
     (if \<not> is_closed c then [''open candle '' @ candle_label c] else []) @
     chronological_loop (insert (open_time c) seen) (Some (open_time c)) cs"

definition validate_chronological :: "candle list \<Rightarrow> string list" where
  "validate_chronological cs = chronological_loop {} None cs"

section \<open>Lemmas\<close>

text \<open>No warning exactly for closed candles in strictly increasing order.\<close>

lemma chronological_loop_Nil:
  assumes "case prev of None \<Rightarrow> seen = {} | Some p \<Rightarrow> \<forall>t \<in> seen. t \<le> p"
  shows "chronological_loop seen prev cs = [] \<longleftrightarrow>
     (\<forall>c \<in> set cs. is_closed c) \<and> sorted_wrt (<) (map open_time cs) \<and>
     (case prev of None \<Rightarrow> True | Some p \<Rightarrow> (\<forall>c \<in> set cs. p < open_time c))"
  using assms
proof (induction cs arbitrary: seen prev)
  case Nil
  then show ?case by (simp split: option.split)
next
  case (Cons c cs)
  show ?case
  proof (cases "case prev of None \<Rightarrow> True | Some p \<Rightarrow> p < open_time c")
    case True
    have fresh: "open_time c \<notin> seen" using True Cons.prems by (auto split: option.splits)
    have "\<forall>t \<in> insert (open_time c) seen. t \<le> open_time c"
      using True Cons.prems by (auto split: option.splits)
    then have IH: "chronological_loop (insert (open_time c) seen) (Some (open_time c)) cs = [] \<longleftrightarrow>
        (\<forall>c \<in> set cs. is_closed c) \<and> sorted_wrt (<) (map open_time cs) \<and> (\<forall>d \<in> set cs. open_time c < open_time d)"
      using Cons.IH [where prev = "Some (open_time c)"] by simp
    show ?thesis using True fresh IH by (auto split: option.splits intro: order.strict_trans)
  next
    case False
    then show ?thesis by (auto split: option.splits)
  qed
qed

lemma validate_chronological_Nil:
  "validate_chronological cs = [] \<longleftrightarrow> (\<forall>c \<in> set cs. is_closed c) \<and> sorted_wrt (<) (map open_time cs)"
  using chronological_loop_Nil [where prev = None and seen = "{}" and cs = cs] by (simp add: validate_chronological_def)

text \<open>Slicing twice is slicing at the earlier time; a later slice extends an earlier one.\<close>

lemma slice_slice: "slice_closed_candles (slice_closed_candles cs a) b = slice_closed_candles cs (min a b)"
  by (auto simp: slice_closed_candles_def intro!: filter_cong)

lemma slice_visible: "c \<in> set (slice_closed_candles cs a) \<Longrightarrow> is_closed c \<and> close_time c \<le> a"
  by (simp add: slice_closed_candles_def)

lemma slice_filter:
  "(\<And>c. c \<in> set cs \<Longrightarrow> close_time c \<le> a \<Longrightarrow> P c) \<Longrightarrow>
   slice_closed_candles (filter P cs) a = slice_closed_candles cs a"
  by (auto simp: slice_closed_candles_def intro!: filter_cong)

end
