(* ===== verification/Backtest_Metrics.thy ===== *)
theory Backtest_Metrics
  imports Backtest_Models "HOL-Library.List_Lexorder" "HOL-Library.Char_ord"
begin

text \<open>
  The metrics of a backtest (\<open>services/backtester/metrics.py\<close>). The three ratios the code
  computes in binary floating point (CAGR, Sharpe, Sortino) are arguments of the model,
  functions of the decimal inputs the code passes to \<open>float\<close>; everything else is the decimal
  arithmetic of the source.
\<close>

section \<open>Definitions\<close>

record float_metrics =
  fm_cagr :: "decimal \<Rightarrow> decimal \<Rightarrow> decimal option"
  fm_sharpe :: "decimal list \<Rightarrow> decimal option"
  fm_sortino :: "decimal list \<Rightarrow> decimal option"

definition safe_div :: "decimal \<Rightarrow> decimal \<Rightarrow> decimal option" where
  "safe_div num den = (if den = 0 then None else Some (dquot num den))"

fun drawdown_loop :: "decimal \<Rightarrow> equity_snapshot list \<Rightarrow> drawdown_snapshot list" where
  "drawdown_loop peak [] = []"
| "drawdown_loop peak (snap # rest) =
     (let peak = max peak (eq_equity snap);
          dd = (case safe_div (dsub peak (eq_equity snap)) peak of None \<Rightarrow> 0 | Some x \<Rightarrow> x)
      in \<lparr>dd_time = eq_time snap, dd_equity = eq_equity snap, dd_peak_equity = peak,
          dd_drawdown_pct = dd\<rparr> # drawdown_loop peak rest)"

definition compute_drawdown_curve :: "equity_snapshot list \<Rightarrow> drawdown_snapshot list" where
  "compute_drawdown_curve curve = drawdown_loop 0 curve"

definition years_between :: "datetime \<Rightarrow> datetime \<Rightarrow> decimal" where
  "years_between start stop = dquot (of_int (days_of (stop - start))) (36525 / 100)"

definition is_closed_trade :: "backtest_trade \<Rightarrow> bool" where
  "is_closed_trade t \<longleftrightarrow> bt_net_pnl t \<noteq> None"

definition is_winner :: "backtest_trade \<Rightarrow> bool" where
  "is_winner t \<longleftrightarrow> (case bt_net_pnl t of None \<Rightarrow> False | Some x \<Rightarrow> 0 < x)"

definition is_loser :: "backtest_trade \<Rightarrow> bool" where
  "is_loser t \<longleftrightarrow> (case bt_net_pnl t of None \<Rightarrow> False | Some x \<Rightarrow> x \<le> 0)"

text \<open>\<open>sum((t.net_pnl for t in ts if t.net_pnl), Decimal("0"))\<close>: zero and \<open>None\<close> are skipped.\<close>

definition sum_net :: "backtest_trade list \<Rightarrow> decimal" where
  "sum_net ts = dsum (filter (\<lambda>x. x \<noteq> 0) (List.map_filter bt_net_pnl ts))"

definition ratio_of :: "nat \<Rightarrow> nat \<Rightarrow> decimal option" where
  "ratio_of a b = safe_div (of_nat a) (of_nat b)"

fun period_returns :: "decimal list \<Rightarrow> decimal list" where
  "period_returns (prev # cur # rest) =
     (if 0 < prev then [dquot (dsub cur prev) prev] else []) @ period_returns (cur # rest)"
| "period_returns _ = []"

text \<open>The loop over the closed trades: longest winning and losing run.\<close>

record streaks =
  sk_win :: nat
  sk_loss :: nat
  sk_max_win :: nat
  sk_max_loss :: nat

definition streak_step :: "streaks \<Rightarrow> backtest_trade \<Rightarrow> streaks" where
  "streak_step s t =
     (let w = (if is_winner t then sk_win s + 1 else 0);
          l = (if is_winner t then 0 else sk_loss s + 1)
      in \<lparr>sk_win = w, sk_loss = l, sk_max_win = max (sk_max_win s) w, sk_max_loss = max (sk_max_loss s) l\<rparr>)"

definition compute_streaks :: "backtest_trade list \<Rightarrow> streaks" where
  "compute_streaks ts = foldl streak_step \<lparr>sk_win = 0, sk_loss = 0, sk_max_win = 0, sk_max_loss = 0\<rparr> ts"

definition symbol_row :: "backtest_trade list \<Rightarrow> string \<Rightarrow> symbol_metrics" where
  "symbol_row closed_ts s =
     (let sym_trades = filter (\<lambda>t. bt_symbol t = s) closed_ts;
          sym_wins = filter is_winner sym_trades
      in \<lparr>sm_symbol = s, sm_trade_count = length sym_trades, sm_net_pnl = sum_net sym_trades,
          sm_win_rate = (if sym_trades = [] then None else ratio_of (length sym_wins) (length sym_trades))\<rparr>)"

definition entry_type_row :: "backtest_trade list \<Rightarrow> entry_type \<Rightarrow> entry_type_metrics list" where
  "entry_type_row closed_ts et =
     (let et_trades = filter (\<lambda>t. bt_entry_type t = et) closed_ts;
          et_wins = filter is_winner et_trades
      in if et_trades = [] then []
         else [\<lparr>em_entry_type = et, em_trade_count = length et_trades, em_net_pnl = sum_net et_trades,
                em_win_rate = ratio_of (length et_wins) (length et_trades)\<rparr>])"

definition compute_metrics ::
  "float_metrics \<Rightarrow> backtest_trade list \<Rightarrow> equity_snapshot list \<Rightarrow> decimal \<Rightarrow> decimal \<Rightarrow> decimal \<Rightarrow> decimal \<Rightarrow>
   decimal \<Rightarrow> datetime option \<Rightarrow> datetime option \<Rightarrow> backtest_metrics"
where
  "compute_metrics fm trades curve start_capital end_capital fees funding slippage data_start data_end =
     (let closed_ts = filter is_closed_trade trades;
          trade_count = length closed_ts;
          winners = filter is_winner closed_ts;
          losers = filter is_loser closed_ts;
          win_rate = (if 0 < trade_count then ratio_of (length winners) trade_count else None);
          gross_profit = sum_net winners;
          gross_loss = dabs (sum_net losers);
          profit_factor = (if 0 < gross_loss then safe_div gross_profit gross_loss else None);
          net_pnls = List.map_filter bt_net_pnl closed_ts;
          expectancy_usd = (if 0 < trade_count then safe_div (dsum net_pnls) (of_nat trade_count) else None);
          r_vals = List.map_filter bt_r_multiple closed_ts;
          expectancy_r = (if r_vals \<noteq> [] then safe_div (dsum r_vals) (of_nat (length r_vals)) else None);
          avg_winner = (if winners \<noteq> [] then safe_div (sum_net winners) (of_nat (length winners)) else None);
          avg_loser = (if losers \<noteq> [] then safe_div (sum_net losers) (of_nat (length losers)) else None);
          total_return = safe_div (dsub end_capital start_capital) start_capital;
          cagr = (case (data_start, data_end, total_return) of
                    (Some ds, Some de, Some tr) \<Rightarrow>
                      if 0 < end_capital \<and> 0 < start_capital \<and> 0 < years_between ds de
                      then fm_cagr fm (dadd tr 1) (years_between ds de) else None
                  | _ \<Rightarrow> None);
          max_dd = (case map dd_drawdown_pct (compute_drawdown_curve curve) of
                      [] \<Rightarrow> 0 | x # xs \<Rightarrow> list_max x xs);
          returns = period_returns (map eq_equity curve);
          sharpe = (if 2 \<le> length returns then fm_sharpe fm returns else None);
          sortino = (if 2 \<le> length returns then fm_sortino fm returns else None);
          in_market = length (filter (\<lambda>s. 0 < eq_open_positions s) curve);
          time_in_market = (if curve \<noteq> [] then ratio_of in_market (length curve) else None);
          streak = compute_streaks closed_ts
      in \<lparr>mt_total_return_pct = total_return, mt_cagr_pct = cagr, mt_max_drawdown_pct = max_dd,
          mt_win_rate = win_rate, mt_profit_factor = profit_factor, mt_expectancy_usd = expectancy_usd,
          mt_expectancy_r = expectancy_r, mt_average_winner = avg_winner, mt_average_loser = avg_loser,
          mt_average_r_multiple = expectancy_r, mt_max_win_streak = sk_max_win streak,
          mt_max_loss_streak = sk_max_loss streak, mt_sharpe_ratio = sharpe, mt_sortino_ratio = sortino,
          mt_time_in_market_pct = time_in_market, mt_trade_count = trade_count, mt_total_fees = fees,
          mt_total_funding = funding, mt_total_slippage = slippage,
          mt_per_symbol = map (symbol_row closed_ts) (sort (remdups (map bt_symbol closed_ts))),
          mt_per_entry_type = concat (map (entry_type_row closed_ts) [BREAKOUT, PULLBACK])\<rparr>)"

section \<open>Lemmas\<close>

lemma safe_div_zero [simp]: "safe_div x 0 = None"
  by (simp add: safe_div_def)

text \<open>
  The drawdown curve: its peak is the running maximum of the equity (never below zero),
  and each drawdown lies between zero and one as long as the equity is not negative.
\<close>

lemma length_drawdown_loop [simp]: "length (drawdown_loop p xs) = length xs"
  by (induction xs arbitrary: p) (simp_all add: Let_def)

lemma drawdown_loop_peak:
  "i < length xs \<Longrightarrow>
   dd_peak_equity (drawdown_loop p xs ! i) = list_max p (map eq_equity (take (Suc i) xs))"
proof (induction xs arbitrary: p i)
  case (Cons x xs)
  then show ?case by (cases i) (simp_all add: Let_def)
qed simp

lemma dquot_le_1:
  assumes "0 \<le> a" and "a \<le> b" and "0 < b"
  shows "dquot a b \<le> 1"
  unfolding dquot_def using assms representable_of_int [of 1]
  by (intro dr.le_fixed) (auto simp: dround_id dec_prec_def)

lemma dsub_le_representable:
  assumes "representable p" and "0 \<le> e"
  shows "dsub p e \<le> p"
  unfolding dsub_def using assms by (intro dr.le_fixed) (auto intro: dround_id)

lemma drawdown_loop_range:
  assumes "representable p" and "0 \<le> p" and "\<forall>s \<in> set xs. representable (eq_equity s)"
    and "s \<in> set (drawdown_loop p xs)"
  shows "0 \<le> dd_drawdown_pct s \<and> (0 \<le> dd_equity s \<longrightarrow> dd_drawdown_pct s \<le> 1)"
  using assms
proof (induction xs arbitrary: p)
  case (Cons x xs)
  let ?m = "max p (eq_equity x)"
  have m: "representable ?m" "0 \<le> ?m" using Cons.prems by (auto simp: max_def)
  have gap: "0 \<le> dsub ?m (eq_equity x)" by (intro dsub_nonneg) simp
  have le: "dsub ?m (eq_equity x) \<le> ?m" if "0 \<le> eq_equity x" using dsub_le_representable [OF m(1) that] .
  from Cons.prems(4) consider (now) "dd_equity s = eq_equity x"
      "dd_drawdown_pct s = (case safe_div (dsub ?m (eq_equity x)) ?m of None \<Rightarrow> 0 | Some v \<Rightarrow> v)"
    | (later) "s \<in> set (drawdown_loop ?m xs)"
    by (auto simp: Let_def)
  then show ?case
  proof cases
    case now
    show ?thesis
    proof (cases "?m = 0")
      case True
      with now show ?thesis by simp
    next
      case False
      with m have "0 < ?m" by linarith
      with now False gap le dquot_le_1 [OF gap] dquot_nonneg [OF gap m(2)] show ?thesis
        by (simp add: safe_div_def)
    qed
  next
    case later
    with Cons.IH [OF m] Cons.prems(3) show ?thesis by simp
  qed
qed simp

text \<open>The counts of the tables add up, and the longest run is at most the number of trades.\<close>

lemma winners_losers: "is_closed_trade t \<Longrightarrow> is_loser t \<longleftrightarrow> \<not> is_winner t"
  by (auto simp: is_closed_trade_def is_loser_def is_winner_def split: option.splits)

lemma compute_streaks_bound:
  "sk_max_win (compute_streaks ts) \<le> length (filter is_winner ts) \<and>
   sk_max_loss (compute_streaks ts) \<le> length (filter (\<lambda>t. \<not> is_winner t) ts)"
proof -
  define start where "start = \<lparr>sk_win = 0, sk_loss = 0, sk_max_win = 0, sk_max_loss = (0 :: nat)\<rparr>"
  have "sk_win (foldl streak_step start ts) \<le> length (filter is_winner ts) \<and>
      sk_max_win (foldl streak_step start ts) \<le> length (filter is_winner ts) \<and>
      sk_loss (foldl streak_step start ts) \<le> length (filter (\<lambda>t. \<not> is_winner t) ts) \<and>
      sk_max_loss (foldl streak_step start ts) \<le> length (filter (\<lambda>t. \<not> is_winner t) ts)"
    by (induction ts rule: rev_induct) (auto simp: start_def streak_step_def Let_def)
  then show ?thesis by (simp add: compute_streaks_def start_def)
qed

lemma per_symbol_count:
  "sum_list (map (\<lambda>s. length (filter (\<lambda>t. bt_symbol t = s) ts)) (sort (remdups (map bt_symbol ts)))) = length ts"
proof -
  have "sum_list (map (\<lambda>s. length (filter (\<lambda>t. bt_symbol t = s) ts)) (sort (remdups (map bt_symbol ts)))) =
      (\<Sum>s \<in> bt_symbol ` set ts. length (filter (\<lambda>t. bt_symbol t = s) ts))"
    by (subst sum_list_distinct_conv_sum_set) simp_all
  also have "\<dots> = length ts"
  proof (induction ts)
    case (Cons t ts)
    have "(\<Sum>s \<in> bt_symbol ` set (t # ts). length (filter (\<lambda>u. bt_symbol u = s) (t # ts))) =
        (\<Sum>s \<in> insert (bt_symbol t) (bt_symbol ` set ts). (if bt_symbol t = s then 1 else 0) +
           length (filter (\<lambda>u. bt_symbol u = s) ts))"
      by (rule sum.cong) auto
    also have "\<dots> = 1 + (\<Sum>s \<in> insert (bt_symbol t) (bt_symbol ` set ts). length (filter (\<lambda>u. bt_symbol u = s) ts))"
      by (simp add: sum.distrib)
    also have "(\<Sum>s \<in> insert (bt_symbol t) (bt_symbol ` set ts). length (filter (\<lambda>u. bt_symbol u = s) ts)) =
        (\<Sum>s \<in> bt_symbol ` set ts. length (filter (\<lambda>u. bt_symbol u = s) ts))"
    proof (cases "bt_symbol t \<in> bt_symbol ` set ts")
      case False
      then have "filter (\<lambda>u. bt_symbol u = bt_symbol t) ts = []" by (auto simp: filter_empty_conv image_iff)
      with False show ?thesis by simp
    qed (simp add: insert_absorb)
    finally show ?case using Cons.IH by simp
  qed simp
  finally show ?thesis .
qed

end
