(* ===== verification/Indicators.thy ===== *)
theory Indicators
  imports Strategy_Models
begin

text \<open>
  The technical indicators of \<open>services/strategy_engine/indicators.py\<close>. A Python list of
  \<open>Decimal | None\<close> that is filled by index is a list of options of the same length.

  Beside their recurrences the point of this theory is that no indicator looks ahead:
  its values on a prefix of the candles are those of the whole series (locale
  \<open>causal_series\<close>).
\<close>

section \<open>Definitions\<close>

text \<open>The loop of the EMA: one value per close, each from the previous value.\<close>

fun ema_loop :: "decimal \<Rightarrow> decimal \<Rightarrow> decimal list \<Rightarrow> decimal list" where
  "ema_loop alpha prev [] = []"
| "ema_loop alpha prev (c # cs) =
     (let prev' = dadd (dmul alpha c) (dmul (dsub 1 alpha) prev)
      in prev' # ema_loop alpha prev' cs)"

definition compute_ema :: "decimal list \<Rightarrow> nat \<Rightarrow> decimal option list comp" where
  "compute_ema closes period =
     (if period = 0 then raise (ValueError ''period must be positive'')
      else if length closes < period then ret (replicate (length closes) None)
      else let alpha = dquot 2 (of_nat (period + 1));
               seed = dquot (dsum (take period closes)) (of_nat period)
           in ret (replicate (period - 1) None @
                   map Some (seed # ema_loop alpha seed (drop period closes))))"

text \<open>True range; the first candle has none.\<close>

fun tr_loop :: "decimal \<Rightarrow> candle list \<Rightarrow> decimal option list" where
  "tr_loop prev_close [] = []"
| "tr_loop prev_close (c # cs) =
     Some (max (max (dsub (c_high c) (c_low c)) (dabs (dsub (c_high c) prev_close)))
               (dabs (dsub (c_low c) prev_close)))
     # tr_loop (c_close c) cs"

fun compute_true_range :: "candle list \<Rightarrow> decimal option list" where
  "compute_true_range [] = []"
| "compute_true_range (c # cs) = None # tr_loop (c_close c) cs"

fun atr_loop :: "decimal \<Rightarrow> decimal \<Rightarrow> decimal \<Rightarrow> decimal option list \<Rightarrow> decimal option list" where
  "atr_loop p_minus_1 p atr [] = []"
| "atr_loop p_minus_1 p atr (None # trs) = None # atr_loop p_minus_1 p atr trs"
| "atr_loop p_minus_1 p atr (Some tr_i # trs) =
     (let atr' = dquot (dadd (dmul atr p_minus_1) tr_i) p
      in Some atr' # atr_loop p_minus_1 p atr' trs)"

definition compute_wilder_atr :: "candle list \<Rightarrow> nat \<Rightarrow> decimal option list comp" where
  "compute_wilder_atr cs period =
     (let tr = compute_true_range cs; n = length cs
      in if n \<le> period then ret (replicate n None)
         else case those (take period (drop 1 tr)) of
                None \<Rightarrow> ret (replicate n None)
              | Some seed_values \<Rightarrow>
                  cbind (ddiv (dsum seed_values) (of_nat period)) (\<lambda>atr.
                  ret (replicate period None @
                       Some atr # atr_loop (of_nat (period - 1)) (of_nat period) atr
                                    (drop (period + 1) tr))))"

definition compute_volume_sma :: "decimal list \<Rightarrow> nat \<Rightarrow> decimal option list comp" where
  "compute_volume_sma volumes period =
     (let n = length volumes
      in if n < period then ret (replicate n None)
         else if period = 0 then raise InvalidOperation
         else ret (map (\<lambda>i. if i < period - 1 then None
                            else Some (dquot (dsum (take period (drop (i + 1 - period) volumes)))
                                             (of_nat period)))
                       [0..<n]))"

definition volume_ratio_at :: "decimal \<Rightarrow> decimal option \<Rightarrow> decimal option" where
  "volume_ratio_at v denom =
     (case denom of None \<Rightarrow> None | Some d \<Rightarrow> if d = 0 then None else Some (dquot v d))"

definition compute_volume_ratio :: "decimal list \<Rightarrow> nat \<Rightarrow> decimal option list comp" where
  "compute_volume_ratio volumes period =
     cbind (compute_volume_sma volumes period) (\<lambda>sma.
     ret (map2 volume_ratio_at volumes sma))"

text \<open>\<open>max\<close> of an empty window raises.\<close>

definition py_max :: "decimal list \<Rightarrow> decimal comp" where
  "py_max xs = (case xs of [] \<Rightarrow> raise (ValueError ''max() iterable argument is empty'')
                        | y # ys \<Rightarrow> ret (list_max y ys))"

definition compute_high20 :: "decimal list \<Rightarrow> nat \<Rightarrow> decimal option list comp" where
  "compute_high20 highs lookback =
     cmapM (\<lambda>t. if t < lookback then ret None
                 else cbind (py_max (take lookback (drop (t - lookback) highs))) (\<lambda>m. ret (Some m)))
           [0..<length highs]"

definition compute_highest_close_since_entry :: "decimal list \<Rightarrow> int \<Rightarrow> int \<Rightarrow> decimal comp" where
  "compute_highest_close_since_entry closes entry_index end_index =
     (if entry_index < 0 \<or> end_index \<ge> int (length closes) \<or> entry_index > end_index
      then raise (ValueError ''Invalid index range for highest close'')
      else py_max (take (nat (end_index + 1 - entry_index)) (drop (nat entry_index) closes)))"


section \<open>Series without look-ahead\<close>

text \<open>
  The interface the strategy engine relies on: an indicator returns one value per
  element, and what it returns on a prefix is the prefix of what it returns on the whole.
\<close>

locale causal_series =
  fixes ind :: "'a list \<Rightarrow> 'b list comp"
  assumes ind_length: "ind xs = ret ys \<Longrightarrow> length ys = length xs"
    and ind_prefix: "ind (xs @ zs) = ret ys \<Longrightarrow> ind xs = ret (take (length xs) ys)"
begin

lemma ind_past:
  assumes "ind xs = ret ys"
  shows "ind (take n xs) = ret (take n ys)"
proof -
  have "ind (take n xs) = ret (take (length (take n xs)) ys)"
    using ind_prefix [of "take n xs" "drop n xs" ys] assms by simp
  also have "take (length (take n xs)) ys = take n ys"
    using ind_length [OF assms] by (cases "n \<le> length xs") (simp_all add: min_def)
  finally show ?thesis .
qed

lemma ind_same_past:
  assumes "ind xs = ret ys" and "ind xs' = ret ys'" and "take n xs = take n xs'"
  shows "take n ys = take n ys'"
  using ind_past [OF assms(1), of n] ind_past [OF assms(2), of n] assms(3) by simp

lemma ind_value:
  assumes "ind (xs @ zs) = ret ys" and "ind xs = ret us" and "i < length xs"
  shows "us ! i = ys ! i"
  using ind_prefix [OF assms(1)] assms(2,3) by simp

end

lemma length_ema_loop [simp]: "length (ema_loop a p cs) = length cs"
  by (induction a p cs rule: ema_loop.induct) (simp_all add: Let_def)

lemma take_ema_loop: "take n (ema_loop a p cs) = ema_loop a p (take n cs)"
proof (induction a p cs arbitrary: n rule: ema_loop.induct)
  case (1 a p)
  then show ?case by simp
next
  case (2 a p c cs)
  then show ?case by (cases n) (simp_all add: Let_def)
qed

lemma compute_ema_short: "0 < p \<Longrightarrow> length xs < p \<Longrightarrow> compute_ema xs p = ret (replicate (length xs) None)"
  by (simp add: compute_ema_def)

lemma compute_ema_long:
  "0 < p \<Longrightarrow> p \<le> length xs \<Longrightarrow>
   compute_ema xs p = ret (replicate (p - 1) None @
     map Some (dquot (dsum (take p xs)) (of_nat p) #
       ema_loop (dquot 2 (of_nat (p + 1))) (dquot (dsum (take p xs)) (of_nat p)) (drop p xs)))"
  by (simp add: compute_ema_def Let_def)

interpretation ema: causal_series "\<lambda>xs. compute_ema xs p" for p
proof unfold_locales
  fix xs ys
  assume "compute_ema xs p = ret ys"
  then show "length ys = length xs"
    by (auto simp: compute_ema_def Let_def split: if_splits)
next
  fix xs zs ys
  assume *: "compute_ema (xs @ zs) p = ret ys"
  then have p: "0 < p" by (cases "p = 0") (simp_all add: compute_ema_def)
  consider "length (xs @ zs) < p" | "length xs < p" "p \<le> length (xs @ zs)" | "p \<le> length xs"
    by linarith
  then show "compute_ema xs p = ret (take (length xs) ys)"
  proof cases
    case 1
    with * p show ?thesis by (auto simp: compute_ema_short)
  next
    case 2
    then have "length xs \<le> p - 1" by simp
    with 2 * p show ?thesis by (auto simp: compute_ema_short compute_ema_long)
  next
    case 3
    with * p show ?thesis
      by (auto simp: compute_ema_long Suc_diff_le take_map take_ema_loop)
  qed
qed

lemma length_tr_loop [simp]: "length (tr_loop p cs) = length cs"
  by (induction p cs rule: tr_loop.induct) simp_all

lemma length_true_range [simp]: "length (compute_true_range cs) = length cs"
  by (cases cs) simp_all

lemma tr_loop_append: "tr_loop p (cs @ ds) = tr_loop p cs @ tr_loop (last (p # map c_close cs)) ds"
  by (induction p cs rule: tr_loop.induct) (simp_all add: last_map)

lemma true_range_prefix: "take (length cs) (compute_true_range (cs @ ds)) = compute_true_range cs"
  by (cases cs) (simp_all add: tr_loop_append)

lemma tr_loop_Some: "None \<notin> set (tr_loop p cs)"
  by (induction p cs rule: tr_loop.induct) simp_all

lemma those_map_Some [simp]: "those (map Some xs) = Some xs"
  by (induction xs) simp_all

lemma no_None_map: "None \<notin> set xs \<Longrightarrow> map Some (map the xs) = xs"
  by (induction xs) auto

lemma true_range_tail: "drop (Suc 0) (compute_true_range cs) = map Some (map the (drop (Suc 0) (compute_true_range cs)))"
  by (cases cs) (simp_all add: no_None_map tr_loop_Some del: map_map)

lemma length_atr_loop [simp]: "length (atr_loop a b c trs) = length trs"
  by (induction a b c trs rule: atr_loop.induct) (simp_all add: Let_def)

lemma take_atr_loop: "take n (atr_loop a b c trs) = atr_loop a b c (take n trs)"
proof (induction a b c trs arbitrary: n rule: atr_loop.induct)
  case (1 a b c)
  then show ?case by simp
next
  case (2 a b c trs)
  then show ?case by (cases n) simp_all
next
  case (3 a b c t trs)
  then show ?case by (cases n) (simp_all add: Let_def)
qed

text \<open>The seed of the ATR always exists: only the first true range is undefined.\<close>

abbreviation tr_values :: "candle list \<Rightarrow> decimal list" where
  "tr_values cs \<equiv> map the (drop (Suc 0) (compute_true_range cs))"

lemma compute_wilder_atr_long:
  assumes "0 < p" and "p < length cs"
  shows "compute_wilder_atr cs p = ret (replicate p None @
     Some (dquot (dsum (take p (tr_values cs))) (of_nat p)) #
     atr_loop (of_nat (p - 1)) (of_nat p) (dquot (dsum (take p (tr_values cs))) (of_nat p))
       (drop (p + 1) (compute_true_range cs)))"
proof -
  have "take p (drop (Suc 0) (compute_true_range cs)) = map Some (take p (tr_values cs))"
    by (subst true_range_tail) (simp only: take_map)
  then show ?thesis using assms
    by (simp add: compute_wilder_atr_def Let_def del: map_map)
qed

lemma compute_wilder_atr_short: "length cs \<le> p \<Longrightarrow> compute_wilder_atr cs p = ret (replicate (length cs) None)"
  by (simp add: compute_wilder_atr_def Let_def)

lemma compute_wilder_atr_zero: "cs \<noteq> [] \<Longrightarrow> compute_wilder_atr cs 0 = raise InvalidOperation"
  by (simp add: compute_wilder_atr_def Let_def ddiv_def dsum_def)

interpretation atr: causal_series "\<lambda>cs. compute_wilder_atr cs p" for p
proof unfold_locales
  fix cs ys
  assume "compute_wilder_atr cs p = ret ys"
  then show "length ys = length cs"
    by (cases "length cs \<le> p"; cases "p = 0")
      (auto simp: compute_wilder_atr_short compute_wilder_atr_long compute_wilder_atr_zero)
next
  fix cs ds ys
  assume *: "compute_wilder_atr (cs @ ds) p = ret ys"
  show "compute_wilder_atr cs p = ret (take (length cs) ys)"
  proof (cases "length cs \<le> p")
    case True
    with * show ?thesis
      by (cases "length (cs @ ds) \<le> p"; cases "p = 0")
        (auto simp: compute_wilder_atr_short compute_wilder_atr_long compute_wilder_atr_zero)
  next
    case False
    with * have p: "0 < p" by (cases "p = 0") (auto simp: compute_wilder_atr_zero)
    have tr: "compute_true_range cs = take (length cs) (compute_true_range (cs @ ds))"
      by (simp add: true_range_prefix)
    have seed: "take p (tr_values cs) = take p (tr_values (cs @ ds))"
      using False by (simp add: tr take_map drop_take)
    have rest: "drop (Suc p) (compute_true_range cs) =
        take (length cs - Suc p) (drop (Suc p) (compute_true_range (cs @ ds)))"
      by (simp add: tr drop_take)
    from False have len: "length cs - p = Suc (length cs - Suc p)" by simp
    from * False p show ?thesis
      by (auto simp: compute_wilder_atr_long seed rest take_atr_loop len simp del: map_map)
  qed
qed

lemma compute_volume_sma_length: "compute_volume_sma vs p = ret ys \<Longrightarrow> length ys = length vs"
  by (auto simp: compute_volume_sma_def Let_def split: if_splits)

interpretation vsma: causal_series "\<lambda>vs. compute_volume_sma vs p" for p
proof unfold_locales
  fix vs ys
  assume "compute_volume_sma vs p = ret ys"
  then show "length ys = length vs" by (rule compute_volume_sma_length)
next
  fix vs ws ys
  assume *: "compute_volume_sma (vs @ ws) p = ret ys"
  show "compute_volume_sma vs p = ret (take (length vs) ys)"
  proof (cases "length (vs @ ws) < p")
    case True
    with * show ?thesis by (auto simp: compute_volume_sma_def)
  next
    case False
    with * have p: "0 < p" by (auto simp: compute_volume_sma_def Let_def split: if_splits)
    have upt: "take (length vs) [0..<length vs + length ws] = [0..<length vs]"
      by simp
    show ?thesis
    proof (cases "length vs < p")
      case True
      with * False p show ?thesis
        by (auto simp: compute_volume_sma_def Let_def take_map upt map_replicate_const [symmetric]
            simp flip: map_replicate_trivial intro!: nth_equalityI)
    next
      case False
      with * p show ?thesis
        by (auto simp: compute_volume_sma_def Let_def take_map upt split: if_splits)
    qed
  qed
qed

interpretation vratio: causal_series "\<lambda>vs. compute_volume_ratio vs p" for p
proof unfold_locales
  fix vs ys
  assume "compute_volume_ratio vs p = ret ys"
  then show "length ys = length vs"
    by (auto simp: compute_volume_ratio_def cbind_eq_ret dest: compute_volume_sma_length)
next
  fix vs ws ys
  assume "compute_volume_ratio (vs @ ws) p = ret ys"
  then obtain sma where sma: "compute_volume_sma (vs @ ws) p = ret sma"
    and ys: "ys = map2 volume_ratio_at (vs @ ws) sma"
    by (auto simp: compute_volume_ratio_def cbind_eq_ret)
  show "compute_volume_ratio vs p = ret (take (length vs) ys)"
    by (simp add: compute_volume_ratio_def vsma.ind_prefix [OF sma] ys take_map take_zip)
qed

lemma compute_high20_length: "compute_high20 hs k = ret ys \<Longrightarrow> length ys = length hs"
  by (auto simp: compute_high20_def cmapM_eq_ret dest: list_all2_lengthD)

lemma cmapM_cong: "(\<And>x. x \<in> set xs \<Longrightarrow> f x = g x) \<Longrightarrow> cmapM f xs = cmapM g xs"
  by (induction xs) simp_all

interpretation high: causal_series "\<lambda>hs. compute_high20 hs k" for k
proof unfold_locales
  fix hs ys
  assume "compute_high20 hs k = ret ys"
  then show "length ys = length hs" by (rule compute_high20_length)
next
  fix hs gs ys
  let ?f = "\<lambda>hs t. if t < k then ret None
      else cbind (py_max (take k (drop (t - k) hs))) (\<lambda>m. ret (Some m))"
  assume "compute_high20 (hs @ gs) k = ret ys"
  then obtain us vs where us: "cmapM (?f (hs @ gs)) [0..<length hs] = ret us" and ys: "ys = us @ vs"
    by (auto simp: compute_high20_def upt_add_eq_append [of 0] cmapM_append cbind_eq_ret)
  have "cmapM (?f (hs @ gs)) [0..<length hs] = cmapM (?f hs) [0..<length hs]"
    by (rule cmapM_cong) auto
  with us have *: "compute_high20 hs k = ret us" by (simp add: compute_high20_def)
  then show "compute_high20 hs k = ret (take (length hs) ys)"
    using compute_high20_length [OF *] ys by simp
qed


section \<open>Indicators return\<close>

lemma compute_ema_returns: "0 < p \<Longrightarrow> \<exists>ys. compute_ema xs p = ret ys"
  by (simp add: compute_ema_def Let_def)

lemma compute_wilder_atr_returns: "0 < p \<Longrightarrow> \<exists>ys. compute_wilder_atr cs p = ret ys"
  by (cases "length cs \<le> p") (simp_all add: compute_wilder_atr_short compute_wilder_atr_long)

lemma compute_volume_ratio_returns: "0 < p \<Longrightarrow> \<exists>ys. compute_volume_ratio vs p = ret ys"
  by (simp add: compute_volume_ratio_def compute_volume_sma_def Let_def)

lemma py_max_Cons [simp]: "py_max (x # xs) = ret (list_max x xs)"
  by (simp add: py_max_def)

lemma py_max_Max: "xs \<noteq> [] \<Longrightarrow> py_max xs = ret (Max (set xs))"
proof (cases xs)
  case (Cons y ys)
  have "list_max y ys = Max (set (y # ys))"
    by (rule Max_eqI [symmetric]) (use list_max_ge [of _ y ys] list_max_mem [of y ys] in auto)
  with Cons show ?thesis by simp
qed simp

lemma cmapM_returns: "\<forall>x \<in> set xs. \<exists>y. f x = ret y \<Longrightarrow> \<exists>ys. cmapM f xs = ret ys"
  by (induction xs) auto

lemma high_window: "lookback \<le> t \<Longrightarrow> 0 < lookback \<Longrightarrow> t < length hs \<Longrightarrow> take lookback (drop (t - lookback) hs) \<noteq> []"
  by simp

lemma compute_high20_returns: "0 < k \<Longrightarrow> \<exists>ys. compute_high20 hs k = ret ys"
  unfolding compute_high20_def
  by (rule cmapM_returns) (auto simp: py_max_Max high_window simp del: take_eq_Nil drop_eq_Nil)

text \<open>The breakout level: the highest high of the \<open>lookback\<close> candles before candle \<open>t\<close>.\<close>

lemma compute_high20_value:
  assumes "compute_high20 hs k = ret ys" and "0 < k" and "t < length hs"
  shows "ys ! t = (if t < k then None else Some (Max ((!) hs ` {t - k..<t})))"
proof -
  have val: "(if t < k then ret None else cbind (py_max (take k (drop (t - k) hs))) (\<lambda>m. ret (Some m))) = ret (ys ! t)"
    using assms(1,3) by (auto simp: compute_high20_def cmapM_eq_ret list_all2_conv_all_nth)
  show ?thesis
  proof (cases "t < k")
    case True
    with val show ?thesis by simp
  next
    case False
    have "set (take k (drop (t - k) hs)) = (!) hs ` {t - k..<t}"
    proof -
      have "take k (drop (t - k) hs) = map ((!) hs) [t - k..<t]"
        using False assms(3) by (intro nth_equalityI) simp_all
      then show ?thesis by simp
    qed
    moreover have "take k (drop (t - k) hs) \<noteq> []"
      using False assms(2,3) by (intro high_window) simp_all
    ultimately show ?thesis using val False by (simp add: py_max_Max del: take_eq_Nil drop_eq_Nil)
  qed
qed

text \<open>The EMA follows its recurrence, and is positive on positive closes.\<close>

lemma ema_loop_nth:
  "Suc i < length cs \<Longrightarrow> ema_loop a p cs ! Suc i = dadd (dmul a (cs ! Suc i)) (dmul (dsub 1 a) (ema_loop a p cs ! i))"
proof (induction a p cs arbitrary: i rule: ema_loop.induct)
  case (1 a p)
  then show ?case by simp
next
  case (2 a p c cs)
  then show ?case by (cases i; cases cs) (simp_all add: Let_def)
qed

lemma compute_ema_undefined:
  assumes "compute_ema xs p = ret ys" and "i < length xs" and "Suc i < p"
  shows "ys ! i = None"
proof -
  have p: "0 < p" using assms(3) by simp
  show ?thesis
    using assms p by (cases "length xs < p") (auto simp: compute_ema_short compute_ema_long nth_append)
qed

lemma compute_ema_seed:
  assumes "compute_ema xs p = ret ys" and "0 < p" and "p \<le> length xs"
  shows "ys ! (p - 1) = Some (dquot (dsum (take p xs)) (of_nat p))"
  using assms by (auto simp: compute_ema_long nth_append)

lemma compute_ema_step:
  assumes "compute_ema xs p = ret ys" and "0 < p" and "p \<le> i" and "i < length xs"
  shows "\<exists>prev. ys ! (i - 1) = Some prev \<and>
    ys ! i = Some (dadd (dmul (dquot 2 (of_nat (p + 1))) (xs ! i)) (dmul (dsub 1 (dquot 2 (of_nat (p + 1)))) prev))"
proof -
  let ?a = "dquot 2 (of_nat (p + 1)) :: decimal" and ?s = "dquot (dsum (take p xs)) (of_nat p) :: decimal"
  let ?e = "?s # ema_loop ?a ?s (drop p xs)"
  have len: "p \<le> length xs" using assms by simp
  have ys: "ys = replicate (p - 1) None @ map Some ?e"
    using assms(1) compute_ema_long [OF assms(2) len] by (simp del: of_nat_add)
  define j where "j = i - p"
  then have i: "i = p + j" and j: "j < length xs - p" using assms by simp_all
  have idx: "i - (p - 1) = Suc j" "i - 1 - (p - 1) = j" using i assms(2) by auto
  have nth: "(replicate (p - 1) None @ map Some es) ! k = Some (es ! (k - (p - 1)))"
    if "p - 1 \<le> k" "k - (p - 1) < length es" for es :: "decimal list" and k
    using that by (simp add: nth_append)
  have at: "ys ! i = Some (?e ! Suc j)" "ys ! (i - 1) = Some (?e ! j)"
    unfolding ys using i j idx nth [of i ?e] nth [of "i - 1" ?e] by simp_all
  have "?e ! Suc j = dadd (dmul ?a (xs ! i)) (dmul (dsub 1 ?a) (?e ! j))"
  proof (cases j)
    case 0
    with j obtain c cs where "drop p xs = c # cs" by (cases "drop p xs") auto
    moreover from this have "c = xs ! i" using 0 i j by (metis hd_drop_conv_nth list.sel(1) add_0_right less_diff_conv add.commute)
    ultimately show ?thesis using 0 by (simp add: Let_def del: of_nat_add)
  next
    case (Suc k)
    then show ?thesis
      using j len i ema_loop_nth [of k "drop p xs" ?a ?s] by (simp add: nth_drop del: of_nat_add)
  qed
  then show ?thesis by (intro exI [of _ "?e ! j"]) (simp only: at simp_thms)
qed

lemma ema_loop_pos:
  assumes "0 \<le> a" and "0 \<le> dsub 1 a" and "0 < a \<or> 0 < dsub 1 a"
  shows "0 < p \<Longrightarrow> \<forall>c \<in> set cs. 0 < c \<Longrightarrow> \<forall>e \<in> set (ema_loop a p cs). 0 < e"
  using assms
proof (induction a p cs rule: ema_loop.induct)
  case (1 a p)
  then show ?case by simp
next
  case (2 a p c cs)
  let ?p = "dadd (dmul a c) (dmul (dsub 1 a) p)"
  have nn: "0 \<le> dmul a c" "0 \<le> dmul (dsub 1 a) p"
    using 2 by (auto intro!: dmul_nonneg)
  have "0 < ?p"
  proof (cases "0 < a")
    case True
    then have "0 < dmul a c" using 2 by (simp add: dmul_pos)
    with nn show ?thesis by (simp add: dadd_pos)
  next
    case False
    with 2 have "0 < dmul (dsub 1 a) p" by (simp add: dmul_pos)
    with nn show ?thesis unfolding dadd_def by (intro dround_pos) simp
  qed
  with 2 show ?case by (simp add: Let_def)
qed

end
