(* ===== verification/Entry_Rules.thy ===== *)
theory Entry_Rules
  imports Strategy_Models
begin

text \<open>
  The entry rules of the strategy: the monthly regime (\<open>regime.py\<close>), the weekly trend
  (\<open>trend.py\<close>), the two daily setups and their priority (\<open>entry.py\<close>), all under
  \<open>services/strategy_engine/\<close>.
\<close>

section \<open>Definitions\<close>

definition evaluate_monthly_regime :: "decimal option \<Rightarrow> decimal option \<Rightarrow> regime_result" where
  "evaluate_monthly_regime monthly_close ema_month =
     (case (monthly_close, ema_month) of
        (Some c, Some e) \<Rightarrow>
          (let long = e < c
           in \<lparr>regime_long = long, r_monthly_close = monthly_close, r_ema20_monthly = ema_month,
               r_reason_code = (if long then None else Some RC_REJECT_REGIME)\<rparr>)
      | _ \<Rightarrow> \<lparr>regime_long = False, r_monthly_close = monthly_close, r_ema20_monthly = ema_month,
              r_reason_code = Some RC_REJECT_WARMUP\<rparr>)"

definition evaluate_weekly_trend :: "decimal option \<Rightarrow> decimal option \<Rightarrow> trend_result" where
  "evaluate_weekly_trend ema_fast ema_slow =
     (case (ema_fast, ema_slow) of
        (Some f, Some s) \<Rightarrow>
          (let confirmed = s < f
           in \<lparr>trend_confirmed = confirmed, t_ema20_weekly = ema_fast, t_ema50_weekly = ema_slow,
               t_reason_code = (if confirmed then None else Some RC_REJECT_TREND)\<rparr>)
      | _ \<Rightarrow> \<lparr>trend_confirmed = False, t_ema20_weekly = ema_fast, t_ema50_weekly = ema_slow,
              t_reason_code = Some RC_REJECT_WARMUP\<rparr>)"

definition evaluate_volume_ok :: "decimal option \<Rightarrow> decimal \<Rightarrow> bool" where
  "evaluate_volume_ok volume_ratio ratio_min =
     (case volume_ratio of None \<Rightarrow> False | Some r \<Rightarrow> ratio_min \<le> r)"

definition evaluate_breakout_setup ::
  "decimal \<Rightarrow> decimal option \<Rightarrow> decimal option \<Rightarrow> regime_result \<Rightarrow> trend_result \<Rightarrow> bool \<Rightarrow> entry_setup_result"
where
  "evaluate_breakout_setup close_t high20 ema20 regime trend vol_ok =
     (let price_cond = (case high20 of None \<Rightarrow> False | Some h \<Rightarrow> h < close_t);
          above_ema = (case ema20 of None \<Rightarrow> False | Some e \<Rightarrow> e < close_t)
      in default_entry_setup
           \<lparr>breakout_entry := price_cond \<and> above_ema \<and> regime_long regime \<and> trend_confirmed trend \<and> vol_ok,
            breakout_price_condition := price_cond,
            close_above_ema20 := above_ema,
            volume_ok := vol_ok,
            e_high20 := high20\<rparr>)"

definition evaluate_pullback_setup ::
  "decimal \<Rightarrow> decimal \<Rightarrow> decimal option \<Rightarrow> decimal option \<Rightarrow> decimal option \<Rightarrow>
   regime_result \<Rightarrow> trend_result \<Rightarrow> bool \<Rightarrow> strategy_parameters \<Rightarrow> entry_setup_result"
where
  "evaluate_pullback_setup close_t low_t close_prev ema20 ema20_prev regime trend vol_ok params =
     (case ema20 of
        None \<Rightarrow> default_entry_setup\<lparr>volume_ok := vol_ok\<rparr>
      | Some ema \<Rightarrow>
          (let touch_upper = dmul ema (dadd 1 (pullback_ema_tolerance params));
               p1 = ema < close_t;
               p2 = low_t \<le> touch_upper;
               p3 = (case (close_prev, ema20_prev) of (Some c, Some e) \<Rightarrow> e < c | _ \<Rightarrow> False);
               p4 = regime_long regime;
               p5 = trend_confirmed trend;
               p6 = vol_ok
           in default_entry_setup
                \<lparr>pullback_entry := p1 \<and> p2 \<and> p3 \<and> p4 \<and> p5 \<and> p6,
                 close_above_ema20 := p1,
                 volume_ok := vol_ok,
                 ema_touch_upper := Some touch_upper,
                 pullback_conditions :=
                   \<lparr>p1_close_above_ema = p1, p2_low_touches_ema = p2, p3_prior_close_above_ema = p3,
                    p4_regime_long = p4, p5_trend_confirmed = p5, p6_volume_ok = p6\<rparr>\<rparr>))"

definition resolve_entry_priority ::
  "entry_setup_result \<Rightarrow> entry_setup_result \<Rightarrow> entry_type option \<times> reason_code option" where
  "resolve_entry_priority breakout pullback =
     (if breakout_entry breakout then (Some BREAKOUT, Some RC_ENTRY_BREAKOUT_20D)
      else if pullback_entry pullback then (Some PULLBACK, Some RC_ENTRY_PULLBACK_EMA20)
      else (None, None))"

section \<open>Lemmas\<close>

lemma regime_long_iff:
  "regime_long (evaluate_monthly_regime mc em) \<longleftrightarrow> (\<exists>c e. mc = Some c \<and> em = Some e \<and> e < c)"
  by (auto simp: evaluate_monthly_regime_def Let_def split: option.splits)

lemma trend_confirmed_iff:
  "trend_confirmed (evaluate_weekly_trend f s) \<longleftrightarrow> (\<exists>x y. f = Some x \<and> s = Some y \<and> y < x)"
  by (auto simp: evaluate_weekly_trend_def Let_def split: option.splits)

lemma regime_reason: "\<not> regime_long (evaluate_monthly_regime mc em) \<Longrightarrow>
    r_reason_code (evaluate_monthly_regime mc em) \<in> {Some RC_REJECT_REGIME, Some RC_REJECT_WARMUP}"
  by (auto simp: evaluate_monthly_regime_def Let_def split: option.splits)

lemma trend_reason: "\<not> trend_confirmed (evaluate_weekly_trend f s) \<Longrightarrow>
    t_reason_code (evaluate_weekly_trend f s) \<in> {Some RC_REJECT_TREND, Some RC_REJECT_WARMUP}"
  by (auto simp: evaluate_weekly_trend_def Let_def split: option.splits)

lemma breakout_entry_iff:
  "breakout_entry (evaluate_breakout_setup c h e regime trend v) \<longleftrightarrow>
     (\<exists>x y. h = Some x \<and> x < c \<and> e = Some y \<and> y < c) \<and> regime_long regime \<and> trend_confirmed trend \<and> v"
  by (auto simp: evaluate_breakout_setup_def Let_def split: option.splits)

lemma pullback_entry_iff:
  "pullback_entry (evaluate_pullback_setup c l cp e ep regime trend v params) \<longleftrightarrow>
     (\<exists>x y z. e = Some x \<and> x < c \<and> l \<le> dmul x (dadd 1 (pullback_ema_tolerance params)) \<and>
        cp = Some y \<and> ep = Some z \<and> z < y) \<and> regime_long regime \<and> trend_confirmed trend \<and> v"
  by (auto simp: evaluate_pullback_setup_def default_entry_setup_def Let_def split: option.splits)

lemma resolve_entry_Some:
  "resolve_entry_priority b p = (Some t, r) \<Longrightarrow>
     r \<noteq> None \<and> (t = BREAKOUT \<longleftrightarrow> breakout_entry b) \<and> (breakout_entry b \<or> pullback_entry p)"
  by (auto simp: resolve_entry_priority_def split: if_splits)

end
