(* ===== verification/Candle_Validation.thy ===== *)
theory Candle_Validation
  imports Strategy_Models
begin

text \<open>
  The fail-closed validation of a candle series
  (\<open>services/strategy_engine/validation.py\<close>): the checks of one candle, the loop over the
  series with its set of seen times and previous time, and the warm-up lengths. The main
  result characterises the series that pass: non-empty, of one symbol and timeframe, all
  closed before the evaluation time, strictly increasing in time, with sane prices.
\<close>

section \<open>Definitions\<close>

definition data_error :: "string \<Rightarrow> details \<Rightarrow> strategy_error" where
  "data_error msg ds = \<lparr>se_code = RC_REJECT_DATA, se_message = msg, se_details = ds\<rparr>"

definition open_time_detail :: "candle \<Rightarrow> details" where
  "open_time_detail c = [(''open_time'', DTime (open_time c))]"

text \<open>The first field of the list whose float value is not finite, as an error.\<close>

fun first_non_finite :: "candle \<Rightarrow> (string \<times> decimal) list \<Rightarrow> strategy_error option" where
  "first_non_finite c [] = None"
| "first_non_finite c ((name, val) # fs) =
     (if \<not> float_is_finite val
      then Some (data_error (name @ '' is NaN or Infinity'') (open_time_detail c))
      else first_non_finite c fs)"

definition validate_ohlc :: "candle \<Rightarrow> strategy_error option" where
  "validate_ohlc c =
     (case first_non_finite c [(''open'', c_open c), (''high'', c_high c), (''low'', c_low c),
                               (''close'', c_close c), (''volume'', c_volume c)] of
        Some e \<Rightarrow> Some e
      | None \<Rightarrow>
          if c_open c \<le> 0 \<or> c_high c \<le> 0 \<or> c_low c \<le> 0 \<or> c_close c \<le> 0
          then Some (data_error ''OHLC values must be greater than zero'' (open_time_detail c))
          else if c_high c < c_open c \<or> c_high c < c_close c \<or> c_high c < c_low c
          then Some (data_error ''high must be >= open, close, and low'' (open_time_detail c))
          else if c_low c > c_open c \<or> c_low c > c_close c \<or> c_low c > c_high c
          then Some (data_error ''low must be <= open, close, and high'' (open_time_detail c))
          else if c_volume c < 0
          then Some (data_error ''volume must be >= 0'' (open_time_detail c))
          else None)"

text \<open>The errors one candle adds, given the times seen so far and the previous time.\<close>

definition candle_errors ::
  "candle_series \<Rightarrow> datetime \<Rightarrow> datetime set \<Rightarrow> datetime option \<Rightarrow> candle \<Rightarrow> strategy_error list"
where
  "candle_errors series evaluation_time seen prev c =
     (if c_symbol c \<noteq> s_symbol series
      then [data_error ''Symbol mismatch in candle series''
              [(''expected'', DStr (s_symbol series)), (''actual'', DStr (c_symbol c))]] else []) @
     (if c_timeframe c \<noteq> s_timeframe series
      then [data_error ''Timeframe mismatch in candle'' (open_time_detail c)] else []) @
     (if \<not> is_closed c
      then [data_error ''Open (unclosed) candle not allowed'' (open_time_detail c)] else []) @
     (if evaluation_time < close_time c
      then [data_error ''Evaluation time before candle close_time''
              [(''open_time'', DTime (open_time c)), (''close_time'', DTime (close_time c)),
               (''evaluation_time'', DTime evaluation_time)]] else []) @
     (if open_time c \<in> seen
      then [data_error ''Duplicate candle timestamp'' (open_time_detail c)] else []) @
     (case prev of
        None \<Rightarrow> []
      | Some t \<Rightarrow>
          if open_time c \<le> t
          then [data_error ''Candles not strictly chronologically sorted by open_time'' (open_time_detail c)]
          else []) @
     (case validate_ohlc c of None \<Rightarrow> [] | Some e \<Rightarrow> [e])"

fun candles_loop ::
  "candle_series \<Rightarrow> datetime \<Rightarrow> datetime set \<Rightarrow> datetime option \<Rightarrow> candle list \<Rightarrow> strategy_error list"
where
  "candles_loop series evaluation_time seen prev [] = []"
| "candles_loop series evaluation_time seen prev (c # cs) =
     candle_errors series evaluation_time seen prev c @
     candles_loop series evaluation_time (insert (open_time c) seen) (Some (open_time c)) cs"

definition min_candles_for_warmup :: "timeframe \<Rightarrow> strategy_parameters option \<Rightarrow> nat" where
  "min_candles_for_warmup tf params =
     (let p = (case params of None \<Rightarrow> default_strategy_parameters | Some p \<Rightarrow> p)
      in case tf of
           DAILY \<Rightarrow> max (max (max (daily_ema_period p) (atr_period p + 1)) (volume_sma_period p))
                        (breakout_lookback p + 1)
         | WEEKLY \<Rightarrow> max (weekly_ema_slow p) (weekly_ema_fast p + 1)
         | MONTHLY \<Rightarrow> monthly_ema_period p)"

definition validate_candle_series ::
  "candle_series \<Rightarrow> datetime \<Rightarrow> timeframe option \<Rightarrow> data_quality_status \<times> strategy_error list"
where
  "validate_candle_series series evaluation_time expected =
     (let errors0 = (case expected of
                       None \<Rightarrow> []
                     | Some tf \<Rightarrow>
                         if s_timeframe series \<noteq> tf
                         then [data_error ''Incorrect timeframe''
                                 [(''expected'', DStr (timeframe_value tf)),
                                  (''actual'', DStr (timeframe_value (s_timeframe series)))]]
                         else [])
      in if candles series = []
         then (DQ_INVALID_DATA, errors0 @ [data_error ''Empty candle series'' []])
         else let errors = errors0 @ candles_loop series evaluation_time {} None (candles series)
              in if errors \<noteq> [] then (DQ_INVALID_DATA, errors)
                 else let min_required = min_candles_for_warmup (s_timeframe series) None
                      in if length (candles series) < min_required
                         then (DQ_INSUFFICIENT_HISTORY,
                               [\<lparr>se_code = RC_REJECT_WARMUP,
                                 se_message = ''Insufficient history for timeframe'',
                                 se_details = [(''timeframe'', DStr (timeframe_value (s_timeframe series))),
                                               (''required'', DInt (int min_required)),
                                               (''actual'', DInt (int (length (candles series))))]\<rparr>])
                         else (DQ_OK, []))"

definition check_warmup_complete :: "nat \<Rightarrow> nat \<Rightarrow> nat \<Rightarrow> strategy_parameters option \<Rightarrow> bool" where
  "check_warmup_complete daily_count weekly_count monthly_count params =
     (let p = (case params of None \<Rightarrow> default_strategy_parameters | Some p \<Rightarrow> p)
      in min_candles_for_warmup DAILY (Some p) \<le> daily_count \<and>
         min_candles_for_warmup WEEKLY (Some p) \<le> weekly_count \<and>
         min_candles_for_warmup MONTHLY (Some p) \<le> monthly_count)"

section \<open>What passes\<close>

definition sane_candle :: "candle \<Rightarrow> bool" where
  "sane_candle c \<longleftrightarrow>
     (\<forall>v \<in> {c_open c, c_high c, c_low c, c_close c, c_volume c}. float_is_finite v) \<and>
     0 < c_low c \<and> c_low c \<le> c_open c \<and> c_low c \<le> c_close c \<and>
     c_open c \<le> c_high c \<and> c_close c \<le> c_high c \<and> 0 \<le> c_volume c"

lemma validate_ohlc_None: "validate_ohlc c = None \<longleftrightarrow> sane_candle c"
  by (auto simp: validate_ohlc_def sane_candle_def split: if_splits)

definition good_candle :: "candle_series \<Rightarrow> datetime \<Rightarrow> candle \<Rightarrow> bool" where
  "good_candle series evaluation_time c \<longleftrightarrow>
     c_symbol c = s_symbol series \<and> c_timeframe c = s_timeframe series \<and> is_closed c \<and>
     close_time c \<le> evaluation_time \<and> sane_candle c"

lemma candle_errors_Nil:
  "candle_errors series et seen prev c = [] \<longleftrightarrow>
     good_candle series et c \<and> open_time c \<notin> seen \<and> (\<forall>t. prev = Some t \<longrightarrow> t < open_time c)"
  by (auto simp: candle_errors_def good_candle_def validate_ohlc_None [symmetric] not_less not_le
      split: option.splits if_splits)

lemma candles_loop_Nil:
  assumes "\<forall>t \<in> seen. \<exists>p. prev = Some p \<and> t \<le> p"
  shows "candles_loop series et seen prev cs = [] \<longleftrightarrow>
     (\<forall>c \<in> set cs. good_candle series et c) \<and>
     sorted_wrt (<) ((case prev of None \<Rightarrow> [] | Some p \<Rightarrow> [p]) @ map open_time cs)"
  using assms
proof (induction cs arbitrary: seen prev)
  case Nil
  then show ?case by (simp split: option.splits)
next
  case (Cons c cs)
  have seen: "\<forall>t \<in> insert (open_time c) seen. \<exists>p. Some (open_time c) = Some p \<and> t \<le> p"
    if "\<forall>t. prev = Some t \<longrightarrow> t < open_time c"
    using Cons.prems that by force
  have new: "open_time c \<notin> seen" if "\<forall>t. prev = Some t \<longrightarrow> t < open_time c"
    using Cons.prems that by force
  show ?case
  proof (cases "\<forall>t. prev = Some t \<longrightarrow> t < open_time c")
    case True
    with Cons.IH [OF seen [OF True]] new [OF True] show ?thesis
      by (auto simp: candle_errors_Nil split: option.splits) (meson less_trans)
  next
    case False
    then show ?thesis by (auto simp: candle_errors_Nil split: option.splits)
  qed
qed

definition well_formed_series :: "candle_series \<Rightarrow> datetime \<Rightarrow> bool" where
  "well_formed_series series et \<longleftrightarrow>
     candles series \<noteq> [] \<and> (\<forall>c \<in> set (candles series). good_candle series et c) \<and>
     sorted_wrt (<) (map open_time (candles series))"

lemma validate_status_cases:
  "fst (validate_candle_series series et (Some tf)) \<noteq> DQ_INVALID_DATA \<longleftrightarrow>
     s_timeframe series = tf \<and> well_formed_series series et"
  by (auto simp: validate_candle_series_def well_formed_series_def candles_loop_Nil Let_def)

lemma validate_OK:
  "fst (validate_candle_series series et (Some tf)) = DQ_OK \<longleftrightarrow>
     s_timeframe series = tf \<and> well_formed_series series et \<and>
     min_candles_for_warmup tf None \<le> length (candles series)"
  by (auto simp: validate_candle_series_def well_formed_series_def candles_loop_Nil Let_def not_less)

lemma validate_errors_Nil:
  "snd (validate_candle_series series et (Some tf)) = [] \<longleftrightarrow>
     fst (validate_candle_series series et (Some tf)) = DQ_OK"
  by (auto simp: validate_candle_series_def Let_def)

end
