(* ===== verification/Strategy_Engine.thy ===== *)
theory Strategy_Engine
  imports Indicators Entry_Rules Stops Candle_Validation
begin

text \<open>
  The strategy engine (\<open>services/strategy_engine/engine.py\<close>): \<open>StrategyEngine.evaluate\<close> as
  the code composes it, from the symbol and data checks over the indicators to the signal.
\<close>

section \<open>Definitions\<close>

definition last_index :: "candle_series \<Rightarrow> int" where
  "last_index series = int (length (candles series)) - 1"

definition closes_of :: "candle_series \<Rightarrow> decimal list" where
  "closes_of series = map c_close (candles series)"

definition highs_of :: "candle_series \<Rightarrow> decimal list" where
  "highs_of series = map c_high (candles series)"

definition volumes_of :: "candle_series \<Rightarrow> decimal list" where
  "volumes_of series = map c_volume (candles series)"

definition empty_regime :: regime_result where
  "empty_regime = \<lparr>regime_long = False, r_monthly_close = None, r_ema20_monthly = None,
                   r_reason_code = Some RC_REJECT_WARMUP\<rparr>"

definition empty_trend :: trend_result where
  "empty_trend = \<lparr>trend_confirmed = False, t_ema20_weekly = None, t_ema50_weekly = None,
                  t_reason_code = Some RC_REJECT_WARMUP\<rparr>"

definition empty_indicators :: indicator_snapshot where
  "empty_indicators =
     \<lparr>evaluation_index = -1, ema20_daily = None, ema20_weekly = None, ema50_weekly = None,
      ema20_monthly = None, atr14_daily = None, volume_sma20 = None, i_volume_ratio = None,
      i_high20 = None, i_monthly_close = None\<rparr>"

text \<open>\<open>_build_no_entry_evaluation\<close>: the optional arguments come as options.\<close>

definition build_no_entry_evaluation ::
  "string \<Rightarrow> datetime \<Rightarrow> strategy_parameters \<Rightarrow> data_quality_status \<Rightarrow> signal_intent_kind \<Rightarrow>
   reason_code list \<Rightarrow> strategy_error list \<Rightarrow> regime_result option \<Rightarrow> trend_result option \<Rightarrow>
   indicator_snapshot option \<Rightarrow> entry_setup_result option \<Rightarrow> entry_setup_result option \<Rightarrow>
   decimal option \<Rightarrow> decimal option \<Rightarrow> strategy_evaluation"
where
  "build_no_entry_evaluation symbol et params dq kind codes errors regime trend inds brk pull vr atr =
     \<lparr>ev_symbol = symbol, ev_time = et, ev_strategy_version = STRATEGY_VERSION, ev_parameters = params,
      monthly_regime = (case regime of None \<Rightarrow> empty_regime | Some r \<Rightarrow> r),
      weekly_trend = (case trend of None \<Rightarrow> empty_trend | Some t \<Rightarrow> t),
      breakout_result = (case brk of None \<Rightarrow> default_entry_setup | Some b \<Rightarrow> b),
      pullback_result = (case pull of None \<Rightarrow> default_entry_setup | Some p \<Rightarrow> p),
      indicators = (case inds of None \<Rightarrow> empty_indicators | Some i \<Rightarrow> i),
      ev_volume_ratio = vr, ev_atr = atr, selected_entry_type = None,
      ev_signal_intent = \<lparr>si_kind = kind, si_entry_type = None, si_entry_price = None,
                          si_stop_initial = None,
                          primary_reason_code = (case codes of [] \<Rightarrow> None | c # _ \<Rightarrow> Some c)\<rparr>,
      ev_reason_codes = codes, ev_data_quality = dq, ev_errors = errors\<rparr>"

text \<open>
  The indicators at the last daily candle: the series in the order the code computes
  them, read at the last index; beside the snapshot the previous daily EMA.
\<close>

definition compute_indicators ::
  "candle_series \<Rightarrow> candle_series \<Rightarrow> candle_series \<Rightarrow> strategy_parameters \<Rightarrow>
   (indicator_snapshot \<times> decimal option) comp"
where
  "compute_indicators daily weekly monthly params =
     (let t = last_index daily; w_idx = last_index weekly; m_idx = last_index monthly
      in cbind (compute_ema (closes_of daily) (daily_ema_period params)) (\<lambda>ema20_daily_series.
         cbind (compute_wilder_atr (candles daily) (atr_period params)) (\<lambda>atr14_series.
         cbind (compute_volume_ratio (volumes_of daily) (volume_sma_period params)) (\<lambda>volume_ratio_series.
         cbind (compute_high20 (highs_of daily) (breakout_lookback params)) (\<lambda>high20_series.
         cbind (compute_ema (closes_of weekly) (weekly_ema_fast params)) (\<lambda>ema20_weekly_series.
         cbind (compute_ema (closes_of weekly) (weekly_ema_slow params)) (\<lambda>ema50_weekly_series.
         cbind (compute_ema (closes_of monthly) (monthly_ema_period params)) (\<lambda>ema20_monthly_series.
         cbind (py_get ema20_daily_series t) (\<lambda>e20d.
         cbind (if 1 \<le> t then py_get ema20_daily_series (t - 1) else ret None) (\<lambda>e20d_prev.
         cbind (py_get atr14_series t) (\<lambda>atr14.
         cbind (py_get volume_ratio_series t) (\<lambda>vr.
         cbind (py_get high20_series t) (\<lambda>h20.
         cbind (py_get ema20_weekly_series w_idx) (\<lambda>e20w.
         cbind (py_get ema50_weekly_series w_idx) (\<lambda>e50w.
         cbind (py_get ema20_monthly_series m_idx) (\<lambda>e20m.
         cbind (py_get (closes_of monthly) m_idx) (\<lambda>mc.
         ret (\<lparr>evaluation_index = t, ema20_daily = e20d, ema20_weekly = e20w, ema50_weekly = e50w,
               ema20_monthly = e20m, atr14_daily = atr14, volume_sma20 = None, i_volume_ratio = vr,
               i_high20 = h20, i_monthly_close = Some mc\<rparr>, e20d_prev))))))))))))))))))"

text \<open>The reason codes of an evaluation without a setup.\<close>

definition no_signal_reasons :: "regime_result \<Rightarrow> trend_result \<Rightarrow> bool \<Rightarrow> reason_code list" where
  "no_signal_reasons regime trend vol_ok =
     (let codes =
        (if \<not> regime_long regime then (case r_reason_code regime of None \<Rightarrow> [] | Some c \<Rightarrow> [c]) else []) @
        (if \<not> trend_confirmed trend then (case t_reason_code trend of None \<Rightarrow> [] | Some c \<Rightarrow> [c]) else []) @
        (if \<not> vol_ok then [RC_REJECT_VOLUME] else [])
      in if codes = [] then [RC_REJECT_NO_SIGNAL] else codes)"

text \<open>
  The decision once every indicator is there: \<open>candle_t\<close> is the last daily candle, \<open>atr14\<close>
  its ATR.
\<close>

definition decide_signal ::
  "string \<Rightarrow> datetime \<Rightarrow> strategy_parameters \<Rightarrow> strategy_error list \<Rightarrow> candle \<Rightarrow> decimal option \<Rightarrow>
   indicator_snapshot \<Rightarrow> decimal option \<Rightarrow> decimal \<Rightarrow> strategy_evaluation comp"
where
  "decide_signal symbol et params errors candle_t close_prev inds e20d_prev atr14 =
     (let regime = evaluate_monthly_regime (i_monthly_close inds) (ema20_monthly inds);
          trend = evaluate_weekly_trend (ema20_weekly inds) (ema50_weekly inds);
          vol_ok = evaluate_volume_ok (i_volume_ratio inds) (volume_ratio_min params);
          brk = evaluate_breakout_setup (c_close candle_t) (i_high20 inds) (ema20_daily inds)
                  regime trend vol_ok;
          pull = evaluate_pullback_setup (c_close candle_t) (c_low candle_t) close_prev
                   (ema20_daily inds) e20d_prev regime trend vol_ok params;
          entry_price = c_close candle_t
      in cbind (compute_initial_stop entry_price atr14 params None) (\<lambda>stop_initial.
         case resolve_entry_priority brk pull of
           (Some entry, Some reason) \<Rightarrow>
             if entry_price \<le> stop_initial
             then ret (build_no_entry_evaluation symbol et params DQ_OK NO_ENTRY [RC_REJECT_DATA] errors
                         (Some regime) (Some trend) (Some inds) (Some brk) (Some pull)
                         (i_volume_ratio inds) (Some atr14))
             else ret \<lparr>ev_symbol = symbol, ev_time = et, ev_strategy_version = STRATEGY_VERSION,
                       ev_parameters = params, monthly_regime = regime, weekly_trend = trend,
                       breakout_result = brk, pullback_result = pull, indicators = inds,
                       ev_volume_ratio = i_volume_ratio inds, ev_atr = Some atr14,
                       selected_entry_type = Some entry,
                       ev_signal_intent = \<lparr>si_kind = LONG_ENTRY, si_entry_type = Some entry,
                                           si_entry_price = Some entry_price,
                                           si_stop_initial = Some stop_initial,
                                           primary_reason_code = Some reason\<rparr>,
                       ev_reason_codes = [reason], ev_data_quality = DQ_OK, ev_errors = errors\<rparr>
         | _ \<Rightarrow>
             (let codes = no_signal_reasons regime trend vol_ok
              in ret \<lparr>ev_symbol = symbol, ev_time = et, ev_strategy_version = STRATEGY_VERSION,
                      ev_parameters = params, monthly_regime = regime, weekly_trend = trend,
                      breakout_result = brk, pullback_result = pull, indicators = inds,
                      ev_volume_ratio = i_volume_ratio inds, ev_atr = Some atr14,
                      selected_entry_type = None,
                      ev_signal_intent = \<lparr>si_kind = NO_ENTRY, si_entry_type = None,
                                          si_entry_price = None, si_stop_initial = None,
                                          primary_reason_code = Some (last codes)\<rparr>,
                      ev_reason_codes = codes, ev_data_quality = DQ_OK, ev_errors = errors\<rparr>)))"

definition evaluate_series ::
  "candle_series \<Rightarrow> candle_series \<Rightarrow> candle_series \<Rightarrow> datetime \<Rightarrow> strategy_parameters \<Rightarrow>
   strategy_error list \<Rightarrow> strategy_evaluation comp"
where
  "evaluate_series daily weekly monthly et params errors =
     (let symbol = s_symbol daily; t = last_index daily
      in cbind (py_get (candles daily) t) (\<lambda>candle_t.
         cbind (compute_indicators daily weekly monthly params) (\<lambda>(inds, e20d_prev).
         case (ema20_daily inds, atr14_daily inds, i_volume_ratio inds, ema20_weekly inds,
               ema50_weekly inds, ema20_monthly inds) of
           (Some e20d, Some atr14, Some vr, Some e20w, Some e50w, Some e20m) \<Rightarrow>
             if atr14 \<le> 0
             then ret (build_no_entry_evaluation symbol et params DQ_INSUFFICIENT_HISTORY
                         INSUFFICIENT_HISTORY [RC_REJECT_WARMUP] errors
                         (Some (evaluate_monthly_regime (i_monthly_close inds) (ema20_monthly inds)))
                         (Some (evaluate_weekly_trend (ema20_weekly inds) (ema50_weekly inds)))
                         (Some inds) None None (i_volume_ratio inds) (atr14_daily inds))
             else cbind (if 1 \<le> t then cbind (py_get (closes_of daily) (t - 1)) (\<lambda>c. ret (Some c))
                         else ret None) (\<lambda>close_prev.
                  decide_signal symbol et params errors candle_t close_prev inds e20d_prev atr14)
         | _ \<Rightarrow> ret (build_no_entry_evaluation symbol et params DQ_INSUFFICIENT_HISTORY
                       INSUFFICIENT_HISTORY [RC_REJECT_WARMUP] errors
                       (Some (evaluate_monthly_regime (i_monthly_close inds) (ema20_monthly inds)))
                       (Some (evaluate_weekly_trend (ema20_weekly inds) (ema50_weekly inds)))
                       (Some inds) None None (i_volume_ratio inds) (atr14_daily inds)))))"

definition symbol_mismatch :: "candle_series \<Rightarrow> candle_series \<Rightarrow> datetime \<Rightarrow> strategy_parameters \<Rightarrow> strategy_evaluation"
where
  "symbol_mismatch daily series et params =
     build_no_entry_evaluation (s_symbol daily) et params DQ_INVALID_DATA INVALID_DATA [RC_REJECT_DATA]
       [data_error ''Symbol mismatch across timeframes''
          [(''daily'', DStr (s_symbol daily)), (''other'', DStr (s_symbol series))]]
       None None None None None None None"

definition strategy_evaluate ::
  "candle_series \<Rightarrow> candle_series \<Rightarrow> candle_series \<Rightarrow> datetime \<Rightarrow> strategy_parameters option \<Rightarrow>
   strategy_evaluation comp"
where
  "strategy_evaluate daily weekly monthly et parameters =
     (let params = (case parameters of None \<Rightarrow> default_strategy_parameters | Some p \<Rightarrow> p);
          symbol = s_symbol daily
      in if s_symbol weekly \<noteq> symbol then ret (symbol_mismatch daily weekly et params)
         else if s_symbol monthly \<noteq> symbol then ret (symbol_mismatch daily monthly et params)
         else
           let (daily_status, daily_errors) = validate_candle_series daily et (Some DAILY);
               (weekly_status, weekly_errors) = validate_candle_series weekly et (Some WEEKLY);
               (monthly_status, monthly_errors) = validate_candle_series monthly et (Some MONTHLY);
               all_errors = daily_errors @ weekly_errors @ monthly_errors
           in if DQ_INVALID_DATA \<in> {daily_status, weekly_status, monthly_status}
              then ret (build_no_entry_evaluation symbol et params DQ_INVALID_DATA INVALID_DATA
                          [RC_REJECT_DATA] all_errors None None None None None None None)
              else if (daily_status = DQ_INSUFFICIENT_HISTORY \<or> weekly_status \<noteq> DQ_OK \<or>
                       monthly_status \<noteq> DQ_OK) \<and>
                      \<not> check_warmup_complete (series_length daily) (series_length weekly)
                          (series_length monthly) (Some params)
              then ret (build_no_entry_evaluation symbol et params DQ_INSUFFICIENT_HISTORY
                          INSUFFICIENT_HISTORY [RC_REJECT_WARMUP] all_errors
                          None None None None None None None)
              else evaluate_series daily weekly monthly et params all_errors)"


section \<open>When the engine signals an entry\<close>

lemma no_entry_kind [simp]:
  "si_kind (ev_signal_intent (build_no_entry_evaluation sy et p dq kind codes errs r t i b pl vr a)) = kind"
  by (simp add: build_no_entry_evaluation_def)

lemma no_entry_fields [simp]:
  "selected_entry_type (build_no_entry_evaluation sy et p dq kind codes errs r t i b pl vr a) = None"
  "ev_data_quality (build_no_entry_evaluation sy et p dq kind codes errs r t i b pl vr a) = dq"
  "ev_reason_codes (build_no_entry_evaluation sy et p dq kind codes errs r t i b pl vr a) = codes"
  "ev_errors (build_no_entry_evaluation sy et p dq kind codes errs r t i b pl vr a) = errs"
  by (simp_all add: build_no_entry_evaluation_def)

text \<open>
  What an entry signal says, as a predicate on the evaluation: the filters all passed,
  the selected setup is one that triggered, and the stop is below the entry price.
\<close>

definition entry_signal_ok :: "strategy_evaluation \<Rightarrow> strategy_parameters \<Rightarrow> candle \<Rightarrow> bool" where
  "entry_signal_ok ev params candle_t \<longleftrightarrow>
     regime_long (monthly_regime ev) \<and> trend_confirmed (weekly_trend ev) \<and>
     evaluate_volume_ok (ev_volume_ratio ev) (volume_ratio_min params) \<and>
     (breakout_entry (breakout_result ev) \<or> pullback_entry (pullback_result ev)) \<and>
     selected_entry_type ev =
       Some (if breakout_entry (breakout_result ev) then BREAKOUT else PULLBACK) \<and>
     si_entry_type (ev_signal_intent ev) = selected_entry_type ev \<and>
     si_entry_price (ev_signal_intent ev) = Some (c_close candle_t) \<and>
     (\<exists>stop atr. si_stop_initial (ev_signal_intent ev) = Some stop \<and> ev_atr ev = Some atr \<and> 0 < atr \<and>
        stop = dsub (c_close candle_t) (dmul (stop_initial_atr_mult params) atr) \<and> stop < c_close candle_t)"

lemma compute_initial_stop_no_tick [simp]:
  "compute_initial_stop e a params None = ret (dsub e (dmul (stop_initial_atr_mult params) a))"
  by (simp add: compute_initial_stop_def opt_round_to_tick_def)

lemma resolve_cases:
  obtains "resolve_entry_priority b p = (Some BREAKOUT, Some RC_ENTRY_BREAKOUT_20D)" "breakout_entry b"
  | "resolve_entry_priority b p = (Some PULLBACK, Some RC_ENTRY_PULLBACK_EMA20)" "\<not> breakout_entry b" "pullback_entry p"
  | "resolve_entry_priority b p = (None, None)" "\<not> breakout_entry b" "\<not> pullback_entry p"
  by (auto simp: resolve_entry_priority_def split: if_splits)

lemma decide_signal_returns: "\<exists>ev. decide_signal sy et params errs c cp inds ep atr = ret ev"
  by (auto simp: decide_signal_def Let_def split: prod.splits option.splits)

lemma decide_signal_entry:
  assumes ev: "decide_signal sy et params errs c cp inds ep atr = ret ev" and atr: "0 < atr"
    and long: "si_kind (ev_signal_intent ev) = LONG_ENTRY"
  shows "entry_signal_ok ev params c" and "ev_errors ev = errs" and "ev_symbol ev = sy"
    and "ev_data_quality ev = DQ_OK"
proof -
  define regime where "regime = evaluate_monthly_regime (i_monthly_close inds) (ema20_monthly inds)"
  define trend where "trend = evaluate_weekly_trend (ema20_weekly inds) (ema50_weekly inds)"
  define vol where "vol = evaluate_volume_ok (i_volume_ratio inds) (volume_ratio_min params)"
  define brk where "brk = evaluate_breakout_setup (c_close c) (i_high20 inds) (ema20_daily inds) regime trend vol"
  define pull where "pull = evaluate_pullback_setup (c_close c) (c_low c) cp (ema20_daily inds) ep regime trend vol params"
  note defs = regime_def [symmetric] trend_def [symmetric] vol_def [symmetric] brk_def [symmetric] pull_def [symmetric]
  have filters: "regime_long regime \<and> trend_confirmed trend \<and> vol"
    if "breakout_entry brk \<or> pullback_entry pull"
    using that by (auto simp: brk_def pull_def breakout_entry_iff pullback_entry_iff)
  note run = ev [unfolded decide_signal_def Let_def defs compute_initial_stop_no_tick cbind_ret]
  have "entry_signal_ok ev params c \<and> ev_errors ev = errs \<and> ev_symbol ev = sy \<and> ev_data_quality ev = DQ_OK"
  proof (cases rule: resolve_cases [of brk pull])
    case 1
    with run long atr filters show ?thesis
      by (simp split: if_splits) (auto simp: entry_signal_ok_def vol_def not_le)
  next
    case 2
    with run long atr filters show ?thesis
      by (simp split: if_splits) (auto simp: entry_signal_ok_def vol_def not_le)
  next
    case 3
    with run long show ?thesis by auto
  qed
  then show "entry_signal_ok ev params c" "ev_errors ev = errs" "ev_symbol ev = sy" "ev_data_quality ev = DQ_OK"
    by blast+
qed

lemma evaluate_series_entry:
  assumes "evaluate_series d w m et params errs = ret ev"
    and "si_kind (ev_signal_intent ev) = LONG_ENTRY"
  shows "candles d \<noteq> []" and "entry_signal_ok ev params (last (candles d))"
    and "ev_errors ev = errs" and "ev_symbol ev = s_symbol d" and "ev_data_quality ev = DQ_OK"
proof -
  from assms obtain c inds ep atr cp where c: "py_get (candles d) (last_index d) = ret c"
    and run: "decide_signal (s_symbol d) et params errs c cp inds ep atr = ret ev" and atr: "0 < atr"
    by (auto simp: evaluate_series_def Let_def cbind_eq_ret not_le split: option.splits if_splits prod.splits)
  show ne: "candles d \<noteq> []"
    using c by (auto simp: py_get_def last_index_def)
  then have last: "c = last (candles d)"
    using c py_get_last [of "candles d"] by (simp add: last_index_def)
  show "entry_signal_ok ev params (last (candles d))" "ev_errors ev = errs" "ev_symbol ev = s_symbol d"
    "ev_data_quality ev = DQ_OK"
    using decide_signal_entry [OF run atr assms(2)] last by auto
qed

lemma strategy_evaluate_cases:
  assumes "strategy_evaluate d w m et parameters = ret ev"
    and "si_kind (ev_signal_intent ev) = LONG_ENTRY"
    and "params = (case parameters of None \<Rightarrow> default_strategy_parameters | Some p \<Rightarrow> p)"
  obtains errs where "evaluate_series d w m et params errs = ret ev"
    and "s_symbol w = s_symbol d" and "s_symbol m = s_symbol d"
    and "fst (validate_candle_series d et (Some DAILY)) \<noteq> DQ_INVALID_DATA"
    and "fst (validate_candle_series w et (Some WEEKLY)) \<noteq> DQ_INVALID_DATA"
    and "fst (validate_candle_series m et (Some MONTHLY)) \<noteq> DQ_INVALID_DATA"
  using assms
  by (auto simp: strategy_evaluate_def symbol_mismatch_def Let_def split: if_splits prod.splits)


section \<open>The engine returns\<close>

definition positive_periods :: "strategy_parameters \<Rightarrow> bool" where
  "positive_periods p \<longleftrightarrow>
     0 < daily_ema_period p \<and> 0 < atr_period p \<and> 0 < volume_sma_period p \<and> 0 < breakout_lookback p \<and>
     0 < weekly_ema_fast p \<and> 0 < weekly_ema_slow p \<and> 0 < monthly_ema_period p"

lemma default_positive_periods [simp]: "positive_periods default_strategy_parameters"
  by (simp add: positive_periods_def default_strategy_parameters_def)

lemma py_get_last_of:
  "length ys = length cs \<Longrightarrow> cs \<noteq> [] \<Longrightarrow> py_get ys (int (length cs) - 1) = ret (last ys)"
  using py_get_last [of ys] by (metis length_0_conv)

lemma py_get_prev_of:
  "length ys = length cs \<Longrightarrow> Suc 0 < length cs \<Longrightarrow>
   py_get ys (int (length cs) - 2) = ret (ys ! (length cs - 2))"
  by (subst py_get_in_range) (auto simp: nat_diff_distrib)

lemma compute_indicators_returns:
  assumes "candles d \<noteq> []" and "candles w \<noteq> []" and "candles m \<noteq> []" and "positive_periods params"
  shows "\<exists>r. compute_indicators d w m params = ret r"
proof -
  note pp = assms(4) [unfolded positive_periods_def]
  obtain e1 where e1: "compute_ema (closes_of d) (daily_ema_period params) = ret e1"
    using pp compute_ema_returns by blast
  obtain a1 where a1: "compute_wilder_atr (candles d) (atr_period params) = ret a1"
    using pp compute_wilder_atr_returns by blast
  obtain v1 where v1: "compute_volume_ratio (volumes_of d) (volume_sma_period params) = ret v1"
    using pp compute_volume_ratio_returns by blast
  obtain h1 where h1: "compute_high20 (highs_of d) (breakout_lookback params) = ret h1"
    using pp compute_high20_returns by blast
  obtain w1 where w1: "compute_ema (closes_of w) (weekly_ema_fast params) = ret w1"
    using pp compute_ema_returns by blast
  obtain w2 where w2: "compute_ema (closes_of w) (weekly_ema_slow params) = ret w2"
    using pp compute_ema_returns by blast
  obtain m1 where m1: "compute_ema (closes_of m) (monthly_ema_period params) = ret m1"
    using pp compute_ema_returns by blast
  have len: "length e1 = length (candles d)" "length a1 = length (candles d)" "length v1 = length (candles d)"
    "length h1 = length (candles d)" "length w1 = length (candles w)" "length w2 = length (candles w)"
    "length m1 = length (candles m)" "length (closes_of m) = length (candles m)"
    using ema.ind_length [OF e1] atr.ind_length [OF a1] vratio.ind_length [OF v1] high.ind_length [OF h1]
      ema.ind_length [OF w1] ema.ind_length [OF w2] ema.ind_length [OF m1]
    by (simp_all add: closes_of_def volumes_of_def highs_of_def)
  note gets = len [THEN py_get_last_of]
  show ?thesis
    using assms(1-3) len(1)
    by (cases "1 \<le> int (length (candles d)) - 1")
      (simp_all add: compute_indicators_def last_index_def Let_def e1 a1 v1 h1 w1 w2 m1 gets py_get_prev_of)
qed

lemma evaluate_series_returns:
  assumes "candles d \<noteq> []" and "candles w \<noteq> []" and "candles m \<noteq> []" and "positive_periods params"
  shows "\<exists>ev. evaluate_series d w m et params errs = ret ev"
proof -
  obtain inds ep where i: "compute_indicators d w m params = ret (inds, ep)"
    using compute_indicators_returns [OF assms] by fastforce
  obtain cp where cp: "(if 1 \<le> last_index d
      then cbind (py_get (closes_of d) (last_index d - 1)) (\<lambda>c. ret (Some c)) else ret None) = ret cp"
    using py_get_prev_of [of "closes_of d" "candles d"]
    by (cases "1 \<le> last_index d") (simp_all add: last_index_def closes_of_def)
  have c: "py_get (candles d) (last_index d) = ret (last (candles d))"
    using assms(1) by (simp add: last_index_def py_get_last)
  show ?thesis
    unfolding evaluate_series_def Let_def c cbind_ret i split_conv cp
    using decide_signal_returns by (auto split: option.splits)
qed

lemma strategy_evaluate_returns:
  assumes "positive_periods (case parameters of None \<Rightarrow> default_strategy_parameters | Some p \<Rightarrow> p)"
  shows "\<exists>ev. strategy_evaluate d w m et parameters = ret ev"
proof -
  have ne: "candles s \<noteq> []" if "fst (validate_candle_series s et (Some tf)) \<noteq> DQ_INVALID_DATA" for s tf
    using that by (simp add: validate_status_cases well_formed_series_def)
  show ?thesis
    using evaluate_series_returns [OF ne [of d DAILY] ne [of w WEEKLY] ne [of m MONTHLY] assms, of et]
    by (auto simp: strategy_evaluate_def Let_def split: prod.splits)
qed

text \<open>Fail-closed: the outcome \<open>INVALID_DATA\<close> is exactly the malformed inputs.\<close>

definition inputs_well_formed :: "candle_series \<Rightarrow> candle_series \<Rightarrow> candle_series \<Rightarrow> datetime \<Rightarrow> bool" where
  "inputs_well_formed d w m et \<longleftrightarrow>
     s_symbol w = s_symbol d \<and> s_symbol m = s_symbol d \<and>
     s_timeframe d = DAILY \<and> s_timeframe w = WEEKLY \<and> s_timeframe m = MONTHLY \<and>
     well_formed_series d et \<and> well_formed_series w et \<and> well_formed_series m et"

lemma decide_signal_kind:
  "decide_signal sy et params errs c cp inds ep atr = ret ev \<Longrightarrow>
   si_kind (ev_signal_intent ev) \<in> {LONG_ENTRY, NO_ENTRY}"
  by (auto simp: decide_signal_def Let_def split: prod.splits option.splits if_splits)

lemma evaluate_series_kind:
  "evaluate_series d w m et params errs = ret ev \<Longrightarrow> si_kind (ev_signal_intent ev) \<noteq> INVALID_DATA"
  by (auto simp: evaluate_series_def Let_def cbind_eq_ret dest!: decide_signal_kind
      split: option.splits if_splits prod.splits)

lemma strategy_evaluate_invalid_iff:
  assumes "strategy_evaluate d w m et parameters = ret ev"
  shows "si_kind (ev_signal_intent ev) = INVALID_DATA \<longleftrightarrow> \<not> inputs_well_formed d w m et"
proof -
  have *: "fst (validate_candle_series d et (Some DAILY)) \<noteq> DQ_INVALID_DATA \<and>
      fst (validate_candle_series w et (Some WEEKLY)) \<noteq> DQ_INVALID_DATA \<and>
      fst (validate_candle_series m et (Some MONTHLY)) \<noteq> DQ_INVALID_DATA \<and>
      s_symbol w = s_symbol d \<and> s_symbol m = s_symbol d \<longleftrightarrow> inputs_well_formed d w m et"
    by (auto simp: validate_status_cases inputs_well_formed_def)
  show ?thesis
    using assms evaluate_series_kind
    by (auto simp: strategy_evaluate_def symbol_mismatch_def Let_def * [symmetric]
        split: prod.splits if_splits)
qed

end
