(* ===== verification/Backtest_Engine.thy ===== *)
theory Backtest_Engine
  imports Paper_Lifecycle Backtest_Data Backtest_Metrics Strategy_Engine
begin

text \<open>
  The event-driven backtest (\<open>services/backtester/engine.py\<close>). The mutable \<open>_Runtime\<close> is a
  record passed through the handlers; the strategy and the risk engine, which the
  constructor takes, are function arguments. One day of the loop is \<open>simulate_day\<close>.
\<close>

section \<open>Runtime\<close>

record runtime =
  rt_cash :: decimal
  rt_positions :: "(string, simulated_position) dict"
  rt_pending_intents :: "pending_intent list"
  rt_processed_intent_ids :: "string set"
  rt_intent_orders :: "(string, simulated_order) dict"
  rt_active_trades :: "(string, backtest_trade) dict"
  rt_closed_trades :: "backtest_trade list"
  rt_evaluations :: "strategy_evaluation list"
  rt_rejections :: "risk_rejection_record list"
  rt_equity_curve :: "equity_snapshot list"
  rt_total_fees :: decimal
  rt_total_funding :: decimal
  rt_total_slippage :: decimal
  rt_realized_pnl :: decimal
  rt_warnings :: "string list"
  rt_trail_history :: "(string, trailing_stop_snapshot list) dict"
  rt_peak_equity :: decimal

definition new_runtime :: "backtest_config \<Rightarrow> runtime" where
  "new_runtime config =
     \<lparr>rt_cash = initial_cash config, rt_positions = [], rt_pending_intents = [],
      rt_processed_intent_ids = set (initial_processed_intent_ids config), rt_intent_orders = [],
      rt_active_trades = [], rt_closed_trades = [], rt_evaluations = [], rt_rejections = [],
      rt_equity_curve = [], rt_total_fees = 0, rt_total_funding = 0, rt_total_slippage = 0,
      rt_realized_pnl = 0, rt_warnings = [], rt_trail_history = [],
      rt_peak_equity = initial_cash config\<rparr>"

type_synonym strategy_fn =
  "candle_series \<Rightarrow> candle_series \<Rightarrow> candle_series \<Rightarrow> datetime \<Rightarrow> strategy_parameters option \<Rightarrow>
   strategy_evaluation comp"

section \<open>Handlers\<close>

definition build_timeline :: "historical_data_bundle \<Rightarrow> string list \<Rightarrow> datetime list" where
  "build_timeline bundle symbols =
     sorted_list_of_set (\<Union>s \<in> set symbols. open_time ` set (get_default (hd_daily bundle) s []))"

definition get_constraints :: "backtest_config \<Rightarrow> string \<Rightarrow> symbol_constraints comp" where
  "get_constraints config symbol =
     (case dict_get (cfg_symbol_constraints config) symbol of
        None \<Rightarrow> raise (ValueError (''Missing symbol constraints for '' @ symbol))
      | Some cs \<Rightarrow> ret cs)"

definition mark_terminal_intent ::
  "pending_intent \<Rightarrow> order_status \<Rightarrow> decimal option \<Rightarrow> decimal option \<Rightarrow> runtime \<Rightarrow> runtime" where
  "mark_terminal_intent intent status quantity reference_price rt =
     rt\<lparr>rt_processed_intent_ids := insert (pi_client_intent_id intent) (rt_processed_intent_ids rt),
        rt_intent_orders :=
          dict_put (pi_client_intent_id intent)
            \<lparr>so_client_intent_id = pi_client_intent_id intent, so_symbol = pi_symbol intent,
             so_status = status, so_quantity = quantity, so_reference_price = reference_price\<rparr>
            (rt_intent_orders rt)\<rparr>"

definition safe_r :: "decimal option \<Rightarrow> decimal \<Rightarrow> decimal option" where
  "safe_r initial_risk net_pnl =
     (case initial_risk of
        None \<Rightarrow> None
      | Some r \<Rightarrow> if r = 0 then None else Some (dquot net_pnl r))"

text \<open>The bookkeeping of a trade that is stopped out: the \<open>if trade\<close> branch.\<close>

definition close_trade ::
  "datetime \<Rightarrow> stop_trigger_result \<Rightarrow> exit_accounting \<Rightarrow> trailing_stop_snapshot list \<Rightarrow> backtest_trade \<Rightarrow>
   backtest_trade"
where
  "close_trade candle_open_time trigger xa history trade =
     (let total_trade_fees = dadd (bt_fees trade) (xa_fee xa);
          total_slip = dadd (bt_slippage_cost trade) (xa_slippage_cost xa);
          net = dsub (dsub (xa_gross_pnl xa) total_trade_fees) (bt_funding trade);
          r_mult = safe_r (bt_initial_risk_usd trade) net;
          days = days_of (candle_open_time - bt_entry_time trade)
      in trade\<lparr>bt_exit_time := Some candle_open_time,
               bt_exit_reason := Some (st_exit_reason trigger),
               bt_exit_reference_price := Some (st_exit_reference trigger),
               bt_exit_fill_price := Some (xa_fill_price xa),
               bt_gross_pnl := Some (xa_gross_pnl xa),
               bt_fees := total_trade_fees,
               bt_slippage_cost := total_slip,
               bt_net_pnl := Some net,
               bt_r_multiple := r_mult,
               bt_holding_period_days := Some days,
               bt_trailing_stop_history := history\<rparr>)"

definition check_stop_exit :: "backtest_config \<Rightarrow> string \<Rightarrow> candle \<Rightarrow> bool \<Rightarrow> runtime \<Rightarrow> runtime" where
  "check_stop_exit config symbol c at_open rt =
     (case dict_get (rt_positions rt) symbol of
        None \<Rightarrow> rt
      | Some pos \<Rightarrow>
          let effective = pos_effective_stop pos;
              trigger_opt = (if at_open then compute_gap_stop_at_open c effective
                             else compute_stop_trigger c effective (pos_initial_stop pos) (pos_trail_stop pos))
          in case trigger_opt of
               None \<Rightarrow> rt
             | Some trigger \<Rightarrow>
                 let xa = compute_exit_accounting (st_exit_reference trigger) (pos_quantity pos)
                            (pos_entry_price pos) (slippage_bps (cfg_slippage_model config))
                            (exit_fee_rate (cfg_fee_model config));
                     rt1 = rt\<lparr>rt_cash := dadd (rt_cash rt) (xa_net_wallet_delta xa),
                              rt_total_fees := dadd (rt_total_fees rt) (xa_fee xa),
                              rt_total_slippage := dadd (rt_total_slippage rt) (xa_slippage_cost xa),
                              rt_active_trades := dict_del symbol (rt_active_trades rt)\<rparr>;
                     rt2 = (case dict_get (rt_active_trades rt) symbol of
                              None \<Rightarrow> rt1
                            | Some trade \<Rightarrow>
                                let closed_trade = close_trade (open_time c) trigger xa
                                      (get_default (rt_trail_history rt) symbol []) trade;
                                    net = dsub (dsub (xa_gross_pnl xa) (dadd (bt_fees trade) (xa_fee xa)))
                                            (bt_funding trade)
                                in rt1\<lparr>rt_closed_trades := rt_closed_trades rt1 @ [closed_trade],
                                       rt_realized_pnl := dadd (rt_realized_pnl rt1) net\<rparr>)
                 in rt2\<lparr>rt_positions := dict_del symbol (rt_positions rt2),
                        rt_trail_history := dict_del symbol (rt_trail_history rt2)\<rparr>)"

definition reject_intent ::
  "candle \<Rightarrow> string \<Rightarrow> pending_intent \<Rightarrow> reason_code list \<Rightarrow> runtime \<Rightarrow> runtime" where
  "reject_intent c symbol intent codes rt =
     (let rt1 = mark_terminal_intent intent OS_REJECTED None None rt
      in rt1\<lparr>rt_rejections := rt_rejections rt1 @
               [\<lparr>rr_time = open_time c, rr_symbol = symbol,
                 rr_client_intent_id = pi_client_intent_id intent, rr_reason_codes = codes,
                 rr_strategy_reason_codes = pi_strategy_reason_codes intent\<rparr>]\<rparr>)"

text \<open>The state after an approved entry, before the stop check at the open.\<close>

definition open_position ::
  "string \<Rightarrow> candle \<Rightarrow> pending_intent \<Rightarrow> decimal \<Rightarrow> decimal \<Rightarrow> decimal \<Rightarrow> reason_code list \<Rightarrow> entry_accounting \<Rightarrow>
   runtime \<Rightarrow> runtime"
where
  "open_position symbol c intent fill stop_init qty risk_codes accounting rt =
     (let fee = ea_fee accounting;
          slip = ea_slippage_cost accounting;
          pos = build_simulated_position_from_entry symbol qty fill (open_time c) accounting
                  (pi_atr14 intent) (pi_client_intent_id intent);
          history = [\<lparr>sn_time = open_time c, sn_trail_stop = pos_trail_stop pos,
                      sn_effective_stop = pos_effective_stop pos\<rparr>];
          trade = \<lparr>bt_symbol = symbol, bt_client_intent_id = pi_client_intent_id intent,
                   bt_strategy_version = pi_strategy_version intent, bt_entry_type = pi_entry_type intent,
                   bt_strategy_reason_codes = pi_strategy_reason_codes intent,
                   bt_risk_reason_codes = risk_codes, bt_signal_time = pi_signal_time intent,
                   bt_order_time = pi_order_time intent, bt_entry_time = open_time c,
                   bt_entry_reference_price = c_open c, bt_entry_fill_price = fill, bt_quantity = qty,
                   bt_initial_stop = stop_init, bt_trailing_stop_history = history,
                   bt_exit_time = None, bt_exit_reason = None, bt_exit_reference_price = None,
                   bt_exit_fill_price = None, bt_gross_pnl = None, bt_fees = fee, bt_funding = 0,
                   bt_slippage_cost = slip, bt_net_pnl = None,
                   bt_initial_risk_usd = Some (ea_initial_risk_usd accounting),
                   bt_r_multiple = None, bt_holding_period_days = None\<rparr>
      in mark_terminal_intent intent OS_FILLED (Some qty) (Some (c_open c))
           (rt\<lparr>rt_cash := dsub (rt_cash rt) fee,
               rt_total_fees := dadd (rt_total_fees rt) fee,
               rt_total_slippage := dadd (rt_total_slippage rt) slip,
               rt_positions := dict_put symbol pos (rt_positions rt),
               rt_trail_history := dict_put symbol history (rt_trail_history rt),
               rt_active_trades := dict_put symbol trade (rt_active_trades rt)\<rparr>))"

text \<open>The body of the loop over the intents of a symbol.\<close>

definition fill_intent ::
  "risk_fn \<Rightarrow> backtest_config \<Rightarrow> string \<Rightarrow> candle \<Rightarrow> (string, candle) dict \<Rightarrow> (string, decimal) dict \<Rightarrow>
   runtime \<Rightarrow> pending_intent \<Rightarrow> runtime comp"
where
  "fill_intent risk config symbol c day_candles prior_closes rt intent =
     (if pi_client_intent_id intent \<in> rt_processed_intent_ids rt then ret rt
      else
      cbind (get_constraints config symbol) (\<lambda>constraints.
      cbind (compute_entry_fill_prices (c_open c) (pi_atr14 intent)
               (slippage_bps (cfg_slippage_model config)) (strategy_params config)
               (price_tick_size constraints)) (\<lambda>fill_prices.
      let fill = ef_fill_price fill_prices;
          stop_init = ef_stop_initial fill_prices
      in cbind (evaluate_entry_risk_decision risk symbol fill stop_init (pi_client_intent_id intent)
                  (pi_atr14 intent) constraints (rt_cash rt) (dict_values (rt_positions rt))
                  (rt_pending_intents rt) (rt_processed_intent_ids rt) day_candles prior_closes
                  (risk_params config) MD_OK BOT_ACTIVE) (\<lambda>decision.
         case (approved decision, rounded_quantity decision) of
           (True, Some qty) \<Rightarrow>
             cbind (compute_entry_accounting fill (c_open c) qty stop_init
                      (entry_fee_rate (cfg_fee_model config)) (slippage_bps (cfg_slippage_model config))
                      (max_leverage (risk_params config)) (strategy_params config)
                      (price_tick_size constraints) (pi_atr14 intent)) (\<lambda>accounting.
             if rt_cash rt < ea_fee accounting
             then ret (reject_intent c symbol intent [RC_REJECT_LEVERAGE] rt)
             else ret (check_stop_exit config symbol c True
                         (open_position symbol c intent fill stop_init qty (rd_reason_codes decision)
                            accounting rt)))
         | _ \<Rightarrow> ret (reject_intent c symbol intent (filter_rejection_reason_codes decision) rt)))))"

definition fill_pending_at_open ::
  "risk_fn \<Rightarrow> backtest_config \<Rightarrow> string \<Rightarrow> candle \<Rightarrow> (string, candle) dict \<Rightarrow> (string, decimal) dict \<Rightarrow>
   runtime \<Rightarrow> runtime comp"
where
  "fill_pending_at_open risk config symbol c day_candles prior_closes rt =
     (let to_fill = filter (\<lambda>p. pi_symbol p = symbol) (rt_pending_intents rt);
          rt1 = rt\<lparr>rt_pending_intents := filter (\<lambda>p. pi_symbol p \<noteq> symbol) (rt_pending_intents rt)\<rparr>
      in cfoldl (fill_intent risk config symbol c day_candles prior_closes) rt1 to_fill)"

text \<open>One payment: the wallet, the total and the active trade.\<close>

definition pay_funding :: "string \<Rightarrow> decimal \<Rightarrow> runtime \<Rightarrow> runtime" where
  "pay_funding symbol payment rt =
     (let rt1 = rt\<lparr>rt_cash := dsub (rt_cash rt) payment,
                   rt_total_funding := dadd (rt_total_funding rt) payment\<rparr>
      in case dict_get (rt_active_trades rt1) symbol of
           None \<Rightarrow> rt1
         | Some trade \<Rightarrow>
             rt1\<lparr>rt_active_trades :=
                   dict_put symbol (trade\<lparr>bt_funding := dadd (bt_funding trade) payment\<rparr>)
                     (rt_active_trades rt1)\<rparr>)"

definition apply_funding ::
  "backtest_config \<Rightarrow> historical_data_bundle \<Rightarrow> string \<Rightarrow> candle \<Rightarrow> runtime \<Rightarrow> runtime" where
  "apply_funding config bundle symbol c rt =
     (case dict_get (rt_positions rt) symbol of
        None \<Rightarrow> rt
      | Some pos \<Rightarrow>
          let notional = dmul (pos_quantity pos) (pos_entry_price pos)
          in case assumed_rate (cfg_funding_model config) of
               Some rate \<Rightarrow> pay_funding symbol (compute_funding_payment notional rate) rt
             | None \<Rightarrow>
                 foldl (\<lambda>rt ev. if open_time c \<le> fe_timestamp ev \<and> fe_timestamp ev \<le> close_time c
                                then pay_funding symbol (compute_funding_payment notional (fe_funding_rate ev)) rt
                                else rt)
                   rt (get_default (hd_funding bundle) symbol []))"

text \<open>The intent of an evaluation that signals an entry.\<close>

definition intent_of_evaluation ::
  "string \<Rightarrow> datetime \<Rightarrow> strategy_evaluation \<Rightarrow> pending_intent option" where
  "intent_of_evaluation symbol eval_time ev =
     (if si_kind (ev_signal_intent ev) \<noteq> LONG_ENTRY then None
      else case (selected_entry_type ev, si_stop_initial (ev_signal_intent ev), ev_atr ev) of
             (Some entry, Some stop, Some atr) \<Rightarrow>
               Some \<lparr>pi_client_intent_id = build_client_intent_id symbol (ev_strategy_version ev) eval_time entry,
                     pi_symbol = symbol, pi_strategy_version = ev_strategy_version ev,
                     pi_entry_type = entry, pi_strategy_reason_codes = ev_reason_codes ev,
                     pi_signal_time = eval_time, pi_order_time = eval_time,
                     pi_signal_close_price = (case si_entry_price (ev_signal_intent ev) of None \<Rightarrow> 0 | Some x \<Rightarrow> x),
                     pi_stop_price = stop, pi_atr14 = atr, pi_strategy_evaluation = ev\<rparr>
           | _ \<Rightarrow> None)"

definition strategy_and_queue ::
  "strategy_fn \<Rightarrow> backtest_config \<Rightarrow> historical_data_bundle \<Rightarrow> string \<Rightarrow> datetime \<Rightarrow> runtime \<Rightarrow> runtime comp"
where
  "strategy_and_queue strategy config bundle symbol eval_time rt =
     (let daily = build_candle_series symbol DAILY (get_default (hd_daily bundle) symbol []) eval_time;
          weekly = build_candle_series symbol WEEKLY (get_default (hd_weekly bundle) symbol []) eval_time;
          monthly = build_candle_series symbol MONTHLY (get_default (hd_monthly bundle) symbol []) eval_time
      in cbind (strategy daily weekly monthly eval_time (Some (strategy_params config))) (\<lambda>evaluation.
         let rt1 = rt\<lparr>rt_evaluations := rt_evaluations rt @ [evaluation]\<rparr>
         in case intent_of_evaluation symbol eval_time evaluation of
              None \<Rightarrow> ret rt1
            | Some intent \<Rightarrow>
                if pi_client_intent_id intent \<in> rt_processed_intent_ids rt1 then ret rt1
                else if dict_get (rt_positions rt1) symbol \<noteq> None then ret rt1
                else if list_ex (\<lambda>p. pi_symbol p = symbol) (rt_pending_intents rt1) then ret rt1
                else ret (rt1\<lparr>rt_pending_intents := rt_pending_intents rt1 @ [intent]\<rparr>)))"

text \<open>The latest evaluation of the symbol gives the ATR; zero and \<open>None\<close> fall back to the entry's.\<close>

definition trailing_atr :: "strategy_evaluation list \<Rightarrow> string \<Rightarrow> decimal \<Rightarrow> decimal" where
  "trailing_atr evaluations symbol entry_atr =
     (case find (\<lambda>e. ev_symbol e = symbol) (rev evaluations) of
        None \<Rightarrow> entry_atr
      | Some e \<Rightarrow> (case ev_atr e of None \<Rightarrow> entry_atr | Some a \<Rightarrow> if a = 0 then entry_atr else a))"

definition state_of_position :: "simulated_position \<Rightarrow> trailing_stop_state" where
  "state_of_position pos =
     \<lparr>ts_entry_price = pos_entry_price pos, ts_stop_initial = pos_initial_stop pos,
      ts_highest_close = pos_highest_close pos, ts_trail_stop = pos_trail_stop pos,
      ts_effective_stop = pos_effective_stop pos\<rparr>"

definition update_trailing ::
  "backtest_config \<Rightarrow> historical_data_bundle \<Rightarrow> string \<Rightarrow> candle \<Rightarrow> datetime \<Rightarrow> runtime \<Rightarrow> runtime comp"
where
  "update_trailing config bundle symbol c eval_time rt =
     (case dict_get (rt_positions rt) symbol of
        None \<Rightarrow> ret rt
      | Some pos \<Rightarrow>
          if slice_closed_candles (get_default (hd_daily bundle) symbol []) eval_time = [] then ret rt
          else
          let atr = trailing_atr (rt_evaluations rt) symbol (pos_entry_atr14 pos)
          in cbind (get_constraints config symbol) (\<lambda>constraints.
             cbind (compute_trailing_stop_update (state_of_position pos) (c_close c) atr
                      (strategy_params config) (price_tick_size constraints)) (\<lambda>updated.
             ret (rt\<lparr>rt_positions :=
                       dict_put symbol (pos\<lparr>pos_trail_stop := ts_trail_stop updated,
                                            pos_effective_stop := ts_effective_stop updated,
                                            pos_highest_close := ts_highest_close updated\<rparr>) (rt_positions rt),
                     rt_trail_history :=
                       dict_put symbol
                         (get_default (rt_trail_history rt) symbol [] @
                          [\<lparr>sn_time = eval_time, sn_trail_stop = ts_trail_stop updated,
                            sn_effective_stop = ts_effective_stop updated\<rparr>])
                         (rt_trail_history rt)\<rparr>))))"

section \<open>The loop\<close>

definition index_daily :: "candle list \<Rightarrow> candles_by_time" where
  "index_daily cs = dict_of (map (\<lambda>(i, c). (open_time c, (i, c))) (enumerate 0 cs))"

definition daily_index :: "historical_data_bundle \<Rightarrow> string list \<Rightarrow> (string, candles_by_time) dict" where
  "daily_index bundle symbols =
     dict_of (map (\<lambda>s. (s, index_daily (get_default (hd_daily bundle) s []))) symbols)"

definition candles_of_day ::
  "(string, candles_by_time) dict \<Rightarrow> string list \<Rightarrow> datetime \<Rightarrow> (string, candle) dict" where
  "candles_of_day daily_by_sym symbols day =
     foldl (\<lambda>d s. case dict_get (get_default daily_by_sym s []) day of
                    None \<Rightarrow> d
                  | Some (i, c) \<Rightarrow> dict_put s c d) [] symbols"

text \<open>A loop over the symbols that have a candle on the day.\<close>

definition for_symbols ::
  "string list \<Rightarrow> (string, candle) dict \<Rightarrow> (string \<Rightarrow> candle \<Rightarrow> runtime \<Rightarrow> runtime comp) \<Rightarrow> runtime \<Rightarrow> runtime comp"
where
  "for_symbols symbols day_candles f rt =
     cfoldl (\<lambda>rt s. case dict_get day_candles s of None \<Rightarrow> ret rt | Some c \<Rightarrow> f s c rt) rt symbols"

definition record_equity :: "datetime \<Rightarrow> (string, decimal) dict \<Rightarrow> runtime \<Rightarrow> runtime" where
  "record_equity eval_time closes rt =
     (let ps = dict_values (rt_positions rt);
          marks = mark_prices_from_candles ps closes;
          unrealized = compute_unrealized_pnl ps marks;
          equity = dadd (rt_cash rt) unrealized
      in rt\<lparr>rt_peak_equity := max (rt_peak_equity rt) equity,
            rt_equity_curve := rt_equity_curve rt @
              [\<lparr>eq_time = eval_time, eq_cash = rt_cash rt, eq_equity = equity,
                eq_unrealized_pnl = unrealized, eq_open_positions = length (rt_positions rt)\<rparr>]\<rparr>)"

definition simulate_day ::
  "strategy_fn \<Rightarrow> risk_fn \<Rightarrow> backtest_config \<Rightarrow> historical_data_bundle \<Rightarrow> (string, candles_by_time) dict \<Rightarrow>
   runtime \<Rightarrow> datetime \<Rightarrow> runtime comp"
where
  "simulate_day strategy risk config bundle daily_by_sym rt day =
     (let symbols = cfg_symbols config;
          day_candles = candles_of_day daily_by_sym symbols day
      in case dict_values day_candles of
           [] \<Rightarrow> ret rt
         | first # _ \<Rightarrow>
             let closes = map (\<lambda>(s, c). (s, c_close c)) day_candles;
                 prior_closes = prior_closes_from_timeline daily_by_sym symbols day;
                 eval_time = evaluation_time_for_daily first
             in cbind (for_symbols symbols day_candles
                         (\<lambda>s c. fill_pending_at_open risk config s c day_candles prior_closes) rt) (\<lambda>rt.
                cbind (for_symbols symbols day_candles
                         (\<lambda>s c rt. ret (check_stop_exit config s c False rt)) rt) (\<lambda>rt.
                cbind (if funding_on (cfg_funding_model config)
                       then for_symbols symbols day_candles
                              (\<lambda>s c rt. ret (apply_funding config bundle s c rt)) rt
                       else ret rt) (\<lambda>rt.
                cbind (for_symbols symbols day_candles
                         (\<lambda>s c. strategy_and_queue strategy config bundle s (evaluation_time_for_daily c)) rt) (\<lambda>rt.
                cbind (for_symbols symbols day_candles
                         (\<lambda>s c. update_trailing config bundle s c eval_time) rt) (\<lambda>rt.
                ret (record_equity eval_time closes rt)))))))"

definition simulate_days ::
  "strategy_fn \<Rightarrow> risk_fn \<Rightarrow> backtest_config \<Rightarrow> historical_data_bundle \<Rightarrow> datetime list \<Rightarrow> runtime comp"
where
  "simulate_days strategy risk config bundle days =
     cfoldl (simulate_day strategy risk config bundle (daily_index bundle (cfg_symbols config)))
       (new_runtime config) days"

definition chronology_warnings :: "historical_data_bundle \<Rightarrow> string list \<Rightarrow> string list" where
  "chronology_warnings bundle symbols =
     hd_warnings bundle @
     concat (map (\<lambda>s. validate_chronological (get_default (hd_daily bundle) s []) @
                      validate_chronological (get_default (hd_weekly bundle) s []) @
                      validate_chronological (get_default (hd_monthly bundle) s [])) symbols)"

definition empty_result :: "float_metrics \<Rightarrow> backtest_config \<Rightarrow> string list \<Rightarrow> datetime option \<Rightarrow> datetime option \<Rightarrow> backtest_result" where
  "empty_result fm config warnings start stop =
     \<lparr>br_config = config, br_core_metadata = cfg_core_metadata config,
      br_strategy_version = STRATEGY_VERSION, br_risk_specification_version = RISK_SPECIFICATION_VERSION,
      br_data_start = start, br_data_end = stop, br_start_capital = initial_cash config,
      br_end_capital = initial_cash config, br_trades = [], br_open_positions = [], br_equity_curve = [],
      br_drawdown_curve = [], br_risk_rejections = [], br_strategy_evaluations = [], br_total_fees = 0,
      br_total_funding = 0, br_total_slippage = 0, br_warnings = warnings,
      br_model_assumptions = [''No data timeline.''],
      br_funding_enabled = funding_on (cfg_funding_model config),
      br_metrics = compute_metrics fm [] [] (initial_cash config) (initial_cash config) 0 0 0 start stop,
      br_processed_intent_ids = []\<rparr>"

definition model_assumptions :: "string list" where
  "model_assumptions =
     [''Perpetual margin accounting: wallet balance excludes reserved margin.'',
      ''Entry fill at next daily open after signal close, not at signal close.'',
      ''Risk evaluation uses actual fill price and fill-based initial stop.'',
      ''Open-fill marks use bar open or prior close, never same-day close.'',
      ''Intrabar assumption: '' @ INTRABAR_ASSUMPTION,
      ''Funding notional = quantity '' @ [CHR 0xD7] @ '' entry_price (V1 model assumption).'',
      ''Symbol processing order follows BacktestConfig.symbols.'',
      ''Weekly/monthly candles filtered to closed only as of evaluation time.'',
      ''M4 portfolio gate ordering deferred (conservative leverage reduction).'']"

definition backtest_run ::
  "strategy_fn \<Rightarrow> risk_fn \<Rightarrow> float_metrics \<Rightarrow> historical_data_bundle \<Rightarrow> backtest_config \<Rightarrow> backtest_result comp"
where
  "backtest_run strategy risk fm bundle config =
     (let symbols = cfg_symbols config;
          warnings = chronology_warnings bundle symbols;
          timeline = build_timeline bundle symbols
      in if timeline = [] then ret (empty_result fm config warnings None None)
         else
         cbind (simulate_days strategy risk config bundle timeline) (\<lambda>rt.
         let data_start = hd timeline;
             data_end = last timeline;
             end_marks = map (\<lambda>(s, c). (s, c_close c))
                           (candles_of_day (daily_index bundle symbols) symbols data_end);
             end_equity = compute_equity (rt_cash rt) (dict_values (rt_positions rt)) end_marks
         in ret \<lparr>br_config = config, br_core_metadata = cfg_core_metadata config,
                 br_strategy_version = STRATEGY_VERSION,
                 br_risk_specification_version = RISK_SPECIFICATION_VERSION,
                 br_data_start = Some data_start, br_data_end = Some data_end,
                 br_start_capital = initial_cash config, br_end_capital = end_equity,
                 br_trades = rt_closed_trades rt @ dict_values (rt_active_trades rt),
                 br_open_positions = dict_values (rt_positions rt),
                 br_equity_curve = rt_equity_curve rt,
                 br_drawdown_curve = compute_drawdown_curve (rt_equity_curve rt),
                 br_risk_rejections = rt_rejections rt,
                 br_strategy_evaluations = rt_evaluations rt,
                 br_total_fees = rt_total_fees rt, br_total_funding = rt_total_funding rt,
                 br_total_slippage = rt_total_slippage rt, br_warnings = warnings,
                 br_model_assumptions = model_assumptions,
                 br_funding_enabled = funding_on (cfg_funding_model config),
                 br_metrics = compute_metrics fm (rt_closed_trades rt) (rt_equity_curve rt)
                                (initial_cash config) end_equity (rt_total_fees rt) (rt_total_funding rt)
                                (rt_total_slippage rt) (Some data_start) (Some data_end),
                 br_processed_intent_ids = sorted_list_of_set (rt_processed_intent_ids rt)\<rparr>))"

end
