(* ===== verification/Backtest_Invariants.thy ===== *)
theory Backtest_Invariants
  imports Backtest_Engine
begin

text \<open>
  What holds of the backtester's runtime between the handlers. The invariants are lifted to
  a whole run by the locale \<open>runtime_invariant\<close>: it asks that each handler keeps the
  invariant and concludes that every run does. It is interpreted for the books (positions,
  trades and histories agree, no intent is executed twice, closed trades balance) and for
  the exposure that the risk engine allows.
\<close>

section \<open>Lifting an invariant to a run\<close>

locale runtime_invariant =
  fixes strategy :: strategy_fn and risk :: risk_fn and config :: backtest_config
    and data :: historical_data_bundle
    and Inv :: "runtime \<Rightarrow> bool" and day_ok :: "(string, candle) dict \<Rightarrow> (string, decimal) dict \<Rightarrow> bool"
  assumes inv_new: "Inv (new_runtime config)"
    and day_ok: "day_ok (candles_of_day (daily_index data (cfg_symbols config)) (cfg_symbols config) day)
      (prior_closes_from_timeline (daily_index data (cfg_symbols config)) (cfg_symbols config) day)"
    and inv_fill: "Inv rt \<Longrightarrow> day_ok d prior \<Longrightarrow> dict_get d s = Some c \<Longrightarrow>
      fill_pending_at_open risk config s c d prior rt = ret rt' \<Longrightarrow> Inv rt'"
    and inv_stop: "Inv rt \<Longrightarrow> Inv (check_stop_exit config s c False rt)"
    and inv_funding: "Inv rt \<Longrightarrow> Inv (apply_funding config data s c rt)"
    and inv_queue: "Inv rt \<Longrightarrow> strategy_and_queue strategy config data s t rt = ret rt' \<Longrightarrow> Inv rt'"
    and inv_trailing: "Inv rt \<Longrightarrow> update_trailing config data s c t rt = ret rt' \<Longrightarrow> Inv rt'"
    and inv_equity: "Inv rt \<Longrightarrow> Inv (record_equity t closes rt)"
begin

lemma inv_for_symbols:
  assumes "for_symbols ss d f rt = ret rt'" and "Inv rt"
    and "\<And>s c rt rt'. dict_get d s = Some c \<Longrightarrow> Inv rt \<Longrightarrow> f s c rt = ret rt' \<Longrightarrow> Inv rt'"
  shows "Inv rt'"
  using assms(1,2) unfolding for_symbols_def
proof (rule cfoldl_invariant)
  show "Inv v" if "Inv u" "(case dict_get d s of None \<Rightarrow> ret u | Some c \<Rightarrow> f s c u) = ret v" for u s v
    using that assms(3) by (auto split: option.splits)
qed

lemma inv_day:
  assumes "Inv rt" and "simulate_day strategy risk config data (daily_index data (cfg_symbols config)) rt day = ret rt'"
  shows "Inv rt'"
proof -
  let ?ix = "daily_index data (cfg_symbols config)"
  let ?d = "candles_of_day ?ix (cfg_symbols config) day"
  let ?prior = "prior_closes_from_timeline ?ix (cfg_symbols config) day"
  show ?thesis
  proof (cases "dict_values ?d")
    case Nil
    with assms show ?thesis by (simp add: simulate_day_def Let_def)
  next
    case (Cons first rest)
    with assms(2) obtain r1 r2 r3 r4 r5 where
      r1: "for_symbols (cfg_symbols config) ?d (\<lambda>s c. fill_pending_at_open risk config s c ?d ?prior) rt = ret r1"
      and r2: "for_symbols (cfg_symbols config) ?d (\<lambda>s c rt. ret (check_stop_exit config s c False rt)) r1 = ret r2"
      and r3: "(if funding_on (cfg_funding_model config)
         then for_symbols (cfg_symbols config) ?d (\<lambda>s c rt. ret (apply_funding config data s c rt)) r2
         else ret r2) = ret r3"
      and r4: "for_symbols (cfg_symbols config) ?d
         (\<lambda>s c. strategy_and_queue strategy config data s (evaluation_time_for_daily c)) r3 = ret r4"
      and r5: "for_symbols (cfg_symbols config) ?d
         (\<lambda>s c. update_trailing config data s c (evaluation_time_for_daily first)) r4 = ret r5"
      and rt': "rt' = record_equity (evaluation_time_for_daily first) (map (\<lambda>(s, c). (s, c_close c)) ?d) r5"
      by (auto simp: simulate_day_def Let_def elim!: cbind_retE)
    have "Inv r1" by (rule inv_for_symbols [OF r1 assms(1)]) (rule inv_fill [OF _ day_ok])
    then have "Inv r2" by (rule inv_for_symbols [OF r2]) (auto intro: inv_stop)
    then have "Inv r3"
      using r3 by (auto split: if_splits intro: inv_funding elim!: inv_for_symbols)
    then have "Inv r4" by (rule inv_for_symbols [OF r4]) (rule inv_queue)
    then have "Inv r5" by (rule inv_for_symbols [OF r5]) (rule inv_trailing)
    then show ?thesis unfolding rt' by (rule inv_equity)
  qed
qed

lemma inv_run: "simulate_days strategy risk config data days = ret rt \<Longrightarrow> Inv rt"
  unfolding simulate_days_def
  by (erule cfoldl_invariant [where P = Inv]) (auto intro: inv_new inv_day)

end

section \<open>The books\<close>

definition trade_matches :: "simulated_position \<Rightarrow> backtest_trade \<Rightarrow> bool" where
  "trade_matches p t \<longleftrightarrow>
     bt_symbol t = pos_symbol p \<and> bt_client_intent_id t = pos_client_intent_id p \<and>
     bt_quantity t = pos_quantity p \<and> bt_entry_fill_price t = pos_entry_price p \<and>
     bt_entry_time t = pos_entry_time p \<and> bt_initial_stop t = pos_initial_stop p \<and>
     bt_net_pnl t = None"

text \<open>Positions, active trades and histories have the same symbols, in the same order.\<close>

definition linked ::
  "(string, simulated_position) dict \<Rightarrow> (string, backtest_trade) dict \<Rightarrow>
   (string, trailing_stop_snapshot list) dict \<Rightarrow> bool"
where
  "linked P A H \<longleftrightarrow>
     distinct (dict_keys P) \<and> dict_keys A = dict_keys P \<and> dict_keys H = dict_keys P \<and>
     (\<forall>s p. dict_get P s = Some p \<longrightarrow> pos_symbol p = s) \<and>
     (\<forall>s p t. dict_get P s = Some p \<longrightarrow> dict_get A s = Some t \<longrightarrow> trade_matches p t)"

text \<open>At most one pending intent per symbol, and none for a symbol with a position.\<close>

definition queue_ok :: "pending_intent list \<Rightarrow> (string, simulated_position) dict \<Rightarrow> bool" where
  "queue_ok pend P \<longleftrightarrow>
     distinct (map pi_symbol pend) \<and> (\<forall>i \<in> set pend. dict_get P (pi_symbol i) = None)"

text \<open>Every executed intent is recorded as processed, and was executed once.\<close>

definition ids_ok :: "backtest_trade list \<Rightarrow> (string, backtest_trade) dict \<Rightarrow> string set \<Rightarrow> bool" where
  "ids_ok closed_ts A processed \<longleftrightarrow>
     finite processed \<and>
     distinct (map bt_client_intent_id closed_ts) \<and> bt_client_intent_id ` set closed_ts \<subseteq> processed \<and>
     (\<forall>s t. dict_get A s = Some t \<longrightarrow>
        bt_client_intent_id t \<in> processed \<and> bt_client_intent_id t \<notin> bt_client_intent_id ` set closed_ts) \<and>
     (\<forall>s s' t t'. dict_get A s = Some t \<longrightarrow> dict_get A s' = Some t' \<longrightarrow>
        bt_client_intent_id t = bt_client_intent_id t' \<longrightarrow> s = s')"

text \<open>A closed trade balances: its result is the price difference less fees and funding.\<close>

definition balanced :: "backtest_config \<Rightarrow> backtest_trade \<Rightarrow> bool" where
  "balanced config t \<longleftrightarrow>
     (\<exists>ref fill gross net.
        bt_exit_reference_price t = Some ref \<and> bt_exit_fill_price t = Some fill \<and>
        fill = apply_exit_slippage ref (cfg_slippage_model config) \<and>
        bt_gross_pnl t = Some gross \<and> gross = dmul (dsub fill (bt_entry_fill_price t)) (bt_quantity t) \<and>
        bt_net_pnl t = Some net \<and> net = dsub (dsub gross (bt_fees t)) (bt_funding t) \<and>
        bt_r_multiple t = safe_r (bt_initial_risk_usd t) net \<and>
        bt_exit_reason t \<in> {Some STOP_GAP, Some STOP_TRAILING, Some STOP_INITIAL} \<and>
        bt_exit_time t \<noteq> None)"

definition book_inv :: "backtest_config \<Rightarrow> runtime \<Rightarrow> bool" where
  "book_inv config rt \<longleftrightarrow>
     linked (rt_positions rt) (rt_active_trades rt) (rt_trail_history rt) \<and>
     queue_ok (rt_pending_intents rt) (rt_positions rt) \<and>
     ids_ok (rt_closed_trades rt) (rt_active_trades rt) (rt_processed_intent_ids rt) \<and>
     (\<forall>t \<in> set (rt_closed_trades rt). balanced config t)"

lemma linked_active:
  "linked P A H \<Longrightarrow> dict_get P s = Some p \<Longrightarrow> \<exists>t. dict_get A s = Some t \<and> trade_matches p t"
  unfolding linked_def by (metis get_None_iff not_None_eq option.distinct(1))

lemma linked_no_active: "linked P A H \<Longrightarrow> dict_get P s = None \<longleftrightarrow> dict_get A s = None"
  unfolding linked_def by (metis get_None_iff)

lemma linked_del: "linked P A H \<Longrightarrow> linked (dict_del s P) (dict_del s A) (dict_del s H)"
  by (auto simp: linked_def keys_del distinct_removeAll split: if_splits)

lemma linked_put:
  "linked P A H \<Longrightarrow> dict_get P s = None \<Longrightarrow> pos_symbol p = s \<Longrightarrow> trade_matches p t \<Longrightarrow>
   linked (dict_put s p P) (dict_put s t A) (dict_put s h H)"
  by (auto simp: linked_def keys_put get_None_iff split: if_splits)

lemma linked_update_trade:
  "linked P A H \<Longrightarrow> dict_get A s = Some t \<Longrightarrow>
   (\<And>p. trade_matches p t \<Longrightarrow> trade_matches p t') \<Longrightarrow> linked P (dict_put s t' A) H"
  by (auto simp: linked_def keys_put_old split: if_splits)

lemma linked_update_position:
  assumes "linked P A H" and "dict_get P s = Some p" and "pos_symbol p' = pos_symbol p"
    and "\<And>t. trade_matches p t \<Longrightarrow> trade_matches p' t"
  shows "linked (dict_put s p' P) A (dict_put s h H)"
proof -
  have "dict_get H s \<noteq> None" using assms(1,2) unfolding linked_def by (metis get_None_iff option.distinct(1))
  with assms show ?thesis by (auto simp: linked_def keys_put_old split: if_splits)
qed

section \<open>The handlers keep the books\<close>

text \<open>A stop exit leaves the state alone or removes the position and its trade together.\<close>

lemma check_stop_exit_effect:
  assumes "linked (rt_positions rt) (rt_active_trades rt) (rt_trail_history rt)"
  obtains (no_exit) "check_stop_exit config s c at_open rt = rt"
  | (exit) p t trigger xa where "dict_get (rt_positions rt) s = Some p" and "dict_get (rt_active_trades rt) s = Some t"
      and "trade_matches p t"
      and "trigger = (if at_open then compute_gap_stop_at_open c (pos_effective_stop p)
        else compute_stop_trigger c (pos_effective_stop p) (pos_initial_stop p) (pos_trail_stop p))"
      and "trigger \<noteq> None"
      and "xa = compute_exit_accounting (st_exit_reference (the trigger)) (pos_quantity p) (pos_entry_price p)
        (slippage_bps (cfg_slippage_model config)) (exit_fee_rate (cfg_fee_model config))"
      and "check_stop_exit config s c at_open rt =
        rt\<lparr>rt_cash := dadd (rt_cash rt) (xa_net_wallet_delta xa),
           rt_total_fees := dadd (rt_total_fees rt) (xa_fee xa),
           rt_total_slippage := dadd (rt_total_slippage rt) (xa_slippage_cost xa),
           rt_active_trades := dict_del s (rt_active_trades rt),
           rt_closed_trades := rt_closed_trades rt @
             [close_trade (open_time c) (the trigger) xa (get_default (rt_trail_history rt) s []) t],
           rt_realized_pnl := dadd (rt_realized_pnl rt)
             (dsub (dsub (xa_gross_pnl xa) (dadd (bt_fees t) (xa_fee xa))) (bt_funding t)),
           rt_positions := dict_del s (rt_positions rt),
           rt_trail_history := dict_del s (rt_trail_history rt)\<rparr>"
proof (cases "dict_get (rt_positions rt) s")
  case None
  then show ?thesis by (intro no_exit) (simp add: check_stop_exit_def)
next
  case (Some p)
  then obtain t where t: "dict_get (rt_active_trades rt) s = Some t" "trade_matches p t"
    using linked_active [OF assms] by blast
  let ?tr = "if at_open then compute_gap_stop_at_open c (pos_effective_stop p)
        else compute_stop_trigger c (pos_effective_stop p) (pos_initial_stop p) (pos_trail_stop p)"
  show ?thesis
  proof (cases ?tr)
    case None
    with Some show ?thesis by (intro no_exit) (simp only: check_stop_exit_def Let_def option.case)
  next
    case tr: (Some r)
    then have "?tr \<noteq> None" "the ?tr = r" by simp_all
    then show ?thesis
      by (intro exit [OF Some t refl _ refl])
        (simp_all only: check_stop_exit_def Let_def Some t option.case tr not_False_eq_True, simp)
  qed
qed

lemma exit_reasons:
  "trigger = (if b then compute_gap_stop_at_open c e else compute_stop_trigger c e i tr) \<Longrightarrow>
   trigger \<noteq> None \<Longrightarrow> st_exit_reason (the trigger) \<in> {STOP_GAP, STOP_TRAILING, STOP_INITIAL}"
  by (auto simp: compute_gap_stop_at_open_def compute_stop_trigger_def compute_intraday_stop_def Let_def
      split: if_splits)

lemma close_trade_balanced:
  assumes "trade_matches p t"
    and "xa = compute_exit_accounting (st_exit_reference tr) (pos_quantity p) (pos_entry_price p)
      (slippage_bps (cfg_slippage_model config)) rate"
    and "st_exit_reason tr \<in> {STOP_GAP, STOP_TRAILING, STOP_INITIAL}"
  shows "balanced config (close_trade time tr xa h t)"
  using assms
  by (auto simp: balanced_def close_trade_def compute_exit_accounting_def trade_matches_def
      slippage_model_from_bps_def apply_exit_slippage_def Let_def)

lemma close_trade_id [simp]: "bt_client_intent_id (close_trade time tr xa h t) = bt_client_intent_id t"
  by (simp add: close_trade_def Let_def)

lemma ids_ok_close:
  assumes "ids_ok C A proc" and "dict_get A s = Some t" and "bt_client_intent_id t' = bt_client_intent_id t"
  shows "ids_ok (C @ [t']) (dict_del s A) proc"
  using assms unfolding ids_ok_def by (auto split: if_splits; metis)

lemma ids_ok_open:
  assumes "ids_ok C A proc" and "i \<notin> proc" and "bt_client_intent_id t = i"
  shows "ids_ok C (dict_put s t A) (insert i proc)"
  using assms unfolding ids_ok_def by (auto split: if_splits; metis)

lemma ids_ok_insert: "ids_ok C A proc \<Longrightarrow> ids_ok C A (insert i proc)"
  unfolding ids_ok_def by blast

lemma ids_ok_update:
  assumes "ids_ok C A proc" and "dict_get A s = Some t" and "bt_client_intent_id t' = bt_client_intent_id t"
  shows "ids_ok C (dict_put s t' A) proc"
  using assms unfolding ids_ok_def by (auto split: if_splits; metis)

lemma queue_ok_del: "queue_ok pend P \<Longrightarrow> queue_ok pend (dict_del s P)"
  by (simp add: queue_ok_def)

lemma book_inv_stop:
  assumes "book_inv config rt"
  shows "book_inv config (check_stop_exit config s c at_open rt)"
proof -
  have linked: "linked (rt_positions rt) (rt_active_trades rt) (rt_trail_history rt)"
    using assms by (simp add: book_inv_def)
  show ?thesis
  proof (rule check_stop_exit_effect [OF linked, of config s c at_open], goal_cases)
    case 1
    with assms show ?thesis by simp
  next
    case exit: (2 p t trigger xa)
    have "balanced config (close_trade (open_time c) (the trigger) xa (get_default (rt_trail_history rt) s []) t)"
      using exit(3,6) exit_reasons [OF exit(4,5)] by (rule close_trade_balanced)
    with assms exit(2) show ?thesis
      unfolding exit(7) by (auto simp: book_inv_def intro: linked_del queue_ok_del ids_ok_close)
  qed
qed

lemma book_inv_new: "book_inv config (new_runtime config)"
  by (simp add: book_inv_def new_runtime_def linked_def queue_ok_def ids_ok_def)

lemma book_inv_equity: "book_inv config rt \<Longrightarrow> book_inv config (record_equity t closes rt)"
  by (simp add: book_inv_def record_equity_def Let_def)

lemma book_inv_reject: "book_inv config rt \<Longrightarrow> book_inv config (reject_intent c s i codes rt)"
  by (simp add: book_inv_def reject_intent_def mark_terminal_intent_def Let_def ids_ok_insert)

lemma book_inv_pay_funding:
  assumes "book_inv config rt"
  shows "book_inv config (pay_funding s x rt)"
proof (cases "dict_get (rt_active_trades rt) s")
  case None
  with assms show ?thesis by (simp add: book_inv_def pay_funding_def Let_def)
next
  case (Some t)
  with assms show ?thesis
    by (auto simp: book_inv_def pay_funding_def Let_def trade_matches_def
        intro: linked_update_trade ids_ok_update)
qed

lemma book_inv_funding: "book_inv config rt \<Longrightarrow> book_inv config (apply_funding config' data s c rt)"
proof -
  have "book_inv config (foldl (\<lambda>rt ev. if P ev then pay_funding s (f ev) rt else rt) rt evs)"
    if "book_inv config rt" for P f evs rt
    using that by (induction evs arbitrary: rt) (auto intro: book_inv_pay_funding)
  then show "book_inv config rt \<Longrightarrow> book_inv config (apply_funding config' data s c rt)"
    by (auto simp: apply_funding_def Let_def intro: book_inv_pay_funding split: option.split)
qed

lemma intent_of_evaluation_symbol: "intent_of_evaluation s t ev = Some i \<Longrightarrow> pi_symbol i = s"
  by (auto simp: intent_of_evaluation_def split: if_splits option.splits)

lemma queue_ok_append:
  "queue_ok pend P \<Longrightarrow> dict_get P (pi_symbol i) = None \<Longrightarrow> \<forall>j \<in> set pend. pi_symbol j \<noteq> pi_symbol i \<Longrightarrow>
   queue_ok (pend @ [i]) P"
  by (auto simp: queue_ok_def)

lemma book_inv_queue:
  assumes "book_inv config rt" and "strategy_and_queue strategy config' data s t rt = ret rt'"
  shows "book_inv config rt'"
  using assms
  by (auto simp: strategy_and_queue_def Let_def book_inv_def list_ex_iff intro!: queue_ok_append
      dest!: intent_of_evaluation_symbol elim!: cbind_retE split: option.splits if_splits)

lemma book_inv_trailing:
  assumes "book_inv config rt" and "update_trailing config' data s c t rt = ret rt'"
  shows "book_inv config rt'"
proof (cases "dict_get (rt_positions rt) s")
  case None
  with assms show ?thesis by (simp add: update_trailing_def)
next
  case (Some p)
  have "linked (dict_put s (p\<lparr>pos_trail_stop := a, pos_effective_stop := b, pos_highest_close := h\<rparr>) (rt_positions rt))
      (rt_active_trades rt) (dict_put s hist (rt_trail_history rt))" for a b h hist
    using assms(1) Some by (intro linked_update_position) (auto simp: book_inv_def trade_matches_def)
  moreover have "queue_ok (rt_pending_intents rt) (dict_put s q (rt_positions rt))" for q
    using assms(1) Some by (auto simp: book_inv_def queue_ok_def)
  ultimately show ?thesis
    using assms Some by (auto simp: update_trailing_def Let_def book_inv_def elim!: cbind_retE split: if_splits)
qed

text \<open>An intent that is filled opens one position with its trade and history.\<close>

lemma fill_intent_cases:
  assumes "fill_intent risk config s c d prior rt i = ret rt'"
  obtains (skip) "pi_client_intent_id i \<in> rt_processed_intent_ids rt" and "rt' = rt"
  | (rejected) codes where "rt' = reject_intent c s i codes rt"
  | (filled) cs prices decision qty acc where
      "pi_client_intent_id i \<notin> rt_processed_intent_ids rt"
      and "get_constraints config s = ret cs"
      and "compute_entry_fill_prices (c_open c) (pi_atr14 i) (slippage_bps (cfg_slippage_model config))
        (strategy_params config) (price_tick_size cs) = ret prices"
      and "evaluate_entry_risk_decision risk s (ef_fill_price prices) (ef_stop_initial prices)
        (pi_client_intent_id i) (pi_atr14 i) cs (rt_cash rt) (dict_values (rt_positions rt))
        (rt_pending_intents rt) (rt_processed_intent_ids rt) d prior (risk_params config) MD_OK BOT_ACTIVE = ret decision"
      and "approved decision" and "rounded_quantity decision = Some qty"
      and "compute_entry_accounting (ef_fill_price prices) (c_open c) qty (ef_stop_initial prices)
        (entry_fee_rate (cfg_fee_model config)) (slippage_bps (cfg_slippage_model config))
        (max_leverage (risk_params config)) (strategy_params config) (price_tick_size cs) (pi_atr14 i) = ret acc"
      and "ea_fee acc \<le> rt_cash rt"
      and "rt' = check_stop_exit config s c True
        (open_position s c i (ef_fill_price prices) (ef_stop_initial prices) qty (rd_reason_codes decision) acc rt)"
proof (cases "pi_client_intent_id i \<in> rt_processed_intent_ids rt")
  case True
  with assms show ?thesis by (intro skip) (simp_all add: fill_intent_def)
next
  case False
  with assms obtain cs prices decision where
    1: "get_constraints config s = ret cs"
    and 2: "compute_entry_fill_prices (c_open c) (pi_atr14 i) (slippage_bps (cfg_slippage_model config))
        (strategy_params config) (price_tick_size cs) = ret prices"
    and 3: "evaluate_entry_risk_decision risk s (ef_fill_price prices) (ef_stop_initial prices)
        (pi_client_intent_id i) (pi_atr14 i) cs (rt_cash rt) (dict_values (rt_positions rt))
        (rt_pending_intents rt) (rt_processed_intent_ids rt) d prior (risk_params config) MD_OK BOT_ACTIVE = ret decision"
    by (auto simp: fill_intent_def Let_def elim!: cbind_retE)
  note run = assms [unfolded fill_intent_def if_not_P [OF False] 1 2 3 cbind_ret Let_def]
  show ?thesis
  proof (cases "approved decision \<and> rounded_quantity decision \<noteq> None")
    case True
    then obtain qty where q: "approved decision" "rounded_quantity decision = Some qty" by auto
    from run obtain acc where 4: "compute_entry_accounting (ef_fill_price prices) (c_open c) qty (ef_stop_initial prices)
        (entry_fee_rate (cfg_fee_model config)) (slippage_bps (cfg_slippage_model config))
        (max_leverage (risk_params config)) (strategy_params config) (price_tick_size cs) (pi_atr14 i) = ret acc"
      by (auto simp: q elim!: cbind_retE)
    show ?thesis
    proof (cases "rt_cash rt < ea_fee acc")
      case True
      with run show ?thesis by (intro rejected [of "[RC_REJECT_LEVERAGE]"]) (simp add: q 4)
    next
      case le: False
      with run have "rt' = check_stop_exit config s c True
        (open_position s c i (ef_fill_price prices) (ef_stop_initial prices) qty (rd_reason_codes decision) acc rt)"
        by (simp add: q 4)
      with False 1 2 3 q 4 le show ?thesis by (intro filled) simp_all
    qed
  next
    case False
    with run show ?thesis
      by (intro rejected [of "filter_rejection_reason_codes decision"]) (auto split: bool.splits option.splits)
  qed
qed

lemma book_inv_open_position:
  assumes "book_inv config rt" and "dict_get (rt_positions rt) s = None"
    and "\<forall>j \<in> set (rt_pending_intents rt). pi_symbol j \<noteq> s"
    and "pi_client_intent_id i \<notin> rt_processed_intent_ids rt"
    and "ts_stop_initial (ea_trail_state acc) = stop"
  shows "book_inv config (open_position s c i fill stop qty codes acc rt)"
  using assms
  by (auto simp: book_inv_def open_position_def mark_terminal_intent_def Let_def queue_ok_def trade_matches_def
      build_simulated_position_from_entry_def intro!: linked_put ids_ok_open)

lemma entry_accounting_stop:
  "compute_entry_accounting f o' q st r b ml par tick a = ret acc \<Longrightarrow> ts_stop_initial (ea_trail_state acc) = st"
  by (auto simp: compute_entry_accounting_def initialize_trailing_stop_def Let_def elim!: cbind_retE)

lemma filter_at_most_one:
  "distinct (map f xs) \<Longrightarrow> filter (\<lambda>x. f x = k) xs = [] \<or> (\<exists>x. filter (\<lambda>x. f x = k) xs = [x] \<and> x \<in> set xs \<and> f x = k)"
  by (induction xs) (auto simp: filter_empty_conv image_iff)

text \<open>At most one intent of a symbol is pending, so the loop runs once.\<close>

lemma fill_pending_cases:
  assumes "queue_ok (rt_pending_intents rt) (rt_positions rt)"
    and "fill_pending_at_open risk config s c d prior rt = ret rt'"
  defines "rt1 \<equiv> rt\<lparr>rt_pending_intents := filter (\<lambda>p. pi_symbol p \<noteq> s) (rt_pending_intents rt)\<rparr>"
  obtains (none) "rt' = rt1"
  | (one) i where "i \<in> set (rt_pending_intents rt)" and "pi_symbol i = s"
      and "dict_get (rt_positions rt) s = None" and "fill_intent risk config s c d prior rt1 i = ret rt'"
proof -
  from assms(1) have "distinct (map pi_symbol (rt_pending_intents rt))" by (simp add: queue_ok_def)
  from filter_at_most_one [OF this, of s] show ?thesis
  proof (elim disjE exE conjE)
    assume "filter (\<lambda>x. pi_symbol x = s) (rt_pending_intents rt) = []"
    with assms(2) show ?thesis by (intro none) (simp add: fill_pending_at_open_def rt1_def Let_def)
  next
    fix i
    assume i: "filter (\<lambda>x. pi_symbol x = s) (rt_pending_intents rt) = [i]" "i \<in> set (rt_pending_intents rt)" "pi_symbol i = s"
    with assms(1) have "dict_get (rt_positions rt) s = None" by (auto simp: queue_ok_def)
    with i assms(2) show ?thesis by (intro one) (simp_all add: fill_pending_at_open_def rt1_def Let_def)
  qed
qed

lemma book_inv_fill:
  assumes inv: "book_inv config rt" and run: "fill_pending_at_open risk config s c d prior rt = ret rt'"
  shows "book_inv config rt'"
proof -
  let ?rt1 = "rt\<lparr>rt_pending_intents := filter (\<lambda>p. pi_symbol p \<noteq> s) (rt_pending_intents rt)\<rparr>"
  have q: "queue_ok (rt_pending_intents rt) (rt_positions rt)" using inv by (simp add: book_inv_def)
  have rt1: "book_inv config ?rt1" using inv by (auto simp: book_inv_def queue_ok_def distinct_map_filter)
  from q run show ?thesis
  proof (rule fill_pending_cases, goal_cases)
    case 1
    with rt1 show ?thesis by simp
  next
    case i: (2 i)
    from i(4) show ?thesis
    proof (rule fill_intent_cases, goal_cases)
      case 1
      with rt1 show ?thesis by simp
    next
      case (2 codes)
      with rt1 show ?thesis by (simp add: book_inv_reject)
    next
      case (3 cs prices decision qty acc)
      have "book_inv config (open_position s c i (ef_fill_price prices) (ef_stop_initial prices) qty
          (rd_reason_codes decision) acc ?rt1)"
        using 3(1) i(3) entry_accounting_stop [OF 3(7)] by (intro book_inv_open_position [OF rt1]) simp_all
      then show ?thesis unfolding 3(9) by (rule book_inv_stop)
    qed
  qed
qed

interpretation books: runtime_invariant strategy risk config data "book_inv config" "\<lambda>_ _. True"
  for strategy risk config data
  by unfold_locales
    (auto intro: book_inv_new book_inv_fill book_inv_stop book_inv_funding book_inv_queue book_inv_trailing
      book_inv_equity)

section \<open>What the loop reads\<close>

lemma get_foldl_collect:
  "dict_get (foldl (\<lambda>d s. case f s of None \<Rightarrow> d | Some v \<Rightarrow> dict_put s v d) d0 ss) k =
     (if k \<in> set ss \<and> f k \<noteq> None then f k else dict_get d0 k)"
  by (induction ss arbitrary: d0) (auto split: option.splits)

definition candle_at :: "(string, candles_by_time) dict \<Rightarrow> datetime \<Rightarrow> string \<Rightarrow> candle option" where
  "candle_at ix day s = map_option snd (dict_get (get_default ix s []) day)"

definition prior_close :: "(string, candles_by_time) dict \<Rightarrow> datetime \<Rightarrow> string \<Rightarrow> decimal option" where
  "prior_close ix day s =
     (case latest_before day (dict_keys (get_default ix s [])) of
        None \<Rightarrow> None
      | Some prior \<Rightarrow> map_option (c_close \<circ> snd) (dict_get (get_default ix s []) prior))"

lemma candles_of_day_collect:
  "candles_of_day ix ss day = foldl (\<lambda>d s. case candle_at ix day s of None \<Rightarrow> d | Some c \<Rightarrow> dict_put s c d) [] ss"
  unfolding candles_of_day_def candle_at_def
  by (rule foldl_cong) (auto split: option.splits prod.splits)

lemma prior_closes_collect:
  "prior_closes_from_timeline ix ss day =
     foldl (\<lambda>d s. case prior_close ix day s of None \<Rightarrow> d | Some x \<Rightarrow> dict_put s x d) [] ss"
  unfolding prior_closes_from_timeline_def prior_close_def
  by (rule foldl_cong) (auto simp: Let_def split: option.splits prod.splits)

lemma get_daily_index:
  "get_default (daily_index data ss) s [] = (if s \<in> set ss then index_daily (get_default (hd_daily data) s []) else [])"
proof -
  have "map_of (rev (map (\<lambda>s. (s, g s)) ss)) s = (if s \<in> set ss then Some (g s) else None)" for g :: "string \<Rightarrow> candles_by_time"
    unfolding rev_map map_of_map_keys by (simp add: map_of_map_restrict restrict_map_def)
  then show ?thesis by (simp add: daily_index_def get_default_def get_dict_of)
qed

lemma index_daily_Some:
  assumes "dict_get (index_daily cs) day = Some (i, c)"
  shows "c \<in> set cs \<and> open_time c = day"
proof -
  have "(day, i, c) \<in> set (map (\<lambda>(i, c). (open_time c, (i, c))) (enumerate 0 cs))"
    using map_of_SomeD [OF assms [unfolded index_daily_def get_dict_of]] by simp
  then show ?thesis by (auto simp: in_set_enumerate_eq)
qed

lemma candle_at_mem:
  "candle_at (daily_index data ss) day s = Some c \<Longrightarrow>
   s \<in> set ss \<and> c \<in> set (get_default (hd_daily data) s []) \<and> open_time c = day"
  by (auto simp: candle_at_def get_daily_index dest: index_daily_Some split: if_splits)

lemma prior_close_mem:
  assumes "prior_close (daily_index data ss) day s = Some x"
  shows "s \<in> set ss \<and> (\<exists>c \<in> set (get_default (hd_daily data) s []). c_close c = x \<and> open_time c < day)"
  using assms
  by (auto simp: prior_close_def get_daily_index latest_before_def split: option.splits if_splits
      dest!: index_daily_Some dest: latest_before_Some [unfolded latest_before_def])

text \<open>The ids of all trades of a run, closed and active.\<close>

lemma distinct_values_ids:
  assumes "distinct (dict_keys A)"
    and "\<And>s s' t t'. dict_get A s = Some t \<Longrightarrow> dict_get A s' = Some t' \<Longrightarrow> f t = f t' \<Longrightarrow> s = s'"
  shows "distinct (map f (dict_values A))"
  using assms
proof (induction A)
  case (Cons x A)
  obtain k v where x: "x = (k, v)" by fastforce
  have k: "k \<notin> set (dict_keys A)" "distinct (dict_keys A)" using Cons.prems(1) by (simp_all add: x dict_keys_def)
  have get: "dict_get (x # A) s = Some t" if "dict_get A s = Some t" for s t
    using that k(1) by (auto simp: x get_None_iff [symmetric])
  have "f v \<notin> f ` set (dict_values A)"
  proof
    assume "f v \<in> f ` set (dict_values A)"
    then obtain u where u: "u \<in> set (dict_values A)" "f v = f u" by blast
    then obtain s where s: "dict_get A s = Some u" using values_mem_iff [OF k(2)] by blast
    have "s = k" using Cons.prems(2) [OF get [OF s], of k v] u(2) by (simp add: x)
    with s k(1) show False by (auto simp: get_None_iff [symmetric])
  qed
  moreover have "distinct (map f (dict_values A))"
    using Cons.IH [OF k(2)] Cons.prems(2) get by blast
  ultimately show ?case by (simp add: x dict_values_def image_image comp_def)
qed simp

lemma book_inv_trade_ids:
  assumes "book_inv config rt"
  defines "ts \<equiv> rt_closed_trades rt @ dict_values (rt_active_trades rt)"
  shows "finite (rt_processed_intent_ids rt)" and "distinct (map bt_client_intent_id ts)"
    and "set (map bt_client_intent_id ts) \<subseteq> rt_processed_intent_ids rt"
proof -
  let ?A = "rt_active_trades rt"
  have ids: "ids_ok (rt_closed_trades rt) ?A (rt_processed_intent_ids rt)" and keys: "distinct (dict_keys ?A)"
    using assms by (simp_all add: book_inv_def linked_def)
  then show "finite (rt_processed_intent_ids rt)" by (simp add: ids_ok_def)
  have active: "distinct (map bt_client_intent_id (dict_values ?A))"
    using ids by (intro distinct_values_ids [OF keys]) (auto simp: ids_ok_def)
  have entry: "bt_client_intent_id t \<in> rt_processed_intent_ids rt \<and>
      bt_client_intent_id t \<notin> bt_client_intent_id ` set (rt_closed_trades rt)" if "t \<in> set (dict_values ?A)" for t
    using that ids by (auto simp: ids_ok_def values_mem_iff [OF keys])
  then have "bt_client_intent_id ` set (rt_closed_trades rt) \<inter> bt_client_intent_id ` set (dict_values ?A) = {}"
    unfolding disjoint_iff by (metis imageE)
  with ids active show "distinct (map bt_client_intent_id ts)"
    by (simp add: ts_def ids_ok_def)
  show "set (map bt_client_intent_id ts) \<subseteq> rt_processed_intent_ids rt"
    using ids entry by (auto simp: ts_def ids_ok_def)
qed

text \<open>The result of a backtest: empty without a timeline, else read off the final runtime.\<close>

lemma backtest_run_cases:
  assumes "backtest_run strategy risk fm data config = ret res"
  obtains (no_timeline) "br_trades res = []" and "br_open_positions res = []"
      and "br_processed_intent_ids res = []" and "br_end_capital res = br_start_capital res"
  | (simulated) rt where
      "simulate_days strategy risk config data (build_timeline data (cfg_symbols config)) = ret rt"
      and "br_trades res = rt_closed_trades rt @ dict_values (rt_active_trades rt)"
      and "br_open_positions res = dict_values (rt_positions rt)"
      and "br_processed_intent_ids res = sorted_list_of_set (rt_processed_intent_ids rt)"
      and "br_equity_curve res = rt_equity_curve rt"
  using assms
  by (auto simp: backtest_run_def empty_result_def Let_def split: if_splits elim!: cbind_retE)

section \<open>Exposure\<close>

text \<open>What the backtester relies on when the risk engine approves an entry.\<close>

locale risk_gate =
  fixes risk :: risk_fn
  assumes approved_quantity: "risk pr ac cs ps ords proc (Some p) = ret d \<Longrightarrow> approved d \<Longrightarrow>
      \<exists>q. rounded_quantity d = Some q \<and> 0 < q"
    and approved_price: "risk pr ac cs ps ords proc (Some p) = ret d \<Longrightarrow> approved d \<Longrightarrow> 0 < tp_entry_price pr"
    and approved_room: "risk pr ac cs ps ords proc (Some p) = ret d \<Longrightarrow> approved d \<Longrightarrow>
      int (length ps) < max_open_positions p \<and> max_open_positions p \<le> DEFAULT_MAX_OPEN_POSITIONS"

definition positive_prices :: "backtest_config \<Rightarrow> historical_data_bundle \<Rightarrow> bool" where
  "positive_prices config data \<longleftrightarrow>
     (\<forall>s \<in> set (cfg_symbols config). \<forall>c \<in> set (get_default (hd_daily data) s []). 0 < c_open c \<and> 0 < c_close c)"

definition exposure_ok :: "backtest_config \<Rightarrow> (string, simulated_position) dict \<Rightarrow> bool" where
  "exposure_ok config P \<longleftrightarrow>
     (\<forall>s p. dict_get P s = Some p \<longrightarrow> 0 < pos_quantity p \<and> 0 < pos_entry_price p) \<and>
     int (length P) \<le> max 0 (min (max_open_positions (risk_params config)) DEFAULT_MAX_OPEN_POSITIONS)"

definition exposure_inv :: "backtest_config \<Rightarrow> historical_data_bundle \<Rightarrow> runtime \<Rightarrow> bool" where
  "exposure_inv config data rt \<longleftrightarrow>
     book_inv config rt \<and> (positive_prices config data \<longrightarrow> exposure_ok config (rt_positions rt))"

definition marks_ok ::
  "backtest_config \<Rightarrow> historical_data_bundle \<Rightarrow> (string, candle) dict \<Rightarrow> (string, decimal) dict \<Rightarrow> bool" where
  "marks_ok config data d prior \<longleftrightarrow>
     (positive_prices config data \<longrightarrow>
        (\<forall>s c. dict_get d s = Some c \<longrightarrow> 0 < c_open c) \<and> (\<forall>s x. dict_get prior s = Some x \<longrightarrow> 0 < x))"

lemma marks_ok_day:
  "marks_ok config data (candles_of_day (daily_index data (cfg_symbols config)) (cfg_symbols config) day)
     (prior_closes_from_timeline (daily_index data (cfg_symbols config)) (cfg_symbols config) day)"
  by (auto simp: marks_ok_def candles_of_day_collect prior_closes_collect get_foldl_collect positive_prices_def
      dest!: candle_at_mem prior_close_mem split: if_splits)

lemma exposure_ok_del: "exposure_ok config P \<Longrightarrow> exposure_ok config (dict_del s P)"
  using length_del_le [of s P] by (auto simp: exposure_ok_def split: if_splits)

lemma exposure_ok_update:
  "exposure_ok config P \<Longrightarrow> dict_get P s = Some p \<Longrightarrow> pos_quantity p' = pos_quantity p \<Longrightarrow>
   pos_entry_price p' = pos_entry_price p \<Longrightarrow> exposure_ok config (dict_put s p' P)"
  using get_None_iff [of P s] by (auto simp: exposure_ok_def length_put split: if_splits)

lemma exposure_ok_trail:
  "exposure_ok config P \<Longrightarrow> dict_get P s = Some p \<Longrightarrow>
   exposure_ok config (dict_put s (p\<lparr>pos_trail_stop := a, pos_effective_stop := b, pos_highest_close := h\<rparr>) P)"
  by (rule exposure_ok_update) simp_all

lemma exposure_stop:
  assumes "exposure_inv config data rt"
  shows "exposure_inv config data (check_stop_exit config s c b rt)"
proof -
  have inv: "book_inv config rt" using assms by (simp add: exposure_inv_def)
  then have linked: "linked (rt_positions rt) (rt_active_trades rt) (rt_trail_history rt)"
    by (simp add: book_inv_def)
  have "rt_positions (check_stop_exit config s c b rt) \<in> {rt_positions rt, dict_del s (rt_positions rt)}"
    by (rule check_stop_exit_effect [OF linked, of config s c b]) simp_all
  with assms book_inv_stop [OF inv] show ?thesis
    by (auto simp: exposure_inv_def intro: exposure_ok_del)
qed

lemma pay_funding_positions [simp]: "rt_positions (pay_funding s x rt) = rt_positions rt"
  by (simp add: pay_funding_def Let_def split: option.split)

lemma apply_funding_positions [simp]: "rt_positions (apply_funding config data s c rt) = rt_positions rt"
proof -
  have "rt_positions (foldl (\<lambda>rt ev. if P ev then pay_funding s (f ev) rt else rt) rt evs) = rt_positions rt"
    for P f and evs :: "funding_event list"
    by (induction evs arbitrary: rt) simp_all
  then show ?thesis by (simp add: apply_funding_def Let_def split: option.split)
qed

lemma strategy_and_queue_positions:
  "strategy_and_queue strategy config data s t rt = ret rt' \<Longrightarrow> rt_positions rt' = rt_positions rt"
  by (auto simp: strategy_and_queue_def Let_def elim!: cbind_retE split: option.splits if_splits)

lemma exposure_trailing:
  assumes "exposure_inv config data rt" and "update_trailing config data s c t rt = ret rt'"
  shows "exposure_inv config data rt'"
proof -
  have "exposure_ok config (rt_positions rt')" if "exposure_ok config (rt_positions rt)"
    using assms(2) that
    by (auto simp: update_trailing_def Let_def elim!: cbind_retE split: option.splits if_splits
        intro!: exposure_ok_trail)
  with assms book_inv_trailing show ?thesis by (auto simp: exposure_inv_def)
qed

lemma linked_symbols: "linked P A H \<Longrightarrow> map pos_symbol (dict_values P) = dict_keys P"
  by (auto simp: linked_def dict_values_def dict_keys_def intro!: map_cong)

context risk_gate
begin

lemma exposure_open_position:
  assumes "exposure_ok config P" and "linked P A H" and "dict_get P s = None"
    and marks: "\<forall>s c. dict_get d s = Some c \<longrightarrow> 0 < c_open c" "\<forall>s x. dict_get prior s = Some x \<longrightarrow> 0 < x"
    and risk: "evaluate_entry_risk_decision risk s f st i a cs w (dict_values P) pend proc d prior
      (risk_params config) md b = ret dec" "approved dec" "rounded_quantity dec = Some qty"
    and pos: "pos_quantity p = qty" "pos_entry_price p = f"
  shows "exposure_ok config (dict_put s p P)"
proof -
  let ?marks = "resolve_marks_at_open (dict_values P) d prior"
  let ?ps = "to_position_states (dict_values P) ?marks"
  note run = risk(1) [unfolded evaluate_entry_risk_decision_def Let_def]
  have syms: "map pos_symbol (dict_values P) = dict_keys P" by (rule linked_symbols [OF assms(2)])
  have keys: "distinct (dict_keys P)" using assms(2) by (simp add: linked_def)
  have "0 < pos_quantity q \<and> 0 < get_default ?marks (pos_symbol q) (pos_entry_price q)"
    if q: "q \<in> set (dict_values P)" for q
  proof -
    obtain k where "dict_get P k = Some q" using q keys by (auto simp: values_mem_iff)
    then have "0 < pos_quantity q" "0 < pos_entry_price q" using assms(1) by (auto simp: exposure_ok_def)
    moreover have "get_default ?marks (pos_symbol q) (pos_entry_price q) = mark_at_open d prior q"
      using get_marks_at_open [of "dict_values P" q d prior] q syms keys by (simp add: get_default_def)
    ultimately show ?thesis using marks by (auto simp: mark_at_open_def split: option.splits)
  qed
  then have "map ps_symbol ?ps = map pos_symbol (dict_values P)"
    by (intro to_position_states_all) blast
  then have "length ?ps = length P" by (metis length_map length_values)
  with approved_room [OF run risk(2)] have room:
    "int (length P) < max_open_positions (risk_params config)"
    "max_open_positions (risk_params config) \<le> DEFAULT_MAX_OPEN_POSITIONS" by simp_all
  have "0 < f" using approved_price [OF run risk(2)] by (simp add: entry_proposal_def)
  moreover have "0 < qty" using approved_quantity [OF run risk(2)] risk(3) by simp
  moreover have "length (dict_put s p P) = Suc (length P)"
    using assms(3) by (simp add: length_put get_None_iff)
  ultimately show ?thesis using assms(1) room pos by (auto simp: exposure_ok_def)
qed

lemma exposure_fill:
  assumes inv: "exposure_inv config data rt" and ok: "marks_ok config data d prior"
    and run: "fill_pending_at_open risk config s c d prior rt = ret rt'"
  shows "exposure_inv config data rt'"
proof -
  let ?rt1 = "rt\<lparr>rt_pending_intents := filter (\<lambda>p. pi_symbol p \<noteq> s) (rt_pending_intents rt)\<rparr>"
  have book: "book_inv config rt" using inv by (simp add: exposure_inv_def)
  then have q: "queue_ok (rt_pending_intents rt) (rt_positions rt)"
    and linked: "linked (rt_positions rt) (rt_active_trades rt) (rt_trail_history rt)"
    by (simp_all add: book_inv_def)
  have rt1: "book_inv config ?rt1" using book by (auto simp: book_inv_def queue_ok_def distinct_map_filter)
  have keep: "positive_prices config data \<Longrightarrow> exposure_ok config (rt_positions rt)"
    using inv by (simp add: exposure_inv_def)
  from q run show ?thesis
  proof (rule fill_pending_cases, goal_cases)
    case 1
    with rt1 keep show ?thesis by (simp add: exposure_inv_def)
  next
    case i: (2 i)
    from i(4) show ?thesis
    proof (rule fill_intent_cases, goal_cases)
      case 1
      with rt1 keep show ?thesis by (simp add: exposure_inv_def)
    next
      case (2 codes)
      with book_inv_reject [OF rt1] keep show ?thesis
        by (simp add: exposure_inv_def reject_intent_def mark_terminal_intent_def Let_def)
    next
      case (3 cs prices decision qty acc)
      let ?o = "open_position s c i (ef_fill_price prices) (ef_stop_initial prices) qty (rd_reason_codes decision) acc ?rt1"
      have "book_inv config ?o"
        using 3(1) i(3) entry_accounting_stop [OF 3(7)] by (intro book_inv_open_position [OF rt1]) simp_all
      moreover have "exposure_ok config (rt_positions ?o)" if pp: "positive_prices config data"
      proof -
        have m: "\<forall>s c. dict_get d s = Some c \<longrightarrow> 0 < c_open c" "\<forall>s x. dict_get prior s = Some x \<longrightarrow> 0 < x"
          using ok pp by (simp_all add: marks_ok_def)
        show ?thesis
          using exposure_open_position [OF keep [OF pp] linked i(3) m 3(4) [simplified] 3(5,6)]
          by (simp add: open_position_def mark_terminal_intent_def build_simulated_position_from_entry_def Let_def)
      qed
      ultimately have "exposure_inv config data ?o" by (simp add: exposure_inv_def)
      then show ?thesis unfolding 3(9) by (rule exposure_stop)
    qed
  qed
qed

end

sublocale risk_gate \<subseteq> exposure: runtime_invariant strategy risk config data "exposure_inv config data" "marks_ok config data"
  for strategy config data
proof unfold_locales
  show "exposure_inv config data (new_runtime config)"
    by (simp add: exposure_inv_def book_inv_new) (simp add: exposure_ok_def new_runtime_def)
  show "exposure_inv config data rt \<Longrightarrow> exposure_inv config data (apply_funding config data s c rt)" for rt s c
    by (simp add: exposure_inv_def book_inv_funding)
  show "exposure_inv config data rt \<Longrightarrow> strategy_and_queue strategy config data s t rt = ret rt' \<Longrightarrow>
      exposure_inv config data rt'" for rt s t rt'
    by (auto simp: exposure_inv_def book_inv_queue dest: strategy_and_queue_positions intro: book_inv_queue)
  show "exposure_inv config data rt \<Longrightarrow> exposure_inv config data (record_equity t closes rt)" for rt t closes
    by (simp add: exposure_inv_def book_inv_equity) (simp add: record_equity_def Let_def)
qed (rule marks_ok_day, (rule exposure_fill exposure_stop exposure_trailing; assumption)+)

interpretation gate: risk_gate risk_evaluate
  by unfold_locales
    (auto elim!: risk_evaluate_approved
      simp: is_approval_def approval_conditions_def sized_ok_def inputs_ok_def valid_proposal_def
        admitted_def valid_parameters_def)

end
