(* ===== verification/Backtest_Lookahead.thy ===== *)
theory Backtest_Lookahead
  imports Backtest_Invariants
begin

text \<open>
  The backtester does not look ahead. Entries at the open are a function of the opens of
  the day, and a run over some days is a function of what had closed by the evaluation of
  the last of them: deleting every later candle and funding event does not change it.
\<close>

section \<open>Entries see only the open\<close>

lemma check_stop_exit_open_cong:
  assumes "c_open c = c_open c'" and "open_time c = open_time c'"
  shows "check_stop_exit config s c True rt = check_stop_exit config s c' True rt"
proof -
  have "compute_gap_stop_at_open c = compute_gap_stop_at_open c'"
    using assms by (simp add: fun_eq_iff compute_gap_stop_at_open_def)
  then show ?thesis unfolding check_stop_exit_def if_True assms(2) by (simp only:)
qed

lemma fill_intent_open_cong:
  assumes "c_open c = c_open c'" and "open_time c = open_time c'" and "same_opens d d'"
  shows "fill_intent risk config s c d prior rt i = fill_intent risk config s c' d' prior rt i"
proof -
  have "open_position s c i f st q codes acc rt = open_position s c' i f st q codes acc rt"
    "reject_intent c s i codes rt = reject_intent c' s i codes rt" for f st q codes acc
    using assms by (simp_all add: open_position_def reject_intent_def)
  note eqs = this check_stop_exit_open_cong [OF assms(1,2)] evaluate_entry_risk_decision_cong [OF assms(3)] assms(1)
  show ?thesis unfolding fill_intent_def eqs by (rule refl)
qed

lemma fill_pending_open_cong:
  assumes "c_open c = c_open c'" and "open_time c = open_time c'" and "same_opens d d'"
  shows "fill_pending_at_open risk config s c d prior rt = fill_pending_at_open risk config s c' d' prior rt"
proof -
  have "fill_intent risk config s c d prior = fill_intent risk config s c' d' prior"
    using fill_intent_open_cong [OF assms] by (simp add: fun_eq_iff)
  then show ?thesis by (simp add: fill_pending_at_open_def)
qed

section \<open>Data known at a time\<close>

definition truncate_candles :: "datetime \<Rightarrow> (string, candle list) dict \<Rightarrow> (string, candle list) dict" where
  "truncate_candles e d = map (\<lambda>(s, cs). (s, filter (\<lambda>c. close_time c \<le> e) cs)) d"

definition truncate_data :: "datetime \<Rightarrow> historical_data_bundle \<Rightarrow> historical_data_bundle" where
  "truncate_data e data =
     data\<lparr>hd_daily := truncate_candles e (hd_daily data), hd_weekly := truncate_candles e (hd_weekly data),
          hd_monthly := truncate_candles e (hd_monthly data),
          hd_funding := map (\<lambda>(s, evs). (s, filter (\<lambda>ev. fe_timestamp ev \<le> e) evs)) (hd_funding data)\<rparr>"

text \<open>Every daily candle that has opened by one of the days is evaluated by the time \<open>e\<close>.\<close>

definition evaluated_by :: "datetime \<Rightarrow> backtest_config \<Rightarrow> historical_data_bundle \<Rightarrow> datetime list \<Rightarrow> bool" where
  "evaluated_by e config data days \<longleftrightarrow>
     (\<forall>s \<in> set (cfg_symbols config). \<forall>c \<in> set (get_default (hd_daily data) s []).
        (\<exists>day \<in> set days. open_time c \<le> day) \<longrightarrow> evaluation_time_for_daily c \<le> e)"

lemma get_default_map:
  "get_default (map (\<lambda>(s, xs). (s, filter P xs)) d) s [] = filter P (get_default d s [])"
  by (induction d) (auto simp: get_default_def)

lemma slice_truncated:
  "a \<le> e \<Longrightarrow> slice_closed_candles (get_default (truncate_candles e d) s []) a =
   slice_closed_candles (get_default d s []) a"
  unfolding truncate_candles_def get_default_map by (rule slice_filter) simp

lemma eval_after_close: "close_time c \<le> evaluation_time_for_daily c"
  by (simp add: evaluation_time_for_daily_def seconds_def us_per_second_def)

section \<open>The index of the daily candles\<close>

lemma index_daily_find:
  "map_option snd (dict_get (index_daily cs) t) = find (\<lambda>c. open_time c = t) (rev cs)"
proof (induction cs rule: rev_induct)
  case Nil
  then show ?case by (simp add: index_daily_def dict_of_def)
next
  case (snoc c cs)
  have "enumerate 0 (cs @ [c]) = enumerate 0 cs @ [(length cs, c)]"
    by (simp add: enumerate_append_eq)
  then have "index_daily (cs @ [c]) = dict_put (open_time c) (length cs, c) (index_daily cs)"
    by (simp add: index_daily_def dict_of_append)
  with snoc show ?case by simp
qed

lemma find_rev_filter:
  "(\<And>c. c \<in> set cs \<Longrightarrow> Q c \<Longrightarrow> P c) \<Longrightarrow> find Q (rev (filter P cs)) = find Q (rev cs)"
  by (induction cs rule: rev_induct) auto

lemma keys_index_daily: "set (dict_keys (index_daily cs)) = open_time ` set cs"
proof -
  have "t \<in> set (dict_keys (index_daily cs)) \<longleftrightarrow> find (\<lambda>c. open_time c = t) (rev cs) \<noteq> None" for t
    using get_None_iff [of "index_daily cs" t] index_daily_find [of cs t] by (metis option.map_disc_iff)
  then show ?thesis by (force simp: find_None_iff)
qed

lemma latest_before_None: "latest_before b ts = None \<longleftrightarrow> (\<forall>u \<in> set ts. \<not> u < b)"
  by (induction ts rule: rev_induct) (auto simp: latest_before_def split: option.splits)

lemma latest_before_cong:
  assumes "\<And>u. u < b \<Longrightarrow> u \<in> set ts \<longleftrightarrow> u \<in> set us"
  shows "latest_before b ts = latest_before b us"
proof (cases "latest_before b ts")
  case None
  then have "latest_before b us = None" using assms by (auto simp: latest_before_None)
  with None show ?thesis by simp
next
  case (Some t)
  note t = latest_before_Some [OF Some]
  then obtain u where us: "latest_before b us = Some u"
    using assms latest_before_None [of b us] by (cases "latest_before b us") auto
  note u = latest_before_Some [OF us]
  have "t = u" using t u assms by (meson order.antisym)
  with Some us show ?thesis by simp
qed

section \<open>A day\<close>

lemma known_close:
  assumes known: "evaluated_by e config data days" and "s \<in> set (cfg_symbols config)" and "day \<in> set days" and "c \<in> set (get_default (hd_daily data) s [])"
    and "open_time c \<le> day"
  shows "close_time c \<le> e"
  using assms eval_after_close [of c] unfolding evaluated_by_def by force

lemma candle_at_truncated:
  assumes known: "evaluated_by e config data days" and "day \<in> set days"
  shows "candle_at (daily_index (truncate_data e data) (cfg_symbols config)) day s =
    candle_at (daily_index data (cfg_symbols config)) day s"
  using known_close [OF known _ assms(2)]
  by (simp add: candle_at_def get_daily_index index_daily_find truncate_data_def truncate_candles_def
      get_default_map find_rev_filter)

lemma prior_close_truncated:
  assumes known: "evaluated_by e config data days" and "day \<in> set days"
  shows "prior_close (daily_index (truncate_data e data) (cfg_symbols config)) day s =
    prior_close (daily_index data (cfg_symbols config)) day s"
proof (cases "s \<in> set (cfg_symbols config)")
  case False
  then show ?thesis by (simp add: prior_close_def get_daily_index split: option.split)
next
  case True
  let ?cs = "get_default (hd_daily data) s []"
  let ?ct = "filter (\<lambda>c. close_time c \<le> e) ?cs"
  have kept: "close_time c \<le> e" if "c \<in> set ?cs" "open_time c \<le> day" for c
    using known_close [OF known True assms(2) that] .
  have same: "latest_before day (dict_keys (index_daily ?ct)) = latest_before day (dict_keys (index_daily ?cs))"
    using kept by (intro latest_before_cong) (auto simp: keys_index_daily)
  have "map_option (c_close \<circ> snd) (dict_get (index_daily ?ct) p) = map_option (c_close \<circ> snd) (dict_get (index_daily ?cs) p)"
    if "p < day" for p
  proof -
    have "find (\<lambda>c. open_time c = p) (rev ?ct) = find (\<lambda>c. open_time c = p) (rev ?cs)"
      using kept that by (intro find_rev_filter) auto
    then show ?thesis by (simp add: option.map_comp [symmetric] index_daily_find)
  qed
  then show ?thesis
    using True same
    by (auto simp: prior_close_def get_daily_index truncate_data_def truncate_candles_def get_default_map
        split: option.split dest: latest_before_Some)
qed

lemma apply_funding_truncated:
  assumes "close_time c \<le> e"
  shows "apply_funding config (truncate_data e data) s c rt = apply_funding config data s c rt"
proof -
  have "foldl (\<lambda>rt ev. if open_time c \<le> fe_timestamp ev \<and> fe_timestamp ev \<le> close_time c then f ev rt else rt) rt
      (filter (\<lambda>ev. fe_timestamp ev \<le> e) evs) =
    foldl (\<lambda>rt ev. if open_time c \<le> fe_timestamp ev \<and> fe_timestamp ev \<le> close_time c then f ev rt else rt) rt evs"
    for f :: "funding_event \<Rightarrow> runtime \<Rightarrow> runtime" and evs
    using assms by (induction evs arbitrary: rt) auto
  then show ?thesis
    by (simp add: apply_funding_def truncate_data_def get_default_map Let_def split: option.split)
qed

lemma strategy_and_queue_truncated:
  "t \<le> e \<Longrightarrow> strategy_and_queue strategy config (truncate_data e data) s t rt =
   strategy_and_queue strategy config data s t rt"
  by (simp add: strategy_and_queue_def truncate_data_def build_candle_series_def slice_truncated)

lemma update_trailing_truncated:
  "t \<le> e \<Longrightarrow> update_trailing config (truncate_data e data) s c t rt = update_trailing config data s c t rt"
  by (simp add: update_trailing_def truncate_data_def slice_truncated split: option.split)

lemma for_symbols_cong:
  assumes "\<And>s c rt. dict_get d s = Some c \<Longrightarrow> f s c rt = g s c rt"
  shows "for_symbols ss d f rt = for_symbols ss d g rt"
proof -
  have "(\<lambda>rt s. case dict_get d s of None \<Rightarrow> ret rt | Some c \<Rightarrow> f s c rt) =
      (\<lambda>rt s. case dict_get d s of None \<Rightarrow> ret rt | Some c \<Rightarrow> g s c rt)"
    using assms by (auto simp: fun_eq_iff split: option.split)
  then show ?thesis by (simp add: for_symbols_def)
qed

lemma distinct_keys_collect:
  "distinct (dict_keys d0) \<Longrightarrow>
   distinct (dict_keys (foldl (\<lambda>d s. case f s of None \<Rightarrow> d | Some v \<Rightarrow> dict_put s v d) d0 ss))"
  by (induction ss arbitrary: d0) (auto intro: distinct_keys_put split: option.split)

lemma simulate_day_truncated:
  assumes known: "evaluated_by e config data days" and day: "day \<in> set days"
  shows "simulate_day strategy risk config (truncate_data e data)
      (daily_index (truncate_data e data) (cfg_symbols config)) rt day =
    simulate_day strategy risk config data (daily_index data (cfg_symbols config)) rt day"
proof -
  let ?ss = "cfg_symbols config"
  let ?d = "candles_of_day (daily_index data ?ss) ?ss day"
  have d: "candles_of_day (daily_index (truncate_data e data) ?ss) ?ss day = ?d"
    by (simp add: candles_of_day_collect candle_at_truncated [OF known day])
  have prior: "prior_closes_from_timeline (daily_index (truncate_data e data) ?ss) ?ss day =
      prior_closes_from_timeline (daily_index data ?ss) ?ss day"
    by (simp add: prior_closes_collect prior_close_truncated [OF known day])
  have eval: "evaluation_time_for_daily c \<le> e" "close_time c \<le> e" if "dict_get ?d s = Some c" for s c
  proof -
    have "s \<in> set ?ss \<and> candle_at (daily_index data ?ss) day s = Some c"
      using that by (auto simp: candles_of_day_collect get_foldl_collect split: if_splits)
    then show "evaluation_time_for_daily c \<le> e"
      using known day candle_at_mem [of data ?ss day s c] unfolding evaluated_by_def by auto
    with eval_after_close [of c] show "close_time c \<le> e" by simp
  qed
  have first: "evaluation_time_for_daily c \<le> e" if "dict_values ?d = c # cs" for c cs
  proof -
    have "distinct (dict_keys ?d)" unfolding candles_of_day_collect by (rule distinct_keys_collect) simp
    with that obtain s where "dict_get ?d s = Some c" by (metis list.set_intros(1) values_mem_iff)
    then show ?thesis by (rule eval)
  qed
  have funding: "for_symbols ?ss ?d (\<lambda>s c rt. ret (apply_funding config (truncate_data e data) s c rt)) rt =
      for_symbols ?ss ?d (\<lambda>s c rt. ret (apply_funding config data s c rt)) rt" for rt
    by (rule for_symbols_cong) (simp add: eval apply_funding_truncated)
  show ?thesis
    unfolding simulate_day_def Let_def d prior funding
    by (cases "dict_values ?d")
      (simp_all add: eval first strategy_and_queue_truncated update_trailing_truncated
        cong: for_symbols_cong)
qed

lemma cfoldl_cong: "(\<And>s x. x \<in> set xs \<Longrightarrow> f s x = g s x) \<Longrightarrow> cfoldl f s xs = cfoldl g s xs"
proof (induction xs arbitrary: s)
  case (Cons x xs)
  have "cfoldl f t xs = cfoldl g t xs" for t using Cons by simp
  with Cons.prems show ?case by simp
qed simp

lemma simulate_days_truncated:
  assumes "evaluated_by e config data days"
  shows "simulate_days strategy risk config (truncate_data e data) days = simulate_days strategy risk config data days"
  unfolding simulate_days_def using simulate_day_truncated [OF assms] by (intro cfoldl_cong)

text \<open>A run over a longer timeline passes through the state of the shorter one.\<close>

lemma simulate_days_append:
  "simulate_days strategy risk config data (days @ later) =
     cbind (simulate_days strategy risk config data days)
       (\<lambda>rt. cfoldl (simulate_day strategy risk config data (daily_index data (cfg_symbols config))) rt later)"
  by (simp add: simulate_days_def cfoldl_append)

end
