(* ===== verification/Examples.thy ===== *)
theory Examples
  imports Backtest_Lookahead
begin

text \<open>
  Concrete inputs on which the components are evaluated: a proposal the risk engine
  approves and one it rejects, candle series, and small backtests.
\<close>

section \<open>Risk engine\<close>

definition sample_constraints :: symbol_constraints where
  "sample_constraints =
     \<lparr>quantity_step = 1 / 1000, minimum_quantity = 1 / 1000, minimum_notional = 10, price_tick_size = 1 / 10\<rparr>"

definition sample_account :: account_state where
  "sample_account =
     \<lparr>equity_usd = 100000, available_margin_usd = 100000, daily_realized_pnl_usd = 0,
      weekly_realized_pnl_usd = 0, peak_equity_usd = Some 100000\<rparr>"

definition sample_proposal :: "string \<Rightarrow> trade_proposal" where
  "sample_proposal intent_id =
     \<lparr>tp_symbol = ''BTC'', tp_side = LONG, tp_entry_price = 50000, tp_stop_price = 49000,
      tp_client_intent_id = intent_id, tp_signal_intent_kind = LONG_ENTRY, tp_strategy_approved = True,
      tp_market_data_status = MD_OK, tp_bot_system_state = BOT_ACTIVE, tp_atr14 = Some 400\<rparr>"

lemmas sample_defs = sample_constraints_def sample_account_def sample_proposal_def
  default_risk_parameters_def default_loss_limits_def risk_defaults RISK_SPECIFICATION_VERSION_def STRATEGY_VERSION_def

lemma sample_inputs: "check_inputs (sample_proposal i) sample_account sample_constraints [] default_risk_parameters = ret (Inr ())"
  by (simp add: check_inputs_def sample_defs validate_parameters_def validate_account_def validate_constraints_def
      validate_symbol_constraints_core_def is_step_aligned_def dintegral_def round_half_even_def
      validate_proposal_def price_errors_def validate_open_positions_def check_loss_limits_def
      check_realized_loss_def check_drawdown_def float_is_finite_def dquot_def dec_simps Let_def)

lemma fts_eval: "dround (v / s) = q \<Longrightarrow> 0 \<le> q \<Longrightarrow> dround (of_int \<lfloor>q\<rfloor> * s) = r \<Longrightarrow> fts v s = r"
  by (simp add: fts_def dquot_def dmul_def dtrunc_def)

lemma sample_stop: "fts 49000 (1 / 10) = 49000"
  by (rule fts_eval [where q = 490000]) (simp_all add: dec_simps)

lemma sample_quantity: "fts (1 / 2) (1 / 1000) = 1 / 2"
  by (rule fts_eval [where q = 500]) (simp_all add: dec_simps)

lemma sample_admission:
  "check_admission (sample_proposal i) sample_constraints [] [] {} default_risk_parameters = ret (Inr 49000)"
  by (simp add: check_admission_Inr admitted_def sample_defs sample_stop)

lemma sample_cap:
  "apply_risk_cap_after_rounding (1 / 2) 1000 100000 500 (1 / 1000) (1 / 1000) default_risk_parameters = ret (Some (1 / 2))"
  by (simp add: apply_risk_cap_after_rounding_def risk_cap_loop_unfold risk_ok_def sample_defs dec_defs dec_simps Let_def)

definition sample_sizing :: position_sizing_result where
  "sample_sizing =
     \<lparr>sz_risk_budget_usd = 500, sz_stop_distance_usd = 1000, sz_raw_quantity = 1 / 2,
      sz_rounded_quantity = 1 / 2, sz_actual_trade_risk_usd = 500, sz_actual_trade_risk_pct = 5 / 1000\<rparr>"

lemma sample_budget: "compute_risk_budget 100000 default_risk_parameters = 500"
  by (simp add: compute_risk_budget_def sample_defs dec_defs dec_simps)

lemma sample_position_sizing:
  "compute_position_sizing 100000 50000 49000 (1 / 1000) (1 / 1000) default_risk_parameters = ret (Some sample_sizing)"
proof -
  have eqs: "compute_stop_distance 50000 49000 = 1000" "dquot 500 1000 = 1 / 2" "dmul (1 / 2) 1000 = 500"
    "dquot 500 100000 = 5 / 1000"
    by (simp_all add: compute_stop_distance_def dec_defs dec_simps)
  show ?thesis
    by (simp add: compute_position_sizing_def compute_raw_quantity_def sample_budget sample_quantity sample_cap
        sample_sizing_def eqs)
qed

lemma sample_caps:
  "cap_quantity_for_leverage (1 / 2) 50000 100000 0 (1 / 1000) 2 = ret (1 / 2)"
  "cap_quantity_for_margin (1 / 2) 50000 100000 2 (1 / 1000) = ret (1 / 2)"
  by (simp_all add: cap_quantity_for_leverage_def cap_quantity_for_margin_def dec_defs dec_simps)

lemma sample_grid: "grid_ok (1 / 1000) 1000"
  by (rule grid_okI [of _ 1 "- 3"]) (simp_all add: dec_prec_def power_int_def power3_eq_cube)

lemma sample_size_quantity:
  "size_quantity (sample_proposal i) sample_account sample_constraints [] default_risk_parameters 49000 =
   ret (Inr (sample_sizing, 1 / 2))"
proof -
  have notional: "dmul (1 / 2) 50000 = 25000" by (simp add: dec_defs dec_simps)
  have zero: "total_notional_usd [] = 0" by (simp add: total_notional_usd_def dsum_def)
  have lev: "max_leverage default_risk_parameters = 2" by (simp add: sample_defs)
  have sz: "sz_rounded_quantity sample_sizing = 1 / 2" "sz_stop_distance_usd sample_sizing = 1000"
    by (simp_all add: sample_sizing_def)
  show ?thesis
    by (simp add: size_quantity_def sample_constraints_def sample_account_def sample_proposal_def
        sample_position_sizing sample_budget sample_cap sample_caps notional zero lev sz)
qed

definition sample_decision :: risk_decision where
  "sample_decision =
     \<lparr>approved = True, rd_symbol = ''BTC'', requested_entry_price = 50000, requested_stop_price = 49000,
      raw_quantity = Some (1 / 2), rounded_quantity = Some (1 / 2), actual_trade_risk_usd = Some 500,
      actual_trade_risk_pct = Some (5 / 1000), rd_current_open_risk_usd = Some 0,
      projected_portfolio_risk_usd = Some 500, projected_portfolio_risk_pct = Some (5 / 1000),
      required_margin_usd = Some 12500, effective_leverage = Some (1 / 4),
      rd_reason_codes = [RC_RISK_APPROVED], rd_strategy_version = ''1.0.0'',
      rd_risk_specification_version = ''1.0.0'', rd_errors = []\<rparr>"

lemma sample_limits:
  "check_limits (sample_proposal i) sample_account [] default_risk_parameters 49000 sample_sizing (1 / 2) =
   ret sample_decision"
proof -
  have snap: "build_portfolio_snapshot 100000 [] 50000 (1 / 2) 1000 =
      \<lparr>pr_current_open_risk_usd = 0, pr_current_open_risk_pct = 0, pr_projected_portfolio_risk_usd = 500,
       pr_projected_portfolio_risk_pct = 5 / 1000, pr_total_notional_usd = 0,
       pr_projected_notional_usd = 25000, pr_effective_leverage = 1 / 4\<rparr>"
    by (simp add: build_portfolio_snapshot_def current_open_risk_usd_def total_notional_usd_def dsum_def
        Let_def dec_defs dec_simps)
  have eqs: "dmul (1 / 2) 50000 = 25000" "dmul (1 / 2) 1000 = 500" "dquot 25000 2 = 12500" "dquot 500 100000 = 5 / 1000"
    "dmul 100000 (1 / 50) = 2000"
    by (simp_all add: dec_defs dec_simps)
  show ?thesis
    by (simp add: check_limits_def sample_defs sample_sizing_def sample_decision_def snap eqs)
qed

lemma sample_approved:
  "risk_evaluate (sample_proposal i) sample_account sample_constraints [] [] {} None = ret sample_decision"
  by (simp add: risk_evaluate_def or_return_def sample_inputs sample_admission sample_size_quantity sample_limits)

lemma sample_decision_approved: "approved sample_decision"
  by (simp add: sample_decision_def)

section \<open>A backtest\<close>

text \<open>
  Two days of one symbol. The strategy signals an entry on both; the entry of the first day
  is filled at the open of the second, whose low takes out the stop.
\<close>

definition sample_day :: "int \<Rightarrow> decimal \<Rightarrow> candle" where
  "sample_day n low =
     \<lparr>c_symbol = ''BTC'', c_timeframe = DAILY, open_time = n * us_per_day,
      close_time = (n + 1) * us_per_day - us_per_second, c_open = 50000, c_high = 51000, c_low = low,
      c_close = 50000, c_volume = 10, is_closed = True\<rparr>"

definition sample_data :: historical_data_bundle where
  "sample_data =
     \<lparr>hd_daily = [(''BTC'', [sample_day 20000 49500, sample_day 20001 48000])], hd_weekly = [], hd_monthly = [],
      hd_funding = [], hd_warnings = []\<rparr>"

definition sample_config :: backtest_config where
  "sample_config =
     default_backtest_config
       \<lparr>cfg_symbols := [''BTC''], cfg_slippage_model := \<lparr>slippage_bps = 0\<rparr>,
        cfg_symbol_constraints := [(''BTC'', sample_constraints)]\<rparr>"

definition sample_evaluation :: "string \<Rightarrow> datetime \<Rightarrow> strategy_evaluation" where
  "sample_evaluation symbol t =
     (build_no_entry_evaluation symbol t default_strategy_parameters DQ_OK NO_ENTRY [RC_ENTRY_BREAKOUT_20D] []
        None None None None None (Some 1) (Some 400))
       \<lparr>selected_entry_type := Some BREAKOUT,
        ev_signal_intent := \<lparr>si_kind = LONG_ENTRY, si_entry_type = Some BREAKOUT, si_entry_price = Some 50000,
                             si_stop_initial = Some 49000, primary_reason_code = Some RC_ENTRY_BREAKOUT_20D\<rparr>\<rparr>"

definition sample_strategy :: strategy_fn where
  "sample_strategy daily weekly monthly t params = ret (sample_evaluation (s_symbol daily) t)"

definition sample_intent :: "datetime \<Rightarrow> pending_intent" where
  "sample_intent t =
     \<lparr>pi_client_intent_id = build_client_intent_id ''BTC'' STRATEGY_VERSION t BREAKOUT, pi_symbol = ''BTC'',
      pi_strategy_version = STRATEGY_VERSION, pi_entry_type = BREAKOUT,
      pi_strategy_reason_codes = [RC_ENTRY_BREAKOUT_20D], pi_signal_time = t, pi_order_time = t,
      pi_signal_close_price = 50000, pi_stop_price = 49000, pi_atr14 = 400,
      pi_strategy_evaluation = sample_evaluation ''BTC'' t\<rparr>"

lemma sample_intent_of: "intent_of_evaluation ''BTC'' t (sample_evaluation ''BTC'' t) = Some (sample_intent t)"
  by (simp add: intent_of_evaluation_def sample_evaluation_def sample_intent_def build_no_entry_evaluation_def)

lemma sample_daily:
  "get_default (hd_daily sample_data) s [] =
     (if s = ''BTC'' then [sample_day 20000 49500, sample_day 20001 48000] else [])"
  by (simp add: sample_data_def get_default_def)

lemma sample_day_times [simp]:
  "open_time (sample_day n l) = n * us_per_day" "close_time (sample_day n l) = (n + 1) * us_per_day - us_per_second"
  "c_open (sample_day n l) = 50000" "c_low (sample_day n l) = l" "c_close (sample_day n l) = 50000"
  "is_closed (sample_day n l)"
  by (simp_all add: sample_day_def)

lemma us_per_day_pos [simp]: "us_per_day \<noteq> 0" "0 < us_per_day"
  by (simp_all add: us_per_day_def us_per_second_def)

lemma sample_index:
  "candle_at (daily_index sample_data [''BTC'']) day s =
     (if s \<noteq> ''BTC'' then None
      else if day = 20001 * us_per_day then Some (sample_day 20001 48000)
      else if day = 20000 * us_per_day then Some (sample_day 20000 49500) else None)"
proof (cases "s = ''BTC''")
  case True
  then show ?thesis
    by (simp add: candle_at_def get_daily_index index_daily_find sample_daily)
qed (simp add: candle_at_def get_daily_index)

lemma sample_days:
  "candles_of_day (daily_index sample_data [''BTC'']) [''BTC''] (20000 * us_per_day) = [(''BTC'', sample_day 20000 49500)]"
  "candles_of_day (daily_index sample_data [''BTC'']) [''BTC''] (20001 * us_per_day) = [(''BTC'', sample_day 20001 48000)]"
  by (simp_all add: candles_of_day_collect sample_index)

lemma sample_config_fields:
  "cfg_symbols sample_config = [''BTC'']" "get_constraints sample_config ''BTC'' = ret sample_constraints"
  "slippage_bps (cfg_slippage_model sample_config) = 0" "funding_on (cfg_funding_model sample_config) = False"
  "strategy_params sample_config = default_strategy_parameters" "risk_params sample_config = default_risk_parameters"
  "entry_fee_rate (cfg_fee_model sample_config) = 1 / 2000" "exit_fee_rate (cfg_fee_model sample_config) = 1 / 2000"
  by (simp_all add: sample_config_def default_backtest_config_def get_constraints_def default_funding_model_def
      default_fee_model_def)

text \<open>The entry of the second day: the risk engine sees the sample proposal and account.\<close>

lemma sample_fill_prices:
  "compute_entry_fill_prices 50000 400 0 default_strategy_parameters (1 / 10) =
     ret \<lparr>ef_open_ref = 50000, ef_fill_price = 50000, ef_stop_initial = 49000, ef_slippage_cost = 0\<rparr>"
  by (simp add: compute_entry_fill_prices_def compute_initial_stop_def slippage_model_from_bps_def
      apply_entry_slippage_def opt_round_to_tick_def stops_round_to_tick_eq default_strategy_parameters_def
      compute_slippage_cost_def dec_defs dec_simps sample_stop)

lemma sample_entry_decision:
  "evaluate_entry_risk_decision risk_evaluate ''BTC'' 50000 49000 i 400 sample_constraints 100000 [] [] {} d prior
     default_risk_parameters MD_OK BOT_ACTIVE = ret sample_decision"
proof -
  have "entry_proposal ''BTC'' 50000 49000 i 400 MD_OK BOT_ACTIVE = sample_proposal i"
    by (simp add: entry_proposal_def sample_proposal_def)
  moreover have "build_account_state (build_portfolio_state 100000 [] [] 0 0 0 0) m l = sample_account" for m l
    by (simp add: build_account_state_def build_portfolio_state_def pf_equity_usd_def pf_unrealized_pnl_usd_def
        pf_used_margin_usd_def dsum_def dec_defs dec_simps sample_account_def)
  moreover have "risk_evaluate p a c ps os proc None = risk_evaluate p a c ps os proc (Some default_risk_parameters)"
    for p a c ps os proc by (simp add: risk_evaluate_def)
  ultimately show ?thesis
    using sample_approved [of i]
    by (simp add: evaluate_entry_risk_decision_def to_position_states_def to_open_orders_def)
qed

definition sample_trail :: trailing_stop_state where
  "sample_trail = \<lparr>ts_entry_price = 50000, ts_stop_initial = 49000, ts_highest_close = 50000,
     ts_trail_stop = 49000, ts_effective_stop = 49000\<rparr>"

definition sample_accounting :: entry_accounting where
  "sample_accounting =
     \<lparr>ea_quantity = 1 / 2, ea_notional = 25000, ea_fee = 25 / 2, ea_slippage_cost = 0,
      ea_margin_reserved = 12500, ea_initial_risk_usd = 500, ea_trail_state = sample_trail\<rparr>"

lemma sample_entry_accounting:
  "compute_entry_accounting 50000 50000 (1 / 2) 49000 (1 / 2000) 0 2 default_strategy_parameters (1 / 10) 400 =
   ret sample_accounting"
  by (simp add: compute_entry_accounting_def initialize_trailing_stop_def opt_round_to_tick_def stops_round_to_tick_eq
      default_strategy_parameters_def compute_fee_def compute_slippage_cost_def position_margin_def
      sample_accounting_def sample_trail_def sample_stop Let_def dec_defs dec_simps)

lemma sample_max_leverage: "max_leverage default_risk_parameters = 2"
  by (simp add: sample_defs)

text \<open>The first day queues the intent and records the equity.\<close>

definition sample_eval :: "int \<Rightarrow> datetime" where
  "sample_eval n = (n + 1) * us_per_day - us_per_second + seconds 5"

lemma sample_eval_time: "evaluation_time_for_daily (sample_day n l) = sample_eval n"
  by (simp add: evaluation_time_for_daily_def sample_eval_def)

definition sample_rt1 :: runtime where
  "sample_rt1 =
     record_equity (sample_eval 20000) [(''BTC'', 50000)]
       ((new_runtime sample_config)
          \<lparr>rt_evaluations := [sample_evaluation ''BTC'' (sample_eval 20000)],
           rt_pending_intents := [sample_intent (sample_eval 20000)]\<rparr>)"

lemma sample_new: "new_runtime sample_config =
   \<lparr>rt_cash = 100000, rt_positions = [], rt_pending_intents = [], rt_processed_intent_ids = {}, rt_intent_orders = [],
    rt_active_trades = [], rt_closed_trades = [], rt_evaluations = [], rt_rejections = [], rt_equity_curve = [],
    rt_total_fees = 0, rt_total_funding = 0, rt_total_slippage = 0, rt_realized_pnl = 0, rt_warnings = [],
    rt_trail_history = [], rt_peak_equity = 100000\<rparr>"
  by (simp add: new_runtime_def sample_config_def default_backtest_config_def)

lemma sample_first_day:
  "simulate_day sample_strategy risk_evaluate sample_config sample_data (daily_index sample_data [''BTC''])
     (new_runtime sample_config) (20000 * us_per_day) = ret sample_rt1"
  by (simp add: simulate_day_def sample_config_fields sample_days dict_values_def for_symbols_def
      fill_pending_at_open_def sample_new check_stop_exit_def strategy_and_queue_def sample_strategy_def
      build_candle_series_def sample_eval_time sample_intent_of update_trailing_def sample_rt1_def)

text \<open>The second day fills it, stops it out, and queues the next one.\<close>

definition sample_open :: runtime where
  "sample_open =
     open_position ''BTC'' (sample_day 20001 48000) (sample_intent (sample_eval 20000)) 50000 49000 (1 / 2)
       [RC_RISK_APPROVED] sample_accounting (sample_rt1\<lparr>rt_pending_intents := []\<rparr>)"

definition sample_stopped :: runtime where
  "sample_stopped = check_stop_exit sample_config ''BTC'' (sample_day 20001 48000) False sample_open"

definition sample_rt2 :: runtime where
  "sample_rt2 =
     record_equity (sample_eval 20001) [(''BTC'', 50000)]
       (sample_stopped
          \<lparr>rt_evaluations := rt_evaluations sample_stopped @ [sample_evaluation ''BTC'' (sample_eval 20001)],
           rt_pending_intents := [sample_intent (sample_eval 20001)]\<rparr>)"

lemma sample_rt1_fields:
  "rt_cash sample_rt1 = 100000" "rt_positions sample_rt1 = []" "rt_active_trades sample_rt1 = []"
  "rt_trail_history sample_rt1 = []" "rt_closed_trades sample_rt1 = []" "rt_processed_intent_ids sample_rt1 = {}"
  "rt_pending_intents sample_rt1 = [sample_intent (sample_eval 20000)]"
  by (simp_all add: sample_rt1_def record_equity_def sample_new Let_def)

lemma sample_intent_fields:
  "pi_symbol (sample_intent t) = ''BTC''" "pi_atr14 (sample_intent t) = 400"
  "pi_client_intent_id (sample_intent t) = build_client_intent_id ''BTC'' STRATEGY_VERSION t BREAKOUT"
  by (simp_all add: sample_intent_def)

lemma sample_open_fields:
  "rt_pending_intents sample_open = []"
  "rt_processed_intent_ids sample_open = {build_client_intent_id ''BTC'' STRATEGY_VERSION (sample_eval 20000) BREAKOUT}"
  "dict_get (rt_positions sample_open) ''BTC'' =
     Some \<lparr>pos_symbol = ''BTC'', pos_quantity = 1 / 2, pos_entry_price = 50000, pos_entry_time = 20001 * us_per_day,
           pos_initial_stop = 49000, pos_trail_stop = 49000, pos_effective_stop = 49000, pos_highest_close = 50000,
           pos_entry_atr14 = 400,
           pos_client_intent_id = build_client_intent_id ''BTC'' STRATEGY_VERSION (sample_eval 20000) BREAKOUT,
           pos_margin_reserved = 12500\<rparr>"
  by (simp_all add: sample_open_def open_position_def mark_terminal_intent_def sample_rt1_fields sample_intent_fields
      sample_accounting_def sample_trail_def build_simulated_position_from_entry_def Let_def)

lemma sample_no_gap: "check_stop_exit sample_config ''BTC'' (sample_day 20001 48000) True sample_open = sample_open"
  by (simp add: check_stop_exit_def sample_open_fields compute_gap_stop_at_open_def Let_def)

lemma sample_decision_fields:
  "approved sample_decision = True" "rounded_quantity sample_decision = Some (1 / 2)"
  "rd_reason_codes sample_decision = [RC_RISK_APPROVED]" "ea_fee sample_accounting = 25 / 2"
  "price_tick_size sample_constraints = 1 / 10"
  by (simp_all add: sample_decision_def sample_accounting_def sample_constraints_def)

lemma sample_fill:
  "fill_pending_at_open risk_evaluate sample_config ''BTC'' (sample_day 20001 48000) d prior sample_rt1 = ret sample_open"
  by (simp add: fill_pending_at_open_def sample_rt1_fields sample_intent_fields fill_intent_def sample_config_fields
      sample_fill_prices sample_entry_decision sample_decision_fields sample_entry_accounting
      sample_max_leverage sample_no_gap sample_open_def [symmetric])

lemma sample_exit:
  "compute_exit_accounting 49000 (1 / 2) 50000 0 (1 / 2000) =
     \<lparr>xa_fill_price = 49000, xa_fee = 49 / 4, xa_slippage_cost = 0, xa_gross_pnl = - 500,
      xa_net_wallet_delta = - (2049 / 4)\<rparr>"
proof -
  have eqs: "dquot 0 10000 = 0" "dsub 1 0 = 1" "dmul 49000 1 = 49000" "dmul 49000 (1 / 2) = 24500"
    "dmul 24500 (1 / 2000) = 49 / 4" "dsub 49000 49000 = 0" "dabs 0 = 0" "dmul 0 (1 / 2) = 0"
    "dsub 49000 50000 = - 1000" "dmul (- 1000) (1 / 2) = - 500" "dsub (- 500) (49 / 4) = - (2049 / 4)"
    by (simp_all add: dec_defs dec_simps)
  show ?thesis
    by (simp add: compute_exit_accounting_def slippage_model_from_bps_def apply_exit_slippage_def
        compute_fee_def compute_slippage_cost_def eqs)
qed

lemma sample_open_dicts:
  "\<exists>t. rt_active_trades sample_open = [(''BTC'', t)] \<and> bt_fees t = 25 / 2 \<and> bt_funding t = 0"
  "\<exists>p. rt_positions sample_open = [(''BTC'', p)]"
  "rt_closed_trades sample_open = []" "rt_evaluations sample_open = rt_evaluations sample_rt1"
  by (simp_all add: sample_open_def open_position_def mark_terminal_intent_def sample_rt1_fields
      sample_decision_fields Let_def)

lemma sample_stopped_fields:
  "rt_positions sample_stopped = []" "rt_pending_intents sample_stopped = []"
  "rt_evaluations sample_stopped = rt_evaluations sample_rt1"
  "rt_processed_intent_ids sample_stopped = {build_client_intent_id ''BTC'' STRATEGY_VERSION (sample_eval 20000) BREAKOUT}"
  "map bt_net_pnl (rt_closed_trades sample_stopped) = [Some (- (2099 / 4))]"
proof -
  obtain t where t: "rt_active_trades sample_open = [(''BTC'', t)]" "bt_fees t = 25 / 2" "bt_funding t = 0"
    using sample_open_dicts(1) by blast
  obtain p where p: "rt_positions sample_open = [(''BTC'', p)]" using sample_open_dicts(2) by blast
  have net: "dsub (dsub (- 500) (dadd (25 / 2) (49 / 4))) 0 = - (2099 / 4)"
    by (simp add: dec_defs dec_simps)
  have trigger: "compute_stop_trigger (sample_day 20001 48000) 49000 49000 49000 =
      Some \<lparr>st_exit_reference = 49000, st_exit_reason = STOP_TRAILING\<rparr>"
    by (simp add: compute_stop_trigger_def compute_gap_stop_at_open_def compute_intraday_stop_def)
  note simps = sample_stopped_def check_stop_exit_def sample_open_fields trigger sample_exit sample_config_fields
    sample_open_dicts(3,4) t close_trade_def Let_def net
  show "rt_positions sample_stopped = []" by (simp add: simps) (simp add: p)
  show "rt_pending_intents sample_stopped = []" "rt_evaluations sample_stopped = rt_evaluations sample_rt1"
    "rt_processed_intent_ids sample_stopped = {build_client_intent_id ''BTC'' STRATEGY_VERSION (sample_eval 20000) BREAKOUT}"
    "map bt_net_pnl (rt_closed_trades sample_stopped) = [Some (- (2099 / 4))]"
    by (simp_all add: simps)
qed

lemma sample_fresh_id:
  "build_client_intent_id ''BTC'' STRATEGY_VERSION (sample_eval 20001) BREAKOUT \<noteq>
   build_client_intent_id ''BTC'' STRATEGY_VERSION (sample_eval 20000) BREAKOUT"
proof
  assume eq: "build_client_intent_id ''BTC'' STRATEGY_VERSION (sample_eval 20001) BREAKOUT =
   build_client_intent_id ''BTC'' STRATEGY_VERSION (sample_eval 20000) BREAKOUT"
  have "printable (sample_eval 20001)" "printable (sample_eval 20000)"
    "sample_eval 20001 div us_per_second \<noteq> sample_eval 20000 div us_per_second"
    by (simp_all add: printable_def printable_day_def epoch_ordinal_def sample_eval_def seconds_def us_per_day_def us_per_second_def)
  with build_client_intent_id_inj [OF eq] show False by simp
qed

lemma sample_second_day:
  "simulate_day sample_strategy risk_evaluate sample_config sample_data (daily_index sample_data [''BTC''])
     sample_rt1 (20001 * us_per_day) = ret sample_rt2"
  by (simp add: simulate_day_def sample_config_fields sample_days dict_values_def for_symbols_def sample_fill
      sample_stopped_def [symmetric] strategy_and_queue_def sample_strategy_def sample_stopped_fields
      build_candle_series_def sample_eval_time sample_intent_of update_trailing_def sample_rt2_def sample_intent_fields
      sample_fresh_id)

lemma sample_run:
  "simulate_days sample_strategy risk_evaluate sample_config sample_data [20000 * us_per_day, 20001 * us_per_day] =
   ret sample_rt2"
  using sample_first_day sample_second_day by (simp add: simulate_days_def sample_config_fields)

lemma sample_rt2_trades: "map bt_net_pnl (rt_closed_trades sample_rt2) = [Some (- (2099 / 4))]"
  by (simp add: sample_rt2_def record_equity_def sample_stopped_fields Let_def)

definition sample_floats :: float_metrics where
  "sample_floats = \<lparr>fm_cagr = (\<lambda>_ _. None), fm_sharpe = (\<lambda>_. None), fm_sortino = (\<lambda>_. None)\<rparr>"

lemma sample_timeline: "build_timeline sample_data [''BTC''] = [20000 * us_per_day, 20001 * us_per_day]"
  by (simp add: build_timeline_def sample_daily us_per_day_def us_per_second_def)

lemma sample_backtest:
  "\<exists>res. backtest_run sample_strategy risk_evaluate sample_floats sample_data sample_config = ret res \<and>
     br_trades res = rt_closed_trades sample_rt2 @ dict_values (rt_active_trades sample_rt2)"
  by (simp add: backtest_run_def sample_config_fields sample_timeline sample_run Let_def)

section \<open>Strategy\<close>

text \<open>
  Two candles of each timeframe and parameters with short periods: a breakout on the
  second day, in an up-trend of the two higher timeframes.
\<close>

definition short_parameters :: strategy_parameters where
  "short_parameters =
     default_strategy_parameters
       \<lparr>monthly_ema_period := 2, weekly_ema_fast := 1, weekly_ema_slow := 2, daily_ema_period := 2,
        breakout_lookback := 1, atr_period := 1, volume_sma_period := 1\<rparr>"

definition bar :: "timeframe \<Rightarrow> datetime \<Rightarrow> decimal \<Rightarrow> decimal \<Rightarrow> decimal \<Rightarrow> decimal \<Rightarrow> candle" where
  "bar tf t op hi lo cl =
     \<lparr>c_symbol = ''BTC'', c_timeframe = tf, open_time = t, close_time = t + 1, c_open = op, c_high = hi, c_low = lo,
      c_close = cl, c_volume = 10, is_closed = True\<rparr>"

definition bars :: "timeframe \<Rightarrow> candle_series" where
  "bars tf = \<lparr>s_symbol = ''BTC'', s_timeframe = tf, candles = [bar tf 0 100 105 95 100, bar tf 1 100 120 100 120]\<rparr>"

lemma bar_fields [simp]:
  "c_symbol (bar tf t op hi lo cl) = ''BTC''" "c_timeframe (bar tf t op hi lo cl) = tf"
  "open_time (bar tf t op hi lo cl) = t" "close_time (bar tf t op hi lo cl) = t + 1"
  "c_open (bar tf t op hi lo cl) = op" "c_high (bar tf t op hi lo cl) = hi" "c_low (bar tf t op hi lo cl) = lo"
  "c_close (bar tf t op hi lo cl) = cl" "c_volume (bar tf t op hi lo cl) = 10" "is_closed (bar tf t op hi lo cl)"
  by (simp_all add: bar_def)

lemma bars_fields [simp]:
  "s_symbol (bars tf) = ''BTC''" "s_timeframe (bars tf) = tf"
  "candles (bars tf) = [bar tf 0 100 105 95 100, bar tf 1 100 120 100 120]"
  by (simp_all add: bars_def)

lemma bars_well_formed: "well_formed_series (bars tf) 2"
  by (auto simp: well_formed_series_def good_candle_def sane_candle_def float_is_finite_def)

lemma bars_validate:
  "\<exists>e. validate_candle_series (bars tf) 2 (Some tf) = (DQ_INSUFFICIENT_HISTORY, [e]) \<and> se_code e = RC_REJECT_WARMUP"
proof -
  have "validate_ohlc (bar tf t op hi lo cl) = None"
    if "0 < op" "0 < hi" "0 < lo" "0 < cl" "op \<le> hi" "lo \<le> op" "lo \<le> cl" "cl \<le> hi" "lo \<le> hi" "hi \<le> 1000" for t op hi lo cl
    using that by (simp add: validate_ohlc_def float_is_finite_def)
  then have "candles_loop (bars tf) 2 {} None [bar tf 0 100 105 95 100, bar tf 1 100 120 100 120] = []"
    by (simp add: candle_errors_def)
  then show ?thesis
    by (cases tf) (simp_all add: validate_candle_series_def min_candles_for_warmup_def default_strategy_parameters_def)
qed

lemma bars_series [simp]:
  "closes_of (bars tf) = [100, 120]" "highs_of (bars tf) = [105, 120]" "volumes_of (bars tf) = [10, 10]"
  by (simp_all add: closes_of_def highs_of_def volumes_of_def)

lemma short_fields [simp]:
  "monthly_ema_period short_parameters = 2" "weekly_ema_fast short_parameters = 1"
  "weekly_ema_slow short_parameters = 2" "daily_ema_period short_parameters = 2"
  "breakout_lookback short_parameters = 1" "atr_period short_parameters = 1"
  "volume_sma_period short_parameters = 1" "volume_ratio_min short_parameters = 1"
  "stop_initial_atr_mult short_parameters = 5 / 2"
  by (simp_all add: short_parameters_def default_strategy_parameters_def)

lemma bars_values:
  "compute_ema [100, 120] 2 = ret [None, Some 110]"
  "compute_ema [100, 120] (Suc 0) = ret [Some 100, Some 120]"
  "compute_wilder_atr [bar tf 0 100 105 95 100, bar tf 1 100 120 100 120] (Suc 0) = ret [None, Some 20]"
  "compute_volume_ratio [10, 10] (Suc 0) = ret [Some 1, Some 1]"
  "compute_high20 [105, 120] (Suc 0) = ret [None, Some 105]"
  by (simp_all add: compute_ema_def compute_wilder_atr_def compute_volume_ratio_def compute_volume_sma_def
      compute_high20_def volume_ratio_at_def py_max_def dsum_def Let_def
      upt_rec numeral_2_eq_2 dec_defs dec_simps)

definition bars_indicators :: indicator_snapshot where
  "bars_indicators =
     \<lparr>evaluation_index = 1, ema20_daily = Some 110, ema20_weekly = Some 120, ema50_weekly = Some 110,
      ema20_monthly = Some 110, atr14_daily = Some 20, volume_sma20 = None, i_volume_ratio = Some 1,
      i_high20 = Some 105, i_monthly_close = Some 120\<rparr>"

lemma bars_compute_indicators:
  "compute_indicators (bars DAILY) (bars WEEKLY) (bars MONTHLY) short_parameters = ret (bars_indicators, None)"
  by (simp add: compute_indicators_def last_index_def py_get_def bars_indicators_def bars_values)

lemma bars_stop: "dsub 120 (dmul (5 / 2) 20) = 70"
  by (simp add: dec_defs dec_simps)

lemma bars_decide:
  "\<exists>ev. decide_signal ''BTC'' 2 short_parameters errs (bar DAILY 1 100 120 100 120) (Some 100) bars_indicators None 20 = ret ev \<and>
     si_kind (ev_signal_intent ev) = LONG_ENTRY \<and> ev_errors ev = errs \<and> ev_data_quality ev = DQ_OK"
  by (simp add: decide_signal_def Let_def bars_stop bars_indicators_def evaluate_monthly_regime_def
      evaluate_weekly_trend_def evaluate_volume_ok_def evaluate_breakout_setup_def resolve_entry_priority_def
      default_entry_setup_def)

text \<open>
  The engine signals an entry although the validation of each series reported
  \<open>RC_REJECT_WARMUP\<close>: validation uses the default periods, the warm-up check the configured ones.
\<close>

lemma bars_signal:
  "\<exists>ev. strategy_evaluate (bars DAILY) (bars WEEKLY) (bars MONTHLY) 2 (Some short_parameters) = ret ev \<and>
     si_kind (ev_signal_intent ev) = LONG_ENTRY \<and> ev_data_quality ev = DQ_OK \<and>
     map se_code (ev_errors ev) = [RC_REJECT_WARMUP, RC_REJECT_WARMUP, RC_REJECT_WARMUP]"
proof -
  obtain e1 e2 e3 where v: "validate_candle_series (bars DAILY) 2 (Some DAILY) = (DQ_INSUFFICIENT_HISTORY, [e1])"
      "validate_candle_series (bars WEEKLY) 2 (Some WEEKLY) = (DQ_INSUFFICIENT_HISTORY, [e2])"
      "validate_candle_series (bars MONTHLY) 2 (Some MONTHLY) = (DQ_INSUFFICIENT_HISTORY, [e3])"
    and codes: "se_code e1 = RC_REJECT_WARMUP" "se_code e2 = RC_REJECT_WARMUP" "se_code e3 = RC_REJECT_WARMUP"
    using bars_validate by metis
  have warm: "check_warmup_complete (Suc (Suc 0)) (Suc (Suc 0)) (Suc (Suc 0)) (Some short_parameters)"
    by (simp add: check_warmup_complete_def min_candles_for_warmup_def short_parameters_def)
  have "strategy_evaluate (bars DAILY) (bars WEEKLY) (bars MONTHLY) 2 (Some short_parameters) =
      evaluate_series (bars DAILY) (bars WEEKLY) (bars MONTHLY) 2 short_parameters [e1, e2, e3]"
    by (simp add: strategy_evaluate_def v series_length_def warm Let_def)
  also have "\<dots> = decide_signal ''BTC'' 2 short_parameters [e1, e2, e3] (bar DAILY 1 100 120 100 120) (Some 100) bars_indicators None 20"
    by (simp add: evaluate_series_def last_index_def py_get_def bars_compute_indicators)
       (simp add: bars_indicators_def py_get_def)
  finally show ?thesis using bars_decide [of "[e1, e2, e3]"] codes by fastforce
qed

end
