(* ===== verification/Timeframes.thy ===== *)
theory Timeframes
  imports Strategy_Models
begin

text \<open>
  The boundaries of days, weeks and months in UTC (\<open>services/market_data/timeframes.py\<close>). The
  calendar functions of Python's \<open>datetime\<close> are those of theory \<open>Datetime\<close>; the constructor
  \<open>datetime(y, m, 1)\<close> is \<open>month_start\<close>. The lemmas relate the two directions: a time lies in exactly
  one week and one month, and the boundary functions never raise on the boundaries they compute.
\<close>

section \<open>Definitions\<close>

datatype market_timeframe = MT_DAILY | MT_WEEKLY | MT_MONTHLY

fun to_strategy_timeframe :: "market_timeframe \<Rightarrow> timeframe" where
  "to_strategy_timeframe MT_DAILY = DAILY"
| "to_strategy_timeframe MT_WEEKLY = WEEKLY"
| "to_strategy_timeframe MT_MONTHLY = MONTHLY"

text \<open>\<open>weekday()\<close>, the fields of a date, \<open>hour\<close>, and the first instant of a month.\<close>

definition ordinal_of :: "datetime \<Rightarrow> int" where
  "ordinal_of t = t div us_per_day + epoch_ordinal"

definition weekday :: "datetime \<Rightarrow> int" where
  "weekday t = (ordinal_of t + 6) mod 7"

definition ymd :: "datetime \<Rightarrow> int \<times> int \<times> int" where
  "ymd t = ord2ymd (ordinal_of t)"

definition hour_of :: "datetime \<Rightarrow> int" where
  "hour_of t = t mod us_per_day div (3600 * us_per_second)"

definition days_before_month :: "int \<Rightarrow> int \<Rightarrow> int" where
  "days_before_month y m = sum_list (take (nat (m - 1)) (month_lengths y))"

definition daily_open :: "datetime \<Rightarrow> datetime" where
  "daily_open t = t div us_per_day * us_per_day"

definition daily_close :: "datetime \<Rightarrow> datetime" where
  "daily_close t = daily_open t + seconds 86399"

definition weekly_open_containing :: "datetime \<Rightarrow> datetime" where
  "weekly_open_containing t = (let day = daily_open t in day - weekday day * us_per_day)"

definition weekly_close :: "datetime \<Rightarrow> datetime comp" where
  "weekly_close t =
     (if weekday t \<noteq> 0 then raise (ValueError ''weekly open_time must be Monday 00:00 UTC'')
      else ret (t + 6 * us_per_day + seconds 86399))"

definition monthly_open :: "int \<Rightarrow> int \<Rightarrow> datetime" where
  "monthly_open y m = (days_before_year y + days_before_month y m + 1 - epoch_ordinal) * us_per_day"

definition next_month :: "datetime \<Rightarrow> datetime" where
  "next_month t =
     (let (y, m, d) = ymd t in if m = 12 then monthly_open (y + 1) 1 else monthly_open y (m + 1))"

definition monthly_close :: "datetime \<Rightarrow> datetime comp" where
  "monthly_close t =
     (let (y, m, d) = ymd t
      in if d \<noteq> 1 \<or> hour_of t \<noteq> 0
         then raise (ValueError ''monthly open_time must be first day 00:00 UTC'')
         else ret (next_month t - seconds 1))"

definition expected_close_time :: "datetime \<Rightarrow> market_timeframe \<Rightarrow> datetime comp" where
  "expected_close_time t tf =
     (case tf of MT_DAILY \<Rightarrow> ret (daily_close t) | MT_WEEKLY \<Rightarrow> weekly_close t | MT_MONTHLY \<Rightarrow> monthly_close t)"

definition next_open_time :: "datetime \<Rightarrow> market_timeframe \<Rightarrow> datetime" where
  "next_open_time t tf =
     (case tf of MT_DAILY \<Rightarrow> t + us_per_day | MT_WEEKLY \<Rightarrow> t + 7 * us_per_day | MT_MONTHLY \<Rightarrow> next_month t)"

definition is_valid_timeframe_duration :: "datetime \<Rightarrow> datetime \<Rightarrow> market_timeframe \<Rightarrow> bool comp" where
  "is_valid_timeframe_duration op cl tf = cbind (expected_close_time op tf) (\<lambda>expected. ret (cl = expected))"

definition is_candle_closed :: "datetime \<Rightarrow> datetime \<Rightarrow> bool" where
  "is_candle_closed cl evaluation_time \<longleftrightarrow> cl \<le> evaluation_time"

section \<open>Days and weeks\<close>

lemmas us_defs = us_per_day_def us_per_second_def seconds_def

lemma us_per_day_gt0 [simp]: "0 < us_per_day" "us_per_day \<noteq> 0" "0 \<le> us_per_day"
  by (simp_all add: us_defs)

lemma daily_open_bounds: "daily_open t \<le> t" "t < daily_open t + us_per_day"
proof -
  have t: "t = t div us_per_day * us_per_day + t mod us_per_day" by simp
  have "0 \<le> t mod us_per_day" "t mod us_per_day < us_per_day" by simp_all
  with t show "daily_open t \<le> t" "t < daily_open t + us_per_day" unfolding daily_open_def by linarith+
qed

lemma daily_open_mult [simp]: "daily_open (k * us_per_day) = k * us_per_day"
  by (simp add: daily_open_def)

lemma daily_open_idem [simp]: "daily_open (daily_open t) = daily_open t"
  by (simp add: daily_open_def)

lemma daily_open_add: "daily_open (t + k * us_per_day) = daily_open t + k * us_per_day"
  "daily_open (t + us_per_day) = daily_open t + us_per_day"
  by (simp_all add: daily_open_def distrib_right)

lemma ordinal_of_mult [simp]: "ordinal_of (k * us_per_day) = k + epoch_ordinal"
  by (simp add: ordinal_of_def)

lemma ordinal_of_add [simp]: "ordinal_of (t + k * us_per_day) = ordinal_of t + k"
  by (simp add: ordinal_of_def)

lemma weekday_range: "0 \<le> weekday t" "weekday t \<le> 6"
  using pos_mod_bound [of 7 "ordinal_of t + 6"] by (simp_all add: weekday_def)

lemma weekday_week [simp]: "weekday (t + 7 * us_per_day) = weekday t"
proof -
  have "ordinal_of (t + 7 * us_per_day) + 6 = ordinal_of t + 6 + 7" by simp
  then show ?thesis by (simp only: weekday_def mod_add_self2)
qed

lemma weekly_open_monday [simp]: "weekday (weekly_open_containing t) = 0"
proof -
  define n where "n = t div us_per_day"
  define d where "d = n + epoch_ordinal + 6"
  have wd: "weekday (k * us_per_day) = (k + epoch_ordinal + 6) mod 7" for k by (simp add: weekday_def)
  have "weekly_open_containing t = n * us_per_day - d mod 7 * us_per_day"
    unfolding weekly_open_containing_def Let_def daily_open_def n_def [symmetric] wd d_def [symmetric] by (rule refl)
  then have "weekly_open_containing t = (n - d mod 7) * us_per_day" by (simp only: left_diff_distrib)
  then have "weekday (weekly_open_containing t) = (n - d mod 7 + epoch_ordinal + 6) mod 7" by (simp only: wd)
  also have "n - d mod 7 + epoch_ordinal + 6 = d - d mod 7" unfolding d_def by linarith
  also have "(d - d mod 7) mod 7 = 0" by (simp only: minus_mod_eq_mult_div mod_mult_self1_is_0)
  finally show ?thesis .
qed

lemma weekly_open_day: "daily_open (weekly_open_containing t) = weekly_open_containing t"
  by (simp add: weekly_open_containing_def daily_open_def Let_def left_diff_distrib [symmetric])

lemma weekly_open_bounds: "weekly_open_containing t \<le> t" "t < weekly_open_containing t + 7 * us_per_day"
proof -
  have "0 \<le> weekday (daily_open t) * us_per_day" "weekday (daily_open t) * us_per_day \<le> 6 * us_per_day"
    using weekday_range [of "daily_open t"] by (simp_all add: mult_right_mono mult_nonneg_nonneg)
  with daily_open_bounds [of t]
  show "weekly_open_containing t \<le> t" "t < weekly_open_containing t + 7 * us_per_day"
    unfolding weekly_open_containing_def Let_def by linarith+
qed

lemma weekly_close_monday: "weekday t = 0 \<Longrightarrow> weekly_close t = ret (t + 7 * us_per_day - seconds 1)"
  by (simp add: weekly_close_def us_defs)

section \<open>Months\<close>

lemma ymd_bounds:
  assumes "ymd t = (y, m, d)"
  shows "1 \<le> m" "m \<le> 12" "1 \<le> d" "d \<le> month_lengths y ! nat (m - 1)"
    and "ordinal_of t = days_before_year y + days_before_month y m + d"
proof -
  obtain d0 where yd: "year_and_day (ordinal_of t) = (y, d0)" and md: "month_of 1 (month_lengths y) d0 = (m, d)"
    using assms by (auto simp: ymd_def ord2ymd_def Let_def split: prod.splits)
  note yd' = year_and_day [OF yd]
  have "d0 < sum_list (month_lengths y)" using yd' by (auto simp: month_lengths_def split: if_splits)
  from month_of_bounds [OF md _ yd'(2) this] obtain i where i: "i < length (month_lengths y)"
    "m = 1 + int i" "d = d0 - sum_list (take i (month_lengths y)) + 1" "1 \<le> d" "d \<le> month_lengths y ! i"
    by (auto simp: month_lengths_def)
  then show "1 \<le> m" "m \<le> 12" "1 \<le> d" "d \<le> month_lengths y ! nat (m - 1)"
    by (simp_all add: month_lengths_def)
  show "ordinal_of t = days_before_year y + days_before_month y m + d"
    using i yd' by (simp add: days_before_month_def)
qed

lemma month_cases:
  fixes m :: int
  assumes "1 \<le> m" and "m \<le> 12"
  obtains "m = 1" | "m = 2" | "m = 3" | "m = 4" | "m = 5" | "m = 6" | "m = 7" | "m = 8" | "m = 9"
    | "m = 10" | "m = 11" | "m = 12"
proof -
  have "m \<in> {1, 2, 3, 4, 5, 6, 7, 8, 9, 10, 11, 12}" using assms by simp presburger
  then show ?thesis using that by blast
qed

definition year_length :: "int \<Rightarrow> int" where
  "year_length y = (if is_leap y then 366 else 365)"

lemma days_before_month_Suc:
  assumes "1 \<le> m" and "m < 12"
  shows "days_before_month y (m + 1) = days_before_month y m + month_lengths y ! nat (m - 1)"
proof -
  have m: "nat m = Suc (nat (m - 1))" "nat (m - 1) < length (month_lengths y)"
    using assms by (simp_all add: month_lengths_def)
  then show ?thesis by (simp add: days_before_month_def take_Suc_conv_app_nth)
qed

lemma days_before_month_Dec: "days_before_month y 12 + month_lengths y ! nat 11 = year_length y"
  by (simp add: days_before_month_def month_lengths_def year_length_def)

lemma div_diff_one: "0 < k \<Longrightarrow> (y::int) div k = (y - 1) div k + (if y mod k = 0 then 1 else 0)"
proof -
  assume k: "0 < k"
  let ?q = "y div k" and ?r = "y mod k"
  have y: "y = ?q * k + ?r" by simp
  have r: "0 \<le> ?r" "?r < k" using k by simp_all
  show ?thesis
  proof (cases "?r = 0")
    case True
    then have "y - 1 = (?q - 1) * k + (k - 1)" using y by (simp add: left_diff_distrib)
    then have "(y - 1) div k = ((?q - 1) * k + (k - 1)) div k" by (rule arg_cong)
    also have "\<dots> = ?q - 1" using k by (intro div_of_sum) simp_all
    finally have "(y - 1) div k = ?q - 1" .
    with True show ?thesis by simp
  next
    case False
    have "y - 1 = ?q * k + (?r - 1)" using y by simp
    then have "(y - 1) div k = (?q * k + (?r - 1)) div k" by (rule arg_cong)
    also have "\<dots> = ?q" using r False by (intro div_of_sum) simp_all
    finally have "(y - 1) div k = ?q" .
    with False show ?thesis by simp
  qed
qed

lemma days_before_next_year: "days_before_year (y + 1) = days_before_year y + year_length y"
proof -
  define p4 p100 p400 where "p4 \<longleftrightarrow> y mod 4 = 0" and "p100 \<longleftrightarrow> y mod 100 = 0" and "p400 \<longleftrightarrow> y mod 400 = 0"
  define a b c where "a = (y - 1) div 4" and "b = (y - 1) div 100" and "c = (y - 1) div 400"
  have imp: "p100 \<Longrightarrow> p4" "p400 \<Longrightarrow> p100"
    using dvd_trans [of 4 100 y] dvd_trans [of 100 400 y]
    unfolding p4_def p100_def p400_def mod_eq_0_iff_dvd by simp_all
  have quots: "y div 4 = a + (if p4 then 1 else 0)" "y div 100 = b + (if p100 then 1 else 0)"
      "y div 400 = c + (if p400 then 1 else 0)"
    unfolding a_def b_def c_def p4_def p100_def p400_def by (rule div_diff_one, simp only: zero_less_numeral)+
  have years: "days_before_year y = (y - 1) * 365 + a - b + c"
      "days_before_year (y + 1) = y * 365 + y div 4 - y div 100 + y div 400"
      "year_length y = (if p4 \<and> (\<not> p100 \<or> p400) then 366 else 365)"
    unfolding days_before_year_def Let_def a_def b_def c_def add_diff_cancel_right'
      year_length_def is_leap_def p4_def p100_def p400_def by (rule refl)+
  show ?thesis unfolding years quots using imp by (cases p400; cases p100; cases p4) simp_all
qed

lemma days_before_year_mono: "u \<le> v \<Longrightarrow> days_before_year u \<le> days_before_year v"
proof (induction "nat (v - u)" arbitrary: v)
  case (Suc n)
  then have "days_before_year u \<le> days_before_year (v - 1)" by simp
  also have "\<dots> \<le> days_before_year (v - 1 + 1)"
    unfolding days_before_next_year by (simp add: year_length_def)
  finally show ?case by simp
qed simp

text \<open>Day \<open>d\<close> of month \<open>m\<close> of year \<open>y\<close>, counted from the start of the calendar: the fields are determined.\<close>

definition valid_ymd :: "int \<Rightarrow> int \<Rightarrow> int \<Rightarrow> bool" where
  "valid_ymd y m d \<longleftrightarrow> 1 \<le> m \<and> m \<le> 12 \<and> 1 \<le> d \<and> d \<le> month_lengths y ! nat (m - 1)"

lemma month_length_nonneg: "1 \<le> m \<Longrightarrow> m \<le> 12 \<Longrightarrow> 28 \<le> month_lengths y ! nat (m - 1)"
  by (erule (1) month_cases) (simp_all add: month_lengths_def)

lemma days_before_month_mono:
  assumes "1 \<le> m" and "m \<le> m'" and "m' \<le> 12"
  shows "days_before_month y m \<le> days_before_month y m'"
  using assms
proof (induction "nat (m' - m)" arbitrary: m')
  case (Suc n)
  then have "days_before_month y m \<le> days_before_month y (m' - 1)" by simp
  also have "\<dots> \<le> days_before_month y (m' - 1 + 1)"
    using days_before_month_Suc [of "m' - 1" y] month_length_nonneg [of "m' - 1" y] Suc.hyps(2) Suc.prems by linarith
  finally show ?case by simp
qed simp

lemma day_of_year_bound:
  assumes "valid_ymd y m d"
  shows "1 \<le> days_before_month y m + d" and "days_before_month y m + d \<le> year_length y"
proof -
  have m: "1 \<le> m" "m \<le> 12" and d: "1 \<le> d" "d \<le> month_lengths y ! nat (m - 1)"
    using assms by (simp_all add: valid_ymd_def)
  have "days_before_month y 1 = 0" by (simp add: days_before_month_def)
  with days_before_month_mono [OF _ m(1,2), of y] d show "1 \<le> days_before_month y m + d" by simp
  show "days_before_month y m + d \<le> year_length y"
  proof (cases "m = 12")
    case True
    then show ?thesis using d days_before_month_Dec [of y] by simp
  next
    case False
    have "days_before_month y m + d \<le> days_before_month y (m + 1)"
      using days_before_month_Suc [of m y] m False d by simp
    also have "\<dots> \<le> days_before_month y 12" using m False by (intro days_before_month_mono) simp_all
    also have "\<dots> \<le> year_length y" using days_before_month_Dec [of y] month_length_nonneg [of 12 y] by simp
    finally show ?thesis .
  qed
qed

lemma same_year:
  assumes "valid_ymd y m d" and "valid_ymd y' m' d'"
    and "days_before_year y + days_before_month y m + d = days_before_year y' + days_before_month y' m' + d'"
  shows "y = y'"
proof -
  have "\<not> u < v" if "valid_ymd u a b" "valid_ymd v a' b'"
    "days_before_year u + days_before_month u a + b = days_before_year v + days_before_month v a' + b'" for u v a b a' b'
  proof
    assume "u < v"
    then have "days_before_year u + year_length u \<le> days_before_year v"
      using days_before_year_mono [of "u + 1" v] by (simp add: days_before_next_year)
    with that day_of_year_bound(2) [OF that(1)] day_of_year_bound(1) [OF that(2)] show False by linarith
  qed
  from this [OF assms] this [OF assms(2,1) assms(3) [symmetric]] show ?thesis by simp
qed

lemma same_month:
  assumes "valid_ymd y m d" and "valid_ymd y m' d'"
    and "days_before_month y m + d = days_before_month y m' + d'"
  shows "m = m'"
proof -
  have "\<not> a < a'" if "valid_ymd y a b" "valid_ymd y a' b'" "days_before_month y a + b = days_before_month y a' + b'" for a b a' b'
  proof
    assume "a < a'"
    have v: "1 \<le> a" "b \<le> month_lengths y ! nat (a - 1)" "a' \<le> 12" "1 \<le> b'"
      using that by (simp_all add: valid_ymd_def)
    have "days_before_month y a + month_lengths y ! nat (a - 1) = days_before_month y (a + 1)"
      using days_before_month_Suc [of a y] v \<open>a < a'\<close> by simp
    also have "\<dots> \<le> days_before_month y a'" using v \<open>a < a'\<close> by (intro days_before_month_mono) simp_all
    finally show False using that(3) v by linarith
  qed
  from this [OF assms] this [OF assms(2,1) assms(3) [symmetric]] show ?thesis by simp
qed

lemma ymd_of_ordinal:
  assumes "valid_ymd y m d" and "ordinal_of t = days_before_year y + days_before_month y m + d"
  shows "ymd t = (y, m, d)"
proof -
  obtain y' m' d' where t: "ymd t = (y', m', d')" by (cases "ymd t") auto
  note b = ymd_bounds [OF t]
  have v: "valid_ymd y' m' d'" using b by (simp add: valid_ymd_def)
  have eq: "days_before_year y + days_before_month y m + d = days_before_year y' + days_before_month y' m' + d'"
    using assms(2) b(5) by simp
  have y: "y = y'" by (rule same_year [OF assms(1) v eq])
  with assms(1) v eq have "m = m'" by (intro same_month [of y m d m' d']) auto
  with y eq t show ?thesis by simp
qed

lemma monthly_open_ymd:
  assumes "1 \<le> m" and "m \<le> 12"
  shows "ymd (monthly_open y m) = (y, m, 1)"
  using assms month_length_nonneg [OF assms, of y]
  by (intro ymd_of_ordinal) (simp_all add: valid_ymd_def monthly_open_def)

lemma monthly_open_hour [simp]: "hour_of (monthly_open y m) = 0"
  by (simp add: hour_of_def monthly_open_def)

lemma monthly_open_day [simp]: "daily_open (monthly_open y m) = monthly_open y m"
  by (simp add: monthly_open_def)

text \<open>The month of a time: its start is not after the time, the next one is.\<close>

definition month_start :: "datetime \<Rightarrow> datetime" where
  "month_start t = (let (y, m, d) = ymd t in monthly_open y m)"

lemma next_month_eq:
  assumes "ymd t = (y, m, d)"
  shows "next_month t = monthly_open y m + month_lengths y ! nat (m - 1) * us_per_day"
proof (cases "m = 12")
  case True
  have "days_before_month (y + 1) 1 = 0" by (simp add: days_before_month_def)
  with True show ?thesis
    using days_before_month_Dec [of y] days_before_next_year [of y]
    by (simp add: next_month_def assms monthly_open_def left_diff_distrib distrib_right [symmetric])
next
  case False
  then show ?thesis
    using ymd_bounds [OF assms] days_before_month_Suc [of m y]
    by (simp add: next_month_def assms monthly_open_def distrib_right [symmetric] algebra_simps)
qed

lemma month_bounds: "month_start t \<le> t" "t < next_month t"
proof -
  obtain y m d where t: "ymd t = (y, m, d)" by (cases "ymd t") auto
  note b = ymd_bounds [OF t]
  have day: "daily_open t = (ordinal_of t - epoch_ordinal) * us_per_day"
    by (simp add: daily_open_def ordinal_of_def)
  have start: "month_start t = daily_open t - (d - 1) * us_per_day"
    unfolding day using b(5) by (simp add: month_start_def t monthly_open_def algebra_simps)
  have "0 \<le> (d - 1) * us_per_day" using b(3) by (intro mult_nonneg_nonneg) simp_all
  with start daily_open_bounds [of t] show "month_start t \<le> t" by linarith
  have "next_month t = month_start t + month_lengths y ! nat (m - 1) * us_per_day"
    by (simp add: next_month_eq [OF t] month_start_def t)
  then have nx: "next_month t = daily_open t + (month_lengths y ! nat (m - 1) - d + 1) * us_per_day"
    by (simp add: start algebra_simps)
  have "1 * us_per_day \<le> (month_lengths y ! nat (m - 1) - d + 1) * us_per_day"
    using b(4) by (intro mult_right_mono) simp_all
  with nx daily_open_bounds [of t] show "t < next_month t" by linarith
qed

lemma next_month_is_open:
  obtains y m where "next_month t = monthly_open y m" and "1 \<le> m" and "m \<le> 12"
proof -
  obtain y m d where t: "ymd t = (y, m, d)" by (cases "ymd t") auto
  with ymd_bounds [OF t] show ?thesis
    by (cases "m = 12") (auto simp: next_month_def intro: that)
qed

lemma monthly_close_open:
  assumes "1 \<le> m" and "m \<le> 12"
  shows "monthly_close (monthly_open y m) = ret (next_month (monthly_open y m) - seconds 1)"
  using monthly_open_ymd [OF assms, of y] by (simp add: monthly_close_def)

lemma next_open_time_gt: "t < next_open_time t tf"
  using month_bounds(2) [of t] by (cases tf) (simp_all add: next_open_time_def)

section \<open>Aligned opens\<close>

text \<open>
  The opens a timeframe can have. On them the close is one second before the next open, and the
  next open is aligned again.
\<close>

definition aligned :: "market_timeframe \<Rightarrow> datetime \<Rightarrow> bool" where
  "aligned tf t \<longleftrightarrow> daily_open t = t \<and>
     (case tf of MT_DAILY \<Rightarrow> True | MT_WEEKLY \<Rightarrow> weekday t = 0 | MT_MONTHLY \<Rightarrow> month_start t = t)"

lemma aligned_next: "aligned tf t \<Longrightarrow> aligned tf (next_open_time t tf)"
proof (cases tf)
  case MT_MONTHLY
  obtain y m where n: "next_month t = monthly_open y m" "1 \<le> m" "m \<le> 12" by (rule next_month_is_open)
  then show ?thesis
    using MT_MONTHLY monthly_open_ymd [OF n(2,3), of y] by (simp add: aligned_def next_open_time_def month_start_def)
qed (auto simp: aligned_def next_open_time_def daily_open_add)

lemma expected_close_aligned:
  assumes "aligned tf t"
  shows "expected_close_time t tf = ret (next_open_time t tf - seconds 1)"
proof (cases tf)
  case MT_DAILY
  with assms show ?thesis by (simp add: aligned_def expected_close_time_def next_open_time_def daily_close_def us_defs)
next
  case MT_WEEKLY
  with assms show ?thesis by (simp add: aligned_def expected_close_time_def next_open_time_def weekly_close_monday)
next
  case MT_MONTHLY
  obtain y m d where t: "ymd t = (y, m, d)" by (cases "ymd t") auto
  with assms MT_MONTHLY have "t = monthly_open y m" by (simp add: aligned_def month_start_def)
  with ymd_bounds [OF t] monthly_close_open [of m y] MT_MONTHLY show ?thesis
    by (simp add: expected_close_time_def next_open_time_def)
qed

text \<open>There is no aligned open between one and the next.\<close>

lemma aligned_succ:
  assumes "aligned tf c" and "aligned tf t" and "c < t"
  shows "next_open_time c tf \<le> t"
proof -
  define a where "a = c div us_per_day"
  define b where "b = t div us_per_day"
  have c: "c = a * us_per_day" and t: "t = b * us_per_day"
    using assms(1,2) by (simp_all add: aligned_def daily_open_def a_def b_def)
  have ab: "a < b" using assms(3) by (simp add: c t mult_less_cancel_right)
  show ?thesis
  proof (cases tf)
    case MT_DAILY
    have "(a + 1) * us_per_day \<le> b * us_per_day" using ab by (intro mult_right_mono) simp_all
    with MT_DAILY show ?thesis by (simp add: next_open_time_def c t distrib_right)
  next
    case MT_WEEKLY
    have "(a + epoch_ordinal + 6) mod 7 = (b + epoch_ordinal + 6) mod 7"
      using assms(1,2) MT_WEEKLY by (simp add: aligned_def weekday_def c t)
    then have "7 dvd b - a" by (simp add: mod_eq_dvd_iff dvd_diff_commute)
    with ab have "a + 7 \<le> b" using zdvd_imp_le [of 7 "b - a"] by linarith
    then have "(a + 7) * us_per_day \<le> b * us_per_day" by (intro mult_right_mono) simp_all
    with MT_WEEKLY show ?thesis by (simp add: next_open_time_def c t distrib_right)
  next
    case MT_MONTHLY
    obtain y m d where ymd: "ymd c = (y, m, d)" by (cases "ymd c") auto
    note bounds = ymd_bounds [OF ymd]
    have start: "c = monthly_open y m" using assms(1) MT_MONTHLY by (simp add: aligned_def month_start_def ymd)
    then have "d = 1" using ymd monthly_open_ymd [OF bounds(1,2), of y] by simp
    have "next_month c \<le> t"
    proof (rule ccontr)
      assume "\<not> next_month c \<le> t"
      then have "b * us_per_day < (a + month_lengths y ! nat (m - 1)) * us_per_day"
        using next_month_eq [OF ymd] start by (simp add: c [symmetric] t [symmetric] distrib_right)
      then have "b < a + month_lengths y ! nat (m - 1)" by (simp add: mult_less_cancel_right)
      moreover have "ordinal_of t = ordinal_of c + (b - a)" by (simp add: c t)
      ultimately have "ymd t = (y, m, b - a + 1)"
        using ab bounds \<open>d = 1\<close> by (intro ymd_of_ordinal) (simp_all add: valid_ymd_def)
      then have "month_start t = c" by (simp add: month_start_def start)
      with assms(2,3) MT_MONTHLY show False by (simp add: aligned_def)
    qed
    with MT_MONTHLY show ?thesis by (simp add: next_open_time_def)
  qed
qed

end
