(* ===== verification/Market_Models.thy ===== *)
theory Market_Models
  imports Timeframes Py_Dict
begin

text \<open>
  The data of the market data service (\<open>services/market_data/models.py\<close>), the mapping of provider
  symbols (\<open>symbols.py\<close>), the normalisation of provider candles (\<open>normalize.py\<close>), the closed-candle
  filter (\<open>closed.py\<close>) and staleness (\<open>stale.py\<close>). Strings are ASCII; every decimal is finite, as the
  pydantic models refuse NaN and infinities.
\<close>

section \<open>Data\<close>

datatype market_symbol = BTC | ETH | SOL

fun market_symbol_value :: "market_symbol \<Rightarrow> string" where
  "market_symbol_value BTC = ''BTC''"
| "market_symbol_value ETH = ''ETH''"
| "market_symbol_value SOL = ''SOL''"

datatype md_quality_status = Q_VALID | Q_STALE | Q_INCOMPLETE | Q_INVALID | Q_DISCONNECTED

datatype md_reason_code =
    MD_VALID
  | MD_STALE
  | MD_INCOMPLETE
  | MD_INVALID
  | MD_DISCONNECTED
  | MD_DUPLICATE_IDENTICAL
  | MD_DUPLICATE_CONFLICT
  | MD_GAP_DETECTED
  | MD_BACKFILL_FAILED
  | MD_OPEN_CANDLE_EXCLUDED
  | MD_FUTURE_CANDLE
  | MD_INVALID_OHLC
  | MD_INVALID_VOLUME
  | MD_INVALID_TIMEFRAME
  | MD_UNKNOWN_SYMBOL

record candle_key =
  ck_symbol :: market_symbol
  ck_timeframe :: market_timeframe
  ck_open_time :: datetime

record raw_candle =
  rc_provider_symbol :: string
  rc_timeframe :: market_timeframe
  rc_open_time :: datetime
  rc_close_time :: datetime
  rc_open :: decimal
  rc_high :: decimal
  rc_low :: decimal
  rc_close :: decimal
  rc_volume :: decimal
  rc_is_closed :: bool

record normalized_candle =
  nc_symbol :: market_symbol
  nc_timeframe :: market_timeframe
  nc_open_time :: datetime
  nc_close_time :: datetime
  nc_open :: decimal
  nc_high :: decimal
  nc_low :: decimal
  nc_close :: decimal
  nc_volume :: decimal
  nc_is_closed :: bool

definition nc_key :: "normalized_candle \<Rightarrow> candle_key" where
  "nc_key c = \<lparr>ck_symbol = nc_symbol c, ck_timeframe = nc_timeframe c, ck_open_time = nc_open_time c\<rparr>"

definition to_strategy_candle :: "normalized_candle \<Rightarrow> candle" where
  "to_strategy_candle c =
     \<lparr>c_symbol = market_symbol_value (nc_symbol c), c_timeframe = to_strategy_timeframe (nc_timeframe c),
      open_time = nc_open_time c, close_time = nc_close_time c, c_open = nc_open c, c_high = nc_high c,
      c_low = nc_low c, c_close = nc_close c, c_volume = nc_volume c, is_closed = nc_is_closed c\<rparr>"

record candle_gap =
  cg_symbol :: market_symbol
  cg_timeframe :: market_timeframe
  cg_missing_open_time :: datetime
  cg_expected_close_time :: datetime

record candle_conflict =
  cc_key :: candle_key
  cc_existing :: normalized_candle
  cc_incoming :: normalized_candle

record quality_report =
  qr_status :: md_quality_status
  qr_reason_codes :: "md_reason_code list"
  qr_gaps :: "candle_gap list"
  qr_conflicts :: "candle_conflict list"
  qr_missing_ranges :: "(datetime \<times> datetime) list"
  qr_last_known_candle :: "normalized_candle option"
  qr_expected_next_open :: "datetime option"
  qr_evaluation_time :: datetime
  qr_messages :: "string list"

definition report_is_valid :: "quality_report \<Rightarrow> bool" where
  "report_is_valid r \<longleftrightarrow> qr_status r = Q_VALID"

record strategy_data_bundle =
  sb_symbol :: market_symbol
  sb_evaluation_time :: datetime
  sb_daily :: candle_series
  sb_weekly :: candle_series
  sb_monthly :: candle_series
  sb_report :: quality_report

definition is_usable :: "strategy_data_bundle \<Rightarrow> bool" where
  "is_usable b \<longleftrightarrow> report_is_valid (sb_report b)"

text \<open>\<open>tuple(dict.fromkeys(xs))\<close>: without repetitions, in the order of first occurrence.\<close>

definition unique :: "'a list \<Rightarrow> 'a list" where
  "unique xs = rev (remdups (rev xs))"

lemma set_unique [simp]: "set (unique xs) = set xs"
  by (simp add: unique_def)

lemma distinct_unique [simp]: "distinct (unique xs)"
  by (simp add: unique_def)

lemma unique_Nil [simp]: "unique xs = [] \<longleftrightarrow> xs = []"
  by (simp add: unique_def)

section \<open>Symbols\<close>

definition PROVIDER_TO_INTERNAL :: "(string, market_symbol) dict" where
  "PROVIDER_TO_INTERNAL =
     [(''BTC'', BTC), (''ETH'', ETH), (''SOL'', SOL), (''BTC-USD'', BTC), (''ETH-USD'', ETH), (''SOL-USD'', SOL),
      (''BTCUSDT'', BTC), (''ETHUSDT'', ETH), (''SOLUSDT'', SOL)]"

definition is_space :: "char \<Rightarrow> bool" where
  "is_space c \<longleftrightarrow> of_char c \<in> {9::nat, 10, 11, 12, 13, 28, 29, 30, 31, 32}"

definition strip :: "string \<Rightarrow> string" where
  "strip s = rev (dropWhile is_space (rev (dropWhile is_space s)))"

definition upper_char :: "char \<Rightarrow> char" where
  "upper_char c = (let n = of_char c :: nat in if 97 \<le> n \<and> n \<le> 122 then char_of (n - 32) else c)"

definition upper :: "string \<Rightarrow> string" where
  "upper s = map upper_char s"

text \<open>
  The second test of the source repeats three keys of the dictionary. The quotation of the message is
  that of a string without quotes or control characters.
\<close>

definition resolve_internal_symbol :: "string \<Rightarrow> market_symbol comp" where
  "resolve_internal_symbol provider_symbol =
     (let normalized = upper (strip provider_symbol)
      in case dict_get PROVIDER_TO_INTERNAL normalized of
           Some s \<Rightarrow> ret s
         | None \<Rightarrow>
             (case find (\<lambda>s. market_symbol_value s = normalized) [BTC, ETH, SOL] of
                Some s \<Rightarrow> ret s
              | None \<Rightarrow> raise (ValueError (''Unknown provider symbol: '' @ [CHR 39] @ provider_symbol @ [CHR 39] @
                                            '' (code=MD_UNKNOWN_SYMBOL)''))))"

definition to_provider_symbol :: "market_symbol \<Rightarrow> string \<Rightarrow> string comp" where
  "to_provider_symbol s provider =
     (if provider = ''hyperliquid'' then ret (market_symbol_value s)
      else raise (ValueError (''Unsupported provider: '' @ provider)))"

section \<open>Closed candles, staleness, normalisation\<close>

definition filter_closed_candles :: "normalized_candle list \<Rightarrow> datetime \<Rightarrow> normalized_candle list" where
  "filter_closed_candles cs evaluation_time = filter (\<lambda>c. is_candle_closed (nc_close_time c) evaluation_time) cs"

definition mark_closed_state :: "normalized_candle \<Rightarrow> datetime \<Rightarrow> normalized_candle" where
  "mark_closed_state c evaluation_time =
     (let closed_now = is_candle_closed (nc_close_time c) evaluation_time
      in if nc_is_closed c = closed_now then c else c\<lparr>nc_is_closed := closed_now\<rparr>)"

definition is_candle_data_stale :: "normalized_candle option \<Rightarrow> datetime \<Rightarrow> bool comp" where
  "is_candle_data_stale last_candle evaluation_time =
     (case last_candle of
        None \<Rightarrow> ret True
      | Some c \<Rightarrow>
          let next_open = next_open_time (nc_open_time c) (nc_timeframe c)
          in cbind (expected_close_time next_open (nc_timeframe c)) (\<lambda>expected_next_close.
             if \<not> is_candle_closed expected_next_close evaluation_time then ret False
             else ret (nc_open_time c < next_open)))"

definition canonical_time_bounds :: "raw_candle \<Rightarrow> (datetime \<times> datetime) comp" where
  "canonical_time_bounds raw =
     (let op = rc_open_time raw
      in case rc_timeframe raw of
           MT_DAILY \<Rightarrow> (let canonical_open = daily_open op in ret (canonical_open, daily_close canonical_open))
         | MT_WEEKLY \<Rightarrow>
             (let canonical_open = weekly_open_containing op
              in cbind (weekly_close canonical_open) (\<lambda>cl. ret (canonical_open, cl)))
         | MT_MONTHLY \<Rightarrow>
             (let (y, m, d) = ymd op; canonical_open = monthly_open y m
              in cbind (monthly_close canonical_open) (\<lambda>cl. ret (canonical_open, cl))))"

definition normalize_raw_candle :: "raw_candle \<Rightarrow> datetime \<Rightarrow> normalized_candle comp" where
  "normalize_raw_candle raw evaluation_time =
     cbind (resolve_internal_symbol (rc_provider_symbol raw)) (\<lambda>symbol.
     cbind (canonical_time_bounds raw) (\<lambda>(op, cl).
     ret \<lparr>nc_symbol = symbol, nc_timeframe = rc_timeframe raw, nc_open_time = op, nc_close_time = cl,
          nc_open = rc_open raw, nc_high = rc_high raw, nc_low = rc_low raw, nc_close = rc_close raw,
          nc_volume = rc_volume raw, nc_is_closed = (rc_is_closed raw \<and> is_candle_closed cl evaluation_time)\<rparr>))"

definition normalize_batch :: "raw_candle list \<Rightarrow> datetime \<Rightarrow> market_symbol option \<Rightarrow> normalized_candle list comp" where
  "normalize_batch raws evaluation_time expected_symbol =
     cbind (cmapM (\<lambda>r. normalize_raw_candle r evaluation_time) raws) (\<lambda>normalized.
     case expected_symbol of
       None \<Rightarrow> ret normalized
     | Some s \<Rightarrow>
         (case find (\<lambda>c. nc_symbol c \<noteq> s) normalized of
            None \<Rightarrow> ret normalized
          | Some c \<Rightarrow> raise (ValueError (''Expected symbol '' @ market_symbol_value s @ '', got '' @
                                        market_symbol_value (nc_symbol c)))))"

section \<open>Lemmas\<close>

text \<open>The bounds of a normalised candle are those of the bucket its open falls in.\<close>

lemma canonical_bounds:
  "\<exists>op. canonical_time_bounds raw = ret (op, next_open_time op (rc_timeframe raw) - seconds 1) \<and>
     aligned (rc_timeframe raw) op \<and> op \<le> rc_open_time raw \<and>
     rc_open_time raw < next_open_time op (rc_timeframe raw)"
proof (cases "rc_timeframe raw")
  case MT_DAILY
  then show ?thesis
    using daily_open_bounds [of "rc_open_time raw"]
    by (simp add: canonical_time_bounds_def aligned_def next_open_time_def daily_close_def us_defs Let_def)
next
  case MT_WEEKLY
  then show ?thesis
    using weekly_open_bounds [of "rc_open_time raw"] weekly_open_day [of "rc_open_time raw"]
    by (simp add: canonical_time_bounds_def aligned_def next_open_time_def weekly_close_monday Let_def)
next
  case MT_MONTHLY
  obtain y m d where t: "ymd (rc_open_time raw) = (y, m, d)" by (cases "ymd (rc_open_time raw)") auto
  note b = ymd_bounds [OF t]
  have "month_start (rc_open_time raw) = monthly_open y m" by (simp add: month_start_def t)
  moreover have "next_month (monthly_open y m) = next_month (rc_open_time raw)"
    using next_month_eq [OF t] next_month_eq [OF monthly_open_ymd [OF b(1,2)]] by simp
  ultimately show ?thesis
    using MT_MONTHLY month_bounds [of "rc_open_time raw"] monthly_close_open [OF b(1,2), of y] monthly_open_ymd [OF b(1,2), of y]
    by (simp add: canonical_time_bounds_def t aligned_def next_open_time_def month_start_def Let_def)
qed

lemma normalize_returns_iff:
  "(\<exists>c. normalize_raw_candle raw et = ret c) \<longleftrightarrow> (\<exists>s. resolve_internal_symbol (rc_provider_symbol raw) = ret s)"
  using canonical_bounds [of raw] by (auto simp: normalize_raw_candle_def cbind_eq_ret)

end
