(* ===== verification/Market_Validation.thy ===== *)
theory Market_Validation
  imports Market_Models
begin

text \<open>
  Validation of candles (\<open>services/market_data/validation.py\<close>) and the detection of gaps
  (\<open>services/market_data/gaps.py\<close>). The duration check raises for a weekly or monthly candle that
  does not open on a boundary, so the checks that use it are computations.
\<close>

section \<open>Definitions\<close>

text \<open>Every decimal of the model is finite; the tests of the source are kept.\<close>

definition is_finite_decimal :: "decimal \<Rightarrow> bool" where
  "is_finite_decimal v = True"

definition validate_raw_candle :: "raw_candle \<Rightarrow> md_reason_code list" where
  "validate_raw_candle raw =
     (if \<not> list_all is_finite_decimal [rc_open raw, rc_high raw, rc_low raw, rc_close raw]
      then [MD_INVALID_OHLC]
      else if \<not> is_finite_decimal (rc_volume raw) then [MD_INVALID_VOLUME]
      else if rc_volume raw < 0 then [MD_INVALID_VOLUME] else [])"

definition validate_candle_structure :: "normalized_candle \<Rightarrow> md_reason_code list comp" where
  "validate_candle_structure c =
     (let o' = nc_open c; h = nc_high c; low = nc_low c; cl = nc_close c;
          unknown = (if market_symbol_value (nc_symbol c) \<notin> market_symbol_value ` {BTC, ETH, SOL}
                     then [MD_UNKNOWN_SYMBOL] else [])
      in if \<not> list_all is_finite_decimal [o', h, low, cl] then ret (unique (unknown @ [MD_INVALID_OHLC]))
         else if \<not> is_finite_decimal (nc_volume c) then ret (unique (unknown @ [MD_INVALID_VOLUME]))
         else
         cbind (is_valid_timeframe_duration (nc_open_time c) (nc_close_time c) (nc_timeframe c)) (\<lambda>duration_ok.
         ret (unique (unknown @
           (if o' \<le> 0 \<or> h \<le> 0 \<or> low \<le> 0 \<or> cl \<le> 0 then [MD_INVALID_OHLC] else []) @
           (if nc_volume c < 0 then [MD_INVALID_VOLUME] else []) @
           (if h < o' \<or> h < cl \<or> h < low then [MD_INVALID_OHLC] else []) @
           (if o' < low \<or> cl < low \<or> h < low then [MD_INVALID_OHLC] else []) @
           (if nc_close_time c \<le> nc_open_time c then [MD_INVALID_TIMEFRAME] else []) @
           (if \<not> duration_ok then [MD_INVALID_TIMEFRAME] else [])))))"

definition validate_single_candle :: "normalized_candle \<Rightarrow> datetime \<Rightarrow> md_reason_code list comp" where
  "validate_single_candle c evaluation_time =
     cbind (validate_candle_structure c) (\<lambda>codes.
     ret (unique (codes @
       (if \<not> is_candle_closed (nc_close_time c) evaluation_time
        then (if evaluation_time < nc_close_time c then [MD_FUTURE_CANDLE] else [MD_OPEN_CANDLE_EXCLUDED])
        else []))))"

text \<open>The comparison of all fields.\<close>

definition candles_equal :: "normalized_candle \<Rightarrow> normalized_candle \<Rightarrow> bool" where
  "candles_equal a b \<longleftrightarrow>
     nc_symbol a = nc_symbol b \<and> nc_timeframe a = nc_timeframe b \<and> nc_open_time a = nc_open_time b \<and>
     nc_close_time a = nc_close_time b \<and> nc_open a = nc_open b \<and> nc_high a = nc_high b \<and>
     nc_low a = nc_low b \<and> nc_close a = nc_close b \<and> nc_volume a = nc_volume b \<and>
     nc_is_closed a = nc_is_closed b"

definition sort_candles :: "normalized_candle list \<Rightarrow> normalized_candle list" where
  "sort_candles cs = sort_key nc_open_time cs"

fun conflicts_loop ::
  "market_symbol \<Rightarrow> market_timeframe \<Rightarrow> (candle_key, normalized_candle) dict \<Rightarrow> normalized_candle list \<Rightarrow>
   candle_conflict list"
where
  "conflicts_loop symbol tf by_key [] = []"
| "conflicts_loop symbol tf by_key (c # cs) =
     (if nc_symbol c \<noteq> symbol \<or> nc_timeframe c \<noteq> tf then conflicts_loop symbol tf by_key cs
      else case dict_get by_key (nc_key c) of
             Some existing \<Rightarrow>
               if \<not> candles_equal existing c
               then \<lparr>cc_key = nc_key c, cc_existing = existing, cc_incoming = c\<rparr>
                    # conflicts_loop symbol tf by_key cs
               else conflicts_loop symbol tf (dict_put (nc_key c) c by_key) cs
           | None \<Rightarrow> conflicts_loop symbol tf (dict_put (nc_key c) c by_key) cs)"

definition detect_conflicts ::
  "normalized_candle list \<Rightarrow> market_symbol \<Rightarrow> market_timeframe \<Rightarrow> candle_conflict list" where
  "detect_conflicts cs symbol tf = conflicts_loop symbol tf [] (sort_candles cs)"

text \<open>
  The loop of \<open>validate_series\<close>: reason codes and messages in order; \<open>last\<close> is the previous candle,
  whose open is \<open>last_open\<close>.
\<close>

fun series_loop ::
  "market_symbol \<Rightarrow> market_timeframe \<Rightarrow> datetime \<Rightarrow> datetime set \<Rightarrow> normalized_candle option \<Rightarrow>
   normalized_candle list \<Rightarrow> (md_reason_code list \<times> string list) comp"
where
  "series_loop symbol tf et seen prev [] = ret ([], [])"
| "series_loop symbol tf et seen prev (c # cs) =
     (let mismatch = nc_symbol c \<noteq> symbol \<or> nc_timeframe c \<noteq> tf;
          overlap = (case prev of None \<Rightarrow> False | Some p \<Rightarrow> nc_open_time c \<le> nc_close_time p);
          unsorted = (case prev of None \<Rightarrow> False | Some p \<Rightarrow> nc_open_time c \<le> nc_open_time p);
          stamp = isoformat (nc_open_time c)
      in cbind (validate_single_candle c et) (\<lambda>single_codes.
         cbind (series_loop symbol tf et (insert (nc_open_time c) seen) (Some c) cs) (\<lambda>(codes, msgs).
         ret ((if mismatch then [MD_INVALID] else []) @ single_codes @
              (if nc_open_time c \<in> seen then [MD_DUPLICATE_CONFLICT] else []) @
              (if overlap then [MD_INVALID] else []) @ (if unsorted then [MD_INVALID] else []) @ codes,
              (if mismatch then [''Symbol/timeframe mismatch at '' @ stamp] else []) @
              (if overlap then [''Overlapping interval at '' @ stamp] else []) @
              (if unsorted then [''Overlap or unsorted open at '' @ stamp] else []) @ msgs))))"

definition series_status :: "md_reason_code list \<Rightarrow> md_quality_status" where
  "series_status codes =
     (if list_ex (\<lambda>c. c \<in> {MD_INVALID_OHLC, MD_INVALID_VOLUME, MD_INVALID_TIMEFRAME, MD_DUPLICATE_CONFLICT,
                            MD_UNKNOWN_SYMBOL}) codes then Q_INVALID
      else if MD_GAP_DETECTED \<in> set codes then Q_INCOMPLETE
      else if list_ex (\<lambda>c. c \<in> {MD_FUTURE_CANDLE, MD_OPEN_CANDLE_EXCLUDED}) codes then Q_INVALID
      else if codes \<noteq> [] then Q_INVALID
      else Q_VALID)"

definition validate_series ::
  "normalized_candle list \<Rightarrow> market_symbol \<Rightarrow> market_timeframe \<Rightarrow> datetime \<Rightarrow> candle_gap list \<Rightarrow>
   candle_conflict list \<Rightarrow> quality_report comp"
where
  "validate_series cs symbol tf et gaps conflicts =
     (if cs = [] then
        ret \<lparr>qr_status = Q_INCOMPLETE, qr_reason_codes = [MD_INCOMPLETE], qr_gaps = [], qr_conflicts = [],
             qr_missing_ranges = [], qr_last_known_candle = None, qr_expected_next_open = None,
             qr_evaluation_time = et, qr_messages = [''No candles available'']\<rparr>
      else
        let sorted_candles = sort_candles cs; unsorted = sorted_candles \<noteq> cs
        in cbind (series_loop symbol tf et {} None sorted_candles) (\<lambda>(codes, msgs).
           let reason_codes = (if unsorted then [MD_INVALID] else []) @ codes @
                 (if gaps \<noteq> [] then [MD_GAP_DETECTED] else []) @
                 (if conflicts \<noteq> [] then [MD_DUPLICATE_CONFLICT] else []);
               messages = (if unsorted then [''Candles are not chronologically sorted''] else []) @ msgs;
               unique_codes = unique reason_codes;
               status = series_status unique_codes;
               last_candle = last sorted_candles
           in ret \<lparr>qr_status = status,
                   qr_reason_codes = (if status = Q_VALID then [MD_VALID] else unique_codes),
                   qr_gaps = gaps, qr_conflicts = conflicts,
                   qr_missing_ranges = map (\<lambda>g. (cg_missing_open_time g, cg_expected_close_time g)) gaps,
                   qr_last_known_candle = Some last_candle,
                   qr_expected_next_open = Some (next_open_time (nc_open_time last_candle) tf),
                   qr_evaluation_time = et, qr_messages = messages\<rparr>))"

text \<open>The two loops of \<open>detect_gaps\<close>; the second also stops at a bucket that is still open.\<close>

definition gap_at :: "market_symbol \<Rightarrow> market_timeframe \<Rightarrow> datetime \<Rightarrow> datetime \<Rightarrow> candle_gap" where
  "gap_at symbol tf t cl =
     \<lparr>cg_symbol = symbol, cg_timeframe = tf, cg_missing_open_time = t, cg_expected_close_time = cl\<rparr>"

function gap_loop ::
  "market_symbol \<Rightarrow> market_timeframe \<Rightarrow> datetime \<Rightarrow> datetime \<Rightarrow> candle_gap list comp" where
  "gap_loop symbol tf next_open cursor =
     (if cursor < next_open
      then cbind (expected_close_time cursor tf) (\<lambda>cl.
           cbind (gap_loop symbol tf next_open (next_open_time cursor tf)) (\<lambda>gaps.
           ret (gap_at symbol tf cursor cl # gaps)))
      else ret [])"
  by pat_completeness auto

termination gap_loop
proof (relation "measure (\<lambda>(symbol, tf, stop, cursor). nat (stop - cursor))")
  fix tf and stop cursor :: datetime
  assume "cursor < stop"
  then show "((symbol, tf, stop, next_open_time cursor tf), symbol, tf, stop, cursor)
      \<in> measure (\<lambda>(symbol, tf, stop, cursor). nat (stop - cursor))" for symbol :: market_symbol
    using next_open_time_gt [of cursor tf] by simp
qed simp

function tail_gap_loop ::
  "market_symbol \<Rightarrow> market_timeframe \<Rightarrow> datetime \<Rightarrow> datetime \<Rightarrow> candle_gap list comp" where
  "tail_gap_loop symbol tf et cursor =
     (if cursor \<le> et
      then cbind (expected_close_time cursor tf) (\<lambda>cl.
           if et < cl then ret []
           else cbind (tail_gap_loop symbol tf et (next_open_time cursor tf)) (\<lambda>gaps.
                ret (gap_at symbol tf cursor cl # gaps)))
      else ret [])"
  by pat_completeness auto

termination tail_gap_loop
proof (relation "measure (\<lambda>(symbol, tf, et, cursor). nat (et + 1 - cursor))")
  fix tf and et cursor :: datetime
  assume "cursor \<le> et"
  then show "((symbol, tf, et, next_open_time cursor tf), symbol, tf, et, cursor)
      \<in> measure (\<lambda>(symbol, tf, et, cursor). nat (et + 1 - cursor))" for symbol :: market_symbol
    using next_open_time_gt [of cursor tf] by simp
qed simp

fun inner_gaps ::
  "market_symbol \<Rightarrow> market_timeframe \<Rightarrow> normalized_candle list \<Rightarrow> candle_gap list comp" where
  "inner_gaps symbol tf (c # d # cs) =
     cbind (gap_loop symbol tf (nc_open_time d) (next_open_time (nc_open_time c) tf)) (\<lambda>gaps.
     cbind (inner_gaps symbol tf (d # cs)) (\<lambda>rest. ret (gaps @ rest)))"
| "inner_gaps symbol tf _ = ret []"

definition detect_gaps ::
  "normalized_candle list \<Rightarrow> market_symbol \<Rightarrow> market_timeframe \<Rightarrow> datetime \<Rightarrow> candle_gap list comp" where
  "detect_gaps cs symbol tf et =
     (let sorted_candles = sort_candles cs
      in cbind (inner_gaps symbol tf sorted_candles) (\<lambda>gaps.
         if sorted_candles = [] then ret gaps
         else cbind (tail_gap_loop symbol tf et (next_open_time (nc_open_time (last sorted_candles)) tf)) (\<lambda>rest.
              ret (gaps @ rest))))"

declare gap_loop.simps [simp del] tail_gap_loop.simps [simp del]

section \<open>Candles that pass\<close>

definition valid_structure :: "normalized_candle \<Rightarrow> bool" where
  "valid_structure c \<longleftrightarrow>
     0 < nc_low c \<and> nc_low c \<le> nc_open c \<and> nc_low c \<le> nc_close c \<and>
     nc_open c \<le> nc_high c \<and> nc_close c \<le> nc_high c \<and> 0 \<le> nc_volume c \<and>
     nc_open_time c < nc_close_time c \<and>
     expected_close_time (nc_open_time c) (nc_timeframe c) = ret (nc_close_time c)"

lemma known_symbol: "market_symbol_value s \<notin> market_symbol_value ` {BTC, ETH, SOL} \<longleftrightarrow> False"
  by (cases s) auto

lemma validate_candle_structure_Nil: "validate_candle_structure c = ret [] \<longleftrightarrow> valid_structure c"
  unfolding known_symbol if_False validate_candle_structure_def Let_def valid_structure_def is_finite_decimal_def
    is_valid_timeframe_duration_def
  by (auto simp: cbind_eq_ret split: if_splits)

lemma validate_single_Nil:
  "validate_single_candle c et = ret [] \<longleftrightarrow> valid_structure c \<and> nc_close_time c \<le> et"
  by (auto simp: validate_single_candle_def cbind_eq_ret validate_candle_structure_Nil [symmetric] is_candle_closed_def
      split: if_splits)

definition good_market_candle :: "market_symbol \<Rightarrow> market_timeframe \<Rightarrow> datetime \<Rightarrow> normalized_candle \<Rightarrow> bool" where
  "good_market_candle symbol tf et c \<longleftrightarrow>
     nc_symbol c = symbol \<and> nc_timeframe c = tf \<and> valid_structure c \<and> nc_close_time c \<le> et"

abbreviation before :: "normalized_candle \<Rightarrow> normalized_candle \<Rightarrow> bool" where
  "before p c \<equiv> nc_close_time p < nc_open_time c"

lemma series_loop_Nil:
  assumes "\<forall>t \<in> seen. \<exists>p. prev = Some p \<and> t \<le> nc_open_time p"
    and "\<forall>p. prev = Some p \<longrightarrow> nc_open_time p < nc_close_time p"
  shows "(\<exists>m. series_loop symbol tf et seen prev cs = ret ([], m)) \<longleftrightarrow>
    (\<forall>c \<in> set cs. good_market_candle symbol tf et c) \<and>
    successively before ((case prev of None \<Rightarrow> [] | Some p \<Rightarrow> [p]) @ cs)"
  using assms
proof (induction cs arbitrary: seen prev)
  case Nil
  then show ?case by (simp split: option.split)
next
  case (Cons c cs)
  let ?pre = "\<lambda>prev. case prev of None \<Rightarrow> [] | Some p \<Rightarrow> [p]"
  let ?ok = "good_market_candle symbol tf et c \<and> (\<forall>p. prev = Some p \<longrightarrow> before p c)"
  have head: "(\<exists>m. series_loop symbol tf et seen prev (c # cs) = ret ([], m)) \<longleftrightarrow>
      ?ok \<and> (\<exists>m. series_loop symbol tf et (insert (nc_open_time c) seen) (Some c) cs = ret ([], m))"
  proof -
    have "nc_open_time c \<notin> seen" if "\<forall>p. prev = Some p \<longrightarrow> before p c"
      using that Cons.prems by force
    moreover have "\<not> nc_open_time c \<le> nc_open_time p" if "\<forall>p. prev = Some p \<longrightarrow> before p c" "prev = Some p" for p
      using that Cons.prems(2) by force
    ultimately show ?thesis
      by (auto simp: good_market_candle_def validate_single_Nil [symmetric] Let_def cbind_eq_ret split: option.splits if_splits)
  qed
  show ?case
  proof (cases ?ok)
    case True
    then have c: "nc_open_time c < nc_close_time c" by (simp add: good_market_candle_def valid_structure_def)
    have "\<forall>t \<in> insert (nc_open_time c) seen. \<exists>p. Some c = Some p \<and> t \<le> nc_open_time p"
      using True Cons.prems by force
    with Cons.IH [of "insert (nc_open_time c) seen" "Some c"] c
    have "(\<exists>m. series_loop symbol tf et (insert (nc_open_time c) seen) (Some c) cs = ret ([], m)) \<longleftrightarrow>
        (\<forall>c \<in> set cs. good_market_candle symbol tf et c) \<and> successively before (c # cs)" by simp
    with head True show ?thesis by (auto split: option.splits)
  next
    case False
    with head show ?thesis by (auto split: option.splits)
  qed
qed

lemma series_status_valid: "series_status codes = Q_VALID \<longleftrightarrow> codes = []"
  by (auto simp: series_status_def)

text \<open>Candles whose intervals follow one another are sorted by their opens.\<close>

lemma before_sorted:
  assumes "\<forall>c \<in> set cs. nc_open_time c < nc_close_time c" and "successively before cs"
  shows "sorted_wrt (<) (map nc_open_time cs)"
  using assms
proof (induction cs rule: induct_list012)
  case (3 c d cs)
  then have IH: "sorted_wrt (<) (map nc_open_time (d # cs))" and "nc_open_time c < nc_open_time d" by force+
  then show ?case by auto
qed simp_all

lemma sort_candles_sorted: "sorted_wrt (<) (map nc_open_time cs) \<Longrightarrow> sort_candles cs = cs"
  unfolding sort_candles_def by (rule sort_key_id_if_sorted) (simp add: strict_sorted_imp_sorted)

lemma validate_series_VALID:
  "(\<exists>r. validate_series cs symbol tf et gaps conflicts = ret r \<and> qr_status r = Q_VALID) \<longleftrightarrow>
     cs \<noteq> [] \<and> gaps = [] \<and> conflicts = [] \<and> (\<forall>c \<in> set cs. good_market_candle symbol tf et c) \<and> successively before cs"
  (is "?V \<longleftrightarrow> ?W")
proof -
  have loop: "(\<exists>m. series_loop symbol tf et {} None cs = ret ([], m)) \<longleftrightarrow>
      (\<forall>c \<in> set cs. good_market_candle symbol tf et c) \<and> successively before cs"
    using series_loop_Nil [of "{}" None] by simp
  have sorted: "sort_candles cs = cs" if "\<forall>c \<in> set cs. good_market_candle symbol tf et c" "successively before cs"
    using that by (intro sort_candles_sorted before_sorted) (auto simp: good_market_candle_def valid_structure_def)
  have "?V \<longleftrightarrow> cs \<noteq> [] \<and> sort_candles cs = cs \<and> gaps = [] \<and> conflicts = [] \<and>
      (\<exists>m. series_loop symbol tf et {} None cs = ret ([], m))"
    by (auto simp: validate_series_def Let_def cbind_eq_ret series_status_valid split: if_splits)
  with loop sorted show ?thesis by blast
qed

section \<open>The gaps found are the missing opens\<close>

lemma gap_loop_spec:
  assumes "aligned tf cursor"
  shows "\<exists>gs. gap_loop symbol tf stop cursor = ret gs \<and>
    cg_missing_open_time ` set gs = {t. aligned tf t \<and> cursor \<le> t \<and> t < stop}"
  using assms
proof (induction symbol tf stop cursor rule: gap_loop.induct)
  case (1 symbol tf stop cursor)
  show ?case
  proof (cases "cursor < stop")
    case True
    note close = expected_close_aligned [OF 1(2)]
    obtain gs where gs: "gap_loop symbol tf stop (next_open_time cursor tf) = ret gs"
      "cg_missing_open_time ` set gs = {t. aligned tf t \<and> next_open_time cursor tf \<le> t \<and> t < stop}"
      using 1(1) [OF True aligned_next [OF 1(2)]] by blast
    have "{t. aligned tf t \<and> cursor \<le> t \<and> t < stop} =
        insert cursor {t. aligned tf t \<and> next_open_time cursor tf \<le> t \<and> t < stop}"
      using True 1(2) aligned_succ [OF 1(2)] next_open_time_gt [of cursor tf] by force
    with True gs close show ?thesis by (subst gap_loop.simps) (simp add: gap_at_def)
  next
    case False
    then show ?thesis by (subst gap_loop.simps) auto
  qed
qed

lemma tail_gap_loop_spec:
  assumes "aligned tf cursor"
  shows "\<exists>gs. tail_gap_loop symbol tf et cursor = ret gs \<and>
    cg_missing_open_time ` set gs = {t. aligned tf t \<and> cursor \<le> t \<and> next_open_time t tf - seconds 1 \<le> et}"
  using assms
proof (induction symbol tf et cursor rule: tail_gap_loop.induct)
  case (1 symbol tf et cursor)
  note close = expected_close_aligned [OF 1(2)]
  let ?S = "\<lambda>cursor. {t. aligned tf t \<and> cursor \<le> t \<and> next_open_time t tf - seconds 1 \<le> et}"
  have mono: "next_open_time cursor tf \<le> next_open_time t tf" if "aligned tf t" "cursor \<le> t" for t
    using that aligned_succ [OF 1(2)] next_open_time_gt [of t tf] by force
  have day: "t + us_per_day \<le> next_open_time t tf" if "aligned tf t" for t
    using aligned_succ [OF _ _ next_open_time_gt [of t tf], of MT_DAILY] that aligned_next [OF that]
    by (simp add: aligned_def next_open_time_def)
  show ?case
  proof (cases "next_open_time cursor tf - seconds 1 \<le> et")
    case True
    have le: "cursor \<le> et" using True day [OF 1(2)] by (simp add: us_defs)
    obtain gs where gs: "tail_gap_loop symbol tf et (next_open_time cursor tf) = ret gs"
      "cg_missing_open_time ` set gs = ?S (next_open_time cursor tf)"
      using 1(1) [OF le _ aligned_next [OF 1(2)], of "next_open_time cursor tf - seconds 1"] True by auto
    have "?S cursor = insert cursor (?S (next_open_time cursor tf))"
      using True 1(2) aligned_succ [OF 1(2)] next_open_time_gt [of cursor tf] by force
    with True gs close le show ?thesis by (subst tail_gap_loop.simps) (simp add: gap_at_def)
  next
    case False
    then have "?S cursor = {}" using mono by force
    with False close show ?thesis by (subst tail_gap_loop.simps) auto
  qed
qed

lemma inner_gaps_spec:
  assumes "\<forall>c \<in> set cs. aligned tf (nc_open_time c)" and "sorted_wrt (<) (map nc_open_time cs)" and "cs \<noteq> []"
  shows "\<exists>gs. inner_gaps symbol tf cs = ret gs \<and>
    cg_missing_open_time ` set gs =
      {t. aligned tf t \<and> nc_open_time (hd cs) < t \<and> t < nc_open_time (last cs) \<and> t \<notin> nc_open_time ` set cs}"
  using assms
proof (induction symbol tf cs rule: inner_gaps.induct)
  case (1 symbol tf c d cs)
  let ?a = "nc_open_time c" and ?b = "nc_open_time d" and ?z = "nc_open_time (last (d # cs))"
  have a: "aligned tf ?a" and ab: "?a < ?b" using 1(2,3) by simp_all
  have bz: "?b \<le> ?z" using 1(3) by (cases cs) (auto simp: last_conv_nth less_imp_le)
  have rest_gt: "\<forall>x \<in> nc_open_time ` set cs. ?b < x" using 1(3) by simp
  obtain g1 where g1: "gap_loop symbol tf ?b (next_open_time ?a tf) = ret g1"
    "cg_missing_open_time ` set g1 = {t. aligned tf t \<and> next_open_time ?a tf \<le> t \<and> t < ?b}"
    using gap_loop_spec [OF aligned_next [OF a]] by blast
  obtain g2 where g2: "inner_gaps symbol tf (d # cs) = ret g2"
    "cg_missing_open_time ` set g2 = {t. aligned tf t \<and> ?b < t \<and> t < ?z \<and> t \<notin> nc_open_time ` set (d # cs)}"
    using 1(1) 1(2,3) by auto
  have first: "{t. aligned tf t \<and> next_open_time ?a tf \<le> t \<and> t < ?b} = {t. aligned tf t \<and> ?a < t \<and> t < ?b}"
    using aligned_succ [OF a] next_open_time_gt [of ?a tf] by force
  have "cg_missing_open_time ` set (g1 @ g2) =
      {t. aligned tf t \<and> ?a < t \<and> t < ?z \<and> t \<notin> nc_open_time ` set (c # d # cs)}"
    unfolding set_append image_Un g1(2) g2(2) first using ab bz rest_gt by force
  with g1(1) g2(1) show ?case by simp
qed auto

lemma detect_gaps_spec:
  assumes "\<forall>c \<in> set cs. aligned tf (nc_open_time c)" and "sorted_wrt (<) (map nc_open_time cs)" and "cs \<noteq> []"
  shows "\<exists>gs. detect_gaps cs symbol tf et = ret gs \<and>
    cg_missing_open_time ` set gs =
      {t. aligned tf t \<and> nc_open_time (hd cs) < t \<and> t \<notin> nc_open_time ` set cs \<and>
          (t < nc_open_time (last cs) \<or> next_open_time t tf - seconds 1 \<le> et)}"
proof -
  let ?z = "nc_open_time (last cs)"
  have z: "aligned tf ?z" using assms(1,3) by simp
  obtain g1 where g1: "inner_gaps symbol tf cs = ret g1"
    "cg_missing_open_time ` set g1 = {t. aligned tf t \<and> nc_open_time (hd cs) < t \<and> t < ?z \<and> t \<notin> nc_open_time ` set cs}"
    using inner_gaps_spec [OF assms] by blast
  obtain g2 where g2: "tail_gap_loop symbol tf et (next_open_time ?z tf) = ret g2"
    "cg_missing_open_time ` set g2 = {t. aligned tf t \<and> next_open_time ?z tf \<le> t \<and> next_open_time t tf - seconds 1 \<le> et}"
    using tail_gap_loop_spec [OF aligned_next [OF z]] by blast
  have tail: "{t. aligned tf t \<and> next_open_time ?z tf \<le> t \<and> next_open_time t tf - seconds 1 \<le> et} =
      {t. aligned tf t \<and> ?z < t \<and> next_open_time t tf - seconds 1 \<le> et}"
    using aligned_succ [OF z] next_open_time_gt [of ?z tf] by force
  have le_z: "nc_open_time c \<le> ?z" if "c \<in> set cs" for c
    using assms(2) that by (induction cs) (auto simp: less_imp_le)
  have hd_z: "nc_open_time (hd cs) \<le> ?z" using le_z assms(3) by simp
  have z_in: "?z \<in> nc_open_time ` set cs" using assms(3) by simp
  have "detect_gaps cs symbol tf et = ret (g1 @ g2)"
    using g1(1) g2(1) assms(3) by (simp add: detect_gaps_def sort_candles_sorted [OF assms(2)])
  moreover have "cg_missing_open_time ` set (g1 @ g2) =
      {t. aligned tf t \<and> nc_open_time (hd cs) < t \<and> t \<notin> nc_open_time ` set cs \<and>
          (t < ?z \<or> next_open_time t tf - seconds 1 \<le> et)}"
    unfolding set_append image_Un g1(2) g2(2) tail
  proof (rule set_eqI)
    fix t
    have "t \<notin> nc_open_time ` set cs" if "?z < t" using le_z that by force
    then show "t \<in> {t. aligned tf t \<and> nc_open_time (hd cs) < t \<and> t < ?z \<and> t \<notin> nc_open_time ` set cs} \<union>
          {t. aligned tf t \<and> ?z < t \<and> next_open_time t tf - seconds 1 \<le> et} \<longleftrightarrow>
        t \<in> {t. aligned tf t \<and> nc_open_time (hd cs) < t \<and> t \<notin> nc_open_time ` set cs \<and>
          (t < ?z \<or> next_open_time t tf - seconds 1 \<le> et)}"
      using hd_z z_in by (cases t ?z rule: linorder_cases) auto
  qed
  ultimately show ?thesis by blast
qed

end
