(* ===== verification/Market_Aggregation.thy ===== *)
theory Market_Aggregation
  imports Market_Validation
begin

text \<open>
  Weekly and monthly candles from daily ones (\<open>services/market_data/aggregation.py\<close>) and their merge
  with native candles (\<open>services/market_data/merge_policy.py\<close>). The weekly and the monthly loop have the
  same body up to the boundaries of the timeframe; both are the loop \<open>aggregate_loop\<close>, whose
  boundaries are \<open>expected_close_time\<close> (\<open>weekly_close\<close> and \<open>monthly_close\<close>) and \<open>next_open_time\<close>.
\<close>

section \<open>Definitions\<close>

definition list_min :: "'a::linorder \<Rightarrow> 'a list \<Rightarrow> 'a" where
  "list_min x xs = foldl min x xs"

definition aggregate_bucket ::
  "normalized_candle list \<Rightarrow> market_symbol \<Rightarrow> market_timeframe \<Rightarrow> datetime \<Rightarrow> datetime \<Rightarrow> datetime \<Rightarrow>
   datetime set \<Rightarrow> normalized_candle option"
where
  "aggregate_bucket dailies symbol tf bucket_open bucket_close et required_days =
     (if \<not> is_candle_closed bucket_close et then None
      else let members = filter (\<lambda>d. bucket_open \<le> nc_open_time d \<and> nc_open_time d \<le> bucket_close) dailies
           in if members = [] then None
              else if (\<lambda>d. daily_open (nc_open_time d)) ` set members \<noteq> required_days then None
              else let ordered = sort_candles members
                   in Some \<lparr>nc_symbol = symbol, nc_timeframe = tf, nc_open_time = bucket_open,
                            nc_close_time = bucket_close, nc_open = nc_open (hd ordered),
                            nc_high = list_max (nc_high (hd ordered)) (map nc_high (tl ordered)),
                            nc_low = list_min (nc_low (hd ordered)) (map nc_low (tl ordered)),
                            nc_close = nc_close (last ordered),
                            nc_volume = dsum (map nc_volume ordered), nc_is_closed = True\<rparr>)"

definition day_range :: "datetime \<Rightarrow> nat \<Rightarrow> datetime set" where
  "day_range start count = (\<lambda>i. start + int i * us_per_day) ` {..<count}"

function days_until :: "datetime \<Rightarrow> datetime \<Rightarrow> datetime set" where
  "days_until stop cursor = (if cursor \<le> stop then insert cursor (days_until stop (cursor + us_per_day)) else {})"
  by pat_completeness auto

termination days_until
  by (relation "measure (\<lambda>(stop, cursor). nat (stop + 1 - cursor))") (simp_all add: us_defs)

definition month_day_range :: "datetime \<Rightarrow> datetime set comp" where
  "month_day_range month_start' = cbind (monthly_close month_start') (\<lambda>cl. ret (days_until (daily_open cl) month_start'))"

definition required_days :: "market_timeframe \<Rightarrow> datetime \<Rightarrow> datetime set comp" where
  "required_days tf cursor =
     (case tf of MT_MONTHLY \<Rightarrow> month_day_range cursor | MT_WEEKLY \<Rightarrow> ret (day_range cursor 7)
               | MT_DAILY \<Rightarrow> ret (day_range cursor 1))"

function aggregate_loop ::
  "market_timeframe \<Rightarrow> normalized_candle list \<Rightarrow> market_symbol \<Rightarrow> datetime \<Rightarrow> datetime \<Rightarrow> datetime \<Rightarrow>
   normalized_candle list comp"
where
  "aggregate_loop tf dailies symbol et last_day cursor =
     (if cursor \<le> last_day
      then cbind (expected_close_time cursor tf) (\<lambda>cl.
           cbind (required_days tf cursor) (\<lambda>required.
           cbind (aggregate_loop tf dailies symbol et last_day (next_open_time cursor tf)) (\<lambda>rest.
           ret (case aggregate_bucket dailies symbol tf cursor cl et required of
                  None \<Rightarrow> rest | Some agg \<Rightarrow> agg # rest))))
      else ret [])"
  by pat_completeness auto

termination aggregate_loop
proof (relation "measure (\<lambda>(tf, dailies, symbol, et, last_day, cursor). nat (last_day + 1 - cursor))")
  fix tf and last_day cursor :: datetime
  assume "cursor \<le> last_day"
  then show "((tf, dailies, symbol, et, last_day, next_open_time cursor tf), tf, dailies, symbol, et, last_day, cursor)
      \<in> measure (\<lambda>(tf, dailies, symbol, et, last_day, cursor). nat (last_day + 1 - cursor))"
    for dailies :: "normalized_candle list" and symbol :: market_symbol and et :: datetime
    using next_open_time_gt [of cursor tf] by simp
qed simp

declare days_until.simps [simp del] aggregate_loop.simps [simp del]

definition aggregate_weekly_from_daily ::
  "normalized_candle list \<Rightarrow> market_symbol \<Rightarrow> datetime \<Rightarrow> normalized_candle list comp" where
  "aggregate_weekly_from_daily cs symbol et =
     (let dailies = sort_candles (filter (\<lambda>d. nc_symbol d = symbol) cs)
      in if dailies = [] then ret []
         else let first_day = daily_open (nc_open_time (hd dailies));
                  last_day = daily_open (nc_open_time (last dailies))
              in aggregate_loop MT_WEEKLY dailies symbol et last_day (weekly_open_containing first_day))"

definition aggregate_monthly_from_daily ::
  "normalized_candle list \<Rightarrow> market_symbol \<Rightarrow> datetime \<Rightarrow> normalized_candle list comp" where
  "aggregate_monthly_from_daily cs symbol et =
     (let dailies = sort_candles (filter (\<lambda>d. nc_symbol d = symbol) cs)
      in if dailies = [] then ret []
         else let (y, m, d) = ymd (nc_open_time (hd dailies));
                  last_day = daily_open (nc_open_time (last dailies))
              in aggregate_loop MT_MONTHLY dailies symbol et last_day (monthly_open y m))"

text \<open>
  The merge: native candles first, by their opens; an aggregated candle is added where there is no
  native one, and reported where it differs from it.
\<close>

definition merge_step ::
  "market_symbol \<Rightarrow> market_timeframe \<Rightarrow> (datetime, normalized_candle) dict \<times> candle_conflict list \<Rightarrow>
   normalized_candle \<Rightarrow> (datetime, normalized_candle) dict \<times> candle_conflict list"
where
  "merge_step symbol tf st agg =
     (let (by_open, conflicts) = st
      in if nc_symbol agg \<noteq> symbol \<or> nc_timeframe agg \<noteq> tf then st
         else case dict_get by_open (nc_open_time agg) of
                None \<Rightarrow> (dict_put (nc_open_time agg) agg by_open, conflicts)
              | Some existing \<Rightarrow>
                  if candles_equal existing agg then st
                  else (by_open, conflicts @
                         [\<lparr>cc_key = \<lparr>ck_symbol = symbol, ck_timeframe = tf, ck_open_time = nc_open_time agg\<rparr>,
                           cc_existing = existing, cc_incoming = agg\<rparr>]))"

definition native_by_open ::
  "normalized_candle list \<Rightarrow> market_symbol \<Rightarrow> market_timeframe \<Rightarrow> (datetime, normalized_candle) dict" where
  "native_by_open native symbol tf =
     dict_of (map (\<lambda>c. (nc_open_time c, c)) (filter (\<lambda>c. nc_symbol c = symbol \<and> nc_timeframe c = tf) native))"

definition merge_native_and_aggregated ::
  "normalized_candle list \<Rightarrow> normalized_candle list \<Rightarrow> market_symbol \<Rightarrow> market_timeframe \<Rightarrow>
   normalized_candle list \<times> candle_conflict list"
where
  "merge_native_and_aggregated native aggregated symbol tf =
     (let (by_open, conflicts) = foldl (merge_step symbol tf) (native_by_open native symbol tf, []) aggregated
      in (sort_candles (dict_values by_open), conflicts))"

section \<open>Buckets\<close>

lemma day_range_eq: "day_range start n = {t. \<exists>k. 0 \<le> k \<and> k < int n \<and> t = start + k * us_per_day}"
proof -
  have "\<exists>i < n. start + k * us_per_day = start + int i * us_per_day" if "0 \<le> k" "k < int n" for k
    using that by (intro exI [of _ "nat k"]) auto
  then show ?thesis unfolding day_range_def by (auto simp: image_iff) 
qed

lemma days_until_eq:
  "days_until (c + int n * us_per_day) c = day_range c (Suc n)"
proof (induction n arbitrary: c)
  case 0
  have "days_until c (c + us_per_day) = {}" by (subst days_until.simps) (simp add: not_le)
  then show ?case by (subst days_until.simps) (auto simp: day_range_def)
next
  case (Suc n)
  have "days_until (c + int (Suc n) * us_per_day) c =
      insert c (days_until (c + us_per_day + int n * us_per_day) (c + us_per_day))"
    by (subst days_until.simps) (simp add: distrib_right algebra_simps)
  also have "\<dots> = insert c (day_range (c + us_per_day) (Suc n))" by (simp only: Suc.IH)
  also have "\<dots> = day_range c (Suc (Suc n))"
    by (simp add: day_range_def lessThan_Suc_eq_insert_0 [of "Suc n"] image_image algebra_simps)
  finally show ?case .
qed

text \<open>The number of days of a bucket, and its days.\<close>

definition bucket_days :: "market_timeframe \<Rightarrow> datetime \<Rightarrow> nat" where
  "bucket_days tf op = nat ((next_open_time op tf - op) div us_per_day)"

lemma next_open_days:
  assumes "aligned tf op"
  shows "next_open_time op tf = op + int (bucket_days tf op) * us_per_day" and "0 < bucket_days tf op"
proof -
  have days: "daily_open op = op" "daily_open (next_open_time op tf) = next_open_time op tf"
    using assms aligned_next [OF assms] by (simp_all add: aligned_def)
  define a b where "a = op div us_per_day" and "b = next_open_time op tf div us_per_day"
  have op: "op = a * us_per_day" "next_open_time op tf = b * us_per_day"
    using days by (simp_all add: a_def b_def daily_open_def)
  have "a < b" using next_open_time_gt [of op tf] unfolding op(2) by (simp add: op(1) mult_less_cancel_right)
  moreover have "(next_open_time op tf - op) div us_per_day = b - a"
    unfolding op(2) by (subst op(1)) (simp add: left_diff_distrib [symmetric])
  ultimately show "next_open_time op tf = op + int (bucket_days tf op) * us_per_day" "0 < bucket_days tf op"
    unfolding bucket_days_def op(2) by (simp_all add: distrib_right [symmetric]) (simp add: op(1) distrib_right [symmetric])
qed

lemma required_days_aligned:
  assumes "aligned tf op"
  shows "required_days tf op = ret (day_range op (bucket_days tf op))"
proof (cases tf)
  case MT_MONTHLY
  let ?n = "bucket_days MT_MONTHLY op"
  note al = assms [unfolded MT_MONTHLY]
  note nx = next_open_days [OF al]
  have close: "monthly_close op = ret (next_open_time op MT_MONTHLY - seconds 1)"
    using expected_close_aligned [OF al] by (simp add: expected_close_time_def)
  have "daily_open (next_open_time op MT_MONTHLY - seconds 1) = op + int (?n - 1) * us_per_day"
  proof -
    define a where "a = op div us_per_day"
    have "op = a * us_per_day" using al by (simp add: aligned_def daily_open_def a_def)
    then have "next_open_time op MT_MONTHLY - seconds 1 = (a + int (?n - 1)) * us_per_day + (us_per_day - seconds 1)"
      using nx by (simp add: distrib_right of_nat_diff left_diff_distrib)
    moreover have "((a + int (?n - 1)) * us_per_day + (us_per_day - seconds 1)) div us_per_day = a + int (?n - 1)"
      by (intro div_of_sum) (simp_all add: us_defs)
    ultimately show ?thesis unfolding daily_open_def by (simp only: distrib_right \<open>op = a * us_per_day\<close> [symmetric])
  qed
  moreover have "days_until (op + int (?n - 1) * us_per_day) op = day_range op ?n"
    unfolding days_until_eq using nx(2) by simp
  ultimately show ?thesis
    unfolding MT_MONTHLY by (simp add: required_days_def month_day_range_def close del: of_nat_diff)
qed (auto simp: required_days_def bucket_days_def next_open_time_def)

section \<open>What the aggregation returns\<close>

text \<open>
  The specification of one aggregated candle: its bucket is closed, the daily candles in it cover
  exactly the days of the bucket, and its values are those of the members in their order.
\<close>

abbreviation members_of :: "market_timeframe \<Rightarrow> normalized_candle list \<Rightarrow> datetime \<Rightarrow> normalized_candle list" where
  "members_of tf dailies op \<equiv>
     filter (\<lambda>d. op \<le> nc_open_time d \<and> nc_open_time d \<le> next_open_time op tf - seconds 1) dailies"

definition complete_bucket :: "market_timeframe \<Rightarrow> normalized_candle list \<Rightarrow> datetime \<Rightarrow> bool" where
  "complete_bucket tf dailies op \<longleftrightarrow>
     (\<lambda>d. daily_open (nc_open_time d)) ` set (members_of tf dailies op) = day_range op (bucket_days tf op)"

definition aggregates ::
  "market_timeframe \<Rightarrow> normalized_candle list \<Rightarrow> market_symbol \<Rightarrow> normalized_candle \<Rightarrow> bool" where
  "aggregates tf dailies symbol c \<longleftrightarrow>
     (let ms = members_of tf dailies (nc_open_time c)
      in complete_bucket tf dailies (nc_open_time c) \<and> ms \<noteq> [] \<and>
         nc_symbol c = symbol \<and> nc_timeframe c = tf \<and> nc_is_closed c \<and>
         nc_close_time c = next_open_time (nc_open_time c) tf - seconds 1 \<and>
         nc_open c = nc_open (hd ms) \<and> nc_close c = nc_close (last ms) \<and>
         nc_high c = Max (nc_high ` set ms) \<and> nc_low c = Min (nc_low ` set ms) \<and>
         nc_volume c = dsum (map nc_volume ms))"

lemma list_min_Min: "list_min x xs = Min (set (x # xs))"
proof (induction xs arbitrary: x)
  case Nil
  then show ?case by (simp add: list_min_def)
next
  case (Cons y ys)
  have "list_min x (y # ys) = list_min (min x y) ys" by (simp add: list_min_def)
  then show ?case by (simp add: Cons.IH) (metis Min_insert2 Min_singleton finite.intros finite_set min.assoc set_empty2 Min_insert)
qed

lemma members_sorted: "sorted (map nc_open_time ds) \<Longrightarrow> sort_candles (filter P ds) = filter P ds"
  unfolding sort_candles_def by (rule sort_key_id_if_sorted) (rule sorted_filter)

lemma aggregate_bucket_spec:
  assumes "aligned tf op" and "sorted (map nc_open_time ds)"
  shows "case aggregate_bucket ds symbol tf op (next_open_time op tf - seconds 1) et (day_range op (bucket_days tf op)) of
      None \<Rightarrow> \<not> (complete_bucket tf ds op \<and> next_open_time op tf - seconds 1 \<le> et)
    | Some c \<Rightarrow> nc_open_time c = op \<and> aggregates tf ds symbol c \<and> nc_close_time c \<le> et"
proof -
  let ?ms = "members_of tf ds op"
  have nonempty: "?ms \<noteq> []" if "complete_bucket tf ds op"
  proof
    assume "?ms = []"
    with that have "day_range op (bucket_days tf op) = {}" unfolding complete_bucket_def by simp
    with next_open_days(2) [OF assms(1)] show False by (simp add: day_range_def lessThan_empty_iff)
  qed
  have hi: "list_max (nc_high (hd ?ms)) (map nc_high (tl ?ms)) = Max (nc_high ` set ?ms)"
    and lo: "list_min (nc_low (hd ?ms)) (map nc_low (tl ?ms)) = Min (nc_low ` set ?ms)" if "?ms \<noteq> []"
    using that by (cases ?ms; simp add: list_max_Max list_min_Min)+
  show ?thesis
  proof (cases "complete_bucket tf ds op \<and> next_open_time op tf - seconds 1 \<le> et")
    case True
    note ms = nonempty [OF True [THEN conjunct1]]
    have closed_now: "is_candle_closed (next_open_time op tf - seconds 1) et" using True by (simp add: is_candle_closed_def)
    note full = True [THEN conjunct1, unfolded complete_bucket_def]
    let ?c = "\<lparr>nc_symbol = symbol, nc_timeframe = tf, nc_open_time = op, nc_close_time = next_open_time op tf - seconds 1,
      nc_open = nc_open (hd ?ms), nc_high = Max (nc_high ` set ?ms), nc_low = Min (nc_low ` set ?ms),
      nc_close = nc_close (last ?ms), nc_volume = dsum (map nc_volume ?ms), nc_is_closed = True\<rparr>"
    have "aggregate_bucket ds symbol tf op (next_open_time op tf - seconds 1) et (day_range op (bucket_days tf op)) = Some ?c"
      unfolding aggregate_bucket_def Let_def members_sorted [OF assms(2)] hi [OF ms] lo [OF ms] full
      using ms closed_now by (simp only: if_False simp_thms)
    moreover have "aggregates tf ds symbol ?c" using True ms by (simp add: aggregates_def Let_def)
    ultimately show ?thesis using True by simp
  next
    case False
    then have "aggregate_bucket ds symbol tf op (next_open_time op tf - seconds 1) et (day_range op (bucket_days tf op)) = None"
      unfolding aggregate_bucket_def Let_def complete_bucket_def is_candle_closed_def by (simp only: if_True if_False simp_thms split: if_split) blast
    with False show ?thesis by simp
  qed
qed

lemma aggregate_loop_spec:
  assumes "aligned tf cursor" and "sorted (map nc_open_time ds)"
  shows "\<exists>cs. aggregate_loop tf ds symbol et last_day cursor = ret cs \<and>
    (\<forall>c \<in> set cs. aligned tf (nc_open_time c) \<and> cursor \<le> nc_open_time c \<and> aggregates tf ds symbol c \<and> nc_close_time c \<le> et) \<and>
    sorted_wrt (<) (map nc_open_time cs) \<and>
    {op. aligned tf op \<and> cursor \<le> op \<and> op \<le> last_day \<and> complete_bucket tf ds op \<and> next_open_time op tf - seconds 1 \<le> et}
      \<subseteq> nc_open_time ` set cs"
  using assms
proof (induction tf ds symbol et last_day cursor rule: aggregate_loop.induct)
  case (1 tf ds symbol et last_day cursor)
  let ?S = "\<lambda>cursor. {op. aligned tf op \<and> cursor \<le> op \<and> op \<le> last_day \<and> complete_bucket tf ds op \<and>
    next_open_time op tf - seconds 1 \<le> et}"
  let ?good = "\<lambda>cursor c. aligned tf (nc_open_time c) \<and> cursor \<le> nc_open_time c \<and> aggregates tf ds symbol c \<and> nc_close_time c \<le> et"
  show ?case
  proof (cases "cursor \<le> last_day")
    case True
    note close = expected_close_aligned [OF 1(2)]
    note days = required_days_aligned [OF 1(2)]
    obtain cs where cs: "aggregate_loop tf ds symbol et last_day (next_open_time cursor tf) = ret cs"
      "\<forall>c \<in> set cs. ?good (next_open_time cursor tf) c" "sorted_wrt (<) (map nc_open_time cs)"
      "?S (next_open_time cursor tf) \<subseteq> nc_open_time ` set cs"
      using 1(1) [OF True aligned_next [OF 1(2)] 1(3)] by blast
    let ?b = "aggregate_bucket ds symbol tf cursor (next_open_time cursor tf - seconds 1) et (day_range cursor (bucket_days tf cursor))"
    let ?cs = "case ?b of None \<Rightarrow> cs | Some agg \<Rightarrow> agg # cs"
    have run: "aggregate_loop tf ds symbol et last_day cursor = ret ?cs"
      using True close days cs(1) by (subst aggregate_loop.simps) simp
    note b = aggregate_bucket_spec [OF 1(2,3), where symbol = symbol and et = et]
    have later: "\<forall>c \<in> set cs. ?good cursor c \<and> cursor < nc_open_time c"
      using cs(2) next_open_time_gt [of cursor tf] by force
    have step: "op = cursor \<or> op \<in> ?S (next_open_time cursor tf)" if "op \<in> ?S cursor" for op
      using that aligned_succ [OF 1(2), of op] by force
    show ?thesis
    proof (intro exI [of _ ?cs] conjI run)
      show "\<forall>c \<in> set ?cs. ?good cursor c" using b later 1(2) by (auto split: option.splits)
      show "sorted_wrt (<) (map nc_open_time ?cs)" using b later cs(3) by (auto split: option.splits)
      show "?S cursor \<subseteq> nc_open_time ` set ?cs"
      proof
        fix op
        assume op: "op \<in> ?S cursor"
        from step [OF op] show "op \<in> nc_open_time ` set ?cs"
        proof
          assume "op = cursor"
          with op b show ?thesis by (auto split: option.splits)
        next
          assume "op \<in> ?S (next_open_time cursor tf)"
          with cs(4) show ?thesis by (auto split: option.splits)
        qed
      qed
    qed
  next
    case False
    then show ?thesis by (subst aggregate_loop.simps) auto
  qed
qed

text \<open>The two aggregations: the buckets start at or before the first daily candle and reach the last one.\<close>

definition aggregation_ok ::
  "market_timeframe \<Rightarrow> normalized_candle list \<Rightarrow> market_symbol \<Rightarrow> datetime \<Rightarrow> normalized_candle list \<Rightarrow> bool" where
  "aggregation_ok tf dailies symbol et cs \<longleftrightarrow>
     (let ds = sort_candles (filter (\<lambda>d. nc_symbol d = symbol) dailies)
      in sorted_wrt (<) (map nc_open_time cs) \<and>
         (\<forall>c \<in> set cs. aligned tf (nc_open_time c) \<and> aggregates tf ds symbol c \<and> nc_close_time c \<le> et) \<and>
         (\<forall>op. aligned tf op \<and> complete_bucket tf ds op \<and> next_open_time op tf - seconds 1 \<le> et \<longrightarrow>
            op \<in> nc_open_time ` set cs))"

lemma sorted_hd_last_bounds:
  assumes "sorted (map f ds)" and "d \<in> set ds"
  shows "f (hd ds) \<le> f d \<and> f d \<le> f (last ds)"
  using assms by (induction ds) (auto split: if_splits)

lemma complete_bucket_range:
  assumes "aligned tf op" and "complete_bucket tf ds op" and "sorted (map nc_open_time ds)"
  shows "ds \<noteq> [] \<and> op \<le> daily_open (nc_open_time (last ds)) \<and> nc_open_time (hd ds) < next_open_time op tf"
proof -
  have day: "daily_open op = op" using assms(1) by (simp add: aligned_def)
  have "op \<in> day_range op (bucket_days tf op)"
    using next_open_days(2) [OF assms(1)] by (auto simp: day_range_eq intro!: exI [of _ 0])
  then have "op \<in> (\<lambda>d. daily_open (nc_open_time d)) ` set (members_of tf ds op)"
    by (simp only: assms(2) [unfolded complete_bucket_def])
  then obtain d where d: "d \<in> set ds" "op \<le> nc_open_time d" "nc_open_time d \<le> next_open_time op tf - seconds 1"
    by auto
  have ends: "nc_open_time (hd ds) \<le> nc_open_time d" "nc_open_time d \<le> nc_open_time (last ds)"
    using sorted_hd_last_bounds [OF assms(3) d(1)] by simp_all
  have "daily_open op \<le> daily_open (nc_open_time (last ds))"
    using d(2) ends(2) unfolding daily_open_def by (intro mult_right_mono zdiv_mono1) simp_all
  moreover have "0 < seconds 1" by (simp add: us_defs)
  moreover have "ds \<noteq> []" using d(1) by auto
  ultimately show ?thesis using d(3) ends(1) day by simp
qed

lemma aggregation_from:
  assumes "aligned tf cursor" and "cursor \<le> nc_open_time (hd ds)"
    and "ds = sort_candles (filter (\<lambda>d. nc_symbol d = symbol) dailies)"
  shows "\<exists>cs. aggregate_loop tf ds symbol et (daily_open (nc_open_time (last ds))) cursor = ret cs \<and>
    aggregation_ok tf dailies symbol et cs"
proof -
  have sorted: "sorted (map nc_open_time ds)" by (simp add: assms(3) sort_candles_def)
  obtain cs where cs: "aggregate_loop tf ds symbol et (daily_open (nc_open_time (last ds))) cursor = ret cs"
    "\<forall>c \<in> set cs. aligned tf (nc_open_time c) \<and> cursor \<le> nc_open_time c \<and> aggregates tf ds symbol c \<and> nc_close_time c \<le> et"
    "sorted_wrt (<) (map nc_open_time cs)"
    "{op. aligned tf op \<and> cursor \<le> op \<and> op \<le> daily_open (nc_open_time (last ds)) \<and> complete_bucket tf ds op \<and>
      next_open_time op tf - seconds 1 \<le> et} \<subseteq> nc_open_time ` set cs"
    using aggregate_loop_spec [OF assms(1) sorted] by blast
  have "op \<in> nc_open_time ` set cs" if op: "aligned tf op" "complete_bucket tf ds op" "next_open_time op tf - seconds 1 \<le> et" for op
  proof -
    note r = complete_bucket_range [OF op(1,2) sorted]
    have "cursor \<le> op"
    proof (rule ccontr)
      assume "\<not> cursor \<le> op"
      then have "next_open_time op tf \<le> cursor" using aligned_succ [OF op(1) assms(1)] by simp
      with r assms(2) show False by simp
    qed
    with r op cs(4) show ?thesis by blast
  qed
  with cs show ?thesis by (auto simp: aggregation_ok_def assms(3) [symmetric] Let_def)
qed

lemma no_dailies_ok:
  assumes "sort_candles (filter (\<lambda>d. nc_symbol d = symbol) dailies) = []"
  shows "aggregation_ok tf dailies symbol et []"
  using assms complete_bucket_range [of tf _ "[]"] by (auto simp: aggregation_ok_def Let_def)

lemma aggregate_weekly_ok:
  "\<exists>cs. aggregate_weekly_from_daily dailies symbol et = ret cs \<and> aggregation_ok MT_WEEKLY dailies symbol et cs"
proof -
  let ?ds = "sort_candles (filter (\<lambda>d. nc_symbol d = symbol) dailies)"
  let ?c = "weekly_open_containing (daily_open (nc_open_time (hd ?ds)))"
  have "aligned MT_WEEKLY ?c" "?c \<le> nc_open_time (hd ?ds)"
    using weekly_open_day [of "daily_open (nc_open_time (hd ?ds))"] weekly_open_bounds(1) [of "daily_open (nc_open_time (hd ?ds))"]
      daily_open_bounds(1) [of "nc_open_time (hd ?ds)"] by (simp_all add: aligned_def)
  from aggregation_from [OF this refl] no_dailies_ok show ?thesis
    by (auto simp: aggregate_weekly_from_daily_def Let_def)
qed

lemma aggregate_monthly_ok:
  "\<exists>cs. aggregate_monthly_from_daily dailies symbol et = ret cs \<and> aggregation_ok MT_MONTHLY dailies symbol et cs"
proof -
  let ?ds = "sort_candles (filter (\<lambda>d. nc_symbol d = symbol) dailies)"
  obtain y m d where t: "ymd (nc_open_time (hd ?ds)) = (y, m, d)" by (cases "ymd (nc_open_time (hd ?ds))") auto
  note b = ymd_bounds [OF t]
  have "aligned MT_MONTHLY (monthly_open y m)" using monthly_open_ymd [OF b(1,2), of y] by (simp add: aligned_def month_start_def)
  moreover have "monthly_open y m \<le> nc_open_time (hd ?ds)"
    using month_bounds(1) [of "nc_open_time (hd ?ds)"] by (simp add: month_start_def t)
  ultimately show ?thesis
    using aggregation_from [OF _ _ refl] no_dailies_ok by (fastforce simp: aggregate_monthly_from_daily_def Let_def t)
qed

section \<open>The merge prefers no source silently\<close>

abbreviation merge_conflict :: "market_symbol \<Rightarrow> market_timeframe \<Rightarrow> normalized_candle \<Rightarrow> normalized_candle \<Rightarrow> candle_conflict" where
  "merge_conflict symbol tf existing agg \<equiv>
     \<lparr>cc_key = \<lparr>ck_symbol = symbol, ck_timeframe = tf, ck_open_time = nc_open_time agg\<rparr>, cc_existing = existing, cc_incoming = agg\<rparr>"

definition merge_inv ::
  "market_symbol \<Rightarrow> market_timeframe \<Rightarrow> (datetime, normalized_candle) dict \<Rightarrow> normalized_candle list \<Rightarrow>
   (datetime, normalized_candle) dict \<times> candle_conflict list \<Rightarrow> bool"
where
  "merge_inv symbol tf native done_aggs st \<longleftrightarrow>
     (let (by_open, conflicts) = st; aggs = {a \<in> set done_aggs. nc_symbol a = symbol \<and> nc_timeframe a = tf}
      in distinct (dict_keys by_open) \<and>
         (\<forall>t c. dict_get native t = Some c \<longrightarrow> dict_get by_open t = Some c) \<and>
         (\<forall>t c. dict_get by_open t = Some c \<longrightarrow> dict_get native t = Some c \<or> c \<in> aggs \<and> nc_open_time c = t) \<and>
         (\<forall>a \<in> aggs. \<exists>c. dict_get by_open (nc_open_time a) = Some c \<and>
            (candles_equal c a \<or> merge_conflict symbol tf c a \<in> set conflicts)) \<and>
         (\<forall>x \<in> set conflicts. \<exists>a \<in> aggs. \<exists>c. dict_get by_open (nc_open_time a) = Some c \<and>
            x = merge_conflict symbol tf c a \<and> \<not> candles_equal c a))"

lemma merge_invD:
  assumes "merge_inv symbol tf native aggs (D, C)"
  shows "distinct (dict_keys D)"
    and "dict_get native t = Some c \<Longrightarrow> dict_get D t = Some c"
    and "dict_get D t = Some c \<Longrightarrow>
      dict_get native t = Some c \<or> c \<in> set aggs \<and> nc_symbol c = symbol \<and> nc_timeframe c = tf \<and> nc_open_time c = t"
    and "a \<in> set aggs \<Longrightarrow> nc_symbol a = symbol \<Longrightarrow> nc_timeframe a = tf \<Longrightarrow>
      \<exists>c. dict_get D (nc_open_time a) = Some c \<and> (candles_equal c a \<or> merge_conflict symbol tf c a \<in> set C)"
    and "x \<in> set C \<Longrightarrow> \<exists>a c. a \<in> set aggs \<and> nc_symbol a = symbol \<and> nc_timeframe a = tf \<and>
      dict_get D (nc_open_time a) = Some c \<and> x = merge_conflict symbol tf c a \<and> \<not> candles_equal c a"
  using assms unfolding merge_inv_def Let_def split_conv by (blast, blast, blast, blast, blast)

lemma merge_invI:
  assumes "distinct (dict_keys D)"
    and "\<And>t c. dict_get native t = Some c \<Longrightarrow> dict_get D t = Some c"
    and "\<And>t c. dict_get D t = Some c \<Longrightarrow>
      dict_get native t = Some c \<or> c \<in> set aggs \<and> nc_symbol c = symbol \<and> nc_timeframe c = tf \<and> nc_open_time c = t"
    and "\<And>a. a \<in> set aggs \<Longrightarrow> nc_symbol a = symbol \<Longrightarrow> nc_timeframe a = tf \<Longrightarrow>
      \<exists>c. dict_get D (nc_open_time a) = Some c \<and> (candles_equal c a \<or> merge_conflict symbol tf c a \<in> set C)"
    and "\<And>x. x \<in> set C \<Longrightarrow> \<exists>a c. a \<in> set aggs \<and> nc_symbol a = symbol \<and> nc_timeframe a = tf \<and>
      dict_get D (nc_open_time a) = Some c \<and> x = merge_conflict symbol tf c a \<and> \<not> candles_equal c a"
  shows "merge_inv symbol tf native aggs (D, C)"
  unfolding merge_inv_def Let_def split_conv
proof (intro conjI)
  show "\<forall>x \<in> set C. \<exists>a \<in> {a \<in> set aggs. nc_symbol a = symbol \<and> nc_timeframe a = tf}. \<exists>c.
      dict_get D (nc_open_time a) = Some c \<and> x = merge_conflict symbol tf c a \<and> \<not> candles_equal c a"
    using assms(5) by blast
qed (use assms(1-4) in blast)+

lemma merge_inv_step:
  assumes "merge_inv symbol tf native aggs (D, C)"
  shows "merge_inv symbol tf native (aggs @ [a]) (merge_step symbol tf (D, C) a)"
proof (cases "nc_symbol a = symbol \<and> nc_timeframe a = tf")
  case True
  note inv = merge_invD [OF assms]
  show ?thesis
  proof (cases "dict_get D (nc_open_time a)")
    case None
    let ?D = "dict_put (nc_open_time a) a D"
    have keep: "dict_get ?D t = Some c" if "dict_get D t = Some c" for t c using that None by auto
    have "merge_inv symbol tf native (aggs @ [a]) (?D, C)"
    proof (rule merge_invI)
      show "distinct (dict_keys ?D)" by (rule distinct_keys_put [OF inv(1)])
      show "dict_get ?D t = Some c" if "dict_get native t = Some c" for t c by (rule keep [OF inv(2) [OF that]])
      show "dict_get native t = Some c \<or>
          c \<in> set (aggs @ [a]) \<and> nc_symbol c = symbol \<and> nc_timeframe c = tf \<and> nc_open_time c = t"
        if "dict_get ?D t = Some c" for t c
        using that True inv(3) [of t c] by (auto split: if_splits)
      show "\<exists>c. dict_get ?D (nc_open_time b) = Some c \<and> (candles_equal c b \<or> merge_conflict symbol tf c b \<in> set C)"
        if "b \<in> set (aggs @ [a])" "nc_symbol b = symbol" "nc_timeframe b = tf" for b
      proof (cases "b = a")
        case True
        then show ?thesis by (simp add: candles_equal_def)
      next
        case False
        with that obtain c where "dict_get D (nc_open_time b) = Some c"
          "candles_equal c b \<or> merge_conflict symbol tf c b \<in> set C"
          using inv(4) [of b] by auto
        with keep show ?thesis by blast
      qed
      show "\<exists>b c. b \<in> set (aggs @ [a]) \<and> nc_symbol b = symbol \<and> nc_timeframe b = tf \<and>
          dict_get ?D (nc_open_time b) = Some c \<and> x = merge_conflict symbol tf c b \<and> \<not> candles_equal c b"
        if "x \<in> set C" for x
        using inv(5) [OF that] keep by (metis UnI1 set_append)
    qed
    with True None show ?thesis by (simp add: merge_step_def)
  next
    case (Some e)
    let ?C = "if candles_equal e a then C else C @ [merge_conflict symbol tf e a]"
    have "merge_inv symbol tf native (aggs @ [a]) (D, ?C)"
    proof (rule merge_invI [OF inv(1) inv(2)])
      show "dict_get native t = Some c \<or>
          c \<in> set (aggs @ [a]) \<and> nc_symbol c = symbol \<and> nc_timeframe c = tf \<and> nc_open_time c = t"
        if "dict_get D t = Some c" for t c
        using inv(3) [OF that] by auto
      show "\<exists>c. dict_get D (nc_open_time b) = Some c \<and> (candles_equal c b \<or> merge_conflict symbol tf c b \<in> set ?C)"
        if "b \<in> set (aggs @ [a])" "nc_symbol b = symbol" "nc_timeframe b = tf" for b
        using that Some inv(4) [of b] by (cases "b = a") auto
      show "\<exists>b c. b \<in> set (aggs @ [a]) \<and> nc_symbol b = symbol \<and> nc_timeframe b = tf \<and>
          dict_get D (nc_open_time b) = Some c \<and> x = merge_conflict symbol tf c b \<and> \<not> candles_equal c b"
        if "x \<in> set ?C" for x
      proof (cases "x \<in> set C")
        case True
        from inv(5) [OF this] show ?thesis by (metis UnI1 set_append)
      next
        case False
        with that have "x = merge_conflict symbol tf e a" "\<not> candles_equal e a" by (auto split: if_splits)
        with True Some show ?thesis by (intro exI [of _ a] exI [of _ e]) simp
      qed
    qed assumption
    with True Some show ?thesis by (cases "candles_equal e a") (simp_all add: merge_step_def)
  qed
next
  case False
  then have "merge_step symbol tf (D, C) a = (D, C)" by (simp add: merge_step_def)
  moreover have "{x \<in> set (aggs @ [a]). nc_symbol x = symbol \<and> nc_timeframe x = tf} =
      {x \<in> set aggs. nc_symbol x = symbol \<and> nc_timeframe x = tf}" using False by auto
  ultimately show ?thesis using assms by (simp only: merge_inv_def)
qed

lemma merge_inv_all:
  "distinct (dict_keys native) \<Longrightarrow> merge_inv symbol tf native aggs (foldl (merge_step symbol tf) (native, []) aggs)"
proof (induction aggs rule: rev_induct)
  case Nil
  then show ?case by (simp add: merge_inv_def)
next
  case (snoc a aggs)
  then have "merge_inv symbol tf native aggs (foldl (merge_step symbol tf) (native, []) aggs)" .
  then show ?case
    by (cases "foldl (merge_step symbol tf) (native, []) aggs") (simp only: foldl_append foldl.simps merge_inv_step)
qed

lemma native_by_open_Some:
  assumes "dict_get (native_by_open native symbol tf) t = Some c"
  shows "c \<in> set native \<and> nc_symbol c = symbol \<and> nc_timeframe c = tf \<and> nc_open_time c = t"
  using assms by (auto simp: native_by_open_def get_dict_of dest!: map_of_SomeD)

lemma merge_spec:
  assumes "merge_native_and_aggregated native aggs symbol tf = (cs, conflicts)"
  shows "merge_inv symbol tf (native_by_open native symbol tf) aggs
      (foldl (merge_step symbol tf) (native_by_open native symbol tf, []) aggs)"
    and "conflicts = snd (foldl (merge_step symbol tf) (native_by_open native symbol tf, []) aggs)"
    and "c \<in> set cs \<longleftrightarrow> dict_get (fst (foldl (merge_step symbol tf) (native_by_open native symbol tf, []) aggs)) (nc_open_time c) = Some c"
proof -
  let ?r = "foldl (merge_step symbol tf) (native_by_open native symbol tf, []) aggs"
  have distinct: "distinct (dict_keys (native_by_open native symbol tf))"
    by (simp add: native_by_open_def distinct_keys_dict_of)
  show inv: "merge_inv symbol tf (native_by_open native symbol tf) aggs ?r" by (rule merge_inv_all [OF distinct])
  obtain D C where r: "?r = (D, C)" by (cases ?r) auto
  show "conflicts = snd ?r" using assms by (simp add: merge_native_and_aggregated_def r)
  note inv' = merge_invD [OF inv [unfolded r]]
  note keys = inv'(1)
  have opens: "nc_open_time c = t" if "dict_get D t = Some c" for t c
    using inv'(3) [OF that] native_by_open_Some by blast
  have "cs = sort_candles (dict_values D)" using assms by (simp add: merge_native_and_aggregated_def r)
  then have "c \<in> set cs \<longleftrightarrow> (\<exists>t. dict_get D t = Some c)" by (simp add: sort_candles_def values_mem_iff [OF keys])
  with opens show "c \<in> set cs \<longleftrightarrow> dict_get (fst ?r) (nc_open_time c) = Some c" by (auto simp: r)
qed

lemma merge_ok:
  assumes "merge_native_and_aggregated native aggs symbol tf = (cs, conflicts)"
  shows "sorted_wrt (<) (map nc_open_time cs)"
    and "c \<in> set cs \<Longrightarrow> c \<in> set native \<union> set aggs \<and> nc_symbol c = symbol \<and> nc_timeframe c = tf"
    and "n \<in> set native \<Longrightarrow> nc_symbol n = symbol \<Longrightarrow> nc_timeframe n = tf \<Longrightarrow>
      \<exists>c \<in> set cs. c \<in> set native \<and> nc_open_time c = nc_open_time n"
    and "a \<in> set aggs \<Longrightarrow> nc_symbol a = symbol \<Longrightarrow> nc_timeframe a = tf \<Longrightarrow>
      \<exists>c \<in> set cs. nc_open_time c = nc_open_time a \<and> (candles_equal c a \<or> merge_conflict symbol tf c a \<in> set conflicts)"
    and "x \<in> set conflicts \<Longrightarrow> \<exists>a c. a \<in> set aggs \<and> c \<in> set cs \<and> nc_open_time c = nc_open_time a \<and>
      x = merge_conflict symbol tf c a \<and> \<not> candles_equal c a"
proof -
  let ?N = "native_by_open native symbol tf"
  obtain D C where r: "foldl (merge_step symbol tf) (?N, []) aggs = (D, C)" by fastforce
  note spec = merge_spec [OF assms, unfolded r]
  note inv = merge_invD [OF spec(1)]
  have mem: "c \<in> set cs \<longleftrightarrow> dict_get D (nc_open_time c) = Some c" for c using spec(3) by (simp only: fst_conv)
  have at_open: "c \<in> set cs \<and> nc_open_time c = t" if "dict_get D t = Some c" for t c
  proof -
    have "nc_open_time c = t" using inv(3) [OF that] native_by_open_Some [of native symbol tf t c] by blast
    with that mem show ?thesis by blast
  qed
  have cs: "cs = sort_candles (dict_values D)" using assms by (simp add: merge_native_and_aggregated_def r)
  have "inj_on nc_open_time (set cs)"
  proof (rule inj_onI)
    fix x y assume "x \<in> set cs" "y \<in> set cs" "nc_open_time x = nc_open_time y"
    then show "x = y" using mem [of x] mem [of y] by (metis option.inject)
  qed
  moreover have "distinct (dict_values D)"
  proof -
    have "dict_keys D = map nc_open_time (dict_values D)"
    proof -
      have "fst kv = nc_open_time (snd kv)" if "kv \<in> set D" for kv
        using at_open [of "fst kv" "snd kv"] map_of_is_SomeI [of D "fst kv" "snd kv"] that inv(1)
        by (simp add: dict_keys_def)
      then show ?thesis by (simp add: dict_keys_def dict_values_def)
    qed
    with inv(1) show ?thesis by (simp add: distinct_map)
  qed
  ultimately have "distinct (map nc_open_time cs)" by (simp add: distinct_map cs sort_candles_def)
  moreover have "sorted (map nc_open_time cs)" by (simp add: cs sort_candles_def)
  ultimately show "sorted_wrt (<) (map nc_open_time cs)" by (simp add: strict_sorted_iff)
  show "c \<in> set native \<union> set aggs \<and> nc_symbol c = symbol \<and> nc_timeframe c = tf" if "c \<in> set cs"
    using inv(3) [OF that [unfolded mem]] native_by_open_Some [of native symbol tf "nc_open_time c" c] by blast
  show "\<exists>c \<in> set cs. c \<in> set native \<and> nc_open_time c = nc_open_time n"
    if n: "n \<in> set native" "nc_symbol n = symbol" "nc_timeframe n = tf"
  proof -
    have "nc_open_time n \<in> fst ` set (rev (map (\<lambda>c. (nc_open_time c, c)) (filter (\<lambda>c. nc_symbol c = symbol \<and> nc_timeframe c = tf) native)))"
      using n by force
    then have "dict_get ?N (nc_open_time n) \<noteq> None" unfolding native_by_open_def get_dict_of map_of_eq_None_iff by blast
    then obtain c where c: "dict_get ?N (nc_open_time n) = Some c" by blast
    with at_open [OF inv(2) [OF c]] native_by_open_Some [OF c] show ?thesis by blast
  qed
  show "\<exists>c \<in> set cs. nc_open_time c = nc_open_time a \<and> (candles_equal c a \<or> merge_conflict symbol tf c a \<in> set conflicts)"
    if "a \<in> set aggs" "nc_symbol a = symbol" "nc_timeframe a = tf"
    using inv(4) [OF that] at_open spec(2) by (metis snd_conv)
  show "\<exists>a c. a \<in> set aggs \<and> c \<in> set cs \<and> nc_open_time c = nc_open_time a \<and>
      x = merge_conflict symbol tf c a \<and> \<not> candles_equal c a" if "x \<in> set conflicts"
    using inv(5) [of x] that spec(2) at_open by (metis snd_conv)
qed

end
