(* ===== verification/Market_Bundle.thy ===== *)
theory Market_Bundle
  imports Market_Aggregation Strategy_Engine
begin

text \<open>
  The in-memory candle repository (\<open>services/market_data/repository.py\<close>) and the assembly of the
  strategy's input (\<open>services/market_data/bundle.py\<close>). The two upserts satisfy one contract, the
  locale \<open>candle_writer\<close>: a stored candle is only replaced while its bucket is open, and a write that
  is refused because it differs is recorded as a conflict. The main result is that a bundle reported
  as usable is well-formed input of the strategy engine, so that the engine's own fail-closed
  validation never rejects what the market data service released.
\<close>

section \<open>The repository\<close>

record candle_repository =
  cr_store :: "(candle_key, normalized_candle) dict"
  cr_conflicts :: "candle_conflict list"

definition empty_repository :: candle_repository where
  "empty_repository = \<lparr>cr_store = [], cr_conflicts = []\<rparr>"

definition store_candle :: "candle_repository \<Rightarrow> normalized_candle \<Rightarrow> candle_repository" where
  "store_candle r c = r\<lparr>cr_store := dict_put (nc_key c) c (cr_store r)\<rparr>"

definition record_conflict ::
  "candle_repository \<Rightarrow> normalized_candle \<Rightarrow> normalized_candle \<Rightarrow> candle_repository \<times> bool \<times> candle_conflict option"
where
  "record_conflict r existing c =
     (let conflict = \<lparr>cc_key = nc_key c, cc_existing = existing, cc_incoming = c\<rparr>
      in (r\<lparr>cr_conflicts := cr_conflicts r @ [conflict]\<rparr>, False, Some conflict))"

definition upsert ::
  "candle_repository \<Rightarrow> normalized_candle \<Rightarrow> candle_repository \<times> bool \<times> candle_conflict option" where
  "upsert r c =
     (case dict_get (cr_store r) (nc_key c) of
        None \<Rightarrow> (store_candle r c, True, None)
      | Some existing \<Rightarrow>
          if candles_equal existing c then (r, False, None)
          else record_conflict r existing c)"

definition upsert_live ::
  "datetime \<Rightarrow> candle_repository \<Rightarrow> normalized_candle \<Rightarrow> candle_repository \<times> bool \<times> candle_conflict option" where
  "upsert_live evaluation_time r c =
     (case dict_get (cr_store r) (nc_key c) of
        None \<Rightarrow> (store_candle r c, True, None)
      | Some existing \<Rightarrow>
          if candles_equal existing c then (r, False, None)
          else if \<not> nc_is_closed existing \<and> nc_is_closed c then (store_candle r c, True, None)
          else if \<not> is_candle_closed (nc_close_time existing) evaluation_time then (store_candle r c, True, None)
          else record_conflict r existing c)"

definition upsert_many_step ::
  "candle_repository \<times> nat \<times> candle_conflict list \<Rightarrow> normalized_candle \<Rightarrow> candle_repository \<times> nat \<times> candle_conflict list"
where
  "upsert_many_step st c =
     (let (r, inserted, conflicts) = st; (r', added, conflict) = upsert r c
      in (r', if added then inserted + 1 else inserted,
          case conflict of None \<Rightarrow> conflicts | Some x \<Rightarrow> conflicts @ [x]))"

definition upsert_many ::
  "candle_repository \<Rightarrow> normalized_candle list \<Rightarrow> candle_repository \<times> nat \<times> candle_conflict list" where
  "upsert_many r cs = foldl upsert_many_step (r, 0, []) cs"

definition get_range ::
  "candle_repository \<Rightarrow> market_symbol \<Rightarrow> market_timeframe \<Rightarrow> datetime option \<Rightarrow> datetime option \<Rightarrow> normalized_candle list" where
  "get_range r symbol tf start stop =
     sort_candles (map snd (filter (\<lambda>(k, c).
       ck_symbol k = symbol \<and> ck_timeframe k = tf \<and>
       (case start of None \<Rightarrow> True | Some t \<Rightarrow> t \<le> nc_open_time c) \<and>
       (case stop of None \<Rightarrow> True | Some t \<Rightarrow> nc_open_time c \<le> t)) (cr_store r)))"

definition get_latest :: "candle_repository \<Rightarrow> market_symbol \<Rightarrow> market_timeframe \<Rightarrow> normalized_candle option" where
  "get_latest r symbol tf =
     (let cs = get_range r symbol tf None None in if cs \<noteq> [] then Some (last cs) else None)"

definition get_closed_before ::
  "candle_repository \<Rightarrow> market_symbol \<Rightarrow> market_timeframe \<Rightarrow> datetime \<Rightarrow> normalized_candle list" where
  "get_closed_before r symbol tf evaluation_time =
     filter (\<lambda>c. is_candle_closed (nc_close_time c) evaluation_time) (get_range r symbol tf None None)"

definition repository_detect_gaps ::
  "candle_repository \<Rightarrow> market_symbol \<Rightarrow> market_timeframe \<Rightarrow> datetime \<Rightarrow> candle_gap list comp" where
  "repository_detect_gaps r symbol tf evaluation_time =
     detect_gaps (get_closed_before r symbol tf evaluation_time) symbol tf evaluation_time"

definition repository_clear :: "candle_repository \<Rightarrow> candle_repository" where
  "repository_clear r = r\<lparr>cr_store := [], cr_conflicts := []\<rparr>"

section \<open>The strategy bundle\<close>

definition status_priority :: "md_quality_status \<Rightarrow> nat" where
  "status_priority s =
     (case s of Q_INVALID \<Rightarrow> 4 | Q_INCOMPLETE \<Rightarrow> 3 | Q_STALE \<Rightarrow> 2 | Q_DISCONNECTED \<Rightarrow> 2 | Q_VALID \<Rightarrow> 0)"

text \<open>Python's \<open>max\<close> with a key: the first of the largest.\<close>

definition worst_report :: "quality_report \<Rightarrow> quality_report list \<Rightarrow> quality_report" where
  "worst_report r rs =
     foldl (\<lambda>w x. if status_priority (qr_status w) < status_priority (qr_status x) then x else w) r rs"

definition merge_reports :: "quality_report list \<Rightarrow> quality_report comp" where
  "merge_reports reports =
     (case reports of
        [] \<Rightarrow> raise (ValueError ''No reports to merge'')
      | r # rs \<Rightarrow>
          let worst = worst_report r rs;
              unique_codes = unique (concat (map qr_reason_codes reports))
          in ret \<lparr>qr_status = qr_status worst,
                  qr_reason_codes = (if qr_status worst = Q_VALID then [MD_VALID] else unique_codes),
                  qr_gaps = concat (map qr_gaps reports),
                  qr_conflicts = concat (map qr_conflicts reports),
                  qr_missing_ranges = concat (map qr_missing_ranges reports),
                  qr_last_known_candle = qr_last_known_candle (last reports),
                  qr_expected_next_open = qr_expected_next_open (last reports),
                  qr_evaluation_time = qr_evaluation_time r,
                  qr_messages = concat (map qr_messages reports)\<rparr>)"

definition conflicts_for ::
  "candle_conflict list \<Rightarrow> market_symbol \<Rightarrow> market_timeframe \<Rightarrow> candle_conflict list" where
  "conflicts_for conflicts symbol tf =
     filter (\<lambda>c. ck_symbol (cc_key c) = symbol \<and> ck_timeframe (cc_key c) = tf) conflicts"

definition gap_check_time :: "normalized_candle list \<Rightarrow> datetime \<Rightarrow> market_timeframe \<Rightarrow> datetime" where
  "gap_check_time closed_candles evaluation_time tf =
     (if tf = MT_DAILY \<or> closed_candles = [] then evaluation_time
      else min evaluation_time (nc_close_time (last closed_candles)))"

definition resolve_higher_timeframe ::
  "candle_repository \<Rightarrow> normalized_candle list \<Rightarrow> market_symbol \<Rightarrow> market_timeframe \<Rightarrow> datetime \<Rightarrow> bool \<Rightarrow>
   (normalized_candle list \<times> candle_conflict list) comp"
where
  "resolve_higher_timeframe r daily_closed symbol tf evaluation_time aggregate_higher_timeframes =
     (let native = get_closed_before r symbol tf evaluation_time
      in if \<not> aggregate_higher_timeframes then ret (native, [])
         else case tf of
                MT_WEEKLY \<Rightarrow>
                  cbind (aggregate_weekly_from_daily daily_closed symbol evaluation_time) (\<lambda>aggregated.
                  ret (merge_native_and_aggregated native aggregated symbol tf))
              | MT_MONTHLY \<Rightarrow>
                  cbind (aggregate_monthly_from_daily daily_closed symbol evaluation_time) (\<lambda>aggregated.
                  ret (merge_native_and_aggregated native aggregated symbol tf))
              | MT_DAILY \<Rightarrow> ret (native, []))"

text \<open>The slice \<open>candles[-minimum:]\<close>, for a minimum that is not negative.\<close>

definition to_series :: "normalized_candle list \<Rightarrow> string \<Rightarrow> timeframe \<Rightarrow> nat \<Rightarrow> candle_series" where
  "to_series cs symbol tf minimum =
     (let selected = (if minimum \<noteq> 0 then drop (length cs - minimum) cs else cs)
      in \<lparr>s_symbol = symbol, s_timeframe = tf,
          candles = map (\<lambda>c. (to_strategy_candle c)\<lparr>is_closed := True\<rparr>) selected\<rparr>)"

definition insufficient_report :: "quality_report \<Rightarrow> datetime \<Rightarrow> quality_report" where
  "insufficient_report merged evaluation_time =
     \<lparr>qr_status = (if qr_status merged = Q_INVALID then Q_INVALID else Q_INCOMPLETE),
      qr_reason_codes = unique (qr_reason_codes merged @ [MD_INCOMPLETE]),
      qr_gaps = qr_gaps merged, qr_conflicts = qr_conflicts merged,
      qr_missing_ranges = qr_missing_ranges merged,
      qr_last_known_candle = qr_last_known_candle merged,
      qr_expected_next_open = qr_expected_next_open merged,
      qr_evaluation_time = evaluation_time,
      qr_messages = qr_messages merged @ [''Insufficient candle history'']\<rparr>"

text \<open>The gaps and the report of one closed series; the source inlines it for each timeframe.\<close>

definition series_report ::
  "candle_repository \<Rightarrow> market_symbol \<Rightarrow> market_timeframe \<Rightarrow> datetime \<Rightarrow> normalized_candle list \<Rightarrow>
   candle_conflict list \<Rightarrow> quality_report comp"
where
  "series_report r symbol tf evaluation_time closed_candles merge_conflicts =
     cbind (detect_gaps closed_candles symbol tf (gap_check_time closed_candles evaluation_time tf)) (\<lambda>gaps.
     validate_series closed_candles symbol tf evaluation_time gaps
       (conflicts_for (cr_conflicts r) symbol tf @ merge_conflicts))"

definition get_strategy_bundle ::
  "candle_repository \<Rightarrow> market_symbol \<Rightarrow> datetime \<Rightarrow> nat \<Rightarrow> nat \<Rightarrow> nat \<Rightarrow> bool \<Rightarrow> strategy_data_bundle comp"
where
  "get_strategy_bundle r symbol evaluation_time daily_minimum weekly_minimum monthly_minimum aggregate_higher =
     (let daily_closed = get_closed_before r symbol MT_DAILY evaluation_time
      in cbind (series_report r symbol MT_DAILY evaluation_time daily_closed []) (\<lambda>daily_report.
         cbind (resolve_higher_timeframe r daily_closed symbol MT_WEEKLY evaluation_time aggregate_higher)
           (\<lambda>(weekly_all, weekly_merge_conflicts).
         cbind (resolve_higher_timeframe r daily_closed symbol MT_MONTHLY evaluation_time aggregate_higher)
           (\<lambda>(monthly_all, monthly_merge_conflicts).
         let weekly_closed = filter_closed_candles weekly_all evaluation_time;
             monthly_closed = filter_closed_candles monthly_all evaluation_time
         in cbind (series_report r symbol MT_WEEKLY evaluation_time weekly_closed weekly_merge_conflicts) (\<lambda>weekly_report.
            cbind (series_report r symbol MT_MONTHLY evaluation_time monthly_closed monthly_merge_conflicts) (\<lambda>monthly_report.
            cbind (merge_reports [daily_report, weekly_report, monthly_report]) (\<lambda>merged.
            let report = (if length daily_closed < daily_minimum \<or> length weekly_closed < weekly_minimum \<or>
                             length monthly_closed < monthly_minimum
                          then insufficient_report merged evaluation_time else merged);
                sym = market_symbol_value symbol
            in ret \<lparr>sb_symbol = symbol, sb_evaluation_time = evaluation_time,
                    sb_daily = to_series daily_closed sym DAILY daily_minimum,
                    sb_weekly = to_series weekly_closed sym WEEKLY weekly_minimum,
                    sb_monthly = to_series monthly_closed sym MONTHLY monthly_minimum,
                    sb_report = report\<rparr>)))))))"

section \<open>The contract of a write\<close>

text \<open>Every entry stands under the key of its candle, and a key has one entry.\<close>

definition repository_ok :: "candle_repository \<Rightarrow> bool" where
  "repository_ok r \<longleftrightarrow> distinct (dict_keys (cr_store r)) \<and> all_entries (\<lambda>k c. nc_key c = k) (cr_store r)"

lemma store_candle_ok: "repository_ok r \<Longrightarrow> repository_ok (store_candle r c)"
  unfolding repository_ok_def store_candle_def by (auto intro!: distinct_keys_put all_entries_put)

text \<open>
  What a client of the repository relies on. The parameter \<open>final\<close> says which stored candles the write
  may no longer replace; the conflicts only grow.
\<close>

locale candle_writer =
  fixes put :: "candle_repository \<Rightarrow> normalized_candle \<Rightarrow> candle_repository \<times> bool \<times> candle_conflict option"
    and final :: "normalized_candle \<Rightarrow> bool"
  assumes write_ok: "repository_ok r \<Longrightarrow> repository_ok (fst (put r c))"
    and write_stored: "dict_get (cr_store (fst (put r c))) (nc_key c) \<noteq> None"
    and write_other: "k \<noteq> nc_key c \<Longrightarrow> dict_get (cr_store (fst (put r c))) k = dict_get (cr_store r) k"
    and write_final: "dict_get (cr_store r) k = Some e \<Longrightarrow> final e \<Longrightarrow> dict_get (cr_store (fst (put r c))) k = Some e"
    and write_conflicts: "\<exists>new. cr_conflicts (fst (put r c)) = cr_conflicts r @ new"
    and write_reports: "dict_get (cr_store r) (nc_key c) = Some e \<Longrightarrow> final e \<Longrightarrow> \<not> candles_equal e c \<Longrightarrow>
      \<lparr>cc_key = nc_key c, cc_existing = e, cc_incoming = c\<rparr> \<in> set (cr_conflicts (fst (put r c)))"
begin

definition write_all :: "candle_repository \<Rightarrow> normalized_candle list \<Rightarrow> candle_repository" where
  "write_all r cs = foldl (\<lambda>r c. fst (put r c)) r cs"

lemma write_all_ok: "repository_ok r \<Longrightarrow> repository_ok (write_all r cs)"
  unfolding write_all_def by (induction cs arbitrary: r) (simp_all add: write_ok)

lemma write_all_final:
  "dict_get (cr_store r) k = Some e \<Longrightarrow> final e \<Longrightarrow> dict_get (cr_store (write_all r cs)) k = Some e"
  unfolding write_all_def by (induction cs arbitrary: r) (simp_all add: write_final)

lemma write_all_conflicts: "set (cr_conflicts r) \<subseteq> set (cr_conflicts (write_all r cs))"
  unfolding write_all_def
proof (induction cs arbitrary: r)
  case (Cons c cs)
  obtain new where "cr_conflicts (fst (put r c)) = cr_conflicts r @ new" using write_conflicts by blast
  with Cons.IH [of "fst (put r c)"] show ?case by simp
qed simp

text \<open>Of a sequence of writes, each that differs from a final candle under its key is reported.\<close>

lemma write_all_reports:
  assumes "dict_get (cr_store r) (nc_key c) = Some e" and "final e" and "\<not> candles_equal e c" and "c \<in> set cs"
  shows "\<lparr>cc_key = nc_key c, cc_existing = e, cc_incoming = c\<rparr> \<in> set (cr_conflicts (write_all r cs))"
proof -
  from assms(4) obtain us vs where cs: "cs = us @ c # vs" by (meson split_list)
  let ?r = "write_all r us"
  have "write_all r cs = write_all (fst (put ?r c)) vs" by (simp add: write_all_def cs)
  moreover have "dict_get (cr_store ?r) (nc_key c) = Some e" using assms(1,2) by (rule write_all_final)
  ultimately show ?thesis using write_reports [OF _ assms(2,3)] write_all_conflicts by (metis subsetD)
qed

end

lemmas upsert_defs = upsert_def upsert_live_def store_candle_def record_conflict_def

lemma store_absent: "dict_get (cr_store r) (nc_key c) = None \<Longrightarrow> dict_get (cr_store r) k = Some e \<Longrightarrow> k \<noteq> nc_key c"
  by auto

interpretation batch: candle_writer upsert "\<lambda>_. True"
proof
  show "repository_ok (fst (upsert r c))" if "repository_ok r" for r c
    using that store_candle_ok [OF that, of c]
    by (simp add: upsert_def record_conflict_def repository_ok_def Let_def split: option.split)
qed (auto simp: upsert_defs Let_def split: option.splits if_splits)

text \<open>
  The live write: final are the candles flagged closed whose bucket has ended at the evaluation time.
\<close>

abbreviation live_final :: "datetime \<Rightarrow> normalized_candle \<Rightarrow> bool" where
  "live_final et e \<equiv> nc_is_closed e \<and> is_candle_closed (nc_close_time e) et"

interpretation live: candle_writer "upsert_live et" "live_final et" for et
proof
  show "repository_ok (fst (upsert_live et r c))" if "repository_ok r" for r c
    using that store_candle_ok [OF that, of c]
    by (simp add: upsert_live_def record_conflict_def repository_ok_def Let_def split: option.split)
qed (auto simp: upsert_defs Let_def split: option.splits if_splits)

lemma upsert_many_step_fold: "fst (foldl upsert_many_step (r, n, xs) cs) = foldl (\<lambda>r c. fst (upsert r c)) r cs"
proof (induction cs arbitrary: r n xs)
  case (Cons c cs)
  obtain r' added conflict where u: "upsert r c = (r', added, conflict)" by (cases "upsert r c") auto
  have "upsert_many_step (r, n, xs) c = (r', if added then n + 1 else n, case conflict of None \<Rightarrow> xs | Some x \<Rightarrow> xs @ [x])"
    by (simp add: upsert_many_step_def u)
  then show ?case by (simp only: foldl.simps Cons.IH u fst_conv)
qed simp

lemma upsert_many_writes: "fst (upsert_many r cs) = batch.write_all r cs"
  unfolding upsert_many_def batch.write_all_def by (rule upsert_many_step_fold)

section \<open>A usable bundle\<close>

lemma get_range_mem:
  assumes "repository_ok r"
  shows "c \<in> set (get_range r symbol tf None None) \<longleftrightarrow>
    dict_get (cr_store r) (nc_key c) = Some c \<and> nc_symbol c = symbol \<and> nc_timeframe c = tf"
proof -
  have d: "distinct (map fst (cr_store r))" and k: "all_entries (\<lambda>k c. nc_key c = k) (cr_store r)"
    using assms by (simp_all add: repository_ok_def dict_keys_def)
  have key: "ck_symbol (nc_key c) = nc_symbol c" "ck_timeframe (nc_key c) = nc_timeframe c" by (simp_all add: nc_key_def)
  have "c \<in> set (get_range r symbol tf None None) \<longleftrightarrow>
      (\<exists>k. (k, c) \<in> set (cr_store r) \<and> ck_symbol k = symbol \<and> ck_timeframe k = tf)"
    unfolding get_range_def sort_candles_def set_sort set_map set_filter by force
  also have "\<dots> \<longleftrightarrow> (\<exists>k. dict_get (cr_store r) k = Some c \<and> ck_symbol k = symbol \<and> ck_timeframe k = tf)"
    by (simp only: map_of_eq_Some_iff [OF d])
  also have "\<dots> \<longleftrightarrow> dict_get (cr_store r) (nc_key c) = Some c \<and> nc_symbol c = symbol \<and> nc_timeframe c = tf"
    using all_entriesD [OF k] key by metis
  finally show ?thesis .
qed

lemma worst_report_VALID: "qr_status (worst_report r rs) = Q_VALID \<longleftrightarrow> (\<forall>x \<in> set (r # rs). qr_status x = Q_VALID)"
proof -
  have 0: "status_priority s = 0 \<longleftrightarrow> s = Q_VALID" for s by (simp add: status_priority_def split: md_quality_status.split)
  have "status_priority (qr_status (worst_report r rs)) = 0 \<longleftrightarrow> (\<forall>x \<in> set (r # rs). status_priority (qr_status x) = 0)"
    unfolding worst_report_def
  proof (induction rs arbitrary: r)
    case (Cons x rs)
    show ?case unfolding foldl.simps Cons.IH by auto
  qed simp
  then show ?thesis by (simp only: 0)
qed

lemma merge_reports_VALID:
  assumes "merge_reports rs = ret m"
  shows "qr_status m = Q_VALID \<longleftrightarrow> (\<forall>x \<in> set rs. qr_status x = Q_VALID)"
  using assms worst_report_VALID by (auto simp: merge_reports_def Let_def split: list.splits)

text \<open>The closed series behind a bundle: what the report of one timeframe being valid says of it.\<close>

definition released ::
  "candle_repository \<Rightarrow> market_symbol \<Rightarrow> market_timeframe \<Rightarrow> datetime \<Rightarrow> normalized_candle list \<Rightarrow> bool" where
  "released r symbol tf et cs \<longleftrightarrow>
     cs \<noteq> [] \<and> conflicts_for (cr_conflicts r) symbol tf = [] \<and>
     (\<forall>c \<in> set cs. good_market_candle symbol tf et c) \<and> successively before cs \<and>
     detect_gaps cs symbol tf (gap_check_time cs et tf) = ret []"

lemma series_report_VALID:
  assumes "series_report r symbol tf et cs mcs = ret rep" and "qr_status rep = Q_VALID"
  shows "released r symbol tf et cs \<and> mcs = []"
proof -
  from assms(1) obtain gaps where g: "detect_gaps cs symbol tf (gap_check_time cs et tf) = ret gaps"
    "validate_series cs symbol tf et gaps (conflicts_for (cr_conflicts r) symbol tf @ mcs) = ret rep"
    by (auto simp: series_report_def cbind_eq_ret)
  with assms(2) validate_series_VALID [of cs symbol tf et gaps "conflicts_for (cr_conflicts r) symbol tf @ mcs"]
  show ?thesis by (auto simp: released_def)
qed

lemma usable_bundle_series:
  assumes "get_strategy_bundle r symbol et dmin wmin mmin agg = ret b" and "is_usable b"
  shows "\<exists>weekly monthly.
    (let daily = get_closed_before r symbol MT_DAILY et; sym = market_symbol_value symbol
     in released r symbol MT_DAILY et daily \<and> released r symbol MT_WEEKLY et weekly \<and>
        released r symbol MT_MONTHLY et monthly \<and>
        dmin \<le> length daily \<and> wmin \<le> length weekly \<and> mmin \<le> length monthly \<and>
        sb_symbol b = symbol \<and> sb_evaluation_time b = et \<and>
        sb_daily b = to_series daily sym DAILY dmin \<and> sb_weekly b = to_series weekly sym WEEKLY wmin \<and>
        sb_monthly b = to_series monthly sym MONTHLY mmin)"
proof -
  let ?d = "get_closed_before r symbol MT_DAILY et"
  from assms(1) obtain dr w wc m mc wr mr rep where
    dr: "series_report r symbol MT_DAILY et ?d [] = ret dr"
    and wr: "series_report r symbol MT_WEEKLY et (filter_closed_candles w et) wc = ret wr"
    and mr: "series_report r symbol MT_MONTHLY et (filter_closed_candles m et) mc = ret mr"
    and rep: "merge_reports [dr, wr, mr] = ret rep"
    and b: "b = (let daily_closed = ?d; weekly_closed = filter_closed_candles w et;
        monthly_closed = filter_closed_candles m et; sym = market_symbol_value symbol;
        report = (if length daily_closed < dmin \<or> length weekly_closed < wmin \<or> length monthly_closed < mmin
                  then insufficient_report rep et else rep)
      in \<lparr>sb_symbol = symbol, sb_evaluation_time = et, sb_daily = to_series daily_closed sym DAILY dmin,
          sb_weekly = to_series weekly_closed sym WEEKLY wmin,
          sb_monthly = to_series monthly_closed sym MONTHLY mmin, sb_report = report\<rparr>)"
    unfolding get_strategy_bundle_def Let_def by (auto simp: cbind_eq_ret)
  have enough: "\<not> (length ?d < dmin \<or> length (filter_closed_candles w et) < wmin \<or> length (filter_closed_candles m et) < mmin)"
    and "qr_status rep = Q_VALID"
    using assms(2) unfolding b is_usable_def report_is_valid_def Let_def
    by (auto simp: insufficient_report_def split: if_splits)
  with merge_reports_VALID [OF rep] have "qr_status dr = Q_VALID" "qr_status wr = Q_VALID" "qr_status mr = Q_VALID"
    by simp_all
  with series_report_VALID dr wr mr have "released r symbol MT_DAILY et ?d"
    "released r symbol MT_WEEKLY et (filter_closed_candles w et)"
    "released r symbol MT_MONTHLY et (filter_closed_candles m et)" by blast+
  with enough show ?thesis unfolding b Let_def
    by (intro exI [of _ "filter_closed_candles w et"] exI [of _ "filter_closed_candles m et"]) auto
qed

text \<open>The conversion to the strategy's series.\<close>

definition floats_finite :: "candle_series \<Rightarrow> bool" where
  "floats_finite s \<longleftrightarrow>
     (\<forall>c \<in> set (candles s). \<forall>v \<in> {c_open c, c_high c, c_low c, c_close c, c_volume c}. float_is_finite v)"

lemma to_series_well_formed:
  assumes "released r symbol tf et cs" and "n \<le> length cs" and "to_strategy_timeframe tf = stf"
    and "floats_finite (to_series cs (market_symbol_value symbol) stf n)"
  shows "well_formed_series (to_series cs (market_symbol_value symbol) stf n) et"
proof -
  let ?s = "to_series cs (market_symbol_value symbol) stf n"
  define sel where "sel = (if n \<noteq> 0 then drop (length cs - n) cs else cs)"
  have cands: "candles ?s = map (\<lambda>c. (to_strategy_candle c)\<lparr>is_closed := True\<rparr>) sel"
    and s: "s_symbol ?s = market_symbol_value symbol" "s_timeframe ?s = stf"
    by (simp_all add: to_series_def sel_def Let_def)
  have cs: "cs \<noteq> []" "\<forall>c \<in> set cs. good_market_candle symbol tf et c" "successively before cs"
    using assms(1) by (simp_all add: released_def)
  have "sorted_wrt (<) (map nc_open_time cs)"
    using cs by (intro before_sorted) (auto simp: good_market_candle_def valid_structure_def)
  then have "sorted_wrt (<) (map nc_open_time sel)" by (auto simp: sel_def drop_map [symmetric] sorted_wrt_drop)
  then have sorted: "sorted_wrt (<) (map open_time (candles ?s))"
    unfolding cands by (simp add: to_strategy_candle_def comp_def)
  have "sel \<noteq> []" using cs(1) assms(2) by (auto simp: sel_def)
  moreover have "good_candle ?s et c" if "c \<in> set (candles ?s)" for c
  proof -
    from that obtain nc where nc: "nc \<in> set sel" "c = (to_strategy_candle nc)\<lparr>is_closed := True\<rparr>" by (auto simp: cands)
    then have "nc \<in> set cs" by (auto simp: sel_def dest: in_set_dropD split: if_splits)
    with cs(2) have "good_market_candle symbol tf et nc" by blast
    moreover have "\<forall>v \<in> {c_open c, c_high c, c_low c, c_close c, c_volume c}. float_is_finite v"
      using assms(4) that unfolding floats_finite_def by blast
    ultimately show ?thesis using nc(2) assms(3)
      by (simp add: good_candle_def sane_candle_def s good_market_candle_def valid_structure_def to_strategy_candle_def)
  qed
  ultimately show ?thesis using sorted by (simp add: well_formed_series_def cands)
qed

text \<open>A released daily series of aligned candles has no missing day and ends with the last closed one.\<close>

lemma released_daily_complete:
  assumes "released r symbol MT_DAILY et cs" and "\<forall>c \<in> set cs. aligned MT_DAILY (nc_open_time c)"
  shows "nc_open_time ` set cs = {t. aligned MT_DAILY t \<and> nc_open_time (hd cs) \<le> t \<and> next_open_time t MT_DAILY - seconds 1 \<le> et}"
proof -
  let ?S = "{t. aligned MT_DAILY t \<and> nc_open_time (hd cs) \<le> t \<and> next_open_time t MT_DAILY - seconds 1 \<le> et}"
  have cs: "cs \<noteq> []" "\<forall>c \<in> set cs. good_market_candle symbol MT_DAILY et c" "successively before cs"
    "detect_gaps cs symbol MT_DAILY et = ret []"
    using assms(1) by (simp_all add: released_def gap_check_time_def)
  have sorted: "sorted_wrt (<) (map nc_open_time cs)"
    using cs by (intro before_sorted) (auto simp: good_market_candle_def valid_structure_def)
  have none: "t \<in> nc_open_time ` set cs" if "t \<in> ?S" for t
  proof (cases "t = nc_open_time (hd cs)")
    case False
    with that have "nc_open_time (hd cs) < t" by simp
    with detect_gaps_spec [OF assms(2) sorted cs(1), of symbol et] cs(4) that show ?thesis by auto
  qed (use cs(1) in simp)
  have "t \<in> ?S" if t: "t \<in> nc_open_time ` set cs" for t
  proof -
    from t obtain c where c: "c \<in> set cs" "t = nc_open_time c" by blast
    then have al: "aligned MT_DAILY t" and gc: "good_market_candle symbol MT_DAILY et c" using assms(2) cs(2) by auto
    have "nc_close_time c = next_open_time t MT_DAILY - seconds 1"
      using gc expected_close_aligned [OF al] c(2) by (auto simp: good_market_candle_def valid_structure_def)
    moreover have "nc_open_time (hd cs) \<le> t"
      using sorted_hd_last_bounds [OF strict_sorted_imp_sorted [OF sorted] c(1)] c(2) by simp
    ultimately show ?thesis using gc al by (simp add: good_market_candle_def)
  qed
  with none show ?thesis by blast
qed

section \<open>A disagreement about a closed candle\<close>

text \<open>Live writes at given times, in their order.\<close>

definition live_writes :: "candle_repository \<Rightarrow> (datetime \<times> normalized_candle) list \<Rightarrow> candle_repository" where
  "live_writes r ws = foldl (\<lambda>r (t, c). fst (upsert_live t r c)) r ws"

lemma live_writes_final:
  assumes "dict_get (cr_store r) k = Some e" and "live_final t0 e" and "\<forall>w \<in> set ws. t0 \<le> fst w"
  shows "dict_get (cr_store (live_writes r ws)) k = Some e"
  using assms(1,3)
proof (induction ws arbitrary: r)
  case (Cons w ws)
  obtain t c where w: "w = (t, c)" by (cases w)
  have "live_final t e" using assms(2) Cons.prems(2) by (simp add: w is_candle_closed_def)
  from live.write_final [OF Cons.prems(1) this] show ?case
    using Cons.IH [of "fst (upsert_live t r c)"] Cons.prems(2) by (simp add: live_writes_def w)
qed (simp add: live_writes_def)

lemma live_writes_conflicts: "set (cr_conflicts r) \<subseteq> set (cr_conflicts (live_writes r ws))"
proof (induction ws arbitrary: r)
  case (Cons w ws)
  obtain t c where w: "w = (t, c)" by (cases w)
  obtain new where "cr_conflicts (fst (upsert_live t r c)) = cr_conflicts r @ new" using live.write_conflicts by blast
  with Cons.IH [of "fst (upsert_live t r c)"] show ?case by (simp add: live_writes_def w)
qed (simp add: live_writes_def)

lemma live_writes_reports:
  assumes "dict_get (cr_store r) (nc_key c) = Some e" and "live_final t0 e" and "\<forall>w \<in> set ws. t0 \<le> fst w"
    and "(t, c) \<in> set ws" and "\<not> candles_equal e c"
  shows "\<lparr>cc_key = nc_key c, cc_existing = e, cc_incoming = c\<rparr> \<in> set (cr_conflicts (live_writes r ws))"
proof -
  from assms(4) obtain us vs where ws: "ws = us @ (t, c) # vs" by (meson split_list)
  let ?r = "live_writes r us"
  have run: "live_writes r ws = live_writes (fst (upsert_live t ?r c)) vs" by (simp add: live_writes_def ws)
  have "dict_get (cr_store ?r) (nc_key c) = Some e" using assms(1-3) by (intro live_writes_final) (auto simp: ws)
  moreover have "live_final t e" using assms(2,3) by (simp add: ws is_candle_closed_def)
  ultimately show ?thesis
    unfolding run using live.write_reports [OF _ _ assms(5)] live_writes_conflicts by (metis subsetD)
qed

lemma conflict_blocks:
  assumes "get_strategy_bundle r symbol et dmin wmin mmin agg = ret b"
    and "x \<in> set (cr_conflicts r)" and "ck_symbol (cc_key x) = symbol"
  shows "\<not> is_usable b"
proof
  assume "is_usable b"
  from usable_bundle_series [OF assms(1) this] have "conflicts_for (cr_conflicts r) symbol tf = []" for tf
    by (cases tf) (auto simp: Let_def released_def)
  then have "x \<notin> set (conflicts_for (cr_conflicts r) symbol (ck_timeframe (cc_key x)))" by simp
  with assms(2,3) show False by (simp add: conflicts_for_def)
qed

end
