(* ===== verification/Market_Examples.thy ===== *)
theory Market_Examples
  imports Market_Bundle
begin

text \<open>
  The market data service on concrete candles: a repository with one candle of each timeframe at the
  end of September 2024, its bundle, a later write that disagrees with a closed candle, and a daily
  series with a missing day.
\<close>

definition md_candle :: "market_timeframe \<Rightarrow> int \<Rightarrow> int \<Rightarrow> decimal \<Rightarrow> normalized_candle" where
  "md_candle tf d n cl =
     \<lparr>nc_symbol = BTC, nc_timeframe = tf, nc_open_time = d * us_per_day,
      nc_close_time = (d + n) * us_per_day - seconds 1, nc_open = 100, nc_high = 120, nc_low = 90,
      nc_close = cl, nc_volume = 5, nc_is_closed = True\<rparr>"

definition md_time :: datetime where
  "md_time = 19997 * us_per_day + seconds 5"

definition md_repository :: candle_repository where
  "md_repository =
     fst (upsert_many empty_repository
       [md_candle MT_MONTHLY 19967 30 110, md_candle MT_WEEKLY 19989 7 110, md_candle MT_DAILY 19996 1 110])"

definition md_writes :: "(datetime \<times> normalized_candle) list" where
  "md_writes = [(md_time, md_candle MT_DAILY 19996 1 110), (md_time, md_candle MT_DAILY 19996 1 111)]"

definition md_bundle_of :: "candle_repository \<Rightarrow> strategy_data_bundle comp" where
  "md_bundle_of r = get_strategy_bundle r BTC md_time 1 1 1 True"

definition small_values :: "candle_series \<Rightarrow> bool" where
  "small_values s \<longleftrightarrow>
     list_all (\<lambda>c. list_all (\<lambda>v. \<bar>v\<bar> < 1000) [c_open c, c_high c, c_low c, c_close c, c_volume c]) (candles s)"

lemma small_floats: "small_values s \<Longrightarrow> floats_finite s"
proof -
  have "float_is_finite v" if "\<bar>v\<bar> < 1000" for v
    unfolding float_is_finite_def by (rule less_trans [OF that]) simp
  then show "small_values s \<Longrightarrow> floats_finite s" by (auto simp: small_values_def floats_finite_def list_all_iff)
qed

lemma returns_case:
  assumes "case x of None \<Rightarrow> False | Some y \<Rightarrow> (case y of Inl e \<Rightarrow> False | Inr b \<Rightarrow> P b)"
  obtains b where "x = ret b" and "P b"
  using assms that by (auto simp: ret_def split: option.splits sum.splits)

lemma md_store:
  "dict_get (cr_store md_repository) (nc_key (md_candle MT_DAILY 19996 1 111)) = Some (md_candle MT_DAILY 19996 1 110)"
  by code_simp

lemma md_repository_ok: "repository_ok md_repository"
  unfolding md_repository_def upsert_many_writes
  by (rule batch.write_all_ok) (simp add: repository_ok_def empty_repository_def)

lemma md_usable:
  "case md_bundle_of md_repository of None \<Rightarrow> False | Some y \<Rightarrow> (case y of Inl e \<Rightarrow> False | Inr b \<Rightarrow>
     is_usable b \<and> small_values (sb_daily b) \<and> small_values (sb_weekly b) \<and> small_values (sb_monthly b))"
  by code_simp

lemma md_blocked:
  "case md_bundle_of (live_writes md_repository md_writes) of None \<Rightarrow> False | Some y \<Rightarrow> (case y of Inl e \<Rightarrow> False | Inr b \<Rightarrow> True)"
  by code_simp

lemma md_aligned: "c \<in> set (get_closed_before md_repository BTC MT_DAILY md_time) \<Longrightarrow> aligned MT_DAILY (nc_open_time c)"
proof -
  have "get_closed_before md_repository BTC MT_DAILY md_time = [md_candle MT_DAILY 19996 1 110]" by code_simp
  moreover assume "c \<in> set (get_closed_before md_repository BTC MT_DAILY md_time)"
  ultimately show ?thesis by (simp add: md_candle_def aligned_def daily_open_def us_per_day_def us_per_second_def)
qed

end
