(* ===== verification/Paper_Models.thy ===== *)
theory Paper_Models
  imports Paper_Lifecycle Market_Models
begin

text \<open>
  The domain of the paper trading service: its enumerations (\<open>services/paper_trading/enums.py\<close>), the
  allowed status changes (\<open>transitions.py\<close>), the idempotency keys (\<open>ids.py\<close>), the data transfer
  objects with their validators (\<open>models.py\<close>, \<open>mappers.py\<close>), the part of the configuration the
  lifecycle reads (\<open>config.py\<close>) and the mapping of data quality (\<open>mapping.py\<close>).
\<close>

section \<open>Enumerations\<close>

datatype runtime_status =
    RS_STOPPED | RS_STARTING | RS_RECOVERING | RS_SYNCING | RS_READY | RS_DEGRADED | RS_PAUSED
  | RS_KILLED | RS_SHUTTING_DOWN | RS_FAILED

datatype trade_intent_status =
    TI_CREATED | TI_APPROVED | TI_SCHEDULED | TI_SUBMITTED | TI_PARTIALLY_FILLED | TI_FILLED
  | TI_CANCELLED | TI_REJECTED | TI_EXPIRED | TI_FAILED

datatype paper_order_status =
    PO_PENDING | PO_OPEN | PO_PARTIALLY_FILLED | PO_FILLED | PO_CANCELLED | PO_REJECTED | PO_EXPIRED

datatype paper_position_status = PP_OPEN | PP_CLOSING | PP_CLOSED

datatype paper_order_type = MARKET_AT_OPEN | STOP_MARKET

datatype paper_side = PS_LONG

datatype paper_fill_kind = FILL_ENTRY | FILL_EXIT

datatype signal_type = SIG_BREAKOUT | SIG_PULLBACK

datatype kill_switch_close_policy = FREEZE | CLOSE_AT_NEXT_OPEN

datatype scheduler_run_status = SR_PENDING | SR_RUNNING | SR_COMPLETED | SR_FAILED | SR_SKIPPED

fun runtime_status_value :: "runtime_status \<Rightarrow> string" where
  "runtime_status_value RS_STOPPED = ''STOPPED''"
| "runtime_status_value RS_STARTING = ''STARTING''"
| "runtime_status_value RS_RECOVERING = ''RECOVERING''"
| "runtime_status_value RS_SYNCING = ''SYNCING''"
| "runtime_status_value RS_READY = ''READY''"
| "runtime_status_value RS_DEGRADED = ''DEGRADED''"
| "runtime_status_value RS_PAUSED = ''PAUSED''"
| "runtime_status_value RS_KILLED = ''KILLED''"
| "runtime_status_value RS_SHUTTING_DOWN = ''SHUTTING_DOWN''"
| "runtime_status_value RS_FAILED = ''FAILED''"

fun trade_intent_status_value :: "trade_intent_status \<Rightarrow> string" where
  "trade_intent_status_value TI_CREATED = ''CREATED''"
| "trade_intent_status_value TI_APPROVED = ''APPROVED''"
| "trade_intent_status_value TI_SCHEDULED = ''SCHEDULED''"
| "trade_intent_status_value TI_SUBMITTED = ''SUBMITTED_TO_PAPER_ENGINE''"
| "trade_intent_status_value TI_PARTIALLY_FILLED = ''PARTIALLY_FILLED''"
| "trade_intent_status_value TI_FILLED = ''FILLED''"
| "trade_intent_status_value TI_CANCELLED = ''CANCELLED''"
| "trade_intent_status_value TI_REJECTED = ''REJECTED''"
| "trade_intent_status_value TI_EXPIRED = ''EXPIRED''"
| "trade_intent_status_value TI_FAILED = ''FAILED''"

fun paper_order_status_value :: "paper_order_status \<Rightarrow> string" where
  "paper_order_status_value PO_PENDING = ''PENDING''"
| "paper_order_status_value PO_OPEN = ''OPEN''"
| "paper_order_status_value PO_PARTIALLY_FILLED = ''PARTIALLY_FILLED''"
| "paper_order_status_value PO_FILLED = ''FILLED''"
| "paper_order_status_value PO_CANCELLED = ''CANCELLED''"
| "paper_order_status_value PO_REJECTED = ''REJECTED''"
| "paper_order_status_value PO_EXPIRED = ''EXPIRED''"

section \<open>Status changes\<close>

definition TERMINAL_INTENT_STATUSES :: "trade_intent_status set" where
  "TERMINAL_INTENT_STATUSES = {TI_REJECTED, TI_CANCELLED, TI_EXPIRED, TI_FAILED, TI_FILLED}"

definition TERMINAL_ORDER_STATUSES :: "paper_order_status set" where
  "TERMINAL_ORDER_STATUSES = {PO_REJECTED, PO_CANCELLED, PO_EXPIRED, PO_FILLED}"

definition INTENT_TRANSITIONS :: "(trade_intent_status, trade_intent_status set) dict" where
  "INTENT_TRANSITIONS =
     [(TI_CREATED, {TI_APPROVED, TI_SCHEDULED, TI_REJECTED, TI_CANCELLED, TI_FAILED}),
      (TI_APPROVED, {TI_SCHEDULED, TI_SUBMITTED, TI_REJECTED, TI_CANCELLED, TI_FAILED, TI_EXPIRED}),
      (TI_SCHEDULED, {TI_SUBMITTED, TI_FILLED, TI_REJECTED, TI_CANCELLED, TI_FAILED, TI_EXPIRED}),
      (TI_SUBMITTED, {TI_FILLED, TI_REJECTED, TI_FAILED})]"

definition ORDER_TRANSITIONS :: "(paper_order_status, paper_order_status set) dict" where
  "ORDER_TRANSITIONS =
     [(PO_PENDING, {PO_OPEN, PO_REJECTED, PO_CANCELLED, PO_EXPIRED}),
      (PO_OPEN, {PO_FILLED, PO_REJECTED, PO_CANCELLED, PO_EXPIRED})]"

definition RUNTIME_TRANSITIONS :: "(runtime_status, runtime_status set) dict" where
  "RUNTIME_TRANSITIONS =
     [(RS_STOPPED, {RS_STARTING}),
      (RS_STARTING, {RS_RECOVERING, RS_SYNCING, RS_FAILED}),
      (RS_RECOVERING, {RS_SYNCING, RS_READY, RS_DEGRADED, RS_FAILED}),
      (RS_SYNCING, {RS_READY, RS_DEGRADED, RS_FAILED}),
      (RS_READY, {RS_DEGRADED, RS_FAILED, RS_PAUSED, RS_KILLED, RS_SHUTTING_DOWN}),
      (RS_DEGRADED, {RS_RECOVERING, RS_READY, RS_PAUSED, RS_KILLED, RS_SHUTTING_DOWN, RS_FAILED}),
      (RS_PAUSED, {RS_READY, RS_SHUTTING_DOWN}),
      (RS_KILLED, {RS_SHUTTING_DOWN}),
      (RS_SHUTTING_DOWN, {RS_STOPPED, RS_FAILED})]"

definition validate_intent_transition :: "trade_intent_status \<Rightarrow> trade_intent_status \<Rightarrow> unit comp" where
  "validate_intent_transition current target =
     (if current = target then ret ()
      else if current \<in> TERMINAL_INTENT_STATUSES
      then raise (ValueError (''intent already terminal: '' @ trade_intent_status_value current))
      else if target \<notin> get_default INTENT_TRANSITIONS current {}
      then raise (ValueError (''invalid intent transition '' @ trade_intent_status_value current @ '' -> '' @
                                trade_intent_status_value target))
      else ret ())"

definition validate_order_transition :: "paper_order_status \<Rightarrow> paper_order_status \<Rightarrow> unit comp" where
  "validate_order_transition current target =
     (if current = target then ret ()
      else if current \<in> TERMINAL_ORDER_STATUSES
      then raise (ValueError (''order already terminal: '' @ paper_order_status_value current))
      else if target \<notin> get_default ORDER_TRANSITIONS current {}
      then raise (ValueError (''invalid order transition '' @ paper_order_status_value current @ '' -> '' @
                                paper_order_status_value target))
      else ret ())"

definition validate_runtime_transition :: "runtime_status \<Rightarrow> runtime_status \<Rightarrow> unit comp" where
  "validate_runtime_transition current target =
     (if current = target then ret ()
      else if target \<notin> get_default RUNTIME_TRANSITIONS current {}
      then raise (ValueError (''invalid runtime transition '' @ runtime_status_value current @ '' -> '' @
                                runtime_status_value target))
      else ret ())"

section \<open>Identifiers and keys\<close>

text \<open>
  A UUID is its 128-bit number; its text is the canonical one. The keys name a row by what
  must happen once.
\<close>

type_synonym uuid = nat

definition hex_digit :: "nat \<Rightarrow> char" where
  "hex_digit n = char_of (if n < 10 then 48 + n else 87 + n)"

definition hex_text :: "nat \<Rightarrow> nat \<Rightarrow> string" where
  "hex_text width n = map (\<lambda>i. hex_digit (n div 16 ^ i mod 16)) (rev [0..<width])"

definition uuid_str :: "uuid \<Rightarrow> string" where
  "uuid_str u =
     (let h = hex_text 32 u
      in take 8 h @ ''-'' @ take 4 (drop 8 h) @ ''-'' @ take 4 (drop 12 h) @ ''-'' @ take 4 (drop 16 h) @ ''-'' @ drop 20 h)"

definition format_utc_timestamp :: "datetime \<Rightarrow> string" where
  "format_utc_timestamp t = strftime_utc t"

definition strategy_evaluation_key :: "string \<Rightarrow> string \<Rightarrow> datetime \<Rightarrow> string" where
  "strategy_evaluation_key strategy_version symbol daily_candle_open_time =
     strategy_version @ '':'' @ symbol @ '':'' @ format_utc_timestamp daily_candle_open_time"

fun signal_type_to_entry_type :: "signal_type \<Rightarrow> entry_type" where
  "signal_type_to_entry_type SIG_BREAKOUT = BREAKOUT"
| "signal_type_to_entry_type SIG_PULLBACK = PULLBACK"

fun entry_type_to_signal_type :: "entry_type \<Rightarrow> signal_type" where
  "entry_type_to_signal_type BREAKOUT = SIG_BREAKOUT"
| "entry_type_to_signal_type PULLBACK = SIG_PULLBACK"

definition trade_intent_key :: "string \<Rightarrow> string \<Rightarrow> datetime \<Rightarrow> signal_type \<Rightarrow> string" where
  "trade_intent_key symbol strategy_version signal_time st =
     build_client_intent_id symbol strategy_version signal_time (signal_type_to_entry_type st)"

definition paper_fill_key :: "uuid \<Rightarrow> datetime \<Rightarrow> nat \<Rightarrow> string" where
  "paper_fill_key paper_order_id fill_candle_open_time fill_sequence =
     uuid_str paper_order_id @ '':'' @ format_utc_timestamp fill_candle_open_time @ '':'' @ nat_text fill_sequence"

definition paper_exit_fill_key :: "uuid \<Rightarrow> datetime \<Rightarrow> string" where
  "paper_exit_fill_key position_id fill_time =
     ''exit:'' @ uuid_str position_id @ '':'' @ format_utc_timestamp fill_time"

definition funding_event_key :: "uuid \<Rightarrow> datetime \<Rightarrow> string" where
  "funding_event_key position_id funding_time = uuid_str position_id @ '':'' @ format_utc_timestamp funding_time"

definition scheduler_run_key :: "string \<Rightarrow> datetime \<Rightarrow> string" where
  "scheduler_run_key job_name scheduled_for = job_name @ '':'' @ format_utc_timestamp scheduled_for"

definition stop_update_key :: "uuid \<Rightarrow> datetime \<Rightarrow> string" where
  "stop_update_key position_id evaluation_time = uuid_str position_id @ '':'' @ format_utc_timestamp evaluation_time"

definition portfolio_snapshot_key :: "string \<Rightarrow> datetime \<Rightarrow> string" where
  "portfolio_snapshot_key event evaluation_time = ''portfolio:'' @ event @ '':'' @ strftime_utc evaluation_time"

section \<open>Data transfer objects\<close>

text \<open>
  What the JSON columns hold: texts, truth values, reason codes (for their text), the text of a decimal
  or of a time (as the number or the time), and objects.
\<close>

datatype json =
    JNull
  | JText string
  | JBool bool
  | JInt int
  | JDecimal decimal
  | JTime datetime
  | JCodes "reason_code list"
  | JTexts "string list"
  | JObject "(string \<times> json) list"

type_synonym json_object = "(string \<times> json) list"

record runtime_state =
  rs_status :: runtime_status
  rs_last_error :: "string option"
  rs_started_at :: "datetime option"
  rs_heartbeat_at :: datetime
  rs_kill_switch :: bool
  rs_paused :: bool
  rs_current_cycle_id :: "uuid option"
  rs_version :: nat

record strategy_evaluation_record =
  er_evaluation_id :: uuid
  er_symbol :: string
  er_evaluation_time :: datetime
  er_daily_candle_open_time :: datetime
  er_weekly_candle_key :: datetime
  er_monthly_candle_key :: datetime
  er_daily_candle_key :: datetime
  er_strategy_version :: string
  er_regime_result :: json_object
  er_entry_result :: json_object
  er_rejection_reasons :: "reason_code list"
  er_deterministic_input_hash :: string
  er_created_at :: datetime

record trade_intent =
  ti_intent_id :: uuid
  ti_idempotency_key :: string
  ti_symbol :: string
  ti_side :: paper_side
  ti_signal_type :: signal_type
  ti_signal_time :: datetime
  ti_scheduled_fill_time :: datetime
  ti_requested_entry :: decimal
  ti_requested_stop :: decimal
  ti_requested_quantity :: "decimal option"
  ti_approved_quantity :: "decimal option"
  ti_risk_amount :: "decimal option"
  ti_status :: trade_intent_status
  ti_strategy_evaluation_id :: uuid
  ti_rejection_reason :: "json_object option"
  ti_created_at :: datetime
  ti_updated_at :: datetime

record paper_order =
  po_paper_order_id :: uuid
  po_intent_id :: uuid
  po_symbol :: string
  po_side :: paper_side
  po_order_type :: paper_order_type
  po_requested_quantity :: decimal
  po_remaining_quantity :: decimal
  po_expected_fill_time :: datetime
  po_status :: paper_order_status
  po_created_at :: datetime
  po_updated_at :: datetime

record paper_fill =
  fl_fill_id :: uuid
  fl_paper_order_id :: "uuid option"
  fl_position_id :: "uuid option"
  fl_fill_kind :: paper_fill_kind
  fl_symbol :: string
  fl_side :: paper_side
  fl_quantity :: decimal
  fl_market_open_price :: decimal
  fl_slippage :: decimal
  fl_fill_price :: decimal
  fl_fee :: decimal
  fl_fill_time :: datetime
  fl_candle_key :: datetime
  fl_fill_sequence :: nat
  fl_deterministic_fill_key :: string

record paper_position =
  pp_position_id :: uuid
  pp_symbol :: string
  pp_status :: paper_position_status
  pp_quantity :: decimal
  pp_average_entry_price :: decimal
  pp_initial_stop :: decimal
  pp_current_stop :: decimal
  pp_highest_close_since_entry :: decimal
  pp_entry_atr14 :: decimal
  pp_realized_pnl :: decimal
  pp_unrealized_pnl :: decimal
  pp_margin_reserved :: decimal
  pp_entry_intent_id :: uuid
  pp_opened_at :: datetime
  pp_closed_at :: "datetime option"
  pp_version :: nat

record position_stop_event =
  sv_stop_event_id :: uuid
  sv_position_id :: uuid
  sv_previous_stop :: decimal
  sv_new_stop :: decimal
  sv_highest_close :: decimal
  sv_atr :: decimal
  sv_evaluation_time :: datetime
  sv_reason :: string

record portfolio_snapshot =
  sp_snapshot_id :: uuid
  sp_evaluation_time :: datetime
  sp_cash :: decimal
  sp_margin_used :: decimal
  sp_equity :: decimal
  sp_unrealized_pnl :: decimal
  sp_realized_pnl :: decimal
  sp_total_open_risk :: decimal
  sp_open_position_count :: nat
  sp_idempotency_key :: string

record paper_wallet_state =
  wl_cash :: decimal
  wl_total_realized_pnl :: decimal
  wl_total_fees :: decimal
  wl_total_funding :: decimal
  wl_total_slippage :: decimal
  wl_version :: nat
  wl_updated_at :: datetime

record funding_event_record =
  fe_funding_event_id :: uuid
  fe_position_id :: uuid
  fe_symbol :: string
  fe_funding_rate :: decimal
  fe_notional :: decimal
  fe_amount :: decimal
  fe_funding_time :: datetime
  fe_deterministic_key :: string

text \<open>A row of \<open>scheduler_runs\<close>; the domain object has all its columns but the last.\<close>

record scheduler_run =
  sr_run_id :: uuid
  sr_job_name :: string
  sr_scheduled_for :: datetime
  sr_started_at :: "datetime option"
  sr_completed_at :: "datetime option"
  sr_status :: scheduler_run_status
  sr_error :: "string option"
  sr_idempotency_key :: string
  sr_recovery_of_run_id :: "uuid option"
  sr_resolved_by_run_id :: "uuid option"
  sr_soak_run_id :: "uuid option"

text \<open>The deferral of a group of market events (\<open>event_fairness.py\<close>).\<close>

record market_event_group_state =
  gs_group_key :: string
  gs_event_type :: string
  gs_group_time :: datetime
  gs_next_attempt_at :: datetime
  gs_defer_count :: int

record audit_event =
  ae_event_id :: uuid
  ae_event_type :: string
  ae_aggregate_type :: string
  ae_aggregate_id :: uuid
  ae_cycle_id :: "uuid option"
  ae_payload_json :: json_object
  ae_created_at :: datetime

record paper_execution_config =
  xc_fee_rate :: decimal
  xc_slippage_bps :: decimal
  xc_max_leverage :: decimal

record paper_trading_config =
  pc_database_url :: string
  pc_paper_initial_equity :: decimal
  pc_paper_fee_rate :: decimal
  pc_paper_slippage_bps :: decimal
  pc_paper_max_leverage :: decimal
  pc_evaluation_delay_seconds :: int
  pc_fill_delay_seconds :: int
  pc_heartbeat_interval_seconds :: int
  pc_stale_runtime_threshold_seconds :: int
  pc_scheduler_enabled :: bool
  pc_control_api_enabled :: bool
  pc_control_api_localhost_only :: bool
  pc_paper_production_mode :: bool
  pc_control_api_rate_limit_per_minute :: int
  pc_advisory_lock_id :: int
  pc_kill_switch_close_policy :: kill_switch_close_policy
  pc_funding_enabled :: bool
  pc_symbols :: "string list"

definition ALLOWED_SYMBOLS :: "string set" where
  "ALLOWED_SYMBOLS = {''BTC'', ''ETH'', ''SOL''}"

definition from_trading_config :: "paper_trading_config \<Rightarrow> paper_execution_config comp" where
  "from_trading_config config =
     (if 0 \<le> pc_paper_fee_rate config \<and> pc_paper_fee_rate config \<le> 1 / 100 \<and>
         0 \<le> pc_paper_slippage_bps config \<and> pc_paper_slippage_bps config \<le> 100 \<and>
         0 < pc_paper_max_leverage config \<and> pc_paper_max_leverage config \<le> 2
      then ret \<lparr>xc_fee_rate = pc_paper_fee_rate config, xc_slippage_bps = pc_paper_slippage_bps config,
                xc_max_leverage = pc_paper_max_leverage config\<rparr>
      else raise (ValueError ''PaperExecutionConfig''))"

section \<open>Validators\<close>

text \<open>
  A row is turned into its object by the validators of its class, which raise when the row breaks
  them. The validator of a class returns its argument otherwise.
\<close>

definition order_row_to_domain :: "paper_order \<Rightarrow> paper_order comp" where
  "order_row_to_domain r =
     (if po_remaining_quantity r < 0 then raise (ValueError ''remaining_quantity must be >= 0'') else ret r)"

definition fill_row_to_domain :: "paper_fill \<Rightarrow> paper_fill comp" where
  "fill_row_to_domain r =
     (if fl_quantity r \<le> 0 \<or> fl_market_open_price r \<le> 0 \<or> fl_fill_price r \<le> 0
      then raise (ValueError ''quantity and prices must be > 0'')
      else case fl_fill_kind r of
             FILL_ENTRY \<Rightarrow> if fl_paper_order_id r = None then raise (ValueError ''ENTRY fill requires paper_order_id'') else ret r
           | FILL_EXIT \<Rightarrow> if fl_position_id r = None then raise (ValueError ''EXIT fill requires position_id'') else ret r)"

definition position_row_to_domain :: "paper_position \<Rightarrow> paper_position comp" where
  "position_row_to_domain r =
     (if pp_quantity r \<le> 0 \<or> pp_average_entry_price r \<le> 0 \<or> pp_entry_atr14 r \<le> 0
      then raise (ValueError ''quantity, average_entry_price and entry_atr14 must be > 0'')
      else if pp_version r < 1 then raise (ValueError ''version'')
      else if pp_current_stop r < pp_initial_stop r then raise (ValueError ''current_stop must be >= initial_stop'')
      else if pp_average_entry_price r \<le> pp_initial_stop r
      then raise (ValueError ''initial_stop must be below average_entry_price for LONG'')
      else if pp_status r = PP_CLOSED
      then (if pp_closed_at r = None then raise (ValueError ''closed_at required when status is CLOSED'') else ret r)
      else if pp_closed_at r \<noteq> None then raise (ValueError ''closed_at must be null unless status is CLOSED'')
      else ret r)"

definition stop_event_row_to_domain :: "position_stop_event \<Rightarrow> position_stop_event comp" where
  "stop_event_row_to_domain r =
     (if sv_new_stop r < sv_previous_stop r then raise (ValueError ''new_stop must be >= previous_stop'') else ret r)"

fun map_data_quality_to_market_data_status :: "md_quality_status \<Rightarrow> market_data_status" where
  "map_data_quality_to_market_data_status Q_VALID = MD_OK"
| "map_data_quality_to_market_data_status Q_STALE = Risk_Models.MD_STALE"
| "map_data_quality_to_market_data_status Q_INCOMPLETE = Risk_Models.MD_INCOMPLETE"
| "map_data_quality_to_market_data_status Q_INVALID = Risk_Models.MD_INVALID"
| "map_data_quality_to_market_data_status Q_DISCONNECTED = Risk_Models.MD_INVALID"

text \<open>The positions that can be read.\<close>

definition readable_position :: "paper_position \<Rightarrow> bool" where
  "readable_position p \<longleftrightarrow>
     0 < pp_quantity p \<and> 0 < pp_average_entry_price p \<and> 0 < pp_entry_atr14 p \<and> 1 \<le> pp_version p \<and>
     pp_initial_stop p \<le> pp_current_stop p \<and> pp_initial_stop p < pp_average_entry_price p \<and>
     (pp_status p = PP_CLOSED \<longleftrightarrow> pp_closed_at p \<noteq> None)"

lemma position_row_to_domain_ret: "position_row_to_domain p = ret q \<longleftrightarrow> q = p \<and> readable_position p"
  by (auto simp: position_row_to_domain_def readable_position_def not_le not_less split: if_splits)

section \<open>The status machines\<close>

lemmas transition_tables = INTENT_TRANSITIONS_def ORDER_TRANSITIONS_def RUNTIME_TRANSITIONS_def
  TERMINAL_INTENT_STATUSES_def TERMINAL_ORDER_STATUSES_def get_default_def

inductive intent_step :: "trade_intent_status \<Rightarrow> trade_intent_status \<Rightarrow> bool" where
  "validate_intent_transition s t = ret () \<Longrightarrow> s \<noteq> t \<Longrightarrow> intent_step s t"

inductive order_step :: "paper_order_status \<Rightarrow> paper_order_status \<Rightarrow> bool" where
  "validate_order_transition s t = ret () \<Longrightarrow> s \<noteq> t \<Longrightarrow> order_step s t"

inductive runtime_step :: "runtime_status \<Rightarrow> runtime_status \<Rightarrow> bool" where
  "validate_runtime_transition s t = ret () \<Longrightarrow> s \<noteq> t \<Longrightarrow> runtime_step s t"

inductive_simps intent_step_iff: "intent_step s t"
inductive_simps order_step_iff: "order_step s t"
inductive_simps runtime_step_iff: "runtime_step s t"

text \<open>How many changes are left.\<close>

fun intent_rank :: "trade_intent_status \<Rightarrow> nat" where
  "intent_rank TI_CREATED = 4"
| "intent_rank TI_APPROVED = 3"
| "intent_rank TI_SCHEDULED = 2"
| "intent_rank TI_SUBMITTED = 1"
| "intent_rank _ = 0"

fun order_rank :: "paper_order_status \<Rightarrow> nat" where
  "order_rank PO_PENDING = 2"
| "order_rank PO_OPEN = 1"
| "order_rank _ = 0"

lemma intent_step_rank: "intent_step s t \<Longrightarrow> intent_rank t < intent_rank s"
  unfolding intent_step_iff
  by (cases s; cases t) (simp_all add: validate_intent_transition_def transition_tables)

lemma order_step_rank: "order_step s t \<Longrightarrow> order_rank t < order_rank s"
  unfolding order_step_iff
  by (cases s; cases t) (simp_all add: validate_order_transition_def transition_tables)

lemma rank_bounds_run:
  fixes rank :: "'s \<Rightarrow> nat"
  assumes "\<And>s t. R s t \<Longrightarrow> rank t < rank s" and "(R ^^ n) s t"
  shows "n + rank t \<le> rank s"
  using assms(2)
proof (induction n arbitrary: t)
  case (Suc n)
  then obtain u where "(R ^^ n) s u" "R u t" by auto
  with Suc.IH [of u] assms(1) [of u t] show ?case by simp
qed simp

lemma terminal_intent_step: "s \<in> TERMINAL_INTENT_STATUSES \<Longrightarrow> \<not> intent_step s t"
  unfolding intent_step_iff by (auto simp: validate_intent_transition_def)

lemma terminal_order_step: "s \<in> TERMINAL_ORDER_STATUSES \<Longrightarrow> \<not> order_step s t"
  unfolding order_step_iff by (auto simp: validate_order_transition_def)

text \<open>After a kill the runtime reaches only states of the shutdown, until it is started again.\<close>

lemma killed_until_stopped:
  assumes "(\<lambda>s t. runtime_step s t \<and> s \<noteq> RS_STOPPED)\<^sup>*\<^sup>* RS_KILLED s"
  shows "s \<in> {RS_KILLED, RS_SHUTTING_DOWN, RS_STOPPED, RS_FAILED}"
  using assms
proof (induction rule: rtranclp_induct)
  case (step s t)
  then show ?case
    by (auto simp: runtime_step_iff validate_runtime_transition_def transition_tables split: if_splits)
qed simp

end
