(* ===== verification/Paper_Store.thy ===== *)
theory Paper_Store
  imports Paper_Models
begin

text \<open>
  The repository of the paper trading service (\<open>services/paper_trading/repository.py\<close>) over the tables
  the trading lifecycle uses, with the constraints of the schema (\<open>db/orm.py\<close>). The database is a record
  of tables; a table is the list of its rows in the order of their insertion, which is also the order of
  a query without \<open>ORDER BY\<close>. An operation takes the database to its result and the new database, or
  raises: none of the modelled functions catches an exception of the repository, so a raise ends the
  operation and the transaction it runs in is rolled back by its caller.

  The environment holds what lies outside the code: the number a \<open>NUMERIC(38, 18)\<close> column keeps of a
  number, the system clock, pydantic's \<open>model_construct\<close>, the SHA-256 of the canonical text of a JSON
  object, and the text of an exception. \<open>uuid4()\<close> is a counter: identifiers are fresh.
\<close>

section \<open>The database\<close>

record paper_env =
  numeric :: "decimal \<Rightarrow> decimal"
  utc_now :: datetime
  construct_evaluation :: "string \<Rightarrow> datetime \<Rightarrow> string \<Rightarrow> strategy_parameters \<Rightarrow> strategy_evaluation"
  input_hash :: "json_object \<Rightarrow> string"
  error_text :: "py_error \<Rightarrow> string"

record paper_db =
  db_runtime :: "runtime_state option"
  db_wallet :: "paper_wallet_state option"
  db_evaluations :: "strategy_evaluation_record list"
  db_intents :: "trade_intent list"
  db_orders :: "paper_order list"
  db_fills :: "paper_fill list"
  db_positions :: "paper_position list"
  db_stop_events :: "position_stop_event list"
  db_snapshots :: "portfolio_snapshot list"
  db_audit :: "audit_event list"
  db_funding :: "funding_event_record list"
  db_runs :: "scheduler_run list"
  db_group_states :: "market_event_group_state list"
  db_rotation_cursor :: "int option"
  db_next_uuid :: uuid

type_synonym 'a db_op = "paper_db \<Rightarrow> ('a \<times> paper_db) comp"

definition db_ret :: "'a \<Rightarrow> 'a db_op" where
  "db_ret x db = ret (x, db)"

definition db_raise :: "py_error \<Rightarrow> 'a db_op" where
  "db_raise e db = raise e"

definition db_bind :: "'a db_op \<Rightarrow> ('a \<Rightarrow> 'b db_op) \<Rightarrow> 'b db_op" where
  "db_bind m f db = cbind (m db) (\<lambda>(x, db'). f x db')"

definition db_lift :: "'a comp \<Rightarrow> 'a db_op" where
  "db_lift c db = cbind c (\<lambda>x. ret (x, db))"

definition db_read :: "(paper_db \<Rightarrow> 'a comp) \<Rightarrow> 'a db_op" where
  "db_read f db = cbind (f db) (\<lambda>x. ret (x, db))"

definition db_write :: "(paper_db \<Rightarrow> paper_db) \<Rightarrow> unit db_op" where
  "db_write f db = ret ((), f db)"

definition uuid4 :: "uuid db_op" where
  "uuid4 db = ret (db_next_uuid db, db\<lparr>db_next_uuid := Suc (db_next_uuid db)\<rparr>)"

text \<open>\<open>scalar_one_or_none\<close>: at most one row.\<close>

definition scalar_one_or_none :: "'a list \<Rightarrow> 'a option comp" where
  "scalar_one_or_none rows =
     (case rows of [] \<Rightarrow> ret None | [x] \<Rightarrow> ret (Some x) | _ # _ # _ \<Rightarrow> raise MultipleResultsFound)"

definition money :: "paper_env \<Rightarrow> decimal option \<Rightarrow> decimal option" where
  "money env = map_option (numeric env)"

section \<open>Runtime and wallet\<close>

definition get_runtime_state :: "runtime_state option db_op" where
  "get_runtime_state = db_read (\<lambda>db. ret (db_runtime db))"

definition set_if :: "'a option \<Rightarrow> 'a \<Rightarrow> 'a" where
  "set_if new old = (case new of None \<Rightarrow> old | Some x \<Rightarrow> x)"

definition set_if_some :: "'a option \<Rightarrow> 'a option \<Rightarrow> 'a option" where
  "set_if_some new old = (case new of None \<Rightarrow> old | Some x \<Rightarrow> Some x)"

definition update_runtime_state ::
  "runtime_status option \<Rightarrow> string option \<Rightarrow> datetime option \<Rightarrow> datetime option \<Rightarrow> bool option \<Rightarrow> bool option \<Rightarrow>
   uuid option \<Rightarrow> nat option \<Rightarrow> runtime_state db_op"
where
  "update_runtime_state status last_error started_at heartbeat_at kill_switch paused current_cycle_id expected_version db =
     (case db_runtime db of
        None \<Rightarrow> raise (LookupError ''runtime_state singleton not seeded'')
      | Some row \<Rightarrow>
          if (case expected_version of None \<Rightarrow> False | Some v \<Rightarrow> rs_version row \<noteq> v)
          then raise (ValueError ''runtime_state version conflict'')
          else let row' = \<lparr>rs_status = set_if status (rs_status row),
                           rs_last_error = set_if_some last_error (rs_last_error row),
                           rs_started_at = set_if_some started_at (rs_started_at row),
                           rs_heartbeat_at = set_if heartbeat_at (rs_heartbeat_at row),
                           rs_kill_switch = set_if kill_switch (rs_kill_switch row),
                           rs_paused = set_if paused (rs_paused row),
                           rs_current_cycle_id = set_if_some current_cycle_id (rs_current_cycle_id row),
                           rs_version = rs_version row + 1\<rparr>
               in ret (row', db\<lparr>db_runtime := Some row'\<rparr>))"

definition get_wallet :: "paper_wallet_state option db_op" where
  "get_wallet = db_read (\<lambda>db. ret (db_wallet db))"

definition update_wallet ::
  "paper_env \<Rightarrow> decimal \<Rightarrow> decimal \<Rightarrow> decimal \<Rightarrow> decimal \<Rightarrow> decimal \<Rightarrow> nat option \<Rightarrow> datetime option \<Rightarrow>
   paper_wallet_state db_op"
where
  "update_wallet env cash_delta realized_pnl_delta fees_delta funding_delta slippage_delta expected_version updated_at db =
     (case db_wallet db of
        None \<Rightarrow> raise (LookupError ''paper_wallet singleton not seeded'')
      | Some row \<Rightarrow>
          if (case expected_version of None \<Rightarrow> False | Some v \<Rightarrow> wl_version row \<noteq> v)
          then raise (ValueError ''paper_wallet version conflict'')
          else let row' = \<lparr>wl_cash = dadd (wl_cash row) cash_delta,
                           wl_total_realized_pnl = dadd (wl_total_realized_pnl row) realized_pnl_delta,
                           wl_total_fees = dadd (wl_total_fees row) fees_delta,
                           wl_total_funding = dadd (wl_total_funding row) funding_delta,
                           wl_total_slippage = dadd (wl_total_slippage row) slippage_delta,
                           wl_version = wl_version row + 1,
                           wl_updated_at = set_if updated_at (utc_now env)\<rparr>;
                   stored = row'\<lparr>wl_cash := numeric env (wl_cash row'),
                                 wl_total_realized_pnl := numeric env (wl_total_realized_pnl row'),
                                 wl_total_fees := numeric env (wl_total_fees row'),
                                 wl_total_funding := numeric env (wl_total_funding row'),
                                 wl_total_slippage := numeric env (wl_total_slippage row')\<rparr>
               in ret (row', db\<lparr>db_wallet := Some stored\<rparr>))"

section \<open>Evaluations and intents\<close>

definition insert_or_get_strategy_evaluation :: "strategy_evaluation_record \<Rightarrow> (strategy_evaluation_record \<times> bool) db_op" where
  "insert_or_get_strategy_evaluation row db =
     (case find (\<lambda>r. er_strategy_version r = er_strategy_version row \<and> er_symbol r = er_symbol row \<and>
                     er_daily_candle_open_time r = er_daily_candle_open_time row) (db_evaluations db) of
        Some existing \<Rightarrow> ret ((existing, False), db)
      | None \<Rightarrow>
          if list_ex (\<lambda>r. er_evaluation_id r = er_evaluation_id row) (db_evaluations db)
          then raise (IntegrityError ''strategy_evaluations_pkey'')
          else ret ((row, True), db\<lparr>db_evaluations := db_evaluations db @ [row]\<rparr>))"

definition insert_or_get_trade_intent :: "paper_env \<Rightarrow> trade_intent \<Rightarrow> (trade_intent \<times> bool) db_op" where
  "insert_or_get_trade_intent env row db =
     (case find (\<lambda>r. ti_strategy_evaluation_id r = ti_strategy_evaluation_id row \<and> ti_symbol r = ti_symbol row \<and>
                     ti_side r = ti_side row \<and> ti_signal_type r = ti_signal_type row) (db_intents db) of
        Some existing \<Rightarrow> ret ((existing, False), db)
      | None \<Rightarrow>
          if list_ex (\<lambda>r. ti_intent_id r = ti_intent_id row) (db_intents db)
          then raise (IntegrityError ''trade_intents_pkey'')
          else if list_ex (\<lambda>r. ti_idempotency_key r = ti_idempotency_key row) (db_intents db)
          then raise (IntegrityError ''trade_intents_idempotency_key'')
          else if \<not> list_ex (\<lambda>r. er_evaluation_id r = ti_strategy_evaluation_id row) (db_evaluations db)
          then raise (IntegrityError ''trade_intents_strategy_evaluation_id_fkey'')
          else let stored = row\<lparr>ti_requested_entry := numeric env (ti_requested_entry row),
                                ti_requested_stop := numeric env (ti_requested_stop row),
                                ti_requested_quantity := money env (ti_requested_quantity row),
                                ti_approved_quantity := money env (ti_approved_quantity row),
                                ti_risk_amount := money env (ti_risk_amount row)\<rparr>
               in ret ((stored, True), db\<lparr>db_intents := db_intents db @ [stored]\<rparr>))"

definition update_row :: "('r \<Rightarrow> bool) \<Rightarrow> ('r \<Rightarrow> 'r) \<Rightarrow> 'r list \<Rightarrow> 'r list" where
  "update_row P f rows = map (\<lambda>r. if P r then f r else r) rows"

definition update_intent_status ::
  "paper_env \<Rightarrow> uuid \<Rightarrow> trade_intent_status \<Rightarrow> decimal option \<Rightarrow> json_object option \<Rightarrow> datetime option \<Rightarrow> trade_intent db_op"
where
  "update_intent_status env intent_id status approved_quantity rejection_reason updated_at db =
     (let db' = db\<lparr>db_intents := update_row (\<lambda>r. ti_intent_id r = intent_id)
                    (\<lambda>r. r\<lparr>ti_status := status, ti_updated_at := set_if updated_at (utc_now env),
                           ti_approved_quantity := set_if_some (money env approved_quantity) (ti_approved_quantity r),
                           ti_rejection_reason := set_if_some rejection_reason (ti_rejection_reason r)\<rparr>)
                    (db_intents db)\<rparr>
      in case find (\<lambda>r. ti_intent_id r = intent_id) (db_intents db') of
           None \<Rightarrow> raise AssertionError
         | Some row \<Rightarrow> ret (row, db'))"

definition get_nonterminal_intent_for_symbol :: "string \<Rightarrow> trade_intent option db_op" where
  "get_nonterminal_intent_for_symbol symbol =
     db_read (\<lambda>db. scalar_one_or_none
       (filter (\<lambda>r. ti_symbol r = symbol \<and> ti_status r \<notin> TERMINAL_INTENT_STATUSES) (db_intents db)))"

definition get_scheduled_intents_for_symbol :: "string \<Rightarrow> datetime \<Rightarrow> trade_intent list db_op" where
  "get_scheduled_intents_for_symbol symbol scheduled_fill_time =
     db_read (\<lambda>db. ret (sort_key ti_created_at
       (filter (\<lambda>r. ti_symbol r = symbol \<and> ti_scheduled_fill_time r = scheduled_fill_time \<and>
                    ti_status r \<in> {TI_SCHEDULED, TI_SUBMITTED}) (db_intents db))))"

definition get_intent :: "uuid \<Rightarrow> trade_intent option db_op" where
  "get_intent intent_id = db_read (\<lambda>db. ret (find (\<lambda>r. ti_intent_id r = intent_id) (db_intents db)))"

section \<open>Orders and fills\<close>

definition insert_or_get_paper_order :: "paper_env \<Rightarrow> paper_order \<Rightarrow> (paper_order \<times> bool) db_op" where
  "insert_or_get_paper_order env row db =
     (let stored = row\<lparr>po_requested_quantity := numeric env (po_requested_quantity row),
                       po_remaining_quantity := numeric env (po_remaining_quantity row)\<rparr>
      in if po_remaining_quantity stored < 0 then raise (IntegrityError ''ck_paper_orders_remaining_nonneg'')
         else if po_requested_quantity stored \<le> 0 then raise (IntegrityError ''ck_paper_orders_requested_positive'')
         else case find (\<lambda>r. po_intent_id r = po_intent_id row) (db_orders db) of
                Some existing \<Rightarrow> cbind (order_row_to_domain existing) (\<lambda>r. ret ((r, False), db))
              | None \<Rightarrow>
                  if list_ex (\<lambda>r. po_paper_order_id r = po_paper_order_id row) (db_orders db)
                  then raise (IntegrityError ''paper_orders_pkey'')
                  else if \<not> list_ex (\<lambda>r. ti_intent_id r = po_intent_id row) (db_intents db)
                  then raise (IntegrityError ''paper_orders_intent_id_fkey'')
                  else cbind (order_row_to_domain stored) (\<lambda>r.
                       ret ((r, True), db\<lparr>db_orders := db_orders db @ [stored]\<rparr>)))"

definition get_order_for_intent :: "uuid \<Rightarrow> paper_order option db_op" where
  "get_order_for_intent intent_id =
     db_read (\<lambda>db. cbind (scalar_one_or_none (filter (\<lambda>r. po_intent_id r = intent_id) (db_orders db))) (\<lambda>r.
       case r of None \<Rightarrow> ret None | Some row \<Rightarrow> cbind (order_row_to_domain row) (\<lambda>x. ret (Some x))))"

text \<open>The check constraints of a fill row, and its keys.\<close>

definition fill_checks :: "paper_fill \<Rightarrow> unit comp" where
  "fill_checks r =
     (if fl_quantity r \<le> 0 then raise (IntegrityError ''ck_paper_fills_quantity_positive'')
      else if fl_fill_price r \<le> 0 then raise (IntegrityError ''ck_paper_fills_price_positive'')
      else if \<not> (fl_fill_kind r = FILL_ENTRY \<and> fl_paper_order_id r \<noteq> None \<and> fl_position_id r = None \<or>
                 fl_fill_kind r = FILL_EXIT \<and> fl_position_id r \<noteq> None)
      then raise (IntegrityError ''ck_paper_fills_kind_refs'')
      else ret ())"

definition fill_keys :: "paper_fill \<Rightarrow> paper_db \<Rightarrow> unit comp" where
  "fill_keys r db =
     (if list_ex (\<lambda>x. fl_fill_id x = fl_fill_id r) (db_fills db) then raise (IntegrityError ''paper_fills_pkey'')
      else if \<not> (case fl_paper_order_id r of None \<Rightarrow> True
                 | Some i \<Rightarrow> list_ex (\<lambda>x. po_paper_order_id x = i) (db_orders db))
      then raise (IntegrityError ''paper_fills_paper_order_id_fkey'')
      else if \<not> (case fl_position_id r of None \<Rightarrow> True
                 | Some i \<Rightarrow> list_ex (\<lambda>x. pp_position_id x = i) (db_positions db))
      then raise (IntegrityError ''paper_fills_position_id_fkey'')
      else ret ())"

definition stored_fill :: "paper_env \<Rightarrow> paper_fill \<Rightarrow> paper_fill" where
  "stored_fill env row =
     row\<lparr>fl_quantity := numeric env (fl_quantity row),
         fl_market_open_price := numeric env (fl_market_open_price row),
         fl_slippage := numeric env (fl_slippage row),
         fl_fill_price := numeric env (fl_fill_price row), fl_fee := numeric env (fl_fee row)\<rparr>"

definition existing_fill :: "(paper_fill \<Rightarrow> bool) \<Rightarrow> paper_db \<Rightarrow> paper_fill option comp" where
  "existing_fill P db =
     cbind (scalar_one_or_none (filter P (db_fills db))) (\<lambda>r.
     case r of None \<Rightarrow> ret None | Some x \<Rightarrow> cbind (fill_row_to_domain x) (\<lambda>y. ret (Some y)))"

definition insert_or_get_paper_fill :: "paper_env \<Rightarrow> paper_fill \<Rightarrow> (paper_fill \<times> bool) db_op" where
  "insert_or_get_paper_fill env row db =
     cbind (if fl_paper_order_id row \<noteq> None
            then existing_fill (\<lambda>r. fl_paper_order_id r = fl_paper_order_id row \<and> fl_candle_key r = fl_candle_key row \<and>
                                    fl_fill_sequence r = fl_fill_sequence row) db
            else ret None) (\<lambda>existing_entry.
     case existing_entry of
       Some e \<Rightarrow> ret ((e, False), db)
     | None \<Rightarrow>
         cbind (if fl_position_id row \<noteq> None \<and> fl_fill_kind row = FILL_EXIT
                then existing_fill (\<lambda>r. fl_position_id r = fl_position_id row \<and> fl_candle_key r = fl_candle_key row \<and>
                                        fl_fill_sequence r = fl_fill_sequence row \<and> fl_fill_kind r = FILL_EXIT) db
                else ret None) (\<lambda>existing_exit.
         case existing_exit of
           Some e \<Rightarrow> ret ((e, False), db)
         | None \<Rightarrow>
             let stored = stored_fill env row
             in cbind (fill_checks stored) (\<lambda>_.
                case find (\<lambda>r. fl_deterministic_fill_key r = fl_deterministic_fill_key row) (db_fills db) of
                  Some e \<Rightarrow> cbind (fill_row_to_domain e) (\<lambda>x. ret ((x, False), db))
                | None \<Rightarrow>
                    cbind (fill_keys stored db) (\<lambda>_.
                    cbind (fill_row_to_domain stored) (\<lambda>x.
                    ret ((x, True), db\<lparr>db_fills := db_fills db @ [stored]\<rparr>))))))"

section \<open>Positions\<close>

definition is_open_position :: "paper_position \<Rightarrow> bool" where
  "is_open_position p \<longleftrightarrow> pp_status p \<in> {PP_OPEN, PP_CLOSING}"

definition stored_position :: "paper_env \<Rightarrow> paper_position \<Rightarrow> paper_position" where
  "stored_position env r =
     r\<lparr>pp_quantity := numeric env (pp_quantity r),
       pp_average_entry_price := numeric env (pp_average_entry_price r),
       pp_initial_stop := numeric env (pp_initial_stop r),
       pp_current_stop := numeric env (pp_current_stop r),
       pp_highest_close_since_entry := numeric env (pp_highest_close_since_entry r),
       pp_entry_atr14 := numeric env (pp_entry_atr14 r),
       pp_realized_pnl := numeric env (pp_realized_pnl r),
       pp_unrealized_pnl := numeric env (pp_unrealized_pnl r),
       pp_margin_reserved := numeric env (pp_margin_reserved r)\<rparr>"

text \<open>The constraints of a position row; \<open>others\<close> are the other rows of the table.\<close>

definition position_checks :: "paper_position \<Rightarrow> paper_position list \<Rightarrow> unit comp" where
  "position_checks r others =
     (if pp_quantity r \<le> 0 then raise (IntegrityError ''ck_paper_positions_quantity_positive'')
      else if pp_average_entry_price r \<le> 0 then raise (IntegrityError ''ck_paper_positions_entry_positive'')
      else if pp_entry_atr14 r \<le> 0 then raise (IntegrityError ''ck_paper_positions_entry_atr_positive'')
      else if pp_current_stop r < pp_initial_stop r then raise (IntegrityError ''ck_paper_positions_stop_monotonic'')
      else if pp_version r < 1 then raise (IntegrityError ''ck_paper_positions_version'')
      else if is_open_position r \<and> list_ex (\<lambda>x. pp_symbol x = pp_symbol r \<and> is_open_position x) others
      then raise (IntegrityError ''uq_paper_positions_open_symbol'')
      else ret ())"

definition create_position :: "paper_env \<Rightarrow> paper_position \<Rightarrow> paper_position db_op" where
  "create_position env row db =
     (let stored = stored_position env row
      in if list_ex (\<lambda>r. pp_position_id r = pp_position_id row) (db_positions db)
         then raise (IntegrityError ''paper_positions_pkey'')
         else if \<not> list_ex (\<lambda>r. ti_intent_id r = pp_entry_intent_id row) (db_intents db)
         then raise (IntegrityError ''paper_positions_entry_intent_id_fkey'')
         else cbind (position_checks stored (db_positions db)) (\<lambda>_.
              cbind (position_row_to_domain row) (\<lambda>p.
              ret (p, db\<lparr>db_positions := db_positions db @ [stored]\<rparr>))))"

text \<open>A flush of a changed position row.\<close>

definition flush_position :: "paper_env \<Rightarrow> uuid \<Rightarrow> (paper_position \<Rightarrow> paper_position) \<Rightarrow> unit db_op" where
  "flush_position env position_id change db =
     (case find (\<lambda>r. pp_position_id r = position_id) (db_positions db) of
        None \<Rightarrow> raise AssertionError
      | Some row \<Rightarrow>
          let stored = stored_position env (change row)
          in cbind (position_checks stored (filter (\<lambda>r. pp_position_id r \<noteq> position_id) (db_positions db))) (\<lambda>_.
             ret ((), db\<lparr>db_positions := update_row (\<lambda>r. pp_position_id r = position_id) (\<lambda>_. stored) (db_positions db)\<rparr>)))"

definition get_position_row :: "uuid \<Rightarrow> paper_position option db_op" where
  "get_position_row position_id = db_read (\<lambda>db. ret (find (\<lambda>r. pp_position_id r = position_id) (db_positions db)))"

definition get_open_positions :: "paper_position list db_op" where
  "get_open_positions = db_read (\<lambda>db. cmapM position_row_to_domain (filter is_open_position (db_positions db)))"

definition get_open_position_for_symbol :: "string \<Rightarrow> paper_position option db_op" where
  "get_open_position_for_symbol symbol =
     db_read (\<lambda>db.
       cbind (scalar_one_or_none (filter (\<lambda>r. pp_symbol r = symbol \<and> is_open_position r) (db_positions db))) (\<lambda>r.
       case r of None \<Rightarrow> ret None | Some row \<Rightarrow> cbind (position_row_to_domain row) (\<lambda>p. ret (Some p))))"

definition count_open_positions_by_symbol :: "(string, nat) dict db_op" where
  "count_open_positions_by_symbol =
     db_read (\<lambda>db. ret (foldl (\<lambda>counts p. dict_put (pp_symbol p) (get_default counts (pp_symbol p) 0 + 1) counts) []
       (filter is_open_position (db_positions db))))"

section \<open>Stop events, snapshots, audit\<close>

definition insert_or_get_stop_event :: "paper_env \<Rightarrow> position_stop_event \<Rightarrow> (position_stop_event \<times> bool) db_op" where
  "insert_or_get_stop_event env row db =
     (let stored = row\<lparr>sv_previous_stop := numeric env (sv_previous_stop row), sv_new_stop := numeric env (sv_new_stop row),
                       sv_highest_close := numeric env (sv_highest_close row), sv_atr := numeric env (sv_atr row)\<rparr>
      in if sv_new_stop stored < sv_previous_stop stored then raise (IntegrityError ''ck_stop_history_monotonic'')
         else case find (\<lambda>r. sv_position_id r = sv_position_id row \<and> sv_evaluation_time r = sv_evaluation_time row)
                     (db_stop_events db) of
                Some existing \<Rightarrow> cbind (stop_event_row_to_domain existing) (\<lambda>r. ret ((r, False), db))
              | None \<Rightarrow>
                  if list_ex (\<lambda>r. sv_stop_event_id r = sv_stop_event_id row) (db_stop_events db)
                  then raise (IntegrityError ''position_stop_history_pkey'')
                  else if \<not> list_ex (\<lambda>p. pp_position_id p = sv_position_id row) (db_positions db)
                  then raise (IntegrityError ''position_stop_history_position_id_fkey'')
                  else cbind (stop_event_row_to_domain stored) (\<lambda>r.
                       ret ((r, True), db\<lparr>db_stop_events := db_stop_events db @ [stored]\<rparr>)))"

definition insert_or_get_portfolio_snapshot :: "paper_env \<Rightarrow> portfolio_snapshot \<Rightarrow> (portfolio_snapshot \<times> bool) db_op" where
  "insert_or_get_portfolio_snapshot env row db =
     (case find (\<lambda>r. sp_idempotency_key r = sp_idempotency_key row) (db_snapshots db) of
        Some existing \<Rightarrow> ret ((existing, False), db)
      | None \<Rightarrow>
          if list_ex (\<lambda>r. sp_snapshot_id r = sp_snapshot_id row) (db_snapshots db)
          then raise (IntegrityError ''portfolio_snapshots_pkey'')
          else let stored = row\<lparr>sp_cash := numeric env (sp_cash row), sp_margin_used := numeric env (sp_margin_used row),
                                sp_equity := numeric env (sp_equity row), sp_unrealized_pnl := numeric env (sp_unrealized_pnl row),
                                sp_realized_pnl := numeric env (sp_realized_pnl row),
                                sp_total_open_risk := numeric env (sp_total_open_risk row)\<rparr>
               in ret ((stored, True), db\<lparr>db_snapshots := db_snapshots db @ [stored]\<rparr>))"

definition append_audit_event ::
  "paper_env \<Rightarrow> string \<Rightarrow> string \<Rightarrow> uuid \<Rightarrow> json_object \<Rightarrow> uuid option \<Rightarrow> datetime option \<Rightarrow> audit_event db_op" where
  "append_audit_event env event_type aggregate_type aggregate_id payload_json cycle_id created_at =
     db_bind uuid4 (\<lambda>event_id.
     let row = \<lparr>ae_event_id = event_id, ae_event_type = event_type, ae_aggregate_type = aggregate_type,
                ae_aggregate_id = aggregate_id, ae_cycle_id = cycle_id, ae_payload_json = payload_json,
                ae_created_at = set_if created_at (utc_now env)\<rparr>
     in db_bind (db_write (\<lambda>db. db\<lparr>db_audit := db_audit db @ [row]\<rparr>)) (\<lambda>_. db_ret row))"

end
