(* ===== verification/Paper_Jobs.thy ===== *)
theory Paper_Jobs
  imports Paper_Store
begin

text \<open>
  Operations made of several transactions. The service opens a transaction, or a savepoint inside one,
  with \<open>transaction_scope\<close> (\<open>services/paper_trading/db/transaction.py\<close>): an exception rolls back what was
  done inside the innermost scope and leaves what earlier scopes did. A job therefore returns the
  database also when it raises. The combinators work on any state; a job is a procedure on the database.
\<close>

type_synonym ('s, 'a) proc = "'s \<Rightarrow> ((py_error + 'a) \<times> 's) option"

type_synonym 'a job = "(paper_db, 'a) proc"

definition job_ret :: "'a \<Rightarrow> ('s, 'a) proc" where
  "job_ret x s = Some (Inr x, s)"

definition job_raise :: "py_error \<Rightarrow> ('s, 'a) proc" where
  "job_raise e s = Some (Inl e, s)"

definition job_bind :: "('s, 'a) proc \<Rightarrow> ('a \<Rightarrow> ('s, 'b) proc) \<Rightarrow> ('s, 'b) proc" where
  "job_bind m f s =
     (case m s of
        None \<Rightarrow> None
      | Some (Inl e, s') \<Rightarrow> Some (Inl e, s')
      | Some (Inr x, s') \<Rightarrow> f x s')"

text \<open>\<open>try: m except Exception as e: h(e)\<close>\<close>

definition job_catch :: "('s, 'a) proc \<Rightarrow> (py_error \<Rightarrow> ('s, 'a) proc) \<Rightarrow> ('s, 'a) proc" where
  "job_catch m h s =
     (case m s of
        None \<Rightarrow> None
      | Some (Inl e, s') \<Rightarrow> h e s'
      | Some (Inr x, s') \<Rightarrow> Some (Inr x, s'))"

text \<open>A block of repository calls in one scope, and a scope around a job.\<close>

definition transaction :: "'a db_op \<Rightarrow> 'a job" where
  "transaction m db =
     (case m db of
        None \<Rightarrow> None
      | Some (Inl e) \<Rightarrow> Some (Inl e, db)
      | Some (Inr (x, db')) \<Rightarrow> Some (Inr x, db'))"

definition job_lift :: "'a comp \<Rightarrow> 'a job" where
  "job_lift c = transaction (db_lift c)"

definition savepoint :: "'a job \<Rightarrow> 'a job" where
  "savepoint m db =
     (case m db of
        None \<Rightarrow> None
      | Some (Inl e, _) \<Rightarrow> Some (Inl e, db)
      | Some (Inr x, db') \<Rightarrow> Some (Inr x, db'))"

lemmas job_run = job_ret_def job_raise_def job_bind_def job_catch_def

lemma job_bind_ret [simp]: "job_bind (job_ret x) f = f x"
  by (rule ext) (simp add: job_run)

lemma job_bind_raise [simp]: "job_bind (job_raise e) f = job_raise e"
  by (rule ext) (simp add: job_run)

lemma job_bind_assoc: "job_bind (job_bind m f) g = job_bind m (\<lambda>x. job_bind (f x) g)"
  by (rule ext) (auto simp: job_bind_def split: option.splits sum.splits)

lemma transaction_ret: "m db = ret (x, db') \<Longrightarrow> transaction m db = Some (Inr x, db')"
  by (simp add: transaction_def ret_def)

lemma transaction_db_ret [simp]: "transaction (db_ret x) = job_ret x"
  by (rule ext) (simp add: transaction_def db_ret_def ret_def job_ret_def)

lemma transaction_cases:
  assumes "transaction m db = Some (r, db')"
  obtains (ok) x where "m db = ret (x, db')" "r = Inr x" | (error) e where "m db = raise e" "r = Inl e" "db' = db"
  using assms by (auto simp: transaction_def ret_def raise_def split: option.splits sum.splits)

lemma job_bind_cases:
  assumes "job_bind m f db = Some (r, db')"
  obtains (ok) x db1 where "m db = Some (Inr x, db1)" "f x db1 = Some (r, db')"
    | (error) e where "m db = Some (Inl e, db')" "r = Inl e"
  using assms by (auto simp: job_bind_def split: option.splits sum.splits prod.splits)

lemma savepoint_cases:
  assumes "savepoint m db = Some (r, db')"
  obtains (ok) x where "m db = Some (Inr x, db')" "r = Inr x" | (error) e db1 where "m db = Some (Inl e, db1)" "r = Inl e" "db' = db"
  using assms by (auto simp: savepoint_def split: option.splits sum.splits prod.splits)

lemma job_catch_cases:
  assumes "job_catch m h db = Some (r, db')"
  obtains (ok) x where "m db = Some (Inr x, db')" "r = Inr x" | (error) e db1 where "m db = Some (Inl e, db1)" "h e db1 = Some (r, db')"
  using assms by (auto simp: job_catch_def split: option.splits sum.splits prod.splits)

end
