(* ===== verification/Paper_Runs.thy ===== *)
theory Paper_Runs
  imports Paper_Jobs
begin

text \<open>
  The repository operations on the run records of the scheduler, on the deferral of groups of market
  events and on the rotation cursor (\<open>services/paper_trading/repository.py\<close>), and the classification of
  run outcomes and errors (\<open>market_event_errors.py\<close>). The columns \<open>updated_at\<close> of the two fairness tables,
  which nothing reads, and the widths of text columns are left out.
\<close>

section \<open>Error codes\<close>

fun processing_error_code :: "py_error \<Rightarrow> string" where
  "processing_error_code RetryableContextNotReady = ''RETRYABLE_CONTEXT_NOT_READY''"
| "processing_error_code FillNotDue = ''FILL_NOT_DUE''"
| "processing_error_code DailyEvaluationNotDue = ''DAILY_EVALUATION_NOT_DUE''"
| "processing_error_code RetryableSchedulerDeferred = ''RETRYABLE_SCHEDULER_DEFERRED''"
| "processing_error_code (PermanentConfigurationFailure code) = code"
| "processing_error_code _ = ''''"

definition PERMANENT_CONFIGURATION_ERROR_CODES :: "string list" where
  "PERMANENT_CONFIGURATION_ERROR_CODES =
     [''PERMANENT_CONFIGURATION_FAILURE'', ''PERMANENT_CONFIGURATION_INVALID_TICK_SIZE'',
      ''PERMANENT_CONFIGURATION_INVALID_QUANTITY_STEP'', ''PERMANENT_CONFIGURATION_INVALID_MIN_QUANTITY'',
      ''PERMANENT_CONFIGURATION_INVALID_MIN_NOTIONAL'', ''PERMANENT_CONFIGURATION_SYMBOL_MISMATCH'',
      ''PERMANENT_CONFIGURATION_PRECISION_MISMATCH'']"

definition is_permanent_configuration_error :: "string option \<Rightarrow> bool" where
  "is_permanent_configuration_error err =
     (case err of None \<Rightarrow> False | Some e \<Rightarrow> e \<in> set PERMANENT_CONFIGURATION_ERROR_CODES)"

definition RETRYABLE_MARKET_EVENT_ERROR_CODES :: "string list" where
  "RETRYABLE_MARKET_EVENT_ERROR_CODES =
     [processing_error_code RetryableContextNotReady, processing_error_code FillNotDue,
      processing_error_code RetryableSchedulerDeferred]"

definition is_retryable_market_event_error :: "string option \<Rightarrow> bool" where
  "is_retryable_market_event_error err =
     (case err of None \<Rightarrow> False | Some e \<Rightarrow> e \<in> set RETRYABLE_MARKET_EVENT_ERROR_CODES)"

section \<open>Scheduler runs\<close>

definition is_run :: "string \<Rightarrow> datetime \<Rightarrow> scheduler_run \<Rightarrow> bool" where
  "is_run job_name scheduled_for r \<longleftrightarrow> sr_job_name r = job_name \<and> sr_scheduled_for r = scheduled_for"

text \<open>\<open>scalar_one\<close>: exactly one row.\<close>

definition scalar_one :: "'a list \<Rightarrow> 'a comp" where
  "scalar_one rows = (case rows of [] \<Rightarrow> raise NoResultFound | [x] \<Rightarrow> ret x | _ # _ # _ \<Rightarrow> raise MultipleResultsFound)"

definition run_checks :: "scheduler_run \<Rightarrow> scheduler_run list \<Rightarrow> unit comp" where
  "run_checks row rows =
     (if list_ex (\<lambda>r. sr_run_id r = sr_run_id row) rows then raise (IntegrityError ''scheduler_runs_pkey'')
      else if list_ex (\<lambda>r. sr_idempotency_key r = sr_idempotency_key row) rows
           then raise (IntegrityError ''scheduler_runs_idempotency_key_key'')
      else if (case sr_recovery_of_run_id row of None \<Rightarrow> False | Some i \<Rightarrow> \<not> list_ex (\<lambda>r. sr_run_id r = i) rows)
           then raise (IntegrityError ''scheduler_runs_recovery_of_run_id_fkey'')
      else ret ())"

definition insert_or_get_scheduler_run :: "uuid option \<Rightarrow> scheduler_run \<Rightarrow> (scheduler_run \<times> bool) db_op" where
  "insert_or_get_scheduler_run active_soak_run_id row db =
     (let row = row\<lparr>sr_soak_run_id := set_if_some (sr_soak_run_id row) active_soak_run_id\<rparr>
      in case filter (is_run (sr_job_name row) (sr_scheduled_for row)) (db_runs db) of
           [] \<Rightarrow> cbind (run_checks row (db_runs db)) (\<lambda>_. ret ((row, True), db\<lparr>db_runs := db_runs db @ [row]\<rparr>))
         | x # xs \<Rightarrow> cbind (scalar_one (x # xs)) (\<lambda>existing. ret ((existing, False), db)))"

definition get_scheduler_run :: "string \<Rightarrow> datetime \<Rightarrow> scheduler_run option db_op" where
  "get_scheduler_run job_name scheduled_for =
     db_read (\<lambda>db. scalar_one_or_none (filter (is_run job_name scheduled_for) (db_runs db)))"

definition complete_scheduler_run ::
  "string \<Rightarrow> datetime \<Rightarrow> scheduler_run_status \<Rightarrow> datetime \<Rightarrow> string option \<Rightarrow> scheduler_run db_op" where
  "complete_scheduler_run job_name scheduled_for status completed_at err =
     db_bind (db_write (db_runs_update (update_row (is_run job_name scheduled_for)
       (\<lambda>r. r\<lparr>sr_status := status, sr_completed_at := Some completed_at, sr_error := err\<rparr>)))) (\<lambda>_.
     db_read (\<lambda>db. scalar_one (filter (is_run job_name scheduled_for) (db_runs db))))"

definition contains_text :: "string \<Rightarrow> string \<Rightarrow> bool" where
  "contains_text part s \<longleftrightarrow> list_ex (\<lambda>i. take (length part) (drop i s) = part) [0..<Suc (length s)]"

definition list_permanent_configuration_failures :: "scheduler_run list db_op" where
  "list_permanent_configuration_failures =
     db_read (\<lambda>db. ret (filter (\<lambda>r.
       sr_status r = SR_FAILED \<and> take 3 (sr_job_name r) = ''me:'' \<and> is_permanent_configuration_error (sr_error r) \<and>
       sr_recovery_of_run_id r = None \<and> sr_resolved_by_run_id r = None \<and>
       \<not> contains_text '':recovery:'' (sr_job_name r)) (db_runs db)))"

definition count_recovery_attempts :: "uuid \<Rightarrow> nat db_op" where
  "count_recovery_attempts original_run_id =
     db_read (\<lambda>db. ret (length (filter (\<lambda>r. sr_recovery_of_run_id r = Some original_run_id) (db_runs db))))"

text \<open>\<open>ORDER BY started_at DESC\<close>, where a row without a start comes first.\<close>

definition latest_started_first :: "scheduler_run list \<Rightarrow> scheduler_run list" where
  "latest_started_first rows =
     filter (\<lambda>r. sr_started_at r = None) rows @
     sort_key (\<lambda>r. - the (sr_started_at r)) (filter (\<lambda>r. sr_started_at r \<noteq> None) rows)"

definition get_active_recovery_attempt :: "uuid \<Rightarrow> scheduler_run option db_op" where
  "get_active_recovery_attempt original_run_id =
     db_read (\<lambda>db. ret (find
       (\<lambda>r. sr_status r = SR_RUNNING \<or> sr_status r = SR_SKIPPED \<and> is_retryable_market_event_error (sr_error r))
       (latest_started_first (filter (\<lambda>r. sr_recovery_of_run_id r = Some original_run_id) (db_runs db)))))"

definition reactivate_scheduler_run :: "string \<Rightarrow> datetime \<Rightarrow> datetime \<Rightarrow> unit db_op" where
  "reactivate_scheduler_run job_name scheduled_for started_at =
     db_write (db_runs_update (update_row (is_run job_name scheduled_for)
       (\<lambda>r. r\<lparr>sr_status := SR_RUNNING, sr_error := None, sr_started_at := Some started_at, sr_completed_at := None\<rparr>)))"

definition running_run :: "uuid \<Rightarrow> string \<Rightarrow> datetime \<Rightarrow> datetime \<Rightarrow> uuid option \<Rightarrow> scheduler_run" where
  "running_run run_id job_name scheduled_for started_at recovery_of =
     \<lparr>sr_run_id = run_id, sr_job_name = job_name, sr_scheduled_for = scheduled_for, sr_started_at = Some started_at,
      sr_completed_at = None, sr_status = SR_RUNNING, sr_error = None,
      sr_idempotency_key = scheduler_run_key job_name scheduled_for, sr_recovery_of_run_id = recovery_of,
      sr_resolved_by_run_id = None, sr_soak_run_id = None\<rparr>"

definition create_recovery_attempt :: "uuid option \<Rightarrow> scheduler_run \<Rightarrow> string \<Rightarrow> datetime \<Rightarrow> (scheduler_run \<times> bool) db_op" where
  "create_recovery_attempt soak original_run recovery_job_name started_at =
     db_bind uuid4 (\<lambda>run_id.
     insert_or_get_scheduler_run soak
       (running_run run_id recovery_job_name (sr_scheduled_for original_run) started_at (Some (sr_run_id original_run))))"

definition mark_run_resolved :: "uuid \<Rightarrow> uuid \<Rightarrow> unit db_op" where
  "mark_run_resolved original_run_id recovery_run_id db =
     (if list_ex (\<lambda>r. sr_run_id r = original_run_id \<and> sr_resolved_by_run_id r = None) (db_runs db) \<and>
         \<not> list_ex (\<lambda>r. sr_run_id r = recovery_run_id) (db_runs db)
      then raise (IntegrityError ''scheduler_runs_resolved_by_run_id_fkey'')
      else ret ((), db\<lparr>db_runs := update_row (\<lambda>r. sr_run_id r = original_run_id \<and> sr_resolved_by_run_id r = None)
                          (\<lambda>r. r\<lparr>sr_resolved_by_run_id := Some recovery_run_id\<rparr>) (db_runs db)\<rparr>))"

definition delete_scheduler_run_if_running :: "string \<Rightarrow> datetime \<Rightarrow> bool db_op" where
  "delete_scheduler_run_if_running job_name scheduled_for db =
     (let deleted = (\<lambda>r. is_run job_name scheduled_for r \<and> sr_status r = SR_RUNNING \<and> sr_completed_at r = None)
      in ret (list_ex deleted (db_runs db), db\<lparr>db_runs := filter (\<lambda>r. \<not> deleted r) (db_runs db)\<rparr>))"

definition get_running_scheduler_runs :: "scheduler_run list db_op" where
  "get_running_scheduler_runs = db_read (\<lambda>db. ret (filter (\<lambda>r. sr_status r = SR_RUNNING) (db_runs db)))"

definition fail_orphan_scheduler_runs :: "datetime \<Rightarrow> nat db_op" where
  "fail_orphan_scheduler_runs completed_at db =
     ret (length (filter (\<lambda>r. sr_status r = SR_RUNNING) (db_runs db)),
          db\<lparr>db_runs := update_row (\<lambda>r. sr_status r = SR_RUNNING)
               (\<lambda>r. r\<lparr>sr_status := SR_FAILED, sr_completed_at := Some completed_at,
                      sr_error := Some ''orphan_run_marked_failed_on_recovery''\<rparr>) (db_runs db)\<rparr>)"

section \<open>Fairness state\<close>

definition get_fairness_group_rotation_cursor :: "int db_op" where
  "get_fairness_group_rotation_cursor =
     db_read (\<lambda>db. ret (case db_rotation_cursor db of None \<Rightarrow> 0 | Some c \<Rightarrow> c))"

definition set_fairness_group_rotation_cursor :: "int \<Rightarrow> unit db_op" where
  "set_fairness_group_rotation_cursor cursor = db_write (db_rotation_cursor_update (\<lambda>_. Some cursor))"

definition list_market_event_group_states :: "(string, market_event_group_state) dict db_op" where
  "list_market_event_group_states = db_read (\<lambda>db. ret (map (\<lambda>g. (gs_group_key g, g)) (db_group_states db)))"

definition upsert_market_event_group_deferred :: "market_event_group_state \<Rightarrow> unit db_op" where
  "upsert_market_event_group_deferred row db =
     (if gs_defer_count row < 0 then raise (IntegrityError ''ck_market_event_group_defer_count'')
      else ret ((), db\<lparr>db_group_states :=
             (if list_ex (\<lambda>g. gs_group_key g = gs_group_key row) (db_group_states db)
              then update_row (\<lambda>g. gs_group_key g = gs_group_key row) (\<lambda>_. row) (db_group_states db)
              else db_group_states db @ [row])\<rparr>))"

definition delete_market_event_group_state :: "string \<Rightarrow> unit db_op" where
  "delete_market_event_group_state group_key =
     db_write (db_group_states_update (filter (\<lambda>g. gs_group_key g \<noteq> group_key)))"

end
