(* ===== verification/Event_Fairness.thy ===== *)
theory Event_Fairness
  imports Paper_Runs "HOL-Library.Product_Lexorder" "HOL-Library.List_Lexorder" "HOL-Library.Char_ord"
begin

text \<open>
  Fair scheduling of market events (\<open>services/paper_trading/event_fairness.py\<close>): events are grouped by
  class and candle time, groups take turns by a persistent rotation cursor, and a group that was
  deferred waits before it is tried again. The data of an event is that of \<open>market_events.py\<close>.
\<close>

section \<open>Events\<close>

datatype market_event_type = DAILY_OPEN_AVAILABLE | DAILY_LIVE_UPDATE | DAILY_CLOSED | WEEKLY_CLOSED | MONTHLY_CLOSED

fun market_event_type_value :: "market_event_type \<Rightarrow> string" where
  "market_event_type_value DAILY_OPEN_AVAILABLE = ''DAILY_OPEN_AVAILABLE''"
| "market_event_type_value DAILY_LIVE_UPDATE = ''DAILY_LIVE_UPDATE''"
| "market_event_type_value DAILY_CLOSED = ''DAILY_CLOSED''"
| "market_event_type_value WEEKLY_CLOSED = ''WEEKLY_CLOSED''"
| "market_event_type_value MONTHLY_CLOSED = ''MONTHLY_CLOSED''"

record market_event =
  me_event_type :: market_event_type
  me_symbol :: string
  me_candle_open_time :: datetime
  me_provider_received_at :: datetime
  me_observed_low :: "decimal option"

text \<open>\<open>strftime("%Y%m%dT%H%M%SZ")\<close>: the ISO text without its dashes and colons.\<close>

definition compact_timestamp :: "datetime \<Rightarrow> string" where
  "compact_timestamp t = filter (\<lambda>c. c \<noteq> CHR ''-'' \<and> c \<noteq> CHR '':'') (second_text t) @ ''Z''"

definition symbol_order :: "string \<Rightarrow> int" where
  "symbol_order s = get_default [(''BTC'', 0), (''ETH'', 1), (''SOL'', 2)] s 99"

fun event_order :: "market_event_type \<Rightarrow> int" where
  "event_order DAILY_OPEN_AVAILABLE = 0"
| "event_order DAILY_LIVE_UPDATE = 1"
| "event_order DAILY_CLOSED = 2"
| "event_order WEEKLY_CLOSED = 3"
| "event_order MONTHLY_CLOSED = 4"

section \<open>Groups\<close>

definition market_event_group_key :: "market_event \<Rightarrow> string" where
  "market_event_group_key e =
     market_event_type_value (me_event_type e) @ '':'' @ compact_timestamp (me_candle_open_time e)"

definition group_add :: "(string, market_event list) dict \<Rightarrow> market_event \<Rightarrow> (string, market_event list) dict" where
  "group_add groups e =
     (let key = market_event_group_key e in dict_put key (get_default groups key [] @ [e]) groups)"

definition group_events :: "market_event list \<Rightarrow> (string, market_event list) dict" where
  "group_events candidates =
     map (\<lambda>(key, es). (key, sort_key (\<lambda>e. (symbol_order (me_symbol e), me_symbol e)) es)) (foldl group_add [] candidates)"

definition group_rank :: "(string, market_event list) dict \<Rightarrow> string \<Rightarrow> int \<times> datetime \<times> string" where
  "group_rank groups key =
     (let e = hd (get_default groups key []) in (event_order (me_event_type e), me_candle_open_time e, key))"

definition ordered_group_keys :: "(string, market_event list) dict \<Rightarrow> string list" where
  "ordered_group_keys groups = sort_key (group_rank groups) (dict_keys groups)"

definition eligible_group_keys ::
  "string list \<Rightarrow> datetime \<Rightarrow> (string, market_event_group_state) dict \<Rightarrow> string list" where
  "eligible_group_keys group_keys evaluation_time group_states =
     filter (\<lambda>key. case dict_get group_states key of
                     None \<Rightarrow> True
                   | Some state \<Rightarrow> gs_next_attempt_at state \<le> evaluation_time) group_keys"

section \<open>Backoff and rotation\<close>

definition DEFAULT_MIN_RETRY_INTERVAL_SECONDS :: int where
  "DEFAULT_MIN_RETRY_INTERVAL_SECONDS = 1"

definition MAX_RETRY_INTERVAL_SECONDS :: int where
  "MAX_RETRY_INTERVAL_SECONDS = 30"

definition compute_retry_backoff_seconds :: "int \<Rightarrow> int" where
  "compute_retry_backoff_seconds defer_count =
     (let bounded = min (max defer_count 1) 5;
          multiplier = DEFAULT_MIN_RETRY_INTERVAL_SECONDS * 2 ^ nat (bounded - 1)
      in min MAX_RETRY_INTERVAL_SECONDS multiplier)"

definition next_retry_at :: "datetime \<Rightarrow> int \<Rightarrow> datetime" where
  "next_retry_at evaluation_time defer_count = evaluation_time + seconds (compute_retry_backoff_seconds defer_count)"

definition advance_group_rotation_cursor :: "int \<Rightarrow> nat \<Rightarrow> nat \<Rightarrow> bool \<Rightarrow> int" where
  "advance_group_rotation_cursor cursor eligible_group_count groups_rotated had_deferred =
     (if eligible_group_count = 0 then cursor
      else if had_deferred then (cursor + 1) mod int eligible_group_count
      else if groups_rotated = 0 then cursor
      else (cursor + int groups_rotated) mod int eligible_group_count)"

text \<open>The order in which a poll visits the eligible groups.\<close>

definition poll_order :: "int \<Rightarrow> string list \<Rightarrow> string list" where
  "poll_order cursor keys =
     (let n = length keys; start_index = nat (cursor mod int n)
      in map (\<lambda>offset. keys ! ((start_index + offset) mod n)) [0..<n])"

section \<open>Properties\<close>

subsection \<open>Groups\<close>

lemma group_add_keys: "set (dict_keys (group_add g e)) = insert (market_event_group_key e) (set (dict_keys g))"
  by (auto simp: group_add_def Let_def keys_put)

lemma group_add_distinct: "distinct (dict_keys g) \<Longrightarrow> distinct (dict_keys (group_add g e))"
  by (simp add: group_add_def Let_def keys_put)

lemma group_add_get:
  "get_default (group_add g e) k [] = (if k = market_event_group_key e then get_default g k [] @ [e] else get_default g k [])"
  by (simp add: group_add_def Let_def get_default_def)

lemma grouped_fold:
  "distinct (dict_keys g) \<Longrightarrow>
   distinct (dict_keys (foldl group_add g es)) \<and>
   set (dict_keys (foldl group_add g es)) = set (dict_keys g) \<union> market_event_group_key ` set es \<and>
   get_default (foldl group_add g es) k [] = get_default g k [] @ filter (\<lambda>e. market_event_group_key e = k) es"
proof (induction es arbitrary: g)
  case (Cons e es)
  from Cons.IH [OF group_add_distinct [OF Cons.prems]] show ?case
    by (auto simp: group_add_keys group_add_get)
qed simp

lemma dict_get_map: "dict_get (map (\<lambda>(k, v). (k, f v)) d) k = map_option f (dict_get d k)"
  by (induction d) auto

text \<open>A group holds the candidates with its key, by symbol; every candidate is in exactly one group.\<close>

lemma group_events_spec:
  "distinct (dict_keys (group_events es))"
  "set (dict_keys (group_events es)) = market_event_group_key ` set es"
  "get_default (group_events es) k [] =
     sort_key (\<lambda>e. (symbol_order (me_symbol e), me_symbol e)) (filter (\<lambda>e. market_event_group_key e = k) es)"
proof -
  have fold: "distinct (dict_keys (foldl group_add [] es))" "set (dict_keys (foldl group_add [] es)) = market_event_group_key ` set es"
    "get_default (foldl group_add [] es) k [] = filter (\<lambda>e. market_event_group_key e = k) es"
    using grouped_fold [of "[]" es k] by (simp_all add: get_default_def)
  have keys: "dict_keys (group_events es) = dict_keys (foldl group_add [] es)"
    by (simp add: group_events_def dict_keys_def comp_def case_prod_unfold)
  show "distinct (dict_keys (group_events es))" "set (dict_keys (group_events es)) = market_event_group_key ` set es"
    using fold by (simp_all add: keys)
  show "get_default (group_events es) k [] =
     sort_key (\<lambda>e. (symbol_order (me_symbol e), me_symbol e)) (filter (\<lambda>e. market_event_group_key e = k) es)"
    using fold(3) by (auto simp: group_events_def get_default_def dict_get_map split: option.splits)
qed

lemma ordered_group_keys_spec:
  "distinct (ordered_group_keys (group_events es))"
  "set (ordered_group_keys (group_events es)) = market_event_group_key ` set es"
  by (simp_all add: ordered_group_keys_def group_events_spec)

subsection \<open>Backoff\<close>

lemma backoff_bounds: "1 \<le> compute_retry_backoff_seconds n \<and> compute_retry_backoff_seconds n \<le> 16"
proof -
  define b where "b = nat (min (max n 1) 5 - 1)"
  have "b \<le> 4" by (simp add: b_def)
  then have "(2 :: int) ^ b \<le> 2 ^ 4" by (rule power_increasing) simp
  then have "1 \<le> (2 :: int) ^ b" "(2 :: int) ^ b \<le> 16" by simp_all
  then show ?thesis
    by (simp add: compute_retry_backoff_seconds_def DEFAULT_MIN_RETRY_INTERVAL_SECONDS_def MAX_RETRY_INTERVAL_SECONDS_def Let_def
        b_def [symmetric])
qed

lemma backoff_mono: "mono compute_retry_backoff_seconds"
proof (rule monoI)
  fix m n :: int assume "m \<le> n"
  then have "nat (min (max m 1) 5 - 1) \<le> nat (min (max n 1) 5 - 1)" by (intro nat_mono) (simp add: min_def max_def)
  then have "(2 :: int) ^ nat (min (max m 1) 5 - 1) \<le> 2 ^ nat (min (max n 1) 5 - 1)" by (rule power_increasing) simp
  then show "compute_retry_backoff_seconds m \<le> compute_retry_backoff_seconds n"
    by (simp only: compute_retry_backoff_seconds_def DEFAULT_MIN_RETRY_INTERVAL_SECONDS_def Let_def mult_1)
       (rule min.mono, simp_all)
qed

subsection \<open>Rotation\<close>

lemma length_poll_order [simp]: "length (poll_order c keys) = length keys"
  by (simp add: poll_order_def Let_def)

lemma int_index: "int (nat (c mod int n)) = c mod int n" if "i < n" for i n
  using that by simp

lemma poll_order_nth:
  assumes "o' < length keys"
  shows "poll_order c keys ! o' = keys ! nat ((c + int o') mod int (length keys))"
proof -
  let ?n = "length keys"
  have "int ((nat (c mod int ?n) + o') mod ?n) = (c + int o') mod int ?n"
    unfolding zmod_int of_nat_add int_index [OF assms] by (simp add: mod_add_left_eq)
  then have "(nat (c mod int ?n) + o') mod ?n = nat ((c + int o') mod int ?n)" by linarith
  with assms show ?thesis by (simp add: poll_order_def Let_def)
qed

lemma set_poll_order [simp]: "set (poll_order c keys) = set keys"
proof
  show "set (poll_order c keys) \<subseteq> set keys" by (auto simp: poll_order_def Let_def intro!: nth_mem mod_less_divisor)
  show "set keys \<subseteq> set (poll_order c keys)"
  proof
    fix k assume "k \<in> set keys"
    then obtain i where i: "i < length keys" "k = keys ! i" by (auto simp: in_set_conv_nth)
    let ?o = "nat ((int i - c) mod int (length keys))"
    have o: "?o < length keys" using pos_mod_bound [of "int (length keys)" "int i - c"] int_index [OF i(1), of "int i - c"] i(1) by linarith
    have "(c + int ?o) mod int (length keys) = int i"
      unfolding int_index [OF i(1)] using i(1) by (simp add: mod_add_right_eq)
    with poll_order_nth [OF o] i have "poll_order c keys ! ?o = k" by simp
    with o show "k \<in> set (poll_order c keys)" by (metis nth_mem length_poll_order)
  qed
qed

text \<open>
  How many groups come before the group at index \<open>i\<close> in the order from a cursor. A poll that does not
  reach the group brings it nearer.
\<close>

definition turns_before :: "nat \<Rightarrow> nat \<Rightarrow> int \<Rightarrow> nat" where
  "turns_before n i c = nat ((int i - c) mod int n)"

lemma turns_before_less: "0 < n \<Longrightarrow> turns_before n i c < n"
  by (simp add: turns_before_def nat_less_iff)

lemma visited_by_turn:
  assumes "i < length keys" and "turns_before (length keys) i c < r"
  shows "keys ! i \<in> set (take r (poll_order c keys))"
proof -
  let ?o = "turns_before (length keys) i c"
  have o: "?o < length keys" using assms(1) by (intro turns_before_less) linarith
  have "(c + int ?o) mod int (length keys) = int i" unfolding turns_before_def int_index [OF assms(1)] using assms(1) by (simp add: mod_add_right_eq)
  with poll_order_nth [OF o] assms(1) have "poll_order c keys ! ?o = keys ! i" by simp
  with assms(2) o show ?thesis by (auto simp: in_set_conv_nth intro!: exI [of _ ?o])
qed

lemma cursor_brings_nearer:
  assumes "0 < n" and "1 \<le> r" and "r \<le> turns_before n i c"
  shows "turns_before n i (advance_group_rotation_cursor c n r d) < turns_before n i c"
proof -
  define a where "a = (if d then 1 else int r)"
  have a: "1 \<le> a" "a \<le> int r" using assms(2) by (auto simp: a_def)
  have adv: "advance_group_rotation_cursor c n r d = (c + a) mod int n"
    using assms(1,2) by (auto simp: advance_group_rotation_cursor_def a_def)
  let ?t = "(int i - c) mod int n"
  have t: "0 \<le> ?t" "?t < int n" using assms(1) by simp_all
  then have r: "int r \<le> ?t" using assms(3) unfolding turns_before_def by linarith
  have "(int i - (c + a) mod int n) mod int n = (?t - a) mod int n"
    by (metis diff_diff_eq mod_diff_left_eq mod_diff_right_eq)
  also have "\<dots> = ?t - a" using t r a by (intro mod_pos_pos_trivial) linarith+
  finally show ?thesis using t r a unfolding turns_before_def adv by linarith
qed

theorem every_group_gets_a_turn:
  assumes "\<And>i. c (Suc i) = advance_group_rotation_cursor (c i) (length keys) (r i) (d i)"
    and "\<And>i. 1 \<le> r i" and "k \<in> set keys"
  shows "\<exists>i < length keys. k \<in> set (take (r i) (poll_order (c i) keys))"
proof (rule ccontr)
  let ?n = "length keys"
  assume never: "\<not> ?thesis"
  from assms(3) obtain j where j: "j < ?n" "k = keys ! j" by (auto simp: in_set_conv_nth)
  then have n: "0 < ?n" by linarith
  have late: "r i \<le> turns_before ?n j (c i)" if "i < ?n" for i
    using never that visited_by_turn [OF j(1), of "c i" "r i"] j(2) by (metis not_less)
  have "i + turns_before ?n j (c i) < ?n" if "i \<le> ?n" for i
    using that
  proof (induction i)
    case 0
    then show ?case using turns_before_less [OF n] by simp
  next
    case (Suc i)
    have "turns_before ?n j (c (Suc i)) < turns_before ?n j (c i)"
      unfolding assms(1) by (rule cursor_brings_nearer [OF n assms(2) late]) (use Suc.prems in simp)
    with Suc show ?case by simp
  qed
  from this [of ?n] show False by simp
qed

end
