(* ===== verification/Paper_Execution.thy ===== *)
theory Paper_Execution
  imports Paper_Jobs Backtest_Engine
begin

text \<open>
  Accounting adapters (\<open>services/paper_trading/accounting.py\<close>), the entry calculation and the
  transactional fill (\<open>execution.py\<close>) and the portfolio snapshots (\<open>portfolio.py\<close>). The calculation of a
  paper entry is shown to be the one of the backtester.
\<close>

section \<open>Accounting\<close>

definition paper_position_to_simulated :: "paper_position \<Rightarrow> simulated_position" where
  "paper_position_to_simulated p =
     \<lparr>pos_symbol = pp_symbol p, pos_quantity = pp_quantity p, pos_entry_price = pp_average_entry_price p,
      pos_entry_time = pp_opened_at p, pos_initial_stop = pp_initial_stop p, pos_trail_stop = pp_current_stop p,
      pos_effective_stop = pp_current_stop p, pos_highest_close = pp_highest_close_since_entry p,
      pos_entry_atr14 = pp_entry_atr14 p, pos_client_intent_id = uuid_str (pp_entry_intent_id p),
      pos_margin_reserved = pp_margin_reserved p\<rparr>"

definition build_account_from_paper_state ::
  "paper_wallet_state \<Rightarrow> paper_position list \<Rightarrow> (string, decimal) dict \<Rightarrow> risk_parameters \<Rightarrow> account_state" where
  "build_account_from_paper_state wallet open_positions mark_prices params =
     (let simulated = map paper_position_to_simulated open_positions;
          portfolio = build_portfolio_state (wl_cash wallet) simulated [] (wl_total_fees wallet)
            (wl_total_funding wallet) (wl_total_slippage wallet) (wl_total_realized_pnl wallet)
      in build_account_state portfolio mark_prices (max_leverage params))"

definition compute_paper_equity ::
  "paper_wallet_state \<Rightarrow> paper_position list \<Rightarrow> (string, decimal) dict \<Rightarrow> decimal" where
  "compute_paper_equity wallet open_positions mark_prices =
     compute_equity (wl_cash wallet) (map paper_position_to_simulated open_positions) mark_prices"

definition compute_paper_unrealized_pnl :: "paper_position list \<Rightarrow> (string, decimal) dict \<Rightarrow> decimal" where
  "compute_paper_unrealized_pnl open_positions mark_prices =
     compute_unrealized_pnl (map paper_position_to_simulated open_positions) mark_prices"

definition compute_paper_open_risk :: "paper_position list \<Rightarrow> (string, decimal) dict \<Rightarrow> decimal" where
  "compute_paper_open_risk open_positions mark_prices =
     current_open_risk_usd (to_position_states (map paper_position_to_simulated open_positions) mark_prices)"

definition compute_paper_margin_used :: "paper_position list \<Rightarrow> decimal" where
  "compute_paper_margin_used open_positions = compute_used_margin (map paper_position_to_simulated open_positions)"

definition resolve_marks_for_paper_positions ::
  "paper_position list \<Rightarrow> (string, candle) dict \<Rightarrow> (string, decimal) dict \<Rightarrow> (string, decimal) dict" where
  "resolve_marks_for_paper_positions open_positions day_candles prior_closes =
     resolve_marks_at_open (map paper_position_to_simulated open_positions) day_candles prior_closes"

section \<open>Snapshots\<close>

definition capture_snapshot ::
  "paper_env \<Rightarrow> datetime \<Rightarrow> string \<Rightarrow> paper_wallet_state option \<Rightarrow> paper_position list option \<Rightarrow> (string, candle) dict \<Rightarrow>
   (string, decimal) dict \<Rightarrow> uuid option \<Rightarrow> (portfolio_snapshot \<times> bool) db_op"
where
  "capture_snapshot env evaluation_time event given_wallet given_positions day_candles prior_closes cycle_id =
     db_bind (case given_wallet of None \<Rightarrow> get_wallet | Some w \<Rightarrow> db_ret (Some w)) (\<lambda>wallet_opt.
     case wallet_opt of
       None \<Rightarrow> db_raise (LookupError ''paper_wallet not seeded'')
     | Some wallet \<Rightarrow>
         db_bind (case given_positions of None \<Rightarrow> get_open_positions | Some ps \<Rightarrow> db_ret ps) (\<lambda>open_positions.
         let marks = resolve_marks_for_paper_positions open_positions day_candles prior_closes;
             unrealized = compute_paper_unrealized_pnl open_positions marks;
             equity = compute_paper_equity wallet open_positions marks;
             margin_used = compute_paper_margin_used open_positions;
             open_risk = compute_paper_open_risk open_positions marks
         in db_bind uuid4 (\<lambda>snapshot_id.
            db_bind (insert_or_get_portfolio_snapshot env
              \<lparr>sp_snapshot_id = snapshot_id, sp_evaluation_time = evaluation_time, sp_cash = wl_cash wallet,
               sp_margin_used = margin_used, sp_equity = equity, sp_unrealized_pnl = unrealized,
               sp_realized_pnl = wl_total_realized_pnl wallet, sp_total_open_risk = open_risk,
               sp_open_position_count = length open_positions,
               sp_idempotency_key = portfolio_snapshot_key event evaluation_time\<rparr>) (\<lambda>(snapshot, created).
            if created
            then db_bind (append_audit_event env ''PORTFOLIO_SNAPSHOT'' ''portfolio_snapshot'' (sp_snapshot_id snapshot)
                    [(''event'', JText event), (''equity'', JDecimal equity)] cycle_id (Some evaluation_time)) (\<lambda>_.
                  db_ret (snapshot, created))
            else db_ret (snapshot, created)))))"

section \<open>The entry calculation\<close>

record entry_approval =
  en_fill_prices :: entry_fill_computation
  en_accounting :: entry_accounting
  en_quantity :: decimal
  en_reason_codes :: "reason_code list"

record entry_rejection =
  ej_reason_codes :: "reason_code list"
  ej_detail :: string

datatype entry_execution_result = EntryExecutionRejected entry_rejection | EntryExecutionApproved entry_approval

record entry_execution_input =
  ei_intent :: trade_intent
  ei_open_ref :: decimal
  ei_atr14 :: decimal
  ei_candle_open_time :: datetime
  ei_constraints :: symbol_constraints
  ei_wallet_cash :: decimal
  ei_open_positions :: "paper_position list"
  ei_pending_intents :: "pending_intent list"
  ei_processed_intent_ids :: "string set"
  ei_day_candles :: "(string, candle) dict"
  ei_prior_closes :: "(string, decimal) dict"
  ei_strategy_params :: strategy_parameters
  ei_risk_params :: risk_parameters
  ei_execution_config :: paper_execution_config

definition validate_symbol_constraints :: "symbol_constraints option \<Rightarrow> symbol_constraints comp" where
  "validate_symbol_constraints constraints =
     (case constraints of
        None \<Rightarrow> raise (ValueError ''SymbolConstraints must be explicitly provided'')
      | Some c \<Rightarrow>
          (case validate_symbol_constraints_core c of
             Some violation \<Rightarrow> raise (ValueError (''Invalid SymbolConstraints: '' @ cv_message violation))
           | None \<Rightarrow> ret c))"

definition rejected :: "reason_code list \<Rightarrow> string \<Rightarrow> entry_execution_result" where
  "rejected codes detail = EntryExecutionRejected \<lparr>ej_reason_codes = codes, ej_detail = detail\<rparr>"

definition compute_entry_execution :: "risk_fn \<Rightarrow> entry_execution_input \<Rightarrow> entry_execution_result comp" where
  "compute_entry_execution risk inputs =
     cbind (validate_symbol_constraints (Some (ei_constraints inputs))) (\<lambda>constraints.
     if ei_open_ref inputs \<le> 0 then ret (rejected [] ''invalid open price'')
     else
     cbind (compute_entry_fill_prices (ei_open_ref inputs) (ei_atr14 inputs)
              (xc_slippage_bps (ei_execution_config inputs)) (ei_strategy_params inputs)
              (price_tick_size constraints)) (\<lambda>fill_prices.
     let simulated_open = map paper_position_to_simulated (ei_open_positions inputs)
     in cbind (evaluate_entry_risk_decision risk (ti_symbol (ei_intent inputs)) (ef_fill_price fill_prices)
                 (ef_stop_initial fill_prices) (ti_idempotency_key (ei_intent inputs)) (ei_atr14 inputs) constraints
                 (ei_wallet_cash inputs) simulated_open (ei_pending_intents inputs) (ei_processed_intent_ids inputs)
                 (ei_day_candles inputs) (ei_prior_closes inputs) (ei_risk_params inputs) MD_OK BOT_ACTIVE) (\<lambda>decision.
        case (approved decision, rounded_quantity decision) of
          (True, Some qty) \<Rightarrow>
            cbind (compute_entry_accounting (ef_fill_price fill_prices) (ei_open_ref inputs) qty
                     (ef_stop_initial fill_prices) (xc_fee_rate (ei_execution_config inputs))
                     (xc_slippage_bps (ei_execution_config inputs)) (xc_max_leverage (ei_execution_config inputs))
                     (ei_strategy_params inputs) (price_tick_size constraints) (ei_atr14 inputs)) (\<lambda>accounting.
            if ei_wallet_cash inputs < ea_fee accounting then ret (rejected [] ''insufficient cash for fee'')
            else ret (EntryExecutionApproved
                   \<lparr>en_fill_prices = fill_prices, en_accounting = accounting, en_quantity = qty,
                    en_reason_codes = rd_reason_codes decision\<rparr>))
        | _ \<Rightarrow> ret (rejected (filter_rejection_reason_codes decision) ''risk rejected''))))"

section \<open>The transactional fill\<close>

text \<open>The context of the fills of one open (\<open>FillProcessingContext\<close> of \<open>lifecycle.py\<close>).\<close>

record fill_processing_context =
  fc_open_ref :: decimal
  fc_atr14 :: decimal
  fc_candle_open_time :: datetime
  fc_constraints :: symbol_constraints
  fc_strategy_params :: strategy_parameters
  fc_risk_params :: risk_parameters
  fc_execution_config :: paper_execution_config
  fc_day_candles :: "(string, candle) dict"
  fc_prior_closes :: "(string, decimal) dict"
  fc_processed_intent_ids :: "string set"

record transactional_fill_result =
  tf_created :: bool
  tf_fill :: "paper_fill option"
  tf_order :: "paper_order option"
  tf_position :: "paper_position option"
  tf_intent :: trade_intent

datatype fill_outcome = FillDone transactional_fill_result | FillRejected entry_rejection

text \<open>The intent and its position as they stand, for a fill that was made before.\<close>

definition fill_already_made :: "trade_intent \<Rightarrow> paper_fill \<Rightarrow> paper_order \<Rightarrow> transactional_fill_result db_op" where
  "fill_already_made intent fill order =
     db_read (\<lambda>db.
       cbind (scalar_one_or_none (filter (\<lambda>r. pp_entry_intent_id r = ti_intent_id intent) (db_positions db))) (\<lambda>position_row.
       cbind (case position_row of None \<Rightarrow> ret None
              | Some r \<Rightarrow> cbind (position_row_to_domain r) (\<lambda>p. ret (Some p))) (\<lambda>position.
       ret \<lparr>tf_created = False, tf_fill = Some fill, tf_order = Some order, tf_position = position,
            tf_intent = (case find (\<lambda>r. ti_intent_id r = ti_intent_id intent) (db_intents db) of
                           Some r \<Rightarrow> r | None \<Rightarrow> intent)\<rparr>)))"

definition load_existing_fill :: "trade_intent \<Rightarrow> datetime \<Rightarrow> transactional_fill_result option db_op" where
  "load_existing_fill intent candle_open_time =
     db_bind (db_read (\<lambda>db. scalar_one_or_none (filter (\<lambda>r. po_intent_id r = ti_intent_id intent) (db_orders db)))) (\<lambda>order_row.
     case order_row of
       None \<Rightarrow> db_ret None
     | Some order \<Rightarrow>
         let fill_key = paper_fill_key (po_paper_order_id order) candle_open_time 0
         in db_bind (db_read (\<lambda>db. scalar_one_or_none (filter (\<lambda>r. fl_deterministic_fill_key r = fill_key) (db_fills db)))) (\<lambda>fill_row.
            case fill_row of
              None \<Rightarrow> db_ret None
            | Some fill \<Rightarrow>
                db_bind (db_lift (fill_row_to_domain fill)) (\<lambda>f.
                db_bind (db_lift (order_row_to_domain order)) (\<lambda>ord.
                db_bind (fill_already_made intent f ord) (\<lambda>res. db_ret (Some res))))))"

definition new_order_row :: "trade_intent \<Rightarrow> entry_approval \<Rightarrow> datetime \<Rightarrow> uuid \<Rightarrow> paper_order" where
  "new_order_row intent calc candle_open_time order_id =
     \<lparr>po_paper_order_id = order_id, po_intent_id = ti_intent_id intent, po_symbol = ti_symbol intent,
      po_side = PS_LONG, po_order_type = MARKET_AT_OPEN, po_requested_quantity = en_quantity calc,
      po_remaining_quantity = 0, po_expected_fill_time = candle_open_time, po_status = PO_FILLED,
      po_created_at = candle_open_time, po_updated_at = candle_open_time\<rparr>"

definition new_entry_fill_row ::
  "trade_intent \<Rightarrow> entry_approval \<Rightarrow> decimal \<Rightarrow> datetime \<Rightarrow> paper_order \<Rightarrow> uuid \<Rightarrow> paper_fill" where
  "new_entry_fill_row intent calc open_ref candle_open_time order fill_id =
     \<lparr>fl_fill_id = fill_id, fl_paper_order_id = Some (po_paper_order_id order), fl_position_id = None,
      fl_fill_kind = FILL_ENTRY, fl_symbol = ti_symbol intent, fl_side = PS_LONG, fl_quantity = en_quantity calc,
      fl_market_open_price = open_ref, fl_slippage = ea_slippage_cost (en_accounting calc),
      fl_fill_price = ef_fill_price (en_fill_prices calc), fl_fee = ea_fee (en_accounting calc),
      fl_fill_time = candle_open_time, fl_candle_key = candle_open_time, fl_fill_sequence = 0,
      fl_deterministic_fill_key = paper_fill_key (po_paper_order_id order) candle_open_time 0\<rparr>"

definition new_position_row :: "trade_intent \<Rightarrow> entry_approval \<Rightarrow> decimal \<Rightarrow> datetime \<Rightarrow> uuid \<Rightarrow> paper_position" where
  "new_position_row intent calc atr14 candle_open_time position_id =
     (let trail = ea_trail_state (en_accounting calc)
      in \<lparr>pp_position_id = position_id, pp_symbol = ti_symbol intent, pp_status = PP_OPEN,
          pp_quantity = en_quantity calc, pp_average_entry_price = ef_fill_price (en_fill_prices calc),
          pp_initial_stop = ts_stop_initial trail, pp_current_stop = ts_effective_stop trail,
          pp_highest_close_since_entry = ts_highest_close trail, pp_entry_atr14 = atr14,
          pp_realized_pnl = 0, pp_unrealized_pnl = 0, pp_margin_reserved = ea_margin_reserved (en_accounting calc),
          pp_entry_intent_id = ti_intent_id intent, pp_opened_at = candle_open_time, pp_closed_at = None,
          pp_version = 1\<rparr>)"

text \<open>The books of a new fill: the fee, the position, the intent and the audit event.\<close>

definition book_entry ::
  "paper_env \<Rightarrow> trade_intent \<Rightarrow> entry_approval \<Rightarrow> datetime \<Rightarrow> decimal \<Rightarrow> uuid option \<Rightarrow> paper_order \<Rightarrow> bool \<Rightarrow> paper_fill \<Rightarrow>
   transactional_fill_result db_op"
where
  "book_entry env intent calc candle_open_time atr14 cycle_id order order_created fill =
     db_bind (update_wallet env (- ea_fee (en_accounting calc)) 0 (ea_fee (en_accounting calc)) 0
                (ea_slippage_cost (en_accounting calc)) None None) (\<lambda>_.
     db_bind uuid4 (\<lambda>position_id.
     db_bind (create_position env (new_position_row intent calc atr14 candle_open_time position_id)) (\<lambda>position.
     db_bind (update_intent_status env (ti_intent_id intent) TI_FILLED (Some (en_quantity calc)) None None) (\<lambda>updated_intent.
     db_bind (append_audit_event env ''PAPER_FILL_EXECUTED'' ''paper_fill'' (fl_fill_id fill)
                [(''intent_id'', JText (uuid_str (ti_intent_id intent))), (''symbol'', JText (ti_symbol intent)),
                 (''quantity'', JDecimal (en_quantity calc)),
                 (''fill_price'', JDecimal (ef_fill_price (en_fill_prices calc))), (''atr14'', JDecimal atr14)]
                cycle_id None) (\<lambda>_.
     db_ret \<lparr>tf_created = order_created, tf_fill = Some fill, tf_order = Some order,
             tf_position = Some position, tf_intent = updated_intent\<rparr>)))))"

definition persist_successful_fill ::
  "paper_env \<Rightarrow> trade_intent \<Rightarrow> entry_approval \<Rightarrow> decimal \<Rightarrow> datetime \<Rightarrow> decimal \<Rightarrow> uuid option \<Rightarrow> transactional_fill_result db_op"
where
  "persist_successful_fill env intent calc open_ref candle_open_time atr14 cycle_id =
     db_bind uuid4 (\<lambda>order_id.
     db_bind (insert_or_get_paper_order env (new_order_row intent calc candle_open_time order_id)) (\<lambda>(order, order_created).
     db_bind uuid4 (\<lambda>fill_id.
     db_bind (insert_or_get_paper_fill env (new_entry_fill_row intent calc open_ref candle_open_time order fill_id)) (\<lambda>(fill, fill_created).
     if \<not> fill_created then fill_already_made intent fill order
     else book_entry env intent calc candle_open_time atr14 cycle_id order order_created fill))))"

definition reject_entry :: "paper_env \<Rightarrow> trade_intent \<Rightarrow> uuid option \<Rightarrow> entry_rejection \<Rightarrow> fill_outcome db_op" where
  "reject_entry env intent cycle_id rej =
     db_bind (update_intent_status env (ti_intent_id intent) TI_REJECTED None
                (Some [(''reason_codes'', JCodes (ej_reason_codes rej)), (''detail'', JText (ej_detail rej))]) None) (\<lambda>_.
     db_bind (append_audit_event env ''INTENT_REJECTED'' ''trade_intent'' (ti_intent_id intent)
                [(''detail'', JText (ej_detail rej)), (''reason_codes'', JCodes (ej_reason_codes rej))] cycle_id None) (\<lambda>_.
     db_ret (FillRejected rej)))"

definition execute_scheduled_paper_fill ::
  "paper_env \<Rightarrow> risk_fn \<Rightarrow> fill_processing_context \<Rightarrow> string set \<Rightarrow> pending_intent list \<Rightarrow> uuid option \<Rightarrow> trade_intent \<Rightarrow>
   fill_outcome db_op"
where
  "execute_scheduled_paper_fill env risk ctx processed pending cycle_id intent =
     db_bind (db_lift (validate_symbol_constraints (Some (fc_constraints ctx)))) (\<lambda>_.
     db_bind (load_existing_fill intent (fc_candle_open_time ctx)) (\<lambda>existing.
     case existing of
       Some res \<Rightarrow> db_ret (FillDone res)
     | None \<Rightarrow>
     db_bind get_open_positions (\<lambda>open_positions.
     if list_ex (\<lambda>p. pp_symbol p = ti_symbol intent) open_positions
     then db_ret (FillRejected \<lparr>ej_reason_codes = [], ej_detail = ''position already open for symbol''\<rparr>)
     else
     db_bind get_wallet (\<lambda>wallet_opt.
     case wallet_opt of
       None \<Rightarrow> db_raise (LookupError ''paper_wallet not seeded'')
     | Some wallet \<Rightarrow>
     db_bind (db_lift (compute_entry_execution risk
       \<lparr>ei_intent = intent, ei_open_ref = fc_open_ref ctx, ei_atr14 = fc_atr14 ctx,
        ei_candle_open_time = fc_candle_open_time ctx, ei_constraints = fc_constraints ctx,
        ei_wallet_cash = wl_cash wallet, ei_open_positions = open_positions, ei_pending_intents = pending,
        ei_processed_intent_ids = processed, ei_day_candles = fc_day_candles ctx,
        ei_prior_closes = fc_prior_closes ctx, ei_strategy_params = fc_strategy_params ctx,
        ei_risk_params = fc_risk_params ctx, ei_execution_config = fc_execution_config ctx\<rparr>)) (\<lambda>calc.
     case calc of
       EntryExecutionRejected rej \<Rightarrow> reject_entry env intent cycle_id rej
     | EntryExecutionApproved app \<Rightarrow>
         db_bind (persist_successful_fill env intent app (fc_open_ref ctx) (fc_candle_open_time ctx) (fc_atr14 ctx) cycle_id) (\<lambda>res.
         db_ret (FillDone res)))))))"

section \<open>A paper entry is a backtest entry\<close>

text \<open>What the risk decision and the portfolio arithmetic read of a position.\<close>

definition risk_view :: "simulated_position \<Rightarrow> string \<times> decimal \<times> decimal \<times> decimal \<times> decimal \<times> decimal" where
  "risk_view p = (pos_symbol p, pos_quantity p, pos_entry_price p, pos_initial_stop p, pos_trail_stop p, pos_margin_reserved p)"

lemma risk_view_lists:
  assumes "map risk_view ps = map risk_view qs"
  shows "resolve_marks_at_open ps day prior = resolve_marks_at_open qs day prior"
    and "to_position_states ps marks = to_position_states qs marks"
    and "build_account_state (build_portfolio_state w ps [] a b c d) marks lev =
      build_account_state (build_portfolio_state w qs [] a b c d) marks lev"
proof -
  have all: "list_all2 (\<lambda>p q. risk_view p = risk_view q) ps qs"
    using assms by (simp add: list_all2_conv_all_nth list_eq_iff_nth_eq)
  show "resolve_marks_at_open ps day prior = resolve_marks_at_open qs day prior"
  proof -
    have "foldl (\<lambda>marks p. dict_put (pos_symbol p) (mark_at_open day prior p) marks) m ps =
        foldl (\<lambda>marks p. dict_put (pos_symbol p) (mark_at_open day prior p) marks) m qs" for m
      using all by (induction arbitrary: m rule: list_all2_induct) (auto simp: risk_view_def mark_at_open_def split: option.splits)
    then show ?thesis by (simp add: resolve_marks_at_open_def)
  qed
  show "to_position_states ps marks = to_position_states qs marks"
    using all by (induction rule: list_all2_induct) (auto simp: risk_view_def to_position_states_def Let_def)
  have "map pos_margin_reserved ps = map pos_margin_reserved qs"
    using all by (induction rule: list_all2_induct) (auto simp: risk_view_def)
  moreover have "foldl (\<lambda>total p. let mark = get_default marks (pos_symbol p) (pos_entry_price p)
        in dadd total (dmul (pos_quantity p) (dsub mark (pos_entry_price p)))) t ps =
      foldl (\<lambda>total p. let mark = get_default marks (pos_symbol p) (pos_entry_price p)
        in dadd total (dmul (pos_quantity p) (dsub mark (pos_entry_price p)))) t qs" for t
    using all by (induction arbitrary: t rule: list_all2_induct) (auto simp: risk_view_def Let_def)
  ultimately show "build_account_state (build_portfolio_state w ps [] a b c d) marks lev =
      build_account_state (build_portfolio_state w qs [] a b c d) marks lev"
    by (simp add: build_account_state_def pf_equity_usd_def pf_unrealized_pnl_usd_def pf_used_margin_usd_def
        build_portfolio_state_def Let_def)
qed

lemma entry_risk_decision_view:
  assumes "map risk_view ps = map risk_view qs"
  shows "evaluate_entry_risk_decision risk s f st i a cs w ps pend proc day prior par md bss =
    evaluate_entry_risk_decision risk s f st i a cs w qs pend proc day prior par md bss"
  unfolding evaluate_entry_risk_decision_def Let_def
    risk_view_lists(1) [OF assms] risk_view_lists(2) [OF assms] risk_view_lists(3) [OF assms] ..

text \<open>The outcome of the paper calculation, carried over to the state of the backtester.\<close>

definition backtest_of_entry ::
  "backtest_config \<Rightarrow> string \<Rightarrow> candle \<Rightarrow> runtime \<Rightarrow> pending_intent \<Rightarrow> entry_execution_result \<Rightarrow> runtime" where
  "backtest_of_entry config symbol c rt intent res =
     (case res of
        EntryExecutionApproved a \<Rightarrow>
          check_stop_exit config symbol c True
            (open_position symbol c intent (ef_fill_price (en_fill_prices a)) (ef_stop_initial (en_fill_prices a))
               (en_quantity a) (en_reason_codes a) (en_accounting a) rt)
      | EntryExecutionRejected r \<Rightarrow>
          reject_intent c symbol intent
            (if ej_detail r = ''risk rejected'' then ej_reason_codes r else [RC_REJECT_LEVERAGE]) rt)"

text \<open>The paper inputs that describe the state of a backtest at the fill of \<open>intent\<close>.\<close>

definition same_entry ::
  "backtest_config \<Rightarrow> string \<Rightarrow> candle \<Rightarrow> (string, candle) dict \<Rightarrow> (string, decimal) dict \<Rightarrow> runtime \<Rightarrow> pending_intent \<Rightarrow>
   entry_execution_input \<Rightarrow> bool"
where
  "same_entry config symbol c day_candles prior_closes rt intent inputs \<longleftrightarrow>
     ei_open_ref inputs = c_open c \<and> ei_atr14 inputs = pi_atr14 intent \<and>
     ti_symbol (ei_intent inputs) = symbol \<and> ti_idempotency_key (ei_intent inputs) = pi_client_intent_id intent \<and>
     ei_wallet_cash inputs = rt_cash rt \<and>
     map risk_view (map paper_position_to_simulated (ei_open_positions inputs)) = map risk_view (dict_values (rt_positions rt)) \<and>
     ei_pending_intents inputs = rt_pending_intents rt \<and> ei_processed_intent_ids inputs = rt_processed_intent_ids rt \<and>
     ei_day_candles inputs = day_candles \<and> ei_prior_closes inputs = prior_closes \<and>
     ei_strategy_params inputs = strategy_params config \<and> ei_risk_params inputs = risk_params config \<and>
     dict_get (cfg_symbol_constraints config) symbol = Some (ei_constraints inputs) \<and>
     xc_slippage_bps (ei_execution_config inputs) = slippage_bps (cfg_slippage_model config) \<and>
     xc_fee_rate (ei_execution_config inputs) = entry_fee_rate (cfg_fee_model config) \<and>
     xc_max_leverage (ei_execution_config inputs) = max_leverage (risk_params config)"

lemma fill_intent_is_paper_entry:
  assumes "same_entry config symbol c day_candles prior_closes rt intent inputs"
    and "pi_client_intent_id intent \<notin> rt_processed_intent_ids rt"
    and "validate_symbol_constraints_core (ei_constraints inputs) = None"
    and "0 < c_open c"
  shows "fill_intent risk config symbol c day_candles prior_closes rt intent =
    cbind (compute_entry_execution risk inputs) (\<lambda>res. ret (backtest_of_entry config symbol c rt intent res))"
proof -
  note same = assms(1) [unfolded same_entry_def]
  have view: "map risk_view (map paper_position_to_simulated (ei_open_positions inputs)) = map risk_view (dict_values (rt_positions rt))"
    using same by blast
  note view = entry_risk_decision_view [OF this]
  have pos: "\<not> c_open c \<le> 0" using assms(4) by simp
  have valid: "validate_symbol_constraints (Some (ei_constraints inputs)) = ret (ei_constraints inputs)"
    using assms(3) by (simp add: validate_symbol_constraints_def)
  have eqs: "ei_open_ref inputs = c_open c" "ei_atr14 inputs = pi_atr14 intent" "ti_symbol (ei_intent inputs) = symbol"
    "ti_idempotency_key (ei_intent inputs) = pi_client_intent_id intent" "ei_wallet_cash inputs = rt_cash rt"
    "ei_pending_intents inputs = rt_pending_intents rt" "ei_processed_intent_ids inputs = rt_processed_intent_ids rt"
    "ei_day_candles inputs = day_candles" "ei_prior_closes inputs = prior_closes"
    "ei_strategy_params inputs = strategy_params config" "ei_risk_params inputs = risk_params config"
    "dict_get (cfg_symbol_constraints config) symbol = Some (ei_constraints inputs)"
    "xc_slippage_bps (ei_execution_config inputs) = slippage_bps (cfg_slippage_model config)"
    "xc_fee_rate (ei_execution_config inputs) = entry_fee_rate (cfg_fee_model config)"
    "xc_max_leverage (ei_execution_config inputs) = max_leverage (risk_params config)"
    using same by blast+
  show ?thesis
    unfolding fill_intent_def compute_entry_execution_def get_constraints_def eqs view valid Let_def
    using assms(2) pos
    by (auto simp: cbind_assoc backtest_of_entry_def rejected_def split: bool.split option.split
        intro!: arg_cong2 [where f = cbind] ext)
qed

end
