(* ===== verification/Paper_Intents.thy ===== *)
theory Paper_Intents
  imports Paper_Execution
begin

text \<open>
  The lifecycle of intents (\<open>services/paper_trading/lifecycle.py\<close>): the gates of a new entry, the final
  authorisation, the creation of an intent, and the processing of the scheduled intents of an open. The
  callback \<open>market_data_ready\<close> is an argument; where it raises, the source takes \<open>False\<close>.
\<close>

definition SYMBOL_PROCESSING_ORDER :: "string list" where
  "SYMBOL_PROCESSING_ORDER = [''BTC'', ''ETH'', ''SOL'']"

section \<open>Gates\<close>

record entry_gate_context =
  eg_entry_ready :: bool
  eg_market_data_ready :: bool
  eg_paused :: bool
  eg_kill_switch :: bool
  eg_open_position_count :: nat
  eg_has_symbol_position :: bool
  eg_has_nonterminal_intent :: bool

record entry_authorization =
  ez_allowed :: bool
  ez_reasons :: "string list"
  ez_paused :: bool
  ez_kill_switch :: bool

definition evaluate_final_entry_authorization ::
  "paper_trading_config \<Rightarrow> bool \<Rightarrow> datetime \<Rightarrow> entry_authorization db_op" where
  "evaluate_final_entry_authorization config market_data_ready evaluated_at =
     db_bind get_runtime_state (\<lambda>runtime.
     case runtime of
       None \<Rightarrow> db_ret \<lparr>ez_allowed = False, ez_reasons = [''runtime_state_missing''], ez_paused = False, ez_kill_switch = False\<rparr>
     | Some rs \<Rightarrow>
         let reasons = (if rs_status rs \<noteq> RS_READY then [''runtime_not_ready''] else []) @
               (if rs_last_error rs \<noteq> None \<and> rs_last_error rs \<noteq> Some [] then [''last_error_set''] else []) @
               (if seconds (pc_stale_runtime_threshold_seconds config) < evaluated_at - rs_heartbeat_at rs
                then [''stale_heartbeat''] else []) @
               (if \<not> market_data_ready then [''market_data_not_ready''] else []) @
               (if rs_paused rs then [''paused''] else []) @
               (if rs_kill_switch rs then [''kill_switch''] else [])
         in db_ret \<lparr>ez_allowed = (reasons = []), ez_reasons = reasons, ez_paused = rs_paused rs,
                    ez_kill_switch = rs_kill_switch rs\<rparr>)"

definition check_entry_gates :: "string \<Rightarrow> entry_gate_context \<Rightarrow> strategy_evaluation \<Rightarrow> nat \<Rightarrow> string list" where
  "check_entry_gates symbol gates strategy_eval max_positions =
     (if symbol \<notin> ALLOWED_SYMBOLS then [''unsupported_symbol''] else []) @
     (if \<not> eg_entry_ready gates then [''runtime_not_entry_ready''] else []) @
     (if \<not> eg_market_data_ready gates then [''market_data_not_ready''] else []) @
     (if eg_paused gates then [''paused''] else []) @
     (if eg_kill_switch gates then [''kill_switch''] else []) @
     (if eg_has_symbol_position gates then [''existing_position''] else []) @
     (if eg_has_nonterminal_intent gates then [''existing_nonterminal_intent''] else []) @
     (if max_positions \<le> eg_open_position_count gates then [''max_open_positions''] else []) @
     (if si_kind (ev_signal_intent strategy_eval) \<noteq> LONG_ENTRY then [''no_long_entry_signal''] else []) @
     (if selected_entry_type strategy_eval = None then [''no_selected_entry_type''] else []) @
     (if si_stop_initial (ev_signal_intent strategy_eval) = None then [''missing_stop''] else []) @
     (if (case ev_atr strategy_eval of None \<Rightarrow> True | Some a \<Rightarrow> a \<le> 0) then [''missing_atr''] else []) @
     (if \<not> trend_confirmed (weekly_trend strategy_eval) then [''weekly_trend_not_confirmed''] else [])"

definition build_entry_gate_context ::
  "string \<Rightarrow> bool \<Rightarrow> bool \<Rightarrow> bool \<Rightarrow> bool \<Rightarrow> entry_gate_context db_op" where
  "build_entry_gate_context symbol entry_ready market_data_ready runtime_paused runtime_kill_switch =
     db_bind get_open_positions (\<lambda>open_positions.
     db_bind (get_nonterminal_intent_for_symbol symbol) (\<lambda>nonterminal.
     db_ret \<lparr>eg_entry_ready = entry_ready, eg_market_data_ready = market_data_ready, eg_paused = runtime_paused,
             eg_kill_switch = runtime_kill_switch, eg_open_position_count = length open_positions,
             eg_has_symbol_position = list_ex (\<lambda>p. pp_symbol p = symbol) open_positions,
             eg_has_nonterminal_intent = (nonterminal \<noteq> None)\<rparr>))"

text \<open>The value of the callback, \<open>False\<close> where it raises.\<close>

definition ready_or_false :: "bool comp \<Rightarrow> bool" where
  "ready_or_false r = (case r of Some (Inr b) \<Rightarrow> b | _ \<Rightarrow> False)"

definition next_daily_open_after_signal :: "datetime \<Rightarrow> datetime" where
  "next_daily_open_after_signal daily_candle_open_time = next_open_time daily_candle_open_time MT_DAILY"

definition create_intent_from_evaluation ::
  "paper_env \<Rightarrow> strategy_evaluation_record \<Rightarrow> strategy_evaluation \<Rightarrow> entry_gate_context \<Rightarrow> paper_trading_config \<Rightarrow>
   datetime \<Rightarrow> datetime \<Rightarrow> bool comp \<Rightarrow> (trade_intent option \<times> bool \<times> string list) db_op"
where
  "create_intent_from_evaluation env evaluation strategy_eval gates config created_at authorization_at market_data_ready =
     db_bind (evaluate_final_entry_authorization config (ready_or_false market_data_ready) authorization_at) (\<lambda>authorization.
     let gates = gates\<lparr>eg_entry_ready := eg_entry_ready gates \<and> ez_allowed authorization,
                       eg_paused := ez_paused authorization, eg_kill_switch := ez_kill_switch authorization\<rparr>;
         blocked = unique (check_entry_gates (er_symbol evaluation) gates strategy_eval 3 @ ez_reasons authorization)
     in if blocked \<noteq> [] then db_ret (None, False, blocked)
        else
        case (selected_entry_type strategy_eval, si_entry_price (ev_signal_intent strategy_eval),
              si_stop_initial (ev_signal_intent strategy_eval)) of
          (Some entry, Some entry_price, Some stop) \<Rightarrow>
            db_bind uuid4 (\<lambda>intent_id.
            db_bind (insert_or_get_trade_intent env
              \<lparr>ti_intent_id = intent_id,
               ti_idempotency_key = trade_intent_key (er_symbol evaluation) (ev_strategy_version strategy_eval)
                                      (er_evaluation_time evaluation) (entry_type_to_signal_type entry),
               ti_symbol = er_symbol evaluation, ti_side = PS_LONG, ti_signal_type = entry_type_to_signal_type entry,
               ti_signal_time = er_evaluation_time evaluation,
               ti_scheduled_fill_time = next_daily_open_after_signal (er_daily_candle_open_time evaluation),
               ti_requested_entry = entry_price, ti_requested_stop = stop, ti_requested_quantity = None,
               ti_approved_quantity = None, ti_risk_amount = None, ti_status = TI_SCHEDULED,
               ti_strategy_evaluation_id = er_evaluation_id evaluation, ti_rejection_reason = None,
               ti_created_at = created_at, ti_updated_at = created_at\<rparr>) (\<lambda>(intent, created).
            db_ret (Some intent, created, [])))
        | _ \<Rightarrow> db_raise AssertionError)"

section \<open>The fills of an open\<close>

definition pending_of_intent :: "paper_env \<Rightarrow> fill_processing_context \<Rightarrow> datetime \<Rightarrow> trade_intent \<Rightarrow> pending_intent" where
  "pending_of_intent env ctx candle_open_time intent =
     \<lparr>pi_client_intent_id = ti_idempotency_key intent, pi_symbol = ti_symbol intent,
      pi_strategy_version = ''paper-v1'', pi_entry_type = BREAKOUT, pi_strategy_reason_codes = [],
      pi_signal_time = ti_signal_time intent, pi_order_time = candle_open_time,
      pi_signal_close_price = ti_requested_entry intent, pi_stop_price = ti_requested_stop intent,
      pi_atr14 = fc_atr14 ctx,
      pi_strategy_evaluation = construct_evaluation env (ti_symbol intent) (ti_signal_time intent) ''paper-v1''
                                 (fc_strategy_params ctx)\<rparr>"

definition pending_of_symbol ::
  "paper_env \<Rightarrow> datetime \<Rightarrow> (string, fill_processing_context) dict \<Rightarrow> string set \<Rightarrow> string \<Rightarrow> pending_intent list db_op" where
  "pending_of_symbol env candle_open_time symbol_contexts skip_intent_keys symbol =
     (case dict_get symbol_contexts symbol of
        None \<Rightarrow> db_ret []
      | Some ctx \<Rightarrow>
          if fc_candle_open_time ctx \<noteq> candle_open_time then db_ret []
          else db_bind (get_scheduled_intents_for_symbol symbol candle_open_time) (\<lambda>intents.
               db_ret (map (pending_of_intent env ctx candle_open_time)
                 (filter (\<lambda>i. ti_scheduled_fill_time i = candle_open_time \<and> ti_idempotency_key i \<notin> skip_intent_keys) intents))))"

fun pending_of_symbols ::
  "paper_env \<Rightarrow> datetime \<Rightarrow> (string, fill_processing_context) dict \<Rightarrow> string set \<Rightarrow> string list \<Rightarrow> pending_intent list db_op" where
  "pending_of_symbols env t ctxs skip [] = db_ret []"
| "pending_of_symbols env t ctxs skip (s # ss) =
     db_bind (pending_of_symbol env t ctxs skip s) (\<lambda>xs.
     db_bind (pending_of_symbols env t ctxs skip ss) (\<lambda>ys. db_ret (xs @ ys)))"

definition pending_intents_for_open_batch ::
  "paper_env \<Rightarrow> datetime \<Rightarrow> string \<Rightarrow> (string, fill_processing_context) dict \<Rightarrow> string set \<Rightarrow> pending_intent list db_op" where
  "pending_intents_for_open_batch env candle_open_time current_symbol symbol_contexts skip_intent_keys =
     pending_of_symbols env candle_open_time symbol_contexts skip_intent_keys
       (tl (dropWhile (\<lambda>s. s \<noteq> current_symbol) SYMBOL_PROCESSING_ORDER))"

record fill_batch_result =
  fb_symbol :: string
  fb_processed :: nat
  fb_filled :: nat
  fb_rejected :: nat
  fb_skipped :: nat

definition no_fills :: "string \<Rightarrow> fill_batch_result" where
  "no_fills symbol = \<lparr>fb_symbol = symbol, fb_processed = 0, fb_filled = 0, fb_rejected = 0, fb_skipped = 0\<rparr>"

text \<open>What is done for one due intent: cancelled without authorisation, else submitted and executed.\<close>

definition process_due_intent ::
  "paper_env \<Rightarrow> risk_fn \<Rightarrow> paper_trading_config \<Rightarrow> (trade_intent \<Rightarrow> bool comp) \<Rightarrow> uuid option \<Rightarrow> datetime \<Rightarrow> string \<Rightarrow>
   fill_processing_context \<Rightarrow> (string, fill_processing_context) dict \<Rightarrow> string set \<Rightarrow> trade_intent \<Rightarrow> fill_outcome option db_op"
where
  "process_due_intent env risk config market_data_ready cycle_id process_time symbol ctx symbol_contexts processed intent =
     db_bind (evaluate_final_entry_authorization config (ready_or_false (market_data_ready intent)) process_time) (\<lambda>authorization.
     if \<not> ez_allowed authorization
     then db_bind (db_lift (validate_intent_transition (ti_status intent) TI_CANCELLED)) (\<lambda>_.
          db_bind (update_intent_status env (ti_intent_id intent) TI_CANCELLED None
                     (Some [(''reason_codes'', JTexts (ez_reasons authorization))]) (Some process_time)) (\<lambda>_.
          db_ret None))
     else db_bind (db_lift (validate_intent_transition (ti_status intent) TI_SUBMITTED)) (\<lambda>_.
          db_bind (update_intent_status env (ti_intent_id intent) TI_SUBMITTED None None (Some process_time)) (\<lambda>_.
          db_bind (pending_intents_for_open_batch env (fc_candle_open_time ctx) symbol symbol_contexts processed) (\<lambda>pending.
          db_bind (execute_scheduled_paper_fill env risk ctx processed pending cycle_id intent) (\<lambda>outcome.
          db_ret (Some outcome))))))"

fun process_intents ::
  "paper_env \<Rightarrow> risk_fn \<Rightarrow> paper_trading_config \<Rightarrow> (trade_intent \<Rightarrow> bool comp) \<Rightarrow> uuid option \<Rightarrow> datetime \<Rightarrow> string \<Rightarrow>
   fill_processing_context \<Rightarrow> (string, fill_processing_context) dict \<Rightarrow> trade_intent list \<Rightarrow> string set \<Rightarrow> fill_batch_result \<Rightarrow>
   (string set \<times> fill_batch_result) job"
where
  "process_intents env risk config ready cycle_id process_time symbol ctx ctxs [] processed acc = job_ret (processed, acc)"
| "process_intents env risk config ready cycle_id process_time symbol ctx ctxs (i # is) processed acc =
     (if ti_scheduled_fill_time i \<noteq> fc_candle_open_time ctx
      then process_intents env risk config ready cycle_id process_time symbol ctx ctxs is processed
             (acc\<lparr>fb_skipped := fb_skipped acc + 1\<rparr>)
      else
      job_bind (transaction (process_due_intent env risk config ready cycle_id process_time symbol ctx ctxs processed i)) (\<lambda>outcome.
      let acc = acc\<lparr>fb_processed := fb_processed acc + 1\<rparr>
      in case outcome of
           None \<Rightarrow> process_intents env risk config ready cycle_id process_time symbol ctx ctxs is processed
                     (acc\<lparr>fb_skipped := fb_skipped acc + 1\<rparr>)
         | Some out \<Rightarrow>
             process_intents env risk config ready cycle_id process_time symbol ctx ctxs is
               (insert (ti_idempotency_key i) processed)
               (case out of
                  FillRejected _ \<Rightarrow> acc\<lparr>fb_rejected := fb_rejected acc + 1\<rparr>
                | FillDone res \<Rightarrow> if tf_position res \<noteq> None then acc\<lparr>fb_filled := fb_filled acc + 1\<rparr>
                                  else acc\<lparr>fb_skipped := fb_skipped acc + 1\<rparr>)))"

fun process_symbols ::
  "paper_env \<Rightarrow> risk_fn \<Rightarrow> paper_trading_config \<Rightarrow> (trade_intent \<Rightarrow> bool comp) \<Rightarrow> uuid option \<Rightarrow> datetime \<Rightarrow> int \<Rightarrow>
   (string, fill_processing_context) dict \<Rightarrow> string list \<Rightarrow> string set \<Rightarrow> fill_batch_result list job"
where
  "process_symbols env risk config ready cycle_id process_time delay ctxs [] processed = job_ret []"
| "process_symbols env risk config ready cycle_id process_time delay ctxs (s # ss) processed =
     (case dict_get ctxs s of
        None \<Rightarrow> job_bind (process_symbols env risk config ready cycle_id process_time delay ctxs ss processed) (\<lambda>rest.
                job_ret (no_fills s # rest))
      | Some ctx \<Rightarrow>
          if process_time < fc_candle_open_time ctx + seconds delay
          then job_bind (process_symbols env risk config ready cycle_id process_time delay ctxs ss processed) (\<lambda>rest.
               job_ret (no_fills s # rest))
          else job_bind (transaction (get_scheduled_intents_for_symbol s (fc_candle_open_time ctx))) (\<lambda>intents.
               job_bind (process_intents env risk config ready cycle_id process_time s ctx ctxs intents processed (no_fills s))
                 (\<lambda>(processed', batch).
               job_bind (process_symbols env risk config ready cycle_id process_time delay ctxs ss processed') (\<lambda>rest.
               job_ret (batch # rest)))))"

definition process_scheduled_intents_for_open ::
  "paper_env \<Rightarrow> risk_fn \<Rightarrow> datetime \<Rightarrow> int \<Rightarrow> (string, fill_processing_context) dict \<Rightarrow> paper_trading_config \<Rightarrow>
   (trade_intent \<Rightarrow> bool comp) \<Rightarrow> uuid option \<Rightarrow> fill_batch_result list job"
where
  "process_scheduled_intents_for_open env risk process_time fill_delay_seconds symbol_contexts config market_data_ready cycle_id =
     process_symbols env risk config market_data_ready cycle_id process_time fill_delay_seconds symbol_contexts
       SYMBOL_PROCESSING_ORDER {}"

definition evaluation_time_from_daily_candle :: "candle \<Rightarrow> int \<Rightarrow> datetime" where
  "evaluation_time_from_daily_candle c delay_seconds =
     (if delay_seconds = 5 then evaluation_time_for_daily c else close_time c + seconds delay_seconds)"

end
