(* ===== verification/Paper_Stops.thy ===== *)
theory Paper_Stops
  imports Paper_Intents
begin

text \<open>
  Trailing stops and stopped positions of the paper trading service (\<open>services/paper_trading/stops.py\<close>).
\<close>

record stop_update_result =
  su_position_id :: uuid
  su_updated :: bool
  su_previous_stop :: "decimal option"
  su_new_stop :: "decimal option"

record stop_close_result =
  sc_position_id :: uuid
  sc_closed :: bool
  sc_symbol :: string

definition not_updated :: "paper_position \<Rightarrow> stop_update_result" where
  "not_updated p = \<lparr>su_position_id = pp_position_id p, su_updated = False, su_previous_stop = None, su_new_stop = None\<rparr>"

definition trailing_state_of :: "paper_position \<Rightarrow> trailing_stop_state" where
  "trailing_state_of p =
     \<lparr>ts_entry_price = pp_average_entry_price p, ts_stop_initial = pp_initial_stop p,
      ts_highest_close = pp_highest_close_since_entry p, ts_trail_stop = pp_current_stop p,
      ts_effective_stop = pp_current_stop p\<rparr>"

section \<open>Trailing updates\<close>

text \<open>The transaction of a raised stop; \<open>None\<close> where an event of this time exists already.\<close>

definition raise_stop ::
  "paper_env \<Rightarrow> datetime \<Rightarrow> uuid option \<Rightarrow> paper_position \<Rightarrow> decimal \<Rightarrow> trailing_stop_state \<Rightarrow> bool db_op" where
  "raise_stop env evaluation_time cycle_id position atr updated_state =
     db_bind uuid4 (\<lambda>stop_event_id.
     db_bind (insert_or_get_stop_event env
       \<lparr>sv_stop_event_id = stop_event_id, sv_position_id = pp_position_id position,
        sv_previous_stop = pp_current_stop position, sv_new_stop = ts_effective_stop updated_state,
        sv_highest_close = ts_highest_close updated_state, sv_atr = atr, sv_evaluation_time = evaluation_time,
        sv_reason = ''TRAILING_UPDATE''\<rparr>) (\<lambda>(_, created).
     if \<not> created then db_ret False
     else
     db_bind (flush_position env (pp_position_id position)
       (\<lambda>row. row\<lparr>pp_current_stop := ts_effective_stop updated_state,
                  pp_highest_close_since_entry := ts_highest_close updated_state,
                  pp_version := pp_version row + 1\<rparr>)) (\<lambda>_.
     db_bind (append_audit_event env ''TRAILING_STOP_UPDATED'' ''paper_position'' (pp_position_id position)
                [(''previous_stop'', JDecimal (pp_current_stop position)),
                 (''new_stop'', JDecimal (ts_effective_stop updated_state))] cycle_id (Some evaluation_time)) (\<lambda>_.
     db_ret True))))"

definition update_symbol_stop ::
  "paper_env \<Rightarrow> datetime \<Rightarrow> (string, candle) dict \<Rightarrow> (string, decimal) dict \<Rightarrow> (string, symbol_constraints) dict \<Rightarrow>
   strategy_parameters \<Rightarrow> uuid option \<Rightarrow> string \<Rightarrow> stop_update_result list job"
where
  "update_symbol_stop env evaluation_time daily_candles evaluation_atr_by_symbol constraints_by_symbol params cycle_id symbol =
     job_bind (transaction (get_open_position_for_symbol symbol)) (\<lambda>position_opt.
     case position_opt of
       None \<Rightarrow> job_ret []
     | Some position \<Rightarrow>
         (case dict_get daily_candles symbol of
            None \<Rightarrow> job_ret [not_updated position]
          | Some c \<Rightarrow>
              if \<not> is_closed c then job_ret [not_updated position]
              else
              (case dict_get constraints_by_symbol symbol of
                 None \<Rightarrow> job_ret [not_updated position]
               | Some constraints \<Rightarrow>
                   let atr = get_default evaluation_atr_by_symbol symbol (pp_entry_atr14 position)
                   in job_bind (transaction (db_lift (compute_trailing_stop_update (trailing_state_of position) (c_close c) atr params
                                          (price_tick_size constraints)))) (\<lambda>updated_state.
                      if ts_effective_stop updated_state \<le> pp_current_stop position
                      then job_ret [\<lparr>su_position_id = pp_position_id position, su_updated = False,
                                    su_previous_stop = Some (pp_current_stop position),
                                    su_new_stop = Some (pp_current_stop position)\<rparr>]
                      else
                      job_bind (transaction (raise_stop env evaluation_time cycle_id position atr updated_state)) (\<lambda>raised.
                      if \<not> raised then job_ret [not_updated position]
                      else
                      job_bind (transaction (capture_snapshot env evaluation_time ''trailing_stop_update'' None None [] [] cycle_id)) (\<lambda>_.
                      job_ret [\<lparr>su_position_id = pp_position_id position, su_updated = True,
                               su_previous_stop = Some (pp_current_stop position),
                               su_new_stop = Some (ts_effective_stop updated_state)\<rparr>]))))))"

fun for_each_symbol :: "(string \<Rightarrow> 'r list job) \<Rightarrow> string list \<Rightarrow> 'r list job" where
  "for_each_symbol f [] = job_ret []"
| "for_each_symbol f (s # ss) =
     job_bind (f s) (\<lambda>xs. job_bind (for_each_symbol f ss) (\<lambda>ys. job_ret (xs @ ys)))"

definition update_daily_trailing_stops ::
  "paper_env \<Rightarrow> datetime \<Rightarrow> (string, candle) dict \<Rightarrow> (string, decimal) dict \<Rightarrow> (string, symbol_constraints) dict \<Rightarrow>
   strategy_parameters \<Rightarrow> uuid option \<Rightarrow> stop_update_result list job"
where
  "update_daily_trailing_stops env evaluation_time daily_candles evaluation_atr_by_symbol constraints_by_symbol params cycle_id =
     for_each_symbol (update_symbol_stop env evaluation_time daily_candles evaluation_atr_by_symbol
       constraints_by_symbol params cycle_id) SYMBOL_PROCESSING_ORDER"

section \<open>Stopped positions\<close>

definition not_closed :: "paper_position \<Rightarrow> stop_close_result" where
  "not_closed p = \<lparr>sc_position_id = pp_position_id p, sc_closed = False, sc_symbol = pp_symbol p\<rparr>"

definition stop_trigger_for :: "bool \<Rightarrow> bool \<Rightarrow> candle \<Rightarrow> paper_position \<Rightarrow> stop_trigger_result option" where
  "stop_trigger_for at_open intraday_only c position =
     (let simulated = paper_position_to_simulated position
      in if at_open then compute_gap_stop_at_open c (pos_effective_stop simulated)
         else if intraday_only
         then compute_intraday_stop c (pos_effective_stop simulated) (pos_initial_stop simulated) (pos_trail_stop simulated)
         else compute_stop_trigger c (pos_effective_stop simulated) (pos_initial_stop simulated) (pos_trail_stop simulated))"

definition exit_fill_row :: "paper_position \<Rightarrow> stop_trigger_result \<Rightarrow> exit_accounting \<Rightarrow> datetime \<Rightarrow> uuid \<Rightarrow> paper_fill" where
  "exit_fill_row position trigger xa process_time fill_id =
     \<lparr>fl_fill_id = fill_id, fl_paper_order_id = None, fl_position_id = Some (pp_position_id position),
      fl_fill_kind = FILL_EXIT, fl_symbol = pp_symbol position, fl_side = PS_LONG, fl_quantity = pp_quantity position,
      fl_market_open_price = st_exit_reference trigger, fl_slippage = xa_slippage_cost xa,
      fl_fill_price = xa_fill_price xa, fl_fee = xa_fee xa, fl_fill_time = process_time,
      fl_candle_key = process_time, fl_fill_sequence = 0,
      fl_deterministic_fill_key = paper_exit_fill_key (pp_position_id position) process_time\<rparr>"

fun exit_reason_value :: "exit_reason \<Rightarrow> string" where
  "exit_reason_value STOP_INITIAL = ''RC_EXIT_STOP_INITIAL''"
| "exit_reason_value STOP_TRAILING = ''RC_EXIT_STOP_TRAILING''"
| "exit_reason_value STOP_GAP = ''RC_EXIT_STOP_GAP''"
| "exit_reason_value END_OF_BACKTEST = ''END_OF_BACKTEST''"

definition close_position ::
  "paper_env \<Rightarrow> paper_position \<Rightarrow> stop_trigger_result \<Rightarrow> exit_accounting \<Rightarrow> datetime \<Rightarrow> uuid option \<Rightarrow> bool db_op" where
  "close_position env position trigger xa process_time cycle_id =
     db_bind (get_position_row (pp_position_id position)) (\<lambda>row_opt.
     case row_opt of
       None \<Rightarrow> db_ret False
     | Some row \<Rightarrow>
         if pp_status row = PP_CLOSED then db_ret False
         else
         db_bind uuid4 (\<lambda>fill_id.
         db_bind (insert_or_get_paper_fill env (exit_fill_row position trigger xa process_time fill_id)) (\<lambda>(_, fill_created).
         if \<not> fill_created then db_ret False
         else
         db_bind (flush_position env (pp_position_id position) (\<lambda>r. r\<lparr>pp_status := PP_CLOSING\<rparr>)) (\<lambda>_.
         db_bind (update_wallet env (xa_net_wallet_delta xa) (dsub (xa_gross_pnl xa) (xa_fee xa)) (xa_fee xa) 0
                    (xa_slippage_cost xa) None (Some process_time)) (\<lambda>_.
         db_bind (flush_position env (pp_position_id position)
           (\<lambda>r. r\<lparr>pp_status := PP_CLOSED, pp_closed_at := Some process_time,
                  pp_realized_pnl := dsub (xa_gross_pnl xa) (xa_fee xa), pp_unrealized_pnl := 0,
                  pp_margin_reserved := 0, pp_version := pp_version r + 1\<rparr>)) (\<lambda>_.
         db_bind (append_audit_event env ''POSITION_CLOSED_STOP'' ''paper_position'' (pp_position_id position)
                    [(''exit_reference'', JDecimal (st_exit_reference trigger)),
                     (''exit_reason'', JText (exit_reason_value (st_exit_reason trigger))),
                     (''fill_price'', JDecimal (xa_fill_price xa))] cycle_id (Some process_time)) (\<lambda>_.
         db_ret True)))))))"

definition close_if_stopped ::
  "paper_env \<Rightarrow> paper_trading_config \<Rightarrow> paper_position \<Rightarrow> candle \<Rightarrow> datetime \<Rightarrow> symbol_constraints option \<Rightarrow> uuid option \<Rightarrow>
   bool \<Rightarrow> bool \<Rightarrow> stop_close_result job"
where
  "close_if_stopped env config position c process_time constraints cycle_id at_open intraday_only =
     (case constraints of
        None \<Rightarrow> job_ret (not_closed position)
      | Some _ \<Rightarrow>
          (case stop_trigger_for at_open intraday_only c position of
             None \<Rightarrow> job_ret (not_closed position)
           | Some trigger \<Rightarrow>
               let xa = compute_exit_accounting (st_exit_reference trigger) (pp_quantity position)
                          (pp_average_entry_price position) (pc_paper_slippage_bps config) (pc_paper_fee_rate config)
               in job_bind (transaction (close_position env position trigger xa process_time cycle_id)) (\<lambda>closed_now.
                  if \<not> closed_now then job_ret (not_closed position)
                  else job_bind (transaction (capture_snapshot env process_time ''position_close'' None None [] [] cycle_id)) (\<lambda>_.
                       job_ret \<lparr>sc_position_id = pp_position_id position, sc_closed = True, sc_symbol = pp_symbol position\<rparr>))))"

definition daily_stop_check ::
  "paper_env \<Rightarrow> paper_trading_config \<Rightarrow> datetime \<Rightarrow> (string, candle) dict \<Rightarrow> (string, symbol_constraints) dict \<Rightarrow> uuid option \<Rightarrow>
   bool \<Rightarrow> string \<Rightarrow> stop_close_result list job"
where
  "daily_stop_check env config process_time daily_candles constraints_by_symbol cycle_id at_open symbol =
     job_bind (transaction (get_open_position_for_symbol symbol)) (\<lambda>position_opt.
     case (position_opt, dict_get daily_candles symbol) of
       (Some position, Some c) \<Rightarrow>
         job_bind (close_if_stopped env config position c process_time (dict_get constraints_by_symbol symbol) cycle_id
                    at_open False) (\<lambda>outcome. job_ret [outcome])
     | _ \<Rightarrow> job_ret [])"

definition process_stop_triggers_for_daily_candle ::
  "paper_env \<Rightarrow> paper_trading_config \<Rightarrow> datetime \<Rightarrow> (string, candle) dict \<Rightarrow> (string, symbol_constraints) dict \<Rightarrow> uuid option \<Rightarrow>
   bool \<Rightarrow> stop_close_result list job"
where
  "process_stop_triggers_for_daily_candle env config process_time daily_candles constraints_by_symbol cycle_id at_open =
     for_each_symbol (daily_stop_check env config process_time daily_candles constraints_by_symbol cycle_id at_open)
       SYMBOL_PROCESSING_ORDER"

definition intraday_stop_check ::
  "paper_env \<Rightarrow> paper_trading_config \<Rightarrow> datetime \<Rightarrow> (string, candle) dict \<Rightarrow> (string, symbol_constraints) dict \<Rightarrow> uuid option \<Rightarrow>
   string \<Rightarrow> stop_close_result list job"
where
  "intraday_stop_check env config process_time preview_candles constraints_by_symbol cycle_id symbol =
     job_bind (transaction (get_open_position_for_symbol symbol)) (\<lambda>position_opt.
     case (position_opt, dict_get preview_candles symbol) of
       (Some position, Some c) \<Rightarrow>
         if is_closed c then job_ret []
         else job_bind (close_if_stopped env config position c process_time (dict_get constraints_by_symbol symbol) cycle_id
                         False True) (\<lambda>outcome. job_ret [outcome])
     | _ \<Rightarrow> job_ret [])"

definition process_intraday_stop_triggers ::
  "paper_env \<Rightarrow> paper_trading_config \<Rightarrow> datetime \<Rightarrow> (string, candle) dict \<Rightarrow> (string, symbol_constraints) dict \<Rightarrow> uuid option \<Rightarrow>
   stop_close_result list job"
where
  "process_intraday_stop_triggers env config process_time preview_candles constraints_by_symbol cycle_id =
     for_each_symbol (intraday_stop_check env config process_time preview_candles constraints_by_symbol cycle_id)
       SYMBOL_PROCESSING_ORDER"

end
