(* ===== verification/Paper_Evaluation.thy ===== *)
theory Paper_Evaluation
  imports Paper_Intents Paper_Stops Paper_Runs
begin

text \<open>
  The evaluation of the strategy at a daily close (\<open>services/paper_trading/evaluation.py\<close>) and what it
  stores (\<open>serialization.py\<close>).
\<close>

section \<open>Services\<close>

text \<open>
  What the services are constructed with: the environment, the clock and the readiness callback, which
  may answer differently in every state and for every intent, the risk engine, the configuration and the
  soak run the repository tags its rows with.
\<close>

record service_env =
  sv_env :: paper_env
  sv_clock :: "paper_db \<Rightarrow> datetime"
  sv_market_data_ready :: "paper_db \<Rightarrow> bool comp"
  sv_fill_ready :: "trade_intent \<Rightarrow> bool comp"
  sv_risk :: risk_fn
  sv_config :: paper_trading_config
  sv_soak_run_id :: "uuid option"

definition now :: "service_env \<Rightarrow> datetime db_op" where
  "now sv = db_read (\<lambda>db. ret (sv_clock sv db))"

section \<open>Serialization\<close>

definition json_opt :: "('a \<Rightarrow> json) \<Rightarrow> 'a option \<Rightarrow> json" where
  "json_opt f x = (case x of None \<Rightarrow> JNull | Some y \<Rightarrow> f y)"

abbreviation json_decimal :: "decimal option \<Rightarrow> json" where
  "json_decimal \<equiv> json_opt JDecimal"

abbreviation json_code :: "reason_code option \<Rightarrow> json" where
  "json_code \<equiv> json_opt (\<lambda>c. JCodes [c])"

abbreviation json_entry_type :: "entry_type option \<Rightarrow> json" where
  "json_entry_type \<equiv> json_opt (\<lambda>e. JText (entry_type_value e))"

fun signal_kind_value :: "signal_intent_kind \<Rightarrow> string" where
  "signal_kind_value LONG_ENTRY = ''LONG_ENTRY''"
| "signal_kind_value NO_ENTRY = ''NO_ENTRY''"
| "signal_kind_value INVALID_DATA = ''INVALID_DATA''"
| "signal_kind_value INSUFFICIENT_HISTORY = ''INSUFFICIENT_HISTORY''"

text \<open>\<open>model_dump(mode="json")\<close> of the results: their fields in order.\<close>

definition dump_setup :: "entry_setup_result \<Rightarrow> json" where
  "dump_setup e =
     (let p = pullback_conditions e
      in JObject
       [(''breakout_entry'', JBool (breakout_entry e)), (''pullback_entry'', JBool (pullback_entry e)),
        (''breakout_price_condition'', JBool (breakout_price_condition e)),
        (''close_above_ema20'', JBool (close_above_ema20 e)), (''volume_ok'', JBool (volume_ok e)),
        (''pullback_conditions'', JObject
          [(''p1_close_above_ema'', JBool (p1_close_above_ema p)), (''p2_low_touches_ema'', JBool (p2_low_touches_ema p)),
           (''p3_prior_close_above_ema'', JBool (p3_prior_close_above_ema p)), (''p4_regime_long'', JBool (p4_regime_long p)),
           (''p5_trend_confirmed'', JBool (p5_trend_confirmed p)), (''p6_volume_ok'', JBool (p6_volume_ok p))]),
        (''high20'', json_decimal (e_high20 e)), (''ema_touch_upper'', json_decimal (ema_touch_upper e))])"

definition dump_signal_intent :: "signal_intent \<Rightarrow> json" where
  "dump_signal_intent s = JObject
     [(''kind'', JText (signal_kind_value (si_kind s))), (''entry_type'', json_entry_type (si_entry_type s)),
      (''entry_price'', json_decimal (si_entry_price s)), (''stop_initial'', json_decimal (si_stop_initial s)),
      (''primary_reason_code'', json_code (primary_reason_code s))]"

definition evaluation_to_regime_result :: "strategy_evaluation \<Rightarrow> json_object" where
  "evaluation_to_regime_result ev =
     [(''regime_long'', JBool (regime_long (monthly_regime ev))),
      (''monthly_close'', json_decimal (r_monthly_close (monthly_regime ev))),
      (''ema20_monthly'', json_decimal (r_ema20_monthly (monthly_regime ev))),
      (''reason_code'', json_code (r_reason_code (monthly_regime ev)))]"

definition evaluation_to_entry_result :: "strategy_evaluation \<Rightarrow> json_object" where
  "evaluation_to_entry_result ev =
     [(''breakout'', dump_setup (breakout_result ev)), (''pullback'', dump_setup (pullback_result ev)),
      (''selected_entry_type'', json_entry_type (selected_entry_type ev)),
      (''signal_intent'', dump_signal_intent (ev_signal_intent ev)), (''atr'', json_decimal (ev_atr ev)),
      (''volume_ratio'', json_decimal (ev_volume_ratio ev))]"

definition evaluation_rejection_reasons :: "strategy_evaluation \<Rightarrow> reason_code list" where
  "evaluation_rejection_reasons ev = ev_reason_codes ev"

definition evaluation_hash_payload :: "strategy_evaluation \<Rightarrow> datetime \<Rightarrow> json_object" where
  "evaluation_hash_payload ev daily_candle_open_time =
     [(''symbol'', JText (ev_symbol ev)), (''strategy_version'', JText (ev_strategy_version ev)),
      (''evaluation_time'', JTime (ev_time ev)), (''daily_candle_open_time'', JTime daily_candle_open_time),
      (''signal_kind'', JText (signal_kind_value (si_kind (ev_signal_intent ev)))),
      (''selected_entry_type'', json_entry_type (selected_entry_type ev)), (''atr'', json_decimal (ev_atr ev)),
      (''reason_codes'', JCodes (ev_reason_codes ev))]"

section \<open>Evaluation\<close>

record evaluation_result =
  es_evaluation :: strategy_evaluation_record
  es_created :: bool
  es_intent :: "trade_intent option"
  es_intent_created :: bool
  es_blocked_reasons :: "string list"

definition evaluation_row ::
  "paper_env \<Rightarrow> string \<Rightarrow> datetime \<Rightarrow> strategy_data_bundle \<Rightarrow> strategy_evaluation \<Rightarrow> uuid \<Rightarrow> strategy_evaluation_record" where
  "evaluation_row env symbol evaluation_time bundle ev evaluation_id =
     (let daily_open = open_time (last (candles (sb_daily bundle)));
          key_of = (\<lambda>s. if candles s = [] then daily_open else open_time (last (candles s)))
      in \<lparr>er_evaluation_id = evaluation_id, er_symbol = symbol, er_evaluation_time = evaluation_time,
          er_daily_candle_open_time = daily_open, er_weekly_candle_key = key_of (sb_weekly bundle),
          er_monthly_candle_key = key_of (sb_monthly bundle), er_daily_candle_key = daily_open,
          er_strategy_version = ev_strategy_version ev, er_regime_result = evaluation_to_regime_result ev,
          er_entry_result = evaluation_to_entry_result ev, er_rejection_reasons = evaluation_rejection_reasons ev,
          er_deterministic_input_hash = input_hash env (evaluation_hash_payload ev daily_open),
          er_created_at = evaluation_time\<rparr>)"

text \<open>The transaction: the evaluation, its audit entry, the intent of an entry signal and its audit entry.\<close>

definition record_evaluation ::
  "service_env \<Rightarrow> string \<Rightarrow> datetime \<Rightarrow> strategy_data_bundle \<Rightarrow> paper_trading_config \<Rightarrow> entry_gate_context \<Rightarrow> uuid option \<Rightarrow>
   strategy_evaluation \<Rightarrow> evaluation_result db_op"
where
  "record_evaluation sv symbol evaluation_time bundle config gates cycle_id ev =
     db_bind uuid4 (\<lambda>evaluation_id.
     db_bind (insert_or_get_strategy_evaluation (evaluation_row (sv_env sv) symbol evaluation_time bundle ev evaluation_id))
       (\<lambda>(evaluation, created).
     db_bind (append_audit_event (sv_env sv) ''STRATEGY_EVALUATION_RECORDED'' ''strategy_evaluation'' (er_evaluation_id evaluation)
       [(''symbol'', JText symbol), (''created'', JBool created),
        (''signal_kind'', JText (signal_kind_value (si_kind (ev_signal_intent ev))))] cycle_id (Some evaluation_time)) (\<lambda>_.
     if si_kind (ev_signal_intent ev) \<noteq> LONG_ENTRY
     then db_ret \<lparr>es_evaluation = evaluation, es_created = created, es_intent = None, es_intent_created = False,
                  es_blocked_reasons = []\<rparr>
     else
     db_bind (now sv) (\<lambda>t.
     db_bind (\<lambda>db. create_intent_from_evaluation (sv_env sv) evaluation ev gates config evaluation_time t
                     (sv_market_data_ready sv db) db) (\<lambda>(intent, intent_created, blocked).
     db_bind (case intent of
                Some i \<Rightarrow>
                  if intent_created
                  then db_bind (append_audit_event (sv_env sv) ''TRADE_INTENT_CREATED'' ''trade_intent'' (ti_intent_id i)
                         [(''symbol'', JText symbol), (''signal_type'', JText (entry_type_value (signal_type_to_entry_type (ti_signal_type i)))),
                          (''scheduled_fill_time'', JTime (ti_scheduled_fill_time i))] cycle_id (Some evaluation_time)) (\<lambda>_. db_ret ())
                  else db_ret ()
              | None \<Rightarrow> db_ret ()) (\<lambda>_.
     db_ret \<lparr>es_evaluation = evaluation, es_created = created, es_intent = intent, es_intent_created = intent_created,
             es_blocked_reasons = blocked\<rparr>))))))"

definition evaluate_symbol_for_daily_close ::
  "service_env \<Rightarrow> string \<Rightarrow> datetime \<Rightarrow> strategy_data_bundle \<Rightarrow> strategy_parameters \<Rightarrow> paper_trading_config \<Rightarrow>
   entry_gate_context \<Rightarrow> uuid option \<Rightarrow> evaluation_result job"
where
  "evaluate_symbol_for_daily_close sv symbol evaluation_time bundle params config gates cycle_id =
     (if symbol \<notin> ALLOWED_SYMBOLS then job_raise (ValueError (''unsupported symbol: '' @ symbol))
      else if \<not> is_usable bundle then job_raise (ValueError ''market data not ready'')
      else if candles (sb_daily bundle) = [] then job_raise (ValueError ''no closed daily candles available'')
      else if evaluation_time < evaluation_time_for_daily (last (candles (sb_daily bundle)))
           then job_raise (ValueError ''evaluation_time before daily close event'')
      else job_bind (job_lift (strategy_evaluate (sb_daily bundle) (sb_weekly bundle) (sb_monthly bundle) evaluation_time (Some params)))
             (\<lambda>ev. transaction (record_evaluation sv symbol evaluation_time bundle config gates cycle_id ev)))"

definition is_evaluation_due :: "datetime \<Rightarrow> datetime \<Rightarrow> int \<Rightarrow> bool" where
  "is_evaluation_due daily_close_time process_time evaluation_delay_seconds \<longleftrightarrow>
     daily_close_time + seconds evaluation_delay_seconds \<le> process_time"

text \<open>
  \<open>StopLifecycleService.atr_for_trailing_update\<close>: the ATR stored with the latest evaluation, else that of
  the entry. The column holds the text of a decimal or null; \<open>Decimal\<close> of any other text raises.
\<close>

definition atr_for_trailing_update :: "paper_position \<Rightarrow> strategy_evaluation_record option \<Rightarrow> decimal option \<Rightarrow> decimal comp" where
  "atr_for_trailing_update position latest_evaluation entry_result_atr =
     (if (case entry_result_atr of None \<Rightarrow> False | Some a \<Rightarrow> 0 < a) then ret (the entry_result_atr)
      else case latest_evaluation of
             None \<Rightarrow> ret (pp_entry_atr14 position)
           | Some e \<Rightarrow>
               (case map_of (er_entry_result e) ''atr'' of
                  None \<Rightarrow> ret (pp_entry_atr14 position)
                | Some JNull \<Rightarrow> ret (pp_entry_atr14 position)
                | Some (JDecimal a) \<Rightarrow> ret a
                | Some _ \<Rightarrow> raise InvalidOperation))"

text \<open>The ATR a fresh evaluation stores is the one the trailing update reads back.\<close>

lemma atr_roundtrip:
  "atr_for_trailing_update p (Some (evaluation_row env s t b ev i)) None =
     ret (case ev_atr ev of None \<Rightarrow> pp_entry_atr14 p | Some a \<Rightarrow> a)"
  by (simp add: atr_for_trailing_update_def evaluation_row_def evaluation_to_entry_result_def json_opt_def Let_def
      split: option.splits)

end
