(* ===== verification/Paper_Runtime.thy ===== *)
theory Paper_Runtime
  imports Paper_Evaluation
begin

text \<open>
  The runtime of the service (\<open>services/paper_trading/runtime.py\<close>): validated status transitions, the
  heartbeat, pause and kill switch; and the readiness checks (\<open>readiness.py\<close>).
\<close>

section \<open>Runtime service\<close>

definition RUNTIME_SINGLETON_ID :: uuid where
  "RUNTIME_SINGLETON_ID = 1"

record runtime_transition_result =
  rt_previous :: runtime_status
  rt_current :: runtime_status
  rt_state :: runtime_state

definition get_state :: "runtime_state db_op" where
  "get_state =
     db_bind get_runtime_state (\<lambda>state.
     case state of None \<Rightarrow> db_raise (LookupError ''runtime_state not seeded'') | Some rs \<Rightarrow> db_ret rs)"

definition runtime_audit :: "service_env \<Rightarrow> string \<Rightarrow> json_object \<Rightarrow> uuid option \<Rightarrow> datetime \<Rightarrow> audit_event db_op" where
  "runtime_audit sv event_type payload cycle_id t =
     append_audit_event (sv_env sv) event_type ''runtime_state'' RUNTIME_SINGLETON_ID payload cycle_id (Some t)"

definition change_status :: "service_env \<Rightarrow> runtime_status \<Rightarrow> string option \<Rightarrow> uuid option \<Rightarrow> runtime_transition_result db_op" where
  "change_status sv target last_error cycle_id =
     db_bind get_state (\<lambda>current.
     db_bind (db_lift (validate_runtime_transition (rs_status current) target)) (\<lambda>_.
     db_bind (now sv) (\<lambda>t.
     db_bind (update_runtime_state (Some target) (set_if_some last_error (rs_last_error current))
                (if target = RS_STARTING then Some t else None) (Some t) None None None (Some (rs_version current))) (\<lambda>updated.
     db_bind (runtime_audit sv ''RUNTIME_STATUS_CHANGED''
                [(''from'', JText (runtime_status_value (rs_status current))), (''to'', JText (runtime_status_value target)),
                 (''cycle_id'', json_opt (\<lambda>c. JText (uuid_str c)) cycle_id)] cycle_id t) (\<lambda>_.
     db_ret \<lparr>rt_previous = rs_status current, rt_current = target, rt_state = updated\<rparr>)))))"

definition runtime_transition :: "service_env \<Rightarrow> runtime_status \<Rightarrow> string option \<Rightarrow> uuid option \<Rightarrow> runtime_transition_result job" where
  "runtime_transition sv target last_error cycle_id = transaction (change_status sv target last_error cycle_id)"

definition heartbeat :: "service_env \<Rightarrow> runtime_state job" where
  "heartbeat sv = transaction
     (db_bind (now sv) (\<lambda>t.
      db_bind get_state (\<lambda>current.
      update_runtime_state None None None (Some t) None None None (Some (rs_version current)))))"

definition set_paused :: "service_env \<Rightarrow> bool \<Rightarrow> runtime_state job" where
  "set_paused sv paused = transaction
     (db_bind get_state (\<lambda>current.
      db_bind (update_runtime_state None None None None None (Some paused) None (Some (rs_version current))) (\<lambda>updated.
      db_bind (now sv) (\<lambda>t.
      db_bind (runtime_audit sv (if paused then ''RUNTIME_PAUSED'' else ''RUNTIME_RESUMED'') [(''paused'', JBool paused)] None t) (\<lambda>_.
      db_ret updated)))))"

definition set_kill_switch :: "service_env \<Rightarrow> bool \<Rightarrow> runtime_state job" where
  "set_kill_switch sv enabled = transaction
     (db_bind get_state (\<lambda>current.
      db_bind (update_runtime_state None None None None (Some enabled) None None (Some (rs_version current))) (\<lambda>updated.
      db_bind (now sv) (\<lambda>t.
      db_bind (runtime_audit sv (if enabled then ''KILL_SWITCH_ENABLED'' else ''KILL_SWITCH_DISABLED'')
                 [(''kill_switch'', JBool enabled)] None t) (\<lambda>_.
      db_ret updated)))))"

section \<open>Readiness\<close>

record readiness_snapshot =
  rd_process_liveness :: bool
  rd_runtime_readiness :: bool
  rd_entry_readiness :: bool
  rd_reasons :: "string list"

record promotion_readiness_snapshot =
  pr_ready :: bool
  pr_reasons :: "string list"

text \<open>
  What a check is told: whether the market data is ready, whether the lock is held (\<open>None\<close> where no lock
  is given), whether the scheduler and a recovery are active, and the answers of the two probes of the
  database: reachable, and the reason why the schema is not at its head.
\<close>

record readiness_inputs =
  ri_market_data_ready :: bool
  ri_lock_held :: "bool option"
  ri_scheduler_active :: bool
  ri_recovery_active :: bool
  ri_database_ready :: bool
  ri_schema_problem :: "string option"

definition PROMOTABLE_RUNTIME_STATUSES :: "runtime_status set" where
  "PROMOTABLE_RUNTIME_STATUSES = {RS_STARTING, RS_RECOVERING, RS_SYNCING, RS_DEGRADED}"

definition reason_if :: "bool \<Rightarrow> string \<Rightarrow> string list" where
  "reason_if b r = (if b then [r] else [])"

text \<open>A check that fails adds its reason; readiness is that none did.\<close>

definition permanent_configuration_failure :: "string list db_op" where
  "permanent_configuration_failure =
     db_bind list_permanent_configuration_failures (\<lambda>failures.
     db_ret (reason_if (failures \<noteq> []) ''permanent_configuration_failure''))"

definition operational_reasons :: "service_env \<Rightarrow> readiness_inputs \<Rightarrow> runtime_state \<Rightarrow> string list db_op" where
  "operational_reasons sv inp runtime =
     db_bind get_running_scheduler_runs (\<lambda>orphans.
     db_bind permanent_configuration_failure (\<lambda>permanent.
     db_bind (now sv) (\<lambda>t.
     db_ret (reason_if (\<not> ri_market_data_ready inp) ''market_data_not_ready'' @
             reason_if (\<not> ri_database_ready inp) ''database_unreachable'' @
             (case ri_schema_problem inp of None \<Rightarrow> [] | Some r \<Rightarrow> [r]) @
             reason_if (ri_lock_held inp = Some False) ''advisory_lock_not_held'' @
             reason_if (pc_scheduler_enabled (sv_config sv) \<and> \<not> ri_scheduler_active inp) ''scheduler_not_active'' @
             reason_if (ri_recovery_active inp) ''recovery_active'' @
             reason_if (orphans \<noteq> []) ''orphan_scheduler_run'' @ permanent @
             reason_if (seconds (pc_stale_runtime_threshold_seconds (sv_config sv)) < t - rs_heartbeat_at runtime)
               ''stale_heartbeat''))))"

definition runtime_reasons :: "service_env \<Rightarrow> readiness_inputs \<Rightarrow> runtime_state \<Rightarrow> string list db_op" where
  "runtime_reasons sv inp runtime =
     db_bind (operational_reasons sv inp runtime) (\<lambda>reasons.
     db_ret (reasons @ reason_if (rs_status runtime \<noteq> RS_READY) ''runtime_not_ready'' @
             reason_if (rs_last_error runtime \<noteq> None \<and> rs_last_error runtime \<noteq> Some '''') ''last_error_set''))"

definition entry_reasons :: "runtime_state \<Rightarrow> string list db_op" where
  "entry_reasons runtime =
     db_bind permanent_configuration_failure (\<lambda>permanent.
     db_ret (reason_if (rs_paused runtime) ''paused'' @ reason_if (rs_kill_switch runtime) ''kill_switch'' @ permanent))"

definition evaluate_readiness :: "service_env \<Rightarrow> readiness_inputs \<Rightarrow> readiness_snapshot db_op" where
  "evaluate_readiness sv inp =
     db_bind get_runtime_state (\<lambda>resolved.
     case resolved of
       None \<Rightarrow> db_ret \<lparr>rd_process_liveness = False, rd_runtime_readiness = False, rd_entry_readiness = False,
                       rd_reasons = [''runtime_state_missing'']\<rparr>
     | Some runtime \<Rightarrow>
         let dead = reason_if (rs_status runtime \<in> {RS_FAILED, RS_STOPPED}) ''runtime_not_live''
         in db_bind (runtime_reasons sv inp runtime) (\<lambda>reasons.
            db_bind (if reasons = [] then entry_reasons runtime else db_ret []) (\<lambda>entry.
            db_ret \<lparr>rd_process_liveness = (dead = []), rd_runtime_readiness = (reasons = []),
                    rd_entry_readiness = (reasons = [] \<and> entry = []), rd_reasons = dead @ reasons @ entry\<rparr>)))"

definition evaluate_ready_promotion :: "service_env \<Rightarrow> readiness_inputs \<Rightarrow> promotion_readiness_snapshot db_op" where
  "evaluate_ready_promotion sv inp =
     db_bind get_runtime_state (\<lambda>resolved.
     case resolved of
       None \<Rightarrow> db_ret \<lparr>pr_ready = False, pr_reasons = [''runtime_state_missing'']\<rparr>
     | Some runtime \<Rightarrow>
         if rs_status runtime \<notin> PROMOTABLE_RUNTIME_STATUSES
         then db_ret \<lparr>pr_ready = False, pr_reasons = [''runtime_not_promotable'']\<rparr>
         else db_bind (operational_reasons sv inp runtime) (\<lambda>reasons.
              db_ret \<lparr>pr_ready = (reasons = []), pr_reasons = reasons\<rparr>))"

section \<open>What the runtime guarantees\<close>

text \<open>What a returning operation did: read back from the definitions.\<close>

lemmas runtime_run = get_state_def get_runtime_state_def now_def db_bind_def db_read_def db_ret_def db_raise_def db_lift_def

lemma reason_if_Nil [simp]: "reason_if b r = [] \<longleftrightarrow> \<not> b"
  by (simp add: reason_if_def)

lemma change_status_ret:
  assumes "change_status sv target err cid db = ret (x, db')"
  obtains old new where "db_runtime db = Some old" "db_runtime db' = Some new" "rs_status new = target"
    "validate_runtime_transition (rs_status old) target = ret ()" "rs_version new = rs_version old + 1"
    "rs_heartbeat_at new = sv_clock sv db" "rs_paused new = rs_paused old" "rs_kill_switch new = rs_kill_switch old"
    "rs_last_error new = set_if_some err (rs_last_error old)"
    "db' = db\<lparr>db_runtime := db_runtime db', db_audit := db_audit db', db_next_uuid := db_next_uuid db'\<rparr>"
proof (cases "db_runtime db")
  case None
  with assms show ?thesis by (simp add: change_status_def runtime_run)
next
  case (Some old)
  with assms have valid: "validate_runtime_transition (rs_status old) target = ret ()"
    by (auto simp: change_status_def runtime_run cbind_eq_ret)
  define started where "started = (if target = RS_STARTING then Some (sv_clock sv db) else None)"
  obtain new where new: "update_runtime_state (Some target) (set_if_some err (rs_last_error old)) started (Some (sv_clock sv db))
      None None None (Some (rs_version old)) db = ret (new, db\<lparr>db_runtime := Some new\<rparr>)"
    "rs_status new = target" "rs_version new = rs_version old + 1" "rs_heartbeat_at new = sv_clock sv db"
    "rs_paused new = rs_paused old" "rs_kill_switch new = rs_kill_switch old"
    "rs_last_error new = set_if_some err (rs_last_error old)"
    using Some by (simp add: update_runtime_state_def Let_def set_if_def set_if_some_def split: option.splits)
  from assms Some valid new(1) [unfolded started_def]
  have "db_runtime db' = Some new \<and> db' = db\<lparr>db_runtime := db_runtime db', db_audit := db_audit db', db_next_uuid := db_next_uuid db'\<rparr>"
    unfolding change_status_def
    by (auto simp: runtime_run runtime_audit_def append_audit_event_def uuid4_def db_write_def Let_def)
  with that [OF Some _ new(2) valid new(3-)] show ?thesis by auto
qed

lemma failures_read:
  "\<exists>fs. list_permanent_configuration_failures db = ret (fs, db)" "get_running_scheduler_runs db = ret (filter (\<lambda>r. sr_status r = SR_RUNNING) (db_runs db), db)"
  by (simp_all add: list_permanent_configuration_failures_def get_running_scheduler_runs_def db_read_def)

lemma runtime_reasons_ret:
  "\<exists>rs. runtime_reasons sv inp runtime db = ret (rs, db) \<and>
     (rs = [] \<longrightarrow> ri_market_data_ready inp \<and> ri_database_ready inp \<and> ri_schema_problem inp = None \<and> ri_lock_held inp \<noteq> Some False \<and>
       \<not> ri_recovery_active inp \<and> (\<forall>r \<in> set (db_runs db). sr_status r \<noteq> SR_RUNNING) \<and> rs_status runtime = RS_READY \<and>
       sv_clock sv db - rs_heartbeat_at runtime \<le> seconds (pc_stale_runtime_threshold_seconds (sv_config sv)))"
proof -
  obtain fs where fs: "list_permanent_configuration_failures db = ret (fs, db)" using failures_read(1) by blast
  show ?thesis
    by (simp add: runtime_reasons_def operational_reasons_def permanent_configuration_failure_def fs failures_read(2) runtime_run
        filter_empty_conv not_less split: option.splits)
qed

lemma entry_reasons_ret:
  "\<exists>rs. entry_reasons runtime db = ret (rs, db) \<and> (rs = [] \<longrightarrow> \<not> rs_paused runtime \<and> \<not> rs_kill_switch runtime)"
proof -
  obtain fs where fs: "list_permanent_configuration_failures db = ret (fs, db)" using failures_read(1) by blast
  show ?thesis by (simp add: entry_reasons_def permanent_configuration_failure_def fs runtime_run)
qed

lemma entry_ready_ret:
  "\<exists>snap. evaluate_readiness sv inp db = ret (snap, db) \<and> (rd_entry_readiness snap \<longleftrightarrow> rd_reasons snap = []) \<and>
    (rd_entry_readiness snap \<longrightarrow> rd_process_liveness snap \<and> rd_runtime_readiness snap \<and>
      ri_market_data_ready inp \<and> ri_database_ready inp \<and> ri_schema_problem inp = None \<and> ri_lock_held inp \<noteq> Some False \<and>
      \<not> ri_recovery_active inp \<and> (\<forall>r \<in> set (db_runs db). sr_status r \<noteq> SR_RUNNING) \<and>
      (\<exists>rs. db_runtime db = Some rs \<and> rs_status rs = RS_READY \<and> \<not> rs_paused rs \<and> \<not> rs_kill_switch rs \<and>
        sv_clock sv db - rs_heartbeat_at rs \<le> seconds (pc_stale_runtime_threshold_seconds (sv_config sv))))"
proof (cases "db_runtime db")
  case None
  then show ?thesis by (auto simp: evaluate_readiness_def runtime_run)
next
  case (Some rs)
  from runtime_reasons_ret [of sv inp rs db] obtain a where a: "runtime_reasons sv inp rs db = ret (a, db)"
    "a = [] \<Longrightarrow> ri_market_data_ready inp \<and> ri_database_ready inp \<and> ri_schema_problem inp = None \<and> ri_lock_held inp \<noteq> Some False \<and>
       \<not> ri_recovery_active inp \<and> (\<forall>r \<in> set (db_runs db). sr_status r \<noteq> SR_RUNNING) \<and> rs_status rs = RS_READY \<and>
       sv_clock sv db - rs_heartbeat_at rs \<le> seconds (pc_stale_runtime_threshold_seconds (sv_config sv))" by blast
  from entry_reasons_ret [of rs db] obtain e where e: "entry_reasons rs db = ret (e, db)"
    "e = [] \<Longrightarrow> \<not> rs_paused rs \<and> \<not> rs_kill_switch rs" by blast
  show ?thesis
  proof (cases "a = []")
    case True
    with Some a e show ?thesis by (auto simp: evaluate_readiness_def runtime_run Let_def)
  next
    case False
    with Some a show ?thesis by (auto simp: evaluate_readiness_def runtime_run Let_def)
  qed
qed

end
