(* ===== verification/Paper_Scheduler.thy ===== *)
theory Paper_Scheduler
  imports Paper_Runtime
begin

text \<open>
  The scheduler of the service (\<open>services/paper_trading/scheduler.py\<close>), which runs a job once per scheduled
  time, and the classification of its outcomes (\<open>scheduler_outcomes.py\<close>).
\<close>

section \<open>Jobs\<close>

datatype scheduler_job_name =
    READINESS_CHECK
  | DAILY_SIGNAL_EVALUATION
  | NEXT_OPEN_FILL_PROCESSING
  | DAILY_STOP_UPDATE
  | STOP_TRIGGER_PROCESSING
  | INTRADAY_STOP_PROCESSING
  | FUNDING_PROCESSING
  | PORTFOLIO_SNAPSHOT
  | RUNTIME_HEARTBEAT

fun job_value :: "scheduler_job_name \<Rightarrow> string" where
  "job_value READINESS_CHECK = ''readiness_check''"
| "job_value DAILY_SIGNAL_EVALUATION = ''daily_signal_evaluation''"
| "job_value NEXT_OPEN_FILL_PROCESSING = ''next_open_fill_processing''"
| "job_value DAILY_STOP_UPDATE = ''daily_stop_update''"
| "job_value STOP_TRIGGER_PROCESSING = ''stop_trigger_processing''"
| "job_value INTRADAY_STOP_PROCESSING = ''intraday_stop_processing''"
| "job_value FUNDING_PROCESSING = ''funding_processing''"
| "job_value PORTFOLIO_SNAPSHOT = ''portfolio_snapshot''"
| "job_value RUNTIME_HEARTBEAT = ''runtime_heartbeat''"

definition ALL_JOBS :: "scheduler_job_name list" where
  "ALL_JOBS = [READINESS_CHECK, DAILY_SIGNAL_EVALUATION, NEXT_OPEN_FILL_PROCESSING, DAILY_STOP_UPDATE,
     STOP_TRIGGER_PROCESSING, INTRADAY_STOP_PROCESSING, FUNDING_PROCESSING, PORTFOLIO_SNAPSHOT, RUNTIME_HEARTBEAT]"

record job_run_outcome =
  jo_job_name :: string
  jo_scheduled_for :: datetime
  jo_status :: scheduler_run_status
  jo_skipped :: bool
  jo_error :: "string option"

section \<open>Contexts\<close>

text \<open>
  The keyword arguments a job was registered with. A stop context has one of the three shapes the
  context builder makes; a handler called with another shape, or with none, raises \<open>TypeError\<close>.
\<close>

record symbol_evaluation_context =
  sx_bundle :: strategy_data_bundle
  sx_strategy_params :: strategy_parameters
  sx_config :: paper_trading_config
  sx_entry_gates :: entry_gate_context

datatype stop_context =
    GapStopContext "(string, candle) dict" "(string, symbol_constraints) dict"
  | CloseStopContext "(string, candle) dict" "(string, decimal) dict" "(string, symbol_constraints) dict" strategy_parameters
  | IntradayStopContext "(string, candle) dict" "(string, symbol_constraints) dict"

record scheduler_state =
  sk_jobs_enabled :: bool
  sk_pending_evaluation :: "(string, symbol_evaluation_context) dict option"
  sk_pending_fill_contexts :: "(string, fill_processing_context) dict option"
  sk_pending_stop_context :: "stop_context option"

definition register_evaluation_context :: "(string, symbol_evaluation_context) dict \<Rightarrow> scheduler_state \<Rightarrow> scheduler_state" where
  "register_evaluation_context ctx sk = sk\<lparr>sk_pending_evaluation := Some ctx\<rparr>"

definition register_fill_contexts :: "(string, fill_processing_context) dict \<Rightarrow> scheduler_state \<Rightarrow> scheduler_state" where
  "register_fill_contexts ctxs sk = sk\<lparr>sk_pending_fill_contexts := Some ctxs\<rparr>"

definition register_stop_context :: "stop_context \<Rightarrow> scheduler_state \<Rightarrow> scheduler_state" where
  "register_stop_context ctx sk = sk\<lparr>sk_pending_stop_context := Some ctx\<rparr>"

definition set_jobs_enabled :: "bool \<Rightarrow> scheduler_state \<Rightarrow> scheduler_state" where
  "set_jobs_enabled enabled sk = sk\<lparr>sk_jobs_enabled := enabled\<rparr>"

section \<open>Handlers\<close>

definition job_readiness_check :: "service_env \<Rightarrow> scheduler_state \<Rightarrow> unit job" where
  "job_readiness_check sv sk =
     job_bind (transaction (\<lambda>db. db_lift (sv_market_data_ready sv db) db)) (\<lambda>ready.
     job_bind (transaction (evaluate_readiness sv
       \<lparr>ri_market_data_ready = ready, ri_lock_held = None, ri_scheduler_active = sk_jobs_enabled sk,
        ri_recovery_active = False, ri_database_ready = True, ri_schema_problem = None\<rparr>)) (\<lambda>_. job_ret ()))"

definition evaluation_time_for :: "service_env \<Rightarrow> datetime \<Rightarrow> datetime" where
  "evaluation_time_for sv scheduled_for = scheduled_for + seconds (pc_evaluation_delay_seconds (sv_config sv))"

definition evaluate_symbol_context ::
  "service_env \<Rightarrow> (string, symbol_evaluation_context) dict \<Rightarrow> datetime \<Rightarrow> string \<Rightarrow> evaluation_result list job" where
  "evaluate_symbol_context sv ctx t symbol =
     (case dict_get ctx symbol of
        None \<Rightarrow> job_ret []
      | Some sx \<Rightarrow> job_bind (evaluate_symbol_for_daily_close sv symbol t (sx_bundle sx) (sx_strategy_params sx) (sx_config sx)
                              (sx_entry_gates sx) None) (\<lambda>r. job_ret [r]))"

definition job_daily_signal_evaluation :: "service_env \<Rightarrow> scheduler_state \<Rightarrow> datetime \<Rightarrow> unit job" where
  "job_daily_signal_evaluation sv sk scheduled_for =
     job_bind (for_each_symbol (evaluate_symbol_context sv (set_if (sk_pending_evaluation sk) []) (evaluation_time_for sv scheduled_for))
       SYMBOL_PROCESSING_ORDER) (\<lambda>_. job_ret ())"

definition job_next_open_fill_processing :: "service_env \<Rightarrow> scheduler_state \<Rightarrow> uuid option \<Rightarrow> unit job" where
  "job_next_open_fill_processing sv sk cycle_id =
     job_bind (transaction (now sv)) (\<lambda>t.
     job_bind (process_scheduled_intents_for_open (sv_env sv) (sv_risk sv) t (pc_fill_delay_seconds (sv_config sv))
       (set_if (sk_pending_fill_contexts sk) []) (sv_config sv) (sv_fill_ready sv) cycle_id) (\<lambda>_. job_ret ()))"

definition job_daily_stop_update :: "service_env \<Rightarrow> scheduler_state \<Rightarrow> datetime \<Rightarrow> unit job" where
  "job_daily_stop_update sv sk scheduled_for =
     (case sk_pending_stop_context sk of
        Some (CloseStopContext bars atrs cons params) \<Rightarrow>
          job_bind (update_daily_trailing_stops (sv_env sv) (evaluation_time_for sv scheduled_for) bars atrs cons params None)
            (\<lambda>_. job_ret ())
      | _ \<Rightarrow> job_raise TypeError)"

definition job_stop_trigger_processing :: "service_env \<Rightarrow> scheduler_state \<Rightarrow> unit job" where
  "job_stop_trigger_processing sv sk =
     job_bind (transaction (now sv)) (\<lambda>t.
     case sk_pending_stop_context sk of
       Some (GapStopContext bars cons) \<Rightarrow>
         job_bind (process_stop_triggers_for_daily_candle (sv_env sv) (sv_config sv) t bars cons None True) (\<lambda>_. job_ret ())
     | _ \<Rightarrow> job_raise TypeError)"

definition job_intraday_stop_processing :: "service_env \<Rightarrow> scheduler_state \<Rightarrow> uuid option \<Rightarrow> unit job" where
  "job_intraday_stop_processing sv sk cycle_id =
     (case sk_pending_stop_context sk of
        Some (IntradayStopContext bars cons) \<Rightarrow>
          if bars = [] then job_raise (ValueError ''missing intraday preview_candles context'')
          else job_bind (transaction (now sv)) (\<lambda>t.
               job_bind (process_intraday_stop_triggers (sv_env sv) (sv_config sv) t bars cons cycle_id) (\<lambda>_. job_ret ()))
      | _ \<Rightarrow> job_raise (ValueError ''missing intraday preview_candles context''))"

definition job_funding_processing :: "unit job" where
  "job_funding_processing = job_raise (RuntimeError ''funding processing is not implemented in paper trading V1'')"

definition job_portfolio_snapshot :: "service_env \<Rightarrow> datetime \<Rightarrow> uuid option \<Rightarrow> unit job" where
  "job_portfolio_snapshot sv scheduled_for cycle_id =
     job_bind (transaction (capture_snapshot (sv_env sv) (evaluation_time_for sv scheduled_for) ''scheduled_snapshot''
       None None [] [] cycle_id)) (\<lambda>_. job_ret ())"

definition job_runtime_heartbeat :: "service_env \<Rightarrow> unit job" where
  "job_runtime_heartbeat sv = job_bind (heartbeat sv) (\<lambda>_. job_ret ())"

fun handler :: "service_env \<Rightarrow> scheduler_state \<Rightarrow> datetime \<Rightarrow> uuid option \<Rightarrow> scheduler_job_name \<Rightarrow> unit job" where
  "handler sv sk t cycle_id READINESS_CHECK = job_readiness_check sv sk"
| "handler sv sk t cycle_id DAILY_SIGNAL_EVALUATION = job_daily_signal_evaluation sv sk t"
| "handler sv sk t cycle_id NEXT_OPEN_FILL_PROCESSING = job_next_open_fill_processing sv sk cycle_id"
| "handler sv sk t cycle_id DAILY_STOP_UPDATE = job_daily_stop_update sv sk t"
| "handler sv sk t cycle_id STOP_TRIGGER_PROCESSING = job_stop_trigger_processing sv sk"
| "handler sv sk t cycle_id INTRADAY_STOP_PROCESSING = job_intraday_stop_processing sv sk cycle_id"
| "handler sv sk t cycle_id FUNDING_PROCESSING = job_funding_processing"
| "handler sv sk t cycle_id PORTFOLIO_SNAPSHOT = job_portfolio_snapshot sv t cycle_id"
| "handler sv sk t cycle_id RUNTIME_HEARTBEAT = job_runtime_heartbeat sv"

definition handlers_get :: "string \<Rightarrow> scheduler_job_name option" where
  "handlers_get job_name = find (\<lambda>j. job_value j = job_name) ALL_JOBS"

lemma handlers_get_value [simp]: "handlers_get (job_value j) = Some j"
  by (cases j) (simp_all add: handlers_get_def ALL_JOBS_def)

section \<open>Running a job\<close>

definition start_run :: "service_env \<Rightarrow> string \<Rightarrow> datetime \<Rightarrow> (scheduler_run \<times> bool) job" where
  "start_run sv job_name scheduled_for =
     job_bind (transaction (now sv)) (\<lambda>started.
     transaction (db_bind uuid4 (\<lambda>run_id.
       insert_or_get_scheduler_run (sv_soak_run_id sv) (running_run run_id job_name scheduled_for started None))))"

definition complete_run :: "service_env \<Rightarrow> string \<Rightarrow> datetime \<Rightarrow> scheduler_run_status \<Rightarrow> string option \<Rightarrow> scheduler_run job" where
  "complete_run sv job_name scheduled_for status err =
     transaction (db_bind (now sv) (\<lambda>t. complete_scheduler_run job_name scheduled_for status t err))"

definition job_outcome :: "string \<Rightarrow> datetime \<Rightarrow> scheduler_run_status \<Rightarrow> bool \<Rightarrow> string option \<Rightarrow> job_run_outcome" where
  "job_outcome job_name scheduled_for status skipped err =
     \<lparr>jo_job_name = job_name, jo_scheduled_for = scheduled_for, jo_status = status, jo_skipped = skipped, jo_error = err\<rparr>"

definition persisted_job_outcome :: "string \<Rightarrow> datetime \<Rightarrow> bool \<Rightarrow> string option \<Rightarrow> job_run_outcome job" where
  "persisted_job_outcome job_name scheduled_for skipped err =
     job_bind (transaction (get_scheduler_run job_name scheduled_for)) (\<lambda>run.
     job_ret (case run of
       Some r \<Rightarrow> job_outcome job_name scheduled_for (sr_status r) skipped (sr_error r)
     | None \<Rightarrow> job_outcome job_name scheduled_for SR_FAILED False
                 (Some (case err of Some e \<Rightarrow> if e = '''' then ''scheduler_run_missing'' else e | None \<Rightarrow> ''scheduler_run_missing''))))"

definition call_handler :: "service_env \<Rightarrow> scheduler_state \<Rightarrow> string \<Rightarrow> datetime \<Rightarrow> uuid option \<Rightarrow> job_run_outcome job" where
  "call_handler sv sk job_name scheduled_for cycle_id =
     (case handlers_get job_name of
        None \<Rightarrow> job_bind (complete_run sv job_name scheduled_for SR_FAILED (Some ''unknown_job'')) (\<lambda>_.
                job_ret (job_outcome job_name scheduled_for SR_FAILED False (Some ''unknown_job'')))
      | Some j \<Rightarrow>
          job_catch
            (job_bind (handler sv sk scheduled_for cycle_id j) (\<lambda>_.
             job_bind (complete_run sv job_name scheduled_for SR_COMPLETED None) (\<lambda>_.
             persisted_job_outcome job_name scheduled_for False None)))
            (\<lambda>e.
             job_bind (complete_run sv job_name scheduled_for SR_FAILED (Some (error_text (sv_env sv) e))) (\<lambda>_.
             persisted_job_outcome job_name scheduled_for False (Some (error_text (sv_env sv) e)))))"

definition run_job_body :: "service_env \<Rightarrow> scheduler_state \<Rightarrow> string \<Rightarrow> datetime \<Rightarrow> uuid option \<Rightarrow> job_run_outcome job" where
  "run_job_body sv sk job_name scheduled_for cycle_id =
     (if \<not> sk_jobs_enabled sk \<and> job_name \<noteq> job_value READINESS_CHECK
      then job_ret (job_outcome job_name scheduled_for SR_SKIPPED True (Some ''scheduler_not_ready''))
      else
      job_bind (transaction (get_scheduler_run job_name scheduled_for)) (\<lambda>existing.
      if map_option sr_status existing = Some SR_COMPLETED
      then job_ret (job_outcome job_name scheduled_for SR_COMPLETED True None)
      else if map_option sr_status existing = Some SR_RUNNING
      then job_ret (job_outcome job_name scheduled_for SR_SKIPPED True (Some ''already_running''))
      else
      job_bind (start_run sv job_name scheduled_for) (\<lambda>(run, created).
      if \<not> created \<and> sr_status run = SR_COMPLETED
      then job_ret (job_outcome job_name scheduled_for SR_COMPLETED True None)
      else call_handler sv sk job_name scheduled_for cycle_id)))"

text \<open>
  \<open>owns_transaction\<close>: outside a transaction the job is one of its own, rolled back as a whole when it
  raises; inside one, it works in the caller's.
\<close>

definition run_job :: "bool \<Rightarrow> service_env \<Rightarrow> scheduler_state \<Rightarrow> string \<Rightarrow> datetime \<Rightarrow> uuid option \<Rightarrow> job_run_outcome job" where
  "run_job owns_transaction sv sk job_name scheduled_for cycle_id =
     (if owns_transaction then savepoint (run_job_body sv sk job_name scheduled_for cycle_id)
      else run_job_body sv sk job_name scheduled_for cycle_id)"

section \<open>Sequences of jobs\<close>

text \<open>
  The lock: whether this process holds it, and else the answer of the database to the attempt. It is
  given back where it was taken, so a sequence leaves it as it found it.
\<close>

record advisory_lock =
  al_held :: bool
  al_available :: bool

definition try_acquire :: "advisory_lock \<Rightarrow> bool" where
  "try_acquire lock \<longleftrightarrow> al_held lock \<or> al_available lock"

fun run_jobs :: "bool \<Rightarrow> service_env \<Rightarrow> scheduler_state \<Rightarrow> datetime \<Rightarrow> uuid option \<Rightarrow> scheduler_job_name list \<Rightarrow> job_run_outcome list job" where
  "run_jobs own sv sk t cycle_id [] = job_ret []"
| "run_jobs own sv sk t cycle_id (j # js) =
     job_bind (run_job own sv sk (job_value j) t cycle_id) (\<lambda>x. job_bind (run_jobs own sv sk t cycle_id js) (\<lambda>xs. job_ret (x # xs)))"

definition run_open_subsequence ::
  "bool \<Rightarrow> service_env \<Rightarrow> scheduler_state \<Rightarrow> advisory_lock \<Rightarrow> datetime \<Rightarrow> uuid option \<Rightarrow> scheduler_job_name list \<Rightarrow> job_run_outcome list job" where
  "run_open_subsequence own sv sk lock scheduled_for cycle_id jobs =
     (if \<not> try_acquire lock
      then job_ret [job_outcome (job_value (hd jobs)) scheduled_for SR_SKIPPED True (Some ''advisory_lock_not_acquired'')]
      else run_jobs own sv sk scheduled_for cycle_id jobs)"

definition run_daily_open_gap_stop ::
  "bool \<Rightarrow> service_env \<Rightarrow> scheduler_state \<Rightarrow> advisory_lock \<Rightarrow> datetime \<Rightarrow> uuid option \<Rightarrow> job_run_outcome list job" where
  "run_daily_open_gap_stop own sv sk lock t cycle_id = run_open_subsequence own sv sk lock t cycle_id [STOP_TRIGGER_PROCESSING]"

definition run_daily_open_fill ::
  "bool \<Rightarrow> service_env \<Rightarrow> scheduler_state \<Rightarrow> advisory_lock \<Rightarrow> datetime \<Rightarrow> uuid option \<Rightarrow> job_run_outcome list job" where
  "run_daily_open_fill own sv sk lock t cycle_id = run_open_subsequence own sv sk lock t cycle_id [NEXT_OPEN_FILL_PROCESSING]"

definition run_daily_open_snapshot ::
  "bool \<Rightarrow> service_env \<Rightarrow> scheduler_state \<Rightarrow> advisory_lock \<Rightarrow> datetime \<Rightarrow> uuid option \<Rightarrow> job_run_outcome list job" where
  "run_daily_open_snapshot own sv sk lock t cycle_id = run_open_subsequence own sv sk lock t cycle_id [PORTFOLIO_SNAPSHOT]"

definition run_daily_open_sequence ::
  "bool \<Rightarrow> service_env \<Rightarrow> scheduler_state \<Rightarrow> advisory_lock \<Rightarrow> datetime \<Rightarrow> uuid option \<Rightarrow> job_run_outcome list job" where
  "run_daily_open_sequence own sv sk lock scheduled_for cycle_id =
     job_bind (run_daily_open_gap_stop own sv sk lock scheduled_for cycle_id) (\<lambda>gap.
     job_bind (transaction (now sv)) (\<lambda>t.
     if t < scheduled_for + seconds (pc_fill_delay_seconds (sv_config sv))
     then job_ret (gap @ [job_outcome (job_value NEXT_OPEN_FILL_PROCESSING) scheduled_for SR_SKIPPED True (Some ''fill_not_due'')])
     else job_bind (run_daily_open_fill own sv sk lock scheduled_for cycle_id) (\<lambda>fill.
          job_bind (run_daily_open_snapshot own sv sk lock scheduled_for cycle_id) (\<lambda>snap.
          job_ret (gap @ fill @ snap)))))"

definition run_daily_close_sequence ::
  "bool \<Rightarrow> service_env \<Rightarrow> scheduler_state \<Rightarrow> advisory_lock \<Rightarrow> datetime \<Rightarrow> uuid option \<Rightarrow> job_run_outcome list job" where
  "run_daily_close_sequence own sv sk lock scheduled_for cycle_id =
     (if \<not> try_acquire lock
      then job_ret [job_outcome (job_value DAILY_SIGNAL_EVALUATION) scheduled_for SR_SKIPPED True (Some ''advisory_lock_not_acquired'')]
      else
      job_bind (transaction (now sv)) (\<lambda>t.
      if t < scheduled_for + seconds (pc_evaluation_delay_seconds (sv_config sv))
      then job_ret [job_outcome (job_value DAILY_SIGNAL_EVALUATION) scheduled_for SR_SKIPPED True (Some ''evaluation_not_due'')]
      else run_jobs own sv sk scheduled_for cycle_id [DAILY_SIGNAL_EVALUATION, DAILY_STOP_UPDATE, PORTFOLIO_SNAPSHOT]))"

section \<open>Outcomes\<close>

definition RETRYABLE_SKIP_ERRORS :: "string list" where
  "RETRYABLE_SKIP_ERRORS =
     [''advisory_lock_not_acquired'', ''scheduler_not_ready'', ''already_running'', ''fill_not_due'', ''evaluation_not_due'']"

definition is_idempotent_completed :: "job_run_outcome \<Rightarrow> bool" where
  "is_idempotent_completed outcome \<longleftrightarrow> jo_status outcome = SR_COMPLETED \<and> jo_skipped outcome \<and> jo_error outcome = None"

definition is_fresh_completed :: "job_run_outcome \<Rightarrow> bool" where
  "is_fresh_completed outcome \<longleftrightarrow> jo_status outcome = SR_COMPLETED \<and> \<not> jo_skipped outcome"

definition is_retryable_skip :: "job_run_outcome \<Rightarrow> bool" where
  "is_retryable_skip outcome \<longleftrightarrow>
     jo_skipped outcome \<and> (case jo_error outcome of None \<Rightarrow> False | Some e \<Rightarrow> e \<in> set RETRYABLE_SKIP_ERRORS)"

definition is_terminal_job_success :: "job_run_outcome \<Rightarrow> bool" where
  "is_terminal_job_success outcome \<longleftrightarrow> is_idempotent_completed outcome \<or> is_fresh_completed outcome"

fun require_successful_jobs :: "job_run_outcome list \<Rightarrow> unit comp" where
  "require_successful_jobs [] = ret ()"
| "require_successful_jobs (x # xs) =
     (if jo_status x = SR_FAILED
      then raise (RuntimeError (case jo_error x of Some e \<Rightarrow> if e = '''' then ''scheduler job failed'' else e | None \<Rightarrow> ''scheduler job failed''))
      else if is_retryable_skip x then raise RetryableSchedulerDeferred
      else require_successful_jobs xs)"

end
