(* ===== verification/Paper_Listings.thy ===== *)
theory Paper_Listings
  imports Paper_Runs "HOL-Library.Product_Lexorder"
begin

text \<open>
  The listings of the repository (\<open>services/paper_trading/repository.py\<close>): newest rows first, a page at a
  time, where the next page starts after the time and the identifier of the last row of a page. A table
  that is read page by page is read whole.
\<close>

section \<open>Pages\<close>

definition before_cursor :: "('r \<Rightarrow> datetime) \<Rightarrow> ('r \<Rightarrow> uuid) \<Rightarrow> datetime option \<Rightarrow> uuid option \<Rightarrow> 'r \<Rightarrow> bool" where
  "before_cursor time ident after_time after_id r =
     (case (after_time, after_id) of
        (Some t, Some i) \<Rightarrow> time r < t \<or> time r = t \<and> ident r < i
      | _ \<Rightarrow> True)"

text \<open>\<open>ORDER BY time DESC, id DESC\<close>\<close>

definition newest_first :: "('r \<Rightarrow> datetime) \<Rightarrow> ('r \<Rightarrow> uuid) \<Rightarrow> 'r list \<Rightarrow> 'r list" where
  "newest_first time ident rows = rev (sort_key (\<lambda>r. (time r, ident r)) rows)"

definition page :: "('r \<Rightarrow> datetime) \<Rightarrow> ('r \<Rightarrow> uuid) \<Rightarrow> nat \<Rightarrow> datetime option \<Rightarrow> uuid option \<Rightarrow> 'r list \<Rightarrow> 'r list" where
  "page time ident limit after_time after_id rows =
     take limit (filter (before_cursor time ident after_time after_id) (newest_first time ident rows))"

definition list_scheduler_runs :: "nat \<Rightarrow> datetime option \<Rightarrow> uuid option \<Rightarrow> scheduler_run list db_op" where
  "list_scheduler_runs limit t i = db_read (\<lambda>db. ret (page sr_scheduled_for sr_run_id limit t i (db_runs db)))"

definition list_audit_events :: "nat \<Rightarrow> datetime option \<Rightarrow> uuid option \<Rightarrow> audit_event list db_op" where
  "list_audit_events limit t i = db_read (\<lambda>db. ret (page ae_created_at ae_event_id limit t i (db_audit db)))"

definition list_evaluations :: "nat \<Rightarrow> datetime option \<Rightarrow> uuid option \<Rightarrow> strategy_evaluation_record list db_op" where
  "list_evaluations limit t i = db_read (\<lambda>db. ret (page er_created_at er_evaluation_id limit t i (db_evaluations db)))"

definition list_intents :: "nat \<Rightarrow> datetime option \<Rightarrow> uuid option \<Rightarrow> trade_intent list db_op" where
  "list_intents limit t i = db_read (\<lambda>db. ret (page ti_created_at ti_intent_id limit t i (db_intents db)))"

definition list_orders :: "nat \<Rightarrow> datetime option \<Rightarrow> uuid option \<Rightarrow> paper_order list db_op" where
  "list_orders limit t i =
     db_read (\<lambda>db. cmapM order_row_to_domain (page po_created_at po_paper_order_id limit t i (db_orders db)))"

definition list_fills :: "nat \<Rightarrow> datetime option \<Rightarrow> uuid option \<Rightarrow> paper_fill list db_op" where
  "list_fills limit t i = db_read (\<lambda>db. cmapM fill_row_to_domain (page fl_fill_time fl_fill_id limit t i (db_fills db)))"

definition list_positions ::
  "nat \<Rightarrow> datetime option \<Rightarrow> uuid option \<Rightarrow> paper_position_status option \<Rightarrow> bool \<Rightarrow> paper_position list db_op" where
  "list_positions limit t i status open_only =
     db_read (\<lambda>db. cmapM position_row_to_domain (page pp_opened_at pp_position_id limit t i
       (filter (\<lambda>p. if open_only then is_open_position p
                    else case status of None \<Rightarrow> True | Some s \<Rightarrow> pp_status p = s) (db_positions db))))"

definition list_stop_events :: "nat \<Rightarrow> datetime option \<Rightarrow> uuid option \<Rightarrow> position_stop_event list db_op" where
  "list_stop_events limit t i =
     db_read (\<lambda>db. cmapM stop_event_row_to_domain (page sv_evaluation_time sv_stop_event_id limit t i (db_stop_events db)))"

definition list_portfolio_snapshots :: "nat \<Rightarrow> datetime option \<Rightarrow> uuid option \<Rightarrow> portfolio_snapshot list db_op" where
  "list_portfolio_snapshots limit t i =
     db_read (\<lambda>db. ret (page sp_evaluation_time sp_snapshot_id limit t i (db_snapshots db)))"

section \<open>Whole tables\<close>

definition get_position :: "uuid \<Rightarrow> paper_position option db_op" where
  "get_position position_id =
     db_read (\<lambda>db. case find (\<lambda>r. pp_position_id r = position_id) (db_positions db) of
       None \<Rightarrow> ret None
     | Some row \<Rightarrow> cbind (position_row_to_domain row) (\<lambda>p. ret (Some p)))"

definition get_fills_for_order :: "uuid \<Rightarrow> paper_fill list db_op" where
  "get_fills_for_order paper_order_id =
     db_read (\<lambda>db. cmapM fill_row_to_domain
       (sort_key fl_fill_sequence (filter (\<lambda>f. fl_paper_order_id f = Some paper_order_id) (db_fills db))))"

definition list_all_fills :: "paper_fill list db_op" where
  "list_all_fills = db_read (\<lambda>db. cmapM fill_row_to_domain (db_fills db))"

definition list_all_positions :: "paper_position list db_op" where
  "list_all_positions = db_read (\<lambda>db. cmapM position_row_to_domain (db_positions db))"

definition list_all_intents :: "trade_intent list db_op" where
  "list_all_intents = db_read (\<lambda>db. ret (db_intents db))"

definition list_all_orders :: "paper_order list db_op" where
  "list_all_orders = db_read (\<lambda>db. cmapM order_row_to_domain (db_orders db))"

definition list_funding_events :: "funding_event_record list db_op" where
  "list_funding_events = db_read (\<lambda>db. ret (db_funding db))"

definition list_stop_events_for_position :: "uuid \<Rightarrow> position_stop_event list db_op" where
  "list_stop_events_for_position position_id =
     db_read (\<lambda>db. cmapM stop_event_row_to_domain
       (sort_key sv_evaluation_time (filter (\<lambda>e. sv_position_id e = position_id) (db_stop_events db))))"

definition get_latest_portfolio_snapshot :: "portfolio_snapshot option db_op" where
  "get_latest_portfolio_snapshot =
     db_read (\<lambda>db. ret (case sort_key (\<lambda>s. - sp_evaluation_time s) (db_snapshots db) of [] \<Rightarrow> None | s # _ \<Rightarrow> Some s))"

definition update_order_status ::
  "paper_env \<Rightarrow> uuid \<Rightarrow> paper_order_status \<Rightarrow> decimal option \<Rightarrow> datetime option \<Rightarrow> paper_order db_op" where
  "update_order_status env paper_order_id status remaining_quantity updated_at db =
     (let rows = update_row (\<lambda>r. po_paper_order_id r = paper_order_id)
           (\<lambda>r. r\<lparr>po_status := status, po_updated_at := set_if updated_at (utc_now env),
                  po_remaining_quantity := set_if (money env remaining_quantity) (po_remaining_quantity r)\<rparr>) (db_orders db)
      in case find (\<lambda>r. po_paper_order_id r = paper_order_id) rows of
           None \<Rightarrow> raise AssertionError
         | Some row \<Rightarrow>
             if po_remaining_quantity row < 0 then raise (IntegrityError ''ck_paper_orders_remaining_nonneg'')
             else cbind (order_row_to_domain row) (\<lambda>r. ret (r, db\<lparr>db_orders := rows\<rparr>)))"

text \<open>One funding payment a position and time.\<close>

definition insert_or_get_funding_event :: "paper_env \<Rightarrow> funding_event_record \<Rightarrow> (funding_event_record \<times> bool) db_op" where
  "insert_or_get_funding_event env row db =
     (case filter (\<lambda>r. fe_position_id r = fe_position_id row \<and> fe_funding_time r = fe_funding_time row) (db_funding db) of
        x # xs \<Rightarrow> cbind (scalar_one (x # xs)) (\<lambda>existing. ret ((existing, False), db))
      | [] \<Rightarrow>
          if list_ex (\<lambda>r. fe_funding_event_id r = fe_funding_event_id row) (db_funding db)
          then raise (IntegrityError ''funding_events_pkey'')
          else if list_ex (\<lambda>r. fe_deterministic_key r = fe_deterministic_key row) (db_funding db)
          then raise (IntegrityError ''funding_events_deterministic_key_key'')
          else if \<not> list_ex (\<lambda>p. pp_position_id p = fe_position_id row) (db_positions db)
          then raise (IntegrityError ''funding_events_position_id_fkey'')
          else let stored = row\<lparr>fe_funding_rate := numeric env (fe_funding_rate row), fe_notional := numeric env (fe_notional row),
                               fe_amount := numeric env (fe_amount row)\<rparr>
               in ret ((stored, True), db\<lparr>db_funding := db_funding db @ [stored]\<rparr>))"

section \<open>Reading page by page\<close>

text \<open>What a client does: at most \<open>n\<close> requests, each after the last row it has.\<close>

fun read_pages :: "nat \<Rightarrow> ('r \<Rightarrow> datetime) \<Rightarrow> ('r \<Rightarrow> uuid) \<Rightarrow> nat \<Rightarrow> datetime option \<Rightarrow> uuid option \<Rightarrow> 'r list \<Rightarrow> 'r list" where
  "read_pages 0 time ident limit t i rows = []"
| "read_pages (Suc n) time ident limit t i rows =
     (let p = page time ident limit t i rows
      in if p = [] then []
         else p @ read_pages n time ident limit (Some (time (last p))) (Some (ident (last p))) rows)"

lemma newest_first_sorted:
  assumes "distinct (map (\<lambda>r. (time r, ident r)) rows)"
  shows "sorted_wrt (\<lambda>r s. (time s, ident s) < (time r, ident r)) (newest_first time ident rows)"
proof -
  let ?k = "\<lambda>r. (time r, ident r)"
  have "distinct (map ?k (sort_key ?k rows))"
    using assms by (metis distinct_map distinct_sort set_sort)
  then have "sorted_wrt (<) (map ?k (sort_key ?k rows))" by (simp add: strict_sorted_iff)
  then show ?thesis by (simp add: newest_first_def sorted_wrt_rev sorted_wrt_map)
qed

text \<open>The page after a row of a listing: the rows that follow it.\<close>

lemma page_after:
  assumes "distinct (map (\<lambda>r. (time r, ident r)) rows)" and "m < length rows"
    and "r = newest_first time ident rows ! m"
  shows "page time ident limit (Some (time r)) (Some (ident r)) rows = take limit (drop (Suc m) (newest_first time ident rows))"
proof -
  let ?L = "newest_first time ident rows" and ?k = "\<lambda>r. (time r, ident r)"
  have m: "m < length ?L" using assms(2) by (simp add: newest_first_def)
  have cursor: "before_cursor time ident (Some (time r)) (Some (ident r)) s \<longleftrightarrow> ?k s < ?k r" for s
    by (auto simp: before_cursor_def)
  have split: "?L = take m ?L @ r # drop (Suc m) ?L" using assms(3) m by (simp add: Cons_nth_drop_Suc)
  have "sorted_wrt (\<lambda>r s. ?k s < ?k r) (take m ?L @ r # drop (Suc m) ?L)"
    using newest_first_sorted [OF assms(1)] split by metis
  then have newer: "\<forall>s \<in> set (take m ?L). ?k r < ?k s" and older: "\<forall>s \<in> set (drop (Suc m) ?L). ?k s < ?k r"
    unfolding sorted_wrt_append by simp_all
  have "filter (\<lambda>s. ?k s < ?k r) (take m ?L @ r # drop (Suc m) ?L) = drop (Suc m) ?L"
    using newer older by (auto simp: filter_empty_conv filter_id_conv not_less intro: less_imp_le)
  then show ?thesis unfolding page_def cursor using split by metis
qed

lemma read_pages_from:
  assumes "distinct (map (\<lambda>r. (time r, ident r)) rows)" and "0 < limit"
    and "page time ident limit t i rows = take limit (drop m (newest_first time ident rows))"
    and "length rows - m \<le> n * limit"
  shows "read_pages n time ident limit t i rows = drop m (newest_first time ident rows)"
  using assms(3,4)
proof (induction n arbitrary: m t i)
  case 0
  then show ?case by (simp add: newest_first_def)
next
  case (Suc n)
  let ?L = "newest_first time ident rows"
  have len: "length ?L = length rows" by (simp add: newest_first_def)
  show ?case
  proof (cases "m < length rows")
    case False
    with Suc.prems(1) len show ?thesis by simp
  next
    case True
    let ?p = "take limit (drop m ?L)" and ?e = "min (m + limit) (length rows)"
    have e: "0 < ?e" "?e - 1 < length rows" "m + length ?p = ?e" using True assms(2) len by auto
    have p: "?p \<noteq> []" using True assms(2) len by simp
    have "length ?p = ?e - m" using e(3) by linarith
    then have "last ?p = ?p ! (?e - m - 1)" using p by (simp add: last_conv_nth)
    also have "\<dots> = ?L ! (m + (?e - m - 1))" using True assms(2) len by (subst nth_take) auto
    also have "m + (?e - m - 1) = ?e - 1" using True assms(2) by auto
    finally have "last ?p = ?L ! (?e - 1)" .
    then have next_page: "page time ident limit (Some (time (last ?p))) (Some (ident (last ?p))) rows = take limit (drop ?e ?L)"
      using page_after [OF assms(1) e(2), of "last ?p" limit] e(1) by simp
    have rest: "read_pages n time ident limit (Some (time (last ?p))) (Some (ident (last ?p))) rows = drop ?e ?L"
      using Suc.prems(2) by (intro Suc.IH [OF next_page]) auto
    have "?p @ drop ?e ?L = drop m ?L"
      using len True by (auto simp: min_def) (metis add.commute append_take_drop_id drop_drop)
    then show ?thesis using Suc.prems(1) p rest by (simp add: Let_def)
  qed
qed

theorem pages_read_all:
  assumes "distinct (map (\<lambda>r. (time r, ident r)) rows)" and "0 < limit" and "length rows \<le> n * limit"
  shows "read_pages n time ident limit None None rows = newest_first time ident rows"
proof -
  have "read_pages n time ident limit None None rows = drop 0 (newest_first time ident rows)"
    by (rule read_pages_from [OF assms(1,2)]) (simp_all add: page_def before_cursor_def assms(3))
  then show ?thesis by simp
qed

end
