(* ===== verification/Paper_Context.thy ===== *)
theory Paper_Context
  imports Paper_Scheduler Paper_Listings Market_Bundle
begin

text \<open>
  The inputs of the scheduler jobs, built from market data (\<open>services/paper_trading/scheduler_context.py\<close>)
  with the validation of the exchange constraints (\<open>constraint_validation.py\<close>). Every context is that of
  one symbol.
\<close>

section \<open>Constraints\<close>

definition PRODUCTION_ERROR_CODES :: "(string, string) dict" where
  "PRODUCTION_ERROR_CODES =
     [(INVALID_TICK_SIZE, ''PERMANENT_CONFIGURATION_INVALID_TICK_SIZE''),
      (INVALID_QUANTITY_STEP, ''PERMANENT_CONFIGURATION_INVALID_QUANTITY_STEP''),
      (INVALID_MIN_QUANTITY, ''PERMANENT_CONFIGURATION_INVALID_MIN_QUANTITY''),
      (INVALID_MIN_NOTIONAL, ''PERMANENT_CONFIGURATION_INVALID_MIN_NOTIONAL''),
      (PRECISION_MISMATCH, ''PERMANENT_CONFIGURATION_PRECISION_MISMATCH'')]"

definition validate_production_symbol_constraints :: "string \<Rightarrow> symbol_constraints \<Rightarrow> string option \<Rightarrow> unit comp" where
  "validate_production_symbol_constraints symbol constraints expected_symbol =
     (if expected_symbol \<noteq> None \<and> expected_symbol \<noteq> Some symbol
      then raise (PermanentConfigurationFailure ''PERMANENT_CONFIGURATION_SYMBOL_MISMATCH'')
      else case validate_symbol_constraints_core constraints of
             None \<Rightarrow> ret ()
           | Some violation \<Rightarrow> raise (PermanentConfigurationFailure
               (get_default PRODUCTION_ERROR_CODES (cv_code violation) ''PERMANENT_CONFIGURATION_FAILURE'')))"

definition require_valid_production_constraints :: "string \<Rightarrow> symbol_constraints option \<Rightarrow> symbol_constraints comp" where
  "require_valid_production_constraints symbol constraints =
     (case constraints of
        None \<Rightarrow> raise (PermanentConfigurationFailure ''PERMANENT_CONFIGURATION_FAILURE'')
      | Some cs \<Rightarrow> cbind (validate_production_symbol_constraints symbol cs (Some symbol)) (\<lambda>_. ret cs))"

section \<open>The context builder\<close>

text \<open>The strategy and risk parameters and the execution configuration are those of the constructor.\<close>

record context_builder =
  cb_candles :: candle_repository
  cb_constraints :: "string \<Rightarrow> symbol_constraints option"
  cb_strategy_params :: strategy_parameters
  cb_risk_params :: risk_parameters
  cb_execution_config :: paper_execution_config

definition production_context_builder ::
  "candle_repository \<Rightarrow> (string \<Rightarrow> symbol_constraints option) \<Rightarrow> paper_trading_config \<Rightarrow> context_builder comp" where
  "production_context_builder cs constraints config =
     cbind (from_trading_config config) (\<lambda>xc.
     ret \<lparr>cb_candles = cs, cb_constraints = constraints, cb_strategy_params = default_strategy_parameters,
          cb_risk_params = default_risk_parameters\<lparr>risk_per_trade_pct := 5 / 1000, max_portfolio_risk_pct := 2 / 100,
                             max_leverage := pc_paper_max_leverage config\<rparr>,
          cb_execution_config = xc\<rparr>)"

definition market_symbol_of :: "string \<Rightarrow> market_symbol comp" where
  "market_symbol_of s =
     (case find (\<lambda>m. market_symbol_value m = s) [BTC, ETH, SOL] of
        None \<Rightarrow> raise (ValueError (s @ '' is not a valid MarketSymbol'')) | Some m \<Rightarrow> ret m)"

definition MIN_DAILY_CANDLES :: nat where
  "MIN_DAILY_CANDLES = 21"

definition MIN_WEEKLY_CANDLES :: nat where
  "MIN_WEEKLY_CANDLES = 50"

definition MIN_MONTHLY_CANDLES :: nat where
  "MIN_MONTHLY_CANDLES = 20"

definition strategy_bundle_at :: "context_builder \<Rightarrow> string \<Rightarrow> datetime \<Rightarrow> strategy_data_bundle comp" where
  "strategy_bundle_at cb symbol evaluation_time =
     cbind (market_symbol_of symbol) (\<lambda>ms.
     get_strategy_bundle (cb_candles cb) ms evaluation_time MIN_DAILY_CANDLES MIN_WEEKLY_CANDLES MIN_MONTHLY_CANDLES False)"

definition runtime_gates :: "(bool \<times> bool \<times> bool) db_op" where
  "runtime_gates =
     db_bind get_runtime_state (\<lambda>runtime.
     db_ret (case runtime of
       None \<Rightarrow> (False, False, False)
     | Some rs \<Rightarrow> (rs_status rs = RS_READY \<and> \<not> rs_kill_switch rs \<and> \<not> rs_paused rs, rs_paused rs, rs_kill_switch rs)))"

definition require_valid_constraints :: "context_builder \<Rightarrow> string \<Rightarrow> symbol_constraints comp" where
  "require_valid_constraints cb symbol = require_valid_production_constraints symbol (cb_constraints cb symbol)"

definition validate_symbol_configuration :: "context_builder \<Rightarrow> string \<Rightarrow> unit comp" where
  "validate_symbol_configuration cb symbol = cbind (require_valid_constraints cb symbol) (\<lambda>_. ret ())"

definition build_evaluation_context ::
  "service_env \<Rightarrow> context_builder \<Rightarrow> string \<Rightarrow> datetime \<Rightarrow> (string, symbol_evaluation_context) dict db_op" where
  "build_evaluation_context sv cb symbol evaluation_time =
     db_bind (db_lift (require_valid_constraints cb symbol)) (\<lambda>_.
     db_bind (db_lift (strategy_bundle_at cb symbol evaluation_time)) (\<lambda>bundle.
     if \<not> is_usable bundle then db_raise RetryableContextNotReady
     else
     db_bind runtime_gates (\<lambda>(entry_ready, paused, kill).
     db_bind (\<lambda>db. db_lift (sv_market_data_ready sv db) db) (\<lambda>ready.
     db_bind (build_entry_gate_context symbol entry_ready ready paused kill) (\<lambda>gates.
     db_ret [(symbol, \<lparr>sx_bundle = bundle, sx_strategy_params = cb_strategy_params cb, sx_config = sv_config sv,
                       sx_entry_gates = gates\<rparr>)])))))"

definition build_stop_context_for_close :: "context_builder \<Rightarrow> string \<Rightarrow> datetime \<Rightarrow> stop_context db_op" where
  "build_stop_context_for_close cb symbol evaluation_time =
     db_bind (db_lift (require_valid_constraints cb symbol)) (\<lambda>constraints.
     db_bind (db_lift (strategy_bundle_at cb symbol evaluation_time)) (\<lambda>bundle.
     if candles (sb_daily bundle) = [] then db_raise RetryableContextNotReady
     else let last_daily = last (candles (sb_daily bundle))
     in if \<not> is_closed last_daily then db_raise RetryableContextNotReady
        else
        db_bind (get_open_position_for_symbol symbol) (\<lambda>position.
        db_bind (case position of
                   None \<Rightarrow> db_ret []
                 | Some p \<Rightarrow>
                     db_bind (list_evaluations 100 None None) (\<lambda>evaluations.
                     db_bind (db_lift (atr_for_trailing_update p (find (\<lambda>e. er_symbol e = symbol) evaluations) None)) (\<lambda>atr.
                     db_ret [(symbol, atr)]))) (\<lambda>atrs.
        db_ret (CloseStopContext [(symbol, last_daily)] atrs [(symbol, constraints)] (cb_strategy_params cb))))))"

text \<open>The candle of an open, without what was not known then; and of the gap check, without the low.\<close>

definition open_only_strategy_candle :: "normalized_candle \<Rightarrow> candle" where
  "open_only_strategy_candle c =
     (to_strategy_candle c)\<lparr>c_high := nc_open c, c_low := nc_open c, c_close := nc_open c, is_closed := False\<rparr>"

definition gap_check_strategy_candle :: "normalized_candle \<Rightarrow> candle" where
  "gap_check_strategy_candle c = (to_strategy_candle c)\<lparr>c_low := nc_open c\<rparr>"

fun prior_closes :: "candle_repository \<Rightarrow> datetime \<Rightarrow> string list \<Rightarrow> (string, decimal) dict comp" where
  "prior_closes r t [] = ret []"
| "prior_closes r t (s # ss) =
     cbind (market_symbol_of s) (\<lambda>ms.
     let closed = get_closed_before r ms MT_DAILY t
     in cbind (prior_closes r t ss) (\<lambda>rest.
        ret (if closed = [] then rest else (s, nc_close (last closed)) # rest)))"

definition build_open_contexts ::
  "service_env \<Rightarrow> context_builder \<Rightarrow> string \<Rightarrow> normalized_candle \<Rightarrow> ((string, fill_processing_context) dict \<times> stop_context) comp" where
  "build_open_contexts sv cb symbol open_candle =
     cbind (require_valid_constraints cb symbol) (\<lambda>constraints.
     let prior_eval_time = nc_open_time open_candle
     in cbind (strategy_bundle_at cb symbol prior_eval_time) (\<lambda>bundle.
        if \<not> is_usable bundle \<or> candles (sb_daily bundle) = [] then raise RetryableContextNotReady
        else
        cbind (strategy_evaluate (sb_daily bundle) (sb_weekly bundle) (sb_monthly bundle) prior_eval_time
                 (Some (cb_strategy_params cb))) (\<lambda>strategy_eval.
        case ev_atr strategy_eval of
          None \<Rightarrow> raise RetryableContextNotReady
        | Some atr14 \<Rightarrow>
            if atr14 \<le> 0 then raise RetryableContextNotReady
            else
            cbind (prior_closes (cb_candles cb) (nc_open_time open_candle) (pc_symbols (sv_config sv))) (\<lambda>closes.
            ret ([(symbol,
                   \<lparr>fc_open_ref = nc_open open_candle, fc_atr14 = atr14, fc_candle_open_time = nc_open_time open_candle,
                    fc_constraints = constraints, fc_strategy_params = cb_strategy_params cb, fc_risk_params = cb_risk_params cb,
                    fc_execution_config = cb_execution_config cb,
                    fc_day_candles = [(symbol, open_only_strategy_candle open_candle)], fc_prior_closes = closes,
                    fc_processed_intent_ids = {}\<rparr>)],
                 GapStopContext [(symbol, gap_check_strategy_candle open_candle)] [(symbol, constraints)])))))"

definition build_intraday_stop_context :: "context_builder \<Rightarrow> string \<Rightarrow> normalized_candle \<Rightarrow> stop_context comp" where
  "build_intraday_stop_context cb symbol live_candle =
     cbind (require_valid_constraints cb symbol) (\<lambda>constraints.
     if nc_is_closed live_candle then raise RetryableContextNotReady
     else ret (IntradayStopContext [(symbol, to_strategy_candle live_candle)] [(symbol, constraints)]))"

section \<open>What the contexts are\<close>

text \<open>
  The context of an open knows the open only: two candles that differ in high, low, close and in being
  closed give the same fill context; the gap check does not see the low.
\<close>

definition same_open :: "normalized_candle \<Rightarrow> normalized_candle \<Rightarrow> bool" where
  "same_open c d \<longleftrightarrow>
     nc_symbol c = nc_symbol d \<and> nc_timeframe c = nc_timeframe d \<and> nc_open_time c = nc_open_time d \<and>
     nc_close_time c = nc_close_time d \<and> nc_open c = nc_open d \<and> nc_volume c = nc_volume d"

lemma cbind_if: "cbind (if b then m else n) f = (if b then cbind m f else cbind n f)"
  by simp

lemma cbind_option: "cbind (case x of None \<Rightarrow> m | Some y \<Rightarrow> g y) f = (case x of None \<Rightarrow> cbind m f | Some y \<Rightarrow> cbind (g y) f)"
  by (cases x) simp_all

text \<open>Errors of the constraints are among the codes that fail permanently.\<close>

lemma violation_codes:
  "validate_symbol_constraints_core cs = Some v \<Longrightarrow>
   cv_code v \<in> {INVALID_TICK_SIZE, INVALID_QUANTITY_STEP, INVALID_MIN_QUANTITY, INVALID_MIN_NOTIONAL, PRECISION_MISMATCH}"
  by (auto simp: validate_symbol_constraints_core_def constraint_error_def split: option.splits if_splits)

lemma require_valid_ret:
  assumes "require_valid_production_constraints symbol constraints = ret cs"
  shows "constraints = Some cs \<and> validate_symbol_constraints_core cs = None"
  using assms
  by (auto simp: require_valid_production_constraints_def validate_production_symbol_constraints_def cbind_eq_ret
      split: option.splits)

lemma require_valid_raise:
  assumes "require_valid_production_constraints symbol constraints = raise e"
  obtains code where "e = PermanentConfigurationFailure code" "is_permanent_configuration_error (Some code)"
proof (cases constraints)
  case None
  with assms that [of "''PERMANENT_CONFIGURATION_FAILURE''"] show ?thesis
    by (simp add: require_valid_production_constraints_def raise_def is_permanent_configuration_error_def
        PERMANENT_CONFIGURATION_ERROR_CODES_def)
next
  case (Some cs)
  with assms obtain v where v: "validate_symbol_constraints_core cs = Some v"
    "e = PermanentConfigurationFailure (get_default PRODUCTION_ERROR_CODES (cv_code v) ''PERMANENT_CONFIGURATION_FAILURE'')"
    by (auto simp: require_valid_production_constraints_def validate_production_symbol_constraints_def cbind_def ret_def raise_def
        split: option.splits)
  from violation_codes [OF v(1)] show ?thesis
    by (intro that [OF v(2)])
       (auto simp: is_permanent_configuration_error_def PERMANENT_CONFIGURATION_ERROR_CODES_def PRODUCTION_ERROR_CODES_def
         get_default_def INVALID_TICK_SIZE_def INVALID_QUANTITY_STEP_def INVALID_MIN_QUANTITY_def INVALID_MIN_NOTIONAL_def
         PRECISION_MISMATCH_def)
qed

end
