(* ===== verification/Event_Detector.thy ===== *)
theory Event_Detector
  imports Event_Fairness Paper_Context
begin

text \<open>
  The detection of market events (\<open>services/paper_trading/market_events.py\<close>): what the latest candle of a
  series announces and was not acknowledged yet, and the names of the runs that process an event.
\<close>

section \<open>Run names\<close>

text \<open>\<open>low_digest\<close>: the first twelve hexadecimal digits of the SHA-256 of a price.\<close>

definition market_event_job_name :: "(decimal \<Rightarrow> string) \<Rightarrow> market_event \<Rightarrow> string comp" where
  "market_event_job_name low_digest e =
     (let ts = compact_timestamp (me_candle_open_time e)
      in case me_event_type e of
           DAILY_OPEN_AVAILABLE \<Rightarrow> ret (''me:do:'' @ me_symbol e @ '':'' @ ts)
         | DAILY_LIVE_UPDATE \<Rightarrow>
             (case me_observed_low e of
                None \<Rightarrow> raise AssertionError
              | Some low \<Rightarrow> ret (''me:dl:'' @ me_symbol e @ '':'' @ ts @ '':'' @ low_digest low))
         | DAILY_CLOSED \<Rightarrow> ret (''me:dc:'' @ me_symbol e @ '':'' @ ts)
         | WEEKLY_CLOSED \<Rightarrow> ret (''me:wc:'' @ me_symbol e @ '':'' @ ts)
         | MONTHLY_CLOSED \<Rightarrow> ret (''me:mc:'' @ me_symbol e @ '':'' @ ts))"

definition daily_open_gap_job_name :: "string \<Rightarrow> datetime \<Rightarrow> string" where
  "daily_open_gap_job_name symbol t = ''me:do:gap:'' @ symbol @ '':'' @ compact_timestamp t"

definition daily_open_fill_job_name :: "string \<Rightarrow> datetime \<Rightarrow> string" where
  "daily_open_fill_job_name symbol t = ''me:do:fill:'' @ symbol @ '':'' @ compact_timestamp t"

definition daily_open_snapshot_job_name :: "string \<Rightarrow> datetime \<Rightarrow> string" where
  "daily_open_snapshot_job_name symbol t = ''me:do:snap:'' @ symbol @ '':'' @ compact_timestamp t"

definition market_event_recovery_job_name :: "market_event \<Rightarrow> nat \<Rightarrow> string comp" where
  "market_event_recovery_job_name e generation =
     (let tail = '':recovery:'' @ me_symbol e @ '':'' @ compact_timestamp (me_candle_open_time e) @ '':'' @ nat_text generation
      in case me_event_type e of
           DAILY_OPEN_AVAILABLE \<Rightarrow> ret (''me:do'' @ tail)
         | DAILY_CLOSED \<Rightarrow> ret (''me:dc'' @ tail)
         | WEEKLY_CLOSED \<Rightarrow> ret (''me:wc'' @ tail)
         | MONTHLY_CLOSED \<Rightarrow> ret (''me:mc'' @ tail)
         | DAILY_LIVE_UPDATE \<Rightarrow> raise (ValueError ''recovery not supported for event type: DAILY_LIVE_UPDATE''))"

section \<open>Acknowledged events\<close>

record symbol_series_tracker =
  tk_daily_open_ack_time :: "datetime option"
  tk_daily_open_terminal_failed_time :: "datetime option"
  tk_daily_live_ack_low :: "decimal option"
  tk_daily_closed_ack_time :: "datetime option"
  tk_daily_closed_terminal_failed_time :: "datetime option"
  tk_weekly_closed_ack_time :: "datetime option"
  tk_weekly_closed_terminal_failed_time :: "datetime option"
  tk_monthly_closed_ack_time :: "datetime option"
  tk_monthly_closed_terminal_failed_time :: "datetime option"

definition fresh_tracker :: symbol_series_tracker where
  "fresh_tracker =
     \<lparr>tk_daily_open_ack_time = None, tk_daily_open_terminal_failed_time = None, tk_daily_live_ack_low = None,
      tk_daily_closed_ack_time = None, tk_daily_closed_terminal_failed_time = None,
      tk_weekly_closed_ack_time = None, tk_weekly_closed_terminal_failed_time = None,
      tk_monthly_closed_ack_time = None, tk_monthly_closed_terminal_failed_time = None\<rparr>"

record market_event_detector =
  dt_symbols :: "string list"
  dt_evaluation_delay_seconds :: int
  dt_trackers :: "(string, symbol_series_tracker) dict"

text \<open>\<open>_tracker\<close> adds a fresh tracker for a new symbol, which nothing else observes.\<close>

definition tracker :: "market_event_detector \<Rightarrow> string \<Rightarrow> symbol_series_tracker" where
  "tracker d symbol = get_default (dt_trackers d) symbol fresh_tracker"

definition with_tracker ::
  "(symbol_series_tracker \<Rightarrow> symbol_series_tracker) \<Rightarrow> market_event \<Rightarrow> market_event_detector \<Rightarrow> market_event_detector" where
  "with_tracker f e d = d\<lparr>dt_trackers := dict_put (me_symbol e) (f (tracker d (me_symbol e))) (dt_trackers d)\<rparr>"

fun completed_tracker :: "market_event_type \<Rightarrow> datetime \<Rightarrow> decimal option \<Rightarrow> symbol_series_tracker \<Rightarrow> symbol_series_tracker" where
  "completed_tracker DAILY_OPEN_AVAILABLE t low tk =
     tk\<lparr>tk_daily_open_ack_time := Some t, tk_daily_open_terminal_failed_time := None, tk_daily_live_ack_low := low\<rparr>"
| "completed_tracker DAILY_LIVE_UPDATE t low tk = tk\<lparr>tk_daily_live_ack_low := low\<rparr>"
| "completed_tracker DAILY_CLOSED t low tk =
     tk\<lparr>tk_daily_closed_ack_time := Some t, tk_daily_closed_terminal_failed_time := None\<rparr>"
| "completed_tracker WEEKLY_CLOSED t low tk =
     tk\<lparr>tk_weekly_closed_ack_time := Some t, tk_weekly_closed_terminal_failed_time := None\<rparr>"
| "completed_tracker MONTHLY_CLOSED t low tk =
     tk\<lparr>tk_monthly_closed_ack_time := Some t, tk_monthly_closed_terminal_failed_time := None\<rparr>"

definition acknowledge_completed :: "market_event \<Rightarrow> market_event_detector \<Rightarrow> market_event_detector" where
  "acknowledge_completed e = with_tracker (completed_tracker (me_event_type e) (me_candle_open_time e) (me_observed_low e)) e"

fun set_terminal_failed :: "string \<Rightarrow> market_event_type \<Rightarrow> datetime option \<Rightarrow> symbol_series_tracker \<Rightarrow> symbol_series_tracker comp" where
  "set_terminal_failed verb DAILY_OPEN_AVAILABLE t tk = ret (tk\<lparr>tk_daily_open_terminal_failed_time := t\<rparr>)"
| "set_terminal_failed verb DAILY_CLOSED t tk = ret (tk\<lparr>tk_daily_closed_terminal_failed_time := t\<rparr>)"
| "set_terminal_failed verb WEEKLY_CLOSED t tk = ret (tk\<lparr>tk_weekly_closed_terminal_failed_time := t\<rparr>)"
| "set_terminal_failed verb MONTHLY_CLOSED t tk = ret (tk\<lparr>tk_monthly_closed_terminal_failed_time := t\<rparr>)"
| "set_terminal_failed verb DAILY_LIVE_UPDATE t tk =
     raise (ValueError (''terminal failure '' @ verb @ '' unsupported for DAILY_LIVE_UPDATE''))"

definition acknowledge_terminal_failed :: "market_event \<Rightarrow> market_event_detector \<Rightarrow> market_event_detector comp" where
  "acknowledge_terminal_failed e d =
     cbind (set_terminal_failed ''ack'' (me_event_type e) (Some (me_candle_open_time e)) (tracker d (me_symbol e))) (\<lambda>tk.
     ret (with_tracker (\<lambda>_. tk) e d))"

definition clear_terminal_failed :: "market_event \<Rightarrow> market_event_detector \<Rightarrow> market_event_detector comp" where
  "clear_terminal_failed e d =
     cbind (set_terminal_failed ''clear'' (me_event_type e) None (tracker d (me_symbol e))) (\<lambda>tk. ret (with_tracker (\<lambda>_. tk) e d))"

section \<open>Detection\<close>

definition event_of :: "market_event_type \<Rightarrow> normalized_candle \<Rightarrow> datetime \<Rightarrow> decimal option \<Rightarrow> market_event" where
  "event_of ty c evaluation_time low =
     \<lparr>me_event_type = ty, me_symbol = market_symbol_value (nc_symbol c), me_candle_open_time = nc_open_time c,
      me_provider_received_at = evaluation_time, me_observed_low = low\<rparr>"

definition detect_daily ::
  "int \<Rightarrow> symbol_series_tracker \<Rightarrow> normalized_candle \<Rightarrow> datetime \<Rightarrow> market_event list" where
  "detect_daily delay tk c evaluation_time =
     (let open_time = nc_open_time c;
          open_events =
            (if \<not> nc_is_closed c \<and> tk_daily_open_ack_time tk \<noteq> Some open_time
             then (if tk_daily_open_terminal_failed_time tk \<noteq> Some open_time
                   then [event_of DAILY_OPEN_AVAILABLE c evaluation_time (Some (nc_low c))] else [])
             else if tk_daily_open_ack_time tk = Some open_time \<and> \<not> nc_is_closed c \<and>
                     tk_daily_live_ack_low tk \<noteq> Some (nc_low c)
                  then [event_of DAILY_LIVE_UPDATE c evaluation_time (Some (nc_low c))] else []);
          closed = is_candle_closed (nc_close_time c) evaluation_time \<and> nc_is_closed c;
          due = nc_close_time c + seconds delay
      in open_events @
         (if closed \<and> due \<le> evaluation_time \<and> tk_daily_closed_ack_time tk \<noteq> Some open_time \<and>
             tk_daily_closed_terminal_failed_time tk \<noteq> Some open_time
          then [event_of DAILY_CLOSED c evaluation_time None] else []))"

definition detect_higher_close ::
  "normalized_candle \<Rightarrow> datetime \<Rightarrow> market_event_type \<Rightarrow> datetime option \<Rightarrow> datetime option \<Rightarrow> market_event list" where
  "detect_higher_close c evaluation_time ty ack failed =
     (if \<not> is_candle_closed (nc_close_time c) evaluation_time \<or> \<not> nc_is_closed c then []
      else if ack = Some (nc_open_time c) \<or> failed = Some (nc_open_time c) then []
      else [event_of ty c evaluation_time None])"

definition detect_symbol ::
  "market_event_detector \<Rightarrow> candle_repository \<Rightarrow> datetime \<Rightarrow> string \<Rightarrow> market_event list comp" where
  "detect_symbol d r evaluation_time symbol =
     cbind (market_symbol_of symbol) (\<lambda>ms.
     let tk = tracker d symbol
     in ret ((case get_latest r ms MT_DAILY of None \<Rightarrow> [] | Some c \<Rightarrow> detect_daily (dt_evaluation_delay_seconds d) tk c evaluation_time) @
             (case get_latest r ms MT_WEEKLY of
                None \<Rightarrow> []
              | Some c \<Rightarrow> detect_higher_close c evaluation_time WEEKLY_CLOSED (tk_weekly_closed_ack_time tk)
                            (tk_weekly_closed_terminal_failed_time tk)) @
             (case get_latest r ms MT_MONTHLY of
                None \<Rightarrow> []
              | Some c \<Rightarrow> detect_higher_close c evaluation_time MONTHLY_CLOSED (tk_monthly_closed_ack_time tk)
                            (tk_monthly_closed_terminal_failed_time tk))))"

definition detect_candidates :: "market_event_detector \<Rightarrow> candle_repository \<Rightarrow> datetime \<Rightarrow> market_event list comp" where
  "detect_candidates d r evaluation_time =
     cbind (cmapM (detect_symbol d r evaluation_time) (dt_symbols d)) (\<lambda>ess. ret (concat ess))"

definition sort_market_events :: "market_event list \<Rightarrow> market_event list" where
  "sort_market_events es =
     sort_key (\<lambda>e. (symbol_order (me_symbol e), event_order (me_event_type e), me_candle_open_time e)) es"

section \<open>An acknowledged event is not announced again\<close>

text \<open>
  As long as the series does not move on, what was acknowledged stays silent, and the acknowledgement of
  one event silences no other.
\<close>

definition announces :: "market_event_detector \<Rightarrow> candle_repository \<Rightarrow> datetime \<Rightarrow> market_event \<Rightarrow> bool" where
  "announces d r t e \<longleftrightarrow> (\<exists>es. detect_candidates d r t = ret es \<and> e \<in> set es)"

fun event_timeframe :: "market_event_type \<Rightarrow> market_timeframe" where
  "event_timeframe WEEKLY_CLOSED = MT_WEEKLY"
| "event_timeframe MONTHLY_CLOSED = MT_MONTHLY"
| "event_timeframe _ = MT_DAILY"

lemma detect_daily_mem:
  "e \<in> set (detect_daily delay tk c t) \<longleftrightarrow>
     (\<not> nc_is_closed c \<and> tk_daily_open_ack_time tk \<noteq> Some (nc_open_time c) \<and>
        tk_daily_open_terminal_failed_time tk \<noteq> Some (nc_open_time c) \<and>
        e = event_of DAILY_OPEN_AVAILABLE c t (Some (nc_low c))) \<or>
     (\<not> nc_is_closed c \<and> tk_daily_open_ack_time tk = Some (nc_open_time c) \<and> tk_daily_live_ack_low tk \<noteq> Some (nc_low c) \<and>
        e = event_of DAILY_LIVE_UPDATE c t (Some (nc_low c))) \<or>
     (nc_is_closed c \<and> nc_close_time c \<le> t \<and> nc_close_time c + seconds delay \<le> t \<and>
        tk_daily_closed_ack_time tk \<noteq> Some (nc_open_time c) \<and> tk_daily_closed_terminal_failed_time tk \<noteq> Some (nc_open_time c) \<and>
        e = event_of DAILY_CLOSED c t None)"
  by (auto simp: detect_daily_def Let_def is_candle_closed_def)

lemma detect_higher_mem:
  "e \<in> set (detect_higher_close c t ty ack failed) \<longleftrightarrow>
     nc_close_time c \<le> t \<and> nc_is_closed c \<and> ack \<noteq> Some (nc_open_time c) \<and> failed \<noteq> Some (nc_open_time c) \<and>
     e = event_of ty c t None"
  by (auto simp: detect_higher_close_def is_candle_closed_def)

lemma detect_symbol_ret:
  assumes "detect_symbol d r t s = ret es"
  obtains ms where "market_symbol_of s = ret ms"
    "set es = (case get_latest r ms MT_DAILY of None \<Rightarrow> {} | Some c \<Rightarrow> set (detect_daily (dt_evaluation_delay_seconds d) (tracker d s) c t)) \<union>
      (case get_latest r ms MT_WEEKLY of None \<Rightarrow> {} | Some c \<Rightarrow> set (detect_higher_close c t WEEKLY_CLOSED
         (tk_weekly_closed_ack_time (tracker d s)) (tk_weekly_closed_terminal_failed_time (tracker d s)))) \<union>
      (case get_latest r ms MT_MONTHLY of None \<Rightarrow> {} | Some c \<Rightarrow> set (detect_higher_close c t MONTHLY_CLOSED
         (tk_monthly_closed_ack_time (tracker d s)) (tk_monthly_closed_terminal_failed_time (tracker d s))))"
proof -
  from assms obtain ms where "market_symbol_of s = ret ms" by (auto simp: detect_symbol_def cbind_eq_ret)
  with assms show ?thesis
    by (intro that [of ms]) (auto simp: detect_symbol_def Let_def split: option.splits)
qed

lemma market_symbol_of_value: "market_symbol_of s = ret ms \<Longrightarrow> market_symbol_value ms = s"
  by (auto simp: market_symbol_of_def split: option.splits if_splits)

lemma market_symbol_value_inj: "market_symbol_value a = market_symbol_value b \<Longrightarrow> a = b"
  by (cases a; cases b) simp_all

text \<open>The events of a symbol are those of the latest candles of its series.\<close>

definition latest_event :: "market_event_detector \<Rightarrow> datetime \<Rightarrow> normalized_candle \<Rightarrow> symbol_series_tracker \<Rightarrow> market_event \<Rightarrow> bool" where
  "latest_event d t c tk e \<longleftrightarrow>
     (case me_event_type e of
        WEEKLY_CLOSED \<Rightarrow> e \<in> set (detect_higher_close c t WEEKLY_CLOSED (tk_weekly_closed_ack_time tk) (tk_weekly_closed_terminal_failed_time tk))
      | MONTHLY_CLOSED \<Rightarrow> e \<in> set (detect_higher_close c t MONTHLY_CLOSED (tk_monthly_closed_ack_time tk) (tk_monthly_closed_terminal_failed_time tk))
      | _ \<Rightarrow> e \<in> set (detect_daily (dt_evaluation_delay_seconds d) tk c t))"

lemma cmapM_ret_mem: "cmapM f xs = ret ys \<Longrightarrow> y \<in> set ys \<Longrightarrow> \<exists>x \<in> set xs. f x = ret y"
  by (induction xs arbitrary: ys) (auto simp: cbind_eq_ret)

lemma announcesE:
  assumes "announces d r t e"
  obtains s ms c where "s \<in> set (dt_symbols d)" "market_symbol_of s = ret ms"
    "get_latest r ms (event_timeframe (me_event_type e)) = Some c" "latest_event d t c (tracker d s) e"
proof -
  from assms obtain ess es where ess: "cmapM (detect_symbol d r t) (dt_symbols d) = ret ess" "es \<in> set ess" "e \<in> set es"
    by (auto simp: announces_def detect_candidates_def cbind_eq_ret)
  then obtain s where s: "s \<in> set (dt_symbols d)" "detect_symbol d r t s = ret es"
    using cmapM_ret_mem by metis
  from detect_symbol_ret [OF s(2)] obtain ms where ms: "market_symbol_of s = ret ms"
    "set es = (case get_latest r ms MT_DAILY of None \<Rightarrow> {} | Some c \<Rightarrow> set (detect_daily (dt_evaluation_delay_seconds d) (tracker d s) c t)) \<union>
      (case get_latest r ms MT_WEEKLY of None \<Rightarrow> {} | Some c \<Rightarrow> set (detect_higher_close c t WEEKLY_CLOSED
         (tk_weekly_closed_ack_time (tracker d s)) (tk_weekly_closed_terminal_failed_time (tracker d s)))) \<union>
      (case get_latest r ms MT_MONTHLY of None \<Rightarrow> {} | Some c \<Rightarrow> set (detect_higher_close c t MONTHLY_CLOSED
         (tk_monthly_closed_ack_time (tracker d s)) (tk_monthly_closed_terminal_failed_time (tracker d s))))" .
  have "\<exists>c. get_latest r ms (event_timeframe (me_event_type e)) = Some c \<and> latest_event d t c (tracker d s) e"
    using ess(3) unfolding ms(2)
  proof (elim UnE)
    assume "e \<in> (case get_latest r ms MT_DAILY of None \<Rightarrow> {} | Some c \<Rightarrow> set (detect_daily (dt_evaluation_delay_seconds d) (tracker d s) c t))"
    then obtain c where c: "get_latest r ms MT_DAILY = Some c" "e \<in> set (detect_daily (dt_evaluation_delay_seconds d) (tracker d s) c t)"
      by (auto split: option.splits)
    then have "me_event_type e \<in> {DAILY_OPEN_AVAILABLE, DAILY_LIVE_UPDATE, DAILY_CLOSED}"
      unfolding detect_daily_mem by (auto simp: event_of_def)
    with c show ?thesis by (auto simp: latest_event_def)
  next
    assume "e \<in> (case get_latest r ms MT_WEEKLY of None \<Rightarrow> {} | Some c \<Rightarrow> set (detect_higher_close c t WEEKLY_CLOSED
         (tk_weekly_closed_ack_time (tracker d s)) (tk_weekly_closed_terminal_failed_time (tracker d s))))"
    then obtain c where c: "get_latest r ms MT_WEEKLY = Some c" "e \<in> set (detect_higher_close c t WEEKLY_CLOSED
         (tk_weekly_closed_ack_time (tracker d s)) (tk_weekly_closed_terminal_failed_time (tracker d s)))"
      by (auto split: option.splits)
    then have "me_event_type e = WEEKLY_CLOSED" by (simp add: detect_higher_mem event_of_def)
    with c show ?thesis by (simp add: latest_event_def)
  next
    assume "e \<in> (case get_latest r ms MT_MONTHLY of None \<Rightarrow> {} | Some c \<Rightarrow> set (detect_higher_close c t MONTHLY_CLOSED
         (tk_monthly_closed_ack_time (tracker d s)) (tk_monthly_closed_terminal_failed_time (tracker d s))))"
    then obtain c where c: "get_latest r ms MT_MONTHLY = Some c" "e \<in> set (detect_higher_close c t MONTHLY_CLOSED
         (tk_monthly_closed_ack_time (tracker d s)) (tk_monthly_closed_terminal_failed_time (tracker d s)))"
      by (auto split: option.splits)
    then have "me_event_type e = MONTHLY_CLOSED" by (simp add: detect_higher_mem event_of_def)
    with c show ?thesis by (simp add: latest_event_def)
  qed
  then obtain c where "get_latest r ms (event_timeframe (me_event_type e)) = Some c" "latest_event d t c (tracker d s) e" by metis
  with s(1) ms(1) show ?thesis by (rule that)
qed

text \<open>The candle belongs to the series it was found in.\<close>

lemma latest_in_series:
  assumes "repository_ok r" and "get_latest r ms tf = Some c"
  shows "nc_symbol c = ms \<and> nc_timeframe c = tf"
proof -
  from assms(2) have "c \<in> set (get_range r ms tf None None)"
    by (auto simp: get_latest_def Let_def split: if_splits)
  with get_range_mem [OF assms(1)] show ?thesis by blast
qed

lemma latest_event_fields:
  assumes "latest_event d t c tk e"
  shows "me_symbol e = market_symbol_value (nc_symbol c)" "me_candle_open_time e = nc_open_time c"
    "me_event_type e \<in> {DAILY_CLOSED, WEEKLY_CLOSED, MONTHLY_CLOSED} \<longleftrightarrow> nc_is_closed c"
    "nc_is_closed c \<Longrightarrow> nc_close_time c \<le> t" "\<not> nc_is_closed c \<Longrightarrow> me_observed_low e = Some (nc_low c)"
  using assms
  by (auto simp: latest_event_def detect_daily_mem detect_higher_mem event_of_def split: market_event_type.splits)

theorem announced_is_latest:
  assumes "repository_ok r" and "announces d r t e"
  shows "\<exists>ms c. market_symbol_value ms = me_symbol e \<and> get_latest r ms (event_timeframe (me_event_type e)) = Some c \<and>
    nc_open_time c = me_candle_open_time e \<and> nc_is_closed c = (me_event_type e \<in> {DAILY_CLOSED, WEEKLY_CLOSED, MONTHLY_CLOSED})"
  using assms(2)
proof (rule announcesE)
  fix s ms c
  assume c: "get_latest r ms (event_timeframe (me_event_type e)) = Some c" "latest_event d t c (tracker d s) e"
  from latest_in_series [OF assms(1) c(1)] latest_event_fields [OF c(2)] c(1) show ?thesis by auto
qed

lemma tracker_acknowledged:
  "tracker (acknowledge_completed e d) s =
     (if s = me_symbol e then completed_tracker (me_event_type e) (me_candle_open_time e) (me_observed_low e) (tracker d s)
      else tracker d s)"
  by (simp add: acknowledge_completed_def with_tracker_def tracker_def get_default_def)

lemma completed_silent:
  assumes "latest_event d t c (completed_tracker (me_event_type e) (me_candle_open_time e) (me_observed_low e) tk) e'"
    and "me_event_type e' = me_event_type e" and "me_candle_open_time e' = me_candle_open_time e"
    and "me_event_type e = DAILY_LIVE_UPDATE \<Longrightarrow> me_observed_low e' = me_observed_low e"
  shows False
  using assms
  by (auto simp: latest_event_def detect_daily_mem detect_higher_mem event_of_def split: market_event_type.splits)

end
