(* ===== verification/Event_Bridge.thy ===== *)
theory Event_Bridge
  imports Event_Detector
begin

text \<open>
  The bridge from market events to the jobs of the scheduler (\<open>MarketEventBridge\<close> of
  \<open>services/paper_trading/market_events.py\<close>). Its procedures work on the bridge object and the database: an
  exception rolls the database back to the innermost scope and leaves the object as it is. Logging is left
  out, with the diagnostics that are only logged.
\<close>

section \<open>State\<close>

record recovery_context =
  rc_original_run_id :: uuid
  rc_original_job_name :: string
  rc_recovery_job_name :: string
  rc_recovery_run_id :: uuid
  rc_scheduled_for :: datetime
  rc_generation :: nat

record event_process_outcome =
  eo_event :: market_event
  eo_job_name :: string
  eo_status :: scheduler_run_status
  eo_skipped :: bool
  eo_error :: "string option"
  eo_deferred :: bool
  eo_retryable :: bool
  eo_terminal_failed :: bool

record bridge_poll_result =
  bp_outcomes :: "event_process_outcome list"
  bp_events_to_ack :: "market_event list"
  bp_events_terminal_failed :: "market_event list"
  bp_deferred_events :: bool
  bp_permanent_failures :: "event_process_outcome list"

text \<open>
  What a poll changes of the bridge and the objects it holds; and what it only reads: the services, the
  context builder with the candles, the lock, the number of events a poll may process, and whether the
  database session works.
\<close>

record bridge =
  br_detector :: market_event_detector
  br_scheduler :: scheduler_state
  br_queue_overflow :: bool
  br_deferred_events :: bool
  br_recovery_pending :: "(string \<times> datetime, recovery_context) dict"

record bridge_env =
  bv_services :: service_env
  bv_builder :: context_builder
  bv_lock :: advisory_lock
  bv_max_events_per_poll :: nat
  bv_low_digest :: "decimal \<Rightarrow> string"
  bv_session_unhealthy :: bool

type_synonym 'a bridge_job = "(bridge \<times> paper_db, 'a) proc"

definition on_db :: "'a job \<Rightarrow> 'a bridge_job" where
  "on_db m = (\<lambda>(b, db). case m db of None \<Rightarrow> None | Some (r, db') \<Rightarrow> Some (r, (b, db')))"

definition read_bridge :: "(bridge \<Rightarrow> 'a) \<Rightarrow> 'a bridge_job" where
  "read_bridge f = (\<lambda>(b, db). Some (Inr (f b), (b, db)))"

definition change_bridge :: "(bridge \<Rightarrow> bridge) \<Rightarrow> unit bridge_job" where
  "change_bridge f = (\<lambda>(b, db). Some (Inr (), (f b, db)))"

definition bridge_scope :: "'a bridge_job \<Rightarrow> 'a bridge_job" where
  "bridge_scope m = (\<lambda>(b, db).
     case m (b, db) of
       None \<Rightarrow> None
     | Some (Inl e, (b', _)) \<Rightarrow> Some (Inl e, (b', db))
     | Some (Inr x, s) \<Rightarrow> Some (Inr x, s))"

abbreviation query :: "'a db_op \<Rightarrow> 'a bridge_job" where
  "query m \<equiv> on_db (transaction m)"

abbreviation job_then :: "('s, 'a) proc \<Rightarrow> ('s, 'b) proc \<Rightarrow> ('s, 'b) proc" where
  "job_then m n \<equiv> job_bind m (\<lambda>_. n)"

abbreviation scheduled_for :: "market_event \<Rightarrow> datetime" where
  "scheduled_for e \<equiv> me_candle_open_time e"

abbreviation event_job :: "bridge_env \<Rightarrow> market_event \<Rightarrow> string bridge_job" where
  "event_job bv e \<equiv> on_db (job_lift (market_event_job_name (bv_low_digest bv) e))"

section \<open>Runs of an event\<close>

definition ensure_scheduler_run :: "bridge_env \<Rightarrow> string \<Rightarrow> datetime \<Rightarrow> (scheduler_run \<times> bool) bridge_job" where
  "ensure_scheduler_run bv job_name t = on_db (start_run (bv_services bv) job_name t)"

definition complete_market_event :: "bridge_env \<Rightarrow> string \<Rightarrow> datetime \<Rightarrow> scheduler_run_status \<Rightarrow> string option \<Rightarrow> unit bridge_job" where
  "complete_market_event bv job_name t status err =
     job_then (on_db (complete_run (bv_services bv) job_name t status err)) (job_ret ())"

definition release_uncommitted_scheduler_run :: "bridge_env \<Rightarrow> string \<Rightarrow> datetime \<Rightarrow> py_error \<Rightarrow> unit bridge_job" where
  "release_uncommitted_scheduler_run bv job_name t err =
     job_bind (query (get_scheduler_run job_name t)) (\<lambda>existing.
     case existing of
       None \<Rightarrow> job_ret ()
     | Some r \<Rightarrow>
         if sr_recovery_of_run_id r \<noteq> None
         then complete_market_event bv job_name t SR_SKIPPED (Some (processing_error_code err))
         else job_then (query (delete_scheduler_run_if_running job_name t)) (job_ret ()))"

definition active_recovery_context :: "string \<Rightarrow> datetime \<Rightarrow> recovery_context option bridge_job" where
  "active_recovery_context job_name t =
     job_bind (read_bridge (\<lambda>b. dict_get (br_recovery_pending b) (job_name, t))) (\<lambda>pending.
     if pending \<noteq> None then job_ret pending
     else
     job_bind (query (get_scheduler_run job_name t)) (\<lambda>existing.
     case existing of
       None \<Rightarrow> job_ret None
     | Some run \<Rightarrow>
         job_bind (query (get_active_recovery_attempt (sr_run_id run))) (\<lambda>attempt.
         case attempt of
           None \<Rightarrow> job_ret None
         | Some a \<Rightarrow>
             job_bind (query (count_recovery_attempts (sr_run_id run))) (\<lambda>n.
             let context = \<lparr>rc_original_run_id = sr_run_id run, rc_original_job_name = job_name,
                            rc_recovery_job_name = sr_job_name a, rc_recovery_run_id = sr_run_id a,
                            rc_scheduled_for = t, rc_generation = n\<rparr>
             in job_then (change_bridge (br_recovery_pending_update (dict_put (job_name, t) context))) (job_ret (Some context))))))"

definition event_outcome ::
  "market_event \<Rightarrow> string \<Rightarrow> scheduler_run_status \<Rightarrow> bool \<Rightarrow> string option \<Rightarrow> event_process_outcome" where
  "event_outcome e job_name status skipped err =
     \<lparr>eo_event = e, eo_job_name = job_name, eo_status = status, eo_skipped = skipped, eo_error = err, eo_deferred = False,
      eo_retryable = False, eo_terminal_failed = False\<rparr>"

definition maybe_short_circuit_permanent_failure :: "market_event \<Rightarrow> string \<Rightarrow> datetime \<Rightarrow> event_process_outcome option bridge_job" where
  "maybe_short_circuit_permanent_failure e job_name t =
     job_bind (query (get_scheduler_run job_name t)) (\<lambda>existing.
     case existing of
       None \<Rightarrow> job_ret None
     | Some r \<Rightarrow>
         if sr_status r \<noteq> SR_FAILED \<or> \<not> is_permanent_configuration_error (sr_error r) \<or> sr_resolved_by_run_id r \<noteq> None
         then job_ret None
         else
         job_bind (active_recovery_context job_name t) (\<lambda>recovery.
         job_ret (if recovery \<noteq> None then None
                  else Some ((event_outcome e job_name SR_FAILED True (sr_error r))\<lparr>eo_terminal_failed := True\<rparr>))))"

definition mark_permanent_failure :: "bridge_env \<Rightarrow> market_event \<Rightarrow> string \<Rightarrow> datetime \<Rightarrow> string \<Rightarrow> event_process_outcome bridge_job" where
  "mark_permanent_failure bv e job_name t code =
     job_then (complete_market_event bv job_name t SR_FAILED (Some code))
       (job_ret ((event_outcome e job_name SR_FAILED False (Some code))\<lparr>eo_terminal_failed := True\<rparr>))"

definition should_ack :: "event_process_outcome \<Rightarrow> bool" where
  "should_ack outcome \<longleftrightarrow> eo_status outcome = SR_COMPLETED \<and> \<not> eo_deferred outcome \<and> \<not> eo_retryable outcome"

definition persisted_outcome :: "market_event \<Rightarrow> string \<Rightarrow> datetime \<Rightarrow> bool \<Rightarrow> event_process_outcome bridge_job" where
  "persisted_outcome e job_name t skipped =
     job_bind (query (get_scheduler_run job_name t)) (\<lambda>run.
     case run of
       None \<Rightarrow> job_raise (RuntimeError (''scheduler run missing after processing: '' @ job_name))
     | Some r \<Rightarrow> job_ret (event_outcome e job_name (sr_status r) skipped (sr_error r)))"

definition deferred_outcome :: "bridge_env \<Rightarrow> market_event \<Rightarrow> py_error \<Rightarrow> string option \<Rightarrow> event_process_outcome bridge_job" where
  "deferred_outcome bv e err release_job_name =
     job_bind (event_job bv e) (\<lambda>job_name.
     job_then (release_uncommitted_scheduler_run bv
                 (case release_job_name of None \<Rightarrow> job_name | Some r \<Rightarrow> if r = '''' then job_name else r) (scheduled_for e) err)
       (job_ret ((event_outcome e job_name SR_SKIPPED True (Some (processing_error_code err)))
                   \<lparr>eo_deferred := True, eo_retryable := True\<rparr>)))"

definition fail_daily_open_parent :: "bridge_env \<Rightarrow> string \<Rightarrow> datetime \<Rightarrow> string \<Rightarrow> unit bridge_job" where
  "fail_daily_open_parent bv parent_job t err =
     job_bind (query (get_scheduler_run parent_job t)) (\<lambda>existing.
     if map_option sr_status existing = Some SR_COMPLETED then job_ret ()
     else job_then (if existing = None then job_then (ensure_scheduler_run bv parent_job t) (job_ret ()) else job_ret ())
            (complete_market_event bv parent_job t SR_FAILED (Some err)))"

definition persist_daily_open_failure_audit :: "bridge_env \<Rightarrow> string \<Rightarrow> datetime \<Rightarrow> string \<Rightarrow> string \<Rightarrow> unit bridge_job" where
  "persist_daily_open_failure_audit bv parent_job t subjob_name err_message =
     job_then (fail_daily_open_parent bv parent_job t err_message)
       (if subjob_name = parent_job then job_ret ()
        else
        job_bind (query (get_scheduler_run subjob_name t)) (\<lambda>existing.
        job_then (if existing = None then job_then (ensure_scheduler_run bv subjob_name t) (job_ret ()) else job_ret ())
          (complete_market_event bv subjob_name t SR_FAILED (Some err_message))))"

definition fill_phase_due :: "bridge_env \<Rightarrow> datetime \<Rightarrow> bool bridge_job" where
  "fill_phase_due bv t =
     job_bind (query (now (bv_services bv))) (\<lambda>current.
     job_ret (t + seconds (pc_fill_delay_seconds (sv_config (bv_services bv))) \<le> current))"

definition reactivate_recovery_attempt :: "bridge_env \<Rightarrow> string \<Rightarrow> datetime \<Rightarrow> unit bridge_job" where
  "reactivate_recovery_attempt bv recovery_job t =
     job_bind (query (get_scheduler_run recovery_job t)) (\<lambda>existing.
     case existing of
       None \<Rightarrow> job_then (ensure_scheduler_run bv recovery_job t) (job_ret ())
     | Some r \<Rightarrow>
         if sr_status r = SR_SKIPPED \<and> is_retryable_market_event_error (sr_error r)
         then query (db_bind (now (bv_services bv)) (\<lambda>started. reactivate_scheduler_run recovery_job t started))
         else if sr_status r \<noteq> SR_RUNNING then job_then (ensure_scheduler_run bv recovery_job t) (job_ret ())
         else job_ret ())"

definition ensure_parent_run_completed :: "bridge_env \<Rightarrow> string \<Rightarrow> datetime \<Rightarrow> unit bridge_job" where
  "ensure_parent_run_completed bv job_name t =
     job_bind (query (get_scheduler_run job_name t)) (\<lambda>existing.
     if map_option sr_status existing = Some SR_COMPLETED then job_ret ()
     else job_then (if existing = None then job_then (ensure_scheduler_run bv job_name t) (job_ret ()) else job_ret ())
            (complete_market_event bv job_name t SR_COMPLETED None))"

definition daily_open_terminal_complete :: "string \<Rightarrow> datetime \<Rightarrow> bool bridge_job" where
  "daily_open_terminal_complete symbol t =
     job_bind (query (get_scheduler_run (daily_open_gap_job_name symbol t) t)) (\<lambda>gap.
     job_bind (query (get_scheduler_run (daily_open_fill_job_name symbol t) t)) (\<lambda>fill.
     job_bind (query (get_scheduler_run (daily_open_snapshot_job_name symbol t) t)) (\<lambda>snap.
     job_ret (\<forall>run \<in> set [gap, fill, snap]. map_option sr_status run = Some SR_COMPLETED))))"

definition complete_marker_event :: "bridge_env \<Rightarrow> market_event \<Rightarrow> string \<Rightarrow> datetime \<Rightarrow> event_process_outcome bridge_job" where
  "complete_marker_event bv e job_name t =
     job_bind (query (get_scheduler_run job_name t)) (\<lambda>existing.
     if map_option sr_status existing = Some SR_COMPLETED then job_ret (event_outcome e job_name SR_COMPLETED True None)
     else
     job_bind (ensure_scheduler_run bv job_name t) (\<lambda>(run, created).
     if \<not> created \<and> sr_status run = SR_COMPLETED then job_ret (event_outcome e job_name SR_COMPLETED True None)
     else job_then (complete_market_event bv job_name t SR_COMPLETED None) (persisted_outcome e job_name t (\<not> created))))"

section \<open>Handlers\<close>

text \<open>Inside a poll the session is in a transaction, so the scheduler's jobs work in that one.\<close>

definition scheduler_call :: "(scheduler_state \<Rightarrow> 'a job) \<Rightarrow> 'a bridge_job" where
  "scheduler_call f = job_bind (read_bridge br_scheduler) (\<lambda>sk. on_db (f sk))"

definition run_open_subjob :: "bridge_env \<Rightarrow> string \<Rightarrow> datetime \<Rightarrow> job_run_outcome list bridge_job \<Rightarrow> unit bridge_job" where
  "run_open_subjob bv job_name t runner =
     job_bind (query (get_scheduler_run job_name t)) (\<lambda>existing.
     if map_option sr_status existing = Some SR_COMPLETED then job_ret ()
     else
     job_then (ensure_scheduler_run bv job_name t)
       (job_catch
          (job_bind runner (\<lambda>outcomes.
           job_then (on_db (job_lift (require_successful_jobs outcomes)))
             (if \<not> list_all is_terminal_job_success outcomes then job_raise RetryableSchedulerDeferred
              else complete_market_event bv job_name t SR_COMPLETED None)))
          (\<lambda>err. case err of
             RetryableSchedulerDeferred \<Rightarrow>
               job_then (release_uncommitted_scheduler_run bv job_name t RetryableSchedulerDeferred) (job_raise err)
           | DailyOpenSequenceFailure _ _ \<Rightarrow> job_raise err
           | _ \<Rightarrow> job_raise (DailyOpenSequenceFailure job_name (error_text (sv_env (bv_services bv)) err)))))"

definition latest_daily :: "bridge_env \<Rightarrow> string \<Rightarrow> normalized_candle option bridge_job" where
  "latest_daily bv symbol =
     on_db (job_lift (cbind (market_symbol_of symbol) (\<lambda>ms. ret (get_latest (cb_candles (bv_builder bv)) ms MT_DAILY))))"

definition event_candle :: "bridge_env \<Rightarrow> market_event \<Rightarrow> normalized_candle bridge_job" where
  "event_candle bv e =
     job_bind (latest_daily bv (me_symbol e)) (\<lambda>c.
     case c of
       None \<Rightarrow> job_raise RetryableContextNotReady
     | Some c \<Rightarrow> if nc_open_time c \<noteq> me_candle_open_time e then job_raise RetryableContextNotReady else job_ret c)"

definition handle_daily_open :: "bridge_env \<Rightarrow> market_event \<Rightarrow> unit bridge_job" where
  "handle_daily_open bv e =
     (let sv = bv_services bv; t = me_candle_open_time e; s = me_symbol e
      in job_bind (event_candle bv e) (\<lambda>c.
         job_bind (on_db (job_lift (build_open_contexts sv (bv_builder bv) s c))) (\<lambda>(fill_contexts, stop_context).
         job_then (change_bridge (br_scheduler_update (register_fill_contexts fill_contexts)))
         (job_then (change_bridge (br_scheduler_update (register_stop_context stop_context)))
         (job_then (bridge_scope (run_open_subjob bv (daily_open_gap_job_name s t) t
                      (scheduler_call (\<lambda>sk. run_daily_open_gap_stop False sv sk (bv_lock bv) t None))))
         (job_bind (fill_phase_due bv t) (\<lambda>due.
         if \<not> due then job_raise FillNotDue
         else bridge_scope
           (job_then (run_open_subjob bv (daily_open_fill_job_name s t) t
                        (scheduler_call (\<lambda>sk. run_daily_open_fill False sv sk (bv_lock bv) t None)))
              (run_open_subjob bv (daily_open_snapshot_job_name s t) t
                 (scheduler_call (\<lambda>sk. run_daily_open_snapshot False sv sk (bv_lock bv) t None)))))))))))"

definition handle_daily_live :: "bridge_env \<Rightarrow> market_event \<Rightarrow> unit bridge_job" where
  "handle_daily_live bv e =
     job_bind (event_candle bv e) (\<lambda>c.
     let c = (case me_observed_low e of None \<Rightarrow> c | Some low \<Rightarrow> if nc_low c \<noteq> low then c\<lparr>nc_low := low\<rparr> else c)
     in job_bind (on_db (job_lift (build_intraday_stop_context (bv_builder bv) (me_symbol e) c))) (\<lambda>stop_context.
        job_then (change_bridge (br_scheduler_update (register_stop_context stop_context)))
        (job_bind (scheduler_call (\<lambda>sk. run_job False (bv_services bv) sk (job_value INTRADAY_STOP_PROCESSING) (me_candle_open_time e) None))
          (\<lambda>outcome.
          if jo_status outcome = SR_FAILED
          then job_raise (RuntimeError (case jo_error outcome of
                 Some m \<Rightarrow> if m = '''' then ''intraday stop processing failed'' else m | None \<Rightarrow> ''intraday stop processing failed''))
          else on_db (job_lift (require_successful_jobs [outcome]))))))"

definition handle_daily_closed :: "bridge_env \<Rightarrow> market_event \<Rightarrow> unit bridge_job" where
  "handle_daily_closed bv e =
     (let sv = bv_services bv; s = me_symbol e
      in job_bind (event_candle bv e) (\<lambda>c.
         let due = nc_close_time c + seconds (pc_evaluation_delay_seconds (sv_config sv))
         in job_bind (query (now sv)) (\<lambda>current.
            if current < due then job_raise DailyEvaluationNotDue
            else
            job_bind (query (build_evaluation_context sv (bv_builder bv) s due)) (\<lambda>eval_context.
            job_bind (query (build_stop_context_for_close (bv_builder bv) s due)) (\<lambda>stop_context.
            job_then (change_bridge (br_scheduler_update (register_evaluation_context eval_context)))
            (job_then (change_bridge (br_scheduler_update (register_stop_context stop_context)))
            (job_bind (scheduler_call (\<lambda>sk. run_daily_close_sequence False sv sk (bv_lock bv) (nc_close_time c) None)) (\<lambda>outcomes.
             on_db (job_lift (require_successful_jobs outcomes))))))))))"

section \<open>Processing an event\<close>

definition process_daily_open_recovery :: "bridge_env \<Rightarrow> market_event \<Rightarrow> recovery_context \<Rightarrow> event_process_outcome bridge_job" where
  "process_daily_open_recovery bv e recovery =
     (let t = rc_scheduled_for recovery; recovery_job = rc_recovery_job_name recovery; parent_job = rc_original_job_name recovery;
          forget = change_bridge (br_recovery_pending_update (dict_del (parent_job, t)));
          failed = (\<lambda>msg terminal.
            job_then (complete_market_event bv recovery_job t SR_FAILED (Some msg))
            (job_then forget
            (job_ret ((event_outcome e parent_job SR_FAILED False (Some msg))\<lparr>eo_terminal_failed := terminal\<rparr>))))
      in job_then (reactivate_recovery_attempt bv recovery_job t)
         (job_catch
            (job_then (handle_daily_open bv e)
            (job_then (complete_market_event bv recovery_job t SR_COMPLETED None)
            (job_then (query (mark_run_resolved (rc_original_run_id recovery) (rc_recovery_run_id recovery)))
            (job_then forget
            (job_ret (event_outcome e parent_job SR_COMPLETED False None))))))
            (\<lambda>err. case err of
               FillNotDue \<Rightarrow> deferred_outcome bv e err (Some recovery_job)
             | RetryableContextNotReady \<Rightarrow> deferred_outcome bv e err (Some recovery_job)
             | RetryableSchedulerDeferred \<Rightarrow> deferred_outcome bv e err (Some recovery_job)
             | PermanentConfigurationFailure code \<Rightarrow> failed code True
             | DailyOpenSequenceFailure _ msg \<Rightarrow> failed msg False
             | _ \<Rightarrow> failed (error_text (sv_env (bv_services bv)) err) False)))"

definition process_daily_open :: "bridge_env \<Rightarrow> market_event \<Rightarrow> event_process_outcome bridge_job" where
  "process_daily_open bv e =
     (let t = scheduled_for e
      in job_bind (event_job bv e) (\<lambda>parent_job.
         let failed = (\<lambda>subjob msg.
               job_then (persist_daily_open_failure_audit bv parent_job t subjob msg) (persisted_outcome e parent_job t False))
         in job_bind (maybe_short_circuit_permanent_failure e parent_job t) (\<lambda>short_circuit.
            case short_circuit of
              Some outcome \<Rightarrow> job_ret outcome
            | None \<Rightarrow>
                job_bind (active_recovery_context parent_job t) (\<lambda>recovery.
                case recovery of
                  Some rc \<Rightarrow> process_daily_open_recovery bv e rc
                | None \<Rightarrow>
                    job_bind (daily_open_terminal_complete (me_symbol e) t) (\<lambda>complete.
                    if complete
                    then job_then (ensure_parent_run_completed bv parent_job t) (persisted_outcome e parent_job t True)
                    else
                    job_then (ensure_scheduler_run bv parent_job t)
                      (job_catch
                         (job_then (handle_daily_open bv e)
                         (job_then (complete_market_event bv parent_job t SR_COMPLETED None)
                         (persisted_outcome e parent_job t False)))
                         (\<lambda>err. case err of
                            FillNotDue \<Rightarrow> deferred_outcome bv e err None
                          | RetryableContextNotReady \<Rightarrow> deferred_outcome bv e err None
                          | RetryableSchedulerDeferred \<Rightarrow> deferred_outcome bv e err None
                          | PermanentConfigurationFailure code \<Rightarrow> mark_permanent_failure bv e parent_job t code
                          | DailyOpenSequenceFailure subjob msg \<Rightarrow> failed subjob msg
                          | _ \<Rightarrow> failed parent_job (error_text (sv_env (bv_services bv)) err))))))))"

definition process_event :: "bridge_env \<Rightarrow> market_event \<Rightarrow> event_process_outcome bridge_job" where
  "process_event bv e =
     (let t = scheduled_for e
      in job_bind (event_job bv e) (\<lambda>job_name.
         if me_event_type e = DAILY_OPEN_AVAILABLE then process_daily_open bv e
         else
         job_bind (maybe_short_circuit_permanent_failure e job_name t) (\<lambda>short_circuit.
         case short_circuit of
           Some outcome \<Rightarrow> job_ret outcome
         | None \<Rightarrow>
             job_bind (query (get_scheduler_run job_name t)) (\<lambda>existing.
             if map_option sr_status existing = Some SR_COMPLETED then job_ret (event_outcome e job_name SR_COMPLETED True None)
             else if me_event_type e = WEEKLY_CLOSED \<or> me_event_type e = MONTHLY_CLOSED then complete_marker_event bv e job_name t
             else
             job_bind (ensure_scheduler_run bv job_name t) (\<lambda>(run, created).
             if \<not> created \<and> sr_status run = SR_COMPLETED then job_ret (event_outcome e job_name SR_COMPLETED True None)
             else
             job_catch
               (job_then (if me_event_type e = DAILY_LIVE_UPDATE then handle_daily_live bv e else handle_daily_closed bv e)
               (job_then (complete_market_event bv job_name t SR_COMPLETED None)
               (persisted_outcome e job_name t False)))
               (\<lambda>err. case err of
                  RetryableContextNotReady \<Rightarrow> deferred_outcome bv e err None
                | RetryableSchedulerDeferred \<Rightarrow> deferred_outcome bv e err None
                | DailyEvaluationNotDue \<Rightarrow> deferred_outcome bv e err None
                | PermanentConfigurationFailure code \<Rightarrow> mark_permanent_failure bv e job_name t code
                | _ \<Rightarrow> job_then (complete_market_event bv job_name t SR_FAILED (Some (error_text (sv_env (bv_services bv)) err)))
                         (persisted_outcome e job_name t False)))))))"

section \<open>A poll\<close>

record poll_state =
  ps_outcomes :: "event_process_outcome list"
  ps_to_ack :: "market_event list"
  ps_terminal :: "market_event list"
  ps_permanent :: "event_process_outcome list"
  ps_processed_count :: nat
  ps_had_deferred :: bool
  ps_groups_rotated :: nat
  ps_group_states :: "(string, market_event_group_state) dict"

definition record_group_deferred ::
  "market_event \<Rightarrow> string \<Rightarrow> datetime \<Rightarrow> (string, market_event_group_state) dict \<Rightarrow>
   (string, market_event_group_state) dict bridge_job" where
  "record_group_deferred e group_key evaluation_time group_states =
     (let defer_count = (case dict_get group_states group_key of Some existing \<Rightarrow> gs_defer_count existing + 1 | None \<Rightarrow> 1);
          state = \<lparr>gs_group_key = group_key, gs_event_type = market_event_type_value (me_event_type e),
                   gs_group_time = me_candle_open_time e, gs_next_attempt_at = next_retry_at evaluation_time defer_count,
                   gs_defer_count = defer_count\<rparr>
      in job_then (query (upsert_market_event_group_deferred state)) (job_ret (dict_put group_key state group_states)))"

definition clear_group_fairness_state :: "string \<Rightarrow> unit bridge_job" where
  "clear_group_fairness_state group_key = query (delete_market_event_group_state group_key)"

definition note_outcome :: "market_event \<Rightarrow> event_process_outcome \<Rightarrow> poll_state \<Rightarrow> poll_state" where
  "note_outcome e outcome ps =
     ps\<lparr>ps_processed_count := ps_processed_count ps + 1,
        ps_to_ack := ps_to_ack ps @ (if should_ack outcome then [e] else []),
        ps_terminal := ps_terminal ps @ (if eo_terminal_failed outcome then [e] else []),
        ps_outcomes := ps_outcomes ps @ [outcome]\<rparr>"

text \<open>The events of a group, until one is deferred or the poll is full.\<close>

fun process_group_events ::
  "(market_event \<Rightarrow> event_process_outcome bridge_job) \<Rightarrow> nat \<Rightarrow> datetime \<Rightarrow> string \<Rightarrow> market_event list \<Rightarrow> poll_state \<Rightarrow>
   poll_state bridge_job" where
  "process_group_events process limit evaluation_time group_key [] ps = job_ret ps"
| "process_group_events process limit evaluation_time group_key (e # es) ps =
     (if limit \<le> ps_processed_count ps then job_ret ps
      else
      job_bind (process e) (\<lambda>outcome.
      let ps = note_outcome e outcome ps
      in job_then (if eo_terminal_failed outcome then clear_group_fairness_state group_key else job_ret ())
         (if eo_deferred outcome \<or> eo_retryable outcome
          then job_then (change_bridge (br_deferred_events_update (\<lambda>_. True)))
               (job_bind (record_group_deferred e group_key evaluation_time (ps_group_states ps)) (\<lambda>states.
                job_ret (ps\<lparr>ps_had_deferred := True, ps_group_states := states\<rparr>)))
          else
          job_bind
            (if eo_status outcome = SR_FAILED
             then job_then (clear_group_fairness_state group_key) (job_ret (ps\<lparr>ps_permanent := ps_permanent ps @ [outcome]\<rparr>))
             else if eo_status outcome = SR_COMPLETED
             then job_then (clear_group_fairness_state group_key) (job_ret ps)
             else job_ret ps)
            (process_group_events process limit evaluation_time group_key es))))"

fun process_groups ::
  "(market_event \<Rightarrow> event_process_outcome bridge_job) \<Rightarrow> nat \<Rightarrow> datetime \<Rightarrow> (string, market_event list) dict \<Rightarrow> string list \<Rightarrow>
   poll_state \<Rightarrow> poll_state bridge_job" where
  "process_groups process limit evaluation_time grouped [] ps = job_ret ps"
| "process_groups process limit evaluation_time grouped (key # keys) ps =
     (if limit \<le> ps_processed_count ps then job_ret ps
      else
      job_bind (process_group_events process limit evaluation_time key (get_default grouped key [])
                 (ps\<lparr>ps_groups_rotated := ps_groups_rotated ps + 1\<rparr>))
        (process_groups process limit evaluation_time grouped keys))"

definition empty_poll :: bridge_poll_result where
  "empty_poll = \<lparr>bp_outcomes = [], bp_events_to_ack = [], bp_events_terminal_failed = [], bp_deferred_events = False,
     bp_permanent_failures = []\<rparr>"

definition start_poll :: "(string, market_event_group_state) dict \<Rightarrow> poll_state" where
  "start_poll states =
     \<lparr>ps_outcomes = [], ps_to_ack = [], ps_terminal = [], ps_permanent = [], ps_processed_count = 0, ps_had_deferred = False,
      ps_groups_rotated = 0, ps_group_states = states\<rparr>"

text \<open>The groups of the candidates in the order of the rotation, and the cursor behind them.\<close>

definition poll_groups ::
  "(market_event \<Rightarrow> event_process_outcome bridge_job) \<Rightarrow> nat \<Rightarrow> datetime \<Rightarrow> market_event list \<Rightarrow> poll_state bridge_job" where
  "poll_groups process limit evaluation_time candidates =
     (let grouped = group_events candidates
      in job_bind (query list_market_event_group_states) (\<lambda>group_states.
         let eligible_keys = eligible_group_keys (ordered_group_keys grouped) evaluation_time group_states
         in job_bind (query get_fairness_group_rotation_cursor) (\<lambda>rotation_cursor.
            job_then (change_bridge (br_queue_overflow_update (\<lambda>_. limit < length candidates)))
            (job_bind (process_groups process limit evaluation_time grouped (poll_order rotation_cursor eligible_keys)
                         (start_poll group_states)) (\<lambda>ps.
             job_then (query (set_fairness_group_rotation_cursor (advance_group_rotation_cursor rotation_cursor
                         (length eligible_keys) (ps_groups_rotated ps) (ps_had_deferred ps))))
               (job_ret ps))))))"

definition process_after_poll :: "bridge_env \<Rightarrow> datetime \<Rightarrow> bridge_poll_result bridge_job" where
  "process_after_poll bv evaluation_time =
     job_then (change_bridge (br_deferred_events_update (\<lambda>_. False)))
     (job_bind (on_db (transaction (\<lambda>db. db_lift (sv_market_data_ready (bv_services bv) db) db))) (\<lambda>ready.
      if \<not> ready \<or> \<not> al_held (bv_lock bv) \<or> bv_session_unhealthy bv then job_ret empty_poll
      else
      job_bind (read_bridge br_detector) (\<lambda>d.
      job_bind (on_db (job_lift (detect_candidates d (cb_candles (bv_builder bv)) evaluation_time))) (\<lambda>candidates.
      job_bind (poll_groups (process_event bv) (bv_max_events_per_poll bv) evaluation_time (sort_market_events candidates)) (\<lambda>ps.
      job_bind (read_bridge br_deferred_events) (\<lambda>deferred.
      job_ret \<lparr>bp_outcomes = ps_outcomes ps, bp_events_to_ack = ps_to_ack ps, bp_events_terminal_failed = ps_terminal ps,
               bp_deferred_events = deferred, bp_permanent_failures = ps_permanent ps\<rparr>))))))"

section \<open>Acknowledgement and recovery\<close>

definition acknowledge_committed :: "market_event list \<Rightarrow> unit bridge_job" where
  "acknowledge_committed events = change_bridge (br_detector_update (\<lambda>d. foldl (\<lambda>d e. acknowledge_completed e d) d events))"

fun acknowledge_terminal_failed_committed :: "market_event list \<Rightarrow> unit bridge_job" where
  "acknowledge_terminal_failed_committed [] = job_ret ()"
| "acknowledge_terminal_failed_committed (e # es) =
     job_bind (read_bridge br_detector) (\<lambda>d.
     job_bind (on_db (job_lift (acknowledge_terminal_failed e d))) (\<lambda>d'.
     job_then (change_bridge (br_detector_update (\<lambda>_. d'))) (acknowledge_terminal_failed_committed es)))"

text \<open>
  \<open>PaperTradingApplication._process_committed_market_event_poll\<close>: one transaction for the poll; the
  detector is told after the commit.
\<close>

definition process_committed_market_event_poll :: "bridge_env \<Rightarrow> datetime \<Rightarrow> bridge_poll_result bridge_job" where
  "process_committed_market_event_poll bv evaluation_time =
     job_bind (bridge_scope (process_after_poll bv evaluation_time)) (\<lambda>result.
     job_then (acknowledge_committed (bp_events_to_ack result))
     (job_then (acknowledge_terminal_failed_committed (bp_events_terminal_failed result)) (job_ret result)))"

definition recover_permanent_configuration :: "bridge_env \<Rightarrow> market_event \<Rightarrow> unit bridge_job" where
  "recover_permanent_configuration bv e =
     (if \<not> al_held (bv_lock bv) then job_raise (RuntimeError ''advisory lock required for permanent failure recovery'')
      else
      job_bind (event_job bv e) (\<lambda>job_name.
      job_bind (query (get_scheduler_run job_name (scheduled_for e))) (\<lambda>existing.
      case existing of
        None \<Rightarrow> job_raise (ValueError (''no recoverable permanent failure for '' @ job_name))
      | Some run \<Rightarrow>
          if sr_status run \<noteq> SR_FAILED then job_raise (ValueError (''no recoverable permanent failure for '' @ job_name))
          else if \<not> is_permanent_configuration_error (sr_error run)
          then job_raise (ValueError (''scheduler run is not a permanent configuration failure: '' @ job_name))
          else if sr_resolved_by_run_id run \<noteq> None
          then job_raise (ValueError (''permanent failure already recovered for '' @ job_name))
          else
          job_then (on_db (job_lift (validate_symbol_configuration (bv_builder bv) (me_symbol e))))
          (job_bind (read_bridge br_detector) (\<lambda>d.
           job_bind (on_db (job_lift (clear_terminal_failed e d))) (\<lambda>d'.
           job_then (change_bridge (br_detector_update (\<lambda>_. d')))
           (job_bind (query (count_recovery_attempts (sr_run_id run))) (\<lambda>n.
            job_bind (on_db (job_lift (market_event_recovery_job_name e (n + 1)))) (\<lambda>recovery_job_name.
            job_bind (query (db_bind (now (bv_services bv)) (\<lambda>started.
                        create_recovery_attempt (sv_soak_run_id (bv_services bv)) run recovery_job_name started)))
              (\<lambda>(attempt, created).
            change_bridge (br_recovery_pending_update (dict_put (job_name, scheduled_for e)
              \<lparr>rc_original_run_id = sr_run_id run, rc_original_job_name = job_name, rc_recovery_job_name = recovery_job_name,
               rc_recovery_run_id = sr_run_id attempt, rc_scheduled_for = scheduled_for e, rc_generation = n + 1\<rparr>))))))))))))"

end
