(* ===== verification/Paper_Invariants.thy ===== *)
theory Paper_Invariants
  imports Paper_Stops
begin

text \<open>
  What every sequence of lifecycle operations keeps of the paper trading database. Operations are
  reasoned about by weakest preconditions (\<open>wlp\<close>); the operations that only add orders, fills, events,
  snapshots and audit rows, and those that read, satisfy one contract, the locale \<open>db_preorder\<close>
  interpreted on \<open>same_core\<close>; procedures of several transactions satisfy that of \<open>state_preorder\<close>.
\<close>

section \<open>Weakest preconditions\<close>

definition wlp :: "'a db_op \<Rightarrow> ('a \<Rightarrow> paper_db \<Rightarrow> bool) \<Rightarrow> paper_db \<Rightarrow> bool" where
  "wlp m Q db \<longleftrightarrow> (\<forall>x db'. m db = ret (x, db') \<longrightarrow> Q x db')"

named_theorems wlp_simps \<open>weakest preconditions of the operations\<close>

lemma db_bind_ret:
  "db_bind m f db = ret (y, db'') \<longleftrightarrow> (\<exists>x db'. m db = ret (x, db') \<and> f x db' = ret (y, db''))"
  by (auto simp: db_bind_def cbind_eq_ret)

lemma wlp_bind [wlp_simps]: "wlp (db_bind m f) Q db \<longleftrightarrow> wlp m (\<lambda>x. wlp (f x) Q) db"
  by (auto simp: wlp_def db_bind_ret)

lemma wlp_ret [wlp_simps]: "wlp (db_ret x) Q db \<longleftrightarrow> Q x db"
  by (auto simp: wlp_def db_ret_def)

lemma wlp_raise [wlp_simps]: "wlp (db_raise e) Q db"
  by (simp add: wlp_def db_raise_def)

lemma wlp_lift [wlp_simps]: "wlp (db_lift c) Q db \<longleftrightarrow> (\<forall>x. c = ret x \<longrightarrow> Q x db)"
  by (auto simp: wlp_def db_lift_def cbind_eq_ret)

lemma wlp_read [wlp_simps]: "wlp (db_read f) Q db \<longleftrightarrow> (\<forall>x. f db = ret x \<longrightarrow> Q x db)"
  by (auto simp: wlp_def db_read_def cbind_eq_ret)

lemma wlp_write [wlp_simps]: "wlp (db_write f) Q db \<longleftrightarrow> Q () (f db)"
  by (simp add: wlp_def db_write_def)

lemma wlp_uuid4 [wlp_simps]: "wlp uuid4 Q db \<longleftrightarrow> Q (db_next_uuid db) (db\<lparr>db_next_uuid := Suc (db_next_uuid db)\<rparr>)"
  by (simp add: wlp_def uuid4_def)

lemma wlp_mono: "wlp m Q db \<Longrightarrow> (\<And>x db'. Q x db' \<Longrightarrow> Q' x db') \<Longrightarrow> wlp m Q' db"
  by (auto simp: wlp_def)

lemma wlp_conj: "wlp m Q db \<Longrightarrow> wlp m Q' db \<Longrightarrow> wlp m (\<lambda>x db'. Q x db' \<and> Q' x db') db"
  by (auto simp: wlp_def)

section \<open>The contract of an operation\<close>

text \<open>
  A relation between the state before and after. A procedure keeps it when it holds between the state it
  is called in and the state it leaves, whether it returns or raises, from one state (\<open>keeps_at\<close>) and from
  every state (\<open>keeps\<close>).
\<close>

locale state_preorder =
  fixes R :: "'s \<Rightarrow> 's \<Rightarrow> bool"
  assumes refl: "R s s" and trans: "R a b \<Longrightarrow> R b c \<Longrightarrow> R a c"
begin

definition keeps_at :: "('s, 'a) proc \<Rightarrow> 's \<Rightarrow> bool" where
  "keeps_at m db \<longleftrightarrow> (\<forall>r db'. m db = Some (r, db') \<longrightarrow> R db db')"

definition keeps :: "('s, 'a) proc \<Rightarrow> bool" where
  "keeps m \<longleftrightarrow> (\<forall>db. keeps_at m db)"

lemma keeps_atI: "(\<And>r db'. m db = Some (r, db') \<Longrightarrow> R db db') \<Longrightarrow> keeps_at m db"
  by (simp add: keeps_at_def)

lemma keeps_atD: "keeps_at m db \<Longrightarrow> m db = Some (r, db') \<Longrightarrow> R db db'"
  by (auto simp: keeps_at_def)

lemma keepsI: "(\<And>db. keeps_at m db) \<Longrightarrow> keeps m"
  by (simp add: keeps_def)

lemma keepsD: "keeps m \<Longrightarrow> keeps_at m db"
  by (simp add: keeps_def)

lemma keeps_at_ret: "keeps_at (job_ret x) db"
  by (simp add: keeps_at_def job_ret_def refl)

lemma keeps_ret: "keeps (job_ret x)"
  by (rule keepsI) (rule keeps_at_ret)

lemma keeps_raise: "keeps (job_raise e)"
  by (simp add: keeps_def keeps_at_def job_raise_def refl)

lemma keeps_at_bind:
  assumes "keeps_at m db" and "\<And>x db1. m db = Some (Inr x, db1) \<Longrightarrow> keeps_at (f x) db1"
  shows "keeps_at (job_bind m f) db"
proof (rule keeps_atI)
  fix r db'
  assume "job_bind m f db = Some (r, db')"
  then show "R db db'"
  proof (cases rule: job_bind_cases)
    case (ok x db1)
    then show ?thesis using keeps_atD [OF assms(1)] keeps_atD [OF assms(2)] trans by blast
  next
    case (error e)
    then show ?thesis using keeps_atD [OF assms(1)] by blast
  qed
qed

lemma keeps_bind: "keeps m \<Longrightarrow> (\<And>x. keeps (f x)) \<Longrightarrow> keeps (job_bind m f)"
  by (rule keepsI, rule keeps_at_bind) (simp_all add: keepsD)

lemma keeps_at_catch:
  assumes "keeps_at m db" and "\<And>e db1. m db = Some (Inl e, db1) \<Longrightarrow> keeps_at (h e) db1"
  shows "keeps_at (job_catch m h) db"
proof (rule keeps_atI)
  fix r db'
  assume "job_catch m h db = Some (r, db')"
  then show "R db db'"
  proof (cases rule: job_catch_cases)
    case (ok x)
    then show ?thesis using keeps_atD [OF assms(1)] by blast
  next
    case (error e db1)
    then show ?thesis using keeps_atD [OF assms(1)] keeps_atD [OF assms(2)] trans by blast
  qed
qed

lemma keeps_catch: "keeps m \<Longrightarrow> (\<And>e. keeps (h e)) \<Longrightarrow> keeps (job_catch m h)"
  by (rule keepsI, rule keeps_at_catch) (simp_all add: keepsD)

lemma keeps_if: "(P \<Longrightarrow> keeps m) \<Longrightarrow> (\<not> P \<Longrightarrow> keeps n) \<Longrightarrow> keeps (if P then m else n)"
  by simp

lemma keeps_option: "keeps m \<Longrightarrow> (\<And>x. keeps (f x)) \<Longrightarrow> keeps (case y of None \<Rightarrow> m | Some x \<Rightarrow> f x)"
  by (cases y) simp_all

lemma keeps_prod: "(\<And>a b. keeps (f a b)) \<Longrightarrow> keeps (case p of (a, b) \<Rightarrow> f a b)"
  by (cases p) simp

lemma keeps_at_if: "(P \<Longrightarrow> keeps_at m db) \<Longrightarrow> (\<not> P \<Longrightarrow> keeps_at n db) \<Longrightarrow> keeps_at (if P then m else n) db"
  by simp

lemma keeps_at_option:
  "(y = None \<Longrightarrow> keeps_at m db) \<Longrightarrow> (\<And>x. y = Some x \<Longrightarrow> keeps_at (f x) db) \<Longrightarrow>
   keeps_at (case y of None \<Rightarrow> m | Some x \<Rightarrow> f x) db"
  by (cases y) simp_all

lemmas keeps_rules = keeps_ret keeps_raise keeps_bind keeps_catch keeps_if keeps_option keeps_prod
lemmas keeps_at_rules = keeps_at_ret keeps_at_bind keeps_at_if keeps_at_option

end

text \<open>
  On the database: an operation inside a transaction that satisfies the relation from every state stays
  in it (\<open>stays\<close>), and its transaction keeps it.
\<close>

locale db_preorder = state_preorder R for R :: "paper_db \<Rightarrow> paper_db \<Rightarrow> bool"
begin

definition stays :: "'a db_op \<Rightarrow> bool" where
  "stays m \<longleftrightarrow> (\<forall>db. wlp m (\<lambda>_ db'. R db db') db)"

lemma staysI: "(\<And>db x db'. m db = ret (x, db') \<Longrightarrow> R db db') \<Longrightarrow> stays m"
  by (simp add: stays_def wlp_def)

lemma staysD: "stays m \<Longrightarrow> m db = ret (x, db') \<Longrightarrow> R db db'"
  by (auto simp: stays_def wlp_def)

lemma stays_ret: "stays (db_ret x)"
  by (simp add: stays_def wlp_simps refl)

lemma stays_raise: "stays (db_raise e)"
  by (simp add: stays_def wlp_simps)

lemma stays_lift: "stays (db_lift c)"
  by (simp add: stays_def wlp_simps refl)

lemma stays_read: "stays (db_read f)"
  by (simp add: stays_def wlp_simps refl)

lemma stays_bind: "stays m \<Longrightarrow> (\<And>x. stays (f x)) \<Longrightarrow> stays (db_bind m f)"
proof (rule staysI)
  fix db y db''
  assume m: "stays m" and f: "\<And>x. stays (f x)" and "db_bind m f db = ret (y, db'')"
  then obtain x db' where "m db = ret (x, db')" "f x db' = ret (y, db'')" by (auto simp: db_bind_ret)
  with staysD [OF m] staysD [OF f] show "R db db''" by (blast intro: trans)
qed

lemma stays_if: "(P \<Longrightarrow> stays m) \<Longrightarrow> (\<not> P \<Longrightarrow> stays n) \<Longrightarrow> stays (if P then m else n)"
  by simp

lemma stays_option: "stays m \<Longrightarrow> (\<And>x. stays (f x)) \<Longrightarrow> stays (case y of None \<Rightarrow> m | Some x \<Rightarrow> f x)"
  by (cases y) simp_all

lemma stays_prod: "(\<And>a b. stays (f a b)) \<Longrightarrow> stays (case p of (a, b) \<Rightarrow> f a b)"
  by (cases p) simp

lemma wlp_stays: "stays m \<Longrightarrow> (\<And>x db'. R db db' \<Longrightarrow> Q x db') \<Longrightarrow> wlp m Q db"
  unfolding stays_def by (rule wlp_mono) blast

lemmas stays_rules = stays_ret stays_raise stays_lift stays_read stays_bind stays_if stays_option stays_prod

lemma keeps_at_transaction: "wlp m (\<lambda>_ db'. R db db') db \<Longrightarrow> keeps_at (transaction m) db"
  by (rule keeps_atI) (auto simp: wlp_def refl elim!: transaction_cases)

lemma keeps_transaction: "stays m \<Longrightarrow> keeps (transaction m)"
  by (rule keepsI, rule keeps_at_transaction) (simp add: stays_def)

lemma keeps_savepoint: "keeps m \<Longrightarrow> keeps (savepoint m)"
  unfolding keeps_def by (auto intro!: keeps_atI refl dest: keeps_atD elim!: savepoint_cases)

end

text \<open>Operations that leave intents and positions alone; fills are only added.\<close>

definition same_core :: "paper_db \<Rightarrow> paper_db \<Rightarrow> bool" where
  "same_core db db' \<longleftrightarrow>
     db_intents db' = db_intents db \<and> db_positions db' = db_positions db \<and>
     (\<exists>new. db_fills db' = db_fills db @ new)"

interpretation core: db_preorder same_core
  by unfold_locales (auto simp: same_core_def)

lemma core_uuid4: "core.stays uuid4"
  by (simp add: core.stays_def wlp_simps same_core_def)

lemma core_write: "(\<And>db. same_core db (f db)) \<Longrightarrow> core.stays (db_write f)"
  by (simp add: core.stays_def wlp_simps)

lemma core_update_wallet: "core.stays (update_wallet env a b c d e v t)"
  by (rule core.staysI) (auto simp: update_wallet_def same_core_def Let_def split: option.splits if_splits)

lemma core_paper_order: "core.stays (insert_or_get_paper_order env row)"
  by (rule core.staysI)
     (auto simp: insert_or_get_paper_order_def same_core_def Let_def cbind_eq_ret split: option.splits if_splits)

lemma core_paper_fill: "core.stays (insert_or_get_paper_fill env row)"
  by (rule core.staysI)
     (auto simp: insert_or_get_paper_fill_def same_core_def Let_def cbind_eq_ret split: option.splits if_splits)

lemma core_stop_event: "core.stays (insert_or_get_stop_event env row)"
  by (rule core.staysI)
     (auto simp: insert_or_get_stop_event_def same_core_def Let_def cbind_eq_ret split: option.splits if_splits)

lemma core_snapshot_row: "core.stays (insert_or_get_portfolio_snapshot env row)"
  by (rule core.staysI)
     (auto simp: insert_or_get_portfolio_snapshot_def same_core_def Let_def split: option.splits if_splits)

lemma core_audit: "core.stays (append_audit_event env a b c d e f)"
  unfolding append_audit_event_def Let_def
  by (intro core.stays_rules core_uuid4 core_write) (simp add: same_core_def)

lemma core_reads:
  "core.stays get_wallet" "core.stays get_runtime_state" "core.stays get_open_positions"
  "core.stays (get_open_position_for_symbol s)" "core.stays (get_position_row i)"
  "core.stays (get_scheduled_intents_for_symbol s t)" "core.stays (get_nonterminal_intent_for_symbol s)"
  "core.stays (fill_already_made intent fill order)"
  by (simp_all add: get_wallet_def get_runtime_state_def get_open_positions_def get_open_position_for_symbol_def
      get_position_row_def get_scheduled_intents_for_symbol_def get_nonterminal_intent_for_symbol_def
      fill_already_made_def core.stays_read)

lemmas core_rules = core.stays_rules core_uuid4 core_update_wallet core_paper_order core_paper_fill core_stop_event
  core_snapshot_row core_audit core_reads

lemma core_capture_snapshot: "core.stays (capture_snapshot env t e w ps day prior cid)"
  unfolding capture_snapshot_def Let_def by (intro core_rules)

lemma core_load_existing: "core.stays (load_existing_fill intent t)"
  unfolding load_existing_fill_def Let_def by (intro core_rules)

lemma core_authorization: "core.stays (evaluate_final_entry_authorization config r t)"
  unfolding evaluate_final_entry_authorization_def Let_def by (intro core_rules)

lemma core_pending: "core.stays (pending_of_symbols env t ctxs skip ss)"
  by (induction ss) (auto simp: pending_of_symbol_def intro!: core_rules)

lemma core_pending_batch: "core.stays (pending_intents_for_open_batch env t s ctxs skip)"
  unfolding pending_intents_for_open_batch_def by (rule core_pending)

section \<open>The invariant and the history\<close>

text \<open>
  What the code relies on of a \<open>NUMERIC\<close> column: storing a stored number changes nothing, and storing
  keeps the order.
\<close>

definition numeric_ok :: "paper_env \<Rightarrow> bool" where
  "numeric_ok env \<longleftrightarrow> mono (numeric env) \<and> (\<forall>x. numeric env (numeric env x) = numeric env x)"

definition position_ok :: "paper_env \<Rightarrow> paper_position \<Rightarrow> bool" where
  "position_ok env p \<longleftrightarrow>
     stored_position env p = p \<and> 0 < pp_quantity p \<and> 0 < pp_average_entry_price p \<and> 0 < pp_entry_atr14 p \<and>
     pp_initial_stop p \<le> pp_current_stop p \<and> 1 \<le> pp_version p \<and>
     (pp_status p = PP_CLOSED \<longleftrightarrow> pp_closed_at p \<noteq> None) \<and> pp_symbol p \<in> ALLOWED_SYMBOLS"

abbreviation filled_by :: "trade_intent \<Rightarrow> paper_position \<Rightarrow> bool" where
  "filled_by i p \<equiv> ti_intent_id i = pp_entry_intent_id p \<and> ti_status i = TI_FILLED \<and> ti_symbol i = pp_symbol p"

definition db_ok :: "paper_env \<Rightarrow> paper_db \<Rightarrow> bool" where
  "db_ok env db \<longleftrightarrow>
     distinct (map ti_intent_id (db_intents db)) \<and>
     distinct (map pp_position_id (db_positions db)) \<and>
     distinct (map pp_symbol (filter is_open_position (db_positions db))) \<and>
     distinct (map pp_entry_intent_id (db_positions db)) \<and>
     (\<forall>p \<in> set (db_positions db). position_ok env p \<and> (\<exists>i \<in> set (db_intents db). filled_by i p))"

definition position_later :: "paper_position \<Rightarrow> paper_position \<Rightarrow> bool" where
  "position_later p p' \<longleftrightarrow>
     (if pp_status p = PP_CLOSED then p' = p
      else pp_position_id p' = pp_position_id p \<and> pp_symbol p' = pp_symbol p \<and> pp_quantity p' = pp_quantity p \<and>
           pp_average_entry_price p' = pp_average_entry_price p \<and> pp_initial_stop p' = pp_initial_stop p \<and>
           pp_entry_atr14 p' = pp_entry_atr14 p \<and> pp_entry_intent_id p' = pp_entry_intent_id p \<and>
           pp_opened_at p' = pp_opened_at p \<and> pp_current_stop p \<le> pp_current_stop p')"

definition intent_later :: "trade_intent \<Rightarrow> trade_intent \<Rightarrow> bool" where
  "intent_later i i' \<longleftrightarrow>
     (if ti_status i \<in> TERMINAL_INTENT_STATUSES then i' = i
      else ti_intent_id i' = ti_intent_id i \<and> ti_symbol i' = ti_symbol i \<and>
           ti_idempotency_key i' = ti_idempotency_key i \<and>
           ti_scheduled_fill_time i' = ti_scheduled_fill_time i \<and>
           intent_step\<^sup>*\<^sup>* (ti_status i) (ti_status i'))"

definition evolves :: "paper_db \<Rightarrow> paper_db \<Rightarrow> bool" where
  "evolves db db' \<longleftrightarrow>
     (\<forall>p \<in> set (db_positions db). \<exists>p' \<in> set (db_positions db'). position_later p p') \<and>
     (\<forall>i \<in> set (db_intents db). \<exists>i' \<in> set (db_intents db'). intent_later i i') \<and>
     (\<exists>new. db_fills db' = db_fills db @ new)"

lemma position_later_refl: "position_later p p"
  by (simp add: position_later_def)

lemma position_later_trans: "position_later p q \<Longrightarrow> position_later q r \<Longrightarrow> position_later p r"
  by (auto simp: position_later_def split: if_splits)

lemma intent_later_refl: "intent_later i i"
  by (simp add: intent_later_def)

lemma intent_later_trans: "intent_later i j \<Longrightarrow> intent_later j k \<Longrightarrow> intent_later i k"
  by (auto simp: intent_later_def split: if_splits intro: rtranclp_trans)

lemma evolves_refl: "evolves db db"
  by (auto simp: evolves_def intro: position_later_refl intent_later_refl)

lemma evolves_trans:
  assumes "evolves a b" and "evolves b c"
  shows "evolves a c"
  unfolding evolves_def
proof (intro conjI ballI)
  show "\<exists>p' \<in> set (db_positions c). position_later p p'" if "p \<in> set (db_positions a)" for p
    using assms that unfolding evolves_def by (meson position_later_trans)
  show "\<exists>i' \<in> set (db_intents c). intent_later i i'" if "i \<in> set (db_intents a)" for i
    using assms that unfolding evolves_def by (meson intent_later_trans)
  show "\<exists>new. db_fills c = db_fills a @ new"
    using assms unfolding evolves_def by (metis append_assoc)
qed

interpretation history: db_preorder evolves
  by unfold_locales (auto intro: evolves_refl evolves_trans)

lemma same_core_ok: "same_core db db' \<Longrightarrow> db_ok env db \<Longrightarrow> db_ok env db'"
  by (simp add: same_core_def db_ok_def)

lemma same_core_evolves: "same_core db db' \<Longrightarrow> evolves db db'"
  by (auto simp: same_core_def evolves_def intro: position_later_refl intent_later_refl)

text \<open>One row of a table is replaced.\<close>

lemma update_row_id: "map f (update_row (\<lambda>r. f r = k) (\<lambda>_. x) rows) = map f rows" if "f x = k"
  using that by (auto simp: update_row_def)

lemma update_row_mem:
  assumes "distinct (map f rows)" and "r \<in> set rows" and "f r = k"
  shows "set (update_row (\<lambda>r. f r = k) g rows) = insert (g r) (set rows - {r})"
proof -
  have unique: "x = r" if "x \<in> set rows" "f x = k" for x
    using assms that by (auto simp: distinct_map inj_on_def)
  show ?thesis
  proof (intro set_eqI iffI)
    fix y assume "y \<in> set (update_row (\<lambda>r. f r = k) g rows)"
    then obtain x where "x \<in> set rows" "y = (if f x = k then g x else x)" by (auto simp: update_row_def)
    with unique show "y \<in> insert (g r) (set rows - {r})" using assms(3) by (cases "f x = k") auto
  next
    fix y assume "y \<in> insert (g r) (set rows - {r})"
    then consider "y = g r" | "y \<in> set rows" "y \<noteq> r" by blast
    then show "y \<in> set (update_row (\<lambda>r. f r = k) g rows)"
    proof cases
      case 1
      with assms(2,3) show ?thesis unfolding update_row_def set_map by (intro image_eqI [of _ _ r]) simp_all
    next
      case 2
      with unique have "f y \<noteq> k" by blast
      with 2 show ?thesis unfolding update_row_def set_map by (intro image_eqI [of _ _ y]) simp_all
    qed
  qed
qed

lemma find_distinct:
  assumes "distinct (map f rows)" and "r \<in> set rows" and "f r = k"
  shows "find (\<lambda>r. f r = k) rows = Some r"
  using assms by (induction rows) auto

section \<open>Intents\<close>

definition set_status ::
  "paper_env \<Rightarrow> trade_intent_status \<Rightarrow> decimal option \<Rightarrow> json_object option \<Rightarrow> datetime option \<Rightarrow> trade_intent \<Rightarrow> trade_intent" where
  "set_status env status q reason t r =
     r\<lparr>ti_status := status, ti_updated_at := set_if t (utc_now env),
       ti_approved_quantity := set_if_some (money env q) (ti_approved_quantity r),
       ti_rejection_reason := set_if_some reason (ti_rejection_reason r)\<rparr>"

lemma set_status_fields [simp]:
  "ti_intent_id (set_status env s q rs t r) = ti_intent_id r" "ti_symbol (set_status env s q rs t r) = ti_symbol r"
  "ti_status (set_status env s q rs t r) = s" "ti_idempotency_key (set_status env s q rs t r) = ti_idempotency_key r"
  "ti_scheduled_fill_time (set_status env s q rs t r) = ti_scheduled_fill_time r"
  by (simp_all add: set_status_def)

lemma update_intent_status_eq:
  assumes "update_intent_status env k s q rs t db = ret (row, db')"
  shows "db' = db\<lparr>db_intents := update_row (\<lambda>r. ti_intent_id r = k) (set_status env s q rs t) (db_intents db)\<rparr>"
  using assms
  by (auto simp: update_intent_status_def Let_def set_status_def [abs_def] split: option.splits)

text \<open>The current row of an intent that is not terminal moves along the transition table.\<close>

lemma update_intent_status_step:
  assumes "update_intent_status env (ti_intent_id i) s q rs t db = ret (row, db')"
    and "distinct (map ti_intent_id (db_intents db))" and "i \<in> set (db_intents db)"
    and "ti_status i \<notin> TERMINAL_INTENT_STATUSES" and "intent_step\<^sup>*\<^sup>* (ti_status i) s"
  shows "evolves db db'" and "db_positions db' = db_positions db"
    and "set (db_intents db') = insert (set_status env s q rs t i) (set (db_intents db) - {i})"
    and "map ti_intent_id (db_intents db') = map ti_intent_id (db_intents db)"
proof -
  note eq = update_intent_status_eq [OF assms(1)]
  show mem: "set (db_intents db') = insert (set_status env s q rs t i) (set (db_intents db) - {i})"
    unfolding eq using update_row_mem [OF assms(2,3) refl, of "set_status env s q rs t"] by simp
  show "map ti_intent_id (db_intents db') = map ti_intent_id (db_intents db)" unfolding eq by (auto simp: update_row_def)
  show "db_positions db' = db_positions db" by (simp add: eq)
  have "intent_later i (set_status env s q rs t i)" using assms(4,5) by (simp add: intent_later_def)
  then have "\<exists>i' \<in> set (db_intents db'). intent_later j i'" if "j \<in> set (db_intents db)" for j
    using that by (cases "j = i") (auto simp: mem intro: intent_later_refl)
  then show "evolves db db'" by (auto simp: evolves_def eq intro: position_later_refl)
qed

lemma update_intent_status_ok:
  assumes "update_intent_status env (ti_intent_id i) s q rs t db = ret (row, db')"
    and "db_ok env db" and "i \<in> set (db_intents db)"
    and "ti_status i \<notin> TERMINAL_INTENT_STATUSES" and "intent_step\<^sup>*\<^sup>* (ti_status i) s"
  shows "db_ok env db' \<and> evolves db db'"
proof -
  have ids: "distinct (map ti_intent_id (db_intents db))" using assms(2) by (simp add: db_ok_def)
  note u = update_intent_status_step [OF assms(1) ids assms(3-5)]
  have "\<exists>j \<in> set (db_intents db'). filled_by j p" if "p \<in> set (db_positions db)" for p
  proof -
    from that assms(2) obtain j where j: "j \<in> set (db_intents db)" "filled_by j p" by (auto simp: db_ok_def)
    with assms(4) have "j \<noteq> i" by (auto simp: TERMINAL_INTENT_STATUSES_def)
    with j u(3) show ?thesis by auto
  qed
  with u assms(2) show ?thesis by (simp add: db_ok_def)
qed

section \<open>Positions\<close>

lemma stored_position_fix:
  "stored_position env p = p \<longleftrightarrow>
     numeric env (pp_quantity p) = pp_quantity p \<and> numeric env (pp_average_entry_price p) = pp_average_entry_price p \<and>
     numeric env (pp_initial_stop p) = pp_initial_stop p \<and> numeric env (pp_current_stop p) = pp_current_stop p \<and>
     numeric env (pp_highest_close_since_entry p) = pp_highest_close_since_entry p \<and>
     numeric env (pp_entry_atr14 p) = pp_entry_atr14 p \<and> numeric env (pp_realized_pnl p) = pp_realized_pnl p \<and>
     numeric env (pp_unrealized_pnl p) = pp_unrealized_pnl p \<and> numeric env (pp_margin_reserved p) = pp_margin_reserved p"
  by (cases p) (auto simp: stored_position_def)

lemma stored_stored: "numeric_ok env \<Longrightarrow> stored_position env (stored_position env p) = stored_position env p"
  unfolding stored_position_fix by (simp add: stored_position_def numeric_ok_def)

lemma position_checks_ret:
  "position_checks r others = ret () \<longleftrightarrow>
     0 < pp_quantity r \<and> 0 < pp_average_entry_price r \<and> 0 < pp_entry_atr14 r \<and> pp_initial_stop r \<le> pp_current_stop r \<and>
     1 \<le> pp_version r \<and> \<not> (is_open_position r \<and> (\<exists>x \<in> set others. pp_symbol x = pp_symbol r \<and> is_open_position x))"
  by (auto simp: position_checks_def list_ex_iff not_le not_less split: if_splits)

lemma distinct_filter_inj:
  assumes "distinct (map g rows)"
  shows "distinct (map f (filter P rows)) \<longleftrightarrow> inj_on f {x \<in> set rows. P x}"
  using assms by (simp add: distinct_map)

lemma db_ok_sets:
  "db_ok env db \<longleftrightarrow>
     distinct (map ti_intent_id (db_intents db)) \<and> distinct (map pp_position_id (db_positions db)) \<and>
     inj_on pp_symbol {p \<in> set (db_positions db). is_open_position p} \<and>
     inj_on pp_entry_intent_id (set (db_positions db)) \<and>
     (\<forall>p \<in> set (db_positions db). position_ok env p \<and> (\<exists>i \<in> set (db_intents db). filled_by i p))"
  using distinct_filter_inj [of pp_position_id "db_positions db" pp_symbol is_open_position]
    distinct_filter_inj [of pp_position_id "db_positions db" pp_entry_intent_id "\<lambda>_. True"]
  by (auto simp: db_ok_def)

text \<open>A filled intent opens its position.\<close>

lemma create_position_ret:
  assumes "create_position env row db = ret (p, db')"
  shows "db' = db\<lparr>db_positions := db_positions db @ [stored_position env row]\<rparr>"
    and "pp_position_id row \<notin> pp_position_id ` set (db_positions db)"
    and "position_checks (stored_position env row) (db_positions db) = ret ()"
    and "p = row" and "readable_position row"
  using assms
  by (auto simp: create_position_def Let_def list_ex_iff cbind_eq_ret position_row_to_domain_ret split: if_splits)

lemma open_position_ok:
  assumes num: "numeric_ok env" and ok: "db_ok env db" and i: "i \<in> set (db_intents db)" "ti_status i = TI_SUBMITTED"
    and row: "pp_entry_intent_id row = ti_intent_id i" "pp_symbol row = ti_symbol i" "pp_status row = PP_OPEN"
      "pp_closed_at row = None" "ti_symbol i \<in> ALLOWED_SYMBOLS"
    and create: "create_position env row db = ret (p, db1)"
    and fill: "update_intent_status env (ti_intent_id i) TI_FILLED q rs t db1 = ret (r, db2)"
  shows "db_ok env db2 \<and> evolves db db2"
proof -
  let ?s = "stored_position env row"
  have fields: "pp_entry_intent_id ?s = ti_intent_id i" "pp_symbol ?s = ti_symbol i" "pp_status ?s = PP_OPEN"
    "pp_closed_at ?s = None" "pp_position_id ?s = pp_position_id row" "pp_version ?s = pp_version row"
    using row by (simp_all add: stored_position_def)
  note c = create_position_ret [OF create]
  note sets = ok [unfolded db_ok_sets]
  have ids: "distinct (map ti_intent_id (db_intents db1))" and i1: "i \<in> set (db_intents db1)"
    using sets i(1) by (simp_all add: c(1))
  have path: "intent_step\<^sup>*\<^sup>* (ti_status i) TI_FILLED"
    unfolding i(2) by (intro r_into_rtranclp) (simp add: intent_step_iff validate_intent_transition_def transition_tables)
  note u = update_intent_status_step [OF fill ids i1 _ path, unfolded i(2), simplified TERMINAL_INTENT_STATUSES_def, simplified]
  have pos: "set (db_positions db2) = insert ?s (set (db_positions db))" using u(2) by (simp add: c(1))
  have new: "pp_entry_intent_id x \<noteq> ti_intent_id i" if "x \<in> set (db_positions db)" for x
  proof
    assume eq: "pp_entry_intent_id x = ti_intent_id i"
    from sets that obtain j where j: "j \<in> set (db_intents db)" "filled_by j x" by blast
    have "j = i" using j eq i(1) sets by (auto simp: distinct_map inj_on_def)
    with j i(2) show False by simp
  qed
  have checks: "\<not> (\<exists>x \<in> set (db_positions db). pp_symbol x = pp_symbol ?s \<and> is_open_position x)"
    using c(3) fields(3) unfolding position_checks_ret by (auto simp: is_open_position_def)
  have "position_ok env ?s"
    using c(3) fields row(5) stored_stored [OF num] unfolding position_checks_ret position_ok_def by simp
  moreover have "filled_by (set_status env TI_FILLED q rs t i) ?s" using fields by simp
  moreover have "\<exists>j \<in> set (db_intents db2). filled_by j x" if "x \<in> set (db_positions db)" for x
  proof -
    from sets that obtain j where "j \<in> set (db_intents db)" "filled_by j x" by blast
    moreover from this i(2) have "j \<noteq> i" by auto
    ultimately show ?thesis using u(3) by (auto simp: c(1))
  qed
  ultimately have rows: "\<forall>x \<in> set (db_positions db2). position_ok env x \<and> (\<exists>j \<in> set (db_intents db2). filled_by j x)"
    using sets u(3) unfolding pos by blast
  have "distinct (map pp_position_id (db_positions db2))" using sets c(2) u(2) fields(5) by (simp add: c(1))
  moreover have "inj_on pp_symbol {x \<in> set (db_positions db2). is_open_position x}"
    using sets checks unfolding pos inj_on_def by auto
  moreover have "inj_on pp_entry_intent_id (set (db_positions db2))"
  proof -
    have "pp_entry_intent_id ?s \<notin> pp_entry_intent_id ` (set (db_positions db) - {?s})"
      unfolding fields(1) using new by fastforce
    with sets show ?thesis unfolding pos inj_on_insert by blast
  qed
  moreover have "distinct (map ti_intent_id (db_intents db2))" using sets u(4) by (simp add: c(1))
  ultimately have "db_ok env db2" using rows unfolding db_ok_sets by blast
  moreover have "evolves db db1" by (auto simp: evolves_def c(1) intro: position_later_refl intent_later_refl)
  ultimately show ?thesis using u(1) evolves_trans by blast
qed

text \<open>A change of an open position that keeps what identifies it and does not lower its stop.\<close>

definition allowed_change :: "paper_position \<Rightarrow> paper_position \<Rightarrow> bool" where
  "allowed_change p q \<longleftrightarrow> pp_status p \<noteq> PP_CLOSED \<and> position_later p q \<and> (pp_status q = PP_CLOSED \<longleftrightarrow> pp_closed_at q \<noteq> None)"

lemma flush_position_ok:
  assumes num: "numeric_ok env" and ok: "db_ok env db" and p: "p \<in> set (db_positions db)"
    and change: "allowed_change p (change p)" and flush: "flush_position env (pp_position_id p) change db = ret (u, db')"
  shows "db_ok env db'" and "evolves db db'" and "stored_position env (change p) \<in> set (db_positions db')"
    and "db_intents db' = db_intents db"
proof -
  let ?q = "stored_position env (change p)"
  note sets = ok [unfolded db_ok_sets]
  have fp: "find (\<lambda>r. pp_position_id r = pp_position_id p) (db_positions db) = Some p"
    using sets p by (intro find_distinct) auto
  have pok: "position_ok env p" using sets p by blast
  have keep: "pp_position_id ?q = pp_position_id p" "pp_symbol ?q = pp_symbol p" "pp_quantity ?q = pp_quantity p"
    "pp_average_entry_price ?q = pp_average_entry_price p" "pp_initial_stop ?q = pp_initial_stop p"
    "pp_entry_atr14 ?q = pp_entry_atr14 p" "pp_entry_intent_id ?q = pp_entry_intent_id p" "pp_opened_at ?q = pp_opened_at p"
    and status: "pp_status ?q = PP_CLOSED \<longleftrightarrow> pp_closed_at ?q \<noteq> None"
    using change pok unfolding allowed_change_def position_later_def position_ok_def stored_position_fix
    by (auto simp: stored_position_def)
  have stop: "pp_current_stop p \<le> pp_current_stop ?q"
  proof -
    have "numeric env (pp_current_stop p) \<le> numeric env (pp_current_stop (change p))"
      using change num by (auto simp: allowed_change_def position_later_def numeric_ok_def mono_def)
    then show ?thesis using pok unfolding position_ok_def stored_position_fix by (simp add: stored_position_def)
  qed
  have later: "position_later p ?q" using keep stop change by (simp add: position_later_def allowed_change_def)
  have chk: "position_checks ?q (filter (\<lambda>r. pp_position_id r \<noteq> pp_position_id p) (db_positions db)) = ret ()"
    and db': "db' = db\<lparr>db_positions := update_row (\<lambda>r. pp_position_id r = pp_position_id p) (\<lambda>_. ?q) (db_positions db)\<rparr>"
    using flush by (auto simp: flush_position_def fp Let_def cbind_eq_ret)
  have pos: "set (db_positions db') = insert ?q (set (db_positions db) - {p})"
    using update_row_mem [of pp_position_id "db_positions db" p "pp_position_id p" "\<lambda>_. ?q"] sets p by (simp add: db')
  show "db_intents db' = db_intents db" by (simp add: db')
  show "?q \<in> set (db_positions db')" by (simp add: pos)
  have open_p: "is_open_position p" using change by (cases "pp_status p") (auto simp: is_open_position_def allowed_change_def)
  have "position_ok env ?q"
    using chk status keep(2) pok stored_stored [OF num] unfolding position_checks_ret position_ok_def by simp
  moreover have "\<exists>i \<in> set (db_intents db). filled_by i ?q" using sets p keep by auto
  ultimately have rows: "\<forall>x \<in> set (db_positions db'). position_ok env x \<and> (\<exists>j \<in> set (db_intents db'). filled_by j x)"
    using sets unfolding pos by (auto simp: db')
  have "map pp_position_id (db_positions db') = map pp_position_id (db_positions db)"
    unfolding db' using keep(1) by (simp add: update_row_id)
  moreover have "inj_on pp_symbol {x \<in> set (db_positions db'). is_open_position x}"
    using sets p open_p keep(2) unfolding pos inj_on_def by auto
  moreover have "inj_on pp_entry_intent_id (set (db_positions db'))"
    using sets p keep(7) unfolding pos inj_on_def by auto
  ultimately show "db_ok env db'" using sets rows unfolding db_ok_sets by (simp add: db')
  show "evolves db db'"
    unfolding evolves_def pos by (auto simp: db' intro: later position_later_refl intent_later_refl)
qed

section \<open>Fills\<close>

text \<open>
  The state during an operation that began in \<open>db0\<close>: the invariant holds, \<open>db0\<close> has only evolved, and
  the rows the operation works on, here a predicate on intents and positions, are still there.
\<close>

definition during :: "paper_env \<Rightarrow> (trade_intent list \<Rightarrow> paper_position list \<Rightarrow> bool) \<Rightarrow> paper_db \<Rightarrow> paper_db \<Rightarrow> bool" where
  "during env I db0 db \<longleftrightarrow> db_ok env db \<and> evolves db0 db \<and> I (db_intents db) (db_positions db)"

abbreviation safe_from :: "paper_env \<Rightarrow> paper_db \<Rightarrow> paper_db \<Rightarrow> bool" where
  "safe_from env db0 db \<equiv> db_ok env db \<and> evolves db0 db"

lemma during_core: "during env I db0 db \<Longrightarrow> same_core db db' \<Longrightarrow> during env I db0 db'"
  using same_core_ok same_core_evolves evolves_trans unfolding during_def by (metis same_core_def)

lemma during_safe: "during env I db0 db \<Longrightarrow> safe_from env db0 db"
  by (simp add: during_def)

lemma wlp_core:
  "core.stays m \<Longrightarrow> during env I db0 db \<Longrightarrow> (\<And>x db'. during env I db0 db' \<Longrightarrow> Q x db') \<Longrightarrow> wlp m Q db"
  by (erule core.wlp_stays) (meson during_core)

lemma wlp_core_bind:
  "core.stays m \<Longrightarrow> during env I db0 db \<Longrightarrow> (\<And>x db'. during env I db0 db' \<Longrightarrow> wlp (f x) Q db') \<Longrightarrow>
   wlp (db_bind m f) Q db"
  unfolding wlp_bind by (rule wlp_core)

lemma wlp_core_safe: "core.stays m \<Longrightarrow> during env I db0 db \<Longrightarrow> wlp m (\<lambda>_. safe_from env db0) db"
  by (rule wlp_core) (auto simp: during_def)

text \<open>The row of an intent that is being filled.\<close>

abbreviation submitted :: "trade_intent \<Rightarrow> trade_intent list \<Rightarrow> paper_position list \<Rightarrow> bool" where
  "submitted intent \<equiv> \<lambda>is ps. \<exists>i \<in> set is. ti_intent_id i = ti_intent_id intent \<and> ti_symbol i = ti_symbol intent \<and>
     ti_status i = TI_SUBMITTED"

lemma fill_opens_position:
  assumes "numeric_ok env" and "ti_symbol intent \<in> ALLOWED_SYMBOLS" and "during env (submitted intent) db0 db"
    and "pp_entry_intent_id row = ti_intent_id intent" "pp_symbol row = ti_symbol intent" "pp_status row = PP_OPEN"
      "pp_closed_at row = None"
    and "\<And>p r db'. during env (\<lambda>_ _. True) db0 db' \<Longrightarrow> wlp (f p r) Q db'"
  shows "wlp (db_bind (create_position env row)
           (\<lambda>p. db_bind (update_intent_status env (ti_intent_id intent) TI_FILLED q rs t) (f p))) Q db"
  unfolding wlp_def db_bind_ret
proof (intro allI impI)
  fix y db3
  assume "\<exists>p db1. create_position env row db = ret (p, db1) \<and>
    (\<exists>r db2. update_intent_status env (ti_intent_id intent) TI_FILLED q rs t db1 = ret (r, db2) \<and> f p r db2 = ret (y, db3))"
  then obtain p db1 r db2 where c: "create_position env row db = ret (p, db1)"
    and u: "update_intent_status env (ti_intent_id intent) TI_FILLED q rs t db1 = ret (r, db2)"
    and y: "f p r db2 = ret (y, db3)" by blast
  from assms(3) obtain i where ok: "db_ok env db" and ev: "evolves db0 db" and i: "i \<in> set (db_intents db)"
    "ti_intent_id i = ti_intent_id intent" "ti_symbol i = ti_symbol intent" "ti_status i = TI_SUBMITTED"
    unfolding during_def by blast
  have "db_ok env db2 \<and> evolves db db2"
    using open_position_ok [OF assms(1) ok i(1,4) _ _ assms(6,7) _ c u [folded i(2)]] assms(2,4,5) i(2,3) by simp
  then have "during env (\<lambda>_ _. True) db0 db2" using ev evolves_trans unfolding during_def by blast
  with assms(8) y show "Q y db3" unfolding wlp_def by blast
qed

lemma book_entry_safe:
  assumes "numeric_ok env" and "ti_symbol intent \<in> ALLOWED_SYMBOLS" and "during env (submitted intent) db0 db"
  shows "wlp (book_entry env intent calc t atr cid order created fill) (\<lambda>_. safe_from env db0) db"
  unfolding book_entry_def
proof (rule wlp_core_bind [OF core_update_wallet assms(3)], rule wlp_core_bind [OF core_uuid4], assumption)
  fix position_id db'
  assume d: "during env (submitted intent) db0 db'"
  show "wlp (db_bind (create_position env (new_position_row intent calc atr t position_id)) (\<lambda>position.
      db_bind (update_intent_status env (ti_intent_id intent) TI_FILLED (Some (en_quantity calc)) None None) (\<lambda>updated_intent.
      db_bind (append_audit_event env e1 e2 e3 e4 cid None) (\<lambda>_. db_ret (result position updated_intent)))))
      (\<lambda>_. safe_from env db0) db'" for e1 e2 e3 e4 result
    by (rule fill_opens_position [OF assms(1,2) d])
       (auto simp: new_position_row_def Let_def intro!: wlp_core_safe [where I = "\<lambda>_ _. True"] core_rules)
qed

lemma persist_safe:
  assumes "numeric_ok env" and "ti_symbol intent \<in> ALLOWED_SYMBOLS" and "during env (submitted intent) db0 db"
  shows "wlp (persist_successful_fill env intent calc open_ref t atr cid) (\<lambda>_. safe_from env db0) db"
  unfolding persist_successful_fill_def
proof (rule wlp_core_bind [OF core_uuid4 assms(3)], rule wlp_core_bind [OF core_paper_order], assumption,
    split prod.split, intro allI impI, rule wlp_core_bind [OF core_uuid4], assumption,
    rule wlp_core_bind [OF core_paper_fill], assumption, split prod.split, intro allI impI)
  show "wlp (if \<not> created then fill_already_made intent fill order
        else book_entry env intent calc t atr cid order order_created fill) (\<lambda>_. safe_from env db0) db2"
    if "during env (submitted intent) db0 db2" for created fill order order_created db2
    using that wlp_core_safe [OF core_reads(8)] book_entry_safe [OF assms(1,2)] by simp
qed

text \<open>A change of status of the current row of an intent.\<close>

lemma status_change_safe:
  assumes "during env (\<lambda>is _. i \<in> set is) db0 db" and "ti_intent_id i = k"
    and "ti_status i \<notin> TERMINAL_INTENT_STATUSES" and "intent_step\<^sup>*\<^sup>* (ti_status i) s"
  shows "wlp (update_intent_status env k s q rs t)
    (\<lambda>_. during env (\<lambda>is _. \<exists>j \<in> set is. ti_intent_id j = k \<and> ti_symbol j = ti_symbol i \<and> ti_status j = s) db0) db"
  unfolding wlp_def
proof (intro allI impI)
  fix r db'
  assume "update_intent_status env k s q rs t db = ret (r, db')"
  then have u: "update_intent_status env (ti_intent_id i) s q rs t db = ret (r, db')" by (simp only: assms(2))
  have ok: "db_ok env db" and ev: "evolves db0 db" and i: "i \<in> set (db_intents db)" using assms(1) by (simp_all add: during_def)
  have ids: "distinct (map ti_intent_id (db_intents db))" using ok by (simp add: db_ok_def)
  have "set_status env s q rs t i \<in> set (db_intents db')"
    using update_intent_status_step(3) [OF u ids i assms(3,4)] by simp
  moreover have "db_ok env db' \<and> evolves db db'" by (rule update_intent_status_ok [OF u ok i assms(3,4)])
  ultimately show "during env (\<lambda>is _. \<exists>j \<in> set is. ti_intent_id j = k \<and> ti_symbol j = ti_symbol i \<and> ti_status j = s) db0 db'"
    using evolves_trans [OF ev] assms(2) unfolding during_def
    by (intro conjI bexI [of _ "set_status env s q rs t i"]) simp_all
qed

lemma step_of_submitted: "s \<in> {TI_FILLED, TI_REJECTED, TI_FAILED} \<Longrightarrow> intent_step\<^sup>*\<^sup>* TI_SUBMITTED s"
  by (intro r_into_rtranclp) (auto simp: intent_step_iff validate_intent_transition_def transition_tables)

lemma reject_entry_safe:
  assumes "during env (submitted intent) db0 db"
  shows "wlp (reject_entry env intent cid rej) (\<lambda>_. safe_from env db0) db"
proof -
  from assms obtain i where i: "during env (\<lambda>is _. i \<in> set is) db0 db" "ti_intent_id i = ti_intent_id intent"
    "ti_status i = TI_SUBMITTED" unfolding during_def by blast
  have "ti_status i \<notin> TERMINAL_INTENT_STATUSES" "intent_step\<^sup>*\<^sup>* (ti_status i) TI_REJECTED"
    using step_of_submitted by (simp_all add: i(3) TERMINAL_INTENT_STATUSES_def)
  note u = status_change_safe [OF i(1,2) this]
  show ?thesis
    unfolding reject_entry_def wlp_bind [of "update_intent_status _ _ _ _ _ _"]
    by (rule wlp_mono [OF u]) (erule wlp_core_safe [rotated], intro core_rules)
qed

lemma wlp_option:
  "(y = None \<Longrightarrow> wlp m Q db) \<Longrightarrow> (\<And>x. y = Some x \<Longrightarrow> wlp (f x) Q db) \<Longrightarrow> wlp (case y of None \<Rightarrow> m | Some x \<Rightarrow> f x) Q db"
  by (cases y) simp_all

lemma wlp_if: "(P \<Longrightarrow> wlp m Q db) \<Longrightarrow> (\<not> P \<Longrightarrow> wlp n Q db) \<Longrightarrow> wlp (if P then m else n) Q db"
  by simp

lemma wlp_prod: "(\<And>a b. p = (a, b) \<Longrightarrow> wlp (f a b) Q db) \<Longrightarrow> wlp (case p of (a, b) \<Rightarrow> f a b) Q db"
  by (cases p) simp

lemma safe_ret: "during env I db0 db \<Longrightarrow> wlp (db_ret x) (\<lambda>_. safe_from env db0) db"
  by (simp add: wlp_ret during_def)

lemma safe_raise: "wlp (db_raise e) (\<lambda>_. safe_from env db0) db"
  by (rule wlp_raise)

lemma safe_then_ret: "wlp m (\<lambda>_. safe_from env db0) db \<Longrightarrow> wlp (db_bind m (\<lambda>x. db_ret (f x))) (\<lambda>_. safe_from env db0) db"
  by (auto simp: wlp_def db_bind_ret db_ret_def)

lemmas wlp_rules = wlp_option wlp_if wlp_prod safe_raise

lemma execute_fill_safe:
  assumes "numeric_ok env" and "ti_symbol intent \<in> ALLOWED_SYMBOLS" and "during env (submitted intent) db0 db"
  shows "wlp (execute_scheduled_paper_fill env risk ctx processed pending cid intent) (\<lambda>_. safe_from env db0) db"
  unfolding execute_scheduled_paper_fill_def
  apply (rule wlp_core_bind [OF core.stays_lift assms(3)])
  apply (rule wlp_core_bind [OF core_load_existing], assumption)
  apply (rule wlp_option)
   prefer 2 apply (erule safe_ret)
  apply (rule wlp_core_bind [OF core_reads(3)], assumption)
  apply (rule wlp_if, erule safe_ret)
  apply (rule wlp_core_bind [OF core_reads(1)], assumption)
  apply (rule wlp_option, rule safe_raise)
  apply (rule wlp_core_bind [OF core.stays_lift], assumption)
  subgoal for _ _ _ _ _ _ _ _ _ calc
    by (cases calc) (simp_all add: reject_entry_safe safe_then_ret persist_safe [OF assms(1,2)])
  done

section \<open>The intents of an open\<close>

text \<open>The operations on one intent leave the rows of the others alone.\<close>

definition others_kept :: "uuid \<Rightarrow> paper_db \<Rightarrow> paper_db \<Rightarrow> bool" where
  "others_kept k db db' \<longleftrightarrow> (\<forall>j \<in> set (db_intents db). ti_intent_id j \<noteq> k \<longrightarrow> j \<in> set (db_intents db'))"

interpretation others: db_preorder "others_kept k" for k
  by unfold_locales (auto simp: others_kept_def)

lemma others_core: "core.stays m \<Longrightarrow> others.stays k m"
  by (rule others.staysI) (drule core.staysD, assumption, simp add: same_core_def others_kept_def)

lemma others_status: "others.stays k (update_intent_status env k s q rs t)"
proof (rule others.staysI)
  fix db r db'
  assume "update_intent_status env k s q rs t db = ret (r, db')"
  from update_intent_status_eq [OF this] show "others_kept k db db'" by (auto simp: others_kept_def update_row_def)
qed

lemma others_create: "others.stays k (create_position env row)"
  by (rule others.staysI) (auto simp: others_kept_def dest!: create_position_ret(1))

lemmas others_rules = others.stays_rules others_status others_create
  core_uuid4 [THEN others_core] core_update_wallet [THEN others_core] core_paper_order [THEN others_core]
  core_paper_fill [THEN others_core] core_audit [THEN others_core] core_reads [THEN others_core]
  core_load_existing [THEN others_core] core_authorization [THEN others_core] core_pending_batch [THEN others_core]

lemma others_execute: "others.stays (ti_intent_id intent) (execute_scheduled_paper_fill env risk ctx processed pending cid intent)"
proof -
  have "others.stays (ti_intent_id intent) (book_entry env intent calc t atr cid order created fill)" for calc t atr order created fill
    unfolding book_entry_def by (intro others_rules)
  note book = this
  have persist: "others.stays (ti_intent_id intent) (persist_successful_fill env intent calc r t atr cid)" for calc r t atr
    unfolding persist_successful_fill_def by (intro others_rules book)
  have reject: "others.stays (ti_intent_id intent) (reject_entry env intent cid rej)" for rej
    unfolding reject_entry_def by (intro others_rules)
  have outcome: "others.stays (ti_intent_id intent) (case calc of EntryExecutionRejected rej \<Rightarrow> reject_entry env intent cid rej
      | EntryExecutionApproved app \<Rightarrow> db_bind (persist_successful_fill env intent app r t atr cid) (\<lambda>res. db_ret (FillDone res)))"
    for calc r t atr
    by (cases calc) (auto intro!: others_rules persist reject)
  show ?thesis unfolding execute_scheduled_paper_fill_def by (intro others_rules outcome)
qed

lemma others_due: "others.stays (ti_intent_id intent) (process_due_intent env risk config ready cid t s ctx ctxs processed intent)"
  unfolding process_due_intent_def by (intro others_rules others_execute)

lemma validated_path: "validate_intent_transition s t = ret () \<Longrightarrow> intent_step\<^sup>*\<^sup>* s t"
  by (cases "s = t") (auto intro: intent_step.intros)

definition due_intent :: "trade_intent \<Rightarrow> bool" where
  "due_intent i \<longleftrightarrow> ti_status i \<in> {TI_SCHEDULED, TI_SUBMITTED} \<and> ti_symbol i \<in> ALLOWED_SYMBOLS"

lemma due_intent_safe:
  assumes "numeric_ok env" and "due_intent i" and "during env (\<lambda>is _. i \<in> set is) db0 db"
  shows "wlp (process_due_intent env risk config ready cid t s ctx ctxs processed i) (\<lambda>_. safe_from env db0) db"
proof -
  have open_status: "ti_status i \<notin> TERMINAL_INTENT_STATUSES" and symbol: "ti_symbol i \<in> ALLOWED_SYMBOLS"
    using assms(2) by (auto simp: due_intent_def TERMINAL_INTENT_STATUSES_def)
  note change = status_change_safe [OF _ refl open_status validated_path]
  have cancel: "wlp (db_bind (db_lift (validate_intent_transition (ti_status i) TI_CANCELLED)) (\<lambda>_.
      db_bind (update_intent_status env (ti_intent_id i) TI_CANCELLED None rs u) (\<lambda>_. db_ret (None :: fill_outcome option))))
      (\<lambda>_. safe_from env db0) db'" if "during env (\<lambda>is _. i \<in> set is) db0 db'" for rs u db'
    unfolding wlp_bind wlp_lift
    using change [OF that] by (auto simp: wlp_ret intro!: wlp_mono [OF change [OF that]] dest: during_safe)
  have submit: "wlp (db_bind (db_lift (validate_intent_transition (ti_status i) TI_SUBMITTED)) (\<lambda>_.
      db_bind (update_intent_status env (ti_intent_id i) TI_SUBMITTED None None u) (\<lambda>_.
      db_bind (pending_intents_for_open_batch env v s ctxs processed) (\<lambda>pending.
      db_bind (execute_scheduled_paper_fill env risk ctx processed pending cid i) (\<lambda>outcome. db_ret (Some outcome))))))
      (\<lambda>_. safe_from env db0) db'" if "during env (\<lambda>is _. i \<in> set is) db0 db'" for u v db'
    unfolding wlp_bind [of "db_lift _"] wlp_lift wlp_bind [of "update_intent_status _ _ _ _ _ _"]
  proof (intro allI impI, rule wlp_mono [OF change [OF that]])
    fix x y db1
    assume "validate_intent_transition (ti_status i) TI_SUBMITTED = ret x"
    then show "validate_intent_transition (ti_status i) TI_SUBMITTED = ret ()" by simp
    assume d: "during env (\<lambda>is _. \<exists>j \<in> set is. ti_intent_id j = ti_intent_id i \<and> ti_symbol j = ti_symbol i \<and>
      ti_status j = TI_SUBMITTED) db0 db1"
    show "wlp (db_bind (pending_intents_for_open_batch env v s ctxs processed) (\<lambda>pending.
      db_bind (execute_scheduled_paper_fill env risk ctx processed pending cid i) (\<lambda>outcome. db_ret (Some outcome))))
      (\<lambda>_. safe_from env db0) db1"
      by (rule wlp_core_bind [OF core_pending_batch d]) (rule safe_then_ret, rule execute_fill_safe [OF assms(1) symbol])
  qed
  show ?thesis
    unfolding process_due_intent_def
    by (rule wlp_core_bind [OF core_authorization assms(3)]) (rule wlp_if, erule cancel, erule submit)
qed

lemma scheduled_intents_due:
  assumes "db_ok env db" and "s \<in> ALLOWED_SYMBOLS" and "get_scheduled_intents_for_symbol s t db = ret (todo, db')"
  shows "db' = db \<and> (\<forall>i \<in> set todo. due_intent i) \<and> distinct (map ti_intent_id todo) \<and> set todo \<subseteq> set (db_intents db)"
proof -
  let ?P = "\<lambda>r. ti_symbol r = s \<and> ti_scheduled_fill_time r = t \<and> ti_status r \<in> {TI_SCHEDULED, TI_SUBMITTED}"
  have todo: "todo = sort_key ti_created_at (filter ?P (db_intents db))" and same: "db' = db"
    using assms(3) by (auto simp: get_scheduled_intents_for_symbol_def db_read_def)
  have ids: "distinct (map ti_intent_id (db_intents db))" using assms(1) by (simp add: db_ok_def)
  then have "inj_on ti_intent_id (set todo)" and "distinct todo"
    by (auto simp: todo distinct_map inj_on_def)
  then have "distinct (map ti_intent_id todo)" by (simp add: distinct_map)
  then show ?thesis using assms(2) by (auto simp: same todo due_intent_def)
qed

section \<open>New intents\<close>

lemma insert_intent_safe:
  assumes "insert_or_get_trade_intent env row db = ret (x, db')" and "db_ok env db"
  shows "db_ok env db' \<and> evolves db db'"
proof -
  define stored where "stored = row\<lparr>ti_requested_entry := numeric env (ti_requested_entry row),
    ti_requested_stop := numeric env (ti_requested_stop row), ti_requested_quantity := money env (ti_requested_quantity row),
    ti_approved_quantity := money env (ti_approved_quantity row), ti_risk_amount := money env (ti_risk_amount row)\<rparr>"
  have id: "ti_intent_id stored = ti_intent_id row" by (simp add: stored_def)
  consider "db' = db" | "db' = db\<lparr>db_intents := db_intents db @ [stored]\<rparr>"
      "\<forall>r \<in> set (db_intents db). ti_intent_id r \<noteq> ti_intent_id row"
    using assms(1) unfolding insert_or_get_trade_intent_def Let_def stored_def [symmetric]
    by (auto simp: list_ex_iff split: option.splits if_splits)
  then show ?thesis
  proof cases
    case 1
    then show ?thesis using assms(2) evolves_refl by simp
  next
    case 2
    then show ?thesis using assms(2) id
      by (auto simp: db_ok_def evolves_def intro: intent_later_refl position_later_refl)
  qed
qed

lemma create_intent_safe:
  assumes "db_ok env db" and "create_intent_from_evaluation env ev se gates config t u ready db = ret (x, db')"
  shows "db_ok env db' \<and> evolves db db'"
proof -
  have start: "during env (\<lambda>_ _. True) db db" using assms(1) evolves_refl by (simp add: during_def)
  have insert: "wlp (db_bind (insert_or_get_trade_intent env row) (\<lambda>(intent, created). db_ret (Some intent, created, [])))
      (\<lambda>_. safe_from env db) d" if "during env (\<lambda>_ _. True) db d" for row d
  proof -
    have "wlp (insert_or_get_trade_intent env row) (\<lambda>_. safe_from env db) d"
      unfolding wlp_def using insert_intent_safe during_safe [OF that] evolves_trans by blast
    then show ?thesis by (auto simp: wlp_def db_bind_ret db_ret_def split: prod.splits)
  qed
  have "wlp (create_intent_from_evaluation env ev se gates config t u ready) (\<lambda>_. safe_from env db) db"
    unfolding create_intent_from_evaluation_def Let_def
    apply (rule wlp_core_bind [OF core_authorization start])
    apply (rule wlp_if, erule safe_ret)
    apply (cases "selected_entry_type se"; cases "si_entry_price (ev_signal_intent se)"; cases "si_stop_initial (ev_signal_intent se)")
           apply (simp_all only: option.case prod.case wlp_raise)
    apply (rule wlp_core_bind [OF core_uuid4], assumption)
    apply (erule insert)
    done
  with assms(2) show ?thesis unfolding wlp_def by blast
qed

section \<open>Stops\<close>

lemma scalar_one_ret:
  "scalar_one_or_none rows = ret (Some x) \<longleftrightarrow> rows = [x]" "scalar_one_or_none rows = ret None \<longleftrightarrow> rows = []"
  unfolding scalar_one_or_none_def by (simp_all split: list.split)

lemma db_read_ret: "db_read f db = ret (x, db') \<longleftrightarrow> f db = ret x \<and> db' = db"
  unfolding db_read_def cbind_eq_ret by auto

lemma open_position_for_symbol_ret:
  assumes "get_open_position_for_symbol s db = ret (Some p, db')"
  shows "db' = db \<and> p \<in> set (db_positions db) \<and> is_open_position p \<and> pp_symbol p = s"
proof -
  let ?rows = "filter (\<lambda>r. pp_symbol r = s \<and> is_open_position r) (db_positions db)"
  let ?f = "\<lambda>y. case y of None \<Rightarrow> ret None | Some row \<Rightarrow> cbind (position_row_to_domain row) (\<lambda>p. ret (Some p))"
  have f: "?f y = ret (Some p) \<Longrightarrow> y = Some p" for y
    by (cases y) (simp_all add: cbind_eq_ret position_row_to_domain_ret)
  from assms have c: "cbind (scalar_one_or_none ?rows) ?f = ret (Some p)" and same: "db' = db"
    unfolding get_open_position_for_symbol_def db_read_ret by blast+
  from c obtain y where "scalar_one_or_none ?rows = ret y" "?f y = ret (Some p)" by (rule cbind_retE)
  with f have "scalar_one_or_none ?rows = ret (Some p)" by metis
  then have "?rows = [p]" by (rule scalar_one_ret(1) [THEN iffD1])
  then have "p \<in> set ?rows" by (metis list.set_intros(1))
  with same show ?thesis unfolding set_filter mem_Collect_eq by blast
qed

lemma flush_safe:
  assumes "numeric_ok env" and "during env (\<lambda>_ ps. p \<in> set ps) db0 db" and "allowed_change p (change p)"
  shows "wlp (flush_position env (pp_position_id p) change)
    (\<lambda>_. during env (\<lambda>_ ps. stored_position env (change p) \<in> set ps) db0) db"
  unfolding wlp_def
proof (intro allI impI)
  fix u db'
  assume f: "flush_position env (pp_position_id p) change db = ret (u, db')"
  have "db_ok env db" "p \<in> set (db_positions db)" "evolves db0 db" using assms(2) by (simp_all add: during_def)
  with flush_position_ok [OF assms(1) _ _ assms(3) f] evolves_trans
  show "during env (\<lambda>_ ps. stored_position env (change p) \<in> set ps) db0 db'" by (auto simp: during_def)
qed

lemma raise_stop_safe:
  assumes "numeric_ok env" and "during env (\<lambda>_ ps. p \<in> set ps) db0 db" and "is_open_position p"
    and "position_ok env p" and "pp_current_stop p \<le> ts_effective_stop st"
  shows "wlp (raise_stop env t cid p atr st) (\<lambda>_. safe_from env db0) db"
  unfolding raise_stop_def
proof (rule wlp_core_bind [OF core_uuid4 assms(2)], rule wlp_core_bind [OF core_stop_event], assumption,
    rule wlp_prod, rule wlp_if, erule safe_ret)
  let ?c = "\<lambda>row. row\<lparr>pp_current_stop := ts_effective_stop st, pp_highest_close_since_entry := ts_highest_close st,
    pp_version := pp_version row + 1\<rparr>"
  have open_p: "pp_status p \<noteq> PP_CLOSED" using assms(3) by (auto simp: is_open_position_def)
  have allowed: "allowed_change p (?c p)"
    using open_p assms(4,5) by (simp add: allowed_change_def position_later_def position_ok_def)
  show "wlp (db_bind (flush_position env (pp_position_id p) ?c) (\<lambda>_.
      db_bind (append_audit_event env e1 e2 e3 e4 cid e5) (\<lambda>_. db_ret True))) (\<lambda>_. safe_from env db0) db'"
    if "during env (\<lambda>_ ps. p \<in> set ps) db0 db'" for db' e1 e2 e3 e4 e5
    unfolding wlp_bind [of "flush_position _ _ _"]
    by (rule wlp_mono [OF flush_safe [where change = ?c, OF assms(1) that allowed]]) (erule wlp_core_safe [rotated], intro core_rules)
qed

text \<open>The two flushes of a closing: the row becomes \<open>CLOSING\<close>, then \<open>CLOSED\<close>.\<close>

lemma close_position_safe:
  assumes "numeric_ok env" and "during env (\<lambda>_ ps. p \<in> set ps) db0 db" and "is_open_position p" and "position_ok env p"
  shows "wlp (close_position env p trigger xa t cid) (\<lambda>_. safe_from env db0) db"
proof -
  let ?q = "p\<lparr>pp_status := PP_CLOSING\<rparr>"
  let ?c = "\<lambda>r. r\<lparr>pp_status := PP_CLOSED, pp_closed_at := Some t, pp_realized_pnl := dsub (xa_gross_pnl xa) (xa_fee xa),
    pp_unrealized_pnl := 0, pp_margin_reserved := 0, pp_version := pp_version r + 1\<rparr>"
  have open_p: "pp_status p \<noteq> PP_CLOSED" using assms(3) by (auto simp: is_open_position_def)
  then have "pp_closed_at p = None" using assms(4) by (simp add: position_ok_def)
  with open_p have closing: "allowed_change p ?q" and closed: "allowed_change ?q (?c ?q)"
    by (simp_all add: allowed_change_def position_later_def)
  have q: "stored_position env ?q = ?q" using assms(4) unfolding position_ok_def stored_position_fix by simp
  note first = flush_safe [where change = "\<lambda>r. r\<lparr>pp_status := PP_CLOSING\<rparr>", OF assms(1) _ closing, unfolded q]
  have id: "pp_position_id ?q = pp_position_id p" by simp
  note second = flush_safe [where p = ?q and change = ?c, OF assms(1) _ closed, unfolded id]
  have "wlp (db_bind (flush_position env (pp_position_id p) (\<lambda>r. r\<lparr>pp_status := PP_CLOSING\<rparr>)) (\<lambda>_.
      db_bind (update_wallet env w1 w2 w3 w4 w5 w6 w7) (\<lambda>_.
      db_bind (flush_position env (pp_position_id p) ?c) (\<lambda>_.
      db_bind (append_audit_event env e1 e2 e3 e4 cid e5) (\<lambda>_. db_ret True))))) (\<lambda>_. safe_from env db0) db1"
    if d: "during env (\<lambda>_ ps. p \<in> set ps) db0 db1" for db1 w1 w2 w3 w4 w5 w6 w7 e1 e2 e3 e4 e5
    unfolding wlp_bind [of "flush_position _ _ _"]
    by (rule wlp_mono [OF first [OF d]], rule wlp_core_bind [OF core_update_wallet], assumption,
        unfold wlp_bind [of "flush_position _ _ _"], rule wlp_mono [OF second], assumption,
        erule wlp_core_safe [rotated], intro core_rules)
  note flushes = this
  have stay: "wlp (db_ret x) (\<lambda>_. safe_from env db0) db1" if "during env (\<lambda>_ ps. p \<in> set ps) db0 db1" for db1 and x :: bool
    using that by (simp add: wlp_ret during_def)
  show ?thesis
    unfolding close_position_def
    by (rule wlp_core_bind [OF core_reads(5) assms(2)], intro wlp_option wlp_if, erule stay, erule stay,
        rule wlp_core_bind [OF core_uuid4], assumption, rule wlp_core_bind [OF core_paper_fill], assumption,
        intro wlp_prod wlp_if, erule stay, erule flushes)
qed

section \<open>What the invariant and the history say of the rows\<close>

lemma open_positions_bound:
  assumes "db_ok env db"
  shows "length (filter is_open_position (db_positions db)) \<le> 3"
proof -
  let ?open = "filter is_open_position (db_positions db)"
  have "set (map pp_symbol ?open) \<subseteq> ALLOWED_SYMBOLS" using assms by (auto simp: db_ok_def position_ok_def)
  then have "card (set (map pp_symbol ?open)) \<le> card ALLOWED_SYMBOLS"
    by (rule card_mono [rotated]) (simp add: ALLOWED_SYMBOLS_def)
  also have "card ALLOWED_SYMBOLS = 3" by (simp add: ALLOWED_SYMBOLS_def)
  finally show ?thesis using distinct_card [of "map pp_symbol ?open"] assms by (simp add: db_ok_def)
qed

lemma position_later_fields:
  "position_later p p' \<Longrightarrow> pp_position_id p' = pp_position_id p \<and> pp_quantity p' = pp_quantity p \<and>
   pp_average_entry_price p' = pp_average_entry_price p \<and> pp_initial_stop p' = pp_initial_stop p \<and>
   pp_entry_intent_id p' = pp_entry_intent_id p \<and> pp_current_stop p \<le> pp_current_stop p' \<and>
   (pp_status p = PP_CLOSED \<longrightarrow> p' = p)"
  unfolding position_later_def by (cases "pp_status p = PP_CLOSED") simp_all

lemma intent_later_fields:
  "intent_later i i' \<Longrightarrow> ti_intent_id i' = ti_intent_id i \<and> ti_symbol i' = ti_symbol i \<and>
   ti_scheduled_fill_time i' = ti_scheduled_fill_time i \<and> intent_step\<^sup>*\<^sup>* (ti_status i) (ti_status i') \<and>
   (ti_status i \<in> TERMINAL_INTENT_STATUSES \<longrightarrow> i' = i)"
  unfolding intent_later_def by (cases "ti_status i \<in> TERMINAL_INTENT_STATUSES") simp_all

lemma evolves_fields:
  assumes "evolves db0 db"
  shows "(\<forall>p \<in> set (db_positions db0). \<exists>p' \<in> set (db_positions db).
       pp_position_id p' = pp_position_id p \<and> pp_quantity p' = pp_quantity p \<and>
       pp_average_entry_price p' = pp_average_entry_price p \<and> pp_initial_stop p' = pp_initial_stop p \<and>
       pp_entry_intent_id p' = pp_entry_intent_id p \<and> pp_current_stop p \<le> pp_current_stop p' \<and>
       (pp_status p = PP_CLOSED \<longrightarrow> p' = p)) \<and>
    (\<forall>i \<in> set (db_intents db0). \<exists>i' \<in> set (db_intents db).
       ti_intent_id i' = ti_intent_id i \<and> ti_symbol i' = ti_symbol i \<and> ti_scheduled_fill_time i' = ti_scheduled_fill_time i \<and>
       intent_step\<^sup>*\<^sup>* (ti_status i) (ti_status i') \<and> (ti_status i \<in> TERMINAL_INTENT_STATUSES \<longrightarrow> i' = i)) \<and>
    (\<exists>new. db_fills db = db_fills db0 @ new)"
proof (intro conjI ballI)
  fix p assume "p \<in> set (db_positions db0)"
  with assms obtain p' where "p' \<in> set (db_positions db)" "position_later p p'" unfolding evolves_def by blast
  then show "\<exists>p' \<in> set (db_positions db).
       pp_position_id p' = pp_position_id p \<and> pp_quantity p' = pp_quantity p \<and>
       pp_average_entry_price p' = pp_average_entry_price p \<and> pp_initial_stop p' = pp_initial_stop p \<and>
       pp_entry_intent_id p' = pp_entry_intent_id p \<and> pp_current_stop p \<le> pp_current_stop p' \<and>
       (pp_status p = PP_CLOSED \<longrightarrow> p' = p)"
    using position_later_fields by (intro bexI [of _ p'])
next
  fix i assume "i \<in> set (db_intents db0)"
  with assms obtain i' where "i' \<in> set (db_intents db)" "intent_later i i'" unfolding evolves_def by blast
  then show "\<exists>i' \<in> set (db_intents db).
       ti_intent_id i' = ti_intent_id i \<and> ti_symbol i' = ti_symbol i \<and> ti_scheduled_fill_time i' = ti_scheduled_fill_time i \<and>
       intent_step\<^sup>*\<^sup>* (ti_status i) (ti_status i') \<and> (ti_status i \<in> TERMINAL_INTENT_STATUSES \<longrightarrow> i' = i)"
    using intent_later_fields by (intro bexI [of _ i'])
qed (use assms in \<open>simp add: evolves_def\<close>)

end
