(* ===== verification/Paper_Steps.thy ===== *)
theory Paper_Steps
  imports Paper_Invariants
begin

text \<open>
  The steps of the paper trading service: the transactions that change the trading tables, and anything
  that leaves these tables alone. Every operation of the lifecycle, also one that raises half-way, is a
  run of steps.
\<close>

section \<open>Steps\<close>

definition trading_tables ::
  "paper_db \<Rightarrow> paper_wallet_state option \<times> trade_intent list \<times> paper_order list \<times> paper_fill list \<times> paper_position list \<times>
   position_stop_event list \<times> funding_event_record list"
where
  "trading_tables db =
     (db_wallet db, db_intents db, db_orders db, db_fills db, db_positions db, db_stop_events db, db_funding db)"

text \<open>
  The guards of \<open>due\<close>, \<open>raise\<close> and \<open>close\<close> are what the operation has read before it opens the transaction;
  \<open>other\<close> stands for the runtime, the scheduler, the evaluations, the snapshots and the audit log.
\<close>

inductive paper_step :: "paper_env \<Rightarrow> paper_db \<Rightarrow> paper_db \<Rightarrow> bool" for env :: paper_env where
  other: "trading_tables db' = trading_tables db \<Longrightarrow> paper_step env db db'"
| create: "create_intent_from_evaluation env ev se gates config t u ready db = ret (x, db') \<Longrightarrow> paper_step env db db'"
| due: "i \<in> set (db_intents db) \<Longrightarrow> due_intent i \<Longrightarrow>
    process_due_intent env risk config ready cid t s ctx ctxs processed i db = ret (x, db') \<Longrightarrow> paper_step env db db'"
| raise: "p \<in> set (db_positions db) \<Longrightarrow> is_open_position p \<Longrightarrow> pp_current_stop p < ts_effective_stop st \<Longrightarrow>
    raise_stop env t cid p atr st db = ret (x, db') \<Longrightarrow> paper_step env db db'"
| close: "p \<in> set (db_positions db) \<Longrightarrow> is_open_position p \<Longrightarrow>
    xa = compute_exit_accounting (st_exit_reference trigger) (pp_quantity p) (pp_average_entry_price p) bps fee_rate \<Longrightarrow>
    close_position env p trigger xa t cid db = ret (x, db') \<Longrightarrow> paper_step env db db'"

lemma other_same_core: "trading_tables db' = trading_tables db \<Longrightarrow> same_core db db'"
  by (simp add: trading_tables_def same_core_def)

theorem paper_step_safe:
  assumes "numeric_ok env" and "paper_step env db db'" and "db_ok env db"
  shows "safe_from env db db'"
  using assms(2,3)
proof (cases rule: paper_step.cases)
  case other
  then show ?thesis using other_same_core same_core_ok same_core_evolves assms(3) by metis
next
  case (create ev se gates config t u ready x)
  then show ?thesis using create_intent_safe assms(3) by blast
next
  case (due i risk config ready cid t s ctx ctxs processed x)
  then have "during env (\<lambda>is _. i \<in> set is) db db" using assms(3) evolves_refl by (simp add: during_def)
  from due_intent_safe [OF assms(1) due(2) this] due(3) show ?thesis unfolding wlp_def by blast
next
  case (raise p st t cid atr x)
  then have "during env (\<lambda>_ ps. p \<in> set ps) db db" "position_ok env p"
    using assms(3) evolves_refl by (simp_all add: during_def db_ok_def)
  from raise_stop_safe [OF assms(1) this(1) raise(2) this(2) less_imp_le [OF raise(3)]] raise(4)
  show ?thesis unfolding wlp_def by blast
next
  case (close p xa trigger bps fee_rate t cid x)
  then have "during env (\<lambda>_ ps. p \<in> set ps) db db" "position_ok env p"
    using assms(3) evolves_refl by (simp_all add: during_def db_ok_def)
  from close_position_safe [OF assms(1) this(1) close(2) this(2)] close(4) show ?thesis unfolding wlp_def by blast
qed

lemma paper_steps_safe:
  assumes "numeric_ok env" and "db_ok env db0" and "(paper_step env)\<^sup>*\<^sup>* db0 db"
  shows "safe_from env db0 db"
  using assms(3)
proof (induction rule: rtranclp_induct)
  case base
  then show ?case using assms(2) evolves_refl by simp
next
  case (step a b)
  then show ?case using paper_step_safe [OF assms(1) step.hyps(2)] evolves_trans by blast
qed

section \<open>Operations are runs of steps\<close>

definition service_run :: "paper_env \<Rightarrow> paper_db \<Rightarrow> paper_db \<Rightarrow> bool" where
  "service_run env db db' \<longleftrightarrow> (numeric_ok env \<longrightarrow> db_ok env db \<longrightarrow> (paper_step env)\<^sup>*\<^sup>* db db')"

interpretation runs: db_preorder "service_run env" for env
proof
  show "service_run env db db" for db by (simp add: service_run_def)
  show "service_run env a c" if "service_run env a b" "service_run env b c" for a b c
    using that paper_steps_safe [of env a b] unfolding service_run_def by (meson rtranclp_trans)
qed

lemma run_of_step: "paper_step env db db' \<Longrightarrow> service_run env db db'"
  unfolding service_run_def by (blast intro: r_into_rtranclp)

interpretation others_only: db_preorder "\<lambda>db db'. trading_tables db' = trading_tables db"
  by unfold_locales auto

lemma runs_of_others: "others_only.stays m \<Longrightarrow> runs.keeps env (transaction m)"
  by (rule runs.keeps_transaction, rule runs.staysI, drule others_only.staysD, assumption)
     (rule run_of_step, rule paper_step.other)

lemma others_uuid4: "others_only.stays uuid4"
  unfolding others_only.stays_def by (simp add: wlp_simps trading_tables_def)

lemma others_write: "(\<And>db. trading_tables (f db) = trading_tables db) \<Longrightarrow> others_only.stays (db_write f)"
  unfolding others_only.stays_def by (simp add: wlp_simps)

lemma others_snapshot_row: "others_only.stays (insert_or_get_portfolio_snapshot env row)"
  by (rule others_only.staysI)
     (auto simp: insert_or_get_portfolio_snapshot_def trading_tables_def Let_def split: option.splits if_splits)

lemma others_audit: "others_only.stays (append_audit_event env a b c d e f)"
  unfolding append_audit_event_def Let_def
  by (intro others_only.stays_rules others_uuid4 others_write) (simp add: trading_tables_def)

lemma others_reads:
  "others_only.stays get_wallet" "others_only.stays get_runtime_state" "others_only.stays get_open_positions"
  "others_only.stays (get_open_position_for_symbol s)" "others_only.stays (get_scheduled_intents_for_symbol s t)"
  by (simp_all add: get_wallet_def get_runtime_state_def get_open_positions_def get_open_position_for_symbol_def
      get_scheduled_intents_for_symbol_def others_only.stays_read)

lemma others_snapshot: "others_only.stays (capture_snapshot env t e w ps day prior cid)"
  unfolding capture_snapshot_def Let_def
  by (intro others_only.stays_rules others_uuid4 others_snapshot_row others_audit others_reads)

lemma runs_snapshot: "runs.keeps env (transaction (capture_snapshot env' t e w ps day prior cid))"
  by (rule runs_of_others) (rule others_snapshot)

text \<open>The fills of an open. The rows still to be processed stay as they were read.\<close>

lemma process_intents_runs:
  assumes "numeric_ok env" and "db_ok env db" and "\<forall>i \<in> set todo. due_intent i" and "distinct (map ti_intent_id todo)"
    and "set todo \<subseteq> set (db_intents db)"
  shows "runs.keeps_at env (process_intents env risk config ready cid t s ctx ctxs todo processed acc) db"
  using assms(2-)
proof (induction todo arbitrary: processed acc db)
  case Nil
  then show ?case by (simp add: runs.keeps_at_ret)
next
  case (Cons i todo)
  let ?due = "process_due_intent env risk config ready cid t s ctx ctxs processed i"
  have rest: "runs.keeps_at env (process_intents env risk config ready cid t s ctx ctxs todo p a) db'"
    if "db_ok env db'" "set todo \<subseteq> set (db_intents db')" for p a db'
    using Cons.IH [OF that(1) _ _ that(2)] Cons.prems(2,3) by simp
  have step: "paper_step env db db'" if "?due db = ret (x, db')" for x db'
    using that Cons.prems(2,4) by (intro paper_step.due [of i]) simp_all
  have "runs.keeps_at env (transaction ?due) db"
    by (rule runs.keeps_at_transaction) (auto simp: wlp_def intro: run_of_step step)
  moreover have "db_ok env db' \<and> set todo \<subseteq> set (db_intents db')" if "transaction ?due db = Some (Inr x, db')" for x db'
  proof -
    from that have due: "?due db = ret (x, db')" by (auto elim: transaction_cases)
    have "ti_intent_id j \<noteq> ti_intent_id i" if "j \<in> set todo" for j
      using that Cons.prems(3) by (metis distinct.simps(2) list.map(2) list.set_map image_eqI)
    moreover have "others_kept (ti_intent_id i) db db'" using others.staysD [OF others_due due] .
    ultimately show ?thesis
      using paper_step_safe [OF assms(1) step [OF due] Cons.prems(1)] Cons.prems(4) unfolding others_kept_def by auto
  qed
  ultimately have bind: "runs.keeps_at env (job_bind (transaction ?due) f) db"
    if "\<And>x db'. db_ok env db' \<Longrightarrow> set todo \<subseteq> set (db_intents db') \<Longrightarrow> runs.keeps_at env (f x) db'" for f :: "fill_outcome option \<Rightarrow> (string set \<times> fill_batch_result) job"
    using that by (intro runs.keeps_at_bind) blast+
  show ?case
    unfolding process_intents.simps Let_def
    using Cons.prems by (intro runs.keeps_at_if bind runs.keeps_at_option rest) auto
qed

lemma runs_trivial: "\<not> (numeric_ok env \<and> db_ok env db) \<Longrightarrow> runs.keeps_at env m db"
  by (auto simp: runs.keeps_at_def service_run_def)

lemma process_symbols_runs:
  "set ss \<subseteq> ALLOWED_SYMBOLS \<Longrightarrow> runs.keeps env (process_symbols env risk config ready cid t delay ctxs ss processed)"
proof (induction ss arbitrary: processed)
  case Nil
  then show ?case by (simp add: runs.keeps_ret)
next
  case (Cons s ss)
  have rest: "runs.keeps env (job_bind (process_symbols env risk config ready cid t delay ctxs ss p) (\<lambda>rest. job_ret (x # rest)))" for p x
    using Cons by (intro runs.keeps_bind runs.keeps_ret) simp
  have batch: "runs.keeps env (job_bind (transaction (get_scheduled_intents_for_symbol s u)) (\<lambda>intents.
      job_bind (process_intents env risk config ready cid t s ctx ctxs intents processed (no_fills s)) f))"
    if "\<And>x. runs.keeps env (f x)" for u ctx and f :: "string set \<times> fill_batch_result \<Rightarrow> fill_batch_result list job"
  proof (rule runs.keepsI)
    fix db
    show "runs.keeps_at env (job_bind (transaction (get_scheduled_intents_for_symbol s u)) (\<lambda>intents.
      job_bind (process_intents env risk config ready cid t s ctx ctxs intents processed (no_fills s)) f)) db"
    proof (cases "numeric_ok env \<and> db_ok env db")
      case True
      show ?thesis
      proof (rule runs.keeps_at_bind)
        show "runs.keeps_at env (transaction (get_scheduled_intents_for_symbol s u)) db"
          by (rule runs.keepsD, rule runs_of_others) (rule others_reads)
        fix todo db1
        assume "transaction (get_scheduled_intents_for_symbol s u) db = Some (Inr todo, db1)"
        then have "get_scheduled_intents_for_symbol s u db = ret (todo, db1)" by (auto elim: transaction_cases)
        from scheduled_intents_due [OF _ _ this] True Cons.prems
        have "db1 = db" "\<forall>i \<in> set todo. due_intent i" "distinct (map ti_intent_id todo)" "set todo \<subseteq> set (db_intents db)" by auto
        with True process_intents_runs that
        show "runs.keeps_at env (job_bind (process_intents env risk config ready cid t s ctx ctxs todo processed (no_fills s)) f) db1"
          by (intro runs.keeps_at_bind) (simp_all add: runs.keepsD)
      qed
    qed (simp add: runs_trivial)
  qed
  show ?case
    unfolding process_symbols.simps by (intro runs.keeps_option runs.keeps_if rest batch runs.keeps_prod)
qed

theorem process_open_runs:
  "runs.keeps env (process_scheduled_intents_for_open env risk t delay ctxs config ready cid)"
  unfolding process_scheduled_intents_for_open_def
  by (rule process_symbols_runs) (simp add: SYMBOL_PROCESSING_ORDER_def ALLOWED_SYMBOLS_def)

text \<open>Operations on the open position of a symbol.\<close>

lemma open_position_runs:
  assumes "\<And>db. runs.keeps_at env (f None) db"
    and "\<And>p db. p \<in> set (db_positions db) \<Longrightarrow> is_open_position p \<Longrightarrow> runs.keeps_at env (f (Some p)) db"
  shows "runs.keeps env (job_bind (transaction (get_open_position_for_symbol s)) f)"
proof (rule runs.keepsI, rule runs.keeps_at_bind)
  show "runs.keeps_at env (transaction (get_open_position_for_symbol s)) db" for db
    by (rule runs.keepsD, rule runs_of_others) (rule others_reads)
  fix db y db1
  assume "transaction (get_open_position_for_symbol s) db = Some (Inr y, db1)"
  then have get: "get_open_position_for_symbol s db = ret (y, db1)" by (auto elim: transaction_cases)
  show "runs.keeps_at env (f y) db1"
  proof (cases y)
    case None
    with assms(1) show ?thesis by simp
  next
    case (Some p)
    with open_position_for_symbol_ret [of s db p db1] get have "db1 = db" "p \<in> set (db_positions db)" "is_open_position p" by auto
    with assms(2) Some show ?thesis by blast
  qed
qed

lemma raise_stop_runs:
  assumes "p \<in> set (db_positions db)" "is_open_position p" "\<not> ts_effective_stop st \<le> pp_current_stop p"
  shows "runs.keeps_at env (transaction (raise_stop env t cid p atr st)) db"
  using assms by (intro runs.keeps_at_transaction) (auto simp: wlp_def intro!: run_of_step paper_step.raise [of p])

lemma close_position_runs:
  assumes "p \<in> set (db_positions db)" "is_open_position p"
    and "xa = compute_exit_accounting (st_exit_reference trigger) (pp_quantity p) (pp_average_entry_price p) bps fee_rate"
  shows "runs.keeps_at env (transaction (close_position env p trigger xa t cid)) db"
  using assms by (intro runs.keeps_at_transaction) (auto simp: wlp_def intro!: run_of_step paper_step.close [of p])

lemma update_symbol_stop_runs: "runs.keeps env (update_symbol_stop env t bars atrs cons params cid s)"
  unfolding update_symbol_stop_def Let_def
proof (rule open_position_runs, unfold option.case)
  fix p and db :: paper_db
  assume p: "p \<in> set (db_positions db)" "is_open_position p"
  have lift: "runs.keeps_at env (transaction (db_lift c)) db" for c :: "trailing_stop_state comp"
    by (rule runs.keepsD, rule runs_of_others) (rule others_only.stays_lift)
  have same: "db1 = db" if "transaction (db_lift c) db = Some (Inr x, db1)" for x db1 and c :: "trailing_stop_state comp"
    using that by (auto simp: db_lift_def cbind_eq_ret elim!: transaction_cases)
  have raised: "runs.keeps_at env (job_bind (transaction (raise_stop env t cid p atr st)) f) db"
    if "\<not> ts_effective_stop st \<le> pp_current_stop p" "\<And>x. runs.keeps env (f x)" for atr st and f :: "bool \<Rightarrow> stop_update_result list job"
    using raise_stop_runs [OF p that(1)] that(2) by (intro runs.keeps_at_bind) (simp_all add: runs.keepsD)
  have computed: "runs.keeps_at env (job_bind (transaction (db_lift c)) f) db"
    if "\<And>st. runs.keeps_at env (f st) db" for c and f :: "trailing_stop_state \<Rightarrow> stop_update_result list job"
    using that lift same by (intro runs.keeps_at_bind) blast+
  show "runs.keeps_at env (case dict_get bars s of None \<Rightarrow> job_ret [not_updated p]
      | Some c \<Rightarrow> if \<not> is_closed c then job_ret [not_updated p]
        else (case dict_get cons s of None \<Rightarrow> job_ret [not_updated p]
          | Some k \<Rightarrow> job_bind (transaction (db_lift (upd c k))) (\<lambda>st.
              if ts_effective_stop st \<le> pp_current_stop p then job_ret n1
              else job_bind (transaction (raise_stop env t cid p atr st)) (\<lambda>raised.
                if \<not> raised then job_ret n2
                else job_bind (transaction (capture_snapshot env t e None None [] [] cid)) (\<lambda>_. job_ret (n3 st)))))) db"
    for upd n1 n2 n3 atr e
    by (intro runs.keeps_at_option runs.keeps_at_if runs.keeps_at_ret computed raised runs.keeps_if runs.keeps_bind
        runs.keeps_ret runs_snapshot)
qed (rule runs.keeps_at_ret)

lemma for_each_symbol_runs: "(\<And>s. runs.keeps env (f s)) \<Longrightarrow> runs.keeps env (for_each_symbol f ss)"
  by (induction ss) (simp_all add: runs.keeps_ret runs.keeps_bind)

theorem trailing_stops_run: "runs.keeps env (update_daily_trailing_stops env t bars atrs cons params cid)"
  unfolding update_daily_trailing_stops_def by (intro for_each_symbol_runs update_symbol_stop_runs)

lemma close_if_stopped_runs:
  assumes "p \<in> set (db_positions db)" "is_open_position p"
  shows "runs.keeps_at env (close_if_stopped env config p c t k cid at_open intraday) db"
proof -
  have closed: "runs.keeps_at env (job_bind (transaction (close_position env p trigger (compute_exit_accounting (st_exit_reference trigger)
      (pp_quantity p) (pp_average_entry_price p) (pc_paper_slippage_bps config) (pc_paper_fee_rate config)) t cid)) f) db"
    if "\<And>x. runs.keeps env (f x)" for trigger and f :: "bool \<Rightarrow> stop_close_result job"
    using close_position_runs [OF assms refl] that by (intro runs.keeps_at_bind) (simp_all add: runs.keepsD)
  show ?thesis
    unfolding close_if_stopped_def Let_def
    by (intro runs.keeps_at_option runs.keeps_at_ret closed runs.keeps_if runs.keeps_bind runs.keeps_ret runs_snapshot)
qed

lemma stop_checks_run:
  "runs.keeps env (daily_stop_check env config t bars cons cid at_open s)"
  "runs.keeps env (intraday_stop_check env config t bars cons cid s)"
  unfolding daily_stop_check_def intraday_stop_check_def
  by (rule open_position_runs, unfold prod.case option.case,
      intro runs.keeps_at_ret, intro runs.keeps_at_option runs.keeps_at_if runs.keeps_at_ret,
      rule runs.keeps_at_bind, erule (1) close_if_stopped_runs, rule runs.keeps_at_ret)+

theorem stop_triggers_run:
  "runs.keeps env (process_stop_triggers_for_daily_candle env config t bars cons cid at_open)"
  "runs.keeps env (process_intraday_stop_triggers env config t bars cons cid)"
  unfolding process_stop_triggers_for_daily_candle_def process_intraday_stop_triggers_def
  by (intro for_each_symbol_runs stop_checks_run)+

end
