(* ===== verification/Bridge_Runs.thy ===== *)
theory Bridge_Runs
  imports Event_Bridge Paper_Steps
begin

text \<open>
  Every procedure of the scheduler and of the event bridge is a run of the service's steps, so what runs
  keep of the database, polls keep of it, whichever events they find and wherever they fail.
\<close>

section \<open>Operations outside the trading tables\<close>

lemma others_lift_state: "others_only.stays (\<lambda>db. db_lift (f db) db)"
  by (rule others_only.staysI) (auto simp: db_lift_def cbind_eq_ret)

lemma others_now: "others_only.stays (now sv)"
  unfolding now_def by (rule others_only.stays_read)

lemma others_run_reads:
  "others_only.stays (get_scheduler_run j t)" "others_only.stays get_running_scheduler_runs"
  "others_only.stays list_permanent_configuration_failures" "others_only.stays (count_recovery_attempts i)"
  "others_only.stays (get_active_recovery_attempt i)" "others_only.stays get_fairness_group_rotation_cursor"
  "others_only.stays list_market_event_group_states" "others_only.stays (list_evaluations n a b)"
  by (simp_all add: get_scheduler_run_def get_running_scheduler_runs_def list_permanent_configuration_failures_def
      count_recovery_attempts_def get_active_recovery_attempt_def get_fairness_group_rotation_cursor_def
      list_market_event_group_states_def list_evaluations_def others_only.stays_read)

lemma others_insert_run: "others_only.stays (insert_or_get_scheduler_run soak row)"
  by (rule others_only.staysI)
     (auto simp: insert_or_get_scheduler_run_def Let_def cbind_eq_ret trading_tables_def split: list.splits)

lemma others_complete_run: "others_only.stays (complete_scheduler_run j t st c err)"
  unfolding complete_scheduler_run_def
  by (intro others_only.stays_rules others_write) (simp add: trading_tables_def)

lemma others_run_writes:
  "others_only.stays (reactivate_scheduler_run j t s)" "others_only.stays (set_fairness_group_rotation_cursor c)"
  "others_only.stays (delete_market_event_group_state k)"
  unfolding reactivate_scheduler_run_def set_fairness_group_rotation_cursor_def delete_market_event_group_state_def
  by (rule others_write, simp add: trading_tables_def)+

lemma others_run_updates:
  "others_only.stays (mark_run_resolved i k)" "others_only.stays (delete_scheduler_run_if_running j t)"
  "others_only.stays (upsert_market_event_group_deferred g)" "others_only.stays (fail_orphan_scheduler_runs t)"
  by (rule others_only.staysI; auto simp: mark_run_resolved_def delete_scheduler_run_if_running_def
      upsert_market_event_group_deferred_def fail_orphan_scheduler_runs_def trading_tables_def Let_def split: if_splits)+

lemma others_create_recovery: "others_only.stays (create_recovery_attempt soak run j t)"
  unfolding create_recovery_attempt_def by (intro others_only.stays_rules others_uuid4 others_insert_run)

lemma others_evaluation_row: "others_only.stays (insert_or_get_strategy_evaluation row)"
  by (rule others_only.staysI)
     (auto simp: insert_or_get_strategy_evaluation_def trading_tables_def split: option.splits if_splits)

lemma others_runtime_update: "others_only.stays (update_runtime_state a b c d e f g h)"
  by (rule others_only.staysI) (auto simp: update_runtime_state_def trading_tables_def Let_def split: option.splits if_splits)

lemma others_get_state: "others_only.stays get_state"
  unfolding get_state_def by (intro others_only.stays_rules others_reads)

lemmas others_rules = others_only.stays_rules others_uuid4 others_reads others_audit others_now others_lift_state others_run_reads
  others_insert_run others_complete_run others_run_writes others_run_updates others_create_recovery others_evaluation_row
  others_runtime_update others_get_state

lemma others_runtime_audit: "others_only.stays (runtime_audit sv e p c t)"
  unfolding runtime_audit_def by (rule others_audit)

lemma others_readiness: "others_only.stays (evaluate_readiness sv inp)"
  unfolding evaluate_readiness_def runtime_reasons_def operational_reasons_def entry_reasons_def
    permanent_configuration_failure_def Let_def
  by (intro others_rules)

lemma others_nonterminal: "others_only.stays (get_nonterminal_intent_for_symbol s)"
  by (simp add: get_nonterminal_intent_for_symbol_def others_only.stays_read)

lemma others_contexts:
  "others_only.stays (build_evaluation_context sv cb s t)" "others_only.stays (build_stop_context_for_close cb s t)"
  unfolding build_evaluation_context_def build_stop_context_for_close_def runtime_gates_def build_entry_gate_context_def Let_def
  by (intro others_rules others_nonterminal)+

section \<open>Jobs of the scheduler\<close>

lemma runs_query: "others_only.stays m \<Longrightarrow> runs.keeps env (transaction m)"
  by (rule runs_of_others)

lemma runs_lift: "runs.keeps env (job_lift c)"
  unfolding job_lift_def by (rule runs_query) (rule others_only.stays_lift)

lemma stays_of_others: "others_only.stays m \<Longrightarrow> runs.stays env m"
  by (rule runs.staysI, drule others_only.staysD, assumption) (rule run_of_step, rule paper_step.other)

lemma create_intent_stays: "runs.stays env (create_intent_from_evaluation env ev se gates config t u ready)"
  by (rule runs.staysI) (rule run_of_step, rule paper_step.create)

lemma create_intent_stays_at: "runs.stays env (\<lambda>db. create_intent_from_evaluation env ev se gates config t u (ready db) db)"
  by (rule runs.staysI) (rule run_of_step, rule paper_step.create)

lemma record_evaluation_runs: "runs.keeps (sv_env sv) (transaction (record_evaluation sv s t b config gates cid ev))"
  unfolding record_evaluation_def
  by (intro runs.keeps_transaction runs.stays_rules create_intent_stays_at stays_of_others
      others_uuid4 others_evaluation_row others_audit others_now)

lemma evaluate_symbol_runs: "runs.keeps (sv_env sv) (evaluate_symbol_for_daily_close sv s t b p config gates cid)"
  unfolding evaluate_symbol_for_daily_close_def
  by (intro runs.keeps_rules runs_lift record_evaluation_runs)

lemma heartbeat_runs: "runs.keeps env (heartbeat sv)"
  unfolding heartbeat_def by (rule runs_query) (intro others_rules)

lemma runtime_runs:
  "runs.keeps env (runtime_transition sv target err cid)" "runs.keeps env (set_paused sv p)" "runs.keeps env (set_kill_switch sv k)"
  unfolding runtime_transition_def set_paused_def set_kill_switch_def change_status_def
  by (rule runs_query, intro others_rules others_runtime_audit)+

lemma handler_runs: "runs.keeps (sv_env sv) (handler sv sk t cid j)"
proof (cases j)
  case READINESS_CHECK
  show ?thesis
    unfolding READINESS_CHECK handler.simps job_readiness_check_def
    by (intro runs.keeps_rules runs_query others_lift_state others_readiness)
next
  case DAILY_SIGNAL_EVALUATION
  show ?thesis
    unfolding DAILY_SIGNAL_EVALUATION handler.simps job_daily_signal_evaluation_def evaluate_symbol_context_def
    by (intro runs.keeps_rules for_each_symbol_runs evaluate_symbol_runs)
next
  case NEXT_OPEN_FILL_PROCESSING
  show ?thesis
    unfolding NEXT_OPEN_FILL_PROCESSING handler.simps job_next_open_fill_processing_def
    by (intro runs.keeps_rules runs_query others_now process_open_runs)
next
  case DAILY_STOP_UPDATE
  show ?thesis
    unfolding DAILY_STOP_UPDATE handler.simps job_daily_stop_update_def
    by (auto split: option.splits stop_context.splits intro!: runs.keeps_rules trailing_stops_run)
next
  case STOP_TRIGGER_PROCESSING
  show ?thesis
    unfolding STOP_TRIGGER_PROCESSING handler.simps job_stop_trigger_processing_def
    by (auto split: option.splits stop_context.splits intro!: runs.keeps_bind runs.keeps_ret runs.keeps_raise runs_query others_now stop_triggers_run)
next
  case INTRADAY_STOP_PROCESSING
  show ?thesis
    unfolding INTRADAY_STOP_PROCESSING handler.simps job_intraday_stop_processing_def
    by (auto split: option.splits stop_context.splits intro!: runs.keeps_bind runs.keeps_ret runs.keeps_raise runs_query others_now stop_triggers_run)
next
  case FUNDING_PROCESSING
  show ?thesis
    unfolding FUNDING_PROCESSING handler.simps job_funding_processing_def by (rule runs.keeps_raise)
next
  case PORTFOLIO_SNAPSHOT
  show ?thesis
    unfolding PORTFOLIO_SNAPSHOT handler.simps job_portfolio_snapshot_def by (intro runs.keeps_rules runs_snapshot)
next
  case RUNTIME_HEARTBEAT
  show ?thesis
    unfolding RUNTIME_HEARTBEAT handler.simps job_runtime_heartbeat_def by (intro runs.keeps_rules heartbeat_runs)
qed

lemma start_run_runs: "runs.keeps env (start_run sv j t)"
  unfolding start_run_def by (intro runs.keeps_rules runs_query others_rules)

lemma complete_run_runs: "runs.keeps env (complete_run sv j t st err)"
  unfolding complete_run_def by (intro runs_query others_rules)

lemma persisted_job_outcome_runs: "runs.keeps env (persisted_job_outcome j t sk err)"
  unfolding persisted_job_outcome_def by (intro runs.keeps_rules runs_query others_run_reads)

theorem run_job_runs: "runs.keeps (sv_env sv) (run_job own sv sk j t cid)"
  unfolding run_job_def run_job_body_def call_handler_def
  by (intro runs.keeps_rules runs.keeps_savepoint runs_query others_run_reads start_run_runs complete_run_runs
      persisted_job_outcome_runs handler_runs)

lemma run_jobs_runs: "runs.keeps (sv_env sv) (run_jobs own sv sk t cid js)"
  by (induction js) (simp_all add: runs.keeps_ret runs.keeps_bind run_job_runs)

lemma sequences_run:
  "runs.keeps (sv_env sv) (run_open_subsequence own sv sk lock t cid js)"
  "runs.keeps (sv_env sv) (run_daily_close_sequence own sv sk lock t cid)"
  unfolding run_open_subsequence_def run_daily_close_sequence_def
  by (intro runs.keeps_rules runs_query others_now run_jobs_runs)+

section \<open>Procedures of the bridge\<close>

interpretation bridge_runs: state_preorder "\<lambda>s s'. service_run env (snd s) (snd s')" for env
  by unfold_locales (auto intro: runs.refl runs.trans)

lemma on_db_runs: "runs.keeps env m \<Longrightarrow> bridge_runs.keeps env (on_db m)"
  by (intro bridge_runs.keepsI bridge_runs.keeps_atI)
     (auto simp: on_db_def split: prod.splits option.splits dest: runs.keeps_atD [OF runs.keepsD])

lemma query_runs: "others_only.stays m \<Longrightarrow> bridge_runs.keeps env (query m)"
  by (intro on_db_runs runs_query)

lemma lift_runs: "bridge_runs.keeps env (on_db (job_lift c))"
  by (intro on_db_runs runs_lift)

lemma bridge_object_runs: "bridge_runs.keeps env (read_bridge f)" "bridge_runs.keeps env (change_bridge g)"
  by (intro bridge_runs.keepsI bridge_runs.keeps_atI; auto simp: read_bridge_def change_bridge_def runs.refl)+

lemma scope_runs:
  assumes "bridge_runs.keeps env m"
  shows "bridge_runs.keeps env (bridge_scope m)"
proof (intro bridge_runs.keepsI bridge_runs.keeps_atI)
  fix s r s'
  assume run: "bridge_scope m s = Some (r, s')"
  obtain r' s1 where m: "m s = Some (r', s1)" using run by (auto simp: bridge_scope_def split: prod.splits option.splits)
  have "service_run env (snd s) (snd s1)" using bridge_runs.keeps_atD [OF bridge_runs.keepsD [OF assms] m] .
  moreover have "snd s' = snd s \<or> s' = s1"
    using run m by (cases r') (auto simp: bridge_scope_def split: prod.splits)
  ultimately show "service_run env (snd s) (snd s')" using runs.refl by auto
qed

lemmas bridge_rules = bridge_runs.keeps_rules lift_runs bridge_object_runs scope_runs on_db_runs
  runs_query others_rules start_run_runs complete_run_runs

lemma run_record_runs:
  "bridge_runs.keeps env (ensure_scheduler_run bv j t)" "bridge_runs.keeps env (complete_market_event bv j t st err)"
  unfolding ensure_scheduler_run_def complete_market_event_def by (intro bridge_rules)+

lemma release_runs: "bridge_runs.keeps env (release_uncommitted_scheduler_run bv j t err)"
  unfolding release_uncommitted_scheduler_run_def by (intro bridge_rules run_record_runs)

lemma recovery_context_runs: "bridge_runs.keeps env (active_recovery_context j t)"
  unfolding active_recovery_context_def Let_def by (intro bridge_rules)

lemma outcome_runs:
  "bridge_runs.keeps env (maybe_short_circuit_permanent_failure e j t)" "bridge_runs.keeps env (mark_permanent_failure bv e j t c)"
  "bridge_runs.keeps env (persisted_outcome e j t skipped)" "bridge_runs.keeps env (deferred_outcome bv e err rel)"
  "bridge_runs.keeps env (persist_daily_open_failure_audit bv j t sub msg)" "bridge_runs.keeps env (fill_phase_due bv t)"
  "bridge_runs.keeps env (reactivate_recovery_attempt bv j t)" "bridge_runs.keeps env (ensure_parent_run_completed bv j t)"
  "bridge_runs.keeps env (daily_open_terminal_complete s t)" "bridge_runs.keeps env (complete_marker_event bv e j t)"
  unfolding maybe_short_circuit_permanent_failure_def mark_permanent_failure_def persisted_outcome_def deferred_outcome_def
    persist_daily_open_failure_audit_def fail_daily_open_parent_def fill_phase_due_def reactivate_recovery_attempt_def
    ensure_parent_run_completed_def daily_open_terminal_complete_def complete_marker_event_def
  by (intro bridge_rules run_record_runs release_runs recovery_context_runs)+

lemma scheduler_call_runs: "(\<And>sk. runs.keeps env (f sk)) \<Longrightarrow> bridge_runs.keeps env (scheduler_call f)"
  unfolding scheduler_call_def by (intro bridge_rules)

lemma open_subjob_runs:
  assumes "bridge_runs.keeps env runner"
  shows "bridge_runs.keeps env (run_open_subjob bv j t runner)"
proof -
  have "bridge_runs.keeps env (case err of
             RetryableSchedulerDeferred \<Rightarrow>
               job_then (release_uncommitted_scheduler_run bv j t RetryableSchedulerDeferred) (job_raise err)
           | DailyOpenSequenceFailure _ _ \<Rightarrow> job_raise err
           | _ \<Rightarrow> job_raise (DailyOpenSequenceFailure j (error_text (sv_env (bv_services bv)) err)))" for err
    by (cases err) (simp_all add: bridge_runs.keeps_raise bridge_runs.keeps_bind release_runs)
  then show ?thesis
    unfolding run_open_subjob_def using assms by (intro bridge_rules run_record_runs)
qed

lemma event_candle_runs: "bridge_runs.keeps env (event_candle bv e)"
  unfolding event_candle_def latest_daily_def by (intro bridge_rules)

lemma handlers_run:
  "bridge_runs.keeps (sv_env (bv_services bv)) (handle_daily_open bv e)"
  "bridge_runs.keeps (sv_env (bv_services bv)) (handle_daily_live bv e)"
  "bridge_runs.keeps (sv_env (bv_services bv)) (handle_daily_closed bv e)"
  unfolding handle_daily_open_def handle_daily_live_def handle_daily_closed_def Let_def run_daily_open_gap_stop_def
    run_daily_open_fill_def run_daily_open_snapshot_def
  by (intro bridge_rules event_candle_runs open_subjob_runs scheduler_call_runs sequences_run run_job_runs outcome_runs others_contexts)+

lemma daily_open_recovery_runs: "bridge_runs.keeps (sv_env (bv_services bv)) (process_daily_open_recovery bv e rc)"
  unfolding process_daily_open_recovery_def Let_def
  by (intro bridge_rules handlers_run outcome_runs run_record_runs, rename_tac err, case_tac err)
     (simp_all add: outcome_runs run_record_runs bridge_runs.keeps_bind bridge_runs.keeps_ret bridge_object_runs)

lemma daily_open_runs: "bridge_runs.keeps (sv_env (bv_services bv)) (process_daily_open bv e)"
  unfolding process_daily_open_def Let_def
  by (intro bridge_rules handlers_run outcome_runs run_record_runs recovery_context_runs daily_open_recovery_runs,
      rename_tac err, case_tac err)
     (simp_all add: outcome_runs bridge_runs.keeps_bind)

theorem process_event_runs: "bridge_runs.keeps (sv_env (bv_services bv)) (process_event bv e)"
  unfolding process_event_def Let_def
  by (intro bridge_rules handlers_run outcome_runs run_record_runs daily_open_runs, rename_tac err, case_tac err)
     (simp_all add: outcome_runs run_record_runs bridge_runs.keeps_bind)

lemma group_events_run:
  assumes "\<And>e. bridge_runs.keeps env (process e)"
  shows "bridge_runs.keeps env (process_group_events process limit t key es ps)"
proof (induction es arbitrary: ps)
  case (Cons e es)
  show ?case
    unfolding process_group_events.simps record_group_deferred_def clear_group_fairness_state_def Let_def
    by (intro bridge_rules assms Cons.IH)
qed (simp add: bridge_runs.keeps_ret)

lemma groups_run:
  assumes "\<And>e. bridge_runs.keeps env (process e)"
  shows "bridge_runs.keeps env (process_groups process limit t grouped keys ps)"
proof (induction keys arbitrary: ps)
  case (Cons key keys)
  show ?case unfolding process_groups.simps by (intro bridge_rules group_events_run assms Cons.IH)
qed (simp add: bridge_runs.keeps_ret)

lemma poll_groups_run:
  assumes "\<And>e. bridge_runs.keeps env (process e)"
  shows "bridge_runs.keeps env (poll_groups process limit t es)"
  unfolding poll_groups_def Let_def by (intro bridge_rules groups_run assms)

theorem poll_runs: "bridge_runs.keeps (sv_env (bv_services bv)) (process_after_poll bv t)"
  unfolding process_after_poll_def by (intro bridge_rules poll_groups_run process_event_runs)

lemma acknowledge_failed_runs: "bridge_runs.keeps env (acknowledge_terminal_failed_committed es)"
proof (induction es)
  case (Cons e es)
  show ?case unfolding acknowledge_terminal_failed_committed.simps by (intro bridge_rules Cons.IH)
qed (simp add: bridge_runs.keeps_ret)

theorem committed_poll_runs: "bridge_runs.keeps (sv_env (bv_services bv)) (process_committed_market_event_poll bv t)"
  unfolding process_committed_market_event_poll_def acknowledge_committed_def
  by (intro bridge_rules poll_runs acknowledge_failed_runs)

theorem recovery_request_runs: "bridge_runs.keeps env (recover_permanent_configuration bv e)"
  unfolding recover_permanent_configuration_def Let_def by (intro bridge_rules)

section \<open>The running service\<close>

text \<open>
  A step of the process: a poll at some time and with the candles and the lock of that moment; the recovery
  an operator asks for; a job of the scheduler on its own, as the heartbeat; changes of the runtime status,
  pausing and the kill switch; a restart, which makes a new bridge object.
\<close>

inductive bridge_step :: "paper_env \<Rightarrow> bridge \<times> paper_db \<Rightarrow> bridge \<times> paper_db \<Rightarrow> bool" for env :: paper_env where
  poll: "sv_env (bv_services bv) = env \<Longrightarrow> process_committed_market_event_poll bv t s = Some (r, s') \<Longrightarrow> bridge_step env s s'"
| recover: "recover_permanent_configuration bv e s = Some (r, s') \<Longrightarrow> bridge_step env s s'"
| job: "sv_env sv = env \<Longrightarrow> run_job own sv sk j t cid db = Some (r, db') \<Longrightarrow> bridge_step env (b, db) (b, db')"
| transition: "runtime_transition sv target err cid db = Some (r, db') \<Longrightarrow> bridge_step env (b, db) (b, db')"
| pause: "set_paused sv p db = Some (r, db') \<Longrightarrow> bridge_step env (b, db) (b, db')"
| kill: "set_kill_switch sv k db = Some (r, db') \<Longrightarrow> bridge_step env (b, db) (b, db')"
| restart: "bridge_step env (b, db) (b', db)"

lemma bridge_step_run: "bridge_step env s s' \<Longrightarrow> service_run env (snd s) (snd s')"
proof (induction rule: bridge_step.induct)
  case (poll bv t s r s')
  from bridge_runs.keeps_atD [OF bridge_runs.keepsD [OF committed_poll_runs] poll(2)] poll(1) show ?case by simp
next
  case (recover bv e s r s')
  from bridge_runs.keeps_atD [OF bridge_runs.keepsD [OF recovery_request_runs] recover] show ?case .
next
  case (job sv own sk j t cid db r db' b)
  from runs.keeps_atD [OF runs.keepsD [OF run_job_runs] job(2)] job(1) show ?case by simp
next
  case (transition sv target err cid db r db' b)
  from runs.keeps_atD [OF runs.keepsD [OF runtime_runs(1)] transition] show ?case by simp
next
  case (pause sv p db r db' b)
  from runs.keeps_atD [OF runs.keepsD [OF runtime_runs(2)] pause] show ?case by simp
next
  case (kill sv k db r db' b)
  from runs.keeps_atD [OF runs.keepsD [OF runtime_runs(3)] kill] show ?case by simp
next
  case (restart b db b')
  show ?case by (simp add: runs.refl)
qed

lemma bridge_steps_run: "(bridge_step env)\<^sup>*\<^sup>* s s' \<Longrightarrow> service_run env (snd s) (snd s')"
  by (induction rule: rtranclp_induct) (auto intro: runs.refl runs.trans bridge_step_run)

end
