(* ===== verification/Bridge_Properties.thy ===== *)
theory Bridge_Properties
  imports Bridge_Runs
begin

text \<open>
  What the scheduler and the bridge do with an event: a job that completed is not run again, an event is
  acknowledged only when its run is recorded as completed, and no group of events starves.
\<close>

section \<open>Results of procedures\<close>

definition gives :: "('s, 'a) proc \<Rightarrow> ('a \<Rightarrow> 's \<Rightarrow> bool) \<Rightarrow> bool" where
  "gives m Q \<longleftrightarrow> (\<forall>s x s'. m s = Some (Inr x, s') \<longrightarrow> Q x s')"

lemma givesD: "gives m Q \<Longrightarrow> m s = Some (Inr x, s') \<Longrightarrow> Q x s'"
  by (auto simp: gives_def)

lemma gives_ret: "(\<And>s. Q x s) \<Longrightarrow> gives (job_ret x) Q"
  by (simp add: gives_def job_ret_def)

lemma gives_raise: "gives (job_raise e) Q"
  by (simp add: gives_def job_raise_def)

lemma gives_bind:
  assumes "\<And>x. gives (f x) Q"
  shows "gives (job_bind m f) Q"
  unfolding gives_def
proof (intro allI impI)
  fix s x s'
  assume "job_bind m f s = Some (Inr x, s')"
  then show "Q x s'" by (cases rule: job_bind_cases) (use givesD [OF assms] in auto)
qed

lemma gives_after:
  assumes "gives m P" and "\<And>x s s' y. P x s \<Longrightarrow> f x s = Some (Inr y, s') \<Longrightarrow> Q y s'"
  shows "gives (job_bind m f) Q"
  unfolding gives_def
proof (intro allI impI)
  fix s x s'
  assume "job_bind m f s = Some (Inr x, s')"
  then show "Q x s'" by (cases rule: job_bind_cases) (use givesD [OF assms(1)] assms(2) in blast)+
qed

lemma gives_step:
  assumes "gives m (\<lambda>x _. P x)" and "\<And>x. P x \<Longrightarrow> gives (f x) Q"
  shows "gives (job_bind m f) Q"
  by (rule gives_after [OF assms(1)]) (rule givesD [OF assms(2)])

lemma gives_catch:
  assumes "gives m Q" and "\<And>e. gives (h e) Q"
  shows "gives (job_catch m h) Q"
  unfolding gives_def
proof (intro allI impI)
  fix s x s'
  assume "job_catch m h s = Some (Inr x, s')"
  then show "Q x s'" by (cases rule: job_catch_cases) (use givesD [OF assms(1)] givesD [OF assms(2)] in auto)
qed

lemma gives_if: "(P \<Longrightarrow> gives m Q) \<Longrightarrow> (\<not> P \<Longrightarrow> gives n Q) \<Longrightarrow> gives (if P then m else n) Q"
  by simp

lemma gives_option: "(y = None \<Longrightarrow> gives m Q) \<Longrightarrow> (\<And>x. y = Some x \<Longrightarrow> gives (f x) Q) \<Longrightarrow> gives (case y of None \<Rightarrow> m | Some x \<Rightarrow> f x) Q"
  by (cases y) simp_all

lemma gives_prod: "(\<And>a b. gives (f a b) Q) \<Longrightarrow> gives (case p of (a, b) \<Rightarrow> f a b) Q"
  by (cases p) simp

lemmas gives_rules = gives_ret gives_raise gives_catch gives_if gives_option gives_prod gives_bind

section \<open>A job runs once\<close>

text \<open>The one row of a run.\<close>

definition run_recorded :: "string \<Rightarrow> datetime \<Rightarrow> scheduler_run_status \<Rightarrow> paper_db \<Rightarrow> bool" where
  "run_recorded job_name t status db \<longleftrightarrow> (\<exists>r. filter (is_run job_name t) (db_runs db) = [r] \<and> sr_status r = status)"

lemma get_run_ret:
  "transaction (get_scheduler_run j t) db = Some (Inr x, db') \<longleftrightarrow>
     db' = db \<and> (case x of None \<Rightarrow> filter (is_run j t) (db_runs db) = [] | Some r \<Rightarrow> filter (is_run j t) (db_runs db) = [r])"
  by (auto simp: transaction_def get_scheduler_run_def db_read_def scalar_one_or_none_def ret_def raise_def cbind_def
      split: list.splits option.splits)

lemma get_run_recorded:
  assumes "run_recorded j t status db"
  shows "\<exists>r. transaction (get_scheduler_run j t) db = Some (Inr (Some r), db) \<and> sr_status r = status"
proof -
  from assms obtain r where "filter (is_run j t) (db_runs db) = [r]" "sr_status r = status" by (auto simp: run_recorded_def)
  then show ?thesis using get_run_ret [of j t db "Some r" db] by auto
qed

lemma run_job_completed:
  assumes "run_recorded j t SR_COMPLETED db" and "sk_jobs_enabled sk"
  shows "run_job own sv sk j t cid db = Some (Inr (job_outcome j t SR_COMPLETED True None), db)"
proof -
  from get_run_recorded [OF assms(1)] obtain r where r: "transaction (get_scheduler_run j t) db = Some (Inr (Some r), db)" "sr_status r = SR_COMPLETED"
    by blast
  then have "run_job_body sv sk j t cid db = Some (Inr (job_outcome j t SR_COMPLETED True None), db)"
    using assms(2) by (simp add: run_job_body_def job_bind_def job_ret_def)
  then show ?thesis by (simp add: run_job_def savepoint_def)
qed

lemma persisted_gives:
  "gives (persisted_job_outcome j t sk err) (\<lambda>out db. jo_status out = SR_COMPLETED \<longrightarrow> run_recorded j t SR_COMPLETED db)"
  unfolding persisted_job_outcome_def gives_def
  by (auto simp: get_run_ret run_recorded_def job_outcome_def job_ret_def split: option.splits elim!: job_bind_cases)

lemma started_gives:
  "gives (start_run sv j t) (\<lambda>(r, created) db. \<not> created \<longrightarrow> filter (is_run j t) (db_runs db) = [r])"
  unfolding start_run_def gives_def
  by (auto simp: insert_or_get_scheduler_run_def running_run_def scalar_one_def db_bind_def uuid4_def Let_def cbind_eq_ret
      elim!: job_bind_cases transaction_cases split: list.splits)

lemma call_handler_gives:
  "gives (call_handler sv sk j t cid) (\<lambda>out db. jo_status out = SR_COMPLETED \<longrightarrow> run_recorded j t SR_COMPLETED db)"
  unfolding call_handler_def
  by (intro gives_option gives_catch gives_bind persisted_gives gives_ret) (simp add: job_outcome_def)

lemma run_job_body_gives:
  "gives (run_job_body sv sk j t cid) (\<lambda>out db. jo_status out = SR_COMPLETED \<longrightarrow> run_recorded j t SR_COMPLETED db)"
  unfolding run_job_body_def
proof (intro gives_if gives_ret)
  show "gives (job_bind (transaction (get_scheduler_run j t)) (\<lambda>existing.
      if map_option sr_status existing = Some SR_COMPLETED then job_ret (job_outcome j t SR_COMPLETED True None)
      else if map_option sr_status existing = Some SR_RUNNING then job_ret (job_outcome j t SR_SKIPPED True (Some ''already_running''))
      else job_bind (start_run sv j t) (\<lambda>(run, created).
        if \<not> created \<and> sr_status run = SR_COMPLETED then job_ret (job_outcome j t SR_COMPLETED True None)
        else call_handler sv sk j t cid)))
    (\<lambda>out db. jo_status out = SR_COMPLETED \<longrightarrow> run_recorded j t SR_COMPLETED db)"
  proof (rule gives_after [where P = "\<lambda>existing db. map_option sr_status existing = Some SR_COMPLETED \<longrightarrow> run_recorded j t SR_COMPLETED db"])
    show "gives (transaction (get_scheduler_run j t)) (\<lambda>existing db. map_option sr_status existing = Some SR_COMPLETED \<longrightarrow> run_recorded j t SR_COMPLETED db)"
      by (auto simp: gives_def get_run_ret run_recorded_def split: option.splits)
    have started: "gives (job_bind (start_run sv j t) (\<lambda>(run, created).
        if \<not> created \<and> sr_status run = SR_COMPLETED then job_ret (job_outcome j t SR_COMPLETED True None)
        else call_handler sv sk j t cid)) (\<lambda>out db. jo_status out = SR_COMPLETED \<longrightarrow> run_recorded j t SR_COMPLETED db)"
      by (rule gives_after [OF started_gives])
         (auto simp: job_ret_def run_recorded_def split: if_splits prod.splits dest!: givesD [OF call_handler_gives])
    fix existing s s' out
    assume "map_option sr_status existing = Some SR_COMPLETED \<longrightarrow> run_recorded j t SR_COMPLETED s"
      and "(if map_option sr_status existing = Some SR_COMPLETED then job_ret (job_outcome j t SR_COMPLETED True None)
      else if map_option sr_status existing = Some SR_RUNNING then job_ret (job_outcome j t SR_SKIPPED True (Some ''already_running''))
      else job_bind (start_run sv j t) (\<lambda>(run, created).
        if \<not> created \<and> sr_status run = SR_COMPLETED then job_ret (job_outcome j t SR_COMPLETED True None)
        else call_handler sv sk j t cid)) s = Some (Inr out, s')"
    then show "jo_status out = SR_COMPLETED \<longrightarrow> run_recorded j t SR_COMPLETED s'"
      using givesD [OF started, of s out s'] by (auto simp: job_ret_def job_outcome_def split: if_splits)
  qed
qed (simp add: job_outcome_def)

text \<open>
  The key of a run is the job and its time, not the symbol: once the jobs of a close are completed for one
  symbol, the same sequence for another symbol, with other contexts, does nothing and is a success.
\<close>

lemma job_lift_ret: "job_lift (ret x) db = Some (Inr x, db)"
  by (simp add: job_lift_def transaction_ret db_lift_def)

lemma run_jobs_completed:
  assumes "\<forall>j \<in> set js. run_recorded (job_value j) t SR_COMPLETED db" and "sk_jobs_enabled sk"
  shows "run_jobs own sv sk t cid js db = Some (Inr (map (\<lambda>j. job_outcome (job_value j) t SR_COMPLETED True None) js), db)"
  using assms(1)
proof (induction js)
  case (Cons j js)
  then show ?case using run_job_completed [OF _ assms(2), of "job_value j" t db own sv cid]
    by (simp add: job_bind_def job_ret_def)
qed (simp add: job_ret_def)

lemma completed_are_successful:
  "require_successful_jobs (map (\<lambda>j. job_outcome j t SR_COMPLETED True None) js) = ret ()"
  by (induction js) (simp_all add: job_outcome_def is_retryable_skip_def)

theorem close_sequence_repeated:
  assumes "\<forall>j \<in> {DAILY_SIGNAL_EVALUATION, DAILY_STOP_UPDATE, PORTFOLIO_SNAPSHOT}. run_recorded (job_value j) t SR_COMPLETED db"
    and "sk_jobs_enabled sk" and "try_acquire lock"
    and "t + seconds (pc_evaluation_delay_seconds (sv_config sv)) \<le> sv_clock sv db"
  shows "\<exists>outcomes. run_daily_close_sequence own sv sk lock t cid db = Some (Inr outcomes, db) \<and> length outcomes = 3 \<and>
    require_successful_jobs outcomes = ret () \<and> list_all jo_skipped outcomes"
proof -
  let ?js = "[DAILY_SIGNAL_EVALUATION, DAILY_STOP_UPDATE, PORTFOLIO_SNAPSHOT]"
  let ?outs = "map (\<lambda>j. job_outcome (job_value j) t SR_COMPLETED True None) ?js"
  have "run_jobs own sv sk t cid ?js db = Some (Inr ?outs, db)"
    by (rule run_jobs_completed [OF _ assms(2)]) (use assms(1) in simp)
  then have "run_daily_close_sequence own sv sk lock t cid db = Some (Inr ?outs, db)"
    using assms(3,4) transaction_ret [of "now sv" db "sv_clock sv db" db]
    by (simp add: run_daily_close_sequence_def job_bind_def now_def db_read_ret del: run_jobs.simps)
  moreover have "require_successful_jobs ?outs = ret ()"
    using completed_are_successful [of t "map job_value ?js"] by (simp only: map_map comp_def)
  moreover have "list_all jo_skipped ?outs" by (simp add: job_outcome_def)
  ultimately show ?thesis by auto
qed

text \<open>A new low of a day whose stops were checked once is not checked, and the event is a success.\<close>

theorem live_update_repeated:
  assumes "run_recorded (job_value INTRADAY_STOP_PROCESSING) (me_candle_open_time e) SR_COMPLETED db"
    and "sk_jobs_enabled (br_scheduler b)" and "event_candle bv e (b, db) = Some (Inr c, (b, db))" and "\<not> nc_is_closed c"
    and "require_valid_constraints (bv_builder bv) (me_symbol e) = ret constraints"
  shows "\<exists>b'. handle_daily_live bv e (b, db) = Some (Inr (), (b', db))"
proof -
  let ?c = "case me_observed_low e of None \<Rightarrow> c | Some low \<Rightarrow> if nc_low c \<noteq> low then c\<lparr>nc_low := low\<rparr> else c"
  let ?ctx = "IntradayStopContext [(me_symbol e, to_strategy_candle ?c)] [(me_symbol e, constraints)]"
  have "\<not> nc_is_closed ?c" using assms(4) by (simp split: option.splits)
  then have ctx: "build_intraday_stop_context (bv_builder bv) (me_symbol e) ?c = ret ?ctx"
    using assms(5) by (simp only: build_intraday_stop_context_def cbind_ret if_False)
  let ?b = "br_scheduler_update (register_stop_context ?ctx) b"
  have "sk_jobs_enabled (br_scheduler ?b)" using assms(2) by (simp add: register_stop_context_def)
  note run_job_completed [OF assms(1) this, of False "bv_services bv" None]
  then have "handle_daily_live bv e (b, db) = Some (Inr (), (?b, db))"
    using completed_are_successful [of "me_candle_open_time e" "[job_value INTRADAY_STOP_PROCESSING]"]
    by (simp add: handle_daily_live_def job_bind_def assms(3) on_db_def job_lift_ret ctx Let_def change_bridge_def
        scheduler_call_def read_bridge_def job_outcome_def del: require_successful_jobs.simps)
  then show ?thesis by blast
qed

section \<open>An event is acknowledged when its run is completed\<close>

lemma on_db_ret: "on_db m s = Some (r, s') \<longleftrightarrow> fst s' = fst s \<and> m (snd s) = Some (r, snd s')"
  by (cases s; cases s') (auto simp: on_db_def split: option.splits)

lemma query_run_gives:
  "gives (query (get_scheduler_run j t)) (\<lambda>x s. \<forall>st. map_option sr_status x = Some st \<longrightarrow> run_recorded j t st (snd s))"
  by (auto simp: gives_def on_db_ret get_run_ret run_recorded_def split: option.splits)

text \<open>
  The outcome is that of the event, and a completed one is backed by a completed run: the run of the event
  or, for an open whose run failed, a recovery attempt that resolves the failed run.
\<close>

definition recovered_by :: "recovery_context \<Rightarrow> paper_db \<Rightarrow> bool" where
  "recovered_by rc db \<longleftrightarrow> run_recorded (rc_recovery_job_name rc) (rc_scheduled_for rc) SR_COMPLETED db \<and>
     (\<forall>r \<in> set (db_runs db). sr_run_id r = rc_original_run_id rc \<longrightarrow> sr_resolved_by_run_id r \<noteq> None)"

definition backed :: "market_event \<Rightarrow> event_process_outcome \<Rightarrow> bridge \<times> paper_db \<Rightarrow> bool" where
  "backed e out s \<longleftrightarrow> eo_event out = e \<and>
     (should_ack out \<longrightarrow> run_recorded (eo_job_name out) (me_candle_open_time e) SR_COMPLETED (snd s) \<or>
        me_event_type e = DAILY_OPEN_AVAILABLE \<and> (\<exists>rc. rc_original_job_name rc = eo_job_name out \<and> recovered_by rc (snd s)))"

lemma backed_other: "st \<noteq> SR_COMPLETED \<Longrightarrow> backed e (event_outcome e j st sk err) s"
  "st \<noteq> SR_COMPLETED \<Longrightarrow> backed e ((event_outcome e j st sk err)\<lparr>eo_terminal_failed := b\<rparr>) s"
  "backed e ((event_outcome e j st sk err)\<lparr>eo_deferred := True, eo_retryable := True\<rparr>) s"
  by (simp_all add: backed_def event_outcome_def should_ack_def)

lemma backed_completed:
  "run_recorded j (me_candle_open_time e) SR_COMPLETED (snd s) \<Longrightarrow> backed e (event_outcome e j SR_COMPLETED sk err) s"
  by (simp add: backed_def event_outcome_def)

lemma persisted_backed: "gives (persisted_outcome e j (me_candle_open_time e) sk) (backed e)"
  unfolding persisted_outcome_def
proof (rule gives_after [OF query_run_gives], goal_cases)
  case (1 x s s' out)
  then obtain r where r: "x = Some r" "out = event_outcome e j (sr_status r) sk (sr_error r)" "s' = s"
    by (auto simp: job_ret_def job_raise_def split: option.splits)
  with 1(1) show ?case by (cases "sr_status r = SR_COMPLETED") (auto intro: backed_completed backed_other)
qed

lemma deferred_backed: "gives (deferred_outcome bv e err rel) (backed e)"
  unfolding deferred_outcome_def by (intro gives_rules backed_other)

lemma permanent_backed: "gives (mark_permanent_failure bv e j t c) (backed e)"
  unfolding mark_permanent_failure_def by (intro gives_rules backed_other) simp

lemma short_circuit_backed:
  "gives (maybe_short_circuit_permanent_failure e j t) (\<lambda>x s. \<forall>out. x = Some out \<longrightarrow> (\<forall>s. backed e out s))"
  unfolding maybe_short_circuit_permanent_failure_def
  by (intro gives_rules) (auto intro: backed_other)

lemma one_row_ret: "scalar_one xs = ret x \<longleftrightarrow> xs = [x]"
  by (auto simp: scalar_one_def ret_def raise_def split: list.splits)

lemma updated_row: "x \<in> set (update_row P g rs) \<Longrightarrow> P x \<Longrightarrow> \<exists>r. x = g r"
  unfolding update_row_def by (induction rs) (auto split: if_splits)

lemma complete_run_gives: "gives (complete_run sv j t st err) (\<lambda>_. run_recorded j t st)"
  unfolding gives_def
proof (intro allI impI)
  fix db x db'
  assume "complete_run sv j t st err db = Some (Inr x, db')"
  then have "db_bind (now sv) (\<lambda>u. complete_scheduler_run j t st u err) db = ret (x, db')"
    unfolding complete_run_def by (cases rule: transaction_cases) simp_all
  then obtain u where "complete_scheduler_run j t st u err db = ret (x, db')"
    by (auto simp: db_bind_ret now_def db_read_ret)
  then have db': "db' = db_runs_update (update_row (is_run j t) (\<lambda>r. r\<lparr>sr_status := st, sr_completed_at := Some u, sr_error := err\<rparr>)) db"
    and one: "filter (is_run j t) (db_runs db') = [x]"
    by (simp_all add: complete_scheduler_run_def db_bind_ret db_read_ret db_write_def one_row_ret)
  from one have "x \<in> set (filter (is_run j t) (db_runs db'))" by simp
  then have "sr_status x = st" unfolding db' by (auto dest: updated_row)
  with one show "run_recorded j t st db'" by (auto simp: run_recorded_def)
qed

lemma completed_run_gives: "gives (complete_market_event bv j t st err) (\<lambda>_ s. run_recorded j t st (snd s))"
  unfolding complete_market_event_def gives_def
  by (auto simp: on_db_ret job_ret_def elim!: job_bind_cases dest: givesD [OF complete_run_gives])

lemma resolved_recorded:
  assumes "query (mark_run_resolved i k) s = Some (Inr x, s')"
  shows "run_recorded j t st (snd s) \<Longrightarrow> run_recorded j t st (snd s')"
    and "r \<in> set (db_runs (snd s')) \<Longrightarrow> sr_run_id r = i \<Longrightarrow> sr_resolved_by_run_id r \<noteq> None"
proof -
  let ?u = "update_row (\<lambda>r. sr_run_id r = i \<and> sr_resolved_by_run_id r = None) (\<lambda>r. r\<lparr>sr_resolved_by_run_id := Some k\<rparr>)"
  have runs: "db_runs (snd s') = ?u (db_runs (snd s))"
    using assms by (auto simp: on_db_ret mark_run_resolved_def elim!: transaction_cases split: if_splits dest!: sym [of _ "snd s'"])
  have "filter (is_run j t) (?u rs) = ?u (filter (is_run j t) rs)" for rs
    by (induction rs) (simp_all add: update_row_def is_run_def)
  then show "run_recorded j t st (snd s')" if "run_recorded j t st (snd s)"
    using that by (auto simp: run_recorded_def runs update_row_def)
  show "sr_resolved_by_run_id r \<noteq> None" if "r \<in> set (db_runs (snd s'))" "sr_run_id r = i"
    using that updated_row [of r "\<lambda>r. sr_run_id r = i \<and> sr_resolved_by_run_id r = None"] unfolding runs by fastforce
qed

lemma recovered_backed:
  fixes rc :: recovery_context
  assumes "me_event_type e = DAILY_OPEN_AVAILABLE"
  shows "gives (job_then (complete_market_event bv (rc_recovery_job_name rc) (rc_scheduled_for rc) SR_COMPLETED None)
      (job_then (query (mark_run_resolved (rc_original_run_id rc) k)) (job_then (change_bridge f)
      (job_ret (event_outcome e (rc_original_job_name rc) SR_COMPLETED False None))))) (backed e)"
proof (rule gives_after [OF completed_run_gives], goal_cases)
  case (1 u s s' out)
  from 1(2) obtain s1 where s1: "query (mark_run_resolved (rc_original_run_id rc) k) s = Some (Inr (), s1)" and db: "snd s' = snd s1"
    and out: "out = event_outcome e (rc_original_job_name rc) SR_COMPLETED False None"
    by (auto simp: job_ret_def change_bridge_def elim!: job_bind_cases split: prod.splits)
  have "recovered_by rc (snd s')"
    unfolding recovered_by_def db using resolved_recorded(1) [OF s1 1(1)] resolved_recorded(2) [OF s1] by blast
  then show ?case unfolding backed_def out event_outcome_def using assms by auto
qed

lemma recovery_backed:
  assumes "me_event_type e = DAILY_OPEN_AVAILABLE"
  shows "gives (process_daily_open_recovery bv e rc) (backed e)"
  unfolding process_daily_open_recovery_def Let_def
  by (rule gives_bind, rule gives_catch, rule gives_bind, rule recovered_backed [OF assms], rename_tac err, case_tac err)
     (simp_all add: deferred_backed gives_bind gives_ret backed_other)

lemma short_circuit_then:
  assumes "gives m (backed e)"
  shows "gives (job_bind (maybe_short_circuit_permanent_failure e j t) (\<lambda>x. case x of Some out \<Rightarrow> job_ret out | None \<Rightarrow> m)) (backed e)"
  by (rule gives_after [OF short_circuit_backed])
     (auto simp: job_ret_def split: option.splits dest: givesD [OF assms])

lemma daily_open_backed: "me_event_type e = DAILY_OPEN_AVAILABLE \<Longrightarrow> gives (process_daily_open bv e) (backed e)"
  unfolding process_daily_open_def Let_def
  by (intro gives_bind short_circuit_then gives_option gives_if recovery_backed persisted_backed gives_catch,
      rename_tac err, case_tac err)
     (simp_all add: gives_bind persisted_backed deferred_backed permanent_backed)

lemma completed_then:
  assumes "gives m (backed e)"
  shows "gives (job_bind (query (get_scheduler_run j (me_candle_open_time e))) (\<lambda>existing.
    if map_option sr_status existing = Some SR_COMPLETED then job_ret (event_outcome e j SR_COMPLETED True None) else m)) (backed e)"
  by (rule gives_after [OF query_run_gives])
     (auto simp: job_ret_def split: if_splits dest: givesD [OF assms] intro: backed_completed)

lemma started_then:
  assumes "\<And>created. gives (m created) (backed e)"
  shows "gives (job_bind (ensure_scheduler_run bv j (me_candle_open_time e)) (\<lambda>(run, created).
    if \<not> created \<and> sr_status run = SR_COMPLETED then job_ret (event_outcome e j SR_COMPLETED True None) else m created)) (backed e)"
proof (rule gives_after)
  show "gives (ensure_scheduler_run bv j (me_candle_open_time e))
      (\<lambda>x s. \<not> snd x \<longrightarrow> filter (is_run j (me_candle_open_time e)) (db_runs (snd s)) = [fst x])"
    unfolding ensure_scheduler_run_def gives_def
    by (auto simp: on_db_ret dest!: givesD [OF started_gives])
next
  fix x s s' out
  assume "\<not> snd x \<longrightarrow> filter (is_run j (me_candle_open_time e)) (db_runs (snd s)) = [fst x]"
    and "(case x of (run, created) \<Rightarrow> if \<not> created \<and> sr_status run = SR_COMPLETED
      then job_ret (event_outcome e j SR_COMPLETED True None) else m created) s = Some (Inr out, s')"
  then show "backed e out s'"
    by (auto simp: job_ret_def run_recorded_def split: if_splits prod.splits dest: givesD [OF assms] intro!: backed_completed)
qed

lemma marker_backed: "gives (complete_marker_event bv e j (me_candle_open_time e)) (backed e)"
  unfolding complete_marker_event_def by (intro completed_then started_then gives_bind persisted_backed)

theorem process_event_backed: "gives (process_event bv e) (backed e)"
  unfolding process_event_def Let_def
  by (intro gives_bind short_circuit_then completed_then started_then gives_if daily_open_backed marker_backed gives_catch persisted_backed,
      simp, rename_tac err, case_tac err)
     (simp_all add: gives_bind persisted_backed deferred_backed permanent_backed)

section \<open>No group of events starves\<close>

text \<open>What the processing of events does to the account of a poll.\<close>

definition continues :: "poll_state \<Rightarrow> poll_state \<Rightarrow> bool" where
  "continues ps ps' \<longleftrightarrow> ps_groups_rotated ps' = ps_groups_rotated ps \<and> set (ps_outcomes ps) \<subseteq> set (ps_outcomes ps')"

lemma continues_trans: "continues p q \<Longrightarrow> continues q r \<Longrightarrow> continues p r"
  by (auto simp: continues_def)

lemma continues_outcome: "continues p q \<Longrightarrow> out \<in> set (ps_outcomes p) \<Longrightarrow> out \<in> set (ps_outcomes q)"
  by (auto simp: continues_def)

lemma note_outcome_continues: "continues ps (note_outcome e out ps)" "out \<in> set (ps_outcomes (note_outcome e out ps))"
  by (auto simp: continues_def note_outcome_def)

lemma continues_fields:
  "continues p (q\<lparr>ps_had_deferred := b, ps_group_states := g\<rparr>) = continues p q"
  "continues p (q\<lparr>ps_permanent := l\<rparr>) = continues p q"
  by (simp_all add: continues_def)

lemma group_events_gives:
  assumes "\<And>e. gives (process e) (\<lambda>out _. eo_event out = e)"
  shows "gives (process_group_events process limit et key es ps) (\<lambda>ps' _. continues ps ps' \<and>
    (ps_processed_count ps < limit \<longrightarrow> es \<noteq> [] \<longrightarrow> (\<exists>out \<in> set (ps_outcomes ps'). eo_event out = hd es)))"
proof (induction es arbitrary: ps)
  case (Cons e es)
  show ?case
  proof (cases "limit \<le> ps_processed_count ps")
    case False
    let ?Q = "\<lambda>ps' _. continues ps ps' \<and> (\<exists>out \<in> set (ps_outcomes ps'). eo_event out = e)"
    have "gives (process_group_events process limit et key (e # es) ps) ?Q"
      unfolding process_group_events.simps Let_def if_not_P [OF False]
    proof (rule gives_step [OF assms], rule gives_bind, rule gives_if, goal_cases)
      case (1 out)
      then show ?case
        by (intro gives_bind gives_ret) (auto simp: continues_fields note_outcome_continues intro!: bexI [of _ out])
    next
      case (2 out)
      have step: "gives (process_group_events process limit et key es q) ?Q" if "continues ps q \<and> out \<in> set (ps_outcomes q)" for q
        using Cons.IH [of q] that 2(1) unfolding gives_def by (blast intro: continues_trans continues_outcome)
      show ?case
        by (rule gives_step [OF _ step], assumption?, intro gives_if gives_bind gives_ret)
           (simp_all add: continues_fields note_outcome_continues)
    qed
    then show ?thesis unfolding gives_def list.sel by blast
  qed (simp add: gives_ret continues_def)
qed (auto intro!: gives_ret simp: continues_def)

lemma groups_gives:
  assumes "\<And>e. gives (process e) (\<lambda>out _. eo_event out = e)"
  shows "gives (process_groups process limit et grouped keys ps) (\<lambda>ps' _. set (ps_outcomes ps) \<subseteq> set (ps_outcomes ps') \<and>
    (\<exists>r. ps_groups_rotated ps' = ps_groups_rotated ps + r \<and> (keys \<noteq> [] \<longrightarrow> ps_processed_count ps < limit \<longrightarrow> 1 \<le> r) \<and>
      (\<forall>key \<in> set (take r keys). get_default grouped key [] \<noteq> [] \<longrightarrow>
         (\<exists>out \<in> set (ps_outcomes ps'). eo_event out = hd (get_default grouped key [])))))"
proof (induction keys arbitrary: ps)
  case (Cons key keys)
  show ?case
  proof (cases "limit \<le> ps_processed_count ps")
    case False
    let ?p = "ps\<lparr>ps_groups_rotated := ps_groups_rotated ps + 1\<rparr>"
    show ?thesis
      unfolding process_groups.simps if_not_P [OF False]
    proof (rule gives_step [OF group_events_gives [OF assms]], unfold gives_def, intro allI impI, goal_cases)
      case (1 q s ps' s')
      from givesD [OF Cons.IH 1(2)] obtain r where "set (ps_outcomes q) \<subseteq> set (ps_outcomes ps')"
        "ps_groups_rotated ps' = ps_groups_rotated q + r"
        "\<forall>key \<in> set (take r keys). get_default grouped key [] \<noteq> [] \<longrightarrow>
           (\<exists>out \<in> set (ps_outcomes ps'). eo_event out = hd (get_default grouped key []))" by blast
      with 1(1) False show ?case by (auto simp: continues_def intro!: exI [of _ "Suc r"])
    qed
  qed (auto intro!: gives_ret exI [of _ 0])
qed (simp add: gives_ret)

text \<open>The cursor and the group states a poll starts from.\<close>

definition fairness_cursor :: "paper_db \<Rightarrow> int" where
  "fairness_cursor db = (case db_rotation_cursor db of None \<Rightarrow> 0 | Some c \<Rightarrow> c)"

definition eligible_in :: "market_event list \<Rightarrow> datetime \<Rightarrow> paper_db \<Rightarrow> string list" where
  "eligible_in candidates et db =
     eligible_group_keys (ordered_group_keys (group_events candidates)) et (map (\<lambda>g. (gs_group_key g, g)) (db_group_states db))"

lemma poll_visits:
  assumes "poll_groups process limit et candidates s = Some (Inr ps, s')"
    and "\<And>e. gives (process e) (\<lambda>out _. eo_event out = e)"
    and "1 \<le> limit" and "eligible_in candidates et (snd s) \<noteq> []"
  shows "1 \<le> ps_groups_rotated ps \<and>
    fairness_cursor (snd s') = advance_group_rotation_cursor (fairness_cursor (snd s)) (length (eligible_in candidates et (snd s)))
      (ps_groups_rotated ps) (ps_had_deferred ps) \<and>
    (\<forall>key \<in> set (take (ps_groups_rotated ps) (poll_order (fairness_cursor (snd s)) (eligible_in candidates et (snd s)))).
       \<exists>out \<in> set (ps_outcomes ps). market_event_group_key (eo_event out) = key)"
proof -
  let ?keys = "eligible_in candidates et (snd s)" and ?c = "fairness_cursor (snd s)"
  let ?start = "start_poll (map (\<lambda>g. (gs_group_key g, g)) (db_group_states (snd s)))"
  from assms(1) obtain s1 s2 where
    groups: "process_groups process limit et (group_events candidates) (poll_order ?c ?keys) ?start s1 = Some (Inr ps, s2)"
    and cursor: "query (set_fairness_group_rotation_cursor (advance_group_rotation_cursor ?c (length ?keys)
        (ps_groups_rotated ps) (ps_had_deferred ps))) s2 = Some (Inr (), s')"
    unfolding poll_groups_def Let_def
    by (auto simp: on_db_ret transaction_ret list_market_event_group_states_def get_fairness_group_rotation_cursor_def db_read_ret
        job_ret_def fairness_cursor_def [symmetric] eligible_in_def [symmetric] elim!: job_bind_cases)
  from cursor have "fairness_cursor (snd s') = advance_group_rotation_cursor ?c (length ?keys) (ps_groups_rotated ps) (ps_had_deferred ps)"
    by (auto simp: on_db_ret transaction_ret set_fairness_group_rotation_cursor_def db_write_def fairness_cursor_def dest!: sym [of _ "snd s'"])
  moreover from assms(4) have "poll_order ?c ?keys \<noteq> []" by (metis length_poll_order length_0_conv)
  with givesD [OF groups_gives [OF assms(2)] groups] assms(3) have "1 \<le> ps_groups_rotated ps"
    and visited: "\<forall>key \<in> set (take (ps_groups_rotated ps) (poll_order ?c ?keys)).
      get_default (group_events candidates) key [] \<noteq> [] \<longrightarrow>
      (\<exists>out \<in> set (ps_outcomes ps). eo_event out = hd (get_default (group_events candidates) key []))"
    by (simp_all add: start_poll_def)
  moreover have "market_event_group_key (hd (get_default (group_events candidates) key [])) = key \<and>
      get_default (group_events candidates) key [] \<noteq> []" if "key \<in> set ?keys" for key
  proof -
    from that have "key \<in> market_event_group_key ` set candidates"
      by (simp add: eligible_in_def eligible_group_keys_def ordered_group_keys_spec)
    then have "set (get_default (group_events candidates) key []) \<noteq> {}" by (auto simp: group_events_spec)
    then have "get_default (group_events candidates) key [] \<noteq> []" by auto
    with hd_in_set [OF this] show ?thesis by (simp add: group_events_spec)
  qed
  moreover have "key \<in> set ?keys" if "key \<in> set (take n (poll_order ?c ?keys))" for key n
    using in_set_takeD [OF that] by simp
  ultimately show ?thesis using visited by (metis (no_types, lifting))
qed

end
