(* ===== verification/Paper_Idempotency.thy ===== *)
theory Paper_Idempotency
  imports Paper_Steps
begin

text \<open>
  A fill that was made is never made again: executing the same intent at the same candle a second time
  (a retry, or a replayed event) finds the order and the fill and leaves the database as it is.
\<close>

section \<open>What a created fill leaves in the tables\<close>

lemma scalar_one_single: "scalar_one_or_none [x] = ret (Some x)"
  by (simp add: scalar_one_or_none_def)

lemma filter_append_new: "(\<And>x. x \<in> set xs \<Longrightarrow> \<not> P x) \<Longrightarrow> P y \<Longrightarrow> filter P (xs @ [y]) = [y]"
  by simp

lemma order_created_ret:
  assumes "insert_or_get_paper_order env row db = ret ((order, True), db')"
  shows "\<exists>stored. db' = db\<lparr>db_orders := db_orders db @ [stored]\<rparr> \<and> order = stored \<and>
    order_row_to_domain stored = ret stored \<and> po_intent_id stored = po_intent_id row \<and>
    (\<forall>r \<in> set (db_orders db). po_intent_id r \<noteq> po_intent_id row)"
proof -
  have "order_row_to_domain r = ret x \<Longrightarrow> x = r" for r x
    by (auto simp: order_row_to_domain_def split: if_splits)
  with assms show ?thesis
    unfolding insert_or_get_paper_order_def Let_def
    by (fastforce simp: cbind_eq_ret find_None_iff split: option.splits if_splits)
qed

lemma fill_created_ret:
  assumes "insert_or_get_paper_fill env row db = ret ((fill, True), db')"
  shows "db' = db\<lparr>db_fills := db_fills db @ [stored_fill env row]\<rparr>" and "fill = stored_fill env row"
    and "fill_row_to_domain (stored_fill env row) = ret (stored_fill env row)"
    and "\<forall>r \<in> set (db_fills db). fl_deterministic_fill_key r \<noteq> fl_deterministic_fill_key row"
proof -
  have dom: "fill_row_to_domain r = ret x \<Longrightarrow> x = r" for r x
    by (auto simp: fill_row_to_domain_def split: if_splits paper_fill_kind.splits)
  have "fill_row_to_domain (stored_fill env row) = ret fill \<and> db' = db\<lparr>db_fills := db_fills db @ [stored_fill env row]\<rparr> \<and>
      find (\<lambda>r. fl_deterministic_fill_key r = fl_deterministic_fill_key row) (db_fills db) = None"
    using assms unfolding insert_or_get_paper_fill_def Let_def
    by (auto simp: cbind_eq_ret split: option.splits if_splits)
  then show "db' = db\<lparr>db_fills := db_fills db @ [stored_fill env row]\<rparr>" "fill = stored_fill env row"
    "fill_row_to_domain (stored_fill env row) = ret (stored_fill env row)"
    "\<forall>r \<in> set (db_fills db). fl_deterministic_fill_key r \<noteq> fl_deterministic_fill_key row"
    using dom by (auto simp: find_None_iff)
qed

text \<open>The tables an operation does not touch.\<close>

lemma update_wallet_frame:
  "update_wallet env a b c d e v t db = ret (x, db') \<Longrightarrow>
   db_orders db' = db_orders db \<and> db_fills db' = db_fills db \<and> db_positions db' = db_positions db"
  by (auto simp: update_wallet_def Let_def split: option.splits if_splits)

lemma append_audit_frame:
  "append_audit_event env a b c d e f db = ret (x, db') \<Longrightarrow>
   db_orders db' = db_orders db \<and> db_fills db' = db_fills db \<and> db_positions db' = db_positions db"
  by (auto simp: append_audit_event_def Let_def db_bind_def uuid4_def db_write_def db_ret_def)

lemma book_entry_ret:
  assumes "book_entry env intent calc t atr cid order created fill db = ret (res, db')"
  shows "db_orders db' = db_orders db \<and> db_fills db' = db_fills db \<and> tf_created res = created \<and> tf_fill res = Some fill \<and>
    tf_order res = Some order \<and>
    (\<exists>p. pp_entry_intent_id p = ti_intent_id intent \<and> pp_status p = PP_OPEN \<and> pp_closed_at p = None \<and>
       readable_position p \<and> db_positions db' = db_positions db @ [stored_position env p])"
proof -
  let ?row = "new_position_row intent calc atr t"
  from assms obtain w d1 k d2 p d3 i d4 a d5 where
    d1: "update_wallet env (- ea_fee (en_accounting calc)) 0 (ea_fee (en_accounting calc)) 0
      (ea_slippage_cost (en_accounting calc)) None None db = ret (w, d1)"
    and d2: "uuid4 d1 = ret (k, d2)" and d3: "create_position env (?row k) d2 = ret (p, d3)"
    and d4: "update_intent_status env (ti_intent_id intent) TI_FILLED (Some (en_quantity calc)) None None d3 = ret (i, d4)"
    and d5: "append_audit_event env ''PAPER_FILL_EXECUTED'' ''paper_fill'' (fl_fill_id fill)
                [(''intent_id'', JText (uuid_str (ti_intent_id intent))), (''symbol'', JText (ti_symbol intent)),
                 (''quantity'', JDecimal (en_quantity calc)),
                 (''fill_price'', JDecimal (ef_fill_price (en_fill_prices calc))), (''atr14'', JDecimal atr)]
                cid None d4 = ret (a, d5)"
    and res: "res = \<lparr>tf_created = created, tf_fill = Some fill, tf_order = Some order, tf_position = Some p, tf_intent = i\<rparr>"
      "db' = d5"
    unfolding book_entry_def db_bind_ret by (auto simp: db_ret_def)
  note c = create_position_ret [OF d3]
  have uuid: "d2 = d1\<lparr>db_next_uuid := Suc (db_next_uuid d1)\<rparr>" using d2 by (auto simp: uuid4_def)
  show ?thesis
    using update_wallet_frame [OF d1] append_audit_frame [OF d5] update_intent_status_eq [OF d4] c(1,5)
    by (auto simp: res uuid new_position_row_def Let_def intro!: exI [of _ "?row k"])
qed

text \<open>The order, the fill and the position of an intent, each the only row of its key.\<close>

definition filled_rows :: "trade_intent \<Rightarrow> datetime \<Rightarrow> paper_order \<Rightarrow> paper_fill \<Rightarrow> paper_position \<Rightarrow> paper_db \<Rightarrow> bool" where
  "filled_rows intent t order fill p db \<longleftrightarrow>
     filter (\<lambda>r. po_intent_id r = ti_intent_id intent) (db_orders db) = [order] \<and>
     filter (\<lambda>r. fl_deterministic_fill_key r = paper_fill_key (po_paper_order_id order) t 0) (db_fills db) = [fill] \<and>
     filter (\<lambda>r. pp_entry_intent_id r = ti_intent_id intent) (db_positions db) = [p] \<and>
     order_row_to_domain order = ret order \<and> fill_row_to_domain fill = ret fill"

lemma persist_created:
  assumes "persist_successful_fill env intent calc open_ref t atr cid db = ret (res, db')" and "tf_created res"
    and "\<forall>p \<in> set (db_positions db). pp_entry_intent_id p \<noteq> ti_intent_id intent"
  shows "\<exists>order fill p. filled_rows intent t order fill p db' \<and> tf_order res = Some order \<and> tf_fill res = Some fill"
proof -
  let ?row = "\<lambda>order. new_entry_fill_row intent calc open_ref t order"
  from assms(1) obtain k d1 order created d2 j d3 fill made d4 where
    d1: "uuid4 db = ret (k, d1)"
    and d2: "insert_or_get_paper_order env (new_order_row intent calc t k) d1 = ret ((order, created), d2)"
    and d3: "uuid4 d2 = ret (j, d3)"
    and d4: "insert_or_get_paper_fill env (?row order j) d3 = ret ((fill, made), d4)"
    and last: "(if \<not> made then fill_already_made intent fill order
      else book_entry env intent calc t atr cid order created fill) d4 = ret (res, db')"
    unfolding persist_successful_fill_def by (fastforce simp: db_bind_ret split: prod.splits)
  have made: made
  proof (rule ccontr)
    assume "\<not> made"
    with last have "fill_already_made intent fill order d4 = ret (res, db')" by simp
    then have "\<not> tf_created res" unfolding fill_already_made_def db_read_ret by (auto simp: cbind_eq_ret)
    with assms(2) show False by simp
  qed
  then have book: "book_entry env intent calc t atr cid order created fill d4 = ret (res, db')" using last by simp
  note b = book_entry_ret [OF this]
  with assms(2) have created: created by simp
  have u: "d1 = db\<lparr>db_next_uuid := Suc (db_next_uuid db)\<rparr>" "d3 = d2\<lparr>db_next_uuid := Suc (db_next_uuid d2)\<rparr>"
    using d1 d3 by (auto simp: uuid4_def)
  from order_created_ret [of env "new_order_row intent calc t k" d1 order d2] d2 created
  have o: "d2 = d1\<lparr>db_orders := db_orders d1 @ [order]\<rparr>" "order_row_to_domain order = ret order"
    "po_intent_id order = ti_intent_id intent" "\<forall>r \<in> set (db_orders d1). po_intent_id r \<noteq> ti_intent_id intent"
    by (auto simp: new_order_row_def)
  note f = fill_created_ret [of env "?row order j" d3 fill d4]
  have d4: "insert_or_get_paper_fill env (?row order j) d3 = ret ((fill, True), d4)" using d4 made by simp
  note f = fill_created_ret [OF d4]
  have key: "fl_deterministic_fill_key (stored_fill env (?row order j)) = paper_fill_key (po_paper_order_id order) t 0"
    "fl_deterministic_fill_key (?row order j) = paper_fill_key (po_paper_order_id order) t 0"
    by (simp_all add: stored_fill_def new_entry_fill_row_def)
  from b obtain p where p: "pp_entry_intent_id p = ti_intent_id intent" "db_positions db' = db_positions d4 @ [stored_position env p]"
    by blast
  have "filter (\<lambda>r. po_intent_id r = ti_intent_id intent) (db_orders db') = [order]"
    using b f(1) o u by (auto intro!: filter_append_new)
  moreover have "filter (\<lambda>r. fl_deterministic_fill_key r = paper_fill_key (po_paper_order_id order) t 0) (db_fills db') = [fill]"
    using b f(1,2,4) key by (auto intro!: filter_append_new)
  moreover have "filter (\<lambda>r. pp_entry_intent_id r = ti_intent_id intent) (db_positions db') = [stored_position env p]"
    using p f(1) o(1) u assms(3) by (auto simp: stored_position_def intro!: filter_append_new)
  ultimately have "filled_rows intent t order fill (stored_position env p) db'"
    using o(2) f(2,3) unfolding filled_rows_def by blast
  then show ?thesis using b by blast
qed

section \<open>The second execution\<close>

lemma load_filled:
  assumes "filled_rows intent t order fill p db" and "readable_position p"
  shows "load_existing_fill intent t db = ret (Some \<lparr>tf_created = False, tf_fill = Some fill, tf_order = Some order,
    tf_position = Some p, tf_intent = (case find (\<lambda>r. ti_intent_id r = ti_intent_id intent) (db_intents db) of
      Some r \<Rightarrow> r | None \<Rightarrow> intent)\<rparr>, db)"
proof -
  have p: "position_row_to_domain p = ret p" using assms(2) by (simp add: position_row_to_domain_ret)
  show ?thesis
    using assms(1) p unfolding filled_rows_def load_existing_fill_def fill_already_made_def
    by (simp add: db_bind_def db_read_def db_lift_def db_ret_def scalar_one_single Let_def)
qed

lemma load_existing_not_created:
  "load_existing_fill intent t db = ret (Some r, db') \<Longrightarrow> \<not> tf_created r"
  unfolding load_existing_fill_def fill_already_made_def
  by (auto simp: db_bind_ret db_read_ret cbind_eq_ret db_ret_def Let_def split: option.splits)

lemma load_unchanged: "load_existing_fill i t d = ret (z, d') \<Longrightarrow> d' = d"
  unfolding load_existing_fill_def fill_already_made_def
  by (auto simp: db_bind_ret db_read_ret db_lift_def cbind_eq_ret db_ret_def Let_def split: option.splits)

lemma execute_created:
  assumes "execute_scheduled_paper_fill env risk ctx processed pending cid intent db = ret (FillDone res, db')" and "tf_created res"
  shows "\<exists>calc. persist_successful_fill env intent calc (fc_open_ref ctx) (fc_candle_open_time ctx) (fc_atr14 ctx) cid db = ret (res, db')"
proof -
  have reads: "get_open_positions d = ret (x, d') \<Longrightarrow> d' = d" "get_wallet d = ret (y, d') \<Longrightarrow> d' = d" for d d' x y
    unfolding get_open_positions_def get_wallet_def by (auto simp: db_read_ret)
  have load: "d' = d \<and> (\<forall>r. z = Some r \<longrightarrow> \<not> tf_created r)" if "load_existing_fill i t d = ret (z, d')" for d d' z i t
    using load_unchanged [OF that] load_existing_not_created that by metis
  show ?thesis
    using assms unfolding execute_scheduled_paper_fill_def
    by (auto simp: db_bind_ret db_lift_def cbind_eq_ret db_ret_def db_raise_def reject_entry_def
       split: option.split_asm if_split_asm entry_execution_result.split_asm dest!: reads load)
       (metis entry_execution_result.exhaust)
qed

lemma execute_twice:
  assumes "db_ok env db" and "i \<in> set (db_intents db)" and "ti_intent_id i = ti_intent_id intent" and "ti_status i = TI_SUBMITTED"
    and "execute_scheduled_paper_fill env risk ctx processed pending cid intent db = ret (FillDone res, db')" and "tf_created res"
    and "\<forall>p \<in> set (db_positions db'). readable_position p"
    and "fc_candle_open_time ctx' = fc_candle_open_time ctx"
    and "validate_symbol_constraints_core (fc_constraints ctx') = None"
  shows "\<exists>res'. execute_scheduled_paper_fill env risk' ctx' processed' pending' cid' intent db' = ret (FillDone res', db') \<and>
    \<not> tf_created res' \<and> tf_order res' = tf_order res \<and> tf_fill res' = tf_fill res"
proof -
  have "pp_entry_intent_id p \<noteq> ti_intent_id intent" if "p \<in> set (db_positions db)" for p
  proof
    assume "pp_entry_intent_id p = ti_intent_id intent"
    moreover from that assms(1) obtain j where j: "j \<in> set (db_intents db)" "filled_by j p" by (auto simp: db_ok_def)
    ultimately have "j = i" using assms(1,2,3) by (auto simp: db_ok_def distinct_map inj_on_def)
    with j assms(4) show False by simp
  qed
  with execute_created [OF assms(5,6)] persist_created [OF _ assms(6)] obtain order fill p where
    rows: "filled_rows intent (fc_candle_open_time ctx) order fill p db'" "tf_order res = Some order" "tf_fill res = Some fill"
    by metis
  then have "p \<in> set (filter (\<lambda>r. pp_entry_intent_id r = ti_intent_id intent) (db_positions db'))"
    unfolding filled_rows_def by (metis list.set_intros(1))
  then have "readable_position p" using assms(7) by simp
  note load = load_filled [OF rows(1) this]
  have "validate_symbol_constraints (Some (fc_constraints ctx')) = ret (fc_constraints ctx')"
    using assms(9) by (simp add: validate_symbol_constraints_def)
  then show ?thesis
    using rows(2,3) load unfolding execute_scheduled_paper_fill_def assms(8)
    by (simp add: db_bind_def db_lift_def db_ret_def)
qed

end
