(* ===== verification/Paper_Examples.thy ===== *)
theory Paper_Examples
  imports Paper_Idempotency Examples
begin

text \<open>
  A small paper trading database on which the lifecycle is evaluated: one scheduled intent, filled at the
  open of its day by the risk engine of the development.
\<close>

definition paper_sample_env :: paper_env where
  "paper_sample_env = \<lparr>numeric = (\<lambda>x. x), utc_now = 20001 * us_per_day, construct_evaluation = (\<lambda>s t v p. sample_evaluation s t),
     input_hash = (\<lambda>_. ''hash''), error_text = (\<lambda>_. ''error'')\<rparr>"

definition paper_sample_intent :: trade_intent where
  "paper_sample_intent =
     \<lparr>ti_intent_id = 1, ti_idempotency_key = ''key'', ti_symbol = ''BTC'', ti_side = PS_LONG, ti_signal_type = SIG_BREAKOUT,
      ti_signal_time = 20000 * us_per_day, ti_scheduled_fill_time = 20001 * us_per_day, ti_requested_entry = 50000,
      ti_requested_stop = 49000, ti_requested_quantity = None, ti_approved_quantity = None, ti_risk_amount = None,
      ti_status = TI_SCHEDULED, ti_strategy_evaluation_id = 0, ti_rejection_reason = None,
      ti_created_at = 20000 * us_per_day, ti_updated_at = 20000 * us_per_day\<rparr>"

definition paper_sample_db :: paper_db where
  "paper_sample_db =
     \<lparr>db_runtime = Some \<lparr>rs_status = RS_READY, rs_last_error = None, rs_started_at = None, rs_heartbeat_at = 20001 * us_per_day,
        rs_kill_switch = False, rs_paused = False, rs_current_cycle_id = None, rs_version = 1\<rparr>,
      db_wallet = Some \<lparr>wl_cash = 100000, wl_total_realized_pnl = 0, wl_total_fees = 0, wl_total_funding = 0,
        wl_total_slippage = 0, wl_version = 1, wl_updated_at = 0\<rparr>,
      db_evaluations = [], db_intents = [paper_sample_intent], db_orders = [], db_fills = [], db_positions = [],
      db_stop_events = [], db_snapshots = [], db_audit = [], db_funding = [], db_runs = [], db_group_states = [],
      db_rotation_cursor = None, db_next_uuid = 10\<rparr>"

definition paper_sample_context :: fill_processing_context where
  "paper_sample_context =
     \<lparr>fc_open_ref = 50000, fc_atr14 = 400, fc_candle_open_time = 20001 * us_per_day, fc_constraints = sample_constraints,
      fc_strategy_params = default_strategy_parameters, fc_risk_params = default_risk_parameters,
      fc_execution_config = \<lparr>xc_fee_rate = 1 / 2000, xc_slippage_bps = 0, xc_max_leverage = 2\<rparr>,
      fc_day_candles = [], fc_prior_closes = [], fc_processed_intent_ids = {}\<rparr>"

definition paper_sample_config :: paper_trading_config where
  "paper_sample_config =
     \<lparr>pc_database_url = ''postgresql://localhost/paper'', pc_paper_initial_equity = 100000, pc_paper_fee_rate = 1 / 2000,
      pc_paper_slippage_bps = 0, pc_paper_max_leverage = 2, pc_evaluation_delay_seconds = 5, pc_fill_delay_seconds = 0,
      pc_heartbeat_interval_seconds = 30, pc_stale_runtime_threshold_seconds = 120, pc_scheduler_enabled = True,
      pc_control_api_enabled = False, pc_control_api_localhost_only = False, pc_paper_production_mode = False,
      pc_control_api_rate_limit_per_minute = 60, pc_advisory_lock_id = 987654321, pc_kill_switch_close_policy = FREEZE,
      pc_funding_enabled = False, pc_symbols = [''BTC'', ''ETH'', ''SOL'']\<rparr>"

lemma paper_sample_numeric: "numeric_ok paper_sample_env"
  by (simp add: numeric_ok_def paper_sample_env_def mono_def)

lemma paper_sample_ok: "db_ok paper_sample_env paper_sample_db"
  by (simp add: db_ok_def paper_sample_db_def)

definition paper_sample_approval :: entry_approval where
  "paper_sample_approval =
     \<lparr>en_fill_prices = \<lparr>ef_open_ref = 50000, ef_fill_price = 50000, ef_stop_initial = 49000, ef_slippage_cost = 0\<rparr>,
      en_accounting = sample_accounting, en_quantity = 1 / 2, en_reason_codes = [RC_RISK_APPROVED]\<rparr>"

lemma paper_sample_constraints: "validate_symbol_constraints_core sample_constraints = None"
  by (simp add: validate_symbol_constraints_core_def sample_constraints_def is_step_aligned_def dintegral_def
      round_half_even_def float_is_finite_def dquot_def dec_simps Let_def)

lemma paper_sample_entry:
  assumes "ti_symbol i = ''BTC''"
  shows "compute_entry_execution risk_evaluate
     \<lparr>ei_intent = i, ei_open_ref = 50000, ei_atr14 = 400, ei_candle_open_time = t, ei_constraints = sample_constraints,
      ei_wallet_cash = 100000, ei_open_positions = [], ei_pending_intents = [], ei_processed_intent_ids = {},
      ei_day_candles = d, ei_prior_closes = prior, ei_strategy_params = default_strategy_parameters,
      ei_risk_params = default_risk_parameters,
      ei_execution_config = \<lparr>xc_fee_rate = 1 / 2000, xc_slippage_bps = 0, xc_max_leverage = 2\<rparr>\<rparr> =
   ret (EntryExecutionApproved paper_sample_approval)"
  by (simp add: compute_entry_execution_def validate_symbol_constraints_def paper_sample_constraints assms
      sample_fill_prices sample_entry_decision sample_decision_fields sample_entry_accounting paper_sample_approval_def Let_def)

section \<open>The fill of an open\<close>

lemmas db_run = db_bind_def db_ret_def db_raise_def db_read_def db_lift_def db_write_def uuid4_def

definition paper_sample_submitted :: paper_db where
  "paper_sample_submitted = paper_sample_db\<lparr>db_intents := [paper_sample_intent\<lparr>ti_status := TI_SUBMITTED, ti_updated_at := 20001 * us_per_day\<rparr>]\<rparr>"

definition paper_sample_position :: paper_position where
  "paper_sample_position =
     \<lparr>pp_position_id = 12, pp_symbol = ''BTC'', pp_status = PP_OPEN, pp_quantity = 1 / 2, pp_average_entry_price = 50000,
      pp_initial_stop = 49000, pp_current_stop = 49000, pp_highest_close_since_entry = 50000, pp_entry_atr14 = 400,
      pp_realized_pnl = 0, pp_unrealized_pnl = 0, pp_margin_reserved = 12500, pp_entry_intent_id = 1,
      pp_opened_at = 20001 * us_per_day, pp_closed_at = None, pp_version = 1\<rparr>"

lemma paper_sample_fields:
  "fc_constraints paper_sample_context = sample_constraints" "fc_open_ref paper_sample_context = 50000"
  "fc_atr14 paper_sample_context = 400" "fc_candle_open_time paper_sample_context = 20001 * us_per_day"
  "fc_strategy_params paper_sample_context = default_strategy_parameters"
  "fc_risk_params paper_sample_context = default_risk_parameters"
  "fc_execution_config paper_sample_context = \<lparr>xc_fee_rate = 1 / 2000, xc_slippage_bps = 0, xc_max_leverage = 2\<rparr>"
  "fc_day_candles paper_sample_context = []" "fc_prior_closes paper_sample_context = []"
  "numeric paper_sample_env = (\<lambda>x. x)"
  by (simp_all add: paper_sample_context_def paper_sample_env_def)

lemma paper_sample_approval_fields:
  "en_quantity paper_sample_approval = 1 / 2" "en_accounting paper_sample_approval = sample_accounting"
  "ef_fill_price (en_fill_prices paper_sample_approval) = 50000" "ea_slippage_cost sample_accounting = 0"
  "ea_margin_reserved sample_accounting = 12500" "ea_trail_state sample_accounting = sample_trail"
  "ts_stop_initial sample_trail = 49000" "ts_effective_stop sample_trail = 49000" "ts_highest_close sample_trail = 50000"
  by (simp_all add: paper_sample_approval_def sample_accounting_def sample_trail_def)

lemma paper_sample_intent_fields:
  "ti_symbol paper_sample_intent = ''BTC''" "ti_intent_id paper_sample_intent = 1" "ti_status paper_sample_intent = TI_SCHEDULED"
  "ti_scheduled_fill_time paper_sample_intent = 20001 * us_per_day"
  by (simp_all add: paper_sample_intent_def)

lemma paper_sample_persist:
  "\<exists>res db. persist_successful_fill paper_sample_env paper_sample_intent paper_sample_approval 50000 (20001 * us_per_day) 400 None
     paper_sample_submitted = ret (res, db) \<and> tf_created res \<and> db_positions db = [paper_sample_position] \<and>
     tf_position res \<noteq> None \<and> map ti_status (db_intents db) = [TI_FILLED]"
  by (simp add: persist_successful_fill_def db_run paper_sample_submitted_def paper_sample_db_def
      insert_or_get_paper_order_def new_order_row_def paper_sample_approval_fields paper_sample_fields Let_def
      paper_sample_intent_def order_row_to_domain_def insert_or_get_paper_fill_def new_entry_fill_row_def existing_fill_def
      scalar_one_or_none_def stored_fill_def fill_checks_def fill_keys_def fill_row_to_domain_def book_entry_def
      update_wallet_def create_position_def stored_position_def position_checks_def position_row_to_domain_def
      new_position_row_def update_intent_status_def update_row_def append_audit_event_def sample_decision_fields
      paper_sample_position_def)

lemma paper_sample_execute:
  "\<exists>res db. execute_scheduled_paper_fill paper_sample_env risk_evaluate paper_sample_context {} [] None paper_sample_intent
     paper_sample_submitted = ret (FillDone res, db) \<and> tf_created res \<and> db_positions db = [paper_sample_position] \<and>
     tf_position res \<noteq> None \<and> map ti_status (db_intents db) = [TI_FILLED]"
proof -
  obtain res db where persist: "persist_successful_fill paper_sample_env paper_sample_intent paper_sample_approval 50000
      (20001 * us_per_day) 400 None paper_sample_submitted = ret (res, db)" and res: "tf_created res"
    "db_positions db = [paper_sample_position]" "tf_position res \<noteq> None" "map ti_status (db_intents db) = [TI_FILLED]"
    using paper_sample_persist by metis
  have tables: "db_orders paper_sample_submitted = []" "db_positions paper_sample_submitted = []"
    by (simp_all add: paper_sample_submitted_def paper_sample_db_def)
  obtain w where wallet: "db_wallet paper_sample_submitted = Some w" "wl_cash w = 100000"
    by (simp add: paper_sample_submitted_def paper_sample_db_def)
  have "execute_scheduled_paper_fill paper_sample_env risk_evaluate paper_sample_context {} [] None paper_sample_intent
     paper_sample_submitted = ret (FillDone res, db)"
    using persist
    by (simp add: wallet execute_scheduled_paper_fill_def db_run paper_sample_fields validate_symbol_constraints_def
        paper_sample_constraints load_existing_fill_def tables scalar_one_or_none_def get_open_positions_def get_wallet_def
        paper_sample_entry paper_sample_intent_fields)
  with res show ?thesis by metis
qed

lemma paper_sample_open:
  "\<exists>x db. process_scheduled_intents_for_open paper_sample_env risk_evaluate (20001 * us_per_day) 0
      [(''BTC'', paper_sample_context)] paper_sample_config (\<lambda>_. ret True) None paper_sample_db = Some (Inr x, db) \<and>
    db_positions db = [paper_sample_position] \<and> map ti_status (db_intents db) = [TI_FILLED]"
proof -
  obtain res db where run: "execute_scheduled_paper_fill paper_sample_env risk_evaluate paper_sample_context {} [] None
      paper_sample_intent paper_sample_submitted = ret (FillDone res, db)"
    "db_positions db = [paper_sample_position]" "map ti_status (db_intents db) = [TI_FILLED]"
    using paper_sample_execute by metis
  have "get_scheduled_intents_for_symbol ''BTC'' (20001 * us_per_day) paper_sample_db = ret ([paper_sample_intent], paper_sample_db)"
    by (simp add: get_scheduled_intents_for_symbol_def db_read_def paper_sample_db_def paper_sample_intent_def)
  moreover have "evaluate_final_entry_authorization paper_sample_config True (20001 * us_per_day) paper_sample_db =
      ret (\<lparr>ez_allowed = True, ez_reasons = [], ez_paused = False, ez_kill_switch = False\<rparr>, paper_sample_db)"
    by (simp add: evaluate_final_entry_authorization_def db_run get_runtime_state_def paper_sample_db_def paper_sample_config_def
        seconds_def us_per_second_def)
  moreover have "update_intent_status paper_sample_env 1 TI_SUBMITTED None None (Some (20001 * us_per_day)) paper_sample_db =
      ret (hd (db_intents paper_sample_submitted), paper_sample_submitted)"
    by (simp add: update_intent_status_def update_row_def paper_sample_db_def paper_sample_intent_def money_def
        paper_sample_submitted_def set_if_def set_if_some_def)
  moreover have submit: "validate_intent_transition TI_SCHEDULED TI_SUBMITTED = ret ()"
    by (simp add: validate_intent_transition_def transition_tables)
  moreover have ready: "ready_or_false (ret True) = True" by (simp add: ready_or_false_def ret_def)
  ultimately show ?thesis
    using run
    by (simp add: process_scheduled_intents_for_open_def SYMBOL_PROCESSING_ORDER_def db_run job_run transaction_ret paper_sample_fields
        process_due_intent_def pending_intents_for_open_batch_def pending_of_symbol_def
        submit ready paper_sample_intent_fields seconds_def no_fills_def Let_def
        split: prod.splits)
qed

lemma paper_sample_run:
  "\<exists>db. (paper_step paper_sample_env)\<^sup>*\<^sup>* paper_sample_db db \<and> db_positions db = [paper_sample_position]"
proof -
  obtain x db where run: "process_scheduled_intents_for_open paper_sample_env risk_evaluate (20001 * us_per_day) 0
      [(''BTC'', paper_sample_context)] paper_sample_config (\<lambda>_. ret True) None paper_sample_db = Some (Inr x, db)"
    and positions: "db_positions db = [paper_sample_position]"
    using paper_sample_open by metis
  from runs.keeps_atD [OF runs.keepsD [OF process_open_runs] run] paper_sample_numeric paper_sample_ok
  have "(paper_step paper_sample_env)\<^sup>*\<^sup>* paper_sample_db db" by (simp add: service_run_def)
  with positions show ?thesis by metis
qed

lemma sample_constraints_of: "dict_get (cfg_symbol_constraints sample_config) ''BTC'' = Some sample_constraints"
  by (simp add: sample_config_def)

end
