(* ===== verification/Bridge_Examples.thy ===== *)
theory Bridge_Examples
  imports Bridge_Properties Paper_Examples
begin

text \<open>
  A week and a month that have closed, and the polls that find them: both are markers, whose runs are
  recorded and completed.
\<close>

definition bridge_sample_candle :: "market_timeframe \<Rightarrow> normalized_candle" where
  "bridge_sample_candle tf =
     \<lparr>nc_symbol = BTC, nc_timeframe = tf, nc_open_time = 20000 * us_per_day, nc_close_time = 20007 * us_per_day,
      nc_open = 50000, nc_high = 51000, nc_low = 49000, nc_close = 50500, nc_volume = 10, nc_is_closed = True\<rparr>"

definition bridge_sample_candles :: candle_repository where
  "bridge_sample_candles = store_candle empty_repository (bridge_sample_candle MT_WEEKLY)"

definition bridge_sample_services :: service_env where
  "bridge_sample_services =
     \<lparr>sv_env = paper_sample_env, sv_clock = (\<lambda>_. 20008 * us_per_day), sv_market_data_ready = (\<lambda>_. ret True),
      sv_fill_ready = (\<lambda>_. ret True), sv_risk = risk_evaluate, sv_config = paper_sample_config, sv_soak_run_id = None\<rparr>"

definition bridge_sample_env :: bridge_env where
  "bridge_sample_env =
     \<lparr>bv_services = bridge_sample_services,
      bv_builder = \<lparr>cb_candles = bridge_sample_candles, cb_constraints = (\<lambda>_. Some sample_constraints),
        cb_strategy_params = default_strategy_parameters, cb_risk_params = default_risk_parameters,
        cb_execution_config = \<lparr>xc_fee_rate = 1 / 2000, xc_slippage_bps = 0, xc_max_leverage = 2\<rparr>\<rparr>,
      bv_lock = \<lparr>al_held = True, al_available = True\<rparr>, bv_max_events_per_poll = 10, bv_low_digest = (\<lambda>_. ''low''),
      bv_session_unhealthy = False\<rparr>"

definition bridge_sample :: bridge where
  "bridge_sample =
     \<lparr>br_detector = \<lparr>dt_symbols = [''BTC''], dt_evaluation_delay_seconds = 5, dt_trackers = []\<rparr>,
      br_scheduler = \<lparr>sk_jobs_enabled = True, sk_pending_evaluation = None, sk_pending_fill_contexts = None,
        sk_pending_stop_context = None\<rparr>,
      br_queue_overflow = False, br_deferred_events = False, br_recovery_pending = []\<rparr>"

definition bridge_sample_event :: "market_event_type \<Rightarrow> market_event" where
  "bridge_sample_event ty =
     \<lparr>me_event_type = ty, me_symbol = ''BTC'', me_candle_open_time = 20000 * us_per_day,
      me_provider_received_at = 20008 * us_per_day, me_observed_low = None\<rparr>"

definition bridge_sample_run :: "string \<Rightarrow> scheduler_run" where
  "bridge_sample_run j = (running_run 10 j (20000 * us_per_day) (20008 * us_per_day) None)
     \<lparr>sr_status := SR_COMPLETED, sr_completed_at := Some (20008 * us_per_day)\<rparr>"

lemma bridge_sample_latest:
  "get_latest bridge_sample_candles BTC tf = (if tf = MT_WEEKLY then Some (bridge_sample_candle MT_WEEKLY) else None)"
  by (simp add: get_latest_def get_range_def bridge_sample_candles_def store_candle_def empty_repository_def nc_key_def
      bridge_sample_candle_def sort_candles_def)

lemma bridge_sample_announced:
  "detect_candidates (br_detector bridge_sample) bridge_sample_candles (20008 * us_per_day) = ret [bridge_sample_event WEEKLY_CLOSED]"
  by (simp add: detect_candidates_def detect_symbol_def bridge_sample_def market_symbol_of_def bridge_sample_latest tracker_def
      get_default_def fresh_tracker_def detect_higher_close_def is_candle_closed_def bridge_sample_candle_def event_of_def
      bridge_sample_event_def us_per_day_def us_per_second_def Let_def)

lemmas bridge_run = job_bind_def job_ret_def on_db_def read_bridge_def change_bridge_def transaction_def db_run ret_def cbind_def

definition bridge_sample_job :: "market_event_type \<Rightarrow> string" where
  "bridge_sample_job ty = (if ty = WEEKLY_CLOSED then ''me:wc:'' else ''me:mc:'') @ ''BTC:'' @ compact_timestamp (20000 * us_per_day)"

lemma bridge_sample_job_name:
  "ty \<in> {WEEKLY_CLOSED, MONTHLY_CLOSED} \<Longrightarrow> market_event_job_name f (bridge_sample_event ty) = ret (bridge_sample_job ty)"
  by (auto simp: market_event_job_name_def bridge_sample_event_def bridge_sample_job_def)

definition bridge_sample_done :: paper_db where
  "bridge_sample_done = paper_sample_db\<lparr>db_runs := [bridge_sample_run (bridge_sample_job WEEKLY_CLOSED)], db_next_uuid := 11\<rparr>"

lemma bridge_sample_processed:
  "process_event bridge_sample_env (bridge_sample_event WEEKLY_CLOSED) (b, paper_sample_db) =
     Some (Inr (event_outcome (bridge_sample_event WEEKLY_CLOSED) (bridge_sample_job WEEKLY_CLOSED) SR_COMPLETED False None),
       (b, bridge_sample_done))"
  unfolding process_event_def bridge_sample_job_name [of WEEKLY_CLOSED, simplified]
  by (simp add: bridge_run Let_def job_lift_def bridge_sample_event_def maybe_short_circuit_permanent_failure_def get_scheduler_run_def
      scalar_one_or_none_def paper_sample_db_def complete_marker_event_def ensure_scheduler_run_def start_run_def now_def
      insert_or_get_scheduler_run_def run_checks_def running_run_def complete_market_event_def complete_run_def
      complete_scheduler_run_def update_row_def is_run_def scalar_one_def persisted_outcome_def event_outcome_def
      bridge_sample_done_def bridge_sample_run_def bridge_sample_env_def bridge_sample_services_def set_if_some_def)

lemma bridge_sample_group:
  "group_events [e] = [(market_event_group_key e, [e])]" "ordered_group_keys [(market_event_group_key e, [e])] = [market_event_group_key e]"
  by (simp_all add: group_events_def group_add_def get_default_def ordered_group_keys_def dict_keys_def)

lemma bridge_sample_committed:
  "\<exists>result b. process_committed_market_event_poll bridge_sample_env (20008 * us_per_day) (bridge_sample, paper_sample_db) =
     Some (Inr result, (b, bridge_sample_done\<lparr>db_rotation_cursor := Some 0\<rparr>)) \<and>
     bp_events_to_ack result = [bridge_sample_event WEEKLY_CLOSED]"
proof -
  let ?e = "bridge_sample_event WEEKLY_CLOSED"
  have candles: "cb_candles (bv_builder bridge_sample_env) = bridge_sample_candles" "al_held (bv_lock bridge_sample_env)"
    "\<not> bv_session_unhealthy bridge_sample_env" "bv_max_events_per_poll bridge_sample_env = 10"
    "sv_market_data_ready (bv_services bridge_sample_env) db = ret True" for db
    by (simp_all add: bridge_sample_env_def bridge_sample_services_def)
  have states: "db_group_states paper_sample_db = []" "db_rotation_cursor paper_sample_db = None" "db_group_states bridge_sample_done = []"
    by (simp_all add: paper_sample_db_def bridge_sample_done_def)
  have tables: "bridge_sample_done\<lparr>db_group_states := []\<rparr> = bridge_sample_done" using states(3) by simp
  have order: "poll_order 0 [k] = [k]" for k by (simp add: poll_order_def upt_rec)
  have detector: "br_detector (bridge_sample\<lparr>br_deferred_events := x\<rparr>) = br_detector bridge_sample" for x by simp
  show ?thesis
    unfolding process_committed_market_event_poll_def process_after_poll_def poll_groups_def Let_def
    by (simp add: bridge_run bridge_scope_def candles job_lift_def bridge_sample_announced [unfolded ret_def] detector
        sort_market_events_def bridge_sample_group get_default_def list_market_event_group_states_def states eligible_group_keys_def
        get_fairness_group_rotation_cursor_def order bridge_sample_processed clear_group_fairness_state_def
        delete_market_event_group_state_def note_outcome_def event_outcome_def start_poll_def tables should_ack_def
        set_fairness_group_rotation_cursor_def advance_group_rotation_cursor_def acknowledge_committed_def)
qed

section \<open>A heartbeat, and readiness\<close>

lemma bridge_sample_heartbeat:
  "\<exists>out db'. run_job True bridge_sample_services (br_scheduler bridge_sample) (job_value RUNTIME_HEARTBEAT) (20008 * us_per_day) None
      paper_sample_db = Some (Inr out, db') \<and> jo_status out = SR_COMPLETED"
  by (simp add: run_job_def savepoint_def run_job_body_def bridge_sample_def bridge_run get_scheduler_run_def scalar_one_or_none_def
      paper_sample_db_def start_run_def now_def bridge_sample_services_def insert_or_get_scheduler_run_def running_run_def
      run_checks_def call_handler_def job_catch_def job_runtime_heartbeat_def heartbeat_def get_state_def get_runtime_state_def
      update_runtime_state_def complete_run_def complete_scheduler_run_def update_row_def is_run_def scalar_one_def
      persisted_job_outcome_def job_outcome_def handlers_get_def ALL_JOBS_def Let_def)

definition bridge_sample_ready_services :: service_env where
  "bridge_sample_ready_services = bridge_sample_services\<lparr>sv_clock := \<lambda>_. 20001 * us_per_day\<rparr>"

definition bridge_sample_inputs :: readiness_inputs where
  "bridge_sample_inputs = \<lparr>ri_market_data_ready = True, ri_lock_held = Some True, ri_scheduler_active = True, ri_recovery_active = False,
     ri_database_ready = True, ri_schema_problem = None\<rparr>"

lemma bridge_sample_readiness:
  "\<exists>snap. evaluate_readiness bridge_sample_ready_services bridge_sample_inputs paper_sample_db = ret (snap, paper_sample_db) \<and>
     rd_entry_readiness snap"
  by (simp add: evaluate_readiness_def runtime_run runtime_reasons_def entry_reasons_def operational_reasons_def reason_if_def
      bridge_sample_ready_services_def bridge_sample_services_def bridge_sample_inputs_def paper_sample_db_def paper_sample_config_def
      permanent_configuration_failure_def list_permanent_configuration_failures_def get_running_scheduler_runs_def
      us_per_day_def us_per_second_def seconds_def Let_def)

section \<open>Polls of two groups, one event each\<close>

definition bridge_sample_both :: "int \<Rightarrow> paper_db" where
  "bridge_sample_both c = paper_sample_db
     \<lparr>db_runs := [bridge_sample_run (bridge_sample_job WEEKLY_CLOSED), bridge_sample_run (bridge_sample_job MONTHLY_CLOSED)],
      db_rotation_cursor := Some c, db_next_uuid := 12\<rparr>"

lemma bridge_sample_skipped:
  assumes "ty \<in> {WEEKLY_CLOSED, MONTHLY_CLOSED}"
  shows "process_event bridge_sample_env (bridge_sample_event ty) (b, bridge_sample_both c) =
     Some (Inr (event_outcome (bridge_sample_event ty) (bridge_sample_job ty) SR_COMPLETED True None), (b, bridge_sample_both c))"
proof -
  have type: "me_event_type (bridge_sample_event ty) = ty" "me_candle_open_time (bridge_sample_event ty) = 20000 * us_per_day"
    by (simp_all add: bridge_sample_event_def)
  have run: "filter (is_run (bridge_sample_job ty) (20000 * us_per_day)) (db_runs (bridge_sample_both c)) = [bridge_sample_run (bridge_sample_job ty)]"
    using assms by (auto simp: bridge_sample_both_def is_run_def bridge_sample_run_def running_run_def bridge_sample_job_def)
  have completed: "sr_status (bridge_sample_run j) = SR_COMPLETED" for j by (simp add: bridge_sample_run_def)
  show ?thesis
    unfolding process_event_def bridge_sample_job_name [OF assms] type
    using assms
    by (auto simp: bridge_run Let_def job_lift_def maybe_short_circuit_permanent_failure_def get_scheduler_run_def
        scalar_one_or_none_def run completed)
qed

definition bridge_sample_key :: "market_event_type \<Rightarrow> string" where
  "bridge_sample_key ty = market_event_group_key (bridge_sample_event ty)"

lemma bridge_sample_keys: "bridge_sample_key WEEKLY_CLOSED \<noteq> bridge_sample_key MONTHLY_CLOSED"
  by (simp add: bridge_sample_key_def market_event_group_key_def bridge_sample_event_def)

abbreviation bridge_sample_pair :: "market_event list" where
  "bridge_sample_pair \<equiv> [bridge_sample_event WEEKLY_CLOSED, bridge_sample_event MONTHLY_CLOSED]"

lemma bridge_sample_groups:
  "group_events bridge_sample_pair = [(bridge_sample_key WEEKLY_CLOSED, [bridge_sample_event WEEKLY_CLOSED]),
     (bridge_sample_key MONTHLY_CLOSED, [bridge_sample_event MONTHLY_CLOSED])]"
  using bridge_sample_keys by (simp add: group_events_def group_add_def Let_def bridge_sample_key_def [symmetric] get_default_def)

lemma bridge_sample_types: "me_event_type (bridge_sample_event ty) = ty"
  by (simp add: bridge_sample_event_def)

lemma bridge_sample_ordered:
  "ordered_group_keys (group_events bridge_sample_pair) = [bridge_sample_key WEEKLY_CLOSED, bridge_sample_key MONTHLY_CLOSED]"
  unfolding ordered_group_keys_def bridge_sample_groups
  using bridge_sample_keys
  by (simp add: dict_keys_def group_rank_def get_default_def bridge_sample_types less_eq_prod_def less_prod_def)

lemma bridge_sample_states: "db_group_states (bridge_sample_both c) = []" "db_rotation_cursor (bridge_sample_both c) = Some c"
  by (simp_all add: bridge_sample_both_def paper_sample_db_def)

lemma bridge_sample_eligible:
  "eligible_in bridge_sample_pair t (bridge_sample_both c) = [bridge_sample_key WEEKLY_CLOSED, bridge_sample_key MONTHLY_CLOSED]"
  by (simp add: eligible_in_def bridge_sample_ordered eligible_group_keys_def bridge_sample_states)

definition bridge_sample_poll :: "market_event_type \<Rightarrow> poll_state" where
  "bridge_sample_poll ty =
     note_outcome (bridge_sample_event ty)
        (event_outcome (bridge_sample_event ty) (bridge_sample_job ty) SR_COMPLETED True None)
        ((start_poll [])\<lparr>ps_groups_rotated := 1\<rparr>)"

lemma bridge_sample_visit:
  assumes "ty \<in> {WEEKLY_CLOSED, MONTHLY_CLOSED}"
  shows "process_groups (process_event bridge_sample_env) 1 t (group_events bridge_sample_pair) (bridge_sample_key ty # [k])
    (start_poll []) (b, bridge_sample_both c) = Some (Inr (bridge_sample_poll ty), (b, bridge_sample_both c))"
proof -
  have group: "get_default (group_events bridge_sample_pair) (bridge_sample_key ty) [] = [bridge_sample_event ty]"
    unfolding bridge_sample_groups using assms bridge_sample_keys by (auto simp: get_default_def)
  have clear: "clear_group_fairness_state key (b, bridge_sample_both c) = Some (Inr (), (b, bridge_sample_both c))" for key
    by (simp add: clear_group_fairness_state_def bridge_run delete_market_event_group_state_def bridge_sample_both_def paper_sample_db_def)
  show ?thesis
    by (simp add: group job_bind_def bridge_sample_skipped [OF assms] job_ret_def clear Let_def event_outcome_def
        bridge_sample_poll_def note_outcome_def start_poll_def del: One_nat_def)
qed

lemma bridge_sample_polls:
  "poll_groups (process_event bridge_sample_env) 1 t bridge_sample_pair (bridge_sample\<lparr>br_queue_overflow := True\<rparr>, bridge_sample_both 0) =
     Some (Inr (bridge_sample_poll WEEKLY_CLOSED), (bridge_sample\<lparr>br_queue_overflow := True\<rparr>, bridge_sample_both 1))"
  "poll_groups (process_event bridge_sample_env) 1 t bridge_sample_pair (bridge_sample\<lparr>br_queue_overflow := True\<rparr>, bridge_sample_both 1) =
     Some (Inr (bridge_sample_poll MONTHLY_CLOSED), (bridge_sample\<lparr>br_queue_overflow := True\<rparr>, bridge_sample_both 0))"
proof -
  let ?keys = "[bridge_sample_key WEEKLY_CLOSED, bridge_sample_key MONTHLY_CLOSED]" and ?b = "bridge_sample\<lparr>br_queue_overflow := True\<rparr>"
  have eligible: "eligible_group_keys ?keys t [] = ?keys" by (simp add: eligible_group_keys_def)
  have order: "poll_order 0 ?keys = ?keys" "poll_order 1 ?keys = rev ?keys"
    by (simp_all add: poll_order_def upt_rec)
  have reads: "query list_market_event_group_states (b, bridge_sample_both c) = Some (Inr [], (b, bridge_sample_both c))"
    "query get_fairness_group_rotation_cursor (b, bridge_sample_both c) = Some (Inr c, (b, bridge_sample_both c))"
    "query (set_fairness_group_rotation_cursor c') (b, bridge_sample_both c) = Some (Inr (), (b, bridge_sample_both c'))" for b c c'
    by (simp_all add: bridge_run list_market_event_group_states_def get_fairness_group_rotation_cursor_def
        set_fairness_group_rotation_cursor_def bridge_sample_states) (simp add: bridge_sample_both_def)
  have poll: "ps_groups_rotated (bridge_sample_poll ty) = 1" "\<not> ps_had_deferred (bridge_sample_poll ty)" for ty
    by (simp_all add: bridge_sample_poll_def note_outcome_def start_poll_def)
  have step: "poll_groups (process_event bridge_sample_env) 1 t bridge_sample_pair (?b, bridge_sample_both c) =
      Some (Inr (bridge_sample_poll ty), (?b, bridge_sample_both (advance_group_rotation_cursor c 2 1 False)))"
    if "process_groups (process_event bridge_sample_env) 1 t (group_events bridge_sample_pair) (poll_order c ?keys) (start_poll [])
      (?b, bridge_sample_both c) = Some (Inr (bridge_sample_poll ty), (?b, bridge_sample_both c))" for c ty
    using that unfolding poll_groups_def Let_def bridge_sample_ordered
    by (simp add: job_bind_def reads eligible job_ret_def change_bridge_def poll numeral_2_eq_2 del: One_nat_def)
  show "poll_groups (process_event bridge_sample_env) 1 t bridge_sample_pair (?b, bridge_sample_both 0) =
     Some (Inr (bridge_sample_poll WEEKLY_CLOSED), (?b, bridge_sample_both 1))"
    using step [of 0] bridge_sample_visit [of WEEKLY_CLOSED] order by (simp add: advance_group_rotation_cursor_def del: One_nat_def)
  show "poll_groups (process_event bridge_sample_env) 1 t bridge_sample_pair (?b, bridge_sample_both 1) =
     Some (Inr (bridge_sample_poll MONTHLY_CLOSED), (?b, bridge_sample_both 0))"
    using step [of 1] bridge_sample_visit [of MONTHLY_CLOSED] order by (simp add: advance_group_rotation_cursor_def del: One_nat_def)
qed

end
