(* ===== verification/Paper_Recovery.thy ===== *)
theory Paper_Recovery
  imports Paper_Scheduler Paper_Listings
begin

text \<open>
  Recovery at start-up (\<open>services/paper_trading/recovery.py\<close>): consistency checks over the tables, repairs
  that are safe to make, the reconstruction of the wallet from the fills (\<open>accounting_verification.py\<close>) and
  the state invariants (\<open>state_verification.py\<close>). An identifier in the details of an issue stands for its
  text; a message that prints numbers is a constructor with these numbers.
\<close>

section \<open>Reconstruction of the wallet\<close>

record reconstructed_wallet =
  rw_cash :: decimal
  rw_total_fees :: decimal
  rw_total_slippage :: decimal
  rw_total_realized_pnl :: decimal
  rw_open_margin :: decimal
  rw_total_funding :: decimal

record fill_totals =
  ft_cash :: decimal
  ft_fees :: decimal
  ft_slippage :: decimal
  ft_realized :: decimal

definition exit_net_pnl :: "paper_fill \<Rightarrow> paper_position \<Rightarrow> decimal" where
  "exit_net_pnl fill position =
     dsub (dmul (dsub (fl_fill_price fill) (pp_average_entry_price position)) (fl_quantity fill)) (fl_fee fill)"

definition add_fill :: "(uuid, paper_position) dict \<Rightarrow> fill_totals \<Rightarrow> paper_fill \<Rightarrow> fill_totals" where
  "add_fill positions_by_id acc fill =
     (let acc = acc\<lparr>ft_fees := dadd (ft_fees acc) (fl_fee fill), ft_slippage := dadd (ft_slippage acc) (fl_slippage fill)\<rparr>
      in case fl_fill_kind fill of
           FILL_ENTRY \<Rightarrow> acc\<lparr>ft_cash := dsub (ft_cash acc) (fl_fee fill)\<rparr>
         | FILL_EXIT \<Rightarrow>
             (case fl_position_id fill of
                None \<Rightarrow> acc
              | Some i \<Rightarrow>
                  (case dict_get positions_by_id i of
                     None \<Rightarrow> acc
                   | Some position \<Rightarrow>
                       let net_pnl = exit_net_pnl fill position
                       in acc\<lparr>ft_cash := dadd (ft_cash acc) net_pnl, ft_realized := dadd (ft_realized acc) net_pnl\<rparr>)))"

definition reconstruct_wallet :: "decimal \<Rightarrow> reconstructed_wallet db_op" where
  "reconstruct_wallet start_cash =
     db_bind (list_positions 10000 None None None False) (\<lambda>positions.
     db_bind list_all_fills (\<lambda>fills.
     let positions_by_id = dict_of (map (\<lambda>p. (pp_position_id p, p)) positions);
         totals = foldl (add_fill positions_by_id) \<lparr>ft_cash = start_cash, ft_fees = 0, ft_slippage = 0, ft_realized = 0\<rparr> fills
     in db_bind list_funding_events (\<lambda>funding_events.
        let total_funding = foldl dadd 0 (map fe_amount funding_events);
            cash = dadd (ft_cash totals) total_funding
        in db_bind get_open_positions (\<lambda>open_positions.
           db_ret \<lparr>rw_cash = cash, rw_total_fees = ft_fees totals, rw_total_slippage = ft_slippage totals,
                   rw_total_realized_pnl = ft_realized totals,
                   rw_open_margin = foldl dadd 0 (map pp_margin_reserved open_positions),
                   rw_total_funding = total_funding\<rparr>))))"

datatype accounting_issue =
    WalletMissing
  | WalletMismatch string decimal decimal
  | FundingWithoutEvents decimal
  | DuplicateFunding string
  | ExitWithoutPosition uuid
  | DuplicateExit uuid
  | ClosedReservesMargin string
  | ClosedNonPositive string
  | ClosedWithoutExit uuid
  | RealizedMismatch uuid decimal decimal
  | OpenWithoutMargin string

definition mismatch :: "string \<Rightarrow> decimal \<Rightarrow> decimal \<Rightarrow> accounting_issue list" where
  "mismatch name db_value value = (if db_value \<noteq> value then [WalletMismatch name db_value value] else [])"

definition wallet_issues :: "paper_wallet_state \<Rightarrow> reconstructed_wallet \<Rightarrow> accounting_issue list" where
  "wallet_issues wallet r =
     mismatch ''cash'' (wl_cash wallet) (rw_cash r) @
     mismatch ''fees'' (wl_total_fees wallet) (rw_total_fees r) @
     mismatch ''slippage'' (wl_total_slippage wallet) (rw_total_slippage r) @
     mismatch ''realized_pnl'' (wl_total_realized_pnl wallet) (rw_total_realized_pnl r) @
     mismatch ''funding'' (wl_total_funding wallet) (rw_total_funding r) @
     (if wl_total_funding wallet \<noteq> 0 \<and> rw_total_funding r = 0 then [FundingWithoutEvents (wl_total_funding wallet)] else [])"

text \<open>Counting in a dictionary: \<open>counts[k] = counts.get(k, 0) + 1\<close>.\<close>

definition count_key :: "('k, nat) dict \<Rightarrow> 'k \<Rightarrow> ('k, nat) dict" where
  "count_key counts k = dict_put k (get_default counts k 0 + 1) counts"

definition repeated_keys :: "('k, nat) dict \<Rightarrow> 'k list" where
  "repeated_keys counts = map fst (filter (\<lambda>(k, n). 1 < n) counts)"

definition is_exit :: "paper_fill \<Rightarrow> bool" where
  "is_exit f \<longleftrightarrow> fl_fill_kind f = FILL_EXIT"

definition exit_counts :: "paper_fill list \<Rightarrow> (uuid, nat) dict" where
  "exit_counts fills = foldl count_key [] (List.map_filter fl_position_id (filter is_exit fills))"

definition closed_issues :: "paper_fill list \<Rightarrow> paper_position \<Rightarrow> accounting_issue list" where
  "closed_issues fills position =
     (if pp_margin_reserved position \<noteq> 0 then [ClosedReservesMargin (pp_symbol position)] else []) @
     (if pp_quantity position \<le> 0 then [ClosedNonPositive (pp_symbol position)] else []) @
     (if get_default (exit_counts fills) (pp_position_id position) 0 = 0 then [ClosedWithoutExit (pp_position_id position)] else []) @
     (case find (\<lambda>f. is_exit f \<and> fl_position_id f = Some (pp_position_id position)) fills of
        None \<Rightarrow> []
      | Some exit_fill \<Rightarrow>
          if pp_realized_pnl position \<noteq> exit_net_pnl exit_fill position
          then [RealizedMismatch (pp_position_id position) (pp_realized_pnl position) (exit_net_pnl exit_fill position)]
          else [])"

definition position_issues :: "paper_fill list \<Rightarrow> paper_position \<Rightarrow> accounting_issue list" where
  "position_issues fills position =
     (if pp_status position = PP_CLOSED then closed_issues fills position
      else if pp_margin_reserved position \<le> 0 then [OpenWithoutMargin (pp_symbol position)] else [])"

definition verify_accounting_independent :: "decimal \<Rightarrow> accounting_issue list db_op" where
  "verify_accounting_independent start_cash =
     db_bind get_wallet (\<lambda>wallet_opt.
     case wallet_opt of
       None \<Rightarrow> db_ret [WalletMissing]
     | Some wallet \<Rightarrow>
         db_bind (reconstruct_wallet start_cash) (\<lambda>reconstructed.
         db_bind list_funding_events (\<lambda>funding_events.
         db_bind list_all_fills (\<lambda>fills.
         db_bind (list_positions 10000 None None None False) (\<lambda>positions.
         db_ret (wallet_issues wallet reconstructed @
                 map DuplicateFunding (repeated_keys (foldl count_key [] (map fe_deterministic_key funding_events))) @
                 map (\<lambda>f. ExitWithoutPosition (fl_fill_id f)) (filter (\<lambda>f. is_exit f \<and> fl_position_id f = None) fills) @
                 map DuplicateExit (repeated_keys (exit_counts fills)) @
                 concat (map (position_issues fills) positions)))))))"

section \<open>Issues\<close>

datatype issue_severity = AUTO_REPAIRABLE | MANUAL | FATAL

datatype issue_detail =
    DetailId uuid
  | DetailText string
  | DetailInt int
  | DetailAccounting "accounting_issue list"

record consistency_issue =
  ci_code :: string
  ci_severity :: issue_severity
  ci_message :: string
  ci_details :: "(string, issue_detail) dict"

record recovery_result =
  rr_success :: bool
  rr_final_status :: runtime_status
  rr_issues :: "consistency_issue list"
  rr_repairs_applied :: "string list"
  rr_entry_readiness :: bool

definition issue :: "string \<Rightarrow> issue_severity \<Rightarrow> string \<Rightarrow> (string, issue_detail) dict \<Rightarrow> consistency_issue" where
  "issue code severity message details = \<lparr>ci_code = code, ci_severity = severity, ci_message = message, ci_details = details\<rparr>"

definition issue_if :: "bool \<Rightarrow> consistency_issue \<Rightarrow> consistency_issue list" where
  "issue_if b i = (if b then [i] else [])"

text \<open>A loop whose body appends to the list of issues.\<close>

primrec db_concat :: "('a \<Rightarrow> 'b list db_op) \<Rightarrow> 'a list \<Rightarrow> 'b list db_op" where
  "db_concat f [] = db_ret []"
| "db_concat f (x # xs) = db_bind (f x) (\<lambda>ys. db_bind (db_concat f xs) (\<lambda>zs. db_ret (ys @ zs)))"

section \<open>Checks\<close>

definition check_orphan_scheduler_runs :: "consistency_issue list db_op" where
  "check_orphan_scheduler_runs =
     db_bind get_running_scheduler_runs (\<lambda>orphans.
     db_ret (map (\<lambda>run. issue ''orphan_scheduler_run'' AUTO_REPAIRABLE ''Scheduler run stuck in RUNNING''
       [(''run_id'', DetailId (sr_run_id run)), (''job_name'', DetailText (sr_job_name run))]) orphans))"

definition check_stale_heartbeat :: "service_env \<Rightarrow> consistency_issue list db_op" where
  "check_stale_heartbeat sv =
     db_bind get_runtime_state (\<lambda>runtime_opt.
     case runtime_opt of
       None \<Rightarrow> db_ret []
     | Some runtime \<Rightarrow>
         db_bind (now sv) (\<lambda>t.
         let age = t - rs_heartbeat_at runtime
         in db_ret (issue_if (seconds (pc_stale_runtime_threshold_seconds (sv_config sv)) < age)
              (issue ''stale_runtime_heartbeat'' AUTO_REPAIRABLE ''Runtime heartbeat is stale''
                [(''age_seconds'', DetailInt (age div us_per_second))]))))"

definition check_multiple_open_positions :: "consistency_issue list db_op" where
  "check_multiple_open_positions =
     db_bind count_open_positions_by_symbol (\<lambda>counts.
     db_ret (map (\<lambda>(symbol, count). issue ''multiple_open_positions'' FATAL (''Multiple open positions for '' @ symbol)
       [(''symbol'', DetailText symbol), (''count'', DetailInt (int count))]) (filter (\<lambda>(symbol, count). 1 < count) counts)))"

text \<open>\<open>session.get(PaperOrderRow, order_id)\<close>\<close>

definition get_order_row :: "uuid \<Rightarrow> paper_order option db_op" where
  "get_order_row order_id = db_read (\<lambda>db. ret (find (\<lambda>r. po_paper_order_id r = order_id) (db_orders db)))"

definition fill_economic_chain_consistent_for_order :: "uuid \<Rightarrow> bool db_op" where
  "fill_economic_chain_consistent_for_order order_id =
     db_bind (get_fills_for_order order_id) (\<lambda>fills.
     case fills of
       [] \<Rightarrow> db_ret False
     | fill # _ \<Rightarrow>
         if fl_fill_kind fill \<noteq> FILL_ENTRY then db_ret False
         else
         db_bind (get_order_row order_id) (\<lambda>order_opt.
         case order_opt of
           None \<Rightarrow> db_ret False
         | Some order \<Rightarrow>
             db_bind (get_open_position_for_symbol (fl_symbol fill)) (\<lambda>position_opt.
             case position_opt of
               None \<Rightarrow> db_ret False
             | Some position \<Rightarrow>
                 if pp_entry_intent_id position \<noteq> po_intent_id order then db_ret False
                 else if pp_quantity position \<noteq> fl_quantity fill then db_ret False
                 else if pp_average_entry_price position \<noteq> fl_fill_price fill then db_ret False
                 else db_bind get_wallet (\<lambda>wallet. db_ret (wallet \<noteq> None)))))"

definition fill_economic_chain_consistent_for_intent :: "uuid \<Rightarrow> bool db_op" where
  "fill_economic_chain_consistent_for_intent intent_id =
     db_bind (get_order_for_intent intent_id) (\<lambda>order_opt.
     case order_opt of
       None \<Rightarrow> db_ret False
     | Some order \<Rightarrow> fill_economic_chain_consistent_for_order (po_paper_order_id order))"

definition fills_of_order :: "paper_order option \<Rightarrow> paper_fill list db_op" where
  "fills_of_order order_opt =
     (case order_opt of None \<Rightarrow> db_ret [] | Some order \<Rightarrow> get_fills_for_order (po_paper_order_id order))"

definition check_intent_fills :: "trade_intent \<Rightarrow> paper_fill list \<Rightarrow> consistency_issue list db_op" where
  "check_intent_fills intent fills =
     (let details = [(''intent_id'', DetailId (ti_intent_id intent))]
      in if ti_status intent = TI_FILLED \<and> fills = []
         then db_ret [issue ''filled_intent_without_fill'' MANUAL ''FILLED intent has no fill row'' details]
         else if fills \<noteq> [] \<and> ti_status intent \<notin> TERMINAL_INTENT_STATUSES
         then db_bind (fill_economic_chain_consistent_for_intent (ti_intent_id intent)) (\<lambda>consistent.
              db_ret [if consistent
                      then issue ''filled_intent_without_status'' AUTO_REPAIRABLE ''Fill exists but intent not terminal'' details
                      else issue ''fill_without_economic_chain'' FATAL
                             ''Fill exists without consistent position/wallet chain'' details])
         else db_ret [])"

definition check_order_fills :: "paper_order option \<Rightarrow> paper_fill list \<Rightarrow> consistency_issue list db_op" where
  "check_order_fills order_opt fills =
     (case order_opt of
        None \<Rightarrow> db_ret []
      | Some order \<Rightarrow>
          if po_status order = PO_OPEN \<and> fills \<noteq> []
          then db_bind (fill_economic_chain_consistent_for_order (po_paper_order_id order)) (\<lambda>consistent.
               db_ret [if consistent
                       then issue ''open_order_with_fill'' AUTO_REPAIRABLE ''OPEN order has fill rows''
                              [(''paper_order_id'', DetailId (po_paper_order_id order)), (''remaining_quantity'', DetailText ''0'')]
                       else issue ''fill_without_economic_chain'' FATAL ''OPEN order fill lacks economic chain consistency''
                              [(''paper_order_id'', DetailId (po_paper_order_id order))]])
          else db_ret [])"

definition check_intent :: "trade_intent \<Rightarrow> consistency_issue list db_op" where
  "check_intent intent =
     db_bind (get_order_for_intent (ti_intent_id intent)) (\<lambda>order_opt.
     db_bind (fills_of_order order_opt) (\<lambda>fills.
     db_bind (check_intent_fills intent fills) (\<lambda>issues1.
     db_bind (check_order_fills order_opt fills) (\<lambda>issues2.
     db_ret (issues1 @ issues2 @
       issue_if (ti_status intent \<in> TERMINAL_INTENT_STATUSES \<and> ti_status intent \<noteq> TI_FILLED \<and> order_opt = None \<and>
                 ti_status intent \<notin> {TI_REJECTED, TI_CANCELLED})
         (issue ''terminal_intent_without_order'' MANUAL ''Terminal intent missing order''
           [(''intent_id'', DetailId (ti_intent_id intent))]))))))"

definition check_intent_order_fill_chain :: "consistency_issue list db_op" where
  "check_intent_order_fill_chain = db_bind list_all_intents (db_concat check_intent)"

definition check_position :: "paper_position \<Rightarrow> consistency_issue list db_op" where
  "check_position position =
     (let details = [(''position_id'', DetailId (pp_position_id position))]
      in db_bind (get_intent (pp_entry_intent_id position)) (\<lambda>intent_opt.
         db_bind (if intent_opt \<noteq> None then get_order_for_intent (pp_entry_intent_id position) else db_ret None) (\<lambda>order_opt.
         db_bind (fills_of_order order_opt) (\<lambda>fills.
         db_ret (issue_if (intent_opt = None \<and> pp_status position \<noteq> PP_CLOSED)
                   (issue ''position_without_entry_intent'' FATAL ''Open position missing entry intent'' details) @
                 issue_if (pp_status position \<in> {PP_OPEN, PP_CLOSING} \<and> fills = [])
                   (issue ''position_without_entry_fill'' FATAL ''Position missing entry fill'' details) @
                 issue_if (pp_status position = PP_CLOSING)
                   (issue ''closing_position_pending_exit'' MANUAL ''CLOSING position requires exit processing'' details))))))"

text \<open>The position row of an entry intent.\<close>

definition get_position_for_intent :: "uuid \<Rightarrow> paper_position option db_op" where
  "get_position_for_intent intent_id =
     db_read (\<lambda>db. scalar_one_or_none (filter (\<lambda>p. pp_entry_intent_id p = intent_id) (db_positions db)))"

definition check_fill :: "paper_fill \<Rightarrow> consistency_issue list db_op" where
  "check_fill fill =
     (let details = [(''fill_id'', DetailId (fl_fill_id fill))]
      in if fl_fill_kind fill = FILL_EXIT
         then db_ret (issue_if (fl_position_id fill = None)
                (issue ''exit_fill_without_position'' FATAL ''EXIT fill missing position_id'' details))
         else
         case fl_paper_order_id fill of
           None \<Rightarrow> db_ret [issue ''entry_fill_without_order'' FATAL ''ENTRY fill missing paper_order_id'' details]
         | Some order_id \<Rightarrow>
             db_bind (get_order_row order_id) (\<lambda>order_opt.
             case order_opt of
               None \<Rightarrow> db_ret [issue ''fill_without_order'' FATAL ''Fill references missing order'' details]
             | Some order_row \<Rightarrow>
                 db_bind (get_position_for_intent (po_intent_id order_row)) (\<lambda>position_opt.
                 db_ret (issue_if (position_opt = None \<and> po_status order_row = PO_FILLED)
                   (issue ''fill_without_position'' FATAL ''Filled order has no position row'' details)))))"

definition check_position_references :: "consistency_issue list db_op" where
  "check_position_references =
     db_bind list_all_positions (\<lambda>positions.
     db_bind (db_concat check_position positions) (\<lambda>issues1.
     db_bind list_all_fills (\<lambda>fills.
     db_bind (db_concat check_fill fills) (\<lambda>issues2.
     db_ret (issues1 @ issues2)))))"

definition check_stops :: "paper_position \<Rightarrow> consistency_issue list db_op" where
  "check_stops position =
     (let details = [(''position_id'', DetailId (pp_position_id position))]
      in db_bind (list_stop_events_for_position (pp_position_id position)) (\<lambda>events.
         db_ret (issue_if (pp_current_stop position < pp_initial_stop position)
                   (issue ''current_stop_below_initial'' FATAL ''current_stop < initial_stop'' details) @
                 issue_if (pp_highest_close_since_entry position < pp_average_entry_price position)
                   (issue ''highest_close_below_entry'' MANUAL ''highest_close_since_entry below average_entry_price'' details) @
                 map (\<lambda>event. issue ''invalid_stop_history'' FATAL ''Stop history not monotonic''
                   [(''stop_event_id'', DetailId (sv_stop_event_id event))])
                   (filter (\<lambda>event. sv_new_stop event < sv_previous_stop event) events))))"

definition check_stop_invariants :: "consistency_issue list db_op" where
  "check_stop_invariants = db_bind list_all_positions (db_concat check_stops)"

fun duplicate_fills :: "string set \<Rightarrow> paper_fill list \<Rightarrow> consistency_issue list" where
  "duplicate_fills seen [] = []"
| "duplicate_fills seen (fill # fills) =
     issue_if (fl_deterministic_fill_key fill \<in> seen)
       (issue ''duplicate_deterministic_fill'' FATAL ''Duplicate deterministic fill key''
         [(''fill_id'', DetailId (fl_fill_id fill)), (''key'', DetailText (fl_deterministic_fill_key fill))]) @
     duplicate_fills (insert (fl_deterministic_fill_key fill) seen) fills"

definition check_duplicate_fills :: "consistency_issue list db_op" where
  "check_duplicate_fills = db_bind list_all_fills (\<lambda>fills. db_ret (duplicate_fills {} fills))"

primrec db_all :: "'b list db_op list \<Rightarrow> 'b list db_op" where
  "db_all [] = db_ret []"
| "db_all (m # ms) = db_bind m (\<lambda>xs. db_bind (db_all ms) (\<lambda>ys. db_ret (xs @ ys)))"

definition run_consistency_checks :: "service_env \<Rightarrow> consistency_issue list db_op" where
  "run_consistency_checks sv =
     db_all [check_orphan_scheduler_runs, check_stale_heartbeat sv, check_multiple_open_positions,
             check_intent_order_fill_chain, check_position_references, check_stop_invariants, check_duplicate_fills]"

definition run_accounting_verification :: "service_env \<Rightarrow> consistency_issue option db_op" where
  "run_accounting_verification sv =
     db_bind (verify_accounting_independent (pc_paper_initial_equity (sv_config sv))) (\<lambda>mismatches.
     db_ret (if mismatches = [] then None
             else Some (issue ''accounting_reconciliation_mismatch'' MANUAL ''Independent accounting reconciliation failed''
                          [(''mismatches'', DetailAccounting mismatches)])))"

section \<open>Repairs\<close>

definition detail_id :: "consistency_issue \<Rightarrow> string \<Rightarrow> uuid db_op" where
  "detail_id i k =
     (case dict_get (ci_details i) k of
        None \<Rightarrow> db_raise KeyError
      | Some (DetailId u) \<Rightarrow> db_ret u
      | Some _ \<Rightarrow> db_raise (ValueError ''badly formed hexadecimal UUID string''))"

definition apply_repair :: "service_env \<Rightarrow> datetime \<Rightarrow> consistency_issue \<Rightarrow> string list db_op" where
  "apply_repair sv t i =
     (if ci_severity i \<noteq> AUTO_REPAIRABLE then db_ret []
      else if ci_code i = ''orphan_scheduler_run''
      then db_bind (fail_orphan_scheduler_runs t) (\<lambda>count.
           db_ret (if count \<noteq> 0 then [''marked_'' @ nat_text count @ ''_orphan_scheduler_runs_failed''] else []))
      else if ci_code i = ''open_order_with_fill''
      then db_bind (detail_id i ''paper_order_id'') (\<lambda>order_id.
           db_bind (fill_economic_chain_consistent_for_order order_id) (\<lambda>consistent.
           if \<not> consistent then db_ret []
           else db_bind (update_order_status (sv_env sv) order_id PO_FILLED (Some 0) (Some t)) (\<lambda>_.
                db_ret [''order_'' @ uuid_str order_id @ ''_set_filled''])))
      else if ci_code i = ''filled_intent_without_status''
      then db_bind (detail_id i ''intent_id'') (\<lambda>intent_id.
           db_bind (fill_economic_chain_consistent_for_intent intent_id) (\<lambda>consistent.
           if \<not> consistent then db_ret []
           else db_bind (update_intent_status (sv_env sv) intent_id TI_FILLED None None (Some t)) (\<lambda>_.
                db_ret [''intent_'' @ uuid_str intent_id @ ''_set_filled''])))
      else if ci_code i = ''stale_runtime_heartbeat''
      then db_bind get_runtime_state (\<lambda>runtime_opt.
           case runtime_opt of
             None \<Rightarrow> db_ret []
           | Some runtime \<Rightarrow>
               db_bind (update_runtime_state None None None (Some t) None None None (Some (rs_version runtime))) (\<lambda>_.
               db_ret [''runtime_heartbeat_refreshed'']))
      else db_ret [])"

definition apply_auto_repairs :: "service_env \<Rightarrow> consistency_issue list \<Rightarrow> string list job" where
  "apply_auto_repairs sv issues = transaction (db_bind (now sv) (\<lambda>t. db_concat (apply_repair sv t) issues))"

section \<open>Start-up\<close>

definition build_result :: "runtime_status \<Rightarrow> consistency_issue list \<Rightarrow> string list \<Rightarrow> recovery_result db_op" where
  "build_result status issues repairs =
     db_bind get_state (\<lambda>runtime.
     db_ret \<lparr>rr_success = status \<in> {RS_READY, RS_DEGRADED}, rr_final_status = status, rr_issues = issues,
             rr_repairs_applied = repairs,
             rr_entry_readiness = (status = RS_READY \<and> \<not> rs_paused runtime \<and> \<not> rs_kill_switch runtime)\<rparr>)"

definition recovery_audit :: "service_env \<Rightarrow> string \<Rightarrow> json_object \<Rightarrow> unit job" where
  "recovery_audit sv event_type payload =
     job_bind (transaction get_state) (\<lambda>_.
     transaction (db_bind (now sv) (\<lambda>t. db_bind (runtime_audit sv event_type payload None t) (\<lambda>_. db_ret ()))))"

definition fail_recovery :: "service_env \<Rightarrow> string \<Rightarrow> unit job" where
  "fail_recovery sv code =
     job_bind (runtime_transition sv RS_FAILED (Some code) None) (\<lambda>_.
     recovery_audit sv ''RECOVERY_FAILED'' [(''code'', JText code)])"

text \<open>The texts of the mismatches are the environment's: they print decimals.\<close>

definition record_accounting_incident :: "service_env \<Rightarrow> (accounting_issue \<Rightarrow> string) \<Rightarrow> consistency_issue \<Rightarrow> unit job" where
  "record_accounting_incident sv accounting_text i =
     recovery_audit sv ''ACCOUNTING_RECONCILIATION_INCIDENT''
       [(''code'', JText (ci_code i)),
        (''mismatches'', JTexts (case dict_get (ci_details i) ''mismatches'' of
           Some (DetailAccounting xs) \<Rightarrow> map accounting_text xs | _ \<Rightarrow> []))]"

text \<open>The checks, the repairs, the checks again and the accounting: what is left, and what was repaired.\<close>

definition check_and_repair :: "service_env \<Rightarrow> (accounting_issue \<Rightarrow> string) \<Rightarrow> (consistency_issue list \<times> string list) job" where
  "check_and_repair sv accounting_text =
     job_bind (transaction (run_consistency_checks sv)) (\<lambda>found.
     job_bind (apply_auto_repairs sv found) (\<lambda>repairs.
     job_bind (transaction (run_consistency_checks sv)) (\<lambda>issues.
     job_bind (transaction (run_accounting_verification sv)) (\<lambda>accounting_issue.
     case accounting_issue of
       None \<Rightarrow> job_ret (issues, repairs)
     | Some i \<Rightarrow>
         job_bind (record_accounting_incident sv accounting_text i) (\<lambda>_. job_ret (issues @ [i], repairs))))))"

definition severity_codes :: "issue_severity \<Rightarrow> consistency_issue list \<Rightarrow> string list" where
  "severity_codes s issues = map ci_code (filter (\<lambda>i. ci_severity i = s) issues)"

definition finish_recovery :: "runtime_status \<Rightarrow> consistency_issue list \<Rightarrow> string list \<Rightarrow> recovery_result job" where
  "finish_recovery status issues repairs = transaction (build_result status issues repairs)"

definition degrade :: "service_env \<Rightarrow> string \<Rightarrow> consistency_issue list \<Rightarrow> string list \<Rightarrow> recovery_result job" where
  "degrade sv code issues repairs =
     job_bind (runtime_transition sv RS_DEGRADED (Some code) None) (\<lambda>_. finish_recovery RS_DEGRADED issues repairs)"

text \<open>A runtime row that says \<open>READY\<close>: checks only.\<close>

definition recover_ready :: "service_env \<Rightarrow> (accounting_issue \<Rightarrow> string) \<Rightarrow> bool \<Rightarrow> recovery_result job" where
  "recover_ready sv accounting_text market_data_ready =
     job_bind (check_and_repair sv accounting_text) (\<lambda>(issues, repairs).
     case severity_codes FATAL issues of
       code # _ \<Rightarrow> job_bind (fail_recovery sv code) (\<lambda>_. finish_recovery RS_FAILED issues repairs)
     | [] \<Rightarrow>
         (case severity_codes MANUAL issues of
            code # _ \<Rightarrow> degrade sv code issues repairs
          | [] \<Rightarrow> if \<not> market_data_ready then degrade sv ''market_data_not_ready'' issues repairs
                  else finish_recovery RS_READY issues repairs))"

definition recover_other :: "service_env \<Rightarrow> (accounting_issue \<Rightarrow> string) \<Rightarrow> bool \<Rightarrow> bool \<Rightarrow> recovery_result job" where
  "recover_other sv accounting_text migration_at_head market_data_ready =
     (if \<not> migration_at_head
      then job_bind (fail_recovery sv ''migration_not_at_head'') (\<lambda>_.
           finish_recovery RS_FAILED [issue ''migration_not_at_head'' FATAL ''schema'' []] [])
      else
      job_bind (check_and_repair sv accounting_text) (\<lambda>(issues, repairs).
      case severity_codes FATAL issues of
        code # _ \<Rightarrow> job_bind (fail_recovery sv code) (\<lambda>_. finish_recovery RS_FAILED issues repairs)
      | [] \<Rightarrow>
          job_bind (runtime_transition sv RS_SYNCING None None) (\<lambda>_.
          if \<not> market_data_ready then degrade sv ''market_data_not_ready'' issues repairs
          else
          (case severity_codes MANUAL issues of
             code # _ \<Rightarrow> degrade sv code issues repairs
           | [] \<Rightarrow>
               job_bind (runtime_transition sv RS_READY (Some '''') None) (\<lambda>_.
               job_bind (transaction (now sv)) (\<lambda>t.
               job_bind (transaction (capture_snapshot (sv_env sv) t ''recovery'' None None [] [] None)) (\<lambda>_.
               finish_recovery RS_READY issues repairs)))))))"

text \<open>\<open>RecoveryService.recover_on_startup\<close>; \<open>active\<close> says whether another recovery of the process is under way.\<close>

definition recover_service ::
  "service_env \<Rightarrow> (accounting_issue \<Rightarrow> string) \<Rightarrow> advisory_lock \<Rightarrow> bool \<Rightarrow> bool \<Rightarrow> bool \<Rightarrow> recovery_result job" where
  "recover_service sv accounting_text lock active migration_at_head market_data_ready =
     (if \<not> try_acquire lock then job_raise (RuntimeError ''advisory lock required for recovery'')
      else if active then job_raise (RuntimeError ''recovery already in progress'')
      else
      job_bind (transaction get_state) (\<lambda>runtime.
      if rs_status runtime = RS_READY then recover_ready sv accounting_text market_data_ready
      else
      job_bind (if rs_status runtime = RS_STOPPED
                then job_bind (runtime_transition sv RS_STARTING None None) (\<lambda>_. job_ret ()) else job_ret ()) (\<lambda>_.
      job_bind (runtime_transition sv RS_RECOVERING None None) (\<lambda>_.
      recover_other sv accounting_text migration_at_head market_data_ready))))"

definition recover_on_startup ::
  "service_env \<Rightarrow> (accounting_issue \<Rightarrow> string) \<Rightarrow> advisory_lock \<Rightarrow> bool \<Rightarrow> bool \<Rightarrow> bool \<Rightarrow> recovery_result job" where
  "recover_on_startup sv accounting_text lock active migration_at_head market_data_ready =
     job_bind (recover_service sv accounting_text lock active migration_at_head market_data_ready) (\<lambda>result.
     job_bind (transaction get_runtime_state) (\<lambda>runtime_opt.
     case runtime_opt of
       None \<Rightarrow> job_ret result
     | Some runtime \<Rightarrow>
         job_bind (transaction (db_bind (now sv) (\<lambda>t.
           runtime_audit sv ''RECOVERY_COMPLETED''
             [(''final_status'', JText (runtime_status_value (rr_final_status result))),
              (''repairs'', JTexts (rr_repairs_applied result)),
              (''issue_count'', JInt (int (length (rr_issues result))))] None t))) (\<lambda>_.
         job_ret result)))"

section \<open>State invariants\<close>

definition assert_that :: "bool \<Rightarrow> unit comp" where
  "assert_that b = (if b then ret () else raise AssertionError)"

definition open_position_ok :: "paper_position \<Rightarrow> bool" where
  "open_position_ok p \<longleftrightarrow> 0 < pp_quantity p \<and> 0 \<le> pp_margin_reserved p \<and> pp_initial_stop p \<le> pp_current_stop p"

definition assert_state_invariants :: "unit db_op" where
  "assert_state_invariants =
     db_bind get_open_positions (\<lambda>open_positions.
     db_bind (db_lift (assert_that (list_all open_position_ok open_positions \<and>
        list_all (\<lambda>(symbol, n). n \<le> 1) (foldl count_key [] (map pp_symbol open_positions)) \<and> length open_positions \<le> 3))) (\<lambda>_.
     db_bind (list_positions 10000 None None None False) (\<lambda>positions.
     db_bind (db_lift (assert_that (list_all (\<lambda>p. pp_status p = PP_CLOSED \<longrightarrow>
        0 < pp_quantity p \<and> pp_margin_reserved p = 0 \<and> pp_unrealized_pnl p = 0) positions))) (\<lambda>_.
     db_bind (list_evaluations 10000 None None) (\<lambda>evaluations.
     db_bind (db_lift (assert_that (distinct (map (\<lambda>e. (er_symbol e, er_evaluation_time e, er_daily_candle_open_time e)) evaluations)))) (\<lambda>_.
     db_bind (list_intents 10000 None None) (\<lambda>intents.
     db_bind (db_lift (assert_that (distinct (map ti_idempotency_key intents)))) (\<lambda>_.
     db_bind list_all_fills (\<lambda>fills.
     db_bind (db_lift (assert_that (distinct (map fl_deterministic_fill_key fills) \<and>
        list_all (\<lambda>f. 0 < fl_quantity f \<and> 0 < fl_fill_price f) fills))) (\<lambda>_.
     db_bind get_wallet (\<lambda>wallet.
     db_bind (db_lift (assert_that (case wallet of None \<Rightarrow> False | Some w \<Rightarrow> 0 \<le> wl_cash w))) (\<lambda>_.
     db_bind get_runtime_state (\<lambda>runtime. db_lift (assert_that (runtime \<noteq> None)))))))))))))))"

end
