(* ===== verification/Recovery_Chain.thy ===== *)
theory Recovery_Chain
  imports Paper_Recovery Paper_Steps
begin

text \<open>
  What recovery relies on in the tables that the service has written: every order is filled, every fill has its
  order and position, every position its order and fill. The steps of the service keep this, so the
  consistency checks find nothing fatal in a database the service has made.
\<close>

section \<open>The chain of orders, fills and positions\<close>

definition fill_linked :: "paper_order list \<Rightarrow> uuid set \<Rightarrow> paper_fill \<Rightarrow> bool" where
  "fill_linked os ids f \<longleftrightarrow>
     (\<forall>i. fl_paper_order_id f = Some i \<longrightarrow> (\<exists>r \<in> set os. po_paper_order_id r = i \<and> po_intent_id r \<in> ids))"

definition position_linked :: "paper_order list \<Rightarrow> paper_fill list \<Rightarrow> uuid \<Rightarrow> bool" where
  "position_linked os fs k \<longleftrightarrow>
     (\<exists>r \<in> set os. po_intent_id r = k \<and> (\<exists>f \<in> set fs. fl_paper_order_id f = Some (po_paper_order_id r)))"

text \<open>\<open>ids\<close> are the entry intents of the positions.\<close>

definition chain :: "paper_order list \<Rightarrow> paper_fill list \<Rightarrow> uuid set \<Rightarrow> position_stop_event list \<Rightarrow> bool" where
  "chain os fs ids es \<longleftrightarrow>
     distinct (map po_paper_order_id os) \<and> distinct (map po_intent_id os) \<and>
     (\<forall>r \<in> set os. po_status r = PO_FILLED \<and> order_row_to_domain r = ret r) \<and>
     distinct (map fl_deterministic_fill_key fs) \<and>
     (\<forall>f \<in> set fs. fill_row_to_domain f = ret f \<and> fill_linked os ids f) \<and>
     (\<forall>k \<in> ids. position_linked os fs k) \<and>
     (\<forall>e \<in> set es. sv_previous_stop e \<le> sv_new_stop e)"

definition entry_ids :: "paper_db \<Rightarrow> uuid set" where
  "entry_ids db = pp_entry_intent_id ` set (db_positions db)"

definition chain_ok :: "paper_db \<Rightarrow> bool" where
  "chain_ok db \<longleftrightarrow> distinct (map pp_position_id (db_positions db)) \<and>
     chain (db_orders db) (db_fills db) (entry_ids db) (db_stop_events db)"

definition chain_tables ::
  "paper_db \<Rightarrow> paper_order list \<times> paper_fill list \<times> uuid set \<times> position_stop_event list \<times> uuid list" where
  "chain_tables db = (db_orders db, db_fills db, entry_ids db, db_stop_events db, map pp_position_id (db_positions db))"

interpretation same_chain: db_preorder "\<lambda>db db'. chain_tables db' = chain_tables db"
  by unfold_locales auto

interpretation links: db_preorder "\<lambda>db db'. chain_ok db \<longrightarrow> chain_ok db'"
  by unfold_locales auto

lemma same_chain_ok: "chain_tables db' = chain_tables db \<Longrightarrow> chain_ok db \<Longrightarrow> chain_ok db'"
  by (simp add: chain_tables_def chain_ok_def)

lemma links_same:
  assumes "same_chain.stays m"
  shows "links.stays m"
proof (rule links.staysI)
  fix db x db'
  assume "m db = ret (x, db')"
  with assms have "chain_tables db' = chain_tables db" by (rule same_chain.staysD)
  then show "chain_ok db \<longrightarrow> chain_ok db'" using same_chain_ok by blast
qed

section \<open>Operations that leave the chain alone\<close>

lemma same_uuid4: "same_chain.stays uuid4"
  unfolding same_chain.stays_def by (simp add: wlp_simps chain_tables_def entry_ids_def)

lemma same_write: "(\<And>db. chain_tables (f db) = chain_tables db) \<Longrightarrow> same_chain.stays (db_write f)"
  unfolding same_chain.stays_def by (simp add: wlp_simps)

lemma same_update_wallet: "same_chain.stays (update_wallet env a b c d e v t)"
  by (rule same_chain.staysI)
     (auto simp: update_wallet_def chain_tables_def entry_ids_def Let_def split: option.splits if_splits)

lemma same_intent_status: "same_chain.stays (update_intent_status env k s q rs t)"
  by (rule same_chain.staysI) (drule update_intent_status_eq, simp add: chain_tables_def entry_ids_def)

lemma same_audit: "same_chain.stays (append_audit_event env a b c d e f)"
  unfolding append_audit_event_def Let_def
  by (intro same_chain.stays_rules same_uuid4 same_write) (simp add: chain_tables_def entry_ids_def)

lemma same_insert_intent: "same_chain.stays (insert_or_get_trade_intent env row)"
  by (rule same_chain.staysI)
     (auto simp: insert_or_get_trade_intent_def chain_tables_def entry_ids_def Let_def split: option.splits if_splits)

lemma same_reads:
  "same_chain.stays get_wallet" "same_chain.stays get_runtime_state" "same_chain.stays get_open_positions"
  "same_chain.stays (get_open_position_for_symbol s)" "same_chain.stays (get_position_row i)"
  "same_chain.stays (get_scheduled_intents_for_symbol s t)" "same_chain.stays (get_nonterminal_intent_for_symbol s)"
  "same_chain.stays (fill_already_made intent fill order)"
  by (simp_all add: get_wallet_def get_runtime_state_def get_open_positions_def get_open_position_for_symbol_def
      get_position_row_def get_scheduled_intents_for_symbol_def get_nonterminal_intent_for_symbol_def
      fill_already_made_def same_chain.stays_read)

lemmas same_rules = same_chain.stays_rules same_uuid4 same_update_wallet same_intent_status same_audit same_insert_intent same_reads

lemma same_load_existing: "same_chain.stays (load_existing_fill intent t)"
  unfolding load_existing_fill_def Let_def by (intro same_rules)

lemma same_authorization: "same_chain.stays (evaluate_final_entry_authorization config r t)"
  unfolding evaluate_final_entry_authorization_def Let_def by (intro same_rules)

lemma same_pending: "same_chain.stays (pending_of_symbols env t ctxs skip ss)"
  by (induction ss) (auto simp: pending_of_symbol_def intro!: same_rules)

lemma same_pending_batch: "same_chain.stays (pending_intents_for_open_batch env t s ctxs skip)"
  unfolding pending_intents_for_open_batch_def by (rule same_pending)

lemma same_create_intent: "same_chain.stays (create_intent_from_evaluation env ev se gates config t u ready)"
  unfolding create_intent_from_evaluation_def Let_def
  by (intro same_rules same_authorization)

text \<open>A flush keeps the entry intent of its row.\<close>

lemma links_flush:
  assumes "\<And>r. pp_entry_intent_id (change r) = pp_entry_intent_id r" and "\<And>r. pp_position_id (change r) = pp_position_id r"
  shows "links.stays (flush_position env k change)"
proof (rule links.staysI, rule impI)
  fix db u db'
  assume flush: "flush_position env k change db = ret (u, db')" and ok: "chain_ok db"
  then obtain row where row: "find (\<lambda>r. pp_position_id r = k) (db_positions db) = Some row"
    and db': "db' = db\<lparr>db_positions := update_row (\<lambda>r. pp_position_id r = k) (\<lambda>_. stored_position env (change row)) (db_positions db)\<rparr>"
    by (auto simp: flush_position_def Let_def cbind_eq_ret split: option.splits)
  let ?q = "stored_position env (change row)"
  from row have mem: "row \<in> set (db_positions db)" "pp_position_id row = k" by (auto simp: find_Some_iff)
  have q: "pp_entry_intent_id ?q = pp_entry_intent_id row" "pp_position_id ?q = k"
    using assms mem(2) by (simp_all add: stored_position_def)
  have ids: "distinct (map pp_position_id (db_positions db))" using ok by (simp add: chain_ok_def)
  have "set (db_positions db') = insert ?q (set (db_positions db) - {row})"
    unfolding db' using update_row_mem [OF ids mem] by simp
  then have "entry_ids db' = entry_ids db" using q(1) mem(1) by (auto simp: entry_ids_def image_iff)
  moreover have "map pp_position_id (db_positions db') = map pp_position_id (db_positions db)"
    unfolding db' using q(2) by (simp add: update_row_id)
  ultimately have "chain_tables db' = chain_tables db" by (simp add: chain_tables_def db')
  with ok same_chain_ok show "chain_ok db'" by blast
qed

section \<open>Orders, fills and stop events\<close>

lemma order_row_ret: "order_row_to_domain r = ret x \<longleftrightarrow> x = r \<and> 0 \<le> po_remaining_quantity r"
  by (auto simp: order_row_to_domain_def not_less)

lemma fill_row_same: "fill_row_to_domain f = ret x \<Longrightarrow> x = f"
  by (auto simp: fill_row_to_domain_def split: if_splits paper_fill_kind.splits)

lemma fill_linked_mono: "fill_linked os ids f \<Longrightarrow> set os \<subseteq> set os' \<Longrightarrow> ids \<subseteq> ids' \<Longrightarrow> fill_linked os' ids' f"
  unfolding fill_linked_def by blast

lemma position_linked_mono: "position_linked os fs k \<Longrightarrow> set os \<subseteq> set os' \<Longrightarrow> set fs \<subseteq> set fs' \<Longrightarrow> position_linked os' fs' k"
  unfolding position_linked_def by blast

lemma order_inserted:
  assumes "insert_or_get_paper_order env row db = ret ((order, created), db')" and "chain_ok db" and "po_status row = PO_FILLED"
  shows "chain_ok db' \<and> order \<in> set (db_orders db') \<and> po_intent_id order = po_intent_id row"
proof -
  let ?stored = "row\<lparr>po_requested_quantity := numeric env (po_requested_quantity row),
    po_remaining_quantity := numeric env (po_remaining_quantity row)\<rparr>"
  have stored: "po_paper_order_id ?stored = po_paper_order_id row" "po_intent_id ?stored = po_intent_id row" "po_status ?stored = PO_FILLED"
    using assms(3) by simp_all
  consider (old) "find (\<lambda>r. po_intent_id r = po_intent_id row) (db_orders db) = Some order" "db' = db"
    | (new) "find (\<lambda>r. po_intent_id r = po_intent_id row) (db_orders db) = None" "order = ?stored"
        "\<forall>r \<in> set (db_orders db). po_paper_order_id r \<noteq> po_paper_order_id row" "0 \<le> po_remaining_quantity ?stored"
        "db' = db\<lparr>db_orders := db_orders db @ [?stored]\<rparr>"
    using assms(1) unfolding insert_or_get_paper_order_def Let_def
    by (auto simp: cbind_eq_ret order_row_ret list_ex_iff split: if_splits option.splits)
  then show ?thesis
  proof cases
    case old
    then show ?thesis using assms(2) by (auto simp: find_Some_iff)
  next
    case new
    from new(1) have "\<forall>r \<in> set (db_orders db). po_intent_id r \<noteq> po_intent_id row" by (auto simp: find_None_iff)
    moreover have "order_row_to_domain ?stored = ret ?stored" using new(4) by (simp add: order_row_ret)
    moreover have "fill_linked (db_orders db @ [?stored]) ids f" if "fill_linked (db_orders db) ids f" for ids f
      using that by (rule fill_linked_mono) auto
    moreover have "position_linked (db_orders db @ [?stored]) fs k" if "position_linked (db_orders db) fs k" for fs k
      using that by (rule position_linked_mono) auto
    moreover have "entry_ids db' = entry_ids db" by (simp add: new(5) entry_ids_def)
    ultimately show ?thesis
      using assms(2) new(3) stored unfolding new(2,5) chain_ok_def chain_def by auto
  qed
qed

lemma fill_inserted:
  assumes "insert_or_get_paper_fill env row db = ret ((fill, created), db')"
  shows "if created then db' = db\<lparr>db_fills := db_fills db @ [stored_fill env row]\<rparr> \<and>
      fl_deterministic_fill_key row \<notin> fl_deterministic_fill_key ` set (db_fills db) \<and>
      fill_row_to_domain (stored_fill env row) = ret (stored_fill env row)
    else db' = db"
  using assms unfolding insert_or_get_paper_fill_def Let_def
  by (auto simp: cbind_eq_ret find_None_iff dest: fill_row_same split: if_splits option.splits)

lemma exit_fill_links:
  assumes "fl_paper_order_id row = None"
  shows "links.stays (insert_or_get_paper_fill env row)"
proof (rule links.staysI, rule impI)
  fix db x db'
  assume insert: "insert_or_get_paper_fill env row db = ret (x, db')" and ok: "chain_ok db"
  obtain fill created where x: "x = (fill, created)" by force
  note new = fill_inserted [OF insert [unfolded x]]
  show "chain_ok db'"
  proof (cases created)
    case True
    let ?f = "stored_fill env row"
    have f: "fl_paper_order_id ?f = None" "fl_deterministic_fill_key ?f = fl_deterministic_fill_key row"
      using assms by (simp_all add: stored_fill_def)
    have "position_linked os (db_fills db @ [?f]) k" if "position_linked os (db_fills db) k" for os k
      using that by (rule position_linked_mono) auto
    moreover have "fill_linked os ids ?f" for os ids using f(1) by (simp add: fill_linked_def)
    moreover have "entry_ids db' = entry_ids db" using new True by (simp add: entry_ids_def)
    ultimately show ?thesis using ok new True f(2) unfolding chain_ok_def chain_def by auto
  qed (use new ok in simp)
qed

lemma stop_event_links: "links.stays (insert_or_get_stop_event env row)"
proof (rule links.staysI, rule impI)
  fix db x db'
  assume "insert_or_get_stop_event env row db = ret (x, db')" and ok: "chain_ok db"
  then consider "db' = db" | e where "db' = db\<lparr>db_stop_events := db_stop_events db @ [e]\<rparr>" "sv_previous_stop e \<le> sv_new_stop e"
    unfolding insert_or_get_stop_event_def Let_def by (auto simp: cbind_eq_ret not_less split: if_splits option.splits)
  then show "chain_ok db'"
    using ok by cases (auto simp: chain_ok_def chain_def entry_ids_def)
qed

section \<open>An entry\<close>

text \<open>The fill of an order and the position it opens.\<close>

lemma entry_links:
  assumes "chain_ok db" and "r \<in> set (db_orders db)" and "fl_paper_order_id f = Some (po_paper_order_id r)"
    and "fill_row_to_domain f = ret f" and "fl_deterministic_fill_key f \<notin> fl_deterministic_fill_key ` set (db_fills db)"
    and "pp_entry_intent_id p = po_intent_id r" and "pp_position_id p \<notin> pp_position_id ` set (db_positions db)"
    and "db_orders db' = db_orders db" "db_fills db' = db_fills db @ [f]" "db_positions db' = db_positions db @ [p]"
      "db_stop_events db' = db_stop_events db"
  shows "chain_ok db'"
proof -
  have ids: "entry_ids db' = insert (po_intent_id r) (entry_ids db)" using assms(6,10) by (simp add: entry_ids_def)
  have "fill_linked (db_orders db) (insert (po_intent_id r) (entry_ids db)) g" if "g \<in> set (db_fills db @ [f])" for g
  proof (cases "g = f")
    case True
    then show ?thesis using assms(2,3) by (auto simp: fill_linked_def)
  next
    case False
    then have "fill_linked (db_orders db) (entry_ids db) g" using that assms(1) by (auto simp: chain_ok_def chain_def)
    then show ?thesis by (rule fill_linked_mono) auto
  qed
  moreover have "position_linked (db_orders db) (db_fills db @ [f]) k" if "k \<in> insert (po_intent_id r) (entry_ids db)" for k
  proof (cases "k = po_intent_id r")
    case True
    then show ?thesis using assms(2,3) by (auto simp: position_linked_def)
  next
    case False
    then have "position_linked (db_orders db) (db_fills db) k" using that assms(1) by (auto simp: chain_ok_def chain_def)
    then show ?thesis by (rule position_linked_mono) auto
  qed
  ultimately show ?thesis
    using assms(1,4,5,7) unfolding chain_ok_def chain_def ids assms(8-11) by auto
qed

lemma wallet_rows:
  assumes "update_wallet env a b c d e v t db = ret (x, db')"
  shows "db_orders db' = db_orders db \<and> db_fills db' = db_fills db \<and> db_positions db' = db_positions db \<and>
    db_stop_events db' = db_stop_events db"
  using assms by (auto simp: update_wallet_def Let_def split: option.splits if_splits)

text \<open>The parts of a booked entry and of a persisted fill.\<close>

lemma book_entry_split:
  assumes "book_entry env intent calc t atr cid order created fill db = ret (x, db')"
  obtains w db1 i p db2 payload g finish where
    "update_wallet env (- ea_fee (en_accounting calc)) 0 (ea_fee (en_accounting calc)) 0
      (ea_slippage_cost (en_accounting calc)) None None db = ret (w, db1)"
    "create_position env (new_position_row intent calc atr t i) (db1\<lparr>db_next_uuid := Suc (db_next_uuid db1)\<rparr>) = ret (p, db2)"
    "finish = db_bind (update_intent_status env (ti_intent_id intent) TI_FILLED (Some (en_quantity calc)) None None) (\<lambda>i.
      db_bind (append_audit_event env ''PAPER_FILL_EXECUTED'' ''paper_fill'' (fl_fill_id fill) payload cid None) (\<lambda>_.
      db_ret (g i :: transactional_fill_result)))"
    "finish db2 = ret (x, db')"
  using assms unfolding book_entry_def db_bind_ret [of _ "\<lambda>_. db_bind uuid4 _"] db_bind_ret [of uuid4]
    db_bind_ret [of "create_position _ _"] uuid4_def by auto

lemma persist_split:
  assumes "persist_successful_fill env intent calc open_ref t atr cid db = ret (x, db')"
  obtains oid order order_created db1 fid fill fill_created db2 where
    "insert_or_get_paper_order env (new_order_row intent calc t oid) (db\<lparr>db_next_uuid := Suc (db_next_uuid db)\<rparr>) = ret ((order, order_created), db1)"
    "insert_or_get_paper_fill env (new_entry_fill_row intent calc open_ref t order fid)
      (db1\<lparr>db_next_uuid := Suc (db_next_uuid db1)\<rparr>) = ret ((fill, fill_created), db2)"
    "(if \<not> fill_created then fill_already_made intent fill order
      else book_entry env intent calc t atr cid order order_created fill) db2 = ret (x, db')"
  using assms unfolding persist_successful_fill_def db_bind_ret [of uuid4] db_bind_ret [of "insert_or_get_paper_order _ _"]
  by (auto simp: uuid4_def db_bind_ret split: prod.splits)

lemma book_entry_links:
  assumes "chain_ok db" and "order \<in> set (db_orders db)" and "po_intent_id order = ti_intent_id intent"
    and "fl_paper_order_id f = Some (po_paper_order_id order)" and "fill_row_to_domain f = ret f"
    and "fl_deterministic_fill_key f \<notin> fl_deterministic_fill_key ` set (db_fills db)"
    and "book_entry env intent calc t atr cid order created fill (db\<lparr>db_fills := db_fills db @ [f]\<rparr>) = ret (x, db')"
  shows "chain_ok db'"
proof -
  let ?row = "new_position_row intent calc atr t"
  from book_entry_split [OF assms(7)] obtain w db1 i p db2 payload g finish where
    wallet: "update_wallet env (- ea_fee (en_accounting calc)) 0 (ea_fee (en_accounting calc)) 0
      (ea_slippage_cost (en_accounting calc)) None None (db\<lparr>db_fills := db_fills db @ [f]\<rparr>) = ret (w, db1)"
    and create: "create_position env (?row i) (db1\<lparr>db_next_uuid := Suc (db_next_uuid db1)\<rparr>) = ret (p, db2)"
    and finish: "finish = db_bind (update_intent_status env (ti_intent_id intent) TI_FILLED (Some (en_quantity calc)) None None) (\<lambda>i.
      db_bind (append_audit_event env ''PAPER_FILL_EXECUTED'' ''paper_fill'' (fl_fill_id fill) payload cid None) (\<lambda>_.
      db_ret (g i)))" and rest: "finish db2 = ret (x, db')" .
  note c = create_position_ret [OF create]
  have "chain_ok db2"
  proof (rule entry_links [OF assms(1,2,4,5,6)])
    show "pp_entry_intent_id (stored_position env (?row i)) = po_intent_id order"
      using assms(3) by (simp add: stored_position_def new_position_row_def Let_def)
    show "pp_position_id (stored_position env (?row i)) \<notin> pp_position_id ` set (db_positions db)"
      using c(2) wallet_rows [OF wallet] by (simp add: stored_position_def)
  qed (use wallet_rows [OF wallet] in \<open>simp_all add: c(1)\<close>)
  moreover have "chain_tables db' = chain_tables db2" by (rule same_chain.staysD [of finish, OF _ rest]) (unfold finish, intro same_rules)
  ultimately show ?thesis using same_chain_ok by blast
qed

lemma persist_links: "links.stays (persist_successful_fill env intent calc open_ref t atr cid)"
proof (rule links.staysI, rule impI)
  fix db x db'
  assume persist: "persist_successful_fill env intent calc open_ref t atr cid db = ret (x, db')" and ok: "chain_ok db"
  from persist_split [OF persist] obtain oid order order_created db1 fid fill fill_created db2 where
    order: "insert_or_get_paper_order env (new_order_row intent calc t oid) (db\<lparr>db_next_uuid := Suc (db_next_uuid db)\<rparr>) = ret ((order, order_created), db1)"
    and fill: "insert_or_get_paper_fill env (new_entry_fill_row intent calc open_ref t order fid)
      (db1\<lparr>db_next_uuid := Suc (db_next_uuid db1)\<rparr>) = ret ((fill, fill_created), db2)"
    and rest: "(if \<not> fill_created then fill_already_made intent fill order
      else book_entry env intent calc t atr cid order order_created fill) db2 = ret (x, db')" .
  let ?db1 = "db1\<lparr>db_next_uuid := Suc (db_next_uuid db1)\<rparr>"
  have "chain_ok (db\<lparr>db_next_uuid := Suc (db_next_uuid db)\<rparr>)" using ok by (simp add: chain_ok_def entry_ids_def)
  from order_inserted [OF order this] have o1: "chain_ok db1" "order \<in> set (db_orders db1)" "po_intent_id order = ti_intent_id intent"
    by (simp_all add: new_order_row_def)
  then have ok1: "chain_ok ?db1" by (simp add: chain_ok_def entry_ids_def)
  note f = fill_inserted [OF fill]
  show "chain_ok db'"
  proof (cases fill_created)
    case True
    let ?f = "stored_fill env (new_entry_fill_row intent calc open_ref t order fid)"
    have "fl_paper_order_id ?f = Some (po_paper_order_id order)"
      "fl_deterministic_fill_key ?f = fl_deterministic_fill_key (new_entry_fill_row intent calc open_ref t order fid)"
      by (simp_all add: stored_fill_def new_entry_fill_row_def)
    with f True have db2: "db2 = ?db1\<lparr>db_fills := db_fills ?db1 @ [?f]\<rparr>" "fill_row_to_domain ?f = ret ?f"
      "fl_deterministic_fill_key ?f \<notin> fl_deterministic_fill_key ` set (db_fills ?db1)"
      "fl_paper_order_id ?f = Some (po_paper_order_id order)" by auto
    show ?thesis
    proof (rule book_entry_links [OF ok1 _ o1(3) db2(4,2,3)])
      show "order \<in> set (db_orders ?db1)" using o1(2) by simp
      show "book_entry env intent calc t atr cid order order_created fill (?db1\<lparr>db_fills := db_fills ?db1 @ [?f]\<rparr>) = ret (x, db')"
        using rest True unfolding db2(1) by simp
    qed
  next
    case False
    with f rest have "fill_already_made intent fill order ?db1 = ret (x, db')" by simp
    then have "chain_tables db' = chain_tables ?db1" by (rule same_chain.staysD [OF same_reads(8)])
    then show ?thesis using ok1 by (rule same_chain_ok)
  qed
qed

section \<open>Steps\<close>

lemmas links_rules = links.stays_rules persist_links same_uuid4 [THEN links_same] same_update_wallet [THEN links_same]
  same_intent_status [THEN links_same] same_audit [THEN links_same] same_reads [THEN links_same]
  same_load_existing [THEN links_same] same_authorization [THEN links_same] same_pending_batch [THEN links_same]

lemma execute_links: "links.stays (execute_scheduled_paper_fill env risk ctx processed pending cid intent)"
proof -
  have reject: "links.stays (reject_entry env intent cid rej)" for rej
    unfolding reject_entry_def by (intro links_rules)
  have outcome: "links.stays (case calc of EntryExecutionRejected rej \<Rightarrow> reject_entry env intent cid rej
      | EntryExecutionApproved app \<Rightarrow> db_bind (persist_successful_fill env intent app r t atr cid) (\<lambda>res. db_ret (FillDone res)))"
    for calc r t atr
    by (cases calc) (auto intro!: links_rules reject)
  show ?thesis unfolding execute_scheduled_paper_fill_def by (intro links_rules outcome)
qed

lemma due_links: "links.stays (process_due_intent env risk config ready cid t s ctx ctxs processed intent)"
  unfolding process_due_intent_def by (intro links_rules execute_links)

lemma raise_links: "links.stays (raise_stop env t cid p atr st)"
  unfolding raise_stop_def by (intro links_rules stop_event_links links_flush) simp_all

lemma close_links: "links.stays (close_position env p trigger xa t cid)"
  unfolding close_position_def
  by (intro links_rules exit_fill_links links_flush) (simp_all add: exit_fill_row_def)

theorem paper_step_links:
  assumes "paper_step env db db'" and "chain_ok db"
  shows "chain_ok db'"
  using assms(1)
proof (cases rule: paper_step.cases)
  case other
  then have "chain_tables db' = chain_tables db" by (simp add: trading_tables_def chain_tables_def entry_ids_def)
  then show ?thesis using assms(2) by (rule same_chain_ok)
next
  case (create ev se gates config t u ready x)
  from same_chain.staysD [OF same_create_intent this] show ?thesis using assms(2) by (rule same_chain_ok)
next
  case (due i risk config ready cid t s ctx ctxs processed x)
  with links.staysD [OF due_links due(3)] assms(2) show ?thesis by blast
next
  case (raise p st t cid atr x)
  with links.staysD [OF raise_links raise(4)] assms(2) show ?thesis by blast
next
  case (close p xa trigger bps fee_rate t cid x)
  with links.staysD [OF close_links close(4)] assms(2) show ?thesis by blast
qed

lemma paper_steps_links: "(paper_step env)\<^sup>*\<^sup>* db db' \<Longrightarrow> chain_ok db \<Longrightarrow> chain_ok db'"
  by (induction rule: rtranclp_induct) (auto intro: paper_step_links)

end
