(* ===== verification/Recovery_Properties.thy ===== *)
theory Recovery_Properties
  imports Recovery_Chain Bridge_Properties
begin

text \<open>
  The consistency checks on a database of the service, and what a recovery at start-up does: its outcome, and
  that it changes no trading table of such a database.
\<close>

section \<open>Operations that read\<close>

definition reads :: "'a db_op \<Rightarrow> ('a \<Rightarrow> bool) \<Rightarrow> paper_db \<Rightarrow> bool" where
  "reads m P db \<longleftrightarrow> (\<exists>x. m db = ret (x, db) \<and> P x)"

lemma readsI: "m db = ret (x, db) \<Longrightarrow> P x \<Longrightarrow> reads m P db"
  by (auto simp: reads_def)

lemma reads_bind: "reads m P db \<Longrightarrow> (\<And>x. P x \<Longrightarrow> reads (f x) Q db) \<Longrightarrow> reads (db_bind m f) Q db"
  by (auto simp: reads_def db_bind_def)

lemma reads_ret: "Q x \<Longrightarrow> reads (db_ret x) Q db"
  by (simp add: reads_def db_ret_def)

lemma reads_mono: "reads m P db \<Longrightarrow> (\<And>x. P x \<Longrightarrow> Q x) \<Longrightarrow> reads m Q db"
  by (auto simp: reads_def)

lemma reads_read: "f db = ret x \<Longrightarrow> P x \<Longrightarrow> reads (db_read f) P db"
  by (auto simp: reads_def db_read_def)

lemma cmapM_same: "\<forall>x \<in> set xs. f x = ret x \<Longrightarrow> cmapM f xs = ret xs"
  by (induction xs) simp_all

lemma reads_rows:
  assumes "\<forall>x \<in> set (g db). f x = ret x" and "P (g db)"
  shows "reads (db_read (\<lambda>db. cmapM f (g db))) P db"
  using assms cmapM_same [of "g db" f] by (simp add: reads_def db_read_def)

text \<open>
  Issues that do not stop a recovery and whose repair does not concern the trading tables.
\<close>

definition harmless :: "consistency_issue \<Rightarrow> bool" where
  "harmless i \<longleftrightarrow> ci_severity i \<noteq> FATAL \<and>
     (ci_severity i = AUTO_REPAIRABLE \<longrightarrow> ci_code i \<in> {''orphan_scheduler_run'', ''stale_runtime_heartbeat''})"

definition not_fatal :: "consistency_issue list \<Rightarrow> bool" where
  "not_fatal issues \<longleftrightarrow> (\<forall>i \<in> set issues. harmless i)"

lemma not_fatal_simps [simp]:
  "not_fatal []" "not_fatal (xs @ ys) \<longleftrightarrow> not_fatal xs \<and> not_fatal ys"
  "not_fatal (i # xs) \<longleftrightarrow> harmless i \<and> not_fatal xs"
  "not_fatal (issue_if b i) \<longleftrightarrow> (b \<longrightarrow> harmless i)"
  by (auto simp: not_fatal_def issue_if_def)

lemma harmless_issue [simp]:
  "harmless (issue c s m d) \<longleftrightarrow> s \<noteq> FATAL \<and> (s = AUTO_REPAIRABLE \<longrightarrow> c \<in> {''orphan_scheduler_run'', ''stale_runtime_heartbeat''})"
  by (simp add: harmless_def issue_def)

lemma severity_issue [simp]: "ci_severity (issue c s m d) = s"
  by (simp add: issue_def)

lemma reads_concat: "(\<And>x. x \<in> set xs \<Longrightarrow> reads (f x) not_fatal db) \<Longrightarrow> reads (db_concat f xs) not_fatal db"
proof (induction xs)
  case (Cons x xs)
  show ?case
    unfolding db_concat.simps
    by (rule reads_bind [OF Cons.prems [of x]], simp, rule reads_bind [OF Cons.IH], rule Cons.prems, simp, rule reads_ret, simp)
qed (simp add: reads_ret)

section \<open>The checks find nothing fatal\<close>

text \<open>A database of the service with rows that can be read.\<close>

definition service_db :: "paper_env \<Rightarrow> paper_db \<Rightarrow> bool" where
  "service_db env db \<longleftrightarrow> db_ok env db \<and> chain_ok db \<and> (\<forall>p \<in> set (db_positions db). readable_position p)"

lemma filter_key_distinct:
  assumes "distinct (map g xs)"
  shows "filter (\<lambda>x. g x = k) xs = (case find (\<lambda>x. g x = k) xs of None \<Rightarrow> [] | Some x \<Rightarrow> [x])"
  using assms
proof (induction xs)
  case (Cons x xs)
  show ?case
  proof (cases "g x = k")
    case True
    with Cons.prems have "filter (\<lambda>x. g x = k) xs = []" by (auto simp: filter_empty_conv image_iff)
    with True show ?thesis by simp
  qed (use Cons in simp)
qed simp

lemma find_key: "find (\<lambda>x. g x = k) xs = Some x \<Longrightarrow> x \<in> set xs \<and> g x = k"
  by (auto simp: find_Some_iff)

lemma reads_order_for_intent:
  assumes "chain_ok db"
  shows "reads (get_order_for_intent k) (\<lambda>r. r = find (\<lambda>x. po_intent_id x = k) (db_orders db)) db"
proof -
  have "distinct (map po_intent_id (db_orders db))" and dom: "\<forall>r \<in> set (db_orders db). order_row_to_domain r = ret r"
    using assms by (auto simp: chain_ok_def chain_def)
  from filter_key_distinct [OF this(1), of k] show ?thesis
    unfolding get_order_for_intent_def
    by (intro reads_read [where x = "find (\<lambda>x. po_intent_id x = k) (db_orders db)"])
       (auto simp: scalar_one_or_none_def dom split: option.splits dest!: find_key)
qed

lemma reads_fills_for_order:
  assumes "chain_ok db"
  shows "reads (get_fills_for_order i) (\<lambda>fs. set fs = {f \<in> set (db_fills db). fl_paper_order_id f = Some i}) db"
proof -
  have "\<forall>f \<in> set (db_fills db). fill_row_to_domain f = ret f" using assms by (auto simp: chain_ok_def chain_def)
  then show ?thesis unfolding get_fills_for_order_def by (intro reads_rows) auto
qed

lemma reads_fills_of_order:
  assumes "chain_ok db"
  shows "reads (fills_of_order r) (\<lambda>fs. set fs = {f \<in> set (db_fills db). \<exists>x. r = Some x \<and> fl_paper_order_id f = Some (po_paper_order_id x)}) db"
  unfolding fills_of_order_def using reads_fills_for_order [OF assms] by (auto split: option.splits intro: reads_ret)

lemma reads_all_fills:
  assumes "chain_ok db"
  shows "reads list_all_fills (\<lambda>fs. fs = db_fills db) db"
proof -
  have "\<forall>f \<in> set (db_fills db). fill_row_to_domain f = ret f" using assms by (auto simp: chain_ok_def chain_def)
  then show ?thesis unfolding list_all_fills_def by (intro reads_rows) auto
qed

lemma reads_all_positions:
  assumes "service_db env db"
  shows "reads list_all_positions (\<lambda>ps. ps = db_positions db) db"
  unfolding list_all_positions_def using assms
  by (intro reads_rows) (auto simp: service_db_def position_row_to_domain_ret)

text \<open>An order with a fill belongs to a filled intent.\<close>

lemma order_fill_intent:
  assumes "service_db env db" and "r \<in> set (db_orders db)" and "f \<in> set (db_fills db)"
    and "fl_paper_order_id f = Some (po_paper_order_id r)" and "i \<in> set (db_intents db)" and "ti_intent_id i = po_intent_id r"
  shows "ti_status i = TI_FILLED"
proof -
  have ok: "db_ok env db" and chain: "chain (db_orders db) (db_fills db) (entry_ids db) (db_stop_events db)"
    using assms(1) by (simp_all add: service_db_def chain_ok_def)
  from chain assms(3,4) obtain r' where r': "r' \<in> set (db_orders db)" "po_paper_order_id r' = po_paper_order_id r" "po_intent_id r' \<in> entry_ids db"
    unfolding chain_def fill_linked_def by blast
  have "r' = r" using chain r'(1,2) assms(2) by (auto simp: chain_def distinct_map inj_on_def)
  with r'(3) obtain p where "p \<in> set (db_positions db)" "pp_entry_intent_id p = po_intent_id r" by (auto simp: entry_ids_def)
  with ok obtain j where "j \<in> set (db_intents db)" "ti_intent_id j = po_intent_id r" "ti_status j = TI_FILLED"
    by (auto simp: db_ok_def)
  moreover from this ok assms(5,6) have "j = i" by (auto simp: db_ok_def distinct_map inj_on_def)
  ultimately show ?thesis by simp
qed

lemma check_intent_clean:
  assumes "service_db env db" and "i \<in> set (db_intents db)"
  shows "reads (check_intent i) not_fatal db"
proof -
  have chain: "chain_ok db" using assms(1) by (simp add: service_db_def)
  show ?thesis
    unfolding check_intent_def
  proof (rule reads_bind [OF reads_order_for_intent [OF chain]], rule reads_bind [OF reads_fills_of_order [OF chain]])
    fix r fs
    assume r: "r = find (\<lambda>x. po_intent_id x = ti_intent_id i) (db_orders db)"
      and fs: "set fs = {f \<in> set (db_fills db). \<exists>x. r = Some x \<and> fl_paper_order_id f = Some (po_paper_order_id x)}"
    have filled: "ti_status i = TI_FILLED" if "fs \<noteq> []"
    proof -
      from that have "hd fs \<in> set fs" by simp
      with fs obtain f x where "f \<in> set (db_fills db)" "r = Some x" "fl_paper_order_id f = Some (po_paper_order_id x)" by auto
      moreover from this(2) r have "x \<in> set (db_orders db) \<and> po_intent_id x = ti_intent_id i" by (intro find_key) simp
      ultimately show ?thesis using order_fill_intent [OF assms(1) _ _ _ assms(2), of x f] by simp
    qed
    have first: "reads (check_intent_fills i fs) not_fatal db"
      using filled by (auto simp: check_intent_fills_def Let_def TERMINAL_INTENT_STATUSES_def intro!: reads_ret)
    have "po_status x = PO_FILLED" if "r = Some x" for x
      using that r find_key [of po_intent_id "ti_intent_id i" "db_orders db" x] chain by (auto simp: chain_ok_def chain_def)
    then have second: "reads (check_order_fills r fs) not_fatal db"
      by (auto simp: check_order_fills_def split: option.splits intro!: reads_ret)
    show "reads (db_bind (check_intent_fills i fs) (\<lambda>issues1. db_bind (check_order_fills r fs) (\<lambda>issues2.
        db_ret (issues1 @ issues2 @ issue_if b (issue c MANUAL m d))))) not_fatal db" for b c m d
      by (rule reads_bind [OF first], rule reads_bind [OF second], rule reads_ret) simp
  qed
qed

lemma check_position_clean:
  assumes "service_db env db" and "p \<in> set (db_positions db)"
  shows "reads (check_position p) not_fatal db"
proof -
  have chain: "chain_ok db" and ok: "db_ok env db" using assms(1) by (simp_all add: service_db_def)
  from ok assms(2) obtain i where i: "i \<in> set (db_intents db)" "ti_intent_id i = pp_entry_intent_id p"
    by (auto simp: db_ok_def)
  then obtain j where intent: "get_intent (pp_entry_intent_id p) db = ret (Some j, db)"
    unfolding get_intent_def db_read_def by (cases "find (\<lambda>r. ti_intent_id r = pp_entry_intent_id p) (db_intents db)") (auto simp: find_None_iff)
  have "position_linked (db_orders db) (db_fills db) (pp_entry_intent_id p)"
    using chain assms(2) by (auto simp: chain_ok_def chain_def entry_ids_def)
  then obtain r f where link: "r \<in> set (db_orders db)" "po_intent_id r = pp_entry_intent_id p" "f \<in> set (db_fills db)"
    "fl_paper_order_id f = Some (po_paper_order_id r)" unfolding position_linked_def by blast
  have "distinct (map po_intent_id (db_orders db))" using chain by (simp add: chain_ok_def chain_def)
  then have found: "find (\<lambda>x. po_intent_id x = pp_entry_intent_id p) (db_orders db) = Some r"
    using link(1,2) by (rule find_distinct)
  show ?thesis
    unfolding check_position_def Let_def
    apply (rule reads_bind [where P = "\<lambda>x. x = Some j"], rule readsI [where x = "Some j"], rule intent, rule refl)
    apply (simp only: option.distinct if_True simp_thms)
    apply (rule reads_bind [OF reads_order_for_intent [OF chain]])
    apply (rule reads_bind [OF reads_fills_of_order [OF chain]])
    using link found by (auto intro!: reads_ret)
qed

lemma check_fill_clean:
  assumes "service_db env db" and "f \<in> set (db_fills db)"
  shows "reads (check_fill f) not_fatal db"
proof -
  have ok: "db_ok env db" and chain: "chain (db_orders db) (db_fills db) (entry_ids db) (db_stop_events db)"
    using assms(1) by (simp_all add: service_db_def chain_ok_def)
  have dom: "fill_row_to_domain f = ret f" and linked: "fill_linked (db_orders db) (entry_ids db) f"
    using chain assms(2) by (simp_all add: chain_def)
  show ?thesis
  proof (cases "fl_fill_kind f")
    case FILL_EXIT
    then have "fl_position_id f \<noteq> None" using dom by (auto simp: fill_row_to_domain_def split: if_splits)
    then show ?thesis using FILL_EXIT by (simp add: check_fill_def reads_ret)
  next
    case FILL_ENTRY
    then obtain k where k: "fl_paper_order_id f = Some k" using dom by (auto simp: fill_row_to_domain_def split: if_splits)
    with linked obtain r where r: "r \<in> set (db_orders db)" "po_paper_order_id r = k" "po_intent_id r \<in> entry_ids db"
      unfolding fill_linked_def by blast
    have "find (\<lambda>x. po_paper_order_id x = k) (db_orders db) = Some r"
      using chain r(1,2) by (intro find_distinct) (simp_all add: chain_def)
    then have order: "get_order_row k db = ret (Some r, db)" by (simp add: get_order_row_def db_read_def)
    from r(3) obtain p where p: "p \<in> set (db_positions db)" "pp_entry_intent_id p = po_intent_id r" by (auto simp: entry_ids_def)
    have "distinct (map pp_entry_intent_id (db_positions db))" using ok by (simp add: db_ok_def)
    from filter_key_distinct [OF this] find_distinct [OF this p]
    have "get_position_for_intent (po_intent_id r) db = ret (Some p, db)"
      by (simp add: get_position_for_intent_def db_read_def scalar_one_or_none_def)
    then show ?thesis
      using FILL_ENTRY k order by (simp add: check_fill_def Let_def db_bind_def reads_def db_ret_def)
  qed
qed

lemma check_stops_clean:
  assumes "service_db env db" and "p \<in> set (db_positions db)"
  shows "reads (check_stops p) not_fatal db"
proof -
  have events: "\<forall>e \<in> set (db_stop_events db). sv_previous_stop e \<le> sv_new_stop e"
    using assms(1) by (simp add: service_db_def chain_ok_def chain_def)
  have "reads (list_stop_events_for_position k) (\<lambda>es. \<forall>e \<in> set es. sv_previous_stop e \<le> sv_new_stop e) db" for k
    unfolding list_stop_events_for_position_def
    by (rule reads_rows) (use events in \<open>auto simp: stop_event_row_to_domain_def not_less\<close>)
  moreover have "pp_initial_stop p \<le> pp_current_stop p" using assms by (auto simp: service_db_def db_ok_def position_ok_def)
  ultimately show ?thesis
    unfolding check_stops_def Let_def
    by (intro reads_bind [where P = "\<lambda>es. \<forall>e \<in> set es. sv_previous_stop e \<le> sv_new_stop e"] reads_ret)
       (auto simp: not_fatal_def issue_if_def)
qed

lemma duplicate_fills_clean:
  assumes "distinct (map fl_deterministic_fill_key fs)" and "seen \<inter> fl_deterministic_fill_key ` set fs = {}"
  shows "duplicate_fills seen fs = []"
  using assms by (induction fs arbitrary: seen) (auto simp: issue_if_def)

lemma count_keys_le:
  assumes "distinct (map pp_symbol ps)" and "\<forall>k n. (k, n) \<in> set d \<longrightarrow> n \<le> 1" and "pp_symbol ` set ps \<inter> set (dict_keys d) = {}"
    and "distinct (dict_keys d)"
  shows "\<forall>(k, n) \<in> set (foldl (\<lambda>counts p. dict_put (pp_symbol p) (get_default counts (pp_symbol p) 0 + 1) counts) d ps). n \<le> (1 :: nat)"
  using assms
proof (induction ps arbitrary: d)
  case (Cons p ps)
  have "pp_symbol p \<notin> set (dict_keys d)" using Cons.prems(3) by auto
  then have put: "dict_put (pp_symbol p) (get_default d (pp_symbol p) 0 + 1) d = d @ [(pp_symbol p, 1)]"
    by (simp add: put_new get_default_def get_None_iff [THEN iffD2])
  show ?case
    unfolding foldl_Cons put using Cons.prems by (intro Cons.IH) (auto simp: dict_keys_def)
qed auto

lemma multiple_open_clean:
  assumes "service_db env db"
  shows "reads check_multiple_open_positions not_fatal db"
proof -
  define counts where "counts = foldl (\<lambda>counts p. dict_put (pp_symbol p) (get_default counts (pp_symbol p) (0 :: nat) + 1) counts) []
    (filter is_open_position (db_positions db))"
  have "distinct (map pp_symbol (filter is_open_position (db_positions db)))" using assms by (simp add: service_db_def db_ok_def)
  then have "\<forall>(k, n) \<in> set counts. n \<le> 1" unfolding counts_def by (rule count_keys_le) simp_all
  then have "filter (\<lambda>(symbol, count). 1 < count) counts = []" by (fastforce simp: filter_empty_conv)
  moreover have "count_open_positions_by_symbol db = ret (counts, db)"
    by (simp add: count_open_positions_by_symbol_def db_read_def counts_def)
  ultimately show ?thesis by (simp add: check_multiple_open_positions_def reads_def db_bind_def db_ret_def)
qed

theorem checks_not_fatal:
  assumes "service_db env db"
  shows "reads (run_consistency_checks sv) not_fatal db"
proof -
  have chain: "chain_ok db" using assms by (simp add: service_db_def)
  have orphan: "reads check_orphan_scheduler_runs not_fatal db"
    by (simp add: check_orphan_scheduler_runs_def get_running_scheduler_runs_def reads_def db_bind_def db_read_def db_ret_def not_fatal_def)
  have stale: "reads (check_stale_heartbeat sv) not_fatal db"
    by (cases "db_runtime db")
       (simp_all add: check_stale_heartbeat_def get_runtime_state_def now_def reads_def db_bind_def db_read_def db_ret_def Let_def)
  have intents: "reads check_intent_order_fill_chain not_fatal db"
    unfolding check_intent_order_fill_chain_def list_all_intents_def
    by (rule reads_bind [where P = "\<lambda>is. is = db_intents db"], rule reads_read)
       (auto intro!: reads_concat check_intent_clean [OF assms])
  have stops: "reads check_stop_invariants not_fatal db"
    unfolding check_stop_invariants_def
    by (rule reads_bind [OF reads_all_positions [OF assms]]) (auto intro!: reads_concat check_stops_clean [OF assms])
  have refs: "reads check_position_references not_fatal db"
    unfolding check_position_references_def
    apply (rule reads_bind [OF reads_all_positions [OF assms]])
    apply (rule reads_bind [where P = not_fatal], rule reads_concat, simp add: check_position_clean [OF assms])
    apply (rule reads_bind [OF reads_all_fills [OF chain]])
    apply (rule reads_bind [where P = not_fatal], rule reads_concat, simp add: check_fill_clean [OF assms])
    by (simp add: reads_ret)
  have duplicates: "reads check_duplicate_fills not_fatal db"
    unfolding check_duplicate_fills_def
    by (rule reads_bind [OF reads_all_fills [OF chain]], rule reads_ret)
       (use chain in \<open>simp add: duplicate_fills_clean chain_ok_def chain_def\<close>)
  have all: "list_all (\<lambda>m. reads m not_fatal db) ms \<Longrightarrow> reads (db_all ms) not_fatal db" for ms
    by (induction ms) (auto intro!: reads_ret reads_bind [where P = not_fatal])
  show ?thesis
    unfolding run_consistency_checks_def
    by (rule all) (simp add: orphan stale multiple_open_clean [OF assms] intents refs stops duplicates)
qed

section \<open>Checks change nothing\<close>

interpretation unchanged: db_preorder "\<lambda>db db'. db' = db"
  by unfold_locales auto

lemma unchanged_reads:
  "unchanged.stays get_wallet" "unchanged.stays get_runtime_state" "unchanged.stays get_open_positions" "unchanged.stays (now sv)"
  "unchanged.stays (get_open_position_for_symbol s)" "unchanged.stays (get_order_for_intent i)" "unchanged.stays (get_fills_for_order i)"
  "unchanged.stays (get_order_row i)" "unchanged.stays (get_intent i)" "unchanged.stays (get_position_for_intent i)"
  "unchanged.stays list_all_fills" "unchanged.stays list_all_positions" "unchanged.stays list_all_intents" "unchanged.stays list_funding_events"
  "unchanged.stays (list_positions n t j st only)" "unchanged.stays (list_stop_events_for_position i)"
  "unchanged.stays get_running_scheduler_runs" "unchanged.stays count_open_positions_by_symbol"
  by (simp_all add: get_wallet_def get_runtime_state_def get_open_positions_def now_def get_open_position_for_symbol_def
      get_order_for_intent_def get_fills_for_order_def get_order_row_def get_intent_def get_position_for_intent_def
      list_all_fills_def list_all_positions_def list_all_intents_def list_funding_events_def list_positions_def
      list_stop_events_for_position_def get_running_scheduler_runs_def count_open_positions_by_symbol_def unchanged.stays_read)

lemma unchanged_list: "unchanged.stays m \<Longrightarrow> (\<And>x xs. unchanged.stays (f x xs)) \<Longrightarrow> unchanged.stays (case ys of [] \<Rightarrow> m | x # xs \<Rightarrow> f x xs)"
  by (cases ys) simp_all

lemma unchanged_concat: "(\<And>x. unchanged.stays (f x)) \<Longrightarrow> unchanged.stays (db_concat f xs)"
  by (induction xs) (simp_all add: unchanged.stays_ret unchanged.stays_bind)

lemmas unchanged_rules = unchanged.stays_rules unchanged_reads unchanged_list unchanged_concat

lemma unchanged_get_state: "unchanged.stays get_state"
  unfolding get_state_def by (intro unchanged_rules)

lemma unchanged_chain:
  "unchanged.stays (fill_economic_chain_consistent_for_order i)" "unchanged.stays (fill_economic_chain_consistent_for_intent k)"
proof -
  show order: "unchanged.stays (fill_economic_chain_consistent_for_order i)" for i
    unfolding fill_economic_chain_consistent_for_order_def by (intro unchanged_rules)
  show "unchanged.stays (fill_economic_chain_consistent_for_intent k)"
    unfolding fill_economic_chain_consistent_for_intent_def by (intro unchanged_rules order)
qed

lemma unchanged_checks: "unchanged.stays (run_consistency_checks sv)"
  unfolding run_consistency_checks_def db_all.simps check_orphan_scheduler_runs_def check_stale_heartbeat_def
    check_multiple_open_positions_def check_intent_order_fill_chain_def check_intent_def fills_of_order_def
    check_intent_fills_def check_order_fills_def check_position_references_def check_position_def check_fill_def
    check_stop_invariants_def check_stops_def check_duplicate_fills_def Let_def
  by (intro unchanged_rules unchanged_chain)

lemma unchanged_accounting: "unchanged.stays (run_accounting_verification sv)"
  unfolding run_accounting_verification_def verify_accounting_independent_def reconstruct_wallet_def Let_def
  by (intro unchanged_rules)

section \<open>The runtime row during a recovery\<close>

text \<open>Status, pause and kill switch.\<close>

definition switches :: "paper_db \<Rightarrow> (runtime_status \<times> bool \<times> bool) option" where
  "switches db = map_option (\<lambda>rs. (rs_status rs, rs_paused rs, rs_kill_switch rs)) (db_runtime db)"

interpretation steady: db_preorder "\<lambda>db db'. switches db' = switches db"
  by unfold_locales auto

lemma steady_unchanged:
  assumes "unchanged.stays m"
  shows "steady.stays m" and "others_only.stays m"
  by (rule steady.staysI others_only.staysI, drule unchanged.staysD [OF assms], simp)+

lemma steady_uuid4: "steady.stays uuid4"
  unfolding steady.stays_def by (simp add: wlp_simps switches_def)

lemma steady_audit: "steady.stays (append_audit_event env a b c d e f)"
proof -
  have "steady.stays (db_write (\<lambda>db. db\<lparr>db_audit := db_audit db @ [row]\<rparr>))" for row
    unfolding steady.stays_def by (simp add: wlp_simps switches_def)
  then show ?thesis unfolding append_audit_event_def Let_def by (intro steady.stays_rules steady_uuid4)
qed

lemma steady_ops:
  "steady.stays (fail_orphan_scheduler_runs t)" "steady.stays (update_order_status env i st q u)"
  "steady.stays (update_intent_status env i s' q' rs u)" "steady.stays (insert_or_get_portfolio_snapshot env row)"
  "steady.stays (update_runtime_state None err st_at hb None None cyc v)"
  by (rule steady.staysI; auto simp: fail_orphan_scheduler_runs_def update_order_status_def update_intent_status_def
      insert_or_get_portfolio_snapshot_def update_runtime_state_def switches_def Let_def cbind_eq_ret set_if_def
      split: option.splits if_splits)+

lemmas steady_rules = steady.stays_rules steady_uuid4 steady_audit steady_ops
  unchanged_reads [THEN steady_unchanged(1)] unchanged_chain [THEN steady_unchanged(1)] unchanged_get_state [THEN steady_unchanged(1)]

lemma steady_detail: "steady.stays (detail_id i k)"
  unfolding detail_id_def by (auto split: option.splits issue_detail.splits intro!: steady.stays_rules)

lemma steady_concat: "(\<And>x. steady.stays (f x)) \<Longrightarrow> steady.stays (db_concat f xs)"
  by (induction xs) (simp_all add: steady.stays_ret steady.stays_bind)

lemma steady_repairs: "steady.keeps (apply_auto_repairs sv issues)"
  unfolding apply_auto_repairs_def apply_repair_def
  by (intro steady.keeps_transaction steady_rules steady_concat steady_detail)

lemma steady_recovery_audit: "steady.keeps (recovery_audit sv e payload)"
  unfolding recovery_audit_def runtime_audit_def by (intro steady.keeps_rules steady.keeps_transaction steady_rules)

lemma steady_snapshot: "steady.stays (capture_snapshot env t e w ps day prior cid)"
  unfolding capture_snapshot_def Let_def by (intro steady_rules)

lemma steady_check_and_repair: "steady.keeps (check_and_repair sv txt)"
  unfolding check_and_repair_def record_accounting_incident_def
  by (intro steady.keeps_rules steady.keeps_transaction steady_repairs steady_recovery_audit
      steady_unchanged(1) unchanged_checks unchanged_accounting)

section \<open>The outcome of a recovery\<close>

text \<open>From a state where \<open>P\<close> holds, a procedure that returns does so with \<open>Q\<close>.\<close>

definition leads :: "('s \<Rightarrow> bool) \<Rightarrow> ('s, 'a) proc \<Rightarrow> ('a \<Rightarrow> 's \<Rightarrow> bool) \<Rightarrow> bool" where
  "leads P m Q \<longleftrightarrow> (\<forall>s x s'. P s \<longrightarrow> m s = Some (Inr x, s') \<longrightarrow> Q x s')"

lemma leadsD: "leads P m Q \<Longrightarrow> P s \<Longrightarrow> m s = Some (Inr x, s') \<Longrightarrow> Q x s'"
  by (auto simp: leads_def)

lemma leads_bind:
  assumes "leads P m R" and "\<And>x. leads (R x) (f x) Q"
  shows "leads P (job_bind m f) Q"
  unfolding leads_def
proof (intro allI impI)
  fix s x s'
  assume "P s" "job_bind m f s = Some (Inr x, s')"
  from this(2,1) show "Q x s'" by (cases rule: job_bind_cases) (use leadsD [OF assms(1)] leadsD [OF assms(2)] in blast)+
qed

lemma leads_ret: "(\<And>s. P s \<Longrightarrow> Q x s) \<Longrightarrow> leads P (job_ret x) Q"
  by (simp add: leads_def job_ret_def)

lemma leads_if: "(b \<Longrightarrow> leads P m Q) \<Longrightarrow> (\<not> b \<Longrightarrow> leads P n Q) \<Longrightarrow> leads P (if b then m else n) Q"
  by simp

lemma leads_weaken: "leads P m R \<Longrightarrow> (\<And>x s. R x s \<Longrightarrow> Q x s) \<Longrightarrow> leads P m Q"
  by (auto simp: leads_def)

lemma leads_list:
  "(ys = [] \<Longrightarrow> leads P m Q) \<Longrightarrow> (\<And>x xs. ys = x # xs \<Longrightarrow> leads P (f x xs) Q) \<Longrightarrow> leads P (case ys of [] \<Rightarrow> m | x # xs \<Rightarrow> f x xs) Q"
  by (cases ys) simp_all

definition has_status :: "runtime_status \<Rightarrow> paper_db \<Rightarrow> bool" where
  "has_status st db \<longleftrightarrow> (\<exists>rs. db_runtime db = Some rs \<and> rs_status rs = st)"

lemma has_status_switches: "has_status st db \<longleftrightarrow> (\<exists>a b. switches db = Some (st, a, b))"
  by (auto simp: has_status_def switches_def)

lemma leads_steady: "steady.keeps m \<Longrightarrow> leads (has_status st) m (\<lambda>_. has_status st)"
  unfolding leads_def has_status_switches by (metis steady.keepsD steady.keeps_atD)

lemma wlp_bindI: "(\<And>x db'. m db = ret (x, db') \<Longrightarrow> wlp (f x) Q db') \<Longrightarrow> wlp (db_bind m f) Q db"
  unfolding wlp_bind by (simp add: wlp_def)

lemma wlp_steady: "steady.stays m \<Longrightarrow> has_status st db \<Longrightarrow> wlp m (\<lambda>_. has_status st) db"
  by (erule steady.wlp_stays) (simp add: has_status_switches)

lemma change_status_sets: "wlp (change_status sv target err cid) (\<lambda>_. has_status target) db"
proof -
  have set: "has_status target d'" if "update_runtime_state (Some target) u v w None None None y d = ret (x, d')" for u v w y d x d'
    using that by (auto simp: update_runtime_state_def has_status_def Let_def set_if_def split: option.splits if_splits)
  have audit: "steady.stays (db_bind (append_audit_event env a b c d e f) (\<lambda>_. db_ret y))" for env a b c d e f and y :: runtime_transition_result
    by (intro steady_rules)
  show ?thesis
    unfolding change_status_def runtime_audit_def
    by (intro wlp_bindI [of get_state] wlp_bindI [of "db_lift _"] wlp_bindI [of "now _"] wlp_bindI [of "update_runtime_state _ _ _ _ _ _ _ _"]
        wlp_steady [OF audit]) (erule set)
qed

lemma leads_transition: "leads P (runtime_transition sv target err cid) (\<lambda>_. has_status target)"
  unfolding leads_def runtime_transition_def
  using change_status_sets by (auto simp: wlp_def elim!: transaction_cases)

text \<open>What a result says.\<close>

definition outcome_ok :: "bool \<Rightarrow> recovery_result \<Rightarrow> paper_db \<Rightarrow> bool" where
  "outcome_ok market_data_ready res db \<longleftrightarrow>
     rr_final_status res \<in> {RS_READY, RS_DEGRADED, RS_FAILED} \<and>
     rr_success res = (rr_final_status res \<noteq> RS_FAILED) \<and>
     (\<exists>rs. db_runtime db = Some rs \<and> rs_status rs = rr_final_status res \<and>
        rr_entry_readiness res = (rr_final_status res = RS_READY \<and> \<not> rs_paused rs \<and> \<not> rs_kill_switch rs)) \<and>
     (rr_final_status res = RS_READY \<longrightarrow> market_data_ready \<and> (\<forall>i \<in> set (rr_issues res). ci_severity i = AUTO_REPAIRABLE)) \<and>
     (rr_final_status res = RS_FAILED \<longleftrightarrow> (\<exists>i \<in> set (rr_issues res). ci_severity i = FATAL))"

lemma severity_codes_Nil: "severity_codes s issues = [] \<longleftrightarrow> (\<forall>i \<in> set issues. ci_severity i \<noteq> s)"
  by (auto simp: severity_codes_def filter_empty_conv)

lemma finish_outcome:
  assumes "st \<in> {RS_READY, RS_DEGRADED, RS_FAILED}"
    and "st = RS_READY \<Longrightarrow> md \<and> severity_codes FATAL issues = [] \<and> severity_codes MANUAL issues = []"
    and "st = RS_FAILED \<longleftrightarrow> severity_codes FATAL issues \<noteq> []"
  shows "leads (has_status st) (finish_recovery st issues repairs) (outcome_ok md)"
proof -
  have "ci_severity i = AUTO_REPAIRABLE" if "st = RS_READY" "i \<in> set issues" for i
    using assms(2) [OF that(1)] that(2) unfolding severity_codes_Nil by (cases "ci_severity i") auto
  moreover have "st = RS_FAILED \<longleftrightarrow> (\<exists>i \<in> set issues. ci_severity i = FATAL)"
    using assms(3) severity_codes_Nil [of FATAL issues] by blast
  ultimately show ?thesis
    using assms(1,2) unfolding leads_def finish_recovery_def build_result_def
    by (auto simp: has_status_def outcome_ok_def db_bind_ret get_state_def get_runtime_state_def db_read_def db_ret_def
        split: option.splits elim!: transaction_cases)
qed

lemma fail_outcome:
  "severity_codes FATAL issues \<noteq> [] \<Longrightarrow>
   leads P (job_bind (fail_recovery sv code) (\<lambda>_. finish_recovery RS_FAILED issues repairs)) (outcome_ok md)"
  unfolding fail_recovery_def
  by (intro leads_bind [where R = "\<lambda>_. has_status RS_FAILED"] leads_transition leads_steady steady_recovery_audit finish_outcome)
     simp_all

lemma degrade_outcome:
  "severity_codes FATAL issues = [] \<Longrightarrow> leads P (degrade sv code issues repairs) (outcome_ok md)"
  unfolding degrade_def
  by (intro leads_bind [where R = "\<lambda>_. has_status RS_DEGRADED"] leads_transition finish_outcome) simp_all

lemma ready_outcome: "leads (has_status RS_READY) (recover_ready sv txt md) (outcome_ok md)"
  unfolding recover_ready_def
proof (rule leads_bind [OF leads_steady [OF steady_check_and_repair]], split prod.split, intro allI impI)
  fix x issues repairs
  assume "x = (issues :: consistency_issue list, repairs :: string list)"
  show "leads (has_status RS_READY)
      (case severity_codes FATAL issues of
         [] \<Rightarrow> (case severity_codes MANUAL issues of
                  [] \<Rightarrow> if \<not> md then degrade sv ''market_data_not_ready'' issues repairs else finish_recovery RS_READY issues repairs
                | code # _ \<Rightarrow> degrade sv code issues repairs)
       | code # _ \<Rightarrow> job_bind (fail_recovery sv code) (\<lambda>_. finish_recovery RS_FAILED issues repairs)) (outcome_ok md)"
    by (intro leads_list leads_if finish_outcome degrade_outcome fail_outcome) simp_all
qed

lemma other_outcome: "leads P (recover_other sv txt migrated md) (outcome_ok md)"
proof -
  have snapshot: "steady.keeps (transaction (capture_snapshot env t e w ps day prior cid))" for env t e w ps day prior cid
    by (rule steady.keeps_transaction) (rule steady_snapshot)
  have clock: "steady.keeps (transaction (now sv))"
    by (intro steady.keeps_transaction steady_rules)
  have ready: "leads Q (job_bind (runtime_transition sv RS_READY err cid) (\<lambda>_. job_bind (transaction (now sv)) (\<lambda>t.
      job_bind (transaction (capture_snapshot (sv_env sv) t e w ps day prior c)) (\<lambda>_. finish_recovery RS_READY issues repairs)))) (outcome_ok md)"
    if "md" "severity_codes FATAL issues = []" "severity_codes MANUAL issues = []" for Q err cid e w ps day prior c issues repairs
    using that by (intro leads_bind [where R = "\<lambda>_. has_status RS_READY"] leads_transition leads_steady clock snapshot finish_outcome) simp_all
  show ?thesis
    unfolding recover_other_def
    apply (rule leads_if, rule fail_outcome, simp add: severity_codes_def issue_def)
    apply (rule leads_bind [where R = "\<lambda>_ _. True"], simp add: leads_def, split prod.split, intro allI impI)
    apply (rule leads_list)
     apply (rule leads_bind [where R = "\<lambda>_ _. True"], simp add: leads_def)
     apply (intro leads_if leads_list degrade_outcome ready fail_outcome; simp)
    apply (rule fail_outcome, simp)
    done
qed

lemma leads_pre: "leads P m Q \<Longrightarrow> (\<And>s. P' s \<Longrightarrow> P s) \<Longrightarrow> leads P' m Q"
  by (auto simp: leads_def)

lemma leads_raise: "leads P (job_raise e) Q"
  by (simp add: leads_def job_raise_def)

lemma get_state_ret: "get_state db = ret (rs, db') \<longleftrightarrow> db' = db \<and> db_runtime db = Some rs"
  by (auto simp: get_state_def get_runtime_state_def db_bind_ret db_read_def db_ret_def db_raise_def split: option.splits)

lemma service_outcome: "leads (\<lambda>_. True) (recover_service sv txt lock active migrated md) (outcome_ok md)"
proof -
  have state: "leads (\<lambda>_. True) (transaction get_state) (\<lambda>rs db. db_runtime db = Some rs)"
    unfolding leads_def by (auto simp: get_state_ret elim!: transaction_cases)
  have ready: "leads (\<lambda>db. db_runtime db = Some rs) (recover_ready sv txt md) (outcome_ok md)" if "rs_status rs = RS_READY" for rs
    using ready_outcome by (rule leads_pre) (simp add: has_status_def that)
  have skip: "leads P m (\<lambda>_ _. True)" for P and m :: "unit job" by (simp add: leads_def)
  show ?thesis
    unfolding recover_service_def
    by (intro leads_if leads_raise leads_bind [OF state] ready leads_bind [OF skip] leads_bind [OF leads_transition] other_outcome)
qed

lemma outcome_switches:
  assumes "switches db' = switches db" and "outcome_ok md res db"
  shows "outcome_ok md res db'"
proof -
  have "outcome_ok md res d \<longleftrightarrow> rr_final_status res \<in> {RS_READY, RS_DEGRADED, RS_FAILED} \<and>
     rr_success res = (rr_final_status res \<noteq> RS_FAILED) \<and>
     (\<exists>p k. switches d = Some (rr_final_status res, p, k) \<and> rr_entry_readiness res = (rr_final_status res = RS_READY \<and> \<not> p \<and> \<not> k)) \<and>
     (rr_final_status res = RS_READY \<longrightarrow> md \<and> (\<forall>i \<in> set (rr_issues res). ci_severity i = AUTO_REPAIRABLE)) \<and>
     (rr_final_status res = RS_FAILED \<longleftrightarrow> (\<exists>i \<in> set (rr_issues res). ci_severity i = FATAL))" for d
    unfolding outcome_ok_def switches_def by (cases "db_runtime d") auto
  note eq = this
  show ?thesis using assms(2) unfolding eq [of db'] eq [of db] assms(1) .
qed

theorem recovery_outcome:
  assumes "recover_on_startup sv txt lock active migrated md db = Some (Inr res, db')"
  shows "outcome_ok md res db'"
proof -
  have audit: "steady.keeps (transaction (db_bind (now sv) (\<lambda>t. runtime_audit sv e payload c t)))" for e payload c
    unfolding runtime_audit_def by (intro steady.keeps_transaction steady_rules)
  have tail: "steady.keeps (job_bind (transaction get_runtime_state) (\<lambda>runtime_opt. case runtime_opt of None \<Rightarrow> job_ret r
     | Some runtime \<Rightarrow> job_bind (transaction (db_bind (now sv) (\<lambda>t. runtime_audit sv e payload c t))) (\<lambda>_. job_ret r)))"
    for r :: recovery_result and e payload c
    by (intro steady.keeps_rules steady.keeps_transaction steady_rules audit)
  have result: "leads (outcome_ok md r) (job_bind (transaction get_runtime_state) (\<lambda>runtime_opt. case runtime_opt of None \<Rightarrow> job_ret r
     | Some runtime \<Rightarrow> job_bind (transaction (db_bind (now sv) (\<lambda>t. runtime_audit sv e payload c t))) (\<lambda>_. job_ret r))) (outcome_ok md)"
    for r e payload c
    unfolding leads_def
  proof (intro allI impI)
    fix d x d'
    assume ok: "outcome_ok md r d" and run: "job_bind (transaction get_runtime_state) (\<lambda>runtime_opt. case runtime_opt of None \<Rightarrow> job_ret r
     | Some runtime \<Rightarrow> job_bind (transaction (db_bind (now sv) (\<lambda>t. runtime_audit sv e payload c t))) (\<lambda>_. job_ret r)) d = Some (Inr x, d')"
    have "x = r" using run by (auto simp: job_ret_def split: option.splits elim!: job_bind_cases)
    moreover from tail [THEN steady.keepsD] run have "switches d' = switches d" by (rule steady.keeps_atD)
    ultimately show "outcome_ok md x d'" using ok outcome_switches by blast
  qed
  have "leads (\<lambda>_. True) (recover_on_startup sv txt lock active migrated md) (outcome_ok md)"
    unfolding recover_on_startup_def by (rule leads_bind [OF service_outcome]) (rule result)
  then show ?thesis using TrueI assms by (rule leadsD)
qed

text \<open>States that need an operator.\<close>

theorem recovery_refused:
  assumes "db_runtime db = Some rs" and "rs_status rs \<in> {RS_PAUSED, RS_KILLED, RS_FAILED, RS_SHUTTING_DOWN, RS_SYNCING}"
    and "try_acquire lock" and "\<not> active"
  shows "\<exists>msg. recover_on_startup sv txt lock active migrated md db = Some (Inl (ValueError msg), db)"
proof -
  have state: "transaction get_state db = Some (Inr rs, db)"
    using assms(1) by (intro transaction_ret) (simp add: get_state_ret)
  have "\<exists>msg. validate_runtime_transition (rs_status rs) RS_RECOVERING = raise (ValueError msg)"
    using assms(2) by (auto simp: validate_runtime_transition_def transition_tables)
  then obtain msg where "validate_runtime_transition (rs_status rs) RS_RECOVERING = raise (ValueError msg)" by blast
  then have "change_status sv RS_RECOVERING None None db = raise (ValueError msg)"
    using assms(1) by (simp add: change_status_def db_bind_def get_state_ret [THEN iffD2] db_lift_def)
  then have trans: "runtime_transition sv RS_RECOVERING None None db = Some (Inl (ValueError msg), db)"
    by (simp add: runtime_transition_def transaction_def raise_def)
  have "rs_status rs \<noteq> RS_READY" "rs_status rs \<noteq> RS_STOPPED" using assms(2) by auto
  then have "recover_service sv txt lock active migrated md db = Some (Inl (ValueError msg), db)"
    using assms(3,4) state trans by (simp add: recover_service_def job_bind_def job_ret_def)
  then show ?thesis by (simp add: recover_on_startup_def job_bind_def)
qed

section \<open>Recovery of a database of the service\<close>

lemma service_db_tables:
  assumes "trading_tables db' = trading_tables db" and "service_db env db"
  shows "service_db env db'"
  using assms by (simp add: trading_tables_def service_db_def db_ok_def chain_ok_def entry_ids_def)

lemma others_transition: "others_only.stays (change_status sv target err cid)"
  unfolding change_status_def by (intro others_rules others_runtime_audit)

lemma others_repair: "harmless i \<Longrightarrow> ci_severity i = AUTO_REPAIRABLE \<Longrightarrow> others_only.stays (apply_repair sv t i)"
proof -
  assume "harmless i" "ci_severity i = AUTO_REPAIRABLE"
  then consider "ci_code i = ''orphan_scheduler_run''" | "ci_code i = ''stale_runtime_heartbeat''" unfolding harmless_def by blast
  then show ?thesis
    by cases (simp_all add: apply_repair_def \<open>ci_severity i = AUTO_REPAIRABLE\<close>, (intro others_rules others_run_writes others_run_updates)+)
qed

lemma others_concat: "\<forall>x \<in> set xs. others_only.stays (f x) \<Longrightarrow> others_only.stays (db_concat f xs)"
  by (induction xs) (simp_all add: others_only.stays_ret others_only.stays_bind)

lemma others_repairs:
  assumes "not_fatal issues"
  shows "others_only.keeps (apply_auto_repairs sv issues)"
proof -
  have "others_only.stays (apply_repair sv t i)" if "i \<in> set issues" for t i
  proof (cases "ci_severity i = AUTO_REPAIRABLE")
    case True
    then show ?thesis using assms that others_repair by (simp add: not_fatal_def)
  next
    case False
    then show ?thesis by (simp add: apply_repair_def others_only.stays_ret)
  qed
  then show ?thesis
    unfolding apply_auto_repairs_def
    by (intro others_only.keeps_transaction others_only.stays_bind others_now others_concat) simp
qed

text \<open>
  A procedure that, on the trading tables \<open>T\<close>, leaves them as they are, whether it returns or raises, and
  returns with \<open>Q\<close>.
\<close>

definition calm :: "paper_wallet_state option \<times> trade_intent list \<times> paper_order list \<times> paper_fill list \<times> paper_position list \<times>
   position_stop_event list \<times> funding_event_record list \<Rightarrow> 'a job \<Rightarrow> ('a \<Rightarrow> bool) \<Rightarrow> bool" where
  "calm T m Q \<longleftrightarrow> (\<forall>db r db'. trading_tables db = T \<longrightarrow> m db = Some (r, db') \<longrightarrow>
     trading_tables db' = T \<and> (\<forall>x. r = Inr x \<longrightarrow> Q x))"

lemma calmD: "calm T m Q \<Longrightarrow> trading_tables db = T \<Longrightarrow> m db = Some (r, db') \<Longrightarrow> trading_tables db' = T \<and> (\<forall>x. r = Inr x \<longrightarrow> Q x)"
  by (simp add: calm_def)

lemma calm_bind:
  assumes "calm T m P" and "\<And>x. P x \<Longrightarrow> calm T (f x) Q"
  shows "calm T (job_bind m f) Q"
  unfolding calm_def
proof (intro allI impI)
  fix db r db'
  assume T: "trading_tables db = T" and "job_bind m f db = Some (r, db')"
  from this(2) show "trading_tables db' = T \<and> (\<forall>x. r = Inr x \<longrightarrow> Q x)"
  proof (cases rule: job_bind_cases)
    case (ok x db1)
    with calmD [OF assms(1) T ok(1)] have "trading_tables db1 = T" "P x" by simp_all
    with calmD [OF assms(2)] ok(2) show ?thesis by blast
  next
    case (error e)
    with calmD [OF assms(1) T error(1)] show ?thesis by simp
  qed
qed

lemma calm_ret: "Q x \<Longrightarrow> calm T (job_ret x) Q"
  by (simp add: calm_def job_ret_def)

lemma calm_raise: "calm T (job_raise e) Q"
  by (simp add: calm_def job_raise_def)

lemma calm_if: "(b \<Longrightarrow> calm T m Q) \<Longrightarrow> (\<not> b \<Longrightarrow> calm T n Q) \<Longrightarrow> calm T (if b then m else n) Q"
  by simp

lemma calm_option: "calm T m Q \<Longrightarrow> (\<And>x. calm T (f x) Q) \<Longrightarrow> calm T (case y of None \<Rightarrow> m | Some x \<Rightarrow> f x) Q"
  by (cases y) simp_all

lemma calm_keeps: "others_only.keeps m \<Longrightarrow> calm T m (\<lambda>_. True)"
  unfolding calm_def using others_only.keepsD others_only.keeps_atD by fast

lemma calm_transaction: "others_only.stays m \<Longrightarrow> calm T (transaction m) (\<lambda>_. True)"
  by (rule calm_keeps) (rule others_only.keeps_transaction)

lemma calm_checks:
  assumes "\<And>db. trading_tables db = T \<Longrightarrow> service_db env db"
  shows "calm T (transaction (run_consistency_checks sv)) not_fatal"
  unfolding calm_def
proof (intro allI impI)
  fix db r db'
  assume T: "trading_tables db = T" and run: "transaction (run_consistency_checks sv) db = Some (r, db')"
  from checks_not_fatal [OF assms [OF T], of sv] obtain xs where "run_consistency_checks sv db = ret (xs, db)" "not_fatal xs"
    unfolding reads_def by blast
  with run T show "trading_tables db' = T \<and> (\<forall>x. r = Inr x \<longrightarrow> not_fatal x)" by (auto simp: transaction_def ret_def)
qed

lemma others_recovery_audit: "others_only.keeps (recovery_audit sv e payload)"
  unfolding recovery_audit_def
  by (intro others_only.keeps_rules others_only.keeps_transaction others_rules others_runtime_audit)

lemma calm_accounting:
  "calm T (transaction (run_accounting_verification sv)) (\<lambda>i. \<forall>x. i = Some x \<longrightarrow> ci_severity x = MANUAL)"
  unfolding calm_def
proof (intro allI impI)
  fix db r db'
  assume T: "trading_tables db = T" and run: "transaction (run_accounting_verification sv) db = Some (r, db')"
  from run show "trading_tables db' = T \<and> (\<forall>i. r = Inr i \<longrightarrow> (\<forall>x. i = Some x \<longrightarrow> ci_severity x = MANUAL))"
  proof (cases rule: transaction_cases)
    case (ok x)
    with unchanged.staysD [OF unchanged_accounting ok(1)] T show ?thesis
      by (auto simp: run_accounting_verification_def db_bind_ret db_ret_def split: if_splits)
  qed (use T in simp)
qed

lemma not_fatal_codes: "not_fatal issues \<Longrightarrow> severity_codes FATAL issues = []"
  by (auto simp: severity_codes_Nil not_fatal_def harmless_def)

lemma calm_check_and_repair:
  assumes "\<And>db. trading_tables db = T \<Longrightarrow> service_db env db"
  shows "calm T (check_and_repair sv txt) (\<lambda>(issues, _). severity_codes FATAL issues = [])"
  unfolding check_and_repair_def
proof (rule calm_bind [OF calm_checks [OF assms]], assumption)
  fix found assume "not_fatal found"
  then have repairs: "calm T (apply_auto_repairs sv found) (\<lambda>_. True)" by (intro calm_keeps others_repairs)
  have found_codes: "severity_codes FATAL (issues @ [x]) = []" if "not_fatal issues" "ci_severity x = MANUAL" for issues x
    using not_fatal_codes [OF that(1)] that(2) by (simp add: severity_codes_def)
  show "calm T (job_bind (apply_auto_repairs sv found) (\<lambda>repairs.
     job_bind (transaction (run_consistency_checks sv)) (\<lambda>issues.
     job_bind (transaction (run_accounting_verification sv)) (\<lambda>accounting_issue.
     case accounting_issue of
       None \<Rightarrow> job_ret (issues, repairs)
     | Some i \<Rightarrow> job_bind (record_accounting_incident sv txt i) (\<lambda>_. job_ret (issues @ [i], repairs))))))
     (\<lambda>(issues, _). severity_codes FATAL issues = [])"
    unfolding record_accounting_incident_def
    apply (rule calm_bind [OF repairs], rule calm_bind [OF calm_checks [OF assms]], assumption, rule calm_bind [OF calm_accounting])
    subgoal for _ issues i
      by (cases i) (auto simp: not_fatal_codes found_codes intro!: calm_ret calm_bind [OF calm_keeps [OF others_recovery_audit]])
    done
qed

lemma finish_calm: "severity_codes FATAL issues = [] \<Longrightarrow> calm T (finish_recovery st issues repairs) (\<lambda>res. severity_codes FATAL (rr_issues res) = [])"
  unfolding calm_def finish_recovery_def build_result_def
  by (auto simp: db_bind_ret get_state_ret db_ret_def elim!: transaction_cases)

lemma degrade_calm: "severity_codes FATAL issues = [] \<Longrightarrow> calm T (degrade sv code issues repairs) (\<lambda>res. severity_codes FATAL (rr_issues res) = [])"
  unfolding degrade_def runtime_transition_def
  by (rule calm_bind [OF calm_transaction [OF others_transition]], rule finish_calm)

lemma recover_calm:
  assumes "\<And>db. trading_tables db = T \<Longrightarrow> service_db env db"
  shows "calm T (recover_ready sv txt md) (\<lambda>res. severity_codes FATAL (rr_issues res) = [])"
    and "calm T (recover_other sv txt True md) (\<lambda>res. severity_codes FATAL (rr_issues res) = [])"
proof -
  note check = calm_check_and_repair [OF assms]
  show "calm T (recover_ready sv txt md) (\<lambda>res. severity_codes FATAL (rr_issues res) = [])"
    unfolding recover_ready_def
    by (rule calm_bind [OF check], assumption)
       (auto split: list.splits intro!: calm_if degrade_calm finish_calm)
  show "calm T (recover_other sv txt True md) (\<lambda>res. severity_codes FATAL (rr_issues res) = [])"
    unfolding recover_other_def runtime_transition_def
    apply (simp only: not_True_eq_False if_False)
    apply (rule calm_bind [OF check], assumption)
    by (auto split: list.splits intro!: calm_bind [OF calm_transaction [OF others_transition]] degrade_calm finish_calm
        calm_bind [OF calm_transaction [OF others_now]] calm_bind [OF calm_transaction [OF others_snapshot]])
qed

text \<open>
  Start-up on a database the service has written: the recovery changes no trading table, and it does not
  fail when the schema is current.
\<close>

theorem recovery_calm:
  assumes "service_db env db" and "recover_on_startup sv txt lock active True md db = Some (r, db')"
  shows "trading_tables db' = trading_tables db \<and> (\<forall>res. r = Inr res \<longrightarrow> rr_final_status res \<noteq> RS_FAILED)"
proof -
  have T: "service_db env d" if "trading_tables d = trading_tables db" for d using service_db_tables [OF that assms(1)] .
  have start: "others_only.keeps (if b then job_bind (runtime_transition sv RS_STARTING None None) (\<lambda>_. job_ret ()) else job_ret ())" for b
    unfolding runtime_transition_def by (intro others_only.keeps_rules others_only.keeps_transaction others_transition)
  have service: "calm (trading_tables db) (recover_service sv txt lock active True md) (\<lambda>res. severity_codes FATAL (rr_issues res) = [])"
    unfolding recover_service_def runtime_transition_def [of _ RS_RECOVERING]
    by (intro calm_if calm_raise calm_bind [OF calm_transaction [OF others_get_state]] recover_calm [OF T]
        calm_bind [OF calm_keeps [OF start]] calm_bind [OF calm_transaction [OF others_transition]])
  have audit: "others_only.stays (db_bind (now sv) (\<lambda>t. runtime_audit sv e p c t))" for e p c
    by (intro others_rules others_runtime_audit)
  have "calm (trading_tables db) (recover_on_startup sv txt lock active True md) (\<lambda>res. severity_codes FATAL (rr_issues res) = [])"
    unfolding recover_on_startup_def
    by (rule calm_bind [OF service])
       (intro calm_bind [OF calm_transaction [OF others_reads(2)]] calm_option calm_ret calm_bind [OF calm_transaction [OF audit]])
  from calmD [OF this refl assms(2)] recovery_outcome assms(2)
  show ?thesis by (auto simp: outcome_ok_def severity_codes_Nil)
qed

end
