(* ===== verification/Recovery_Accounting.thy ===== *)
theory Recovery_Accounting
  imports Recovery_Properties
begin

text \<open>
  The wallet and its reconstruction from the fills: as long as the columns store numbers exactly, the two are
  equal to the last digit, because every fill moves the wallet by the amounts the reconstruction adds, in the
  same order and with the same roundings.
\<close>

section \<open>The books\<close>

text \<open>A fill added to the totals, with the entry prices of the positions.\<close>

definition book_fill :: "(uuid \<Rightarrow> decimal option) \<Rightarrow> fill_totals \<Rightarrow> paper_fill \<Rightarrow> fill_totals" where
  "book_fill entry_price acc f =
     (let acc = acc\<lparr>ft_fees := dadd (ft_fees acc) (fl_fee f), ft_slippage := dadd (ft_slippage acc) (fl_slippage f)\<rparr>
      in if \<not> is_exit f then acc\<lparr>ft_cash := dsub (ft_cash acc) (fl_fee f)\<rparr>
         else case Option.bind (fl_position_id f) entry_price of
                None \<Rightarrow> acc
              | Some price \<Rightarrow>
                  let net = dsub (dmul (dsub (fl_fill_price f) price) (fl_quantity f)) (fl_fee f)
                  in acc\<lparr>ft_cash := dadd (ft_cash acc) net, ft_realized := dadd (ft_realized acc) net\<rparr>)"

lemma add_fill_book: "add_fill d = book_fill (\<lambda>i. map_option pp_average_entry_price (dict_get d i))"
proof (intro ext)
  fix acc f
  show "add_fill d acc f = book_fill (\<lambda>i. map_option pp_average_entry_price (dict_get d i)) acc f"
    by (cases "fl_fill_kind f"; cases "fl_position_id f"; cases "dict_get d (the (fl_position_id f))")
       (simp_all add: add_fill_def book_fill_def is_exit_def exit_net_pnl_def Let_def)
qed

definition price_list :: "paper_db \<Rightarrow> (uuid \<times> decimal) list" where
  "price_list db = map (\<lambda>p. (pp_position_id p, pp_average_entry_price p)) (db_positions db)"

definition opening_totals :: "decimal \<Rightarrow> fill_totals" where
  "opening_totals c = \<lparr>ft_cash = c, ft_fees = 0, ft_slippage = 0, ft_realized = 0\<rparr>"

definition wallet_totals :: "paper_wallet_state \<Rightarrow> fill_totals" where
  "wallet_totals w = \<lparr>ft_cash = wl_cash w, ft_fees = wl_total_fees w, ft_slippage = wl_total_slippage w,
     ft_realized = wl_total_realized_pnl w\<rparr>"

text \<open>The wallet holds what the fills add up to, and every exit belongs to a position.\<close>

definition wallet_balanced ::
  "decimal \<Rightarrow> paper_wallet_state option \<Rightarrow> paper_fill list \<Rightarrow> (uuid \<times> decimal) list \<Rightarrow> funding_event_record list \<Rightarrow> bool" where
  "wallet_balanced c wallet fills prices funding \<longleftrightarrow> distinct (map fst prices) \<and> funding = [] \<and>
     (\<forall>f \<in> set fills. is_exit f \<longrightarrow> (\<exists>i \<in> fst ` set prices. fl_position_id f = Some i)) \<and>
     (\<exists>w. wallet = Some w \<and> wallet_totals w = foldl (book_fill (map_of prices)) (opening_totals c) fills \<and>
        representable (wl_cash w) \<and> representable (wl_total_realized_pnl w) \<and> wl_total_funding w = 0)"

definition stop_list :: "paper_db \<Rightarrow> (decimal \<times> decimal) list" where
  "stop_list db = map (\<lambda>p. (pp_initial_stop p, pp_average_entry_price p)) (db_positions db)"

definition books :: "decimal \<Rightarrow> paper_db \<Rightarrow> bool" where
  "books c db \<longleftrightarrow> wallet_balanced c (db_wallet db) (db_fills db) (price_list db) (db_funding db) \<and> (\<forall>(s, a) \<in> set (stop_list db). s < a)"

definition book_tables ::
  "paper_db \<Rightarrow> paper_wallet_state option \<times> paper_fill list \<times> (uuid \<times> decimal) list \<times> funding_event_record list \<times>
   (decimal \<times> decimal) list" where
  "book_tables db = (db_wallet db, db_fills db, price_list db, db_funding db, stop_list db)"

lemma books_tables: "book_tables db' = book_tables db \<Longrightarrow> books c db \<Longrightarrow> books c db'"
  by (simp add: books_def book_tables_def)

text \<open>Old fills keep their entry prices when a position is added.\<close>

lemma book_fill_more:
  assumes "is_exit f \<Longrightarrow> \<exists>i \<in> fst ` set prices. fl_position_id f = Some i"
  shows "book_fill (map_of (prices @ extra)) acc f = book_fill (map_of prices) acc f"
proof (cases "is_exit f")
  case True
  with assms obtain i where i: "fl_position_id f = Some i" "i \<in> fst ` set prices" by blast
  then have "map_of (prices @ extra) i = map_of prices i"
    by (auto simp: map_add_def split: option.splits dest: weak_map_of_SomeI)
  then show ?thesis using i(1) by (simp add: book_fill_def Let_def)
qed (simp add: book_fill_def Let_def)

lemma wallet_balanced_fill:
  assumes "wallet_balanced c (Some w) fills prices []" and "distinct (map fst (prices @ extra))"
    and "is_exit f \<Longrightarrow> \<exists>i \<in> fst ` set prices. fl_position_id f = Some i"
    and "wallet_totals w' = book_fill (map_of prices) (wallet_totals w) f"
    and "representable (wl_cash w')" and "representable (wl_total_realized_pnl w')" and "wl_total_funding w' = 0"
  shows "wallet_balanced c (Some w') (fills @ [f]) (prices @ extra) []"
proof -
  have linked: "is_exit g \<Longrightarrow> \<exists>i \<in> fst ` set prices. fl_position_id g = Some i" if "g \<in> set (fills @ [f])" for g
    using that assms(1,3) by (auto simp: wallet_balanced_def)
  then have "foldl (book_fill (map_of (prices @ extra))) (opening_totals c) (fills @ [f]) =
      foldl (book_fill (map_of prices)) (opening_totals c) (fills @ [f])"
    by (intro foldl_cong book_fill_more) auto
  moreover have "wallet_totals w = foldl (book_fill (map_of prices)) (opening_totals c) fills"
    using assms(1) by (simp add: wallet_balanced_def)
  ultimately have "wallet_totals w' = foldl (book_fill (map_of (prices @ extra))) (opening_totals c) (fills @ [f])"
    using assms(4) by simp
  moreover have "\<exists>i \<in> fst ` set (prices @ extra). fl_position_id g = Some i" if "g \<in> set (fills @ [f])" "is_exit g" for g
    using linked [OF that] by auto
  ultimately show ?thesis using assms(2,5-7) by (simp add: wallet_balanced_def)
qed

interpretation same_books: db_preorder "\<lambda>db db'. book_tables db' = book_tables db"
  by unfold_locales auto

interpretation booked: db_preorder "\<lambda>db db'. books c db \<longrightarrow> books c db'" for c
  by unfold_locales auto

lemma booked_same:
  assumes "same_books.stays m"
  shows "booked.stays c m"
proof (rule booked.staysI)
  fix db x db'
  assume "m db = ret (x, db')"
  with assms have "book_tables db' = book_tables db" by (rule same_books.staysD)
  then show "books c db \<longrightarrow> books c db'" using books_tables by blast
qed

section \<open>Operations that leave the books alone\<close>

lemma same_books_uuid4: "same_books.stays uuid4"
  unfolding same_books.stays_def by (simp add: wlp_simps book_tables_def price_list_def stop_list_def)

lemma same_books_audit: "same_books.stays (append_audit_event env a b c d e f)"
proof -
  have "same_books.stays (db_write (\<lambda>db. db\<lparr>db_audit := db_audit db @ [row]\<rparr>))" for row
    unfolding same_books.stays_def by (simp add: wlp_simps book_tables_def price_list_def stop_list_def)
  then show ?thesis unfolding append_audit_event_def Let_def by (intro same_books.stays_rules same_books_uuid4)
qed

lemma same_books_ops:
  "same_books.stays (update_intent_status env k s q rs t)" "same_books.stays (insert_or_get_trade_intent env irow)"
  "same_books.stays (insert_or_get_paper_order env orow)" "same_books.stays (insert_or_get_stop_event env erow)"
  by (rule same_books.staysI; auto simp: update_intent_status_def insert_or_get_trade_intent_def insert_or_get_paper_order_def
      insert_or_get_stop_event_def book_tables_def price_list_def stop_list_def Let_def cbind_eq_ret split: option.splits if_splits)+

lemma same_books_reads:
  "same_books.stays get_wallet" "same_books.stays get_runtime_state" "same_books.stays get_open_positions"
  "same_books.stays (get_open_position_for_symbol s)" "same_books.stays (get_position_row i)"
  "same_books.stays (get_scheduled_intents_for_symbol s t)" "same_books.stays (get_nonterminal_intent_for_symbol s)"
  "same_books.stays (fill_already_made intent fill order)"
  by (simp_all add: get_wallet_def get_runtime_state_def get_open_positions_def get_open_position_for_symbol_def
      get_position_row_def get_scheduled_intents_for_symbol_def get_nonterminal_intent_for_symbol_def
      fill_already_made_def same_books.stays_read)

lemmas same_books_rules = same_books.stays_rules same_books_uuid4 same_books_audit same_books_ops same_books_reads

lemma same_books_load_existing: "same_books.stays (load_existing_fill intent t)"
  unfolding load_existing_fill_def Let_def by (intro same_books_rules)

lemma same_books_authorization: "same_books.stays (evaluate_final_entry_authorization config r t)"
  unfolding evaluate_final_entry_authorization_def Let_def by (intro same_books_rules)

lemma same_books_pending: "same_books.stays (pending_intents_for_open_batch env t s ctxs skip)"
proof -
  have "same_books.stays (pending_of_symbols env t ctxs skip ss)" for ss
    by (induction ss) (auto simp: pending_of_symbol_def intro!: same_books_rules)
  then show ?thesis unfolding pending_intents_for_open_batch_def .
qed

lemma same_books_create: "same_books.stays (create_intent_from_evaluation env ev se gates config t u ready)"
  unfolding create_intent_from_evaluation_def Let_def by (intro same_books_rules same_books_authorization)

section \<open>Exact columns\<close>

text \<open>The columns of the store keep what they are given.\<close>

definition exact_columns :: "paper_env \<Rightarrow> bool" where
  "exact_columns env \<longleftrightarrow> (\<forall>x. numeric env x = x)"

lemma exact_rows:
  assumes "exact_columns env"
  shows "stored_fill env f = f" and "stored_position env p = p"
  using assms by (simp_all add: exact_columns_def stored_fill_def stored_position_def)

lemma wallet_moved:
  assumes "exact_columns env" and "update_wallet env a b c d e None t db = ret (x, db')"
  shows "\<exists>w w'. db_wallet db = Some w \<and> db' = db\<lparr>db_wallet := Some w'\<rparr> \<and> wl_cash w' = dadd (wl_cash w) a \<and>
    wl_total_realized_pnl w' = dadd (wl_total_realized_pnl w) b \<and> wl_total_fees w' = dadd (wl_total_fees w) c \<and>
    wl_total_funding w' = dadd (wl_total_funding w) d \<and> wl_total_slippage w' = dadd (wl_total_slippage w) e"
  using assms by (auto simp: update_wallet_def exact_columns_def Let_def split: option.splits)

lemma flush_prices:
  assumes "exact_columns env" and "distinct (map fst (price_list db))"
    and "\<And>r. pp_position_id (change r) = pp_position_id r" and "\<And>r. pp_average_entry_price (change r) = pp_average_entry_price r"
    and "\<And>r. pp_initial_stop (change r) = pp_initial_stop r"
    and "flush_position env k change db = ret (u, db')"
  shows "book_tables db' = book_tables db"
proof -
  from assms(6) obtain row where row: "find (\<lambda>r. pp_position_id r = k) (db_positions db) = Some row"
    and db': "db' = db\<lparr>db_positions := update_row (\<lambda>r. pp_position_id r = k) (\<lambda>_. change row) (db_positions db)\<rparr>"
    using exact_rows(2) [OF assms(1)] by (auto simp: flush_position_def Let_def cbind_eq_ret split: option.splits)
  from row have mem: "row \<in> set (db_positions db)" "pp_position_id row = k" by (auto simp: find_Some_iff)
  have "inj_on pp_position_id (set (db_positions db))"
    using assms(2) by (simp add: price_list_def comp_def distinct_map)
  then have "r = row" if "r \<in> set (db_positions db)" "pp_position_id r = k" for r
    using that mem by (auto dest: inj_onD)
  then have "price_list db' = price_list db" "stop_list db' = stop_list db"
    unfolding price_list_def stop_list_def db' update_row_def using assms(3-5) by (auto simp: mem(2))
  then show ?thesis by (simp add: book_tables_def db')
qed

lemma booked_flush:
  assumes "exact_columns env"
    and "\<And>r. pp_position_id (change r) = pp_position_id r" and "\<And>r. pp_average_entry_price (change r) = pp_average_entry_price r"
    and "\<And>r. pp_initial_stop (change r) = pp_initial_stop r"
  shows "booked.stays c (flush_position env k change)"
proof (rule booked.staysI, rule impI)
  fix db u db'
  assume flush: "flush_position env k change db = ret (u, db')" and ok: "books c db"
  have "book_tables db' = book_tables db"
    by (rule flush_prices [OF assms(1) _ assms(2-4) flush]) (use ok in \<open>simp add: books_def wallet_balanced_def\<close>)
  then show "books c db'" using ok by (rule books_tables)
qed

section \<open>Entries and exits\<close>

lemma booked_entry:
  assumes "exact_columns env" and "books c db" and "\<not> is_exit f"
    and "fl_fee f = ea_fee (en_accounting calc)" "fl_slippage f = ea_slippage_cost (en_accounting calc)"
    and "book_entry env intent calc t atr cid order created fill (db\<lparr>db_fills := db_fills db @ [f]\<rparr>) = ret (x, db')"
  shows "books c db'"
proof -
  let ?row = "new_position_row intent calc atr t"
  from book_entry_split [OF assms(6)] obtain u db1 i p db2 payload g finish where
    wallet: "update_wallet env (- ea_fee (en_accounting calc)) 0 (ea_fee (en_accounting calc)) 0
      (ea_slippage_cost (en_accounting calc)) None None (db\<lparr>db_fills := db_fills db @ [f]\<rparr>) = ret (u, db1)"
    and create: "create_position env (?row i) (db1\<lparr>db_next_uuid := Suc (db_next_uuid db1)\<rparr>) = ret (p, db2)"
    and finish: "finish = db_bind (update_intent_status env (ti_intent_id intent) TI_FILLED (Some (en_quantity calc)) None None) (\<lambda>i.
      db_bind (append_audit_event env ''PAPER_FILL_EXECUTED'' ''paper_fill'' (fl_fill_id fill) payload cid None) (\<lambda>_.
      db_ret (g i)))" and rest: "finish db2 = ret (x, db')" .
  from wallet_moved [OF assms(1) wallet] obtain w w' where w: "db_wallet db = Some w"
    "db1 = db\<lparr>db_fills := db_fills db @ [f], db_wallet := Some w'\<rparr>" "wl_cash w' = dadd (wl_cash w) (- fl_fee f)"
    "wl_total_realized_pnl w' = dadd (wl_total_realized_pnl w) 0" "wl_total_fees w' = dadd (wl_total_fees w) (fl_fee f)"
    "wl_total_funding w' = dadd (wl_total_funding w) 0" "wl_total_slippage w' = dadd (wl_total_slippage w) (fl_slippage f)"
    unfolding assms(4,5) by auto
  from assms(2) w(1) have ok: "wallet_balanced c (Some w) (db_fills db) (price_list db) []" and none: "db_funding db = []"
    by (auto simp: books_def wallet_balanced_def)
  note c = create_position_ret [OF create]
  have "wallet_balanced c (Some w') (db_fills db @ [f]) (price_list db @ [(i, ef_fill_price (en_fill_prices calc))]) []"
  proof (rule wallet_balanced_fill [OF ok])
    show "distinct (map fst (price_list db @ [(i, ef_fill_price (en_fill_prices calc))]))"
      using c(2) ok by (auto simp: wallet_balanced_def w(2) price_list_def new_position_row_def Let_def comp_def image_iff)
    have "dadd (wl_total_realized_pnl w) 0 = wl_total_realized_pnl w"
      using ok by (simp add: wallet_balanced_def dadd_def dround_id)
    then show "wallet_totals w' = book_fill (map_of (price_list db)) (wallet_totals w) f"
      using assms(3) by (simp add: w(3-7) wallet_totals_def book_fill_def Let_def dadd_def dsub_def)
  qed (use ok assms(3) in \<open>simp_all add: wallet_balanced_def w(3-7) dadd_def representable_dround\<close>)
  moreover have "book_tables db2 = (Some w', db_fills db @ [f], price_list db @ [(i, ef_fill_price (en_fill_prices calc))], [],
      stop_list db @ [(pp_initial_stop (?row i), pp_average_entry_price (?row i))])"
    using none by (simp add: c(1) w(2) book_tables_def price_list_def stop_list_def exact_rows(2) [OF assms(1)] new_position_row_def Let_def)
  moreover have "book_tables db' = book_tables db2" by (rule same_books.staysD [of finish, OF _ rest]) (unfold finish, intro same_books_rules)
  moreover have "pp_initial_stop (?row i) < pp_average_entry_price (?row i)" using c(5) by (simp add: readable_position_def)
  ultimately show ?thesis using assms(2) by (auto simp: books_def book_tables_def)
qed

lemma booked_persist:
  assumes "exact_columns env"
  shows "booked.stays c (persist_successful_fill env intent calc open_ref t atr cid)"
proof (rule booked.staysI, rule impI)
  fix db x db'
  assume persist: "persist_successful_fill env intent calc open_ref t atr cid db = ret (x, db')" and ok: "books c db"
  from persist_split [OF persist] obtain oid order order_created db1 fid fill fill_created db2 where
    order: "insert_or_get_paper_order env (new_order_row intent calc t oid) (db\<lparr>db_next_uuid := Suc (db_next_uuid db)\<rparr>) = ret ((order, order_created), db1)"
    and fill: "insert_or_get_paper_fill env (new_entry_fill_row intent calc open_ref t order fid)
      (db1\<lparr>db_next_uuid := Suc (db_next_uuid db1)\<rparr>) = ret ((fill, fill_created), db2)"
    and rest: "(if \<not> fill_created then fill_already_made intent fill order
      else book_entry env intent calc t atr cid order order_created fill) db2 = ret (x, db')" .
  let ?db1 = "db1\<lparr>db_next_uuid := Suc (db_next_uuid db1)\<rparr>" and ?f = "new_entry_fill_row intent calc open_ref t order fid"
  have "book_tables ?db1 = book_tables db"
    using same_books.staysD [OF same_books_ops(3) order] by (simp add: book_tables_def price_list_def stop_list_def)
  then have ok1: "books c ?db1" using ok by (rule books_tables)
  show "books c db'"
  proof (cases fill_created)
    case True
    with fill_inserted [OF fill] have db2: "db2 = ?db1\<lparr>db_fills := db_fills ?db1 @ [?f]\<rparr>"
      by (simp add: exact_rows(1) [OF assms])
    show ?thesis
      by (rule booked_entry [OF assms ok1]) (use rest True in \<open>simp_all add: db2 new_entry_fill_row_def is_exit_def\<close>)
  next
    case False
    with fill_inserted [OF fill] rest have "fill_already_made intent fill order ?db1 = ret (x, db')" by simp
    then have "book_tables db' = book_tables ?db1" by (rule same_books.staysD [OF same_books_reads(8)])
    then show ?thesis using ok1 by (rule books_tables)
  qed
qed

lemma bind_steps:
  "db_bind (get_position_row k) g db = g (find (\<lambda>r. pp_position_id r = k) (db_positions db)) db"
  "db_bind uuid4 h db = h (db_next_uuid db) (db\<lparr>db_next_uuid := Suc (db_next_uuid db)\<rparr>)"
  by (simp_all add: db_bind_def get_position_row_def db_read_def uuid4_def)

lemma close_split:
  assumes "exact_columns env" and "close_position env p trigger xa t cid db = ret (x, db')"
  obtains (idle) "book_tables db' = book_tables db"
    | (closed) i u1 db1 u2 db2 u3 db3 u4 payload where
      "flush_position env (pp_position_id p) (\<lambda>r. r\<lparr>pp_status := PP_CLOSING\<rparr>)
         (db\<lparr>db_next_uuid := Suc (db_next_uuid db), db_fills := db_fills db @ [exit_fill_row p trigger xa t i]\<rparr>) = ret (u1, db1)"
      "update_wallet env (xa_net_wallet_delta xa) (dsub (xa_gross_pnl xa) (xa_fee xa)) (xa_fee xa) 0 (xa_slippage_cost xa) None (Some t) db1 = ret (u2, db2)"
      "flush_position env (pp_position_id p) (\<lambda>r. r\<lparr>pp_status := PP_CLOSED, pp_closed_at := Some t,
         pp_realized_pnl := dsub (xa_gross_pnl xa) (xa_fee xa), pp_unrealized_pnl := 0, pp_margin_reserved := 0,
         pp_version := pp_version r + 1\<rparr>) db2 = ret (u3, db3)"
      "append_audit_event env ''POSITION_CLOSED_STOP'' ''paper_position'' (pp_position_id p) payload cid (Some t) db3 = ret (u4, db')"
proof (cases "case find (\<lambda>r. pp_position_id r = pp_position_id p) (db_positions db) of None \<Rightarrow> True | Some row \<Rightarrow> pp_status row = PP_CLOSED")
  case True
  then have "db' = db" using assms(2) by (auto simp: close_position_def db_bind_ret get_position_row_def db_read_def db_ret_def split: option.splits)
  then show ?thesis using idle by simp
next
  case False
  then obtain fill created db1 where
    fill: "insert_or_get_paper_fill env (exit_fill_row p trigger xa t (db_next_uuid db)) (db\<lparr>db_next_uuid := Suc (db_next_uuid db)\<rparr>) = ret ((fill, created), db1)"
    and rest: "(if \<not> created then db_ret False else
         db_bind (flush_position env (pp_position_id p) (\<lambda>r. r\<lparr>pp_status := PP_CLOSING\<rparr>)) (\<lambda>_.
         db_bind (update_wallet env (xa_net_wallet_delta xa) (dsub (xa_gross_pnl xa) (xa_fee xa)) (xa_fee xa) 0
                    (xa_slippage_cost xa) None (Some t)) (\<lambda>_.
         db_bind (flush_position env (pp_position_id p)
           (\<lambda>r. r\<lparr>pp_status := PP_CLOSED, pp_closed_at := Some t,
                  pp_realized_pnl := dsub (xa_gross_pnl xa) (xa_fee xa), pp_unrealized_pnl := 0,
                  pp_margin_reserved := 0, pp_version := pp_version r + 1\<rparr>)) (\<lambda>_.
         db_bind (append_audit_event env ''POSITION_CLOSED_STOP'' ''paper_position'' (pp_position_id p)
                    [(''exit_reference'', JDecimal (st_exit_reference trigger)),
                     (''exit_reason'', JText (exit_reason_value (st_exit_reason trigger))),
                     (''fill_price'', JDecimal (xa_fill_price xa))] cid (Some t)) (\<lambda>_.
         db_ret True))))) db1 = ret (x, db')"
    using assms(2) by (auto simp: close_position_def bind_steps db_bind_ret [of "insert_or_get_paper_fill _ _"] split: option.splits if_splits)
  show ?thesis
  proof (cases created)
    case True
    then have "db1 = db\<lparr>db_next_uuid := Suc (db_next_uuid db), db_fills := db_fills db @ [exit_fill_row p trigger xa t (db_next_uuid db)]\<rparr>"
      using fill_inserted [OF fill] by (simp add: exact_rows(1) [OF assms(1)])
    then show ?thesis using rest True closed by (auto simp: db_bind_ret db_ret_def)
  next
    case False
    with rest fill_inserted [OF fill] have "book_tables db' = book_tables db"
      by (auto simp: book_tables_def price_list_def stop_list_def db_ret_def)
    then show ?thesis by (rule idle)
  qed
qed

text \<open>The exit fill and the wallet it moves.\<close>

lemma booked_exit:
  assumes "exact_columns env" and "books c db" and "p \<in> set (db_positions db)"
    and "xa = compute_exit_accounting (st_exit_reference trigger) (pp_quantity p) (pp_average_entry_price p) bps fee_rate"
    and "flush_position env (pp_position_id p) (\<lambda>r. r\<lparr>pp_status := PP_CLOSING\<rparr>)
      (db\<lparr>db_next_uuid := n, db_fills := db_fills db @ [exit_fill_row p trigger xa t i]\<rparr>) = ret (u1, db1)"
    and "update_wallet env (xa_net_wallet_delta xa) (dsub (xa_gross_pnl xa) (xa_fee xa)) (xa_fee xa) 0 (xa_slippage_cost xa) None (Some t) db1 = ret (u2, db2)"
  shows "books c db2"
proof -
  let ?db = "db\<lparr>db_next_uuid := n\<rparr>"
  let ?f = "exit_fill_row p trigger xa t"
  have f: "is_exit (?f i)" "fl_position_id (?f i) = Some (pp_position_id p)" "fl_fee (?f i) = xa_fee xa" "fl_slippage (?f i) = xa_slippage_cost xa"
    "dsub (dmul (dsub (fl_fill_price (?f i)) (pp_average_entry_price p)) (fl_quantity (?f i))) (xa_fee xa) = xa_net_wallet_delta xa"
    "dsub (xa_gross_pnl xa) (xa_fee xa) = xa_net_wallet_delta xa"
    by (simp_all add: exit_fill_row_def is_exit_def assms(4) compute_exit_accounting_def Let_def)
  have dist: "distinct (map fst (price_list db))" using assms(2) by (simp add: books_def wallet_balanced_def)
  have "(pp_position_id p, pp_average_entry_price p) \<in> set (price_list db)" using assms(3) by (auto simp: price_list_def)
  then have price: "map_of (price_list db) (pp_position_id p) = Some (pp_average_entry_price p)"
    using dist by (rule map_of_is_SomeI [rotated])
  have mem: "pp_position_id p \<in> fst ` set (price_list db)" using assms(3) by (force simp: price_list_def)
  have "book_tables db1 = book_tables (?db\<lparr>db_fills := db_fills db @ [?f i]\<rparr>)"
    by (rule flush_prices [OF assms(1) _ _ _ _ assms(5)]) (use dist in \<open>simp_all add: price_list_def\<close>)
  then have db1: "book_tables db1 = (db_wallet db, db_fills db @ [?f i], price_list db, db_funding db, stop_list db)"
    by (simp add: book_tables_def price_list_def stop_list_def)
  from wallet_moved [OF assms(1) assms(6)] db1 obtain w w' where w: "db_wallet db = Some w"
    "db2 = db1\<lparr>db_wallet := Some w'\<rparr>" "wl_cash w' = dadd (wl_cash w) (xa_net_wallet_delta xa)"
    "wl_total_realized_pnl w' = dadd (wl_total_realized_pnl w) (xa_net_wallet_delta xa)" "wl_total_fees w' = dadd (wl_total_fees w) (xa_fee xa)"
    "wl_total_funding w' = dadd (wl_total_funding w) 0" "wl_total_slippage w' = dadd (wl_total_slippage w) (xa_slippage_cost xa)"
    unfolding f(6) by (auto simp: book_tables_def)
  have ok: "wallet_balanced c (Some w) (db_fills db) (price_list db) []" and none: "db_funding db = []"
    using assms(2) w(1) by (auto simp: books_def wallet_balanced_def)
  have "wallet_balanced c (Some w') (db_fills db @ [?f i]) (price_list db @ []) []"
  proof (rule wallet_balanced_fill [OF ok])
    show "wallet_totals w' = book_fill (map_of (price_list db)) (wallet_totals w) (?f i)"
      using f price by (simp add: w(3-7) wallet_totals_def book_fill_def Let_def)
    show "\<exists>k \<in> fst ` set (price_list db). fl_position_id (?f i) = Some k" using mem f(2) by blast
  qed (use ok dist in \<open>simp_all add: wallet_balanced_def w(3-7) dadd_def representable_dround\<close>)
  then show ?thesis using db1 none assms(2) by (simp add: books_def book_tables_def w(2) price_list_def stop_list_def)
qed

lemma booked_close:
  assumes "exact_columns env" and "books c db" and "p \<in> set (db_positions db)"
    and "xa = compute_exit_accounting (st_exit_reference trigger) (pp_quantity p) (pp_average_entry_price p) bps fee_rate"
    and "close_position env p trigger xa t cid db = ret (x, db')"
  shows "books c db'"
  using assms(1,5)
proof (cases rule: close_split)
  case idle
  then show ?thesis using assms(2) by (rule books_tables)
next
  case (closed i u1 db1 u2 db2 u3 db3 u4 payload)
  have "books c db2" by (rule booked_exit [OF assms(1-4) closed(1,2)])
  have "booked.stays c (flush_position env (pp_position_id p) (\<lambda>r. r\<lparr>pp_status := PP_CLOSED, pp_closed_at := Some t,
       pp_realized_pnl := dsub (xa_gross_pnl xa) (xa_fee xa), pp_unrealized_pnl := 0, pp_margin_reserved := 0,
       pp_version := pp_version r + 1\<rparr>))" by (rule booked_flush [OF assms(1)]) simp_all
  from this closed(3) have "books c db2 \<longrightarrow> books c db3" by (rule booked.staysD)
  with \<open>books c db2\<close> have ok: "books c db3" by simp
  from same_books_audit closed(4) have "book_tables db' = book_tables db3" by (rule same_books.staysD)
  then show ?thesis using ok by (rule books_tables)
qed

section \<open>Steps\<close>

lemmas booked_rules = booked.stays_rules booked_persist same_books_uuid4 [THEN booked_same] same_books_audit [THEN booked_same] same_books_ops [THEN booked_same]
  same_books_reads [THEN booked_same] same_books_load_existing [THEN booked_same] same_books_authorization [THEN booked_same]
  same_books_pending [THEN booked_same]

lemma booked_execute:
  assumes "exact_columns env"
  shows "booked.stays c (execute_scheduled_paper_fill env risk ctx processed pending cid intent)"
proof -
  have reject: "booked.stays c (reject_entry env intent cid rej)" for rej
    unfolding reject_entry_def by (intro booked_rules)
  have outcome: "booked.stays c (case calc of EntryExecutionRejected rej \<Rightarrow> reject_entry env intent cid rej
      | EntryExecutionApproved app \<Rightarrow> db_bind (persist_successful_fill env intent app r t atr cid) (\<lambda>res. db_ret (FillDone res)))"
    for calc r t atr
    by (cases calc) (auto intro!: booked_rules reject assms)
  show ?thesis unfolding execute_scheduled_paper_fill_def by (intro booked_rules outcome)
qed

theorem paper_step_books:
  assumes "exact_columns env" and "paper_step env db db'" and "books c db"
  shows "books c db'"
  using assms(2)
proof (cases rule: paper_step.cases)
  case other
  then have "book_tables db' = book_tables db" by (simp add: trading_tables_def book_tables_def price_list_def stop_list_def)
  then show ?thesis using assms(3) by (rule books_tables)
next
  case (create ev se gates config t u ready x)
  from same_books.staysD [OF same_books_create this] show ?thesis using assms(3) by (rule books_tables)
next
  case (due i risk config ready cid t s ctx ctxs processed x)
  have "booked.stays c (process_due_intent env risk config ready cid t s ctx ctxs processed i)"
    unfolding process_due_intent_def by (intro booked_rules booked_execute assms(1))
  from booked.staysD [OF this due(3)] assms(3) show ?thesis by blast
next
  case (raise p st t cid atr x)
  have "booked.stays c (raise_stop env t cid p atr st)"
    unfolding raise_stop_def by (intro booked_rules booked_flush assms(1)) simp_all
  from booked.staysD [OF this raise(4)] assms(3) show ?thesis by blast
next
  case (close p xa trigger bps fee_rate t cid x)
  then show ?thesis using booked_close [OF assms(1,3)] by blast
qed

lemma paper_steps_books: "(paper_step env)\<^sup>*\<^sup>* db db' \<Longrightarrow> exact_columns env \<Longrightarrow> books c db \<Longrightarrow> books c db'"
  by (induction rule: rtranclp_induct) (auto intro: paper_step_books)

section \<open>The reconstruction\<close>

lemma books_readable:
  assumes "books c db" and "db_ok env db" and "p \<in> set (db_positions db)"
  shows "readable_position p"
proof -
  have "position_ok env p" using assms(2,3) by (simp add: db_ok_def)
  moreover have "pp_initial_stop p < pp_average_entry_price p" using assms(1,3) by (auto simp: books_def stop_list_def)
  ultimately show ?thesis by (simp add: position_ok_def readable_position_def)
qed

text \<open>A listing that fits its limit has every row.\<close>

lemma page_all: "length rows \<le> limit \<Longrightarrow> page time ident limit None None rows = newest_first time ident rows"
  by (simp add: page_def before_cursor_def newest_first_def)

lemma dict_of_prices:
  assumes "distinct (map pp_position_id ps)" and "distinct (map pp_position_id qs)" and "set qs = set ps"
  shows "map_option pp_average_entry_price (dict_get (dict_of (map (\<lambda>p. (pp_position_id p, p)) qs)) i) =
    map_of (map (\<lambda>p. (pp_position_id p, pp_average_entry_price p)) ps) i"
proof -
  have "map_of (rev (map (\<lambda>p. (pp_position_id p, p)) qs)) = map_of (map (\<lambda>p. (pp_position_id p, p)) ps)"
    using assms by (intro map_of_eqI) (auto simp: comp_def rev_map [symmetric] image_iff map_of_eq_Some_iff)
  moreover have "map_option pp_average_entry_price (map_of (map (\<lambda>p. (pp_position_id p, p)) ps) i) =
      map_of (map (\<lambda>p. (pp_position_id p, pp_average_entry_price p)) ps) i"
    by (induction ps) auto
  ultimately show ?thesis by (simp add: get_dict_of)
qed

theorem wallet_reconstructed:
  assumes "books c db" and "service_db env db" and "length (db_positions db) \<le> 10000"
  shows "\<exists>w r. db_wallet db = Some w \<and> reconstruct_wallet c db = ret (r, db) \<and> wallet_issues w r = []"
proof -
  let ?page = "newest_first pp_opened_at pp_position_id (db_positions db)"
  from assms(1) obtain w where w: "db_wallet db = Some w"
    "wallet_totals w = foldl (book_fill (map_of (price_list db))) (opening_totals c) (db_fills db)"
    "representable (wl_cash w)" "wl_total_funding w = 0" and none: "db_funding db = []"
    by (auto simp: books_def wallet_balanced_def)
  have page: "set ?page = set (db_positions db)" by (simp add: newest_first_def)
  have readable: "\<forall>p \<in> set (db_positions db). position_row_to_domain p = ret p" "\<forall>f \<in> set (db_fills db). fill_row_to_domain f = ret f"
    using assms(2) by (auto simp: service_db_def position_row_to_domain_ret chain_ok_def chain_def)
  have positions: "list_positions 10000 None None None False db = ret (?page, db)"
    using readable(1) page cmapM_same [of ?page] assms(3) by (simp add: list_positions_def db_read_def page_all)
  have fills: "list_all_fills db = ret (db_fills db, db)"
    using readable(2) cmapM_same [of "db_fills db"] by (simp add: list_all_fills_def db_read_def)
  have opens: "get_open_positions db = ret (filter is_open_position (db_positions db), db)"
    using readable(1) cmapM_same [of "filter is_open_position (db_positions db)"] by (simp add: get_open_positions_def db_read_def)
  have "distinct (map pp_position_id (db_positions db))" using assms(2) by (simp add: service_db_def chain_ok_def)
  then have "distinct (map pp_position_id (db_positions db))" "distinct (map pp_position_id ?page)"
    by (simp_all add: newest_first_def distinct_map)
  then have "add_fill (dict_of (map (\<lambda>p. (pp_position_id p, p)) ?page)) = book_fill (map_of (price_list db))"
    unfolding add_fill_book price_list_def by (simp add: dict_of_prices [OF _ _ page])
  then have totals: "foldl (add_fill (dict_of (map (\<lambda>p. (pp_position_id p, p)) ?page)))
      \<lparr>ft_cash = c, ft_fees = 0, ft_slippage = 0, ft_realized = 0\<rparr> (db_fills db) = wallet_totals w"
    using w(2) by (simp add: opening_totals_def)
  show ?thesis
    using w(1,3,4) none
    by (simp add: reconstruct_wallet_def db_bind_def positions fills opens list_funding_events_def db_read_def Let_def totals
        db_ret_def wallet_totals_def wallet_issues_def mismatch_def dadd_def dround_id)
qed

text \<open>A run of the service on exact columns reconciles to the last digit.\<close>

theorem wallet_reconciles:
  assumes "exact_columns env" and "db_ok env db0" and "chain_ok db0" and "books c db0"
    and "(paper_step env)\<^sup>*\<^sup>* db0 db" and "length (db_positions db) \<le> 10000"
  shows "\<exists>w r. db_wallet db = Some w \<and> reconstruct_wallet c db = ret (r, db) \<and> wallet_issues w r = []"
proof -
  have "numeric_ok env" using assms(1) by (simp add: numeric_ok_def exact_columns_def mono_def)
  from paper_steps_safe [OF this assms(2,5)] have ok: "db_ok env db" by simp
  have books: "books c db" using paper_steps_books assms(1,4,5) by blast
  have "chain_ok db" using paper_steps_links assms(3,5) by blast
  with ok books_readable [OF books ok] have "service_db env db" by (simp add: service_db_def)
  then show ?thesis using wallet_reconstructed books assms(6) by blast
qed

end
