(* ===== verification/Recovery_Examples.thy ===== *)
theory Recovery_Examples
  imports Recovery_Accounting Bridge_Examples
begin

text \<open>
  Recovery on the sample database: a clean start-up, and the books of the sample before its first fill.
\<close>

definition recovery_sample_lock :: advisory_lock where
  "recovery_sample_lock = \<lparr>al_held = True, al_available = True\<rparr>"

definition recovery_sample_paused :: paper_db where
  "recovery_sample_paused = paper_sample_db\<lparr>db_runtime := Some \<lparr>rs_status = RS_PAUSED, rs_last_error = None, rs_started_at = None,
     rs_heartbeat_at = 20001 * us_per_day, rs_kill_switch = False, rs_paused = True, rs_current_cycle_id = None, rs_version = 1\<rparr>\<rparr>"

lemmas recovery_sample = bridge_sample_ready_services_def bridge_sample_services_def paper_sample_db_def paper_sample_config_def

lemma recovery_sample_checks: "run_consistency_checks bridge_sample_ready_services paper_sample_db = ret ([], paper_sample_db)"
  by (simp add: run_consistency_checks_def db_run check_orphan_scheduler_runs_def get_running_scheduler_runs_def
      check_stale_heartbeat_def get_runtime_state_def now_def recovery_sample seconds_def us_per_second_def issue_if_def
      check_multiple_open_positions_def count_open_positions_by_symbol_def check_intent_order_fill_chain_def list_all_intents_def
      check_intent_def get_order_for_intent_def scalar_one_or_none_def fills_of_order_def check_intent_fills_def check_order_fills_def
      paper_sample_intent_def TERMINAL_INTENT_STATUSES_def check_position_references_def list_all_positions_def list_all_fills_def
      check_stop_invariants_def check_duplicate_fills_def Let_def)

lemma recovery_sample_accounting: "run_accounting_verification bridge_sample_ready_services paper_sample_db = ret (None, paper_sample_db)"
  by (simp add: run_accounting_verification_def verify_accounting_independent_def db_run get_wallet_def reconstruct_wallet_def
      list_positions_def page_def newest_first_def list_all_fills_def list_funding_events_def get_open_positions_def recovery_sample
      wallet_issues_def mismatch_def repeated_keys_def exit_counts_def map_filter_simps dict_of_def Let_def dadd_def dec_simps)

lemma recovery_sample_runs:
  "\<exists>res db. recover_on_startup bridge_sample_ready_services (\<lambda>_. '''') recovery_sample_lock False True True paper_sample_db = Some (Inr res, db) \<and>
     rr_final_status res = RS_READY \<and> rr_entry_readiness res"
proof -
  have repair: "apply_auto_repairs bridge_sample_ready_services [] paper_sample_db = Some (Inr [], paper_sample_db)"
    by (simp add: apply_auto_repairs_def transaction_def db_run now_def ret_def cbind_def)
  have clean: "check_and_repair bridge_sample_ready_services (\<lambda>_. '''') paper_sample_db = Some (Inr ([], []), paper_sample_db)"
    by (simp add: check_and_repair_def job_run transaction_def recovery_sample_checks recovery_sample_accounting repair ret_def)
  obtain rs where "db_runtime paper_sample_db = Some rs" "rs_status rs = RS_READY" "\<not> rs_paused rs" "\<not> rs_kill_switch rs"
    by (simp add: paper_sample_db_def)
  then show ?thesis
    by (simp add: recover_on_startup_def recover_service_def recover_ready_def job_run clean severity_codes_def finish_recovery_def
        build_result_def transaction_def runtime_audit_def append_audit_event_def db_run get_state_def get_runtime_state_def
        now_def recovery_sample_lock_def try_acquire_def ret_def cbind_def Let_def)
qed

lemma recovery_sample_books: "books 100000 paper_sample_db" "chain_ok paper_sample_db" "exact_columns paper_sample_env"
  by (simp_all add: books_def wallet_balanced_def price_list_def stop_list_def paper_sample_db_def wallet_totals_def opening_totals_def
      representable_of_int [of 100000, simplified] dec_prec_def chain_ok_def chain_def entry_ids_def exact_columns_def paper_sample_env_def)

end
