(* ===== verification/Research_Jobs.thy ===== *)
theory Research_Jobs
  imports Py_Dict Datetime "HOL-Library.Char_ord" "HOL-Library.List_Lexorder"
begin

text \<open>
  The job store of the research services (\<open>services/research/jobs.py\<close>) and of the robustness tests
  (\<open>robustness_jobs.py\<close>): one file a job, leases for their owners, and the recovery of orphans. A store is
  the dictionary of its readable job files; timestamps, which are printed with microseconds and read
  back, are times. The operations share their code over the common fields of the two job classes. The
  clock is a sequence of readings, since an operation reads it several times.
\<close>

section \<open>Jobs\<close>

datatype job_status = JS_CREATED | JS_QUEUED | JS_RUNNING | JS_COMPLETED | JS_FAILED

fun job_status_value :: "job_status \<Rightarrow> string" where
  "job_status_value JS_CREATED = ''created''"
| "job_status_value JS_QUEUED = ''queued''"
| "job_status_value JS_RUNNING = ''running''"
| "job_status_value JS_COMPLETED = ''completed''"
| "job_status_value JS_FAILED = ''failed''"

definition TerminalStatus :: "job_status set" where
  "TerminalStatus = {JS_COMPLETED, JS_FAILED}"

record stored_job =
  jb_id :: string
  jb_status :: job_status
  jb_created_at :: datetime
  jb_updated_at :: datetime
  jb_started_at :: "datetime option"
  jb_finished_at :: "datetime option"
  jb_error :: "string option"
  jb_error_detail :: "string option"
  jb_dataset_catalog_id :: "string option"
  jb_worker_id :: "string option"
  jb_lease_id :: "string option"
  jb_lease_expires_at :: "datetime option"

record research_job = stored_job +
  rj_run_id :: "string option"
  rj_attempt_id :: "string option"
  rj_name :: "string option"

record 'c robustness_job = stored_job +
  rb_base_experiment_id :: string
  rb_base_run_id :: string
  rb_test_type :: string
  rb_config :: "'c option"
  rb_manifest_content_hash :: "string option"

type_synonym 'a job_store = "(string, 'a stored_job_scheme) dict"
type_synonym clock = "nat \<Rightarrow> datetime"

definition lease_expired :: "datetime \<Rightarrow> datetime option \<Rightarrow> bool" where
  "lease_expired t expires = (case expires of None \<Rightarrow> True | Some e \<Rightarrow> e \<le> t)"

definition future_iso :: "datetime \<Rightarrow> int \<Rightarrow> datetime" where
  "future_iso t secs = t + seconds secs"

section \<open>Operations\<close>

text \<open>A transition error carries the status that was found.\<close>

definition transition_error :: "string \<Rightarrow> 'a stored_job_scheme option \<Rightarrow> py_error" where
  "transition_error msg job = JobTransitionError msg (map_option (job_status_value \<circ> jb_status) job)"

definition save_job :: "'a stored_job_scheme \<Rightarrow> 'a job_store \<Rightarrow> 'a job_store" where
  "save_job job store = dict_put (jb_id job) job store"

definition list_jobs :: "'a job_store \<Rightarrow> 'a stored_job_scheme list" where
  "list_jobs store = map snd (sort_key fst store)"

definition compare_and_set ::
  "string \<Rightarrow> job_status \<Rightarrow> ('a stored_job_scheme \<Rightarrow> 'a stored_job_scheme) \<Rightarrow> 'a job_store \<Rightarrow>
   ('a stored_job_scheme \<times> 'a job_store) comp" where
  "compare_and_set i expected_status mutate store =
     (case dict_get store i of
        None \<Rightarrow> raise (transition_error ''job not found'' (None :: 'a stored_job_scheme option))
      | Some job \<Rightarrow>
          if jb_status job \<noteq> expected_status
          then raise (transition_error (''expected status '' @ job_status_value expected_status @ '', found '' @
                 job_status_value (jb_status job)) (Some job))
          else ret (mutate job, dict_put i (mutate job) store))"

definition update_job ::
  "string \<Rightarrow> ('a stored_job_scheme \<Rightarrow> 'a stored_job_scheme) \<Rightarrow> 'a job_store \<Rightarrow> ('a stored_job_scheme \<times> 'a job_store) comp" where
  "update_job i mutate store =
     (case dict_get store i of None \<Rightarrow> raise KeyError | Some job \<Rightarrow> ret (mutate job, dict_put i (mutate job) store))"

text \<open>The interprocess lock of a job's file: \<open>free\<close> says whether it is got before the timeout.\<close>

definition with_file_lock :: "bool \<Rightarrow> 'x comp \<Rightarrow> 'x comp" where
  "with_file_lock free m = (if free then m else raise TimeoutError)"

definition claim ::
  "bool \<Rightarrow> clock \<Rightarrow> string \<Rightarrow> string \<Rightarrow> string \<Rightarrow> int \<Rightarrow> 'a job_store \<Rightarrow> ('a stored_job_scheme \<times> 'a job_store) comp" where
  "claim free clk new_lease i worker_id lease_seconds store = with_file_lock free
     (case dict_get store i of
        None \<Rightarrow> raise (transition_error ''job not found'' (None :: 'a stored_job_scheme option))
      | Some job \<Rightarrow>
          if jb_status job \<noteq> JS_QUEUED
          then raise (transition_error (''expected status queued, found '' @ job_status_value (jb_status job)) (Some job))
          else if jb_lease_expires_at job \<noteq> None \<and> \<not> lease_expired (clk 0) (jb_lease_expires_at job)
          then raise (transition_error ''job already claimed by a live worker lease'' (Some job))
          else let job = job\<lparr>jb_status := JS_RUNNING, jb_worker_id := Some worker_id, jb_lease_id := Some new_lease,
                             jb_lease_expires_at := Some (future_iso (clk 2) lease_seconds),
                             jb_started_at := Some (clk 1), jb_updated_at := clk 1\<rparr>
               in ret (job, dict_put i job store))"

definition renew_lease ::
  "bool \<Rightarrow> clock \<Rightarrow> string \<Rightarrow> string \<Rightarrow> string \<Rightarrow> int \<Rightarrow> 'a job_store \<Rightarrow> ('a stored_job_scheme \<times> 'a job_store) comp" where
  "renew_lease free clk i worker_id lease_id lease_seconds store = with_file_lock free
     (case dict_get store i of
        None \<Rightarrow> raise KeyError
      | Some job \<Rightarrow>
          if jb_status job \<noteq> JS_RUNNING \<or> jb_worker_id job \<noteq> Some worker_id \<or> jb_lease_id job \<noteq> Some lease_id
          then raise (transition_error ''lease is no longer owned by this worker/attempt'' (Some job))
          else if lease_expired (clk 0) (jb_lease_expires_at job)
          then raise (transition_error ''lease expired; refusing renewal'' (Some job))
          else let job = job\<lparr>jb_lease_expires_at := Some (future_iso (clk 1) lease_seconds), jb_updated_at := clk 2\<rparr>
               in ret (job, dict_put i job store))"

definition finish ::
  "bool \<Rightarrow> clock \<Rightarrow> string \<Rightarrow> string \<Rightarrow> string \<Rightarrow> ('a stored_job_scheme \<Rightarrow> 'a stored_job_scheme) \<Rightarrow> 'a job_store \<Rightarrow>
   ('a stored_job_scheme \<times> 'a job_store) comp" where
  "finish free clk i worker_id lease_id mutate store = with_file_lock free
     (case dict_get store i of
        None \<Rightarrow> raise KeyError
      | Some job \<Rightarrow>
          if jb_status job \<in> TerminalStatus
          then raise (transition_error ''job already terminal; refusing overwrite'' (Some job))
          else if jb_worker_id job \<noteq> Some worker_id \<or> jb_lease_id job \<noteq> Some lease_id
          then raise (transition_error ''stale worker/lease; refusing terminal write'' (Some job))
          else if lease_expired (clk 0) (jb_lease_expires_at job)
          then raise (transition_error ''lease expired; refusing terminal write'' (Some job))
          else ret (mutate job, dict_put i (mutate job) store))"

section \<open>The watchdog and the recovery of orphans\<close>

text \<open>
  The reasons the two stores write; the limits come from environment variables. The watchdog of a process
  knows the threads that were registered in it and whether they are alive.
\<close>

record job_texts =
  jt_lease_expired :: "string \<times> string"
  jt_stuck_queued :: string
  jt_lost :: string
  jt_no_resume :: string
  jt_orphan :: "string \<times> string"

record stale_limits =
  sl_queued :: int
  sl_running :: int
  sl_grace :: int

record thread_state =
  th_known :: bool
  th_alive :: bool

definition fail_job :: "datetime \<Rightarrow> string \<Rightarrow> string \<Rightarrow> 'a stored_job_scheme \<Rightarrow> 'a stored_job_scheme" where
  "fail_job t err detail job =
     job\<lparr>jb_status := JS_FAILED, jb_finished_at := Some t, jb_updated_at := t, jb_error := Some err, jb_error_detail := Some detail\<rparr>"

text \<open>
  What the watchdog writes for a queued or running job, if it writes: the decision is taken on the job as it
  was read, under the lock of the process only.
\<close>

definition stale_write ::
  "job_texts \<Rightarrow> stale_limits \<Rightarrow> thread_state \<Rightarrow> clock \<Rightarrow> 'a stored_job_scheme \<Rightarrow> 'a stored_job_scheme option" where
  "stale_write texts limits th clk current =
     (if jb_status current = JS_RUNNING \<and> jb_lease_expires_at current \<noteq> None
      then if \<not> lease_expired (clk 0) (jb_lease_expires_at current) then None
           else Some (fail_job (clk 1) (fst (jt_lease_expired texts)) (snd (jt_lease_expired texts)) current)
      else if th_alive th then None
      else
      let anchor = (if jb_status current = JS_RUNNING
                    then (case jb_started_at current of None \<Rightarrow> jb_updated_at current | Some t \<Rightarrow> t)
                    else jb_updated_at current);
          age = clk 0 - anchor
      in if jb_status current = JS_QUEUED
         then if age < seconds (sl_queued limits) then None
              else Some (fail_job (clk 1) (jt_stuck_queued texts) (jt_no_resume texts) current)
         else if age < seconds (sl_grace limits) then None
         else if age < seconds (sl_running limits) \<and> th_known th then None
         else Some (fail_job (clk 1) (jt_lost texts) (jt_no_resume texts) current))"

definition mark_stale_if_needed ::
  "job_texts \<Rightarrow> stale_limits \<Rightarrow> thread_state \<Rightarrow> clock \<Rightarrow> 'a stored_job_scheme \<Rightarrow> 'a job_store \<Rightarrow>
   'a stored_job_scheme \<times> 'a job_store" where
  "mark_stale_if_needed texts limits th clk job store =
     (if jb_status job \<notin> {JS_QUEUED, JS_RUNNING} then (job, store)
      else case dict_get store (jb_id job) of
        None \<Rightarrow> (job, store)
      | Some current \<Rightarrow>
          if jb_status current \<notin> {JS_QUEUED, JS_RUNNING} then (current, store)
          else (case stale_write texts limits th clk current of
                  None \<Rightarrow> (current, store)
                | Some failed \<Rightarrow> (failed, dict_put (jb_id failed) failed store)))"

text \<open>One job of the recovery at start-up: what it becomes, and whether it is reported.\<close>

definition recover_job ::
  "job_texts \<Rightarrow> clock \<Rightarrow> 'a stored_job_scheme \<Rightarrow> 'a stored_job_scheme option" where
  "recover_job texts clk current =
     (if jb_status current \<notin> {JS_QUEUED, JS_RUNNING} then None
      else if jb_lease_expires_at current \<noteq> None \<and> \<not> lease_expired (clk 0) (jb_lease_expires_at current) then None
      else if jb_status current = JS_QUEUED
      then Some (if jb_worker_id current \<noteq> None \<or> jb_lease_id current \<noteq> None
                 then current\<lparr>jb_worker_id := None, jb_lease_id := None, jb_lease_expires_at := None, jb_updated_at := clk 1\<rparr>
                 else current)
      else Some (fail_job (clk 1) (fst (jt_orphan texts)) (snd (jt_orphan texts)) current))"

fun recover_loop ::
  "bool \<Rightarrow> job_texts \<Rightarrow> (nat \<Rightarrow> clock) \<Rightarrow> 'a stored_job_scheme list \<Rightarrow> nat \<Rightarrow> 'a job_store \<Rightarrow>
   ('a stored_job_scheme list \<times> 'a job_store) comp" where
  "recover_loop free texts clks [] n store = ret ([], store)"
| "recover_loop free texts clks (job # jobs) n store =
     (if jb_status job \<notin> {JS_QUEUED, JS_RUNNING} then recover_loop free texts clks jobs (Suc n) store
      else with_file_lock free
        (case dict_get store (jb_id job) of
           None \<Rightarrow> recover_loop free texts clks jobs (Suc n) store
         | Some current \<Rightarrow>
             (case recover_job texts (clks n) current of
                None \<Rightarrow> recover_loop free texts clks jobs (Suc n) store
              | Some job' \<Rightarrow>
                  cbind (recover_loop free texts clks jobs (Suc n) (dict_put (jb_id current) job' store)) (\<lambda>(changed, store').
                  ret (job' # changed, store')))))"

definition recover_orphans ::
  "bool \<Rightarrow> job_texts \<Rightarrow> (nat \<Rightarrow> clock) \<Rightarrow> 'a job_store \<Rightarrow> ('a stored_job_scheme list \<times> 'a job_store) comp" where
  "recover_orphans free texts clks store = recover_loop free texts clks (list_jobs store) 0 store"

section \<open>The store of the robustness tests\<close>

text \<open>
  \<open>RobustnessJobStore\<close> repeats the operations for its own class of jobs; its \<open>RobustnessJobTransitionError\<close> is
  the transition error here, and its texts and limits are arguments as those of the other store.
\<close>

type_synonym 'c robustness_store = "(string, 'c robustness_job) dict"

definition robustness_save :: "'c robustness_job \<Rightarrow> 'c robustness_store \<Rightarrow> 'c robustness_store" where
  "robustness_save job store = save_job job store"

definition robustness_list_jobs :: "'c robustness_store \<Rightarrow> 'c robustness_job list" where
  "robustness_list_jobs store = list_jobs store"

definition robustness_compare_and_set ::
  "string \<Rightarrow> job_status \<Rightarrow> ('c robustness_job \<Rightarrow> 'c robustness_job) \<Rightarrow> 'c robustness_store \<Rightarrow>
   ('c robustness_job \<times> 'c robustness_store) comp" where
  "robustness_compare_and_set i expected_status mutate store = compare_and_set i expected_status mutate store"

definition robustness_update ::
  "string \<Rightarrow> ('c robustness_job \<Rightarrow> 'c robustness_job) \<Rightarrow> 'c robustness_store \<Rightarrow> ('c robustness_job \<times> 'c robustness_store) comp" where
  "robustness_update i mutate store = update_job i mutate store"

definition robustness_mark_stale_if_needed ::
  "job_texts \<Rightarrow> stale_limits \<Rightarrow> thread_state \<Rightarrow> clock \<Rightarrow> 'c robustness_job \<Rightarrow> 'c robustness_store \<Rightarrow>
   'c robustness_job \<times> 'c robustness_store" where
  "robustness_mark_stale_if_needed texts limits th clk job store = mark_stale_if_needed texts limits th clk job store"

definition robustness_claim ::
  "bool \<Rightarrow> clock \<Rightarrow> string \<Rightarrow> string \<Rightarrow> string \<Rightarrow> int \<Rightarrow> 'c robustness_store \<Rightarrow> ('c robustness_job \<times> 'c robustness_store) comp" where
  "robustness_claim free clk new_lease i worker_id lease_seconds store = claim free clk new_lease i worker_id lease_seconds store"

definition robustness_renew_lease ::
  "bool \<Rightarrow> clock \<Rightarrow> string \<Rightarrow> string \<Rightarrow> string \<Rightarrow> int \<Rightarrow> 'c robustness_store \<Rightarrow> ('c robustness_job \<times> 'c robustness_store) comp" where
  "robustness_renew_lease free clk i worker_id lease_id lease_seconds store =
     renew_lease free clk i worker_id lease_id lease_seconds store"

definition robustness_finish ::
  "bool \<Rightarrow> clock \<Rightarrow> string \<Rightarrow> string \<Rightarrow> string \<Rightarrow> ('c robustness_job \<Rightarrow> 'c robustness_job) \<Rightarrow> 'c robustness_store \<Rightarrow>
   ('c robustness_job \<times> 'c robustness_store) comp" where
  "robustness_finish free clk i worker_id lease_id mutate store = finish free clk i worker_id lease_id mutate store"

definition robustness_recover_orphans ::
  "bool \<Rightarrow> job_texts \<Rightarrow> (nat \<Rightarrow> clock) \<Rightarrow> 'c robustness_store \<Rightarrow> ('c robustness_job list \<times> 'c robustness_store) comp" where
  "robustness_recover_orphans free texts clks store = recover_orphans free texts clks store"

section \<open>How the services use the store\<close>

text \<open>
  \<open>create_experiment\<close> writes a new job where there is none or one that was not started; \<open>start_experiment\<close>
  queues a created job; the recovery fails a queued job whose data set is gone.
\<close>

definition to_queued :: "datetime \<Rightarrow> 'a stored_job_scheme \<Rightarrow> 'a stored_job_scheme" where
  "to_queued t job =
     job\<lparr>jb_status := JS_QUEUED, jb_updated_at := t, jb_error := None, jb_error_detail := None, jb_finished_at := None,
         jb_started_at := None\<rparr>"

datatype job_action =
    Created string
  | Queued string
  | Claimed string string string
  | Renewed string
  | Finished string string string
  | Failed string
  | Recovered

inductive job_step :: "'a job_store \<Rightarrow> job_action \<Rightarrow> 'a job_store \<Rightarrow> bool" where
  create: "dict_get store (jb_id job) = None \<or> (\<exists>old. dict_get store (jb_id job) = Some old \<and> jb_status old = JS_CREATED) \<Longrightarrow>
    jb_status job = JS_CREATED \<Longrightarrow> jb_worker_id job = None \<Longrightarrow> jb_lease_id job = None \<Longrightarrow>
    job_step store (Created (jb_id job)) (save_job job store)"
| start: "compare_and_set i JS_CREATED (to_queued t) store = ret (job, store') \<Longrightarrow> job_step store (Queued i) store'"
| abandon: "compare_and_set i JS_QUEUED (fail_job t err detail) store = ret (job, store') \<Longrightarrow> job_step store (Failed i) store'"
| claim: "claim free clk l i w n store = ret (job, store') \<Longrightarrow> job_step store (Claimed i w l) store'"
| renew: "renew_lease free clk i w l n store = ret (job, store') \<Longrightarrow> job_step store (Renewed i) store'"
| finish: "finish free clk i w l mutate store = ret (job, store') \<Longrightarrow> jb_status job \<in> TerminalStatus \<Longrightarrow> jb_id job = i \<Longrightarrow>
    job_step store (Finished i w l) store'"
| watchdog: "mark_stale_if_needed texts limits th clk job store = (job', store') \<Longrightarrow> job_step store (Failed (jb_id job)) store'"
| recover: "recover_orphans free texts clks store = ret (changed, store') \<Longrightarrow> job_step store Recovered store'"

inductive job_trace :: "'a job_store \<Rightarrow> job_action list \<Rightarrow> 'a job_store \<Rightarrow> bool" where
  empty: "job_trace store [] store"
| step: "job_trace store acts store' \<Longrightarrow> job_step store' a store'' \<Longrightarrow> job_trace store (acts @ [a]) store''"

section \<open>A job has one owner\<close>

fun job_rank :: "job_status \<Rightarrow> nat" where
  "job_rank JS_CREATED = 0"
| "job_rank JS_QUEUED = 1"
| "job_rank JS_RUNNING = 2"
| "job_rank JS_COMPLETED = 3"
| "job_rank JS_FAILED = 3"

text \<open>How a job may change: forward; a terminal one not at all; a running one keeps its owner.\<close>

definition job_le :: "'a stored_job_scheme \<Rightarrow> 'a stored_job_scheme \<Rightarrow> bool" where
  "job_le j j' \<longleftrightarrow> jb_id j' = jb_id j \<and> job_rank (jb_status j) \<le> job_rank (jb_status j') \<and>
     (jb_status j \<in> TerminalStatus \<longrightarrow> j' = j) \<and>
     (jb_status j = JS_RUNNING \<and> jb_status j' = JS_RUNNING \<longrightarrow> jb_worker_id j' = jb_worker_id j \<and> jb_lease_id j' = jb_lease_id j)"

definition job_ok :: "string \<Rightarrow> 'a stored_job_scheme \<Rightarrow> bool" where
  "job_ok i j \<longleftrightarrow> jb_id j = i \<and> (jb_status j \<in> {JS_CREATED, JS_QUEUED} \<longrightarrow> jb_worker_id j = None \<and> jb_lease_id j = None)"

definition store_ok :: "'a job_store \<Rightarrow> bool" where
  "store_ok store \<longleftrightarrow> all_entries job_ok store"

definition store_le :: "'a job_store \<Rightarrow> 'a job_store \<Rightarrow> bool" where
  "store_le s s' \<longleftrightarrow> (\<forall>i j. dict_get s i = Some j \<longrightarrow> (\<exists>j'. dict_get s' i = Some j' \<and> job_le j j'))"

lemma job_le_refl: "job_le j j"
  by (simp add: job_le_def)

lemma rank_terminal: "job_rank st = 3 \<longleftrightarrow> st \<in> TerminalStatus" "job_rank st \<le> 3"
  by (cases st; simp add: TerminalStatus_def)+

lemma job_le_trans: "job_le a b \<Longrightarrow> job_le b c \<Longrightarrow> job_le a c"
  unfolding job_le_def TerminalStatus_def by (cases "jb_status a"; cases "jb_status b"; cases "jb_status c") auto

lemma store_le_refl: "store_le s s"
  by (auto simp: store_le_def intro: job_le_refl)

lemma store_le_trans: "store_le a b \<Longrightarrow> store_le b c \<Longrightarrow> store_le a c"
  unfolding store_le_def by (meson job_le_trans)

lemma store_le_put:
  assumes "\<And>j. dict_get s i = Some j \<Longrightarrow> job_le j j'"
  shows "store_le s (dict_put i j' s)"
  using assms by (auto simp: store_le_def job_le_refl)

lemma with_file_lock_ret: "with_file_lock free m = ret x \<longleftrightarrow> free \<and> m = ret x"
  by (simp add: with_file_lock_def)

text \<open>What a successful operation did: one job of the store was replaced.\<close>

lemma claim_ret:
  assumes "claim free clk l i w n store = ret (job, store')"
  obtains old where "dict_get store i = Some old" "jb_status old = JS_QUEUED" "store' = dict_put i job store"
    "jb_status job = JS_RUNNING" "jb_worker_id job = Some w" "jb_lease_id job = Some l" "jb_id job = jb_id old"
    "jb_lease_expires_at job = Some (future_iso (clk 2) n)"
  using assms by (auto simp: claim_def with_file_lock_ret Let_def split: option.splits if_splits)

lemma renew_ret:
  assumes "renew_lease free clk i w l n store = ret (job, store')"
  obtains old where "dict_get store i = Some old" "jb_status old = JS_RUNNING" "store' = dict_put i job store"
    "jb_status job = JS_RUNNING" "jb_worker_id job = jb_worker_id old" "jb_lease_id job = jb_lease_id old" "jb_id job = jb_id old"
  using assms by (auto simp: renew_lease_def with_file_lock_ret Let_def split: option.splits if_splits)

lemma finish_ret:
  assumes "finish free clk i w l mutate store = ret (job, store')"
  obtains old where "dict_get store i = Some old" "jb_status old \<notin> TerminalStatus" "jb_worker_id old = Some w" "jb_lease_id old = Some l"
    "\<not> lease_expired (clk 0) (jb_lease_expires_at old)" "job = mutate old" "store' = dict_put i job store"
  using assms by (auto simp: finish_def with_file_lock_ret Let_def split: option.splits if_splits)

lemma compare_and_set_ret:
  assumes "compare_and_set i st mutate store = ret (job, store')"
  obtains old where "dict_get store i = Some old" "jb_status old = st" "job = mutate old" "store' = dict_put i job store"
  using assms by (auto simp: compare_and_set_def split: option.splits if_splits)

lemma stale_write_fails:
  "stale_write texts limits th clk job = Some job' \<Longrightarrow> \<exists>t e d. job' = fail_job t e d job"
  by (auto simp: stale_write_def Let_def split: if_splits)

lemma recover_job_le:
  assumes "recover_job texts clk j = Some j'" and "job_ok i j"
  shows "job_le j j' \<and> job_ok i j'"
  using assms by (auto simp: recover_job_def job_le_def job_ok_def fail_job_def TerminalStatus_def split: if_splits)

lemma fail_job_le: "jb_status j \<notin> TerminalStatus \<Longrightarrow> job_le j (fail_job t e d j)"
  by (cases "jb_status j") (simp_all add: job_le_def fail_job_def TerminalStatus_def)

lemma put_ok: "store_ok s \<Longrightarrow> job_ok i j \<Longrightarrow> store_ok (dict_put i j s)"
  unfolding store_ok_def by (rule all_entries_put)

lemma recover_loop_le:
  assumes "recover_loop free texts clks jobs n store = ret (changed, store')" and "store_ok store"
  shows "store_le store store' \<and> store_ok store'"
  using assms
proof (induction jobs arbitrary: n store changed)
  case (Cons job jobs)
  show ?case
  proof (cases "jb_status job \<notin> {JS_QUEUED, JS_RUNNING} \<or> dict_get store (jb_id job) = None \<or>
      (\<exists>current. dict_get store (jb_id job) = Some current \<and> recover_job texts (clks n) current = None)")
    case True
    then have "recover_loop free texts clks jobs (Suc n) store = ret (changed, store')"
      using Cons.prems(1) by (auto simp: with_file_lock_ret split: if_splits)
    then show ?thesis by (rule Cons.IH [OF _ Cons.prems(2)])
  next
    case False
    then obtain current job' where current: "dict_get store (jb_id job) = Some current" "recover_job texts (clks n) current = Some job'"
      by auto
    have ok: "job_ok (jb_id job) current" using Cons.prems(2) current(1) unfolding store_ok_def by (rule all_entriesD)
    then have key: "jb_id current = jb_id job" by (simp add: job_ok_def)
    let ?store = "dict_put (jb_id current) job' store"
    obtain changed' where rest: "recover_loop free texts clks jobs (Suc n) ?store = ret (changed', store')"
      using Cons.prems(1) current False by (auto simp: with_file_lock_ret cbind_eq_ret split: if_splits)
    note le = recover_job_le [OF current(2) ok]
    have "store_ok ?store" using le unfolding key by (intro put_ok Cons.prems(2)) simp
    from Cons.IH [OF rest this] have "store_le ?store store' \<and> store_ok store'" .
    moreover have "store_le store ?store" using le current(1) unfolding key by (intro store_le_put) simp
    ultimately show ?thesis using store_le_trans by blast
  qed
qed (simp add: store_le_refl)

text \<open>Every step but the recovery replaces at most one job, by one that is further.\<close>

lemma replaced_le:
  assumes "store_ok store" and "dict_get store i = Some old" and "job_ok i old \<Longrightarrow> job_le old job \<and> job_ok i job"
  shows "store_le store (dict_put i job store) \<and> store_ok (dict_put i job store)"
proof -
  have "job_ok i old" using assms(1,2) unfolding store_ok_def by (rule all_entriesD)
  with assms show ?thesis by (auto intro!: store_le_put put_ok)
qed

lemma create_le:
  assumes "dict_get store (jb_id job) = None \<or> (\<exists>old. dict_get store (jb_id job) = Some old \<and> jb_status old = JS_CREATED)"
    and "jb_status job = JS_CREATED" "jb_worker_id job = None" "jb_lease_id job = None" and "store_ok store"
  shows "store_le store (save_job job store) \<and> store_ok (save_job job store)"
  using assms unfolding save_job_def
  by (auto intro!: store_le_put put_ok simp: job_le_def job_ok_def TerminalStatus_def store_ok_def all_entries_def)

lemma compare_and_set_le:
  assumes "compare_and_set i st mutate store = ret (job, store')" and "store_ok store"
    and "\<And>old. jb_status old = st \<Longrightarrow> job_ok i old \<Longrightarrow> job_le old (mutate old) \<and> job_ok i (mutate old)"
  shows "store_le store store' \<and> store_ok store'"
  using assms(1) by (rule compare_and_set_ret) (use assms(2,3) replaced_le in metis)

lemma claim_le:
  assumes "claim free clk l i w n store = ret (job, store')" and "store_ok store"
  shows "store_le store store' \<and> store_ok store'"
  using assms(1)
  by (rule claim_ret) (auto intro!: replaced_le [OF assms(2)] simp: job_le_def job_ok_def TerminalStatus_def)

lemma renew_le:
  assumes "renew_lease free clk i w l n store = ret (job, store')" and "store_ok store"
  shows "store_le store store' \<and> store_ok store'"
  using assms(1)
  by (rule renew_ret) (auto intro!: replaced_le [OF assms(2)] simp: job_le_def job_ok_def TerminalStatus_def)

lemma finish_le:
  assumes "finish free clk i w l mutate store = ret (job, store')" and "jb_status job \<in> TerminalStatus" and "jb_id job = i"
    and "store_ok store"
  shows "store_le store store' \<and> store_ok store'"
  using assms(1)
proof (rule finish_ret)
  fix old
  assume old: "dict_get store i = Some old" "jb_status old \<notin> TerminalStatus" "store' = dict_put i job store"
  show ?thesis
    unfolding old(3) using old(2) assms(2,3) rank_terminal [of "jb_status job"] rank_terminal(2) [of "jb_status old"]
    by (intro replaced_le [OF assms(4) old(1)]) (auto simp: job_le_def job_ok_def TerminalStatus_def)
qed

lemma watchdog_le:
  assumes "mark_stale_if_needed texts limits th clk job store = (job', store')" and "store_ok store"
  shows "store_le store store' \<and> store_ok store'"
proof (cases "store' = store")
  case False
  with assms(1) obtain current failed where current: "dict_get store (jb_id job) = Some current"
    "jb_status current \<in> {JS_QUEUED, JS_RUNNING}" "stale_write texts limits th clk current = Some failed"
    "store' = dict_put (jb_id failed) failed store"
    by (auto simp: mark_stale_if_needed_def split: if_splits option.splits)
  from stale_write_fails [OF current(3)] obtain t e d where failed: "failed = fail_job t e d current" by blast
  have "job_ok (jb_id job) current" using assms(2) current(1) unfolding store_ok_def by (rule all_entriesD)
  then have key: "jb_id failed = jb_id job" by (simp add: failed fail_job_def job_ok_def)
  have "job_le current failed"
    unfolding failed by (rule fail_job_le) (use current(2) in \<open>auto simp: TerminalStatus_def\<close>)
  then show ?thesis
    unfolding current(4) key by (intro replaced_le [OF assms(2) current(1)]) (simp add: failed fail_job_def job_ok_def)
qed (use assms(2) store_le_refl in auto)

theorem job_step_le: "job_step store a store' \<Longrightarrow> store_ok store \<Longrightarrow> store_le store store' \<and> store_ok store'"
proof (induction rule: job_step.induct)
  case (start i t store job store')
  then show ?case
    by (intro compare_and_set_le [OF start(1) start(2)]) (auto simp: job_le_def job_ok_def to_queued_def TerminalStatus_def)
next
  case (abandon i t err detail store job store')
  then show ?case
    by (intro compare_and_set_le [OF abandon(1) abandon(2)]) (auto simp: job_le_def job_ok_def fail_job_def TerminalStatus_def)
next
  case (recover free texts clks store changed store')
  then show ?case unfolding recover_orphans_def by (rule recover_loop_le)
qed (rule create_le claim_le renew_le finish_le watchdog_le, assumption+)+

lemma job_trace_le: "job_trace store acts store' \<Longrightarrow> store_ok store \<Longrightarrow> store_le store store' \<and> store_ok store'"
proof (induction rule: job_trace.induct)
  case (step store acts store' a store'')
  then show ?case using job_step_le store_le_trans by blast
qed (simp add: store_le_refl)

text \<open>Whose job it is once it was claimed.\<close>

definition owned_by :: "string \<Rightarrow> string \<Rightarrow> string \<Rightarrow> 'a job_store \<Rightarrow> bool" where
  "owned_by i w l store \<longleftrightarrow>
     (\<exists>j. dict_get store i = Some j \<and> (jb_status j \<in> TerminalStatus \<or>
        jb_status j = JS_RUNNING \<and> jb_worker_id j = Some w \<and> jb_lease_id j = Some l))"

lemma owned_le:
  assumes "owned_by i w l store" and "store_le store store'"
  shows "owned_by i w l store'"
proof -
  from assms(1) obtain j where j: "dict_get store i = Some j" "jb_status j \<in> TerminalStatus \<or>
        jb_status j = JS_RUNNING \<and> jb_worker_id j = Some w \<and> jb_lease_id j = Some l" by (auto simp: owned_by_def)
  from assms(2) j(1) obtain j' where j': "dict_get store' i = Some j'" "job_le j j'" by (auto simp: store_le_def)
  from j(2) j'(2) have "jb_status j' \<in> TerminalStatus \<or> jb_status j' = JS_RUNNING \<and> jb_worker_id j' = Some w \<and> jb_lease_id j' = Some l"
    by (cases "jb_status j'") (auto simp: job_le_def TerminalStatus_def)
  with j'(1) show ?thesis by (auto simp: owned_by_def)
qed

lemma recover_loop_running:
  assumes "recover_loop free texts clks jobs n store = ret (changed, store')"
    and "dict_get store' i = Some j" and "jb_status j = JS_RUNNING"
  shows "dict_get store i = Some j"
  using assms(1)
proof (induction jobs arbitrary: n store changed)
  case Nil
  with assms(2) show ?case by simp
next
  case (Cons job jobs)
  have "jb_status job' \<noteq> JS_RUNNING" if "recover_job texts clk current = Some job'" for clk current job'
    using that by (auto simp: recover_job_def fail_job_def split: if_splits)
  with Cons.prems Cons.IH assms(3) show ?case
    by (fastforce simp: with_file_lock_ret cbind_eq_ret split: if_splits option.splits prod.splits)
qed

text \<open>A job is running after a step only if it was, with the same owner, or was just claimed.\<close>

lemma running_step:
  assumes "job_step store a store'" and "dict_get store' i = Some j" and "jb_status j = JS_RUNNING"
  shows "(\<exists>old. dict_get store i = Some old \<and> jb_status old = JS_RUNNING \<and> jb_worker_id old = jb_worker_id j \<and> jb_lease_id old = jb_lease_id j) \<or>
    (\<exists>w l. a = Claimed i w l \<and> jb_worker_id j = Some w \<and> jb_lease_id j = Some l)"
  using assms
proof (cases rule: job_step.cases)
  case (watchdog texts limits th clk job job')
  have "jb_status failed \<noteq> JS_RUNNING" if "stale_write texts limits th clk current = Some failed" for current failed
    using stale_write_fails [OF that] by (auto simp: fail_job_def)
  with watchdog assms(2,3) show ?thesis
    by (fastforce simp: mark_stale_if_needed_def split: if_splits option.splits)
next
  case (recover free texts clks changed)
  then show ?thesis unfolding recover_orphans_def using recover_loop_running assms(2,3) by blast
qed (auto simp: save_job_def to_queued_def fail_job_def TerminalStatus_def split: if_splits
      elim!: compare_and_set_ret claim_ret renew_ret finish_ret)

lemma claim_step: "job_step store (Claimed i w l) store' \<Longrightarrow> owned_by i w l store' \<and> (\<exists>j. dict_get store i = Some j \<and> jb_status j = JS_QUEUED)"
  by (erule job_step.cases) (auto simp: owned_by_def elim!: claim_ret)

lemma finish_step:
  assumes "job_step store (Finished i w l) store'" and "store_ok store"
  shows "\<exists>j. dict_get store i = Some j \<and> jb_status j = JS_RUNNING \<and> jb_worker_id j = Some w \<and> jb_lease_id j = Some l"
  using assms(1)
proof (cases rule: job_step.cases)
  case (finish free clk mutate job)
  from finish(1) obtain old where old: "dict_get store i = Some old" "jb_status old \<notin> TerminalStatus" "jb_worker_id old = Some w" "jb_lease_id old = Some l"
    by (rule finish_ret)
  have "job_ok i old" using assms(2) old(1) unfolding store_ok_def by (rule all_entriesD)
  with old show ?thesis by (cases "jb_status old") (auto simp: job_ok_def TerminalStatus_def)
qed

text \<open>What holds along a trace from the empty store.\<close>

definition traced :: "job_action list \<Rightarrow> 'a job_store \<Rightarrow> bool" where
  "traced acts store \<longleftrightarrow> store_ok store \<and>
     (\<forall>i w l. Claimed i w l \<in> set acts \<longrightarrow> owned_by i w l store) \<and>
     (\<forall>i j. dict_get store i = Some j \<longrightarrow> jb_status j = JS_RUNNING \<longrightarrow>
        (\<exists>w l. jb_worker_id j = Some w \<and> jb_lease_id j = Some l \<and> Claimed i w l \<in> set acts)) \<and>
     (\<forall>i. length (filter (\<lambda>a. \<exists>w l. a = Claimed i w l) acts) \<le> 1) \<and>
     (\<forall>i w l. Finished i w l \<in> set acts \<longrightarrow> Claimed i w l \<in> set acts)"

lemma traced_step:
  assumes "traced acts store" and "job_step store a store'"
  shows "traced (acts @ [a]) store'"
proof -
  have ok: "store_ok store" using assms(1) by (simp add: traced_def)
  have le: "store_le store store'" "store_ok store'" using job_step_le [OF assms(2) ok] by auto
  have "owned_by i w l store'" if "Claimed i w l \<in> set (acts @ [a])" for i w l
  proof (cases "a = Claimed i w l")
    case False
    with that assms(1) have "owned_by i w l store" unfolding traced_def by simp
    then show ?thesis using le(1) by (rule owned_le)
  qed (use assms(2) claim_step in blast)
  moreover have "\<exists>w l. jb_worker_id j = Some w \<and> jb_lease_id j = Some l \<and> Claimed i w l \<in> set (acts @ [a])"
    if "dict_get store' i = Some j" "jb_status j = JS_RUNNING" for i j
    using running_step [OF assms(2) that]
  proof (elim disjE exE conjE)
    fix old
    assume "dict_get store i = Some old" "jb_status old = JS_RUNNING" "jb_worker_id old = jb_worker_id j" "jb_lease_id old = jb_lease_id j"
    with assms(1) show ?thesis unfolding traced_def by (metis UnI1 set_append)
  qed simp
  moreover have "length (filter (\<lambda>a. \<exists>w l. a = Claimed i w l) (acts @ [a])) \<le> 1" for i
  proof (cases "\<exists>w l. a = Claimed i w l")
    case True
    then obtain j where "dict_get store i = Some j" "jb_status j = JS_QUEUED" using assms(2) claim_step by blast
    then have "\<not> owned_by i w l store" for w l by (auto simp: owned_by_def TerminalStatus_def)
    then have "filter (\<lambda>a. \<exists>w l. a = Claimed i w l) acts = []" using assms(1) unfolding traced_def filter_empty_conv by blast
    then show ?thesis by simp
  qed (use assms(1) in \<open>simp add: traced_def\<close>)
  moreover have "Claimed i w l \<in> set (acts @ [a])" if "Finished i w l \<in> set (acts @ [a])" for i w l
  proof (cases "a = Finished i w l")
    case True
    with assms(2) ok obtain j where "dict_get store i = Some j" "jb_status j = JS_RUNNING" "jb_worker_id j = Some w" "jb_lease_id j = Some l"
      using finish_step by blast
    with assms(1) have "Claimed i w l \<in> set acts" unfolding traced_def by (metis option.inject)
    then show ?thesis by simp
  qed (use that assms(1) in \<open>auto simp: traced_def\<close>)
  ultimately show ?thesis using le(2) unfolding traced_def by (intro conjI allI impI) assumption+
qed

theorem traces_traced: "job_trace store acts store' \<Longrightarrow> store = [] \<Longrightarrow> traced acts store'"
proof (induction rule: job_trace.induct)
  case (empty store)
  then show ?case by (simp add: traced_def store_ok_def)
qed (blast intro: traced_step)

text \<open>A running job with a live lease is left alone by the watchdog and by the recovery of any process.\<close>

lemma live_lease_kept:
  assumes "jb_status j = JS_RUNNING" and "jb_lease_expires_at j = Some e" and "clk 0 < e"
  shows "stale_write texts limits th clk j = None" and "recover_job texts clk j = None"
  using assms by (simp_all add: stale_write_def recover_job_def lease_expired_def)

text \<open>
  The watchdog holds the lock of its process only. Between its reading and its writing another process can
  claim the job and complete it; the write then makes the completed job a failed one.
\<close>

lemma watchdog_overwrites:
  assumes "dict_get store i = Some job" and "job_ok i job" and "jb_status job = JS_QUEUED"
    and "stale_write texts limits th clk job = Some failed"
    and "claim True clk' l i w n store = ret (claimed, store1)"
    and "finish True clk'' i w l mutate store1 = ret (finished, store2)" and "jb_status finished = JS_COMPLETED"
  shows "dict_get store2 i = Some finished \<and> (\<exists>j. dict_get (dict_put (jb_id failed) failed store2) i = Some j \<and> jb_status j = JS_FAILED)"
proof -
  from stale_write_fails [OF assms(4)] assms(2) have "jb_id failed = i" "jb_status failed = JS_FAILED"
    by (auto simp: fail_job_def job_ok_def)
  moreover have "dict_get store2 i = Some finished" using assms(6) by (rule finish_ret) simp
  ultimately show ?thesis by simp
qed

end
