(* ===== verification/Walk_Forward.thy ===== *)
theory Walk_Forward
  imports Timeframes
begin

text \<open>
  The plan of a walk-forward study (\<open>services/research/walk_forward.py\<close>): the evaluation windows, and before
  each of them the history its features and its labels may use. A \<open>date\<close> is its ordinal in the proleptic
  Gregorian calendar; the ends of Python's calendar (years 1 and 9999) are left out.
\<close>

type_synonym date = int

section \<open>The plan\<close>

definition DEFAULT_FEATURE_WARMUP_MONTHLY_BARS :: int where
  "DEFAULT_FEATURE_WARMUP_MONTHLY_BARS = 20"

record walk_forward_fold =
  wf_fold_id :: string
  wf_feature_context_start :: date
  wf_feature_context_end :: date
  wf_label_context_start :: date
  wf_label_context_end :: date
  wf_embargo_start :: date
  wf_embargo_end :: date
  wf_eval_start :: date
  wf_eval_end :: date

definition as_date :: "datetime \<Rightarrow> date" where
  "as_date t = ordinal_of t"

definition month_first :: "int \<Rightarrow> int \<Rightarrow> date" where
  "month_first y m = days_before_year y + days_before_month y m + 1"

definition month_end :: "int \<Rightarrow> int \<Rightarrow> date" where
  "month_end y m = days_before_year y + days_before_month y m + month_lengths y ! nat (m - 1)"

definition month_after :: "int \<Rightarrow> int \<Rightarrow> int \<times> int" where
  "month_after y m = (if m = 12 then (y + 1, 1) else (y, m + 1))"

text \<open>The first month that begins on or after a date.\<close>

definition first_full_month :: "date \<Rightarrow> int \<times> int" where
  "first_full_month d = (let (y, m, dd) = ord2ymd d in if dd \<noteq> 1 then month_after y m else (y, m))"

partial_function (option) completed_loop :: "date \<Rightarrow> date \<Rightarrow> int \<Rightarrow> int \<Rightarrow> int \<Rightarrow> (py_error + int) option" where
  "completed_loop context_start context_end y m count =
     (if context_end < month_first y m then ret count
      else if context_end < month_end y m then ret count
      else completed_loop context_start context_end (fst (month_after y m)) (snd (month_after y m))
             (if context_start \<le> month_first y m then count + 1 else count))"

definition count_completed_monthly_candles :: "date \<Rightarrow> date \<Rightarrow> int comp" where
  "count_completed_monthly_candles context_start context_end =
     (if context_end < context_start then ret 0
      else let (y, m) = first_full_month context_start in completed_loop context_start context_end y m 0)"

partial_function (option) warmup_loop :: "date \<Rightarrow> int \<Rightarrow> int \<Rightarrow> int \<Rightarrow> int \<Rightarrow> (py_error + date) option" where
  "warmup_loop range_start monthly_bars y m completed =
     (if \<not> completed < monthly_bars then raise (RuntimeError ''monthly warmup search failed'')
      else if range_start \<le> month_first y m
      then if completed + 1 = monthly_bars then ret (month_end y m + 1)
           else warmup_loop range_start monthly_bars (fst (month_after y m)) (snd (month_after y m)) (completed + 1)
      else warmup_loop range_start monthly_bars (fst (month_after y m)) (snd (month_after y m)) completed)"

definition earliest_eval_start_for_monthly_warmup :: "date \<Rightarrow> int \<Rightarrow> date comp" where
  "earliest_eval_start_for_monthly_warmup range_start monthly_bars =
     (if monthly_bars < 1 then raise (ValueError ''monthly_bars must be >= 1'')
      else let (y, m) = first_full_month range_start in warmup_loop range_start monthly_bars y m 0)"

definition int_text :: "int \<Rightarrow> string" where
  "int_text n = (if n < 0 then ''-'' @ nat_text (nat (- n)) else nat_text (nat n))"

definition fold_name :: "nat \<Rightarrow> string" where
  "fold_name i = ''fold_'' @ (if Suc i < 100 then padded 2 (int (Suc i)) else nat_text (Suc i))"

text \<open>One fold: the window of \<open>n\<close> days from the cursor, and what lies before it.\<close>

definition plan_fold :: "date \<Rightarrow> int \<Rightarrow> int \<Rightarrow> int option \<Rightarrow> nat \<Rightarrow> date \<Rightarrow> int \<Rightarrow> walk_forward_fold comp" where
  "plan_fold start embargo_days monthly_bars warmup_days i cursor n =
     (let fold_text = ''fold '' @ nat_text (Suc i) @ '': ''; context_end = cursor - 1
      in cbind (count_completed_monthly_candles start context_end) (\<lambda>completed.
         if completed < monthly_bars
         then raise (ValueError (fold_text @ ''completed monthly candles '' @ int_text completed @
                '' < feature_warmup_monthly_bars='' @ int_text monthly_bars))
         else if (case warmup_days of None \<Rightarrow> False | Some w \<Rightarrow> context_end - start + 1 < w)
         then raise (ValueError (fold_text @ ''feature context span '' @ int_text (context_end - start + 1) @
                ''d < feature_warmup_days='' @ int_text (the warmup_days)))
         else let embargo_start = (if embargo_days = 0 then cursor else cursor - embargo_days);
                  label_context_end = (if embargo_days = 0 then context_end else embargo_start - 1)
              in if label_context_end < start
                 then raise (ValueError (fold_text @ ''embargo_days='' @ int_text embargo_days @
                        '' leaves no label context before eval; widen range or reduce embargo''))
                 else ret \<lparr>wf_fold_id = fold_name i, wf_feature_context_start = start, wf_feature_context_end = context_end,
                           wf_label_context_start = start, wf_label_context_end = label_context_end,
                           wf_embargo_start = embargo_start, wf_embargo_end = context_end,
                           wf_eval_start = cursor, wf_eval_end = cursor + n - 1\<rparr>))"

fun plan_folds :: "date \<Rightarrow> int \<Rightarrow> int \<Rightarrow> int option \<Rightarrow> nat \<Rightarrow> date \<Rightarrow> int list \<Rightarrow> walk_forward_fold list comp" where
  "plan_folds start embargo_days monthly_bars warmup_days i cursor [] = ret []"
| "plan_folds start embargo_days monthly_bars warmup_days i cursor (n # ns) =
     cbind (plan_fold start embargo_days monthly_bars warmup_days i cursor n) (\<lambda>fold.
     cbind (plan_folds start embargo_days monthly_bars warmup_days (Suc i) (wf_eval_end fold + 1) ns) (\<lambda>folds.
     ret (fold # folds)))"

text \<open>The lengths of the windows: as even as possible, the longer ones first.\<close>

definition fold_lengths :: "int \<Rightarrow> int \<Rightarrow> int list" where
  "fold_lengths total_days n_folds =
     (let base = total_days div n_folds; rem = total_days mod n_folds
      in map (\<lambda>i. base + (if int i < rem then 1 else 0)) [0..<nat n_folds])"

definition plan_walk_forward_folds ::
  "date \<Rightarrow> date \<Rightarrow> int \<Rightarrow> int \<Rightarrow> int \<Rightarrow> int option \<Rightarrow> walk_forward_fold list comp" where
  "plan_walk_forward_folds start end_date n_folds embargo_days monthly_bars warmup_days =
     (if end_date < start then raise (ValueError ''range_end must be >= range_start'')
      else if n_folds < 1 then raise (ValueError ''n_folds must be >= 1'')
      else if embargo_days < 0 then raise (ValueError ''embargo_days must be >= 0'')
      else if monthly_bars < 1 then raise (ValueError ''feature_warmup_monthly_bars must be >= 1'')
      else if (case warmup_days of None \<Rightarrow> False | Some w \<Rightarrow> w < 1)
      then raise (ValueError ''feature_warmup_days must be >= 1 when set'')
      else
      cbind (earliest_eval_start_for_monthly_warmup start monthly_bars) (\<lambda>earliest.
      let first_eval_start = (case warmup_days of None \<Rightarrow> earliest | Some w \<Rightarrow> max earliest (start + w))
      in if end_date < first_eval_start
         then raise (ValueError (''range too short for feature warmup before first eval (need history through '' @
                date_text first_eval_start @ ''; monthly_bars='' @ int_text monthly_bars @ '')''))
         else let total_days = end_date - first_eval_start + 1
              in if total_days < n_folds then raise (ValueError ''evaluable range shorter than n_folds after warmup'')
                 else plan_folds start embargo_days monthly_bars warmup_days 0 first_eval_start (fold_lengths total_days n_folds)))"

section \<open>Months in a row\<close>

lemma month_after_range: "1 \<le> m \<Longrightarrow> m \<le> 12 \<Longrightarrow> 1 \<le> snd (month_after y m) \<and> snd (month_after y m) \<le> 12"
  by (auto simp: month_after_def)

lemma first_of_next:
  assumes "1 \<le> m" and "m \<le> 12"
  shows "month_first (fst (month_after y m)) (snd (month_after y m)) = month_end y m + 1"
proof (cases "m = 12")
  case True
  have "days_before_month (y + 1) 1 = 0" by (simp add: days_before_month_def)
  then show ?thesis using True days_before_month_Dec [of y] by (simp add: month_after_def month_first_def month_end_def days_before_next_year)
next
  case False
  then show ?thesis using assms days_before_month_Suc [of m y] by (simp add: month_after_def month_first_def month_end_def)
qed

lemma month_first_end: "1 \<le> m \<Longrightarrow> m \<le> 12 \<Longrightarrow> month_first y m < month_end y m"
  using month_length_nonneg [of m y] by (simp add: month_first_def month_end_def)

text \<open>The months of the calendar in one row, counted from January of year 0.\<close>

definition month_number :: "int \<Rightarrow> int \<Rightarrow> int" where
  "month_number y m = 12 * y + m - 1"

definition month_day :: "int \<Rightarrow> date" where
  "month_day i = month_first (i div 12) (i mod 12 + 1)"

text \<open>The whole months that lie between two dates.\<close>

definition whole_months :: "date \<Rightarrow> date \<Rightarrow> int set" where
  "whole_months s e = {i. s \<le> month_day i \<and> month_day (i + 1) \<le> e + 1}"

lemma month_first_number: "1 \<le> m \<Longrightarrow> m \<le> 12 \<Longrightarrow> month_first y m = month_day (month_number y m)"
proof -
  assume "1 \<le> m" "m \<le> 12"
  then have "month_number y m div 12 = y" "month_number y m mod 12 = m - 1"
    using div_of_sum [of "m - 1" 12 y] mod_of_sum [of "m - 1" 12 y] by (simp_all add: month_number_def algebra_simps)
  then show ?thesis by (simp add: month_day_def)
qed

lemma month_number_after:
  "month_number (fst (month_after y m)) (snd (month_after y m)) = month_number y m + 1"
  by (simp add: month_after_def month_number_def)

lemma month_end_number:
  assumes "1 \<le> m" and "m \<le> 12"
  shows "month_end y m + 1 = month_day (month_number y m + 1)"
  using first_of_next [OF assms, of y] month_after_range [OF assms, of y]
  by (simp add: month_first_number month_number_after)

lemma month_day_step: "month_day i < month_day (i + 1)"
proof -
  have m: "1 \<le> i mod 12 + 1" "i mod 12 + 1 \<le> 12" using pos_mod_bound [of 12 i] by simp_all
  have "month_number (i div 12) (i mod 12 + 1) = i" by (simp add: month_number_def)
  then show ?thesis
    using month_first_end [OF m, of "i div 12"] month_first_number [OF m, of "i div 12"] month_end_number [OF m, of "i div 12"]
    by simp
qed

lemma month_day_add: "month_day i + int k \<le> month_day (i + int k)"
proof (induction k)
  case (Suc k)
  then show ?case using month_day_step [of "i + int k"] by (simp add: algebra_simps)
qed simp

lemma month_day_le_iff [simp]: "month_day i \<le> month_day j \<longleftrightarrow> i \<le> j"
proof -
  have le: "month_day i + (j - i) \<le> month_day j" if "i \<le> j" for i j
    using month_day_add [of i "nat (j - i)"] that by simp
  show ?thesis using le [of i j] le [of j i] by (cases "i \<le> j"; cases "j \<le> i") simp_all
qed

text \<open>The first whole month after a date.\<close>

definition full_month_number :: "date \<Rightarrow> int" where
  "full_month_number d = (case first_full_month d of (y, m) \<Rightarrow> month_number y m)"

lemma ord2ymd_within:
  assumes "ord2ymd n = (y, m, d)"
  shows "1 \<le> m" and "m \<le> 12" and "1 \<le> d" and "n = month_first y m + d - 1" and "n \<le> month_end y m"
proof -
  have "ymd ((n - epoch_ordinal) * us_per_day) = (y, m, d)" using assms by (simp add: ymd_def)
  note b = ymd_bounds [OF this]
  show "1 \<le> m" "m \<le> 12" "1 \<le> d" by (rule b)+
  show "n = month_first y m + d - 1" "n \<le> month_end y m" using b(4,5) by (simp_all add: month_first_def month_end_def)
qed

lemma first_full_month_range:
  assumes "first_full_month d = (y, m)"
  shows "1 \<le> m" and "m \<le> 12"
proof -
  obtain y0 m0 d0 where o: "ord2ymd d = (y0, m0, d0)" by (metis prod_cases3)
  note m0 = ord2ymd_within(1,2) [OF o]
  have "m = snd (month_after y0 m0) \<or> m = m0" using assms by (auto simp: first_full_month_def o split: if_splits)
  then show "1 \<le> m" "m \<le> 12" using m0 month_after_range [OF m0, of y0] by auto
qed

lemma whole_month_iff: "d \<le> month_day i \<longleftrightarrow> full_month_number d \<le> i"
proof -
  obtain y m dd where o: "ord2ymd d = (y, m, dd)" by (metis prod_cases3)
  note w = ord2ymd_within [OF o]
  define j where "j = month_number y m"
  have d: "d = month_day j + dd - 1" "d < month_day (j + 1)"
    using w month_first_number [OF w(1,2), of y] month_end_number [OF w(1,2), of y] by (simp_all add: j_def)
  show ?thesis
  proof (cases "dd = 1")
    case True
    then have "full_month_number d = j" by (simp add: full_month_number_def first_full_month_def o j_def)
    then show ?thesis using d(1) True by simp
  next
    case False
    then have "full_month_number d = j + 1"
      by (simp add: full_month_number_def first_full_month_def o j_def month_number_after case_prod_beta)
    moreover have "d \<le> month_day i \<longleftrightarrow> j + 1 \<le> i"
      using d w(3) False month_day_le_iff [of i j] month_day_le_iff [of "j + 1" i] by linarith
    ultimately show ?thesis by simp
  qed
qed

section \<open>The loops return\<close>

lemma whole_months_eq: "whole_months s e = {i. full_month_number s \<le> i \<and> month_day (i + 1) \<le> e + 1}"
  by (simp add: whole_months_def whole_month_iff)

lemma finite_whole_months [simp]: "finite {i. a \<le> i \<and> month_day (i + 1) \<le> b}"
proof (rule finite_subset)
  show "{i. a \<le> i \<and> month_day (i + 1) \<le> b} \<subseteq> {a..a + (b - month_day a)}"
  proof
    fix i assume "i \<in> {i. a \<le> i \<and> month_day (i + 1) \<le> b}"
    then have i: "a \<le> i" "month_day (i + 1) \<le> b" by simp_all
    have "month_day a + (i + 1 - a) \<le> month_day (i + 1)" using month_day_add [of a "nat (i + 1 - a)"] i(1) by simp
    with i show "i \<in> {a..a + (b - month_day a)}" by simp
  qed
qed simp

lemma months_from_split:
  "{i. a \<le> i \<and> month_day (i + 1) \<le> b} =
     (if month_day (a + 1) \<le> b then insert a {i. a + 1 \<le> i \<and> month_day (i + 1) \<le> b} else {})"
proof -
  have "month_day (a + 1) \<le> b" if "a \<le> i" "month_day (i + 1) \<le> b" for i
    using that month_day_le_iff [of "a + 1" "i + 1"] by linarith
  moreover have "i = a \<or> a + 1 \<le> i" if "a \<le> i" for i using that by linarith
  ultimately show ?thesis by auto
qed

lemma completed_loop_returns:
  assumes "1 \<le> m" and "m \<le> 12" and "s \<le> month_first y m"
  shows "completed_loop s e y m c = ret (c + int (card {i. month_number y m \<le> i \<and> month_day (i + 1) \<le> e + 1}))"
  using assms
proof (induction "nat (e + 1 - month_first y m)" arbitrary: y m c rule: less_induct)
  case less
  let ?a = "month_number y m" and ?y = "fst (month_after y m)" and ?m = "snd (month_after y m)"
  have first: "month_first y m = month_day ?a" and last: "month_end y m + 1 = month_day (?a + 1)"
    using less.prems by (simp_all add: month_first_number month_end_number)
  have next_first: "month_first ?y ?m = month_day (?a + 1)" and r: "1 \<le> ?m" "?m \<le> 12"
    using first_of_next [OF less.prems(1,2)] last month_after_range [OF less.prems(1,2)] by simp_all
  note step = month_day_step [of ?a]
  show ?case
  proof (cases "e < month_end y m")
    case True
    then have "{i. ?a \<le> i \<and> month_day (i + 1) \<le> e + 1} = {}" using last by (subst months_from_split) simp
    then show ?thesis using True by (simp add: completed_loop.simps [of s e y m])
  next
    case False
    then have in_range: "month_day (?a + 1) \<le> e + 1" "\<not> e < month_first y m" using last first step by linarith+
    have "completed_loop s e ?y ?m (c + 1) =
        ret (c + 1 + int (card {i. month_number ?y ?m \<le> i \<and> month_day (i + 1) \<le> e + 1}))"
      using less.prems r next_first first step in_range by (intro less.hyps) linarith+
    moreover have "card {i. ?a \<le> i \<and> month_day (i + 1) \<le> e + 1} = Suc (card {i. ?a + 1 \<le> i \<and> month_day (i + 1) \<le> e + 1})"
      using in_range(1) by (subst months_from_split) simp
    ultimately show ?thesis
      using False in_range less.prems by (simp add: completed_loop.simps [of s e y m] month_number_after)
  qed
qed

lemma count_completed_returns:
  "count_completed_monthly_candles s e = ret (int (card (whole_months s e)))"
proof (cases "e < s")
  case True
  have "\<not> month_day (i + 1) \<le> e + 1" if "s \<le> month_day i" for i
    using that True month_day_step [of i] by linarith
  then have "whole_months s e = {}" by (auto simp: whole_months_def)
  then show ?thesis using True by (simp add: count_completed_monthly_candles_def)
next
  case False
  obtain y m where f: "first_full_month s = (y, m)" by force
  note r = first_full_month_range [OF f]
  have n: "full_month_number s = month_number y m" by (simp add: full_month_number_def f)
  have "s \<le> month_first y m" using whole_month_iff [of s "month_number y m"] n month_first_number [OF r] by simp
  then show ?thesis
    using False completed_loop_returns [OF r, of s y e 0] n
    by (simp add: count_completed_monthly_candles_def f whole_months_eq)
qed

lemma warmup_loop_returns:
  assumes "1 \<le> m" and "m \<le> 12" and "s \<le> month_first y m" and "c < bars"
  shows "warmup_loop s bars y m c = ret (month_day (month_number y m + (bars - c)))"
  using assms
proof (induction "nat (bars - c)" arbitrary: y m c rule: less_induct)
  case less
  let ?a = "month_number y m" and ?y = "fst (month_after y m)" and ?m = "snd (month_after y m)"
  have last: "month_end y m + 1 = month_day (?a + 1)" using less.prems by (simp add: month_end_number)
  have next_first: "month_first ?y ?m = month_day (?a + 1)" and r: "1 \<le> ?m" "?m \<le> 12"
    using first_of_next [OF less.prems(1,2)] last month_after_range [OF less.prems(1,2)] by simp_all
  show ?case
  proof (cases "c + 1 = bars")
    case True
    moreover from True have "bars - c = 1" by simp
    ultimately show ?thesis using less.prems last by (simp add: warmup_loop.simps [of s bars y m])
  next
    case False
    have "s \<le> month_first ?y ?m"
      using less.prems(3) next_first month_day_step [of ?a] month_first_number [OF less.prems(1,2), of y] by linarith
    then have "warmup_loop s bars ?y ?m (c + 1) = ret (month_day (month_number ?y ?m + (bars - (c + 1))))"
      using less.prems(4) False r by (intro less.hyps) linarith+
    moreover have "month_number ?y ?m + (bars - (c + 1)) = ?a + (bars - c)" by (simp add: month_number_after)
    ultimately show ?thesis using less.prems False by (simp add: warmup_loop.simps [of s bars y m])
  qed
qed

lemma earliest_eval_start_returns:
  assumes "1 \<le> bars"
  shows "earliest_eval_start_for_monthly_warmup s bars = ret (month_day (full_month_number s + bars))"
proof -
  obtain y m where f: "first_full_month s = (y, m)" by force
  note r = first_full_month_range [OF f]
  have n: "full_month_number s = month_number y m" by (simp add: full_month_number_def f)
  have "s \<le> month_first y m" using whole_month_iff [of s "month_number y m"] n month_first_number [OF r] by simp
  then show ?thesis
    using assms warmup_loop_returns [OF r, of s y 0 bars] n by (simp add: earliest_eval_start_for_monthly_warmup_def f)
qed

text \<open>A date has \<open>bars\<close> whole months of history exactly from the day that \<open>earliest_eval_start\<close> returns.\<close>

lemma whole_months_atLeast:
  assumes "1 \<le> bars"
  shows "bars \<le> int (card (whole_months s (d - 1))) \<longleftrightarrow> month_day (full_month_number s + bars) \<le> d"
proof -
  let ?a = "full_month_number s"
  show ?thesis
  proof (cases "month_day (?a + bars) \<le> d")
    case True
    have "{?a..<?a + bars} \<subseteq> whole_months s (d - 1)"
    proof
      fix i assume "i \<in> {?a..<?a + bars}"
      then have "?a \<le> i" "month_day (i + 1) \<le> month_day (?a + bars)" by simp_all
      moreover from this(2) True have "month_day (i + 1) \<le> d" by (rule order.trans)
      ultimately show "i \<in> whole_months s (d - 1)" by (simp add: whole_months_eq)
    qed
    from card_mono [OF _ this] have "nat bars \<le> card (whole_months s (d - 1))"
      unfolding whole_months_eq by simp
    then show ?thesis using True by linarith
  next
    case False
    have "whole_months s (d - 1) \<subseteq> {?a..<?a + bars - 1}"
    proof
      fix i assume "i \<in> whole_months s (d - 1)"
      then have i: "?a \<le> i" "month_day (i + 1) \<le> d" by (simp_all add: whole_months_eq)
      have "\<not> month_day (?a + bars) \<le> month_day (i + 1)" using False i(2) by linarith
      with i(1) show "i \<in> {?a..<?a + bars - 1}" by simp
    qed
    from card_mono [OF _ this] have "card (whole_months s (d - 1)) \<le> nat (bars - 1)" by simp
    then show ?thesis using False assms by linarith
  qed
qed

section \<open>The plan is total and correct\<close>

text \<open>The first day that may be evaluated.\<close>

definition first_eval_day :: "date \<Rightarrow> int \<Rightarrow> int option \<Rightarrow> date" where
  "first_eval_day s bars wd =
     (let earliest = month_day (full_month_number s + bars) in case wd of None \<Rightarrow> earliest | Some w \<Rightarrow> max earliest (s + w))"

text \<open>The folds as a specification: windows laid end to end from a day, each with the history before it.\<close>

fun tiling :: "date \<Rightarrow> int \<Rightarrow> nat \<Rightarrow> date \<Rightarrow> int list \<Rightarrow> walk_forward_fold list" where
  "tiling s emb i c [] = []"
| "tiling s emb i c (n # ns) =
     \<lparr>wf_fold_id = fold_name i, wf_feature_context_start = s, wf_feature_context_end = c - 1,
      wf_label_context_start = s, wf_label_context_end = c - emb - 1,
      wf_embargo_start = c - emb, wf_embargo_end = c - 1,
      wf_eval_start = c, wf_eval_end = c + n - 1\<rparr> # tiling s emb (Suc i) (c + n) ns"

lemma plan_fold_cases:
  assumes "1 \<le> bars" and "first_eval_day s bars wd \<le> c"
  shows "plan_fold s emb bars wd i c n =
    (if s + emb < c then ret (hd (tiling s emb i c [n]))
     else raise (ValueError (''fold '' @ nat_text (Suc i) @ '': embargo_days='' @ int_text emb @
            '' leaves no label context before eval; widen range or reduce embargo'')))"
proof -
  have "bars \<le> int (card (whole_months s (c - 1)))"
    using assms by (simp add: whole_months_atLeast first_eval_day_def Let_def split: option.splits)
  moreover have "\<not> c - 1 - s + 1 < w" if "wd = Some w" for w
    using assms(2) that by (simp add: first_eval_day_def Let_def)
  ultimately show ?thesis
    by (auto simp: plan_fold_def Let_def count_completed_returns split: option.splits)
qed

lemma plan_folds_tiling:
  assumes "1 \<le> bars" and "first_eval_day s bars wd \<le> c" and "s + emb < c" and "\<forall>n \<in> set ns. 1 \<le> n"
  shows "plan_folds s emb bars wd i c ns = ret (tiling s emb i c ns)"
  using assms(2-)
proof (induction ns arbitrary: i c)
  case (Cons n ns)
  then show ?case using plan_fold_cases [OF assms(1) Cons.prems(1)] by (simp add: algebra_simps)
qed simp

lemma fold_lengths_facts:
  assumes "1 \<le> n" and "n \<le> days"
  shows "length (fold_lengths days n) = nat n" and "\<forall>l \<in> set (fold_lengths days n). days div n \<le> l \<and> l \<le> days div n + 1"
    and "sum_list (fold_lengths days n) = days"
proof -
  show "length (fold_lengths days n) = nat n" by (simp add: fold_lengths_def Let_def)
  show "\<forall>l \<in> set (fold_lengths days n). days div n \<le> l \<and> l \<le> days div n + 1" by (auto simp: fold_lengths_def Let_def)
  have split: "sum_list (map (\<lambda>i. b + (if int i < r then 1 else 0)) [0..<k]) = int k * b + min (int k) r" if "0 \<le> r" for b r :: int and k
    using that by (induction k) (auto simp: algebra_simps)
  have "0 \<le> days mod n" "days mod n < n" using assms by simp_all
  then show "sum_list (fold_lengths days n) = days"
    using assms split [of "days mod n" "days div n" "nat n"] by (simp add: fold_lengths_def Let_def)
qed

text \<open>Windows laid end to end.\<close>

lemma length_tiling [simp]: "length (tiling s emb i c ns) = length ns"
  by (induction ns arbitrary: i c) simp_all

lemma tiling_nth:
  assumes "k < length ns"
  shows "tiling s emb i c ns ! k = hd (tiling s emb (i + k) (c + sum_list (take k ns)) [ns ! k])"
  using assms
proof (induction ns arbitrary: i c k)
  case (Cons n ns)
  then show ?case by (cases k) (simp_all add: algebra_simps)
qed simp

lemma plan_walk_forward_folds_cases:
  assumes "1 \<le> n" and "0 \<le> emb" and "1 \<le> bars" and "\<forall>w. wd = Some w \<longrightarrow> 1 \<le> w"
    and "first_eval_day s bars wd + n - 1 \<le> e" and "s + emb < first_eval_day s bars wd"
  shows "plan_walk_forward_folds s e n emb bars wd =
    ret (tiling s emb 0 (first_eval_day s bars wd) (fold_lengths (e - first_eval_day s bars wd + 1) n))"
proof -
  let ?f = "first_eval_day s bars wd"
  have f: "(case wd of None \<Rightarrow> month_day (full_month_number s + bars) | Some w \<Rightarrow> max (month_day (full_month_number s + bars)) (s + w)) = ?f"
    by (simp add: first_eval_day_def Let_def)
  have "\<forall>l \<in> set (fold_lengths (e - ?f + 1) n). 1 \<le> l"
  proof -
    have "1 \<le> (e - ?f + 1) div n" using assms(1,5) by (simp add: pos_imp_zdiv_pos_iff zdiv_mono1 int_one_le_iff_zero_less)
    then show ?thesis using fold_lengths_facts(2) [of n "e - ?f + 1"] assms(1,5) by fastforce
  qed
  from plan_folds_tiling [OF assms(3) order.refl assms(6) this] show ?thesis
    using assms by (auto simp: plan_walk_forward_folds_def Let_def earliest_eval_start_returns f split: option.splits)
qed

text \<open>Every other range is refused, with a message.\<close>

lemma plan_rejects:
  assumes "1 \<le> n" and "0 \<le> emb" and "1 \<le> bars" and "\<forall>w. wd = Some w \<longrightarrow> 1 \<le> w"
    and "\<not> (first_eval_day s bars wd + n - 1 \<le> e \<and> s + emb < first_eval_day s bars wd)"
  shows "\<exists>msg. plan_walk_forward_folds s e n emb bars wd = raise (ValueError msg)"
proof -
  let ?f = "first_eval_day s bars wd"
  have f: "(case wd of None \<Rightarrow> month_day (full_month_number s + bars) | Some w \<Rightarrow> max (month_day (full_month_number s + bars)) (s + w)) = ?f"
    by (simp add: first_eval_day_def Let_def)
  have w: "\<not> (case wd of None \<Rightarrow> False | Some w \<Rightarrow> w < 1)" using assms(4) by (cases wd) (simp_all add: not_less)
  show ?thesis
  proof (cases "?f + n - 1 \<le> e")
    case False
    then show ?thesis using assms(1-3) w
      by (auto simp: plan_walk_forward_folds_def Let_def earliest_eval_start_returns f)
  next
    case True
    then obtain l ls where l: "fold_lengths (e - ?f + 1) n = l # ls"
      using fold_lengths_facts(1) [of n "e - ?f + 1"] assms(1) by (cases "fold_lengths (e - ?f + 1) n") auto
    have "\<not> s + emb < ?f" using assms(5) True by simp
    then have "\<exists>msg. plan_folds s emb bars wd 0 ?f (fold_lengths (e - ?f + 1) n) = raise (ValueError msg)"
      using plan_fold_cases [OF assms(3) order.refl, where emb = emb and wd = wd] by (auto simp: l)
    then show ?thesis using True assms(1-3) w
      by (auto simp: plan_walk_forward_folds_def Let_def earliest_eval_start_returns f)
  qed
qed

lemma first_eval_day_least:
  assumes "1 \<le> bars"
  shows "first_eval_day s bars wd \<le> d \<longleftrightarrow>
    bars \<le> int (card (whole_months s (d - 1))) \<and> (\<forall>w. wd = Some w \<longrightarrow> s + w \<le> d)"
  using assms by (simp add: first_eval_day_def Let_def whole_months_atLeast split: option.splits)

text \<open>The windows cover the evaluable days once, and no fold sees a day of its own window or of a later one.\<close>

definition covered_days :: "walk_forward_fold list \<Rightarrow> date list" where
  "covered_days folds = concat (map (\<lambda>f. [wf_eval_start f..wf_eval_end f]) folds)"

lemma covered_tiling:
  assumes "\<forall>n \<in> set ns. 1 \<le> n"
  shows "covered_days (tiling s emb i c ns) = [c..c + sum_list ns - 1]"
  using assms
proof (induction ns arbitrary: i c)
  case (Cons n ns)
  have "0 \<le> sum_list ns" using Cons.prems by (auto intro!: sum_list_nonneg)
  then have "[c..c + n - 1] @ [c + n..c + n + sum_list ns - 1] = [c..c + n + sum_list ns - 1]"
    using Cons.prems upto_split1 [of c "c + n" "c + n + sum_list ns - 1"] by (cases "sum_list ns = 0") simp_all
  then show ?case using Cons by (simp add: covered_days_def algebra_simps)
qed (simp add: covered_days_def)

definition fold_ok :: "date \<Rightarrow> int \<Rightarrow> int \<Rightarrow> walk_forward_fold \<Rightarrow> bool" where
  "fold_ok s emb bars f \<longleftrightarrow>
     wf_eval_start f \<le> wf_eval_end f \<and>
     wf_feature_context_start f = s \<and> wf_feature_context_end f = wf_eval_start f - 1 \<and>
     wf_label_context_start f = s \<and> s \<le> wf_label_context_end f \<and>
     wf_label_context_end f = wf_eval_start f - 1 - emb \<and>
     bars \<le> int (card (whole_months s (wf_feature_context_end f)))"

lemma tiling_ok:
  assumes "1 \<le> bars" and "month_day (full_month_number s + bars) \<le> c" and "s + emb < c" and "\<forall>n \<in> set ns. 1 \<le> n"
  shows "\<forall>f \<in> set (tiling s emb i c ns). fold_ok s emb bars f"
  using assms(2-)
proof (induction ns arbitrary: i c)
  case (Cons n ns)
  then have "\<forall>f \<in> set (tiling s emb (Suc i) (c + n) ns). fold_ok s emb bars f" by (intro Cons.IH) auto
  moreover have "fold_ok s emb bars (hd (tiling s emb i c [n]))"
    using Cons.prems whole_months_atLeast [OF assms(1), of s c] by (simp add: fold_ok_def)
  ultimately show ?case by simp
qed simp

lemma plan_tiles:
  assumes "1 \<le> n" and "0 \<le> emb" and "1 \<le> bars" and "\<forall>w. wd = Some w \<longrightarrow> 1 \<le> w"
    and "first_eval_day s bars wd + n - 1 \<le> e" and "s + emb < first_eval_day s bars wd"
  shows "\<exists>folds. plan_walk_forward_folds s e n emb bars wd = ret folds \<and> int (length folds) = n \<and>
    covered_days folds = [first_eval_day s bars wd..e] \<and> (\<forall>f \<in> set folds. fold_ok s emb bars f)"
proof -
  let ?f = "first_eval_day s bars wd"
  let ?ls = "fold_lengths (e - ?f + 1) n"
  have days: "n \<le> e - ?f + 1" using assms(5) by simp
  note ls = fold_lengths_facts [OF assms(1) days]
  have "n div n \<le> (e - ?f + 1) div n" using days assms(1) by (intro zdiv_mono1) simp_all
  then have pos: "\<forall>l \<in> set ?ls. 1 \<le> l" using ls(2) assms(1) by fastforce
  have "month_day (full_month_number s + bars) \<le> ?f" by (simp add: first_eval_day_def Let_def split: option.splits)
  from tiling_ok [OF assms(3) this assms(6) pos] have "\<forall>f \<in> set (tiling s emb 0 ?f ?ls). fold_ok s emb bars f" .
  moreover have "covered_days (tiling s emb 0 ?f ?ls) = [?f..e]" using covered_tiling [OF pos] ls(3) by simp
  ultimately show ?thesis
    using plan_walk_forward_folds_cases [OF assms] ls(1) assms(1) by simp
qed

end
