(* ===== verification/Research_Examples.thy ===== *)
theory Research_Examples
  imports Research_Jobs Walk_Forward
begin

text \<open>
  Concrete runs of the research components: a job from its creation to its end, and a walk-forward plan.
\<close>

section \<open>A job\<close>

definition sample_job :: stored_job where
  "sample_job = \<lparr>jb_id = ''exp-1'', jb_status = JS_CREATED, jb_created_at = 0, jb_updated_at = 0, jb_started_at = None,
     jb_finished_at = None, jb_error = None, jb_error_detail = None, jb_dataset_catalog_id = None, jb_worker_id = None,
     jb_lease_id = None, jb_lease_expires_at = None\<rparr>"

definition sample_clock :: clock where
  "sample_clock n = int n"

definition complete_sample :: "stored_job \<Rightarrow> stored_job" where
  "complete_sample job = job\<lparr>jb_status := JS_COMPLETED, jb_finished_at := Some 9\<rparr>"

definition sample_running :: stored_job where
  "sample_running = (to_queued 1 sample_job)\<lparr>jb_status := JS_RUNNING, jb_worker_id := Some ''w'', jb_lease_id := Some ''lease'',
     jb_lease_expires_at := Some (2 + seconds 60), jb_started_at := Some 1, jb_updated_at := 1\<rparr>"

definition sample_acts :: "job_action list" where
  "sample_acts = [Created ''exp-1'', Queued ''exp-1'', Claimed ''exp-1'' ''w'' ''lease'']"

lemma sample_created: "job_step [] (Created ''exp-1'') [(''exp-1'', sample_job)]"
  using job_step.create [of "[]" sample_job] by (simp add: sample_job_def save_job_def)

lemma sample_queued: "job_step [(''exp-1'', sample_job)] (Queued ''exp-1'') [(''exp-1'', to_queued 1 sample_job)]"
  by (rule job_step.start [where t = 1]) (simp add: compare_and_set_def sample_job_def)

lemma sample_claimed:
  "job_step [(''exp-1'', to_queued 1 sample_job)] (Claimed ''exp-1'' ''w'' ''lease'') [(''exp-1'', sample_running)]"
  by (rule job_step.claim [where free = True and clk = sample_clock and n = 60 and job = sample_running])
     (simp add: claim_def Let_def with_file_lock_def sample_job_def to_queued_def sample_running_def sample_clock_def future_iso_def)

lemma sample_finished:
  "job_step [(''exp-1'', sample_running)] (Finished ''exp-1'' ''w'' ''lease'') [(''exp-1'', complete_sample sample_running)]"
  by (rule job_step.finish [where free = True and clk = sample_clock and mutate = complete_sample and job = "complete_sample sample_running"])
     (simp_all add: finish_def with_file_lock_def sample_job_def to_queued_def sample_running_def sample_clock_def
        complete_sample_def TerminalStatus_def lease_expired_def seconds_def us_per_second_def)

lemma sample_trace: "job_trace [] sample_acts [(''exp-1'', sample_running)]"
proof -
  have "job_trace [] [Created ''exp-1''] [(''exp-1'', sample_job)]"
    using job_trace.step [OF job_trace.empty sample_created] by simp
  from job_trace.step [OF job_trace.step [OF this sample_queued] sample_claimed] show ?thesis by (simp add: sample_acts_def)
qed

lemma sample_trace_finished:
  "job_trace [] (sample_acts @ [Finished ''exp-1'' ''w'' ''lease'']) [(''exp-1'', complete_sample sample_running)]"
  using sample_trace sample_finished by (rule job_trace.step)

end
