(* ===== verification/Research_Registry.thy ===== *)
theory Research_Registry
  imports Py_Dict Datetime "HOL-Library.Sublist" "HOL-Library.Char_ord" "HOL-Library.List_Lexorder"
begin

text \<open>
  The registry of the research runs (\<open>services/research/registry.py\<close>) over the artifacts of the runs
  (\<open>services/research/artifacts.py\<close>). The log is the list of the records of its lines, in the order they were
  appended; a directory is the dictionary of its files, by their relative names; the digest of a content is
  an argument \<open>sha256\<close>, and so is the reading of a stored \<open>checksums.json\<close>.
\<close>

section \<open>Artifacts\<close>

type_synonym files = "(string, string) dict"
type_synonym checksums = "(string, string) dict"
type_synonym digest = "string \<Rightarrow> string"

definition checksums_file :: string where
  "checksums_file = ''checksums.json''"

text \<open>\<open>path.name\<close>: what follows the last separator.\<close>

definition base_name :: "string \<Rightarrow> string" where
  "base_name rel = rev (takeWhile (\<lambda>ch. ch \<noteq> CHR ''/'') (rev rel))"

definition checksums_for_dir :: "digest \<Rightarrow> files \<Rightarrow> checksums" where
  "checksums_for_dir sha256 directory =
     map (\<lambda>(rel, content). (rel, sha256 content)) (filter (\<lambda>(rel, _). base_name rel \<noteq> checksums_file) directory)"

definition compute_artifact_checksums :: "digest \<Rightarrow> files \<Rightarrow> checksums" where
  "compute_artifact_checksums = checksums_for_dir"

text \<open>The equality of dictionaries does not look at their order.\<close>

definition dict_eq :: "('k, 'v) dict \<Rightarrow> ('k, 'v) dict \<Rightarrow> bool" where
  "dict_eq d d' \<longleftrightarrow> list_all (\<lambda>(k, _). dict_get d k = dict_get d' k) (d @ d')"

primrec verify_expected :: "digest \<Rightarrow> files \<Rightarrow> (string \<times> string) list \<Rightarrow> unit comp" where
  "verify_expected sha256 run_dir [] = ret ()"
| "verify_expected sha256 run_dir (e # es) =
     (case dict_get run_dir (fst e) of
        None \<Rightarrow> raise (FileNotFoundError (''missing artifact '' @ fst e))
      | Some content \<Rightarrow>
          if sha256 content \<noteq> snd e
          then raise (ValueError (''checksum mismatch for '' @ fst e @ '' (trusted snapshot)''))
          else verify_expected sha256 run_dir es)"

definition verify_checksums_against :: "digest \<Rightarrow> files \<Rightarrow> checksums \<Rightarrow> unit comp" where
  "verify_checksums_against sha256 run_dir expected =
     (if list_ex (\<lambda>(rel, _). rel \<noteq> checksums_file \<and> dict_get expected rel = None) run_dir
      then raise (ValueError ''unexpected artifacts not in trusted checksums'')
      else verify_expected sha256 run_dir (sort_key fst expected))"

section \<open>The log and the sidecars\<close>

datatype run_status = RUN_COMPLETE | RUN_FAILED | RUN_INVALIDATED

record registry_entry =
  re_experiment_id :: string
  re_run_id :: string
  re_attempt_id :: string
  re_status :: run_status
  re_strategy_version :: string
  re_dataset_version :: string
  re_cost_model_version :: string
  re_benchmark_ref :: string
  re_created_at :: datetime
  re_artifact_path :: string
  re_checksums :: checksums

text \<open>
  A sidecar as it is read: a file that cannot be read, or its lines. A line that is a JSON object has the
  texts of its \<open>status\<close> and of its identifier.
\<close>

datatype sidecar_line = BlankLine | BadLine | NoObject | SidecarRecord string string
datatype sidecar_file = Unreadable | SidecarLines "sidecar_line list"

type_synonym sidecars = "(string, sidecar_file) dict"

fun scan_sidecar :: "string \<Rightarrow> sidecar_line list \<Rightarrow> bool" where
  "scan_sidecar ident [] = True"
| "scan_sidecar ident (BlankLine # ls) = scan_sidecar ident ls"
| "scan_sidecar ident (BadLine # ls) = True"
| "scan_sidecar ident (NoObject # ls) = True"
| "scan_sidecar ident (SidecarRecord status i # ls) =
     (if status = ''invalidated'' then True else if i = ident then True else scan_sidecar ident ls)"

definition sidecar_marks_invalidated :: "sidecars \<Rightarrow> string \<Rightarrow> bool" where
  "sidecar_marks_invalidated sidecars ident =
     (case dict_get sidecars ident of
        None \<Rightarrow> False
      | Some Unreadable \<Rightarrow> True
      | Some (SidecarLines ls) \<Rightarrow> if list_all (\<lambda>l. l = BlankLine) ls then True else scan_sidecar ident ls)"

text \<open>A record is appended to the file of its identifier, which is made where it is missing.\<close>

definition append_sidecar :: "string \<Rightarrow> sidecars \<Rightarrow> sidecars" where
  "append_sidecar ident sidecars =
     (let line = SidecarRecord ''invalidated'' ident
      in dict_put ident (case dict_get sidecars ident of
           Some (SidecarLines ls) \<Rightarrow> SidecarLines (ls @ [line])
         | Some Unreadable \<Rightarrow> Unreadable
         | None \<Rightarrow> SidecarLines [line]) sidecars)"

record registry =
  rg_log :: "registry_entry list"
  rg_sidecars :: sidecars
  rg_dirs :: "(string, files) dict"

text \<open>The files of a directory; a missing one has none.\<close>

definition files_at :: "registry \<Rightarrow> string \<Rightarrow> files" where
  "files_at r path = (case dict_get (rg_dirs r) path of None \<Rightarrow> [] | Some fs \<Rightarrow> fs)"

definition append_entry :: "registry_entry \<Rightarrow> registry \<Rightarrow> registry comp" where
  "append_entry e r =
     (if re_run_id e \<noteq> '''' \<and> re_status e \<noteq> RUN_INVALIDATED \<and> sidecar_marks_invalidated (rg_sidecars r) (re_run_id e)
      then raise (ValueError (''run_id invalidated - reactivation forbidden: '' @ re_run_id e))
      else ret (r\<lparr>rg_log := rg_log r @ [e]\<rparr>))"

definition apply_sidecar :: "sidecars \<Rightarrow> registry_entry \<Rightarrow> registry_entry" where
  "apply_sidecar sidecars e =
     (if sidecar_marks_invalidated sidecars (re_run_id e) then e\<lparr>re_status := RUN_INVALIDATED\<rparr> else e)"

definition list_entries :: "registry \<Rightarrow> registry_entry list" where
  "list_entries r = map (apply_sidecar (rg_sidecars r)) (rg_log r)"

section \<open>Operations\<close>

definition register_complete ::
  "digest \<Rightarrow> (string \<Rightarrow> checksums comp) \<Rightarrow> datetime \<Rightarrow> registry_entry \<Rightarrow> registry \<Rightarrow> registry comp" where
  "register_complete sha256 parse_checksums t e r =
     (if sidecar_marks_invalidated (rg_sidecars r) (re_run_id e)
      then raise (ValueError (''run_id invalidated - reactivation forbidden: '' @ re_run_id e))
      else if list_ex (\<lambda>x. re_run_id x = re_run_id e \<and> re_status x = RUN_COMPLETE) (list_entries r)
      then raise (ValueError (''duplicate complete run_id forbidden: '' @ re_run_id e))
      else
      let path = files_at r (re_artifact_path e);
          on_disk = compute_artifact_checksums sha256 path
      in if \<not> dict_eq (re_checksums e) on_disk
         then raise (ValueError ''provided checksums do not match finalized artifact set'')
         else
         cbind (case dict_get path checksums_file of
                  None \<Rightarrow> ret ()
                | Some content \<Rightarrow>
                    cbind (parse_checksums content) (\<lambda>seal.
                    if \<not> dict_eq seal on_disk then raise (ValueError ''checksums.json seal disagrees with artifact files'') else ret ())) (\<lambda>_.
         cbind (verify_checksums_against sha256 path (re_checksums e)) (\<lambda>_.
         append_entry (e\<lparr>re_status := RUN_COMPLETE, re_created_at := t\<rparr>) r)))"

definition verify_entry_artifacts :: "digest \<Rightarrow> registry \<Rightarrow> registry_entry \<Rightarrow> unit comp" where
  "verify_entry_artifacts sha256 r e =
     (case dict_get (rg_dirs r) (re_artifact_path e) of
        None \<Rightarrow> raise (FileNotFoundError (''missing or deleted artifacts for '' @ re_run_id e))
      | Some path \<Rightarrow>
          if re_checksums e = [] then raise (ValueError (''registry entry for '' @ re_run_id e @ '' has empty trusted checksums''))
          else verify_checksums_against sha256 path (re_checksums e))"

text \<open>\<open>show\<close> is a command of the proof language.\<close>

definition show_run :: "digest \<Rightarrow> registry \<Rightarrow> string \<Rightarrow> bool \<Rightarrow> registry_entry comp" where
  "show_run sha256 r run_id verify =
     (case find (\<lambda>e. re_run_id e = run_id) (rev (list_entries r)) of
        None \<Rightarrow> raise KeyError
      | Some e \<Rightarrow>
          if verify \<and> re_status e = RUN_COMPLETE
          then cbind (verify_entry_artifacts sha256 r e) (\<lambda>_. ret e)
          else ret e)"

definition invalidate :: "digest \<Rightarrow> datetime \<Rightarrow> string \<Rightarrow> registry \<Rightarrow> registry comp" where
  "invalidate sha256 t run_id r =
     cbind (show_run sha256 r run_id False) (\<lambda>e.
     if re_status e = RUN_INVALIDATED then raise (ValueError (''run already invalidated: '' @ run_id))
     else append_entry (e\<lparr>re_status := RUN_INVALIDATED, re_created_at := t\<rparr>)
            (r\<lparr>rg_sidecars := append_sidecar run_id (rg_sidecars r)\<rparr>))"

text \<open>
  A comparison of two runs; the semantic fields of their specifications and manifests are those the
  artifacts hold, read by \<open>load_spec\<close> and \<open>load_manifest\<close> (or the text of an error). \<open>None\<close> in a difference is a
  missing field.
\<close>

type_synonym field_diff = "string \<times> string option \<times> string option"

record run_comparison =
  cmp_compatible :: bool
  cmp_a :: registry_entry
  cmp_b :: registry_entry
  cmp_diffs :: "field_diff list"

fun run_status_value :: "run_status \<Rightarrow> string" where
  "run_status_value RUN_COMPLETE = ''complete''"
| "run_status_value RUN_FAILED = ''failed''"
| "run_status_value RUN_INVALIDATED = ''invalidated''"

definition note_diff :: "string \<Rightarrow> string option \<Rightarrow> string option \<Rightarrow> field_diff list" where
  "note_diff key left right = (if left \<noteq> right then [(key, left, right)] else [])"

definition note_all :: "string \<Rightarrow> (string, string) dict \<Rightarrow> (string, string) dict \<Rightarrow> field_diff list" where
  "note_all label a b =
     concat (map (\<lambda>key. note_diff (label @ key) (dict_get a key) (dict_get b key))
       (sort (remdups (dict_keys a @ dict_keys b))))"

primrec first_error :: "(string + 'a) list \<Rightarrow> string option" where
  "first_error [] = None"
| "first_error (x # xs) = (case x of Inl text \<Rightarrow> Some text | Inr _ \<Rightarrow> first_error xs)"

definition loaded :: "string + (string, string) dict \<Rightarrow> (string, string) dict" where
  "loaded x = (case x of Inl _ \<Rightarrow> [] | Inr d \<Rightarrow> d)"

definition compare_runs ::
  "digest \<Rightarrow> (files \<Rightarrow> string + (string, string) dict) \<Rightarrow> (files \<Rightarrow> string + (string, string) dict) \<Rightarrow> registry \<Rightarrow> string \<Rightarrow> string \<Rightarrow>
   run_comparison comp" where
  "compare_runs sha256 load_spec load_manifest r run_a run_b =
     cbind (show_run sha256 r run_a True) (\<lambda>a.
     cbind (show_run sha256 r run_b True) (\<lambda>b.
     let fs_a = files_at r (re_artifact_path a); fs_b = files_at r (re_artifact_path b)
     in case first_error [load_spec fs_a, load_spec fs_b, load_manifest fs_a, load_manifest fs_b] of
          Some text \<Rightarrow> ret \<lparr>cmp_compatible = False, cmp_a = a, cmp_b = b, cmp_diffs = [(''artifact_load_error'', Some text, None)]\<rparr>
        | None \<Rightarrow>
            let diffs = note_diff ''status'' (Some (run_status_value (re_status a))) (Some (run_status_value (re_status b))) @
                  note_diff ''strategy_version'' (Some (re_strategy_version a)) (Some (re_strategy_version b)) @
                  note_diff ''dataset_version'' (Some (re_dataset_version a)) (Some (re_dataset_version b)) @
                  note_diff ''cost_model_version'' (Some (re_cost_model_version a)) (Some (re_cost_model_version b)) @
                  note_diff ''benchmark_ref'' (Some (re_benchmark_ref a)) (Some (re_benchmark_ref b)) @
                  note_all ''spec.'' (loaded (load_spec fs_a)) (loaded (load_spec fs_b)) @
                  note_all ''manifest.'' (loaded (load_manifest fs_a)) (loaded (load_manifest fs_b))
            in ret \<lparr>cmp_compatible = re_status a = RUN_COMPLETE \<and> re_status b = RUN_COMPLETE \<and> diffs = [], cmp_a = a, cmp_b = b,
                    cmp_diffs = diffs\<rparr>))"

section \<open>Invalidation logs\<close>

text \<open>
  What the registry and the store of the gate results share: a log that only grows, marks that stay, and
  active records that are appended only for an identifier without a mark and without an active record.
\<close>

locale invalidation_log =
  fixes log_of :: "'s \<Rightarrow> 'e list" and ident :: "'e \<Rightarrow> string" and active :: "'e \<Rightarrow> bool"
    and marked :: "'s \<Rightarrow> string \<Rightarrow> bool" and step :: "'s \<Rightarrow> 's \<Rightarrow> bool"
  assumes marks_stay: "step s s' \<Longrightarrow> marked s i \<Longrightarrow> marked s' i"
    and appends: "step s s' \<Longrightarrow> log_of s' = log_of s \<or>
      (\<exists>e. log_of s' = log_of s @ [e] \<and>
         (active e \<longrightarrow> \<not> marked s (ident e) \<and> (\<forall>x \<in> set (log_of s). ident x = ident e \<longrightarrow> \<not> active x)))"
begin

definition actives :: "'s \<Rightarrow> string \<Rightarrow> 'e list" where
  "actives s i = filter (\<lambda>e. ident e = i \<and> active e) (log_of s)"

lemma step_actives: "step s s' \<Longrightarrow> marked s i \<Longrightarrow> actives s' i = actives s i"
  using appends [of s s'] by (auto simp: actives_def)

lemma step_one_active: "step s s' \<Longrightarrow> length (actives s i) \<le> 1 \<Longrightarrow> length (actives s' i) \<le> 1"
  using appends [of s s'] by (auto simp: actives_def filter_empty_conv)

lemma marked_final:
  assumes "step\<^sup>*\<^sup>* s s'" and "marked s i"
  shows "marked s' i \<and> actives s' i = actives s i"
  using assms by (induction rule: rtranclp_induct) (auto simp: step_actives intro: marks_stay)

lemma one_active: "step\<^sup>*\<^sup>* s s' \<Longrightarrow> length (actives s i) \<le> 1 \<Longrightarrow> length (actives s' i) \<le> 1"
proof (induction rule: rtranclp_induct)
  case (step a b)
  then show ?case using step_one_active by blast
qed

lemma append_only: "step\<^sup>*\<^sup>* s s' \<Longrightarrow> prefix (log_of s) (log_of s')"
proof (induction rule: rtranclp_induct)
  case (step a b)
  have "prefix (log_of a) (log_of b)" using appends [OF step.hyps(2)] by auto
  with step.IH show ?case by (rule prefix_order.trans)
qed simp

end

section \<open>Sidecars and seals\<close>

lemma scan_sidecar_True [simp]: "scan_sidecar ident ls"
  by (induction ident ls rule: scan_sidecar.induct) auto

lemma sidecar_marks_iff: "sidecar_marks_invalidated sidecars i \<longleftrightarrow> dict_get sidecars i \<noteq> None"
  by (auto simp: sidecar_marks_invalidated_def split: option.splits sidecar_file.splits)

lemma marks_append [simp]:
  "sidecar_marks_invalidated (append_sidecar k sidecars) i \<longleftrightarrow> i = k \<or> sidecar_marks_invalidated sidecars i"
  by (simp add: sidecar_marks_iff append_sidecar_def Let_def)

lemma verify_expected_iff:
  "verify_expected sha256 d es = ret () \<longleftrightarrow> (\<forall>(rel, digest) \<in> set es. \<exists>content. dict_get d rel = Some content \<and> sha256 content = digest)"
  by (induction es) (auto split: option.splits)

text \<open>A directory passes the check exactly when its files are those of the snapshot, with its digests.\<close>

lemma verify_checksums_iff:
  "verify_checksums_against sha256 d expected = ret () \<longleftrightarrow>
    (\<forall>rel \<in> set (dict_keys d). rel = checksums_file \<or> rel \<in> set (dict_keys expected)) \<and>
    (\<forall>(rel, digest) \<in> set expected. \<exists>content. dict_get d rel = Some content \<and> sha256 content = digest)"
proof -
  have "list_ex (\<lambda>(rel, _). rel \<noteq> checksums_file \<and> dict_get expected rel = None) d \<longleftrightarrow>
      (\<exists>rel \<in> set (dict_keys d). rel \<noteq> checksums_file \<and> rel \<notin> set (dict_keys expected))"
    by (simp add: list_ex_iff get_None_iff dict_keys_def case_prod_beta)
  then show ?thesis unfolding verify_checksums_against_def by (simp add: verify_expected_iff)
qed

lemma find_mem: "find P xs = Some x \<Longrightarrow> x \<in> set xs \<and> P x"
  by (induction xs) (auto split: if_splits)

lemma show_run_verified:
  assumes "show_run sha256 r run_id True = ret e"
  shows "re_run_id e = run_id" and "e \<in> set (list_entries r)"
    and "re_status e = RUN_COMPLETE \<Longrightarrow> \<exists>d. dict_get (rg_dirs r) (re_artifact_path e) = Some d \<and> re_checksums e \<noteq> [] \<and>
      verify_checksums_against sha256 d (re_checksums e) = ret ()"
proof -
  obtain x where x: "find (\<lambda>e. re_run_id e = run_id) (rev (list_entries r)) = Some x"
    "(if re_status x = RUN_COMPLETE then cbind (verify_entry_artifacts sha256 r x) (\<lambda>_. ret x) else ret x) = ret e"
    using assms by (auto simp: show_run_def split: option.splits)
  then have e: "x = e" by (auto simp: cbind_eq_ret split: if_splits)
  from find_mem [OF x(1)] have "re_run_id x = run_id" "x \<in> set (list_entries r)" by simp_all
  then show "re_run_id e = run_id" "e \<in> set (list_entries r)" by (simp_all add: e)
  show "\<exists>d. dict_get (rg_dirs r) (re_artifact_path e) = Some d \<and> re_checksums e \<noteq> [] \<and>
      verify_checksums_against sha256 d (re_checksums e) = ret ()" if "re_status e = RUN_COMPLETE"
    using x(2) that by (auto simp: e cbind_eq_ret verify_entry_artifacts_def split: option.splits if_splits)
qed

text \<open>Whatever the log says, a run with a sidecar is never shown as complete.\<close>

lemma marked_never_complete:
  assumes "sidecar_marks_invalidated (rg_sidecars r) run_id" and "show_run sha256 r run_id verify = ret e"
  shows "re_status e = RUN_INVALIDATED"
proof -
  have "find (\<lambda>e. re_run_id e = run_id) (rev (list_entries r)) = Some e"
    using assms(2) by (auto simp: show_run_def cbind_eq_ret split: option.splits if_splits)
  from find_mem [OF this] have "re_run_id e = run_id" "e \<in> set (list_entries r)" by simp_all
  then show ?thesis using assms(1) by (auto simp: list_entries_def apply_sidecar_def split: if_splits)
qed

section \<open>Histories of the registry\<close>

text \<open>
  The steps: a registration, an invalidation, an invalidation that stops between its two writes, and any
  change of the artifacts.
\<close>

inductive registry_step :: "digest \<Rightarrow> registry \<Rightarrow> registry \<Rightarrow> bool" for sha256 :: digest where
  register: "register_complete sha256 parse_checksums t e r = ret r' \<Longrightarrow> registry_step sha256 r r'"
| invalidated: "invalidate sha256 t run_id r = ret r' \<Longrightarrow> registry_step sha256 r r'"
| interrupted: "registry_step sha256 r (r\<lparr>rg_sidecars := append_sidecar run_id (rg_sidecars r)\<rparr>)"
| artifacts: "registry_step sha256 r (r\<lparr>rg_dirs := dirs\<rparr>)"

lemma append_entry_ret: "append_entry e r = ret r' \<Longrightarrow> r' = r\<lparr>rg_log := rg_log r @ [e]\<rparr>"
  by (auto simp: append_entry_def split: if_splits)

lemma register_ret:
  assumes "register_complete sha256 parse_checksums t e r = ret r'"
  shows "r' = r\<lparr>rg_log := rg_log r @ [e\<lparr>re_status := RUN_COMPLETE, re_created_at := t\<rparr>]\<rparr>"
    and "\<not> sidecar_marks_invalidated (rg_sidecars r) (re_run_id e)"
    and "\<forall>x \<in> set (rg_log r). re_run_id x = re_run_id e \<longrightarrow> re_status x \<noteq> RUN_COMPLETE"
    and "verify_checksums_against sha256 (files_at r (re_artifact_path e)) (re_checksums e) = ret ()"
proof -
  have facts: "append_entry (e\<lparr>re_status := RUN_COMPLETE, re_created_at := t\<rparr>) r = ret r'"
    "\<not> sidecar_marks_invalidated (rg_sidecars r) (re_run_id e)"
    "\<not> list_ex (\<lambda>x. re_run_id x = re_run_id e \<and> re_status x = RUN_COMPLETE) (list_entries r)"
    "verify_checksums_against sha256 (files_at r (re_artifact_path e)) (re_checksums e) = ret ()"
    using assms unfolding register_complete_def Let_def by (auto simp: cbind_eq_ret split: if_splits)
  then show "r' = r\<lparr>rg_log := rg_log r @ [e\<lparr>re_status := RUN_COMPLETE, re_created_at := t\<rparr>]\<rparr>"
    "\<not> sidecar_marks_invalidated (rg_sidecars r) (re_run_id e)"
    "verify_checksums_against sha256 (files_at r (re_artifact_path e)) (re_checksums e) = ret ()"
    using append_entry_ret by blast+
  show "\<forall>x \<in> set (rg_log r). re_run_id x = re_run_id e \<longrightarrow> re_status x \<noteq> RUN_COMPLETE"
    using facts(2,3) by (auto simp: list_ex_iff list_entries_def apply_sidecar_def split: if_splits)
qed

lemma invalidate_ret:
  assumes "invalidate sha256 t run_id r = ret r'"
  obtains e where "re_run_id e = run_id" "re_status e = RUN_INVALIDATED"
    "r' = r\<lparr>rg_sidecars := append_sidecar run_id (rg_sidecars r), rg_log := rg_log r @ [e]\<rparr>"
proof -
  obtain e where e: "show_run sha256 r run_id False = ret e"
    "append_entry (e\<lparr>re_status := RUN_INVALIDATED, re_created_at := t\<rparr>) (r\<lparr>rg_sidecars := append_sidecar run_id (rg_sidecars r)\<rparr>) = ret r'"
    using assms by (auto simp: invalidate_def cbind_eq_ret split: if_splits)
  have "re_run_id e = run_id" using e(1) by (auto simp: show_run_def split: option.splits dest: find_mem)
  then show ?thesis using append_entry_ret [OF e(2)] that [of "e\<lparr>re_status := RUN_INVALIDATED, re_created_at := t\<rparr>"] by simp
qed

interpretation runs_log: invalidation_log rg_log re_run_id "\<lambda>e. re_status e = RUN_COMPLETE"
    "\<lambda>r. sidecar_marks_invalidated (rg_sidecars r)" "registry_step sha256" for sha256
proof
  fix r r' i
  assume "registry_step sha256 r r'" "sidecar_marks_invalidated (rg_sidecars r) i"
  then show "sidecar_marks_invalidated (rg_sidecars r') i"
    by cases (auto dest: register_ret(1) elim!: invalidate_ret)
next
  fix r r'
  assume "registry_step sha256 r r'"
  then show "rg_log r' = rg_log r \<or> (\<exists>e. rg_log r' = rg_log r @ [e] \<and>
      (re_status e = RUN_COMPLETE \<longrightarrow> \<not> sidecar_marks_invalidated (rg_sidecars r) (re_run_id e) \<and>
        (\<forall>x \<in> set (rg_log r). re_run_id x = re_run_id e \<longrightarrow> re_status x \<noteq> RUN_COMPLETE)))"
  proof cases
    case (register parse_checksums t e)
    from register_ret [OF register] show ?thesis by simp
  next
    case (invalidated t run_id)
    from invalidate_ret [OF invalidated] obtain e where "re_status e = RUN_INVALIDATED"
      "r' = r\<lparr>rg_sidecars := append_sidecar run_id (rg_sidecars r), rg_log := rg_log r @ [e]\<rparr>" .
    then show ?thesis by simp
  qed auto
qed

end
