(* ===== verification/Research_Values.thy ===== *)
theory Research_Values
  imports Decimal Py_Dict "HOL-Library.Char_ord" "HOL-Library.List_Lexorder"
begin

text \<open>
  The values the research services read from JSON documents, the texts they strip and the numbers they read
  from texts. A number is the decimal it is printed as; infinities and NaN do not occur.
\<close>

section \<open>Texts\<close>

definition is_space :: "char \<Rightarrow> bool" where
  "is_space ch \<longleftrightarrow> ch \<in> {CHR '' '', CHR 0x09, CHR 0x0A, CHR 0x0B, CHR 0x0C, CHR 0x0D}"

definition strip :: "string \<Rightarrow> string" where
  "strip s = rev (dropWhile is_space (rev (dropWhile is_space s)))"

definition lower_char :: "char \<Rightarrow> char" where
  "lower_char ch = (let n = of_char ch :: nat in if 65 \<le> n \<and> n \<le> 90 then char_of (n + 32) else ch)"

definition lower :: "string \<Rightarrow> string" where
  "lower = map lower_char"

definition starts_with :: "string \<Rightarrow> string \<Rightarrow> bool" where
  "starts_with s p \<longleftrightarrow> take (length p) s = p"

definition ends_with :: "string \<Rightarrow> string \<Rightarrow> bool" where
  "ends_with s p \<longleftrightarrow> starts_with (rev s) (rev p)"

text \<open>\<open>s.split(sep)\<close>\<close>

fun split_on :: "char \<Rightarrow> string \<Rightarrow> string list" where
  "split_on sep [] = [[]]"
| "split_on sep (ch # s) =
     (if ch = sep then [] # split_on sep s
      else case split_on sep s of [] \<Rightarrow> [[ch]] | w # ws \<Rightarrow> (ch # w) # ws)"

section \<open>Numbers in texts\<close>

definition is_digit :: "char \<Rightarrow> bool" where
  "is_digit ch \<longleftrightarrow> (of_char ch :: nat) \<in> {48..57}"

definition digits_value :: "string \<Rightarrow> nat" where
  "digits_value = foldl (\<lambda>n ch. 10 * n + (of_char ch - 48)) 0"

fun split_sign :: "string \<Rightarrow> bool \<times> string" where
  "split_sign [] = (False, [])"
| "split_sign (ch # s) = (if ch = CHR ''-'' then (True, s) else if ch = CHR ''+'' then (False, s) else (False, ch # s))"

definition exponent_of :: "string \<Rightarrow> int option" where
  "exponent_of s =
     (case s of
        [] \<Rightarrow> Some 0
      | ch # rest \<Rightarrow>
          if ch \<notin> {CHR ''e'', CHR ''E''} then None
          else let (neg, ds) = split_sign rest
               in if ds = [] \<or> \<not> list_all is_digit ds then None
                  else Some (if neg then - int (digits_value ds) else int (digits_value ds)))"

text \<open>\<open>Decimal(text)\<close> of a finite number; the constructor does not round.\<close>

definition dec_of_text :: "string \<Rightarrow> decimal option" where
  "dec_of_text text =
     (let (neg, s) = split_sign (filter (\<lambda>ch. ch \<noteq> CHR ''_'') (strip text));
          whole = takeWhile is_digit s;
          rest = dropWhile is_digit s;
          (frac, tail) = (case rest of [] \<Rightarrow> ([], []) | ch # r \<Rightarrow>
            if ch = CHR ''.'' then (takeWhile is_digit r, dropWhile is_digit r) else ([], rest))
      in if whole = [] \<and> frac = [] then None
         else case exponent_of tail of
                None \<Rightarrow> None
              | Some e \<Rightarrow>
                  let value = of_nat (digits_value (whole @ frac)) * 10 powi (e - int (length frac))
                  in Some (if neg then - value else value))"

definition int_of_text :: "string \<Rightarrow> int option" where
  "int_of_text text =
     (let (neg, s) = split_sign (strip text)
      in if s = [] \<or> \<not> list_all is_digit s then None
         else Some (if neg then - int (digits_value s) else int (digits_value s)))"

section \<open>JSON values\<close>

datatype raw =
    RNull
  | RBool bool
  | RNumber decimal
  | RText string
  | RList "raw list"
  | RObject "(string \<times> raw) list"

fun truthy :: "raw \<Rightarrow> bool" where
  "truthy RNull = False"
| "truthy (RBool b) = b"
| "truthy (RNumber n) = (n \<noteq> 0)"
| "truthy (RText s) = (s \<noteq> [])"
| "truthy (RList xs) = (xs \<noteq> [])"
| "truthy (RObject d) = (d \<noteq> [])"

text \<open>\<open>d.get(key)\<close> of an object; a missing key is null.\<close>

definition raw_get :: "(string \<times> raw) list \<Rightarrow> string \<Rightarrow> raw" where
  "raw_get d key = (case dict_get d key of None \<Rightarrow> RNull | Some v \<Rightarrow> v)"

text \<open>\<open>str(value)\<close>; \<open>print\<close> has the texts of the values that are not texts.\<close>

fun raw_str :: "(raw \<Rightarrow> string) \<Rightarrow> raw \<Rightarrow> string" where
  "raw_str print (RText s) = s"
| "raw_str print v = print v"

text \<open>\<open>str(value or '''')\<close>\<close>

definition str_or_empty :: "(raw \<Rightarrow> string) \<Rightarrow> raw \<Rightarrow> string" where
  "str_or_empty print v = (if truthy v then raw_str print v else [])"

fun is_object :: "raw \<Rightarrow> bool" where
  "is_object (RObject d) = True"
| "is_object _ = False"

text \<open>\<open>_decimal_measurement(value)\<close>\<close>

fun decimal_measurement :: "raw \<Rightarrow> decimal option" where
  "decimal_measurement (RNumber n) = Some n"
| "decimal_measurement (RText s) = dec_of_text s"
| "decimal_measurement _ = None"

text \<open>\<open>int(value)\<close>\<close>

fun raw_int :: "raw \<Rightarrow> int comp" where
  "raw_int (RBool b) = ret (if b then 1 else 0)"
| "raw_int (RNumber n) = ret (if n < 0 then \<lceil>n\<rceil> else \<lfloor>n\<rfloor>)"
| "raw_int (RText s) = (case int_of_text s of None \<Rightarrow> raise (ValueError ''invalid literal for int()'') | Some i \<Rightarrow> ret i)"
| "raw_int _ = raise TypeError"

text \<open>\<open>float(value)\<close>, as the decimal it prints as\<close>

fun raw_float :: "raw \<Rightarrow> decimal comp" where
  "raw_float (RBool b) = ret (if b then 1 else 0)"
| "raw_float (RNumber n) = ret n"
| "raw_float (RText s) = (case dec_of_text s of None \<Rightarrow> raise (ValueError ''could not convert string to float'') | Some n \<Rightarrow> ret n)"
| "raw_float _ = raise TypeError"

section \<open>Lemmas\<close>

lemma dec_of_text_samples:
  "dec_of_text ''10'' = Some 10" "dec_of_text ''0'' = Some 0" "dec_of_text ''-0.5'' = Some (- 1 / 2)" "dec_of_text ''0.5'' = Some (1 / 2)"
  by (simp_all add: dec_of_text_def strip_def is_space_def is_digit_def digits_value_def exponent_of_def power_int_minus)

lemma strip_Nil [simp]: "strip [] = []"
  by (simp add: strip_def)

lemma raw_get_Cons: "raw_get ((k, v) # d) key = (if key = k then v else raw_get d key)"
  by (simp add: raw_get_def)

lemma raw_get_Nil: "raw_get [] key = RNull"
  by (simp add: raw_get_def)

end
