(* ===== verification/Research_Metrics.thy ===== *)
theory Research_Metrics
  imports Research_Values Datetime
begin

text \<open>
  The contracts of a research run: its metrics (\<open>services/research/metrics_contract.py\<close>) and its manifest
  (\<open>services/research/run_manifest.py\<close>). The reading of the fields from a JSON document is an argument of the
  loading functions; the checks on the fields that the models declare are here.
\<close>

section \<open>Metrics\<close>

definition SUPPORTED_COST_MODEL_VERSIONS :: "string set" where
  "SUPPORTED_COST_MODEL_VERSIONS = {''1.0'', ''1.1''}"

definition SUPPORTED_METRICS_SCHEMA_VERSIONS :: "string set" where
  "SUPPORTED_METRICS_SCHEMA_VERSIONS = {''1.0'', ''1.1'', ''1.2''}"

datatype report_status = REPORT_COMPLETE | REPORT_INCOMPLETE | REPORT_INVALID

definition compute_gross_pnl :: "decimal \<Rightarrow> decimal \<Rightarrow> decimal \<Rightarrow> decimal \<Rightarrow> decimal" where
  "compute_gross_pnl net_pnl fees slippage_costs funding_costs = dadd (dadd (dadd net_pnl fees) slippage_costs) funding_costs"

record benchmark_ref =
  br_benchmark_id :: string
  br_benchmark_version :: string
  br_calculation :: string
  br_period_parity :: bool
  br_dataset_parity :: bool
  br_cost_parity :: bool
  br_cost_model_version :: string
  br_gross_return :: "decimal option"

record research_metrics =
  rm_schema_version :: string
  rm_status :: report_status
  rm_start_capital :: decimal
  rm_end_capital :: decimal
  rm_gross_pnl :: decimal
  rm_net_pnl :: decimal
  rm_fees :: decimal
  rm_slippage_costs :: decimal
  rm_funding_costs :: decimal
  rm_funding_assumption :: string
  rm_signal_count :: nat
  rm_order_count :: nat
  rm_fill_count :: nat
  rm_closed_trades :: nat
  rm_hit_rate :: "decimal option"
  rm_avg_win :: "decimal option"
  rm_avg_loss :: "decimal option"
  rm_expectancy :: "decimal option"
  rm_profit_factor :: "decimal option"
  rm_max_drawdown :: "decimal option"
  rm_exposure :: "decimal option"
  rm_turnover :: "decimal option"
  rm_time_in_market :: "decimal option"
  rm_benchmark :: benchmark_ref
  rm_benchmark_result :: "decimal option"

text \<open>The non-empty fields of a benchmark.\<close>

definition benchmark_fields_ok :: "benchmark_ref \<Rightarrow> bool" where
  "benchmark_fields_ok b \<longleftrightarrow> br_benchmark_id b \<noteq> [] \<and> br_benchmark_version b \<noteq> [] \<and> br_calculation b \<noteq> []"

text \<open>What schema 1.2 asks of the benchmark of a complete report.\<close>

definition check_benchmark_contract :: "research_metrics \<Rightarrow> unit comp" where
  "check_benchmark_contract m =
     (let b = rm_benchmark m; cost_ver = strip (br_cost_model_version b)
      in if rm_benchmark_result m = None then raise (ValueError ''benchmark_result required for complete metrics schema 1.2+'')
         else if cost_ver = [] then raise (ValueError ''benchmark.cost_model_version required for complete metrics schema 1.2+'')
         else if cost_ver \<notin> SUPPORTED_COST_MODEL_VERSIONS then raise (ValueError ''benchmark.cost_model_version is not supported'')
         else if br_gross_return b = None then raise (ValueError ''benchmark.gross_return required for complete metrics schema 1.2+'')
         else if \<not> br_cost_parity b then raise (ValueError ''benchmark.cost_parity must be true for complete metrics schema 1.2+'')
         else if \<not> br_period_parity b then raise (ValueError ''benchmark.period_parity must be true for complete metrics schema 1.2+'')
         else if \<not> br_dataset_parity b then raise (ValueError ''benchmark.dataset_parity must be true for complete metrics schema 1.2+'')
         else ret ())"

definition costs_required_for_complete :: "research_metrics \<Rightarrow> research_metrics comp" where
  "costs_required_for_complete m =
     (if rm_schema_version m \<notin> SUPPORTED_METRICS_SCHEMA_VERSIONS then raise (ValueError ''unsupported metrics schema_version'')
      else if rm_status m \<noteq> REPORT_COMPLETE then ret m
      else if strip (rm_funding_assumption m) = [] then raise (ValueError ''funding_assumption must be non-empty for complete metrics'')
      else
      cbind (if rm_schema_version m = ''1.2'' then check_benchmark_contract m else ret ()) (\<lambda>_.
      if rm_schema_version m \<in> {''1.1'', ''1.2''} \<and>
         rm_gross_pnl m \<noteq> compute_gross_pnl (rm_net_pnl m) (rm_fees m) (rm_slippage_costs m) (rm_funding_costs m)
      then raise (ValueError ''gross_pnl must equal net_pnl + fees + slippage_costs + funding_costs for schema 1.1+'')
      else ret m))"

text \<open>Every exception of the validation becomes a \<open>ValueError\<close>.\<close>

definition as_value_error :: "string \<Rightarrow> 'a comp \<Rightarrow> 'a comp" where
  "as_value_error msg m = (case m of None \<Rightarrow> None | Some (Inl _) \<Rightarrow> raise (ValueError msg) | Some (Inr x) \<Rightarrow> ret x)"

definition validate_metrics_or_mark_invalid :: "('d \<Rightarrow> research_metrics comp) \<Rightarrow> 'd \<Rightarrow> research_metrics comp" where
  "validate_metrics_or_mark_invalid parse data =
     cbind (as_value_error ''metrics schema/run validation failed''
       (cbind (parse data) (\<lambda>m.
        if \<not> benchmark_fields_ok (rm_benchmark m) then raise (ValueError ''string too short'') else costs_required_for_complete m))) (\<lambda>m.
     if strip (br_benchmark_id (rm_benchmark m)) = []
     then raise (ValueError ''benchmark_id missing; report remains incomplete/invalid'')
     else ret m)"

definition default_benchmark_ref :: "string \<Rightarrow> string \<Rightarrow> string \<Rightarrow> benchmark_ref" where
  "default_benchmark_ref i v c =
     \<lparr>br_benchmark_id = i, br_benchmark_version = v, br_calculation = c, br_period_parity = True, br_dataset_parity = True,
      br_cost_parity = True, br_cost_model_version = [], br_gross_return = None\<rparr>"

definition parse_benchmark_ref :: "string \<Rightarrow> benchmark_ref comp" where
  "parse_benchmark_ref benchmark_field =
     (let text = strip benchmark_field
      in if text = [] then raise (ValueError ''benchmark is required'')
         else if CHR ''@'' \<in> set text
         then let bid = takeWhile (\<lambda>ch. ch \<noteq> CHR ''@'') text; ver = tl (dropWhile (\<lambda>ch. ch \<noteq> CHR ''@'') text)
              in if bid = [] \<or> ver = [] then raise (ValueError ''benchmark must be id@version or a non-empty id'')
                 else ret (default_benchmark_ref bid ver (''declared benchmark '' @ bid @ ''@'' @ ver))
         else ret (default_benchmark_ref text ''1.0''
                (''declared benchmark '' @ text @ ''@1.0 (buy-and-hold style unless overridden)'')))"

section \<open>Manifests\<close>

datatype manifest_status = MANIFEST_COMPLETE | MANIFEST_FAILED | MANIFEST_INCOMPLETE

definition RUN_MANIFEST_SCHEMA_VERSION :: string where
  "RUN_MANIFEST_SCHEMA_VERSION = ''1.0''"

record run_manifest =
  mf_schema_version :: string
  mf_experiment_id :: string
  mf_run_id :: string
  mf_attempt_id :: string
  mf_git_commit :: string
  mf_dataset_id :: string
  mf_dataset_content_hash :: string
  mf_strategy_version :: string
  mf_cost_model_version :: string
  mf_metrics_schema_version :: string
  mf_environment_fingerprint :: string
  mf_identity_hash_algorithm :: string
  mf_created_at_utc :: datetime
  mf_status :: manifest_status

definition load_run_manifest :: "(string \<Rightarrow> run_manifest comp) \<Rightarrow> string \<Rightarrow> run_manifest comp" where
  "load_run_manifest parse content =
     cbind (parse content) (\<lambda>m.
     if mf_schema_version m \<noteq> RUN_MANIFEST_SCHEMA_VERSION then raise (ValueError ''unsupported run manifest schema_version'') else ret m)"

section \<open>What valid metrics say\<close>

lemma validate_metrics_ret:
  assumes "validate_metrics_or_mark_invalid parse data = ret m"
  shows "parse data = ret m" and "costs_required_for_complete m = ret m" and "strip (br_benchmark_id (rm_benchmark m)) \<noteq> []"
proof -
  obtain m' where m': "as_value_error ''metrics schema/run validation failed''
       (cbind (parse data) (\<lambda>m. if \<not> benchmark_fields_ok (rm_benchmark m) then raise (ValueError ''string too short'') else costs_required_for_complete m)) = ret m'"
    "strip (br_benchmark_id (rm_benchmark m')) \<noteq> []" "m' = m"
    using assms by (auto simp: validate_metrics_or_mark_invalid_def cbind_eq_ret split: if_splits)
  then have "cbind (parse data) (\<lambda>m. if \<not> benchmark_fields_ok (rm_benchmark m) then raise (ValueError ''string too short'') else costs_required_for_complete m) = ret m"
    by (auto simp: as_value_error_def ret_def raise_def split: option.splits sum.splits)
  then obtain m0 where m0: "parse data = ret m0" "costs_required_for_complete m0 = ret m"
    by (auto simp: cbind_eq_ret split: if_splits)
  have "m0 = m" using m0(2) by (auto simp: costs_required_for_complete_def cbind_eq_ret split: if_splits)
  with m0 show "parse data = ret m" "costs_required_for_complete m = ret m" by simp_all
  show "strip (br_benchmark_id (rm_benchmark m)) \<noteq> []" using m'(2,3) by simp
qed

text \<open>In a complete report of schema 1.2 the gross result restores the costs, and the benchmark is net and comparable.\<close>

lemma complete_metrics_identity:
  assumes "costs_required_for_complete m = ret m" and "rm_status m = REPORT_COMPLETE" and "rm_schema_version m = ''1.2''"
  shows "rm_gross_pnl m = compute_gross_pnl (rm_net_pnl m) (rm_fees m) (rm_slippage_costs m) (rm_funding_costs m) \<and>
    rm_benchmark_result m \<noteq> None \<and> br_gross_return (rm_benchmark m) \<noteq> None \<and> br_cost_parity (rm_benchmark m) \<and>
    br_period_parity (rm_benchmark m) \<and> br_dataset_parity (rm_benchmark m)"
  using assms by (auto simp: costs_required_for_complete_def check_benchmark_contract_def Let_def cbind_eq_ret split: if_splits)

end
