(* ===== verification/Research_Gates.thy ===== *)
theory Research_Gates
  imports Research_Registry Research_Metrics Research_Jobs
begin

text \<open>
  The gates of the research side: the versioned policy (\<open>services/research/gate_policy.py\<close>), the evaluation of
  a run with its robustness evidence and the append-only store of the results
  (\<open>services/research/gate_evaluator.py\<close>).

  Arguments, in the record \<open>gate_env\<close>: the digest, the writing and reading of JSON, the reading of the fields
  of metrics and manifests, the printing of numbers, the bootstrap of an equity curve, the dataset catalogue,
  and the commit of the repository with the two environment variables that pin it. An evaluation error is
  named by its field error. Calling \<open>get\<close> on a value that is no object raises \<open>TypeError\<close> here.
\<close>

section \<open>Policies\<close>

definition GATE_CATEGORIES :: "string list" where
  "GATE_CATEGORIES =
     [''sample_sufficiency'', ''oos_net'', ''drawdown'', ''walk_forward'', ''cost_stress'', ''parameter_fragility'', ''bootstrap'',
      ''concentration'', ''regime_coverage'', ''execution_realism'', ''behaviour'', ''other'']"

definition CRITICAL_GATE_CATEGORIES :: "string list" where
  "CRITICAL_GATE_CATEGORIES =
     [''sample_sufficiency'', ''oos_net'', ''drawdown'', ''walk_forward'', ''cost_stress'', ''parameter_fragility'', ''bootstrap'',
      ''concentration'', ''regime_coverage'', ''execution_realism'']"

definition COMPARATORS :: "(string \<times> (decimal \<Rightarrow> decimal \<Rightarrow> bool)) list" where
  "COMPARATORS =
     [(''gte'', \<lambda>measured threshold. threshold \<le> measured), (''gt'', \<lambda>measured threshold. threshold < measured),
      (''lte'', \<lambda>measured threshold. measured \<le> threshold), (''lt'', \<lambda>measured threshold. measured < threshold),
      (''eq'', \<lambda>measured threshold. measured = threshold)]"

record gate_definition =
  gd_name :: string
  gd_metric :: string
  gd_comparator :: string
  gd_threshold :: string
  gd_description :: string
  gd_category :: string

definition check_gate_definition :: "gate_definition \<Rightarrow> gate_definition comp" where
  "check_gate_definition g =
     (if gd_category g \<noteq> [] \<and> gd_category g \<notin> set GATE_CATEGORIES
      then raise (GatePolicyError (''unsupported gate category: '' @ gd_category g)) else ret g)"

definition gate_definition_to_dict :: "gate_definition \<Rightarrow> raw" where
  "gate_definition_to_dict g =
     RObject ([(''name'', RText (gd_name g)), (''metric'', RText (gd_metric g)), (''comparator'', RText (gd_comparator g)),
       (''threshold'', RText (gd_threshold g)), (''description'', RText (gd_description g))] @
       (if gd_category g \<noteq> [] then [(''category'', RText (gd_category g))] else []))"

record gate_policy =
  gp_version :: string
  gp_description :: string
  gp_gates :: "gate_definition list"

definition gate_policy_to_dict :: "gate_policy \<Rightarrow> raw" where
  "gate_policy_to_dict p =
     RObject [(''version'', RText (gp_version p)), (''description'', RText (gp_description p)),
       (''gates'', RList (map gate_definition_to_dict (gp_gates p)))]"

definition is_critical_category :: "string \<Rightarrow> bool" where
  "is_critical_category category \<longleftrightarrow> category \<noteq> [] \<and> category \<in> set CRITICAL_GATE_CATEGORIES"

definition gate_definition_1_0 :: "string \<Rightarrow> string \<Rightarrow> string \<Rightarrow> string \<Rightarrow> gate_definition" where
  "gate_definition_1_0 name metric threshold description =
     \<lparr>gd_name = name, gd_metric = metric, gd_comparator = ''gte'', gd_threshold = threshold, gd_description = description,
      gd_category = []\<rparr>"

definition GATES_1_0 :: "gate_definition list" where
  "GATES_1_0 =
     [gate_definition_1_0 ''min_closed_trades'' ''closed_trades'' ''10'' ''Sample sufficiency floor (generic example default).'',
      gate_definition_1_0 ''net_pnl_non_negative'' ''net_pnl'' ''0'' ''Net PnL under base costs must not be negative.'',
      gate_definition_1_0 ''max_drawdown_floor'' ''max_drawdown'' ''-0.5''
        ''Max drawdown must not be worse than -50% of starting capital (generic example default).'',
      gate_definition_1_0 ''walk_forward_fold_pass_ratio'' ''walk_forward_fold_pass_ratio'' ''0.5''
        ''Share of walk-forward folds (robustness manifest, #247) with net PnL >= 0 under base costs.'',
      gate_definition_1_0 ''cost_stress_combined_elevated_non_negative'' ''cost_stress_combined_elevated_net_pnl'' ''0''
        ''Cost-stress child 'combined_elevated' net PnL (robustness manifest, #247) must not be negative.'',
      gate_definition_1_0 ''parameter_neighbor_pass_ratio'' ''parameter_neighbor_pass_ratio'' ''0.5''
        ''Share of parameter-stability neighbors (robustness manifest, #247) with net PnL >= 0.'',
      gate_definition_1_0 ''bootstrap_q05_net_pnl_non_negative'' ''bootstrap_q05_net_pnl'' ''0''
        ''Bootstrap 5% path net-PnL quantile (robustness manifest, #247) must not be negative.'']"

definition CATEGORY_BY_GATE_NAME :: "(string, string) dict" where
  "CATEGORY_BY_GATE_NAME =
     [(''min_closed_trades'', ''sample_sufficiency''), (''net_pnl_non_negative'', ''oos_net''), (''max_drawdown_floor'', ''drawdown''),
      (''walk_forward_fold_pass_ratio'', ''walk_forward''), (''cost_stress_combined_elevated_non_negative'', ''cost_stress''),
      (''parameter_neighbor_pass_ratio'', ''parameter_fragility''), (''bootstrap_q05_net_pnl_non_negative'', ''bootstrap'')]"

definition GATES_1_1 :: "gate_definition list" where
  "GATES_1_1 = map (\<lambda>g. g\<lparr>gd_category := get_default CATEGORY_BY_GATE_NAME (gd_name g) []\<rparr>) GATES_1_0"

definition POLICY_REGISTRY :: "(string, gate_policy) dict" where
  "POLICY_REGISTRY =
     [(''1.0'', \<lparr>gp_version = ''1.0'', gp_description =
        ''Generic P4.7c example gate policy: structural sufficiency and sign checks over evidence already produced by the research runner and robustness orchestrator. Not the P5 human decision rules (see docs/research/p5/P5_DECISION_RULES.md, #205).'',
        gp_gates = GATES_1_0\<rparr>),
      (''1.1'', \<lparr>gp_version = ''1.1'', gp_description =
        ''Scorecard integrity profile (#286): same generic thresholds as 1.0 plus Layer-1 critical-gate categories. Integrity status is evaluated separately; missing evidence yields NOT_AVAILABLE, never PASS. Not the P5 human decision rules (#205).'',
        gp_gates = GATES_1_1\<rparr>)]"

definition get_policy :: "string \<Rightarrow> gate_policy comp" where
  "get_policy version =
     (case dict_get POLICY_REGISTRY version of
        None \<Rightarrow> raise (GatePolicyError (''unknown gate policy version: '' @ version)) | Some p \<Rightarrow> ret p)"

definition evaluate_comparator :: "string \<Rightarrow> decimal \<Rightarrow> decimal \<Rightarrow> bool comp" where
  "evaluate_comparator comparator measured threshold =
     (case dict_get COMPARATORS comparator of
        None \<Rightarrow> raise (GatePolicyError (''unknown comparator: '' @ comparator)) | Some f \<Rightarrow> ret (f measured threshold))"

section \<open>Records\<close>

datatype gate_outcome = GO_PASS | GO_FAIL | GO_INCONCLUSIVE | GO_NOT_AVAILABLE
datatype gate_overall = OVERALL_PASS | OVERALL_FAIL
datatype gate_status = GATE_ACTIVE | GATE_INVALIDATED
datatype integrity_status = INTEGRITY_VALID | INTEGRITY_INVALID | INTEGRITY_NOT_VERIFIABLE
datatype check_status = CHECK_PASS | CHECK_FAIL | CHECK_NOT_VERIFIABLE

record integrity_check =
  ic_name :: string
  ic_status :: check_status
  ic_reason :: string

record gate_result =
  gr_name :: string
  gr_threshold :: string
  gr_measured_value :: "string option"
  gr_passed :: bool
  gr_reason :: string
  gr_outcome :: gate_outcome
  gr_category :: string

record gate_run_record =
  gg_schema_version :: string
  gg_gate_run_id :: string
  gg_policy_version :: string
  gg_policy_content_hash :: string
  gg_evaluated_at :: datetime
  gg_run_code_commit :: string
  gg_evaluation_code_commit :: string
  gg_experiment_id :: string
  gg_run_id :: string
  gg_robustness_run_ids :: "string list"
  gg_dataset_id :: string
  gg_dataset_content_hash :: string
  gg_artifact_checksums :: checksums
  gg_measurements :: "(string, string) dict"
  gg_gates :: "gate_result list"
  gg_overall_status :: gate_overall
  gg_promotion_action :: string
  gg_status :: gate_status
  gg_invalidation_reason :: "string option"
  gg_integrity_status :: integrity_status
  gg_integrity_checks :: "integrity_check list"

definition quality_scores_permitted :: "gate_run_record \<Rightarrow> bool" where
  "quality_scores_permitted r \<longleftrightarrow> gg_status r = GATE_ACTIVE \<and> gg_integrity_status r = INTEGRITY_VALID"

definition summarize_integrity_status :: "integrity_check list \<Rightarrow> integrity_status" where
  "summarize_integrity_status checks =
     (if list_ex (\<lambda>c. ic_status c = CHECK_FAIL) checks then INTEGRITY_INVALID
      else if checks = [] \<or> list_ex (\<lambda>c. ic_status c = CHECK_NOT_VERIFIABLE) checks then INTEGRITY_NOT_VERIFIABLE
      else INTEGRITY_VALID)"

definition make_gate_result :: "gate_definition \<Rightarrow> string option \<Rightarrow> gate_outcome \<Rightarrow> string \<Rightarrow> gate_result" where
  "make_gate_result g measured_value outcome reason =
     \<lparr>gr_name = gd_name g, gr_threshold = gd_threshold g, gr_measured_value = measured_value, gr_passed = (outcome = GO_PASS),
      gr_reason = reason, gr_outcome = outcome, gr_category = gd_category g\<rparr>"

definition overall_status_from_gates :: "gate_result list \<Rightarrow> gate_overall" where
  "overall_status_from_gates gate_results =
     (if gate_results = [] then OVERALL_FAIL
      else if filter (\<lambda>g. gr_category g \<noteq> []) gate_results \<noteq> []
      then (if list_ex (\<lambda>g. gr_outcome g \<noteq> GO_PASS \<and> (gr_category g = [] \<or> is_critical_category (gr_category g))) gate_results
            then OVERALL_FAIL else OVERALL_PASS)
      else if list_all gr_passed gate_results then OVERALL_PASS else OVERALL_FAIL)"

section \<open>Reading results\<close>

fun outcome_text :: "gate_outcome \<Rightarrow> string" where
  "outcome_text GO_PASS = ''PASS''"
| "outcome_text GO_FAIL = ''FAIL''"
| "outcome_text GO_INCONCLUSIVE = ''INCONCLUSIVE''"
| "outcome_text GO_NOT_AVAILABLE = ''NOT_AVAILABLE''"

definition outcome_of_raw :: "raw \<Rightarrow> gate_outcome option" where
  "outcome_of_raw v = find (\<lambda>out. v = RText (outcome_text out)) [GO_PASS, GO_FAIL, GO_INCONCLUSIVE, GO_NOT_AVAILABLE]"

definition gate_result_to_dict :: "gate_result \<Rightarrow> (string \<times> raw) list" where
  "gate_result_to_dict g =
     [(''name'', RText (gr_name g)), (''threshold'', RText (gr_threshold g)),
      (''measured_value'', case gr_measured_value g of None \<Rightarrow> RNull | Some v \<Rightarrow> RText v), (''passed'', RBool (gr_passed g)),
      (''reason'', RText (gr_reason g)), (''outcome'', RText (outcome_text (gr_outcome g))), (''category'', RText (gr_category g))]"

definition required :: "(string \<times> raw) list \<Rightarrow> string \<Rightarrow> raw comp" where
  "required d key = (case dict_get d key of None \<Rightarrow> raise KeyError | Some v \<Rightarrow> ret v)"

text \<open>Records of older versions have no outcome: a missing measurement that did not pass was not available.\<close>

definition gate_result_from_dict :: "(raw \<Rightarrow> string) \<Rightarrow> (string \<times> raw) list \<Rightarrow> gate_result comp" where
  "gate_result_from_dict print d =
     (let legacy_passed = truthy (raw_get d ''passed'');
          measured = raw_get d ''measured_value'';
          outcome = (case outcome_of_raw (raw_get d ''outcome'') of
              Some out \<Rightarrow> out
            | None \<Rightarrow> if measured = RNull \<and> \<not> legacy_passed then GO_NOT_AVAILABLE
                      else if legacy_passed then GO_PASS else GO_FAIL)
      in cbind (required d ''name'') (\<lambda>name.
         cbind (required d ''threshold'') (\<lambda>threshold.
         cbind (required d ''reason'') (\<lambda>reason.
         ret \<lparr>gr_name = raw_str print name, gr_threshold = raw_str print threshold,
              gr_measured_value = (if measured = RNull then None else Some (raw_str print measured)),
              gr_passed = (outcome = GO_PASS), gr_reason = raw_str print reason, gr_outcome = outcome,
              gr_category = str_or_empty print (raw_get d ''category'')\<rparr>))))"

section \<open>The store\<close>

record gate_store =
  gs_log :: "gate_run_record list"
  gs_sidecars :: sidecars

definition apply_gate_sidecar :: "sidecars \<Rightarrow> gate_run_record \<Rightarrow> gate_run_record" where
  "apply_gate_sidecar sidecars e =
     (if sidecar_marks_invalidated sidecars (gg_gate_run_id e)
      then e\<lparr>gg_status := GATE_INVALIDATED,
             gg_invalidation_reason := Some (case gg_invalidation_reason e of
               None \<Rightarrow> ''invalidation_sidecar'' | Some r \<Rightarrow> if r = [] then ''invalidation_sidecar'' else r)\<rparr>
      else e)"

definition gate_get :: "gate_store \<Rightarrow> string \<Rightarrow> gate_run_record option" where
  "gate_get s gate_run_id =
     (case filter (\<lambda>e. gg_gate_run_id e = gate_run_id) (gs_log s) of
        [] \<Rightarrow> None
      | m # ms \<Rightarrow> Some (apply_gate_sidecar (gs_sidecars s) (last (m # ms))))"

definition list_latest :: "gate_store \<Rightarrow> gate_run_record list" where
  "list_latest s = map (apply_gate_sidecar (gs_sidecars s)) (dict_values (dict_of (map (\<lambda>e. (gg_gate_run_id e, e)) (gs_log s))))"

definition list_for_run :: "gate_store \<Rightarrow> string \<Rightarrow> gate_run_record list" where
  "list_for_run s run_id = filter (\<lambda>e. gg_run_id e = run_id) (list_latest s)"

definition gate_append :: "gate_run_record \<Rightarrow> gate_store \<Rightarrow> gate_store comp" where
  "gate_append r s =
     (if sidecar_marks_invalidated (gs_sidecars s) (gg_gate_run_id r)
      then raise (ValueError (''gate_run_id invalidated - reactivation forbidden: '' @ gg_gate_run_id r))
      else
      case gate_get s (gg_gate_run_id r) of
        None \<Rightarrow> ret (s\<lparr>gs_log := gs_log s @ [r]\<rparr>)
      | Some existing \<Rightarrow>
          if gg_status existing = GATE_ACTIVE
          then raise (ValueError (''duplicate active gate_run_id forbidden: '' @ gg_gate_run_id r))
          else raise (ValueError (''gate_run_id invalidated - reactivation forbidden: '' @ gg_gate_run_id r)))"

definition gate_invalidate :: "string \<Rightarrow> string \<Rightarrow> gate_store \<Rightarrow> gate_store comp" where
  "gate_invalidate gate_run_id reason s =
     (case gate_get s gate_run_id of
        None \<Rightarrow> raise KeyError
      | Some e \<Rightarrow>
          if gg_status e = GATE_INVALIDATED then raise (ValueError (''gate result already invalidated: '' @ gate_run_id))
          else ret (s\<lparr>gs_sidecars := append_sidecar gate_run_id (gs_sidecars s),
                     gs_log := gs_log s @ [e\<lparr>gg_status := GATE_INVALIDATED, gg_invalidation_reason := Some reason\<rparr>]\<rparr>))"

section \<open>The environment\<close>

record catalog_entry =
  ce_id :: string
  ce_dataset_id :: string
  ce_content_hash :: string

record gate_env =
  ge_sha256 :: digest
  ge_dumps :: "raw \<Rightarrow> string"
  ge_loads :: "string \<Rightarrow> raw option"
  ge_print :: "raw \<Rightarrow> string"
  ge_format :: "decimal \<Rightarrow> string"
  ge_str :: "decimal \<Rightarrow> string"
  ge_run_manifest :: "raw \<Rightarrow> run_manifest comp"
  ge_metrics :: "raw \<Rightarrow> research_metrics comp"
  ge_bootstrap :: "files \<Rightarrow> int \<Rightarrow> int \<Rightarrow> int \<Rightarrow> decimal list \<Rightarrow> (string, raw) dict comp"
  ge_catalog :: "catalog_entry list"
  ge_head :: "string comp option"
  ge_pins :: "string list"
  ge_now :: datetime

record gate_world =
  gw_registry :: registry
  gw_jobs :: "raw robustness_store"
  gw_manifests :: "(string, string) dict"
  gw_manifest_seals :: "(string, string) dict"
  gw_store :: gate_store

definition compute_policy_content_hash :: "gate_env \<Rightarrow> gate_policy \<Rightarrow> string" where
  "compute_policy_content_hash env p = ge_sha256 env (ge_dumps env (gate_policy_to_dict p))"

definition verify_policy_content_hash :: "gate_env \<Rightarrow> string \<Rightarrow> string \<Rightarrow> unit comp" where
  "verify_policy_content_hash env version expected =
     cbind (get_policy version) (\<lambda>p.
     if compute_policy_content_hash env p \<noteq> expected
     then raise (GatePolicyError (''policy content hash mismatch for version '' @ version)) else ret ())"

definition compute_gate_run_id :: "gate_env \<Rightarrow> string \<Rightarrow> string \<Rightarrow> string \<Rightarrow> string list \<Rightarrow> string" where
  "compute_gate_run_id env run_id policy_version policy_content_hash robustness_run_ids =
     ''gate_'' @ ge_sha256 env (ge_dumps env (RObject [(''run_id'', RText run_id), (''policy_version'', RText policy_version),
       (''policy_content_hash'', RText policy_content_hash), (''robustness_run_ids'', RList (map RText (sort robustness_run_ids)))]))"

definition load_json :: "gate_env \<Rightarrow> string \<Rightarrow> raw comp" where
  "load_json env content = (case ge_loads env content of None \<Rightarrow> raise (ValueError ''invalid JSON'') | Some v \<Rightarrow> ret v)"

definition read_file :: "files \<Rightarrow> string \<Rightarrow> string comp" where
  "read_file fs name = (case dict_get fs name of None \<Rightarrow> raise (FileNotFoundError name) | Some content \<Rightarrow> ret content)"

definition read_run_manifest :: "gate_env \<Rightarrow> files \<Rightarrow> run_manifest comp" where
  "read_run_manifest env fs =
     cbind (read_file fs ''run_manifest.json'') (load_run_manifest (\<lambda>content.
       cbind (load_json env content) (\<lambda>v.
       if is_object v then ge_run_manifest env v else raise (ValueError ''RunManifest root must be a mapping/object''))))"

text \<open>\<open>except\<close>: the exceptions that \<open>handler\<close> names are replaced, the others pass.\<close>

definition catching :: "(py_error \<Rightarrow> py_error option) \<Rightarrow> 'a comp \<Rightarrow> 'a comp" where
  "catching handler m =
     (case m of
        Some (Inl e) \<Rightarrow> (case handler e of None \<Rightarrow> raise e | Some e' \<Rightarrow> raise e')
      | _ \<Rightarrow> m)"

fun on_missing_run :: "string \<Rightarrow> py_error \<Rightarrow> py_error option" where
  "on_missing_run msg KeyError = Some (GateEvaluationError msg)"
| "on_missing_run msg e = None"

fun on_bad_file :: "string \<Rightarrow> py_error \<Rightarrow> py_error option" where
  "on_bad_file msg (ValueError _) = Some (GateEvaluationError msg)"
| "on_bad_file msg (FileNotFoundError _) = Some (GateEvaluationError msg)"
| "on_bad_file msg e = None"

fun on_value_error :: "string \<Rightarrow> py_error \<Rightarrow> py_error option" where
  "on_value_error msg (ValueError _) = Some (GateEvaluationError msg)"
| "on_value_error msg e = None"

section \<open>Integrity checks\<close>

definition check_of :: "string \<Rightarrow> bool \<Rightarrow> string \<Rightarrow> string \<Rightarrow> integrity_check" where
  "check_of name ok good bad = \<lparr>ic_name = name, ic_status = (if ok then CHECK_PASS else CHECK_FAIL), ic_reason = (if ok then good else bad)\<rparr>"

definition not_verifiable :: "string \<Rightarrow> string \<Rightarrow> integrity_check" where
  "not_verifiable name reason = \<lparr>ic_name = name, ic_status = CHECK_NOT_VERIFIABLE, ic_reason = reason\<rparr>"

definition commit_bound :: "string \<Rightarrow> bool" where
  "commit_bound commit \<longleftrightarrow> commit \<noteq> [] \<and> lower commit \<noteq> ''unknown'' \<and> 7 \<le> length commit"

definition seal_key :: "string \<Rightarrow> string" where
  "seal_key robustness_id = ''robustness/'' @ robustness_id @ ''/manifest.json''"

definition build_integrity_checks ::
  "run_manifest \<Rightarrow> registry_entry \<Rightarrow> checksums \<Rightarrow> string \<Rightarrow> string list \<Rightarrow> integrity_check list" where
  "build_integrity_checks manifest entry artifact_checksums evaluation_code_commit robustness_run_ids =
     [check_of ''dataset_binding'' (strip (mf_dataset_id manifest) \<noteq> [] \<and> strip (mf_dataset_content_hash manifest) \<noteq> [])
        ''sealed RunManifest dataset_id and dataset_content_hash present''
        ''sealed RunManifest missing dataset_id or dataset_content_hash'',
      check_of ''run_artifact_checksums''
        (filter (\<lambda>(k, _). \<not> starts_with k ''robustness/'') artifact_checksums \<noteq> [] \<and> re_checksums entry \<noteq> [])
        ''registry trust-anchor checksums bound for evaluated run'' ''run artifact_checksums empty or registry checksums missing'',
      check_of ''git_commit_binding'' (commit_bound (strip (mf_git_commit manifest)) \<and> commit_bound (strip evaluation_code_commit))
        ''run_code_commit and evaluation_code_commit bound'' ''run or evaluation git commit missing/unknown'',
      check_of ''run_status'' (re_status entry = RUN_COMPLETE) ''evaluated run status is complete''
        (''run status is '' @ run_status_value (re_status entry) @ '', expected complete'')] @
     (if robustness_run_ids \<noteq> []
      then [check_of ''robustness_manifest_seals'' (list_all (\<lambda>rid. dict_get artifact_checksums (seal_key rid) \<noteq> None) robustness_run_ids)
              ''all referenced robustness manifests sealed in artifact_checksums'' ''missing robustness manifest seals'']
      else []) @
     [not_verifiable ''look_ahead_leakage''
        ''automated look-ahead / future-candle / data-leakage check not yet implemented; fail closed as NOT_VERIFIABLE'',
      not_verifiable ''accounting_fee_spec_identity''
        ''automated fee/funding/slippage identity vs Spec not yet implemented; fail closed as NOT_VERIFIABLE'',
      not_verifiable ''regime_assignment_coverage''
        ''automated trade to regime assignment coverage check not yet implemented; fail closed as NOT_VERIFIABLE'']"

section \<open>The commit of the evaluator\<close>

definition pin_invalid :: "string \<Rightarrow> bool" where
  "pin_invalid pinned \<longleftrightarrow> lower pinned = ''unknown'' \<or> length pinned < 7"

text \<open>The first pin that is set decides.\<close>

definition resolve_evaluation_code_commit :: "gate_env \<Rightarrow> string comp" where
  "resolve_evaluation_code_commit env =
     (let pin = find (\<lambda>p. p \<noteq> []) (map strip (ge_pins env))
      in case ge_head env of
           Some resolved \<Rightarrow>
             cbind (catching (on_value_error ''evaluation_code_commit: dirty or unresolved'') resolved) (\<lambda>head.
             case pin of
               None \<Rightarrow> ret head
             | Some pinned \<Rightarrow>
                 if pin_invalid pinned then raise (GateEvaluationError ''evaluation_code_commit: invalid pin'')
                 else if \<not> (starts_with (lower head) (lower pinned) \<or> starts_with (lower pinned) (lower head))
                 then raise (GateEvaluationError ''evaluation_code_commit: env pin mismatch'')
                 else ret head)
         | None \<Rightarrow>
             (case pin of
                None \<Rightarrow> raise (GateEvaluationError ''evaluation_code_commit: missing deploy pin'')
              | Some pinned \<Rightarrow>
                  if pin_invalid pinned then raise (GateEvaluationError ''evaluation_code_commit: invalid pin'') else ret pinned))"

section \<open>Measurements\<close>

type_synonym measurements = "(string, decimal) dict"

definition measurements_from_metrics :: "research_metrics \<Rightarrow> measurements" where
  "measurements_from_metrics m =
     [(''closed_trades'', of_nat (rm_closed_trades m)), (''net_pnl'', rm_net_pnl m)] @
     (case rm_max_drawdown m of None \<Rightarrow> [] | Some d \<Rightarrow> [(''max_drawdown'', d)])"

text \<open>\<open>raw.get\<close> on a value that must be an object.\<close>

definition field :: "raw \<Rightarrow> string \<Rightarrow> raw comp" where
  "field v key = (case v of RObject d \<Rightarrow> ret (raw_get d key) | _ \<Rightarrow> raise TypeError)"

abbreviation verified_run :: "gate_env \<Rightarrow> gate_world \<Rightarrow> string \<Rightarrow> registry_entry comp" where
  "verified_run env w run_id \<equiv> show_run (ge_sha256 env) (gw_registry w) run_id True"

text \<open>The result of a child run, from the metrics that its seal covers.\<close>

definition child_net_pnl_from_verified_run :: "gate_env \<Rightarrow> gate_world \<Rightarrow> (string \<times> raw) list \<Rightarrow> decimal comp" where
  "child_net_pnl_from_verified_run env w child =
     (let child_run_id = raw_get child ''run_id''
      in if \<not> truthy child_run_id then raise (GateEvaluationError ''robustness_run_ids: child run_id missing'')
         else
         cbind (catching (on_bad_file ''robustness_run_ids: child checksum mismatch'')
                  (catching (on_missing_run ''robustness_run_ids: child run missing'')
                     (verified_run env w (raw_str (ge_print env) child_run_id)))) (\<lambda>entry.
         cbind (catching (on_bad_file ''robustness_run_ids: child metrics invalid'')
                  (cbind (read_file (files_at (gw_registry w) (re_artifact_path entry)) ''metrics.json'') (\<lambda>content.
                   cbind (load_json env content) (validate_metrics_or_mark_invalid (ge_metrics env))))) (\<lambda>metrics.
         case decimal_measurement (raw_get child ''net_pnl'') of
           None \<Rightarrow> ret (rm_net_pnl metrics)
         | Some manifest_pnl \<Rightarrow>
             if manifest_pnl \<noteq> rm_net_pnl metrics then raise (GateEvaluationError ''robustness_run_ids: child net_pnl mismatch'')
             else ret (rm_net_pnl metrics))))"

definition child_objects :: "raw list \<Rightarrow> (string \<times> raw) list list" where
  "child_objects children = List.map_filter (\<lambda>c. case c of RObject d \<Rightarrow> Some d | _ \<Rightarrow> None) children"

definition complete_child :: "(string \<times> raw) list \<Rightarrow> bool" where
  "complete_child d \<longleftrightarrow> raw_get d ''status'' = RText ''complete''"

definition pass_ratio :: "gate_env \<Rightarrow> gate_world \<Rightarrow> (string \<times> raw) list list \<Rightarrow> decimal comp" where
  "pass_ratio env w children =
     cbind (cmapM (child_net_pnl_from_verified_run env w) children) (\<lambda>pnls.
     ret (dquot (of_nat (length (filter (\<lambda>pnl. 0 \<le> pnl) pnls))) (of_nat (length children))))"

definition bootstrap_quantiles :: "raw \<Rightarrow> decimal list comp" where
  "bootstrap_quantiles v =
     (case v of
        RList xs \<Rightarrow> cmapM raw_float xs
      | RText s \<Rightarrow> cmapM raw_float (map (\<lambda>ch. RText [ch]) s)
      | RObject d \<Rightarrow> cmapM raw_float (map (\<lambda>(k, _). RText k) d)
      | _ \<Rightarrow> raise TypeError)"

fun on_config_error :: "string \<Rightarrow> py_error \<Rightarrow> py_error option" where
  "on_config_error msg (ValueError _) = Some (GateEvaluationError msg)"
| "on_config_error msg KeyError = Some (GateEvaluationError msg)"
| "on_config_error msg TypeError = Some (GateEvaluationError msg)"
| "on_config_error msg e = None"

definition bootstrap_config :: "raw \<Rightarrow> (int \<times> int \<times> int \<times> decimal list) comp" where
  "bootstrap_config config =
     (case (if truthy config then config else RObject []) of
        RObject d \<Rightarrow>
          cbind (catching (on_config_error ''robustness_run_ids: incomplete bootstrap config'')
            (cbind (cbind (required d ''block_length'') raw_int) (\<lambda>block_length.
             cbind (cbind (required d ''n_simulations'') raw_int) (\<lambda>n_simulations.
             cbind (cbind (required d ''seed'') raw_int) (\<lambda>seed. ret (block_length, n_simulations, seed)))))) (\<lambda>(block_length, n_simulations, seed).
          cbind (case dict_get d ''quantiles'' of
                   None \<Rightarrow> ret [5 / 100, 5 / 10, 95 / 100]
                 | Some q \<Rightarrow> catching (on_config_error ''robustness_run_ids: invalid bootstrap quantiles'') (bootstrap_quantiles q)) (\<lambda>quantiles.
          ret (block_length, n_simulations, seed, quantiles)))
      | _ \<Rightarrow> raise (GateEvaluationError ''robustness_run_ids: invalid bootstrap config''))"

text \<open>The sealed quantile of the manifest: two nested objects that may be missing.\<close>

definition sealed_bootstrap_q05 :: "(string \<times> raw) list \<Rightarrow> decimal option comp" where
  "sealed_bootstrap_q05 manifest =
     (let or_empty = (\<lambda>v. if truthy v then v else RObject [])
      in cbind (field (or_empty (raw_get manifest ''bootstrap_result'')) ''net_pnl_quantiles'') (\<lambda>quantiles.
         cbind (field (or_empty quantiles) ''q05'') (\<lambda>q05. ret (decimal_measurement q05))))"

definition bootstrap_q05_from_sealed_equity :: "gate_env \<Rightarrow> gate_world \<Rightarrow> string \<Rightarrow> (string \<times> raw) list \<Rightarrow> decimal comp" where
  "bootstrap_q05_from_sealed_equity env w base_run_id manifest =
     cbind (bootstrap_config (raw_get manifest ''config'')) (\<lambda>(block_length, n_simulations, seed, quantiles).
     cbind (catching (on_bad_file ''robustness_run_ids: base checksum mismatch'')
              (catching (on_missing_run ''robustness_run_ids: base run missing'') (verified_run env w base_run_id))) (\<lambda>entry.
     cbind (catching (on_bad_file ''robustness_run_ids: bootstrap recompute failed'')
              (ge_bootstrap env (files_at (gw_registry w) (re_artifact_path entry)) block_length n_simulations seed quantiles)) (\<lambda>stats.
     case decimal_measurement (raw_get stats ''q05'') of
       None \<Rightarrow> raise (GateEvaluationError ''robustness_run_ids: bootstrap q05 missing'')
     | Some recomputed_q05 \<Rightarrow>
         cbind (sealed_bootstrap_q05 manifest) (\<lambda>sealed.
         case sealed of
           None \<Rightarrow> raise (GateEvaluationError ''robustness_run_ids: sealed bootstrap q05 missing'')
         | Some sealed_q05 \<Rightarrow>
             if 1 / 10 ^ 9 < \<bar>dsub sealed_q05 recomputed_q05\<bar>
             then raise (GateEvaluationError ''robustness_run_ids: bootstrap q05 mismatch'')
             else ret recomputed_q05))))"

definition children_of :: "(string \<times> raw) list \<Rightarrow> raw list comp" where
  "children_of manifest =
     (case raw_get manifest ''children'' of
        RList xs \<Rightarrow> ret xs | v \<Rightarrow> if truthy v then raise TypeError else ret [])"

definition measurements_from_robustness_manifest ::
  "gate_env \<Rightarrow> gate_world \<Rightarrow> string \<Rightarrow> (string \<times> raw) list \<Rightarrow> measurements comp" where
  "measurements_from_robustness_manifest env w base_run_id manifest =
     (let test_type = raw_get manifest ''test_type''
      in cbind (children_of manifest) (\<lambda>children.
         let objects = child_objects children
         in if test_type = RText ''walk_forward''
            then let complete = filter complete_child objects
                 in if complete = [] then ret []
                    else cbind (pass_ratio env w complete) (\<lambda>ratio. ret [(''walk_forward_fold_pass_ratio'', ratio)])
            else if test_type = RText ''cost_stress''
            then cfoldl (\<lambda>out child. cbind (child_net_pnl_from_verified_run env w child) (\<lambda>pnl.
                     ret (dict_put ''cost_stress_combined_elevated_net_pnl'' pnl out))) []
                   (filter (\<lambda>c. raw_get c ''child_id'' = RText ''combined_elevated'' \<and> complete_child c) objects)
            else if test_type = RText ''parameter_stability''
            then let neighbors = filter (\<lambda>c. raw_get c ''child_id'' \<noteq> RText ''frozen'' \<and> complete_child c) objects
                 in if neighbors = [] then ret []
                    else cbind (pass_ratio env w neighbors) (\<lambda>ratio. ret [(''parameter_neighbor_pass_ratio'', ratio)])
            else if test_type = RText ''bootstrap''
            then cbind (bootstrap_q05_from_sealed_equity env w base_run_id manifest) (\<lambda>q05. ret [(''bootstrap_q05_net_pnl'', q05)])
            else ret []))"

section \<open>Evidence\<close>

definition resolve_run :: "gate_env \<Rightarrow> gate_world \<Rightarrow> string \<Rightarrow> (registry_entry \<times> run_manifest \<times> research_metrics) comp" where
  "resolve_run env w run_id =
     cbind (catching (on_missing_run ''run_id: not found'') (verified_run env w run_id)) (\<lambda>entry.
     if re_status entry \<noteq> RUN_COMPLETE then raise (GateEvaluationError (''run_id: status='' @ run_status_value (re_status entry)))
     else
     let fs = files_at (gw_registry w) (re_artifact_path entry)
     in cbind (read_run_manifest env fs) (\<lambda>manifest.
        cbind (cbind (read_file fs ''metrics.json'') (load_json env)) (\<lambda>metrics_raw.
        cbind (catching (on_value_error ''run_id: invalid metrics contract'') (validate_metrics_or_mark_invalid (ge_metrics env) metrics_raw)) (\<lambda>metrics.
        ret (entry, manifest, metrics)))))"

definition verify_robustness_job_completed :: "gate_world \<Rightarrow> string \<Rightarrow> unit comp" where
  "verify_robustness_job_completed w robustness_id =
     (case dict_get (gw_jobs w) robustness_id of
        None \<Rightarrow> raise (GateEvaluationError ''robustness_run_ids: job missing'')
      | Some job \<Rightarrow>
          if jb_status job \<noteq> JS_COMPLETED then raise (GateEvaluationError (''robustness_run_ids: status='' @ job_status_value (jb_status job)))
          else if strip (case rb_manifest_content_hash job of None \<Rightarrow> [] | Some h \<Rightarrow> h) = []
          then raise (GateEvaluationError ''robustness_run_ids: manifest_content_hash missing'')
          else ret ())"

text \<open>The seal of a manifest: the hash the job holds, or else the one beside the file.\<close>

definition read_sealed_manifest_hash :: "gate_world \<Rightarrow> string \<Rightarrow> string option" where
  "read_sealed_manifest_hash w robustness_id =
     (case dict_get (gw_manifest_seals w) robustness_id of
        None \<Rightarrow> None | Some content \<Rightarrow> if strip content = [] then None else Some (strip content))"

definition verify_robustness_manifest_seal :: "gate_env \<Rightarrow> gate_world \<Rightarrow> string \<Rightarrow> string option \<Rightarrow> string comp" where
  "verify_robustness_manifest_seal env w robustness_id expected_hash =
     (case dict_get (gw_manifests w) robustness_id of
        None \<Rightarrow> raise (FileNotFoundError (''robustness manifest missing: '' @ robustness_id))
      | Some content \<Rightarrow>
          let current = ge_sha256 env content;
              given = strip (case expected_hash of None \<Rightarrow> [] | Some h \<Rightarrow> h)
          in case (if given = [] then read_sealed_manifest_hash w robustness_id else Some given) of
               None \<Rightarrow> raise (ValueError (''robustness '' @ robustness_id @ '' has no sealed manifest trust anchor''))
             | Some expected \<Rightarrow>
                 if current \<noteq> expected then raise (ValueError (''robustness '' @ robustness_id @ '' manifest content hash mismatch''))
                 else ret current)"

definition verify_job_manifest_seal :: "gate_env \<Rightarrow> gate_world \<Rightarrow> string \<Rightarrow> string comp" where
  "verify_job_manifest_seal env w robustness_id =
     (let sealed = Option.bind (dict_get (gw_jobs w) robustness_id) rb_manifest_content_hash
      in if strip (case sealed of None \<Rightarrow> [] | Some h \<Rightarrow> h) = [] then raise (GateEvaluationError ''robustness_run_ids: job seal missing'')
         else catching (on_bad_file ''robustness_run_ids: manifest seal mismatch'') (verify_robustness_manifest_seal env w robustness_id sealed))"

definition verify_robustness_dataset_binding :: "gate_env \<Rightarrow> (string \<times> raw) list \<Rightarrow> run_manifest \<Rightarrow> unit comp" where
  "verify_robustness_dataset_binding env manifest base =
     (let catalog_id = raw_get manifest ''dataset_catalog_id''; i = raw_str (ge_print env) catalog_id
      in if catalog_id = RNull \<or> strip i = [] then ret ()
         else
         case dict_get (dict_of (map (\<lambda>e. (ce_id e, e)) (ge_catalog env))) i of
           None \<Rightarrow> raise (GateEvaluationError ''robustness_run_ids: unknown dataset_catalog_id'')
         | Some entry \<Rightarrow>
             if ce_dataset_id entry \<noteq> mf_dataset_id base then raise (GateEvaluationError ''robustness_run_ids: dataset_id mismatch'')
             else if ce_content_hash entry \<noteq> mf_dataset_content_hash base
             then raise (GateEvaluationError ''robustness_run_ids: dataset_content_hash mismatch'')
             else ret ())"

definition count_failed :: "(string \<times> raw) list \<Rightarrow> raw list \<Rightarrow> int comp" where
  "count_failed manifest children =
     cbind (field (if truthy (raw_get manifest ''summary'') then raw_get manifest ''summary'' else RObject []) ''n_failed'') (\<lambda>n_failed.
     if n_failed \<noteq> RNull then raw_int n_failed
     else cbind (cmapM (\<lambda>c. field c ''status'') children) (\<lambda>sts.
          ret (int (length (filter (\<lambda>st. st \<noteq> RText ''complete'') sts)))))"

definition verify_robustness_child :: "gate_env \<Rightarrow> gate_world \<Rightarrow> run_manifest \<Rightarrow> raw \<Rightarrow> unit comp" where
  "verify_robustness_child env w base child =
     (case child of
        RObject d \<Rightarrow>
          if raw_get d ''status'' \<noteq> RText ''complete'' then raise (GateEvaluationError ''robustness_run_ids: incomplete children'')
          else if \<not> truthy (raw_get d ''run_id'') then raise (GateEvaluationError ''robustness_run_ids: child run_id missing'')
          else
          cbind (catching (on_value_error ''robustness_run_ids: child checksum mismatch'')
                   (catching (on_missing_run ''robustness_run_ids: child run missing'')
                      (verified_run env w (raw_str (ge_print env) (raw_get d ''run_id''))))) (\<lambda>child_entry.
          if re_status child_entry \<noteq> RUN_COMPLETE then raise (GateEvaluationError ''robustness_run_ids: child run incomplete'')
          else
          cbind (read_run_manifest env (files_at (gw_registry w) (re_artifact_path child_entry))) (\<lambda>m.
          if mf_dataset_id m \<noteq> mf_dataset_id base then raise (GateEvaluationError ''robustness_run_ids: child dataset_id mismatch'')
          else if mf_dataset_content_hash m \<noteq> mf_dataset_content_hash base
          then raise (GateEvaluationError ''robustness_run_ids: child dataset_content_hash mismatch'')
          else ret ()))
      | _ \<Rightarrow> raise (GateEvaluationError ''robustness_run_ids: invalid child''))"

definition verify_robustness_children :: "gate_env \<Rightarrow> gate_world \<Rightarrow> (string \<times> raw) list \<Rightarrow> run_manifest \<Rightarrow> unit comp" where
  "verify_robustness_children env w manifest base =
     (let children = raw_get manifest ''children''
      in case (if truthy children then children else RList []) of
           RList cs \<Rightarrow>
             cbind (count_failed manifest cs) (\<lambda>n_failed.
             if 0 < n_failed then raise (GateEvaluationError ''robustness_run_ids: incomplete children'')
             else cbind (cmapM (verify_robustness_child env w base) cs) (\<lambda>_. ret ()))
         | _ \<Rightarrow> raise (GateEvaluationError ''robustness_run_ids: invalid children''))"

definition ROBUSTNESS_MANIFEST_SCHEMA_VERSION :: string where
  "ROBUSTNESS_MANIFEST_SCHEMA_VERSION = ''1.0''"

definition validate_robustness_manifest ::
  "gate_env \<Rightarrow> gate_world \<Rightarrow> string \<Rightarrow> string \<Rightarrow> run_manifest \<Rightarrow> (string \<times> raw) list \<Rightarrow> unit comp" where
  "validate_robustness_manifest env w robustness_id run_id base d =
     (let base_run_id = raw_get d ''base_run_id''
      in if str_or_empty (ge_print env) (raw_get d ''schema_version'') \<noteq> ROBUSTNESS_MANIFEST_SCHEMA_VERSION
         then raise (GateEvaluationError ''robustness_run_ids: unsupported schema_version'')
         else if str_or_empty (ge_print env) (raw_get d ''robustness_id'') \<noteq> robustness_id
         then raise (GateEvaluationError ''robustness_run_ids: robustness_id mismatch'')
         else if base_run_id = RNull \<or> raw_str (ge_print env) base_run_id \<noteq> run_id
         then raise (GateEvaluationError ''robustness_run_ids: base_run_id mismatch'')
         else
         cbind (verify_robustness_dataset_binding env d base) (\<lambda>_.
         verify_robustness_children env w d base))"

record evidence =
  ev_manifests :: "(string, (string \<times> raw) list) dict"
  ev_checksums :: checksums
  ev_test_types :: "(string, string) dict"

definition load_evidence_of :: "gate_env \<Rightarrow> gate_world \<Rightarrow> string \<Rightarrow> run_manifest \<Rightarrow> evidence \<Rightarrow> string \<Rightarrow> evidence comp" where
  "load_evidence_of env w run_id base ev robustness_id =
     (case dict_get (gw_manifests w) robustness_id of
        None \<Rightarrow> raise (GateEvaluationError (''robustness_run_ids: missing: '' @ robustness_id))
      | Some content \<Rightarrow>
          cbind (verify_robustness_job_completed w robustness_id) (\<lambda>_.
          cbind (verify_job_manifest_seal env w robustness_id) (\<lambda>seal_digest.
          cbind (load_json env content) (\<lambda>v.
          case v of
            RObject d \<Rightarrow>
              cbind (validate_robustness_manifest env w robustness_id run_id base d) (\<lambda>_.
              let test_type = str_or_empty (ge_print env) (raw_get d ''test_type'')
              in if test_type = [] then raise (GateEvaluationError ''robustness_run_ids: missing test_type'')
                 else if dict_get (ev_test_types ev) test_type \<noteq> None
                 then raise (GateEvaluationError (''robustness_run_ids: duplicate test_type='' @ test_type))
                 else ret \<lparr>ev_manifests = dict_put robustness_id d (ev_manifests ev),
                           ev_checksums = dict_put (seal_key robustness_id) seal_digest (ev_checksums ev),
                           ev_test_types = dict_put test_type robustness_id (ev_test_types ev)\<rparr>)
          | _ \<Rightarrow> raise (GateEvaluationError ''robustness_run_ids: invalid manifest'')))))"

definition load_robustness_evidence :: "gate_env \<Rightarrow> gate_world \<Rightarrow> string list \<Rightarrow> string \<Rightarrow> run_manifest \<Rightarrow> evidence comp" where
  "load_robustness_evidence env w robustness_run_ids run_id base =
     (if \<not> distinct robustness_run_ids then raise (GateEvaluationError ''robustness_run_ids: duplicates'')
      else cfoldl (load_evidence_of env w run_id base) \<lparr>ev_manifests = [], ev_checksums = [], ev_test_types = []\<rparr> robustness_run_ids)"

section \<open>Evaluation\<close>

definition merge_measurements :: "measurements \<Rightarrow> measurements \<Rightarrow> measurements" where
  "merge_measurements ms new = foldl (\<lambda>d (k, v). dict_put k v d) ms new"

definition manifest_order :: "gate_env \<Rightarrow> evidence \<Rightarrow> (string \<times> (string \<times> raw) list) list" where
  "manifest_order env ev =
     sort_key (\<lambda>(i, d). let v = raw_get d ''test_type'' in raw_str (ge_print env) (if truthy v then v else RText i)) (ev_manifests ev)"

definition all_measurements :: "gate_env \<Rightarrow> gate_world \<Rightarrow> string \<Rightarrow> research_metrics \<Rightarrow> evidence \<Rightarrow> measurements comp" where
  "all_measurements env w run_id metrics ev =
     cfoldl (\<lambda>ms (i, d). cbind (measurements_from_robustness_manifest env w run_id d) (\<lambda>new. ret (merge_measurements ms new)))
       (measurements_from_metrics metrics) (manifest_order env ev)"

definition evaluate_gate :: "gate_env \<Rightarrow> measurements \<Rightarrow> gate_definition \<Rightarrow> gate_result comp" where
  "evaluate_gate env ms g =
     (case dict_get ms (gd_metric g) of
        None \<Rightarrow> ret (make_gate_result g None GO_NOT_AVAILABLE
                  (''no evidence available for metric '' @ gd_metric g @ '' (NOT_AVAILABLE; never PASS)''))
      | Some measured \<Rightarrow>
          (case dec_of_text (gd_threshold g) of
             None \<Rightarrow> raise InvalidOperation
           | Some threshold \<Rightarrow>
               cbind (evaluate_comparator (gd_comparator g) measured threshold) (\<lambda>passed.
               ret (make_gate_result g (Some (ge_format env measured)) (if passed then GO_PASS else GO_FAIL)
                 (if passed then ''pass''
                  else gd_name g @ '': measured '' @ ge_str env measured @ '' does not satisfy '' @ gd_comparator g @ '' '' @ gd_threshold g)))))"

definition build_gate_record ::
  "gate_env \<Rightarrow> string \<Rightarrow> gate_policy \<Rightarrow> registry_entry \<Rightarrow> run_manifest \<Rightarrow> string \<Rightarrow> string list \<Rightarrow> checksums \<Rightarrow> measurements \<Rightarrow>
   gate_result list \<Rightarrow> gate_run_record" where
  "build_gate_record env run_id policy entry manifest evaluation_code_commit robustness_run_ids artifact_checksums ms gate_results =
     (let checks = build_integrity_checks manifest entry artifact_checksums evaluation_code_commit robustness_run_ids;
          policy_hash = compute_policy_content_hash env policy
      in \<lparr>gg_schema_version = ''1.1'',
          gg_gate_run_id = compute_gate_run_id env run_id (gp_version policy) policy_hash (sort robustness_run_ids),
          gg_policy_version = gp_version policy, gg_policy_content_hash = policy_hash, gg_evaluated_at = ge_now env,
          gg_run_code_commit = mf_git_commit manifest, gg_evaluation_code_commit = evaluation_code_commit,
          gg_experiment_id = re_experiment_id entry, gg_run_id = run_id, gg_robustness_run_ids = sort robustness_run_ids,
          gg_dataset_id = mf_dataset_id manifest, gg_dataset_content_hash = mf_dataset_content_hash manifest,
          gg_artifact_checksums = artifact_checksums, gg_measurements = map (\<lambda>(k, v). (k, ge_format env v)) ms,
          gg_gates = gate_results, gg_overall_status = overall_status_from_gates gate_results, gg_promotion_action = ''none'',
          gg_status = GATE_ACTIVE, gg_invalidation_reason = None, gg_integrity_status = summarize_integrity_status checks,
          gg_integrity_checks = checks\<rparr>)"

definition gate_record_of :: "gate_env \<Rightarrow> gate_world \<Rightarrow> string \<Rightarrow> string \<Rightarrow> string list \<Rightarrow> gate_run_record comp" where
  "gate_record_of env w run_id policy_version robustness_run_ids =
     cbind (catching (\<lambda>_. Some (GateEvaluationError ''policy_version: unknown'')) (get_policy policy_version)) (\<lambda>policy.
     cbind (resolve_run env w run_id) (\<lambda>(entry, manifest, metrics).
     cbind (load_robustness_evidence env w robustness_run_ids run_id manifest) (\<lambda>ev.
     cbind (all_measurements env w run_id metrics ev) (\<lambda>ms.
     cbind (cmapM (evaluate_gate env ms) (gp_gates policy)) (\<lambda>gate_results.
     cbind (resolve_evaluation_code_commit env) (\<lambda>evaluation_code_commit.
     ret (build_gate_record env run_id policy entry manifest evaluation_code_commit robustness_run_ids
       (foldl (\<lambda>d (k, v). dict_put k v d) (re_checksums entry) (ev_checksums ev)) ms gate_results)))))))"

definition gate_evaluate :: "gate_env \<Rightarrow> string \<Rightarrow> string \<Rightarrow> string list \<Rightarrow> gate_world \<Rightarrow> (gate_run_record \<times> gate_world) comp" where
  "gate_evaluate env run_id policy_version robustness_run_ids w =
     cbind (gate_record_of env w run_id policy_version robustness_run_ids) (\<lambda>record.
     case gate_get (gw_store w) (gg_gate_run_id record) of
       Some existing \<Rightarrow>
         if gg_status existing = GATE_ACTIVE then ret (existing, w)
         else raise (GateEvaluationError ''gate_run_id: invalidated'')
     | None \<Rightarrow>
         cbind (catching (on_value_error ''gate_run_id: append rejected'') (gate_append record (gw_store w))) (\<lambda>store.
         ret (record, w\<lparr>gw_store := store\<rparr>)))"

end
