(* ===== verification/Gate_Properties.thy ===== *)
theory Gate_Properties
  imports Research_Gates
begin

text \<open>
  What the gates promise: a gate passes only on a measured value that satisfies it, a result says nothing about
  trusted scores, an invalidated result stays invalidated, and a new result is bound to evidence that was
  checked.
\<close>

section \<open>Results\<close>

lemma catching_ret [simp]: "catching h m = ret x \<longleftrightarrow> m = ret x"
  by (auto simp: catching_def ret_def raise_def split: option.splits sum.splits)

lemma catching_of_ret [simp]: "catching h (ret x) = ret x"
  by simp

lemma catching_raise [simp]: "catching h (raise e) = raise (case h e of None \<Rightarrow> e | Some e' \<Rightarrow> e')"
  by (simp add: catching_def raise_def split: option.splits)

lemma make_gate_result_fields [simp]:
  "gr_outcome (make_gate_result g v out reason) = out" "gr_passed (make_gate_result g v out reason) = (out = GO_PASS)"
  "gr_category (make_gate_result g v out reason) = gd_category g" "gr_name (make_gate_result g v out reason) = gd_name g"
  "gr_measured_value (make_gate_result g v out reason) = v"
  by (simp_all add: make_gate_result_def)

lemma evaluate_gate_ret:
  assumes "evaluate_gate env ms g = ret r"
  shows "gr_passed r = (gr_outcome r = GO_PASS)" and "gr_category r = gd_category g" and "gr_name r = gd_name g"
    and "gr_outcome r = GO_PASS \<longleftrightarrow> (\<exists>m t. dict_get ms (gd_metric g) = Some m \<and> dec_of_text (gd_threshold g) = Some t \<and>
      evaluate_comparator (gd_comparator g) m t = ret True)"
    and "dict_get ms (gd_metric g) = None \<longleftrightarrow> gr_outcome r = GO_NOT_AVAILABLE"
  using assms by (auto simp: evaluate_gate_def cbind_eq_ret split: option.splits if_splits)

lemma overall_pass_iff:
  assumes "\<forall>r \<in> set rs. gr_passed r = (gr_outcome r = GO_PASS)" and "\<forall>r \<in> set rs. gr_category r = [] \<or> is_critical_category (gr_category r)"
  shows "overall_status_from_gates rs = OVERALL_PASS \<longleftrightarrow> rs \<noteq> [] \<and> (\<forall>r \<in> set rs. gr_outcome r = GO_PASS)"
  using assms by (auto simp: overall_status_from_gates_def list_ex_iff list_all_iff)

lemma integrity_never_valid: "summarize_integrity_status (build_integrity_checks m e cs c rids) \<noteq> INTEGRITY_VALID"
  by (simp add: summarize_integrity_status_def build_integrity_checks_def not_verifiable_def)

text \<open>The registered policies: every gate asks for a minimum, and its category is critical where it has one.\<close>

definition minimum_gate :: "gate_definition \<Rightarrow> bool" where
  "minimum_gate g \<longleftrightarrow> gd_comparator g = ''gte'' \<and> (gd_category g = [] \<or> is_critical_category (gd_category g))"

lemma minimum_gates: "list_all minimum_gate GATES_1_0" "list_all minimum_gate GATES_1_1" "GATES_1_0 \<noteq> []" "GATES_1_1 \<noteq> []"
  by code_simp+

lemma registered_policy:
  assumes "get_policy version = ret p"
  shows "list_all minimum_gate (gp_gates p)" and "gp_gates p \<noteq> []" and "gp_version p = version"
proof -
  from assms have "dict_get POLICY_REGISTRY version = Some p" by (auto simp: get_policy_def split: option.splits)
  then have "gp_gates p \<in> {GATES_1_0, GATES_1_1}" "gp_version p = version"
    unfolding POLICY_REGISTRY_def by (simp_all only: map_of.simps fun_upd_apply fst_conv snd_conv split: if_splits) auto
  then show "list_all minimum_gate (gp_gates p)" "gp_gates p \<noteq> []" "gp_version p = version" using minimum_gates by auto
qed

lemma registered_gates:
  assumes "get_policy version = ret p" and "g \<in> set (gp_gates p)"
  shows "gd_comparator g = ''gte''" and "gd_category g = [] \<or> is_critical_category (gd_category g)"
  using registered_policy(1) [OF assms(1)] assms(2) by (auto simp: list_all_iff minimum_gate_def)

text \<open>What a record says, by the measurements it was made of.\<close>

definition judged :: "(decimal \<Rightarrow> string) \<Rightarrow> gate_run_record \<Rightarrow> bool" where
  "judged fmt r \<longleftrightarrow> (\<exists>env ms p. ge_format env = fmt \<and> get_policy (gg_policy_version r) = ret p \<and> cmapM (evaluate_gate env ms) (gp_gates p) = ret (gg_gates r) \<and>
     gg_measurements r = map (\<lambda>(k, v). (k, fmt v)) ms \<and> gg_overall_status r = overall_status_from_gates (gg_gates r))"

definition record_sound :: "(decimal \<Rightarrow> string) \<Rightarrow> gate_run_record \<Rightarrow> bool" where
  "record_sound fmt r \<longleftrightarrow> judged fmt r \<and> gg_promotion_action r = ''none'' \<and> gg_integrity_status r \<noteq> INTEGRITY_VALID"

lemma list_all2_members:
  assumes "list_all2 P xs ys"
  shows "y \<in> set ys \<Longrightarrow> \<exists>x \<in> set xs. P x y" and "x \<in> set xs \<Longrightarrow> \<exists>y \<in> set ys. P x y"
  using assms by (induction rule: list_all2_induct) auto

lemma judged_pass:
  assumes "judged fmt r" and "get_policy (gg_policy_version r) = ret p"
  shows "gg_overall_status r = OVERALL_PASS \<longleftrightarrow> (\<forall>x \<in> set (gg_gates r). gr_outcome x = GO_PASS)"
    and "map gr_name (gg_gates r) = map gd_name (gp_gates p)"
    and "gg_overall_status r = OVERALL_PASS \<Longrightarrow> g \<in> set (gp_gates p) \<Longrightarrow>
      \<exists>m t. dict_get (gg_measurements r) (gd_metric g) = Some (fmt m) \<and> dec_of_text (gd_threshold g) = Some t \<and> t \<le> m"
proof -
  from assms obtain env ms where all: "list_all2 (\<lambda>g x. evaluate_gate env ms g = ret x) (gp_gates p) (gg_gates r)"
    and ms: "gg_measurements r = map (\<lambda>(k, v). (k, fmt v)) ms"
    and overall: "gg_overall_status r = overall_status_from_gates (gg_gates r)"
    by (auto simp: judged_def cmapM_eq_ret)
  have each: "\<exists>g \<in> set (gp_gates p). evaluate_gate env ms g = ret x" if "x \<in> set (gg_gates r)" for x
    using list_all2_members(1) [OF all that] .
  have "gg_gates r \<noteq> []" using all registered_policy(2) [OF assms(2)] by auto
  moreover have "\<forall>x \<in> set (gg_gates r). gr_passed x = (gr_outcome x = GO_PASS)"
    using each by (auto dest: evaluate_gate_ret(1))
  moreover have "\<forall>x \<in> set (gg_gates r). gr_category x = [] \<or> is_critical_category (gr_category x)"
  proof
    fix x
    assume "x \<in> set (gg_gates r)"
    from each [OF this] obtain g where "g \<in> set (gp_gates p)" "evaluate_gate env ms g = ret x" by blast
    then show "gr_category x = [] \<or> is_critical_category (gr_category x)"
      using evaluate_gate_ret(2) registered_gates(2) [OF assms(2)] by simp
  qed
  ultimately show iff: "gg_overall_status r = OVERALL_PASS \<longleftrightarrow> (\<forall>x \<in> set (gg_gates r). gr_outcome x = GO_PASS)"
    using overall_pass_iff overall by simp
  show "map gr_name (gg_gates r) = map gd_name (gp_gates p)"
    using all by (induction rule: list_all2_induct) (auto dest: evaluate_gate_ret(3))
  show "\<exists>m t. dict_get (gg_measurements r) (gd_metric g) = Some (fmt m) \<and> dec_of_text (gd_threshold g) = Some t \<and> t \<le> m"
    if pass: "gg_overall_status r = OVERALL_PASS" and g: "g \<in> set (gp_gates p)"
  proof -
    from list_all2_members(2) [OF all g] obtain x where x: "x \<in> set (gg_gates r)" "evaluate_gate env ms g = ret x" by blast
    then have "gr_outcome x = GO_PASS" using pass iff by blast
    then obtain m t where m: "dict_get ms (gd_metric g) = Some m" "dec_of_text (gd_threshold g) = Some t"
      "evaluate_comparator (gd_comparator g) m t = ret True"
      using evaluate_gate_ret(4) [OF x(2)] by blast
    have "t \<le> m" using m(3) by (simp add: evaluate_comparator_def registered_gates(1) [OF assms(2) g] COMPARATORS_def)
    moreover have "dict_get (gg_measurements r) (gd_metric g) = Some (fmt m)"
      unfolding ms using m(1) by (simp add: map_of_map)
    ultimately show ?thesis using m(2) by blast
  qed
qed

section \<open>Records of an evaluation\<close>

lemma gate_record_ret:
  assumes "gate_record_of env w run_id version rids = ret r"
  obtains policy entry manifest metrics ev ms results commit where
    "get_policy version = ret policy" "resolve_run env w run_id = ret (entry, manifest, metrics)"
    "load_robustness_evidence env w rids run_id manifest = ret ev" "all_measurements env w run_id metrics ev = ret ms"
    "cmapM (evaluate_gate env ms) (gp_gates policy) = ret results"
    "r = build_gate_record env run_id policy entry manifest commit rids
       (foldl (\<lambda>d (k, v). dict_put k v d) (re_checksums entry) (ev_checksums ev)) ms results"
  using assms by (auto simp: gate_record_of_def cbind_eq_ret)

lemma gate_record_sound:
  assumes "gate_record_of env w run_id version rids = ret r"
  shows "record_sound (ge_format env) r" and "gg_status r = GATE_ACTIVE"
proof -
  from assms obtain policy entry manifest metrics ev ms results commit where parts:
    "get_policy version = ret policy" "resolve_run env w run_id = ret (entry, manifest, metrics)"
    "load_robustness_evidence env w rids run_id manifest = ret ev" "all_measurements env w run_id metrics ev = ret ms"
    "cmapM (evaluate_gate env ms) (gp_gates policy) = ret results"
    "r = build_gate_record env run_id policy entry manifest commit rids
       (foldl (\<lambda>d (k, v). dict_put k v d) (re_checksums entry) (ev_checksums ev)) ms results"
    by (rule gate_record_ret)
  have "gp_version policy = version" by (rule registered_policy(3) [OF parts(1)])
  then have "judged (ge_format env) r"
    unfolding judged_def using parts(1,5) by (intro exI [of _ env] exI [of _ ms] exI [of _ policy]) (simp add: parts(6) build_gate_record_def Let_def)
  then show "record_sound (ge_format env) r" "gg_status r = GATE_ACTIVE"
    using integrity_never_valid by (simp_all add: record_sound_def parts(6) build_gate_record_def Let_def)
qed

section \<open>Histories of the store\<close>

text \<open>The steps: an evaluation, an invalidation, one that stops between its two writes, and anything that leaves the store alone.\<close>

inductive gate_step :: "(decimal \<Rightarrow> string) \<Rightarrow> gate_world \<Rightarrow> gate_world \<Rightarrow> bool" for fmt :: "decimal \<Rightarrow> string" where
  evaluated: "ge_format env = fmt \<Longrightarrow> gate_evaluate env run_id version rids w = ret (r, w') \<Longrightarrow> gate_step fmt w w'"
| invalidated: "gate_invalidate i reason (gw_store w) = ret s \<Longrightarrow> gate_step fmt w (w\<lparr>gw_store := s\<rparr>)"
| interrupted: "gate_step fmt w (w\<lparr>gw_store := (gw_store w)\<lparr>gs_sidecars := append_sidecar i (gs_sidecars (gw_store w))\<rparr>\<rparr>)"
| elsewhere: "gw_store w' = gw_store w \<Longrightarrow> gate_step fmt w w'"

lemma gate_append_ret:
  assumes "gate_append r s = ret s'"
  shows "s' = s\<lparr>gs_log := gs_log s @ [r]\<rparr>" and "\<not> sidecar_marks_invalidated (gs_sidecars s) (gg_gate_run_id r)"
    and "\<forall>e \<in> set (gs_log s). gg_gate_run_id e \<noteq> gg_gate_run_id r"
  using assms by (auto simp: gate_append_def gate_get_def filter_empty_conv split: if_splits option.splits list.splits)

lemma gate_get_Some:
  assumes "gate_get s i = Some r"
  obtains e where "e \<in> set (gs_log s)" "gg_gate_run_id e = i" "r = apply_gate_sidecar (gs_sidecars s) e"
proof -
  let ?ms = "filter (\<lambda>e. gg_gate_run_id e = i) (gs_log s)"
  from assms have "?ms \<noteq> []" "r = apply_gate_sidecar (gs_sidecars s) (last ?ms)" by (auto simp: gate_get_def split: list.splits)
  moreover from this(1) have "last ?ms \<in> set ?ms" by (rule last_in_set)
  ultimately show ?thesis using that by auto
qed

lemma sidecar_ident [simp]: "gg_gate_run_id (apply_gate_sidecar sc e) = gg_gate_run_id e"
  by (simp add: apply_gate_sidecar_def)

lemma gate_evaluate_ret:
  assumes "gate_evaluate env run_id version rids w = ret (r, w')"
  obtains (old) "w' = w" "gate_get (gw_store w) (gg_gate_run_id r) = Some r" "gg_status r = GATE_ACTIVE"
  | (new) "gate_record_of env w run_id version rids = ret r" "gate_append r (gw_store w) = ret (gw_store w')"
    "w' = w\<lparr>gw_store := gw_store w'\<rparr>" "gate_get (gw_store w) (gg_gate_run_id r) = None"
proof -
  from assms obtain fresh where made: "gate_record_of env w run_id version rids = ret fresh"
    and rest: "(case gate_get (gw_store w) (gg_gate_run_id fresh) of
       Some existing \<Rightarrow> if gg_status existing = GATE_ACTIVE then ret (existing, w) else raise (GateEvaluationError ''gate_run_id: invalidated'')
     | None \<Rightarrow> cbind (catching (on_value_error ''gate_run_id: append rejected'') (gate_append fresh (gw_store w))) (\<lambda>store.
         ret (fresh, w\<lparr>gw_store := store\<rparr>))) = ret (r, w')"
    by (auto simp: gate_evaluate_def cbind_eq_ret)
  show ?thesis
  proof (cases "gate_get (gw_store w) (gg_gate_run_id fresh)")
    case None
    then show ?thesis using rest made new by (auto simp: cbind_eq_ret)
  next
    case (Some existing)
    then have "r = existing" "w' = w" "gg_status existing = GATE_ACTIVE" using rest by (auto split: if_splits)
    moreover have "gg_gate_run_id existing = gg_gate_run_id fresh"
      using Some by (auto elim: gate_get_Some)
    ultimately show ?thesis using Some old by simp
  qed
qed

lemma gate_invalidate_ret:
  assumes "gate_invalidate i reason s = ret s'"
  obtains e where "e \<in> set (gs_log s)" "gg_gate_run_id e = i" "\<not> sidecar_marks_invalidated (gs_sidecars s) i"
    "s' = s\<lparr>gs_sidecars := append_sidecar i (gs_sidecars s),
       gs_log := gs_log s @ [e\<lparr>gg_status := GATE_INVALIDATED, gg_invalidation_reason := Some reason\<rparr>]\<rparr>"
proof -
  from assms obtain r where r: "gate_get s i = Some r" "gg_status r \<noteq> GATE_INVALIDATED"
    "s' = s\<lparr>gs_sidecars := append_sidecar i (gs_sidecars s),
       gs_log := gs_log s @ [r\<lparr>gg_status := GATE_INVALIDATED, gg_invalidation_reason := Some reason\<rparr>]\<rparr>"
    by (auto simp: gate_invalidate_def split: option.splits if_splits)
  from r(1) obtain e where e: "e \<in> set (gs_log s)" "gg_gate_run_id e = i" "r = apply_gate_sidecar (gs_sidecars s) e" by (rule gate_get_Some)
  have "\<not> sidecar_marks_invalidated (gs_sidecars s) i" using r(2) e(2) by (auto simp: e(3) apply_gate_sidecar_def)
  then have "r = e" using e(2) by (simp add: e(3) apply_gate_sidecar_def)
  with r(3) e(1,2) \<open>\<not> sidecar_marks_invalidated (gs_sidecars s) i\<close> show ?thesis using that by blast
qed

interpretation gates_log: invalidation_log "\<lambda>w. gs_log (gw_store w)" gg_gate_run_id "\<lambda>e. gg_status e = GATE_ACTIVE"
    "\<lambda>w. sidecar_marks_invalidated (gs_sidecars (gw_store w))" "gate_step fmt" for fmt
proof
  fix w w' i
  assume "gate_step fmt w w'" "sidecar_marks_invalidated (gs_sidecars (gw_store w)) i"
  then show "sidecar_marks_invalidated (gs_sidecars (gw_store w')) i"
    by cases (auto elim!: gate_evaluate_ret gate_invalidate_ret dest!: gate_append_ret(1))
next
  fix w w'
  assume "gate_step fmt w w'"
  then show "gs_log (gw_store w') = gs_log (gw_store w) \<or> (\<exists>e. gs_log (gw_store w') = gs_log (gw_store w) @ [e] \<and>
      (gg_status e = GATE_ACTIVE \<longrightarrow> \<not> sidecar_marks_invalidated (gs_sidecars (gw_store w)) (gg_gate_run_id e) \<and>
        (\<forall>x \<in> set (gs_log (gw_store w)). gg_gate_run_id x = gg_gate_run_id e \<longrightarrow> gg_status x \<noteq> GATE_ACTIVE)))"
  proof cases
    case (evaluated env run_id version rids r)
    from evaluated(2) show ?thesis
    proof (cases rule: gate_evaluate_ret)
      case new
      from gate_append_ret [OF new(2)] show ?thesis by simp
    qed simp
  next
    case (invalidated i reason s)
    from invalidated(2) obtain e where "s = (gw_store w)\<lparr>gs_sidecars := append_sidecar i (gs_sidecars (gw_store w)),
       gs_log := gs_log (gw_store w) @ [e\<lparr>gg_status := GATE_INVALIDATED, gg_invalidation_reason := Some reason\<rparr>]\<rparr>"
      by (rule gate_invalidate_ret)
    then show ?thesis by (simp add: invalidated(1))
  qed auto
qed

text \<open>Every record of the log was made by an evaluation; an invalidation changes its status only.\<close>

definition all_sound :: "(decimal \<Rightarrow> string) \<Rightarrow> gate_world \<Rightarrow> bool" where
  "all_sound fmt w \<longleftrightarrow> (\<forall>e \<in> set (gs_log (gw_store w)). record_sound fmt e)"

lemma sound_status: "record_sound fmt (e\<lparr>gg_status := st, gg_invalidation_reason := reason\<rparr>) \<longleftrightarrow> record_sound fmt e"
  by (simp add: record_sound_def judged_def)

lemma step_sound:
  assumes "gate_step fmt w w'" and "all_sound fmt w"
  shows "all_sound fmt w'"
  using assms(1)
proof cases
  case (evaluated env run_id version rids r)
  from evaluated(2) show ?thesis
  proof (cases rule: gate_evaluate_ret)
    case new
    from gate_append_ret(1) [OF new(2)] gate_record_sound(1) [OF new(1)] evaluated(1) assms(2) show ?thesis by (auto simp: all_sound_def)
  qed (use assms(2) in simp)
next
  case (invalidated i reason s)
  from invalidated(2) obtain e where "e \<in> set (gs_log (gw_store w))" "s = (gw_store w)\<lparr>gs_sidecars := append_sidecar i (gs_sidecars (gw_store w)),
     gs_log := gs_log (gw_store w) @ [e\<lparr>gg_status := GATE_INVALIDATED, gg_invalidation_reason := Some reason\<rparr>]\<rparr>"
    by (rule gate_invalidate_ret)
  then show ?thesis using assms(2) by (auto simp: all_sound_def invalidated(1) sound_status)
qed (use assms(2) in \<open>auto simp: all_sound_def\<close>)

lemma steps_sound: "(gate_step fmt)\<^sup>*\<^sup>* w w' \<Longrightarrow> all_sound fmt w \<Longrightarrow> all_sound fmt w'"
  by (induction rule: rtranclp_induct) (auto intro: step_sound)

lemma get_sound:
  assumes "all_sound fmt w" and "gate_get (gw_store w) i = Some r"
  shows "record_sound fmt r"
proof -
  from assms(2) obtain e where "e \<in> set (gs_log (gw_store w))" "r = apply_gate_sidecar (gs_sidecars (gw_store w)) e"
    by (rule gate_get_Some)
  then show ?thesis using assms(1) by (auto simp: all_sound_def apply_gate_sidecar_def sound_status)
qed

lemma gate_get_exists: "gate_get s i \<noteq> None \<longleftrightarrow> (\<exists>e \<in> set (gs_log s). gg_gate_run_id e = i)"
proof -
  have "gate_get s i = None \<longleftrightarrow> filter (\<lambda>e. gg_gate_run_id e = i) (gs_log s) = []"
    by (simp add: gate_get_def split: list.split)
  then show ?thesis by (simp add: filter_empty_conv)
qed

lemma get_kept:
  assumes "(gate_step fmt)\<^sup>*\<^sup>* w w'" and "gate_get (gw_store w) i \<noteq> None"
  shows "gate_get (gw_store w') i \<noteq> None"
  using gates_log.append_only [OF assms(1)] assms(2) unfolding gate_get_exists by (auto dest: set_mono_prefix)

text \<open>An invalidated result cannot be had again: it is reported as invalidated, and its evaluation is refused.\<close>

lemma get_marked:
  assumes "sidecar_marks_invalidated (gs_sidecars s) i" and "gate_get s i = Some r"
  shows "gg_status r = GATE_INVALIDATED"
  using assms by (auto simp: apply_gate_sidecar_def elim!: gate_get_Some)

lemma evaluate_marked:
  assumes "sidecar_marks_invalidated (gs_sidecars (gw_store w)) (gg_gate_run_id r)"
    and "gate_record_of env w run_id version rids = ret r"
  shows "\<exists>msg. gate_evaluate env run_id version rids w = raise (GateEvaluationError msg)"
proof (cases "gate_get (gw_store w) (gg_gate_run_id r)")
  case None
  then show ?thesis using assms by (simp add: gate_evaluate_def gate_append_def) blast
next
  case (Some x)
  then show ?thesis using assms(2) get_marked [OF assms(1) Some] by (simp add: gate_evaluate_def) blast
qed

section \<open>Evidence\<close>

text \<open>
  A robustness manifest that is bound: its job is completed and holds the hash of the manifest, and the
  manifest is one of the evaluated run.
\<close>

definition manifest_bound :: "gate_env \<Rightarrow> gate_world \<Rightarrow> string \<Rightarrow> string \<Rightarrow> bool" where
  "manifest_bound env w run_id rid \<longleftrightarrow>
     (\<exists>job seal content d. dict_get (gw_jobs w) rid = Some job \<and> jb_status job = JS_COMPLETED \<and>
        rb_manifest_content_hash job = Some seal \<and> dict_get (gw_manifests w) rid = Some content \<and>
        ge_sha256 env content = strip seal \<and> ge_loads env content = Some (RObject d) \<and>
        str_or_empty (ge_print env) (raw_get d ''robustness_id'') = rid \<and> raw_str (ge_print env) (raw_get d ''base_run_id'') = run_id)"

definition sealed_by :: "gate_env \<Rightarrow> gate_world \<Rightarrow> evidence \<Rightarrow> bool" where
  "sealed_by env w ev \<longleftrightarrow> distinct (dict_keys (ev_checksums ev)) \<and>
     (\<forall>rid h. dict_get (ev_checksums ev) (seal_key rid) = Some h \<longrightarrow>
        (\<exists>content. dict_get (gw_manifests w) rid = Some content \<and> h = ge_sha256 env content))"

lemma seal_key_inj [simp]: "seal_key a = seal_key b \<longleftrightarrow> a = b"
  by (simp add: seal_key_def)

lemma job_seal_ret:
  assumes "verify_job_manifest_seal env w rid = ret h" and "dict_get (gw_manifests w) rid = Some content"
    and "dict_get (gw_jobs w) rid = Some job"
  shows "\<exists>seal. rb_manifest_content_hash job = Some seal \<and> h = ge_sha256 env content \<and> h = strip seal"
  using assms by (auto simp: verify_job_manifest_seal_def verify_robustness_manifest_seal_def Let_def split: option.splits if_splits)

lemma load_evidence_ret:
  assumes "load_evidence_of env w run_id base ev rid = ret ev'"
  obtains content h d t where "dict_get (gw_manifests w) rid = Some content" "verify_robustness_job_completed w rid = ret ()"
    "verify_job_manifest_seal env w rid = ret h" "ge_loads env content = Some (RObject d)"
    "validate_robustness_manifest env w rid run_id base d = ret ()"
    "ev' = \<lparr>ev_manifests = dict_put rid d (ev_manifests ev), ev_checksums = dict_put (seal_key rid) h (ev_checksums ev),
       ev_test_types = dict_put t rid (ev_test_types ev)\<rparr>"
proof -
  from assms obtain content h v where loaded: "dict_get (gw_manifests w) rid = Some content"
    "verify_robustness_job_completed w rid = ret ()" "verify_job_manifest_seal env w rid = ret h" "ge_loads env content = Some v"
    and rest: "(case v of
            RObject d \<Rightarrow>
              cbind (validate_robustness_manifest env w rid run_id base d) (\<lambda>_.
              let test_type = str_or_empty (ge_print env) (raw_get d ''test_type'')
              in if test_type = [] then raise (GateEvaluationError ''robustness_run_ids: missing test_type'')
                 else if dict_get (ev_test_types ev) test_type \<noteq> None
                 then raise (GateEvaluationError (''robustness_run_ids: duplicate test_type='' @ test_type))
                 else ret \<lparr>ev_manifests = dict_put rid d (ev_manifests ev),
                           ev_checksums = dict_put (seal_key rid) h (ev_checksums ev),
                           ev_test_types = dict_put test_type rid (ev_test_types ev)\<rparr>)
          | _ \<Rightarrow> raise (GateEvaluationError ''robustness_run_ids: invalid manifest'')) = ret ev'"
    unfolding load_evidence_of_def load_json_def by (cases "dict_get (gw_manifests w) rid") (auto simp: cbind_eq_ret split: option.splits)
  from rest obtain d t where parsed: "v = RObject d" "validate_robustness_manifest env w rid run_id base d = ret ()"
    "ev' = \<lparr>ev_manifests = dict_put rid d (ev_manifests ev), ev_checksums = dict_put (seal_key rid) h (ev_checksums ev),
       ev_test_types = dict_put t rid (ev_test_types ev)\<rparr>"
    by (cases v) (auto simp: Let_def cbind_eq_ret split: if_splits)
  from that [OF loaded(1-3) loaded(4) [unfolded parsed(1)] parsed(2,3)] show ?thesis .
qed

lemma load_evidence_step:
  assumes "load_evidence_of env w run_id base ev rid = ret ev'"
  shows "manifest_bound env w run_id rid" and "sealed_by env w ev \<Longrightarrow> sealed_by env w ev'"
    and "dict_get (ev_checksums ev') (seal_key rid) \<noteq> None"
    and "dict_get (ev_checksums ev) k \<noteq> None \<Longrightarrow> dict_get (ev_checksums ev') k \<noteq> None"
proof -
  from assms obtain content h d t where parts: "dict_get (gw_manifests w) rid = Some content" "verify_robustness_job_completed w rid = ret ()"
    "verify_job_manifest_seal env w rid = ret h" "ge_loads env content = Some (RObject d)"
    "validate_robustness_manifest env w rid run_id base d = ret ()"
    "ev' = \<lparr>ev_manifests = dict_put rid d (ev_manifests ev), ev_checksums = dict_put (seal_key rid) h (ev_checksums ev),
       ev_test_types = dict_put t rid (ev_test_types ev)\<rparr>"
    by (rule load_evidence_ret)
  from parts(2) obtain job where job: "dict_get (gw_jobs w) rid = Some job" "jb_status job = JS_COMPLETED"
    by (auto simp: verify_robustness_job_completed_def split: option.splits if_splits)
  from job_seal_ret [OF parts(3,1) job(1)] obtain seal where seal: "rb_manifest_content_hash job = Some seal"
    "h = ge_sha256 env content" "h = strip seal" by blast
  have "str_or_empty (ge_print env) (raw_get d ''robustness_id'') = rid" "raw_str (ge_print env) (raw_get d ''base_run_id'') = run_id"
    using parts(5) by (auto simp: validate_robustness_manifest_def Let_def split: if_splits)
  with parts(1,4) job seal show "manifest_bound env w run_id rid" unfolding manifest_bound_def by blast
  show "sealed_by env w ev'" if "sealed_by env w ev"
    using that parts(1) seal(2) by (auto simp: sealed_by_def parts(6) distinct_keys_put)
  show "dict_get (ev_checksums ev') (seal_key rid) \<noteq> None"
    and "dict_get (ev_checksums ev) k \<noteq> None \<Longrightarrow> dict_get (ev_checksums ev') k \<noteq> None"
    by (simp_all add: parts(6))
qed

lemma load_evidence_loop:
  assumes "cfoldl (load_evidence_of env w run_id base) ev rids = ret ev'" and "sealed_by env w ev"
  shows "sealed_by env w ev' \<and> (\<forall>rid \<in> set rids. manifest_bound env w run_id rid \<and> dict_get (ev_checksums ev') (seal_key rid) \<noteq> None) \<and>
    (\<forall>k. dict_get (ev_checksums ev) k \<noteq> None \<longrightarrow> dict_get (ev_checksums ev') k \<noteq> None)"
  using assms
proof (induction rids arbitrary: ev)
  case (Cons rid rids)
  from Cons.prems(1) obtain ev1 where ev1: "load_evidence_of env w run_id base ev rid = ret ev1"
    "cfoldl (load_evidence_of env w run_id base) ev1 rids = ret ev'" by (auto simp: cbind_eq_ret)
  note first = load_evidence_step [OF ev1(1)]
  show ?case using Cons.IH [OF ev1(2) first(2) [OF Cons.prems(2)]] first(1,3,4) by simp
qed simp

lemma get_merged: "dict_get (foldl (\<lambda>d (k, v). dict_put k v d) d es) k = (case map_of (rev es) k of None \<Rightarrow> dict_get d k | Some v \<Rightarrow> Some v)"
  by (induction es rule: rev_induct) auto

lemma map_of_rev_distinct: "distinct (dict_keys d) \<Longrightarrow> map_of (rev d) k = dict_get d k"
  unfolding dict_keys_def by (rule fun_cong [OF map_of_eqI]) (auto simp: rev_map [symmetric] map_of_eq_Some_iff)


text \<open>The measurements of the metrics are those of the record: a robustness test has names of its own.\<close>

definition robustness_metrics :: "string set" where
  "robustness_metrics = {''walk_forward_fold_pass_ratio'', ''cost_stress_combined_elevated_net_pnl'',
     ''parameter_neighbor_pass_ratio'', ''bootstrap_q05_net_pnl''}"

lemma cfoldl_keeps:
  assumes "cfoldl f a xs = ret b" and "P a" and "\<And>x a b. P a \<Longrightarrow> f a x = ret b \<Longrightarrow> P b"
  shows "P b"
  using assms(1,2) by (induction xs arbitrary: a) (auto simp: cbind_eq_ret intro: assms(3))

lemma cost_stress_keys:
  assumes "cfoldl (\<lambda>out child. cbind (child_net_pnl_from_verified_run env w child) (\<lambda>pnl.
      ret (dict_put ''cost_stress_combined_elevated_net_pnl'' pnl out))) [] cs = ret new"
  shows "set (dict_keys new) \<subseteq> robustness_metrics"
  using assms by (rule cfoldl_keeps) (auto simp: robustness_metrics_def cbind_eq_ret keys_put split: if_splits)

lemma robustness_keys:
  assumes "measurements_from_robustness_manifest env w run_id d = ret new"
  shows "set (dict_keys new) \<subseteq> robustness_metrics"
  using assms unfolding measurements_from_robustness_manifest_def Let_def
  by (auto simp: cbind_eq_ret split: if_splits dest: cost_stress_keys) (auto simp: robustness_metrics_def dict_keys_def)

lemma merged_get:
  assumes "k \<notin> set (dict_keys new)"
  shows "dict_get (merge_measurements ms new) k = dict_get ms k"
proof -
  have "map_of (rev new) k = None" using assms by (simp add: map_of_eq_None_iff dict_keys_def)
  then show ?thesis by (simp add: merge_measurements_def get_merged)
qed

lemma all_measurements_get:
  assumes "all_measurements env w run_id metrics ev = ret ms" and "k \<notin> robustness_metrics"
  shows "dict_get ms k = dict_get (measurements_from_metrics metrics) k"
  using assms(1) unfolding all_measurements_def
proof (rule cfoldl_keeps)
  fix x a b
  assume a: "dict_get a k = dict_get (measurements_from_metrics metrics) k"
    and b: "(case x of (i, d) \<Rightarrow> cbind (measurements_from_robustness_manifest env w run_id d) (\<lambda>new. ret (merge_measurements a new))) = ret b"
  from b obtain new where "measurements_from_robustness_manifest env w run_id (snd x) = ret new" "b = merge_measurements a new"
    by (auto simp: cbind_eq_ret case_prod_beta)
  then show "dict_get b k = dict_get (measurements_from_metrics metrics) k"
    using a assms(2) robustness_keys [of env w run_id "snd x" new] merged_get [of k new a] by auto
qed simp

text \<open>The evidence of a record: the run, its checked files and metrics, and the sealed manifests.\<close>

definition run_evidence :: "gate_env \<Rightarrow> gate_world \<Rightarrow> string \<Rightarrow> registry_entry \<Rightarrow> files \<Rightarrow> research_metrics \<Rightarrow> bool" where
  "run_evidence env w run_id entry d m \<longleftrightarrow>
     entry \<in> set (list_entries (gw_registry w)) \<and> re_run_id entry = run_id \<and> re_status entry = RUN_COMPLETE \<and>
     dict_get (rg_dirs (gw_registry w)) (re_artifact_path entry) = Some d \<and> re_checksums entry \<noteq> [] \<and>
     verify_checksums_against (ge_sha256 env) d (re_checksums entry) = ret () \<and>
     (\<exists>content v. dict_get d ''metrics.json'' = Some content \<and> ge_loads env content = Some v \<and> ge_metrics env v = ret m) \<and>
     costs_required_for_complete m = ret m"

lemma resolve_run_ret:
  assumes "resolve_run env w run_id = ret (entry, manifest, metrics)"
  shows "\<exists>d. run_evidence env w run_id entry d metrics"
proof -
  let ?fs = "files_at (gw_registry w) (re_artifact_path entry)"
  from assms obtain content v where parts: "verified_run env w run_id = ret entry" "re_status entry = RUN_COMPLETE"
    "read_file ?fs ''metrics.json'' = ret content" "load_json env content = ret v"
    "validate_metrics_or_mark_invalid (ge_metrics env) v = ret metrics"
    by (auto simp: resolve_run_def cbind_eq_ret Let_def split: if_splits)
  note shown = show_run_verified [OF parts(1)]
  from shown(3) [OF parts(2)] obtain d where d: "dict_get (rg_dirs (gw_registry w)) (re_artifact_path entry) = Some d"
    "re_checksums entry \<noteq> []" "verify_checksums_against (ge_sha256 env) d (re_checksums entry) = ret ()" by blast
  have "dict_get d ''metrics.json'' = Some content"
    using parts(3) d(1) by (auto simp: read_file_def files_at_def split: option.splits)
  moreover have "ge_loads env content = Some v" using parts(4) by (auto simp: load_json_def split: option.splits)
  ultimately show ?thesis
    using shown(1,2) parts(2) d validate_metrics_ret [OF parts(5)] unfolding run_evidence_def by blast
qed

lemma loaded_evidence:
  assumes "load_robustness_evidence env w rids run_id base = ret ev" and "rid \<in> set rids"
  shows "manifest_bound env w run_id rid"
    and "\<exists>content. dict_get (gw_manifests w) rid = Some content \<and>
      dict_get (foldl (\<lambda>d (k, v). dict_put k v d) cs (ev_checksums ev)) (seal_key rid) = Some (ge_sha256 env content)"
proof -
  have "cfoldl (load_evidence_of env w run_id base) \<lparr>ev_manifests = [], ev_checksums = [], ev_test_types = []\<rparr> rids = ret ev"
    using assms(1) by (auto simp: load_robustness_evidence_def split: if_splits)
  from load_evidence_loop [OF this] have loop: "sealed_by env w ev" "manifest_bound env w run_id rid"
    "dict_get (ev_checksums ev) (seal_key rid) \<noteq> None"
    using assms(2) by (auto simp: sealed_by_def dict_keys_def)
  show "manifest_bound env w run_id rid" by (rule loop(2))
  from loop(1,3) obtain content where "dict_get (gw_manifests w) rid = Some content"
    "dict_get (ev_checksums ev) (seal_key rid) = Some (ge_sha256 env content)" by (auto simp: sealed_by_def)
  moreover have "map_of (rev (ev_checksums ev)) (seal_key rid) = dict_get (ev_checksums ev) (seal_key rid)"
    by (rule map_of_rev_distinct) (use loop(1) in \<open>simp add: sealed_by_def\<close>)
  ultimately show "\<exists>content. dict_get (gw_manifests w) rid = Some content \<and>
      dict_get (foldl (\<lambda>d (k, v). dict_put k v d) cs (ev_checksums ev)) (seal_key rid) = Some (ge_sha256 env content)"
    by (simp add: get_merged)
qed

lemma gate_record_evidence:
  assumes "gate_record_of env w run_id version rids = ret r"
  shows "\<exists>entry d m. run_evidence env w run_id entry d m \<and>
      dict_get (gg_measurements r) ''net_pnl'' = Some (ge_format env (rm_net_pnl m)) \<and>
      dict_get (gg_measurements r) ''closed_trades'' = Some (ge_format env (of_nat (rm_closed_trades m)))"
    and "rid \<in> set rids \<Longrightarrow> manifest_bound env w run_id rid"
    and "rid \<in> set rids \<Longrightarrow> \<exists>content. dict_get (gw_manifests w) rid = Some content \<and>
      dict_get (gg_artifact_checksums r) (seal_key rid) = Some (ge_sha256 env content)"
    and "gg_run_id r = run_id" and "gg_robustness_run_ids r = sort rids"
proof -
  from assms obtain policy entry manifest metrics ev ms results commit where parts:
    "get_policy version = ret policy" "resolve_run env w run_id = ret (entry, manifest, metrics)"
    "load_robustness_evidence env w rids run_id manifest = ret ev" "all_measurements env w run_id metrics ev = ret ms"
    "cmapM (evaluate_gate env ms) (gp_gates policy) = ret results"
    "r = build_gate_record env run_id policy entry manifest commit rids
       (foldl (\<lambda>d (k, v). dict_put k v d) (re_checksums entry) (ev_checksums ev)) ms results"
    by (rule gate_record_ret)
  have fields: "gg_measurements r = map (\<lambda>(k, v). (k, ge_format env v)) ms" "gg_run_id r = run_id"
    "gg_robustness_run_ids r = sort rids"
    "gg_artifact_checksums r = foldl (\<lambda>d (k, v). dict_put k v d) (re_checksums entry) (ev_checksums ev)"
    by (simp_all add: parts(6) build_gate_record_def Let_def)
  show "gg_run_id r = run_id" "gg_robustness_run_ids r = sort rids" by (rule fields)+
  have "dict_get ms ''net_pnl'' = Some (rm_net_pnl metrics)" "dict_get ms ''closed_trades'' = Some (of_nat (rm_closed_trades metrics))"
    by (simp_all add: all_measurements_get [OF parts(4)] robustness_metrics_def measurements_from_metrics_def)
  then have "dict_get (gg_measurements r) ''net_pnl'' = Some (ge_format env (rm_net_pnl metrics))"
    "dict_get (gg_measurements r) ''closed_trades'' = Some (ge_format env (of_nat (rm_closed_trades metrics)))"
    by (simp_all add: fields(1) map_of_map)
  with resolve_run_ret [OF parts(2)]
  show "\<exists>entry d m. run_evidence env w run_id entry d m \<and>
      dict_get (gg_measurements r) ''net_pnl'' = Some (ge_format env (rm_net_pnl m)) \<and>
      dict_get (gg_measurements r) ''closed_trades'' = Some (ge_format env (of_nat (rm_closed_trades m)))"
    by blast
  show "manifest_bound env w run_id rid" if "rid \<in> set rids" using loaded_evidence(1) [OF parts(3) that] .
  show "\<exists>content. dict_get (gw_manifests w) rid = Some content \<and>
      dict_get (gg_artifact_checksums r) (seal_key rid) = Some (ge_sha256 env content)" if "rid \<in> set rids"
    unfolding fields(4) using loaded_evidence(2) [OF parts(3) that] .
qed

text \<open>A result is read back as it was written.\<close>

lemma outcome_roundtrip: "outcome_of_raw (RText (outcome_text out)) = Some out"
  by (cases out) (simp_all add: outcome_of_raw_def)

lemma gate_result_roundtrip:
  assumes "gr_passed g = (gr_outcome g = GO_PASS)"
  shows "gate_result_from_dict print (gate_result_to_dict g) = ret g"
  using assms
  by (cases "gr_measured_value g")
     (simp_all add: gate_result_from_dict_def gate_result_to_dict_def raw_get_Cons raw_get_Nil outcome_roundtrip required_def str_or_empty_def Let_def)

end
