(* ===== verification/Gate_Service.thy ===== *)
theory Gate_Service
  imports Gate_Properties
begin

text \<open>
  The check of a stored result against the files of today (\<open>verify_gate_record_artifact_checksums\<close> of
  \<open>services/research/gate_evaluator.py\<close>) and the service over the evaluator and its store
  (\<open>services/research/gate_service.py\<close>). An operation that writes returns its result together with the world, so that
  what was written stays when the answer is an exception.
\<close>

section \<open>Stored results\<close>

definition verify_sealed_manifest :: "gate_env \<Rightarrow> gate_world \<Rightarrow> string \<times> string \<Rightarrow> unit comp" where
  "verify_sealed_manifest env w e =
     (if \<not> starts_with (fst e) ''robustness/'' \<or> \<not> ends_with (fst e) ''/manifest.json'' then ret ()
      else
      case split_on (CHR ''/'') (fst e) of
        [_, robustness_id, _] \<Rightarrow>
          cbind (catching (on_bad_file ''artifact_checksums: robustness seal mismatch'')
                   (verify_robustness_manifest_seal env w robustness_id (Some (snd e)))) (\<lambda>_. ret ())
      | _ \<Rightarrow> raise (GateEvaluationError ''artifact_checksums: malformed robustness key''))"

definition run_part :: "checksums \<Rightarrow> checksums" where
  "run_part cs = filter (\<lambda>(k, _). \<not> starts_with k ''robustness/'') cs"

definition verify_gate_record_artifact_checksums :: "gate_env \<Rightarrow> gate_world \<Rightarrow> gate_run_record \<Rightarrow> unit comp" where
  "verify_gate_record_artifact_checksums env w r =
     cbind (catching (on_bad_file ''artifact_checksums: run checksum mismatch'')
              (catching (on_missing_run ''artifact_checksums: run missing'') (verified_run env w (gg_run_id r)))) (\<lambda>entry.
     let run_checksums = run_part (gg_artifact_checksums r)
     in if run_checksums = [] then raise (GateEvaluationError ''artifact_checksums: empty run checksums'')
        else
        cbind (catching (on_bad_file ''artifact_checksums: run file mismatch'')
                 (verify_checksums_against (ge_sha256 env) (files_at (gw_registry w) (re_artifact_path entry)) run_checksums)) (\<lambda>_.
        cbind (cmapM (verify_sealed_manifest env w) (gg_artifact_checksums r)) (\<lambda>_.
        if list_ex (\<lambda>rid. dict_get (gg_artifact_checksums r) (seal_key rid) = None) (gg_robustness_run_ids r)
        then raise (GateEvaluationError ''artifact_checksums: robustness checksum missing'')
        else ret ())))"

section \<open>Identifiers\<close>

definition alphanumeric :: "char \<Rightarrow> bool" where
  "alphanumeric ch \<longleftrightarrow> (let n = of_char ch :: nat in n \<in> {48..57} \<or> n \<in> {65..90} \<or> n \<in> {97..122})"

definition SAFE_ID :: "string \<Rightarrow> bool" where
  "SAFE_ID s = (case s of [] \<Rightarrow> False
     | ch # rest \<Rightarrow> alphanumeric ch \<and> length rest \<le> 127 \<and>
         list_all (\<lambda>c. alphanumeric c \<or> c \<in> {CHR ''.'', CHR ''_'', CHR ''-''}) rest)"

definition assert_safe_id :: "string \<Rightarrow> string \<Rightarrow> string comp" where
  "assert_safe_id s fld = (if SAFE_ID s then ret s else raise (ValueError (''invalid '' @ fld)))"

section \<open>The service\<close>

fun on_policy_error :: "py_error \<Rightarrow> py_error option" where
  "on_policy_error (GatePolicyError _) = Some (ResearchWriteError ''policy_content_hash: mismatch - gate record untrusted under current policy'')"
| "on_policy_error e = None"

fun on_invalid :: "string \<Rightarrow> py_error \<Rightarrow> py_error option" where
  "on_invalid fld (ValueError msg) = Some (ResearchWriteError (fld @ '': '' @ msg))"
| "on_invalid fld e = None"

fun on_evaluation_error :: "py_error \<Rightarrow> py_error option" where
  "on_evaluation_error (GateEvaluationError msg) = Some (ResearchWriteError msg)"
| "on_evaluation_error e = None"

definition assert_record_policy_trusted :: "gate_env \<Rightarrow> gate_run_record \<Rightarrow> unit comp" where
  "assert_record_policy_trusted env r =
     catching on_policy_error (verify_policy_content_hash env (gg_policy_version r) (gg_policy_content_hash r))"

text \<open>A record as it is served: with the flag and the error of \<open>evidence_integrity\<close>.\<close>

record public_record =
  pr_record :: gate_run_record
  pr_ok :: bool
  pr_error :: "string option"

definition record_to_public_dict :: "gate_env \<Rightarrow> gate_world \<Rightarrow> gate_run_record \<Rightarrow> bool \<Rightarrow> public_record comp" where
  "record_to_public_dict env w r fail_closed_active =
     cbind (assert_record_policy_trusted env r) (\<lambda>_.
     case verify_gate_record_artifact_checksums env w r of
       None \<Rightarrow> None
     | Some (Inr _) \<Rightarrow> ret \<lparr>pr_record = r, pr_ok = True, pr_error = None\<rparr>
     | Some (Inl e) \<Rightarrow>
         (case e of
            GateEvaluationError msg \<Rightarrow>
              if gg_status r = GATE_ACTIVE \<and> fail_closed_active then raise (ResearchWriteError msg)
              else ret \<lparr>pr_record = r, pr_ok = False, pr_error = Some msg\<rparr>
          | _ \<Rightarrow> raise e))"

text \<open>The fields of a request: run, policy version and robustness tests.\<close>

definition evaluate_request :: "gate_env \<Rightarrow> (string \<times> raw) list \<Rightarrow> (string \<times> string \<times> string list) comp" where
  "evaluate_request env payload =
     (let run_id_raw = strip (str_or_empty (ge_print env) (raw_get payload ''run_id''))
      in if run_id_raw = [] then raise (ResearchWriteError ''run_id: erforderlich'')
         else
         cbind (catching (on_invalid ''run_id'') (assert_safe_id run_id_raw ''run_id'')) (\<lambda>run_id.
         let policy_version = strip (str_or_empty (ge_print env) (raw_get payload ''policy_version''));
             ids = raw_get payload ''robustness_run_ids''
         in if policy_version = [] then raise (ResearchWriteError ''policy_version: erforderlich'')
            else
            case (if truthy ids then ids else RList []) of
              RList xs \<Rightarrow>
                cbind (cmapM (\<lambda>x. catching (on_invalid ''robustness_run_ids'')
                    (assert_safe_id (raw_str (ge_print env) x) ''robustness_run_ids'')) xs) (\<lambda>rids.
                ret (run_id, policy_version, rids))
            | _ \<Rightarrow> raise (ResearchWriteError ''robustness_run_ids: muss Liste sein'')))"

definition service_evaluate :: "gate_env \<Rightarrow> (string \<times> raw) list \<Rightarrow> gate_world \<Rightarrow> public_record comp \<times> gate_world" where
  "service_evaluate env payload w =
     (let answer = cbind (evaluate_request env payload) (\<lambda>(run_id, policy_version, rids).
            catching on_evaluation_error (gate_evaluate env run_id policy_version rids w))
      in case answer of
           None \<Rightarrow> (None, w)
         | Some (Inl e) \<Rightarrow> (raise e, w)
         | Some (Inr (r, w')) \<Rightarrow> (record_to_public_dict env w' r True, w'))"

definition service_get :: "gate_env \<Rightarrow> string \<Rightarrow> gate_world \<Rightarrow> public_record comp" where
  "service_get env gate_run_id w =
     cbind (assert_safe_id gate_run_id ''gate_run_id'') (\<lambda>i.
     case gate_get (gw_store w) i of
       None \<Rightarrow> raise KeyError
     | Some r \<Rightarrow> record_to_public_dict env w r True)"

definition service_list_all :: "gate_env \<Rightarrow> string option \<Rightarrow> gate_world \<Rightarrow> public_record list comp" where
  "service_list_all env run_id w =
     cbind (cmapM (\<lambda>e. record_to_public_dict env w e True) (list_latest (gw_store w))) (\<lambda>items.
     ret (sort_key (\<lambda>i. - gg_evaluated_at (pr_record i))
       (case run_id of
          None \<Rightarrow> items
        | Some i \<Rightarrow> if i = [] then items else filter (\<lambda>x. gg_run_id (pr_record x) = i) items)))"

definition service_invalidate :: "gate_env \<Rightarrow> string \<Rightarrow> (string \<times> raw) list \<Rightarrow> gate_world \<Rightarrow> public_record comp \<times> gate_world" where
  "service_invalidate env gate_run_id payload w =
     (let reason = strip (str_or_empty (ge_print env) (raw_get payload ''reason''));
          written = cbind (assert_safe_id gate_run_id ''gate_run_id'') (\<lambda>i.
            if reason = [] then raise (ResearchWriteError ''reason: erforderlich'')
            else catching (on_invalid ''gate_run_id'') (gate_invalidate i reason (gw_store w)))
      in case written of
           None \<Rightarrow> (None, w)
         | Some (Inl e) \<Rightarrow> (raise e, w)
         | Some (Inr store) \<Rightarrow>
             let w' = w\<lparr>gw_store := store\<rparr>
             in ((case gate_get store gate_run_id of
                    None \<Rightarrow> raise AssertionError
                  | Some r \<Rightarrow> record_to_public_dict env w' r False), w'))"

definition list_policy_versions :: "string list" where
  "list_policy_versions = sort (dict_keys POLICY_REGISTRY)"

definition list_policies :: "gate_env \<Rightarrow> (gate_policy \<times> string) list comp" where
  "list_policies env =
     cmapM (\<lambda>v. cbind (get_policy v) (\<lambda>p. ret (p, compute_policy_content_hash env p))) list_policy_versions"


section \<open>Texts\<close>

lemma dropWhile_rev_hd:
  assumes "t = [] \<or> \<not> P (hd t)"
  shows "dropWhile P (rev (dropWhile P (rev t))) = rev (dropWhile P (rev t))"
proof (cases t)
  case (Cons x u)
  with assms have "dropWhile P (rev t) = dropWhile P (rev u) @ [x] \<or> dropWhile P (rev t) = [x]"
    by (auto simp: dropWhile_append)
  then show ?thesis using assms Cons by auto
qed simp

lemma strip_strip [simp]: "strip (strip s) = strip s"
proof -
  have "dropWhile is_space s = [] \<or> \<not> is_space (hd (dropWhile is_space s))" using hd_dropWhile by blast
  from dropWhile_rev_hd [of _ is_space, OF this] show ?thesis by (simp add: strip_def dropWhile_idem)
qed

lemma split_on_none: "sep \<notin> set s \<Longrightarrow> split_on sep s = [s]"
  by (induction s) auto

lemma split_on_first: "sep \<notin> set s \<Longrightarrow> split_on sep (s @ sep # t) = s # split_on sep t"
  by (induction s) auto

lemma seal_key_parts:
  assumes "CHR ''/'' \<notin> set rid"
  shows "split_on (CHR ''/'') (seal_key rid) = [''robustness'', rid, ''manifest.json'']"
proof -
  have "seal_key rid = ''robustness'' @ CHR ''/'' # rid @ CHR ''/'' # ''manifest.json''" by (simp add: seal_key_def)
  then show ?thesis using assms by (simp only: split_on_first) (simp add: split_on_first split_on_none)
qed

lemma seal_key_ends: "starts_with (seal_key rid) ''robustness/''" "ends_with (seal_key rid) ''/manifest.json''"
  by (simp_all add: starts_with_def ends_with_def seal_key_def)

lemma safe_id_no_slash: "SAFE_ID s \<Longrightarrow> CHR ''/'' \<notin> set s"
  by (auto simp: SAFE_ID_def alphanumeric_def Let_def list_all_iff split: list.splits)

lemma cmapM_unit: "(\<And>x. x \<in> set xs \<Longrightarrow> f x = ret ()) \<Longrightarrow> cmapM f xs = ret (map (\<lambda>_. ()) xs)"
  by (induction xs) simp_all

section \<open>What a verified record says\<close>

lemma verify_sealed_ret:
  assumes "verify_sealed_manifest env w (seal_key rid, digest) = ret ()" and "CHR ''/'' \<notin> set rid" and "strip digest \<noteq> []"
  shows "\<exists>content. dict_get (gw_manifests w) rid = Some content \<and> ge_sha256 env content = strip digest"
  using assms by (auto simp: verify_sealed_manifest_def seal_key_ends seal_key_parts cbind_eq_ret verify_robustness_manifest_seal_def Let_def
      split: option.splits if_splits)

lemma verify_sealed_ok:
  assumes "dict_get (gw_manifests w) rid = Some content" and "ge_sha256 env content = h" and "strip h = h" and "h \<noteq> []"
    and "CHR ''/'' \<notin> set rid"
  shows "verify_sealed_manifest env w (seal_key rid, h) = ret ()"
  using assms by (simp add: verify_sealed_manifest_def seal_key_ends seal_key_parts verify_robustness_manifest_seal_def)

lemma verify_record_ret:
  assumes "verify_gate_record_artifact_checksums env w r = ret ()"
  obtains entry where "verified_run env w (gg_run_id r) = ret entry" "run_part (gg_artifact_checksums r) \<noteq> []"
    "verify_checksums_against (ge_sha256 env) (files_at (gw_registry w) (re_artifact_path entry)) (run_part (gg_artifact_checksums r)) = ret ()"
    "\<forall>e \<in> set (gg_artifact_checksums r). verify_sealed_manifest env w e = ret ()"
    "\<forall>rid \<in> set (gg_robustness_run_ids r). dict_get (gg_artifact_checksums r) (seal_key rid) \<noteq> None"
proof -
  from assms obtain entry us where parts: "verified_run env w (gg_run_id r) = ret entry" "run_part (gg_artifact_checksums r) \<noteq> []"
    "verify_checksums_against (ge_sha256 env) (files_at (gw_registry w) (re_artifact_path entry)) (run_part (gg_artifact_checksums r)) = ret ()"
    "cmapM (verify_sealed_manifest env w) (gg_artifact_checksums r) = ret us"
    "\<not> list_ex (\<lambda>rid. dict_get (gg_artifact_checksums r) (seal_key rid) = None) (gg_robustness_run_ids r)"
    unfolding verify_gate_record_artifact_checksums_def Let_def by (auto simp: cbind_eq_ret split: if_splits)
  have "\<forall>e \<in> set (gg_artifact_checksums r). verify_sealed_manifest env w e = ret ()"
    using list_all2_members(2) [OF parts(4) [unfolded cmapM_eq_ret]] by auto
  with parts that show ?thesis by (simp add: list_ex_iff)
qed

text \<open>What a served record that is active says.\<close>

lemma public_active:
  assumes "record_to_public_dict env w r True = ret p" and "gg_status r = GATE_ACTIVE"
  shows "pr_record p = r" and "pr_ok p" and "verify_gate_record_artifact_checksums env w r = ret ()"
    and "\<exists>policy. get_policy (gg_policy_version r) = ret policy \<and> compute_policy_content_hash env policy = gg_policy_content_hash r"
proof -
  from assms(1) have trusted: "assert_record_policy_trusted env r = ret ()" by (auto simp: record_to_public_dict_def cbind_eq_ret)
  then show "\<exists>policy. get_policy (gg_policy_version r) = ret policy \<and> compute_policy_content_hash env policy = gg_policy_content_hash r"
    by (auto simp: assert_record_policy_trusted_def verify_policy_content_hash_def cbind_eq_ret split: if_splits)
  have "verify_gate_record_artifact_checksums env w r = ret () \<and> p = \<lparr>pr_record = r, pr_ok = True, pr_error = None\<rparr>"
    using assms by (auto simp: record_to_public_dict_def trusted ret_def raise_def cbind_def split: option.splits sum.splits py_error.splits)
  then show "pr_record p = r" "pr_ok p" "verify_gate_record_artifact_checksums env w r = ret ()" by simp_all
qed

section \<open>A new result can be verified\<close>

lemma run_part_put: "starts_with k ''robustness/'' \<Longrightarrow> run_part (dict_put k v d) = run_part d"
  by (induction d) (auto simp: run_part_def)

lemma run_part_merged:
  assumes "\<forall>(k, _) \<in> set es. starts_with k ''robustness/''"
  shows "run_part (foldl (\<lambda>d (k, v). dict_put k v d) cs es) = run_part cs"
  using assms by (induction es arbitrary: cs) (auto simp: run_part_put)

lemma set_put: "set (dict_put k v d) \<subseteq> insert (k, v) (set d)"
  by (induction d) auto

lemma set_merged: "set (foldl (\<lambda>d (k, v). dict_put k v d) cs es) \<subseteq> set cs \<union> set es"
proof (induction es arbitrary: cs)
  case (Cons e es)
  show ?case using Cons.IH [of "dict_put (fst e) (snd e) cs"] set_put [of "fst e" "snd e" cs] by (auto simp: case_prod_beta)
qed simp

definition sealed_entry :: "gate_env \<Rightarrow> gate_world \<Rightarrow> string set \<Rightarrow> string \<times> string \<Rightarrow> bool" where
  "sealed_entry env w R e \<longleftrightarrow> (\<exists>rid \<in> R. \<exists>content. fst e = seal_key rid \<and> dict_get (gw_manifests w) rid = Some content \<and>
     snd e = ge_sha256 env content \<and> strip (snd e) = snd e \<and> snd e \<noteq> [])"

lemma load_evidence_put:
  assumes "load_evidence_of env w run_id base ev rid = ret ev'" and "rid \<in> R"
  shows "\<exists>h. ev_checksums ev' = dict_put (seal_key rid) h (ev_checksums ev) \<and> sealed_entry env w R (seal_key rid, h)"
proof -
  from assms(1) obtain content h where loaded: "dict_get (gw_manifests w) rid = Some content"
    "verify_robustness_job_completed w rid = ret ()" "verify_job_manifest_seal env w rid = ret h"
    and ev': "ev_checksums ev' = dict_put (seal_key rid) h (ev_checksums ev)"
    by (rule load_evidence_ret) simp
  from loaded(2) obtain job where job: "dict_get (gw_jobs w) rid = Some job"
    "strip (case rb_manifest_content_hash job of None \<Rightarrow> [] | Some h \<Rightarrow> h) \<noteq> []"
    by (auto simp: verify_robustness_job_completed_def split: option.splits if_splits)
  from job_seal_ret [OF loaded(3,1) job(1)] job(2) have "h = ge_sha256 env content" "strip h = h" "h \<noteq> []" by auto
  then show ?thesis using ev' loaded(1) assms(2) unfolding sealed_entry_def by auto
qed

lemma load_evidence_sealed:
  assumes "cfoldl (load_evidence_of env w run_id base) ev rids = ret ev'" and "\<forall>e \<in> set (ev_checksums ev). sealed_entry env w R e"
    and "set rids \<subseteq> R"
  shows "\<forall>e \<in> set (ev_checksums ev'). sealed_entry env w R e"
  using assms
proof (induction rids arbitrary: ev)
  case (Cons rid rids)
  from Cons.prems(1) obtain ev1 where ev1: "load_evidence_of env w run_id base ev rid = ret ev1"
    "cfoldl (load_evidence_of env w run_id base) ev1 rids = ret ev'" by (auto simp: cbind_eq_ret)
  from load_evidence_put [OF ev1(1), of R] Cons.prems(3) obtain h where
    "ev_checksums ev1 = dict_put (seal_key rid) h (ev_checksums ev)" "sealed_entry env w R (seal_key rid, h)" by auto
  then have "\<forall>e \<in> set (ev_checksums ev1). sealed_entry env w R e"
    using set_put [of "seal_key rid" h "ev_checksums ev"] Cons.prems(2) by auto
  from Cons.IH [OF ev1(2) this] Cons.prems(3) show ?case by simp
qed simp

text \<open>The artifacts of the runs are not named as robustness seals are.\<close>

definition plain_artifacts :: "registry \<Rightarrow> bool" where
  "plain_artifacts r \<longleftrightarrow> list_all (\<lambda>e. list_all (\<lambda>(k, _). \<not> starts_with k ''robustness/'') (re_checksums e)) (rg_log r)"

lemma listed_checksums: "e \<in> set (list_entries r) \<Longrightarrow> \<exists>x \<in> set (rg_log r). re_checksums x = re_checksums e"
  by (auto simp: list_entries_def apply_sidecar_def split: if_splits)

lemma new_record_verifies:
  assumes "gate_record_of env w run_id version rids = ret r" and "plain_artifacts (gw_registry w)"
    and "\<forall>rid \<in> set rids. CHR ''/'' \<notin> set rid"
  shows "verify_gate_record_artifact_checksums env w r = ret ()"
proof -
  from assms(1) obtain policy entry manifest metrics ev ms results commit where parts:
    "get_policy version = ret policy" "resolve_run env w run_id = ret (entry, manifest, metrics)"
    "load_robustness_evidence env w rids run_id manifest = ret ev" "all_measurements env w run_id metrics ev = ret ms"
    "cmapM (evaluate_gate env ms) (gp_gates policy) = ret results"
    "r = build_gate_record env run_id policy entry manifest commit rids
       (foldl (\<lambda>d (k, v). dict_put k v d) (re_checksums entry) (ev_checksums ev)) ms results"
    by (rule gate_record_ret)
  let ?cs = "foldl (\<lambda>d (k, v). dict_put k v d) (re_checksums entry) (ev_checksums ev)"
  have fields: "gg_artifact_checksums r = ?cs" "gg_run_id r = run_id" "gg_robustness_run_ids r = sort rids"
    by (simp_all add: parts(6) build_gate_record_def Let_def)
  have shown: "verified_run env w run_id = ret entry" "re_status entry = RUN_COMPLETE"
    using parts(2) by (auto simp: resolve_run_def cbind_eq_ret Let_def split: if_splits)
  from show_run_verified [OF shown(1)] shown(2) obtain d where d: "entry \<in> set (list_entries (gw_registry w))"
    "files_at (gw_registry w) (re_artifact_path entry) = d" "re_checksums entry \<noteq> []"
    "verify_checksums_against (ge_sha256 env) d (re_checksums entry) = ret ()" by (auto simp: files_at_def)
  have plain: "\<forall>(k, _) \<in> set (re_checksums entry). \<not> starts_with k ''robustness/''"
    using listed_checksums [OF d(1)] assms(2) unfolding plain_artifacts_def list_all_iff by fastforce
  have seals: "\<forall>e \<in> set (ev_checksums ev). sealed_entry env w (set rids) e"
    by (rule load_evidence_sealed [where rids = rids]) (use parts(3) in \<open>auto simp: load_robustness_evidence_def split: if_splits\<close>)
  have "run_part ?cs = run_part (re_checksums entry)"
    by (rule run_part_merged) (use seals in \<open>auto simp: sealed_entry_def seal_key_ends\<close>)
  also have "\<dots> = re_checksums entry" using plain by (auto simp: run_part_def)
  finally have run: "run_part ?cs = re_checksums entry" .
  have "verify_sealed_manifest env w e = ret ()" if "e \<in> set ?cs" for e
    using set_merged [of "re_checksums entry" "ev_checksums ev"] that
  proof (elim subsetD [THEN UnE])
    assume "e \<in> set (re_checksums entry)"
    then show ?thesis using plain by (auto simp: verify_sealed_manifest_def)
  next
    assume "e \<in> set (ev_checksums ev)"
    then have "sealed_entry env w (set rids) e" using seals by blast
    then show ?thesis using assms(3) by (cases e) (auto simp: sealed_entry_def intro: verify_sealed_ok)
  qed
  then have all: "cmapM (verify_sealed_manifest env w) ?cs = ret (map (\<lambda>_. ()) ?cs)" by (rule cmapM_unit)
  have "\<forall>rid \<in> set rids. dict_get ?cs (seal_key rid) \<noteq> None"
    using gate_record_evidence(3) [OF assms(1)] by (auto simp: fields(1))
  then have "\<not> list_ex (\<lambda>rid. dict_get ?cs (seal_key rid) = None) (sort rids)" by (simp add: list_ex_iff)
  then show ?thesis
    unfolding verify_gate_record_artifact_checksums_def fields Let_def run
    by (simp add: shown(1) d all)
qed


text \<open>The store is not read by the verification.\<close>

lemma verify_record_store:
  "verify_gate_record_artifact_checksums env (w\<lparr>gw_store := s\<rparr>) r = verify_gate_record_artifact_checksums env w r"
proof -
  have read: "read_sealed_manifest_hash (w\<lparr>gw_store := s\<rparr>) = read_sealed_manifest_hash w"
    by (simp add: read_sealed_manifest_hash_def fun_eq_iff)
  have seal: "verify_robustness_manifest_seal env (w\<lparr>gw_store := s\<rparr>) = verify_robustness_manifest_seal env w"
    unfolding verify_robustness_manifest_seal_def read by simp
  have sealed: "verify_sealed_manifest env (w\<lparr>gw_store := s\<rparr>) = verify_sealed_manifest env w"
    unfolding verify_sealed_manifest_def seal ..
  have "gw_registry (w\<lparr>gw_store := s\<rparr>) = gw_registry w" by simp
  then show ?thesis unfolding verify_gate_record_artifact_checksums_def sealed by (simp only:)
qed

lemma record_policy_trusted:
  assumes "gate_record_of env w run_id version rids = ret r"
  shows "assert_record_policy_trusted env r = ret ()"
proof -
  from assms obtain policy entry manifest metrics ev ms results commit where parts:
    "get_policy version = ret policy" "resolve_run env w run_id = ret (entry, manifest, metrics)"
    "load_robustness_evidence env w rids run_id manifest = ret ev" "all_measurements env w run_id metrics ev = ret ms"
    "cmapM (evaluate_gate env ms) (gp_gates policy) = ret results"
    "r = build_gate_record env run_id policy entry manifest commit rids
       (foldl (\<lambda>d (k, v). dict_put k v d) (re_checksums entry) (ev_checksums ev)) ms results"
    by (rule gate_record_ret)
  have "gg_policy_version r = version" "gg_policy_content_hash r = compute_policy_content_hash env policy"
    using registered_policy(3) [OF parts(1)] by (simp_all add: parts(6) build_gate_record_def Let_def)
  then show ?thesis by (simp add: assert_record_policy_trusted_def verify_policy_content_hash_def parts(1))
qed

lemma request_ids:
  assumes "evaluate_request env payload = ret (run_id, version, rids)"
  shows "SAFE_ID run_id" and "\<forall>rid \<in> set rids. SAFE_ID rid"
proof -
  define v where "v = (if truthy (raw_get payload ''robustness_run_ids'') then raw_get payload ''robustness_run_ids'' else RList [])"
  from assms obtain s xs where "assert_safe_id s ''run_id'' = ret run_id"
    and ids: "cmapM (\<lambda>x. catching (on_invalid ''robustness_run_ids'')
      (assert_safe_id (raw_str (ge_print env) x) ''robustness_run_ids'')) xs = ret rids"
    unfolding evaluate_request_def Let_def v_def [symmetric] by (cases v) (auto simp: cbind_eq_ret split: if_splits)
  then show "SAFE_ID run_id" by (auto simp: assert_safe_id_def split: if_splits)
  show "\<forall>rid \<in> set rids. SAFE_ID rid"
  proof
    fix rid
    assume "rid \<in> set rids"
    from list_all2_members(1) [OF ids [unfolded cmapM_eq_ret] this] show "SAFE_ID rid"
      by (auto simp: assert_safe_id_def split: if_splits)
  qed
qed

lemma service_evaluate_ret:
  assumes "evaluate_request env payload = ret (run_id, version, rids)" and "gate_evaluate env run_id version rids w = ret (r, w')"
  shows "service_evaluate env payload w = (record_to_public_dict env w' r True, w')"
proof -
  have "cbind (evaluate_request env payload) (\<lambda>(run_id, policy_version, rids).
      catching on_evaluation_error (gate_evaluate env run_id policy_version rids w)) = ret (r, w')"
    by (simp add: assms)
  then show ?thesis by (simp add: service_evaluate_def ret_def)
qed

lemma service_evaluate_new:
  assumes "evaluate_request env payload = ret (run_id, version, rids)" and "gate_evaluate env run_id version rids w = ret (r, w')"
    and "gate_get (gw_store w) (gg_gate_run_id r) = None" and "plain_artifacts (gw_registry w)"
  shows "service_evaluate env payload w = (ret \<lparr>pr_record = r, pr_ok = True, pr_error = None\<rparr>, w')"
  using assms(2)
proof (cases rule: gate_evaluate_ret)
  case new
  have "verify_gate_record_artifact_checksums env w r = ret ()"
    using new_record_verifies [OF new(1) assms(4)] request_ids(2) [OF assms(1)] safe_id_no_slash by blast
  then have "verify_gate_record_artifact_checksums env w' r = Some (Inr ())"
    using verify_record_store [where w = w and s = "gw_store w'"] new(3) by (simp add: ret_def)
  then show ?thesis
    unfolding service_evaluate_ret [OF assms(1,2)] by (simp add: record_to_public_dict_def record_policy_trusted [OF new(1)])
qed (use assms(3) in simp)


lemma service_get_ret:
  assumes "service_get env i w = ret p"
  shows "SAFE_ID i" and "\<exists>r. gate_get (gw_store w) i = Some r \<and> record_to_public_dict env w r True = ret p"
  using assms by (auto simp: service_get_def assert_safe_id_def split: if_splits option.splits)

lemma public_record_same:
  assumes "record_to_public_dict env w r b = ret p"
  shows "pr_record p = r"
  using assms by (auto simp: record_to_public_dict_def cbind_def ret_def raise_def split: option.splits sum.splits py_error.splits if_splits)

end
