(* ===== verification/Gate_Examples.thy ===== *)
theory Gate_Examples
  imports Gate_Service
begin

text \<open>
  A run with its four robustness tests, whose evaluation passes every gate, and the invalidation of the result. The
  digest is the identity and the four manifests are named by their contents.
\<close>

section \<open>The run\<close>

definition gate_sample_metrics :: research_metrics where
  "gate_sample_metrics = \<lparr>rm_schema_version = ''1.0'', rm_status = REPORT_COMPLETE, rm_start_capital = 100, rm_end_capital = 105,
     rm_gross_pnl = 6, rm_net_pnl = 5, rm_fees = 1, rm_slippage_costs = 0, rm_funding_costs = 0, rm_funding_assumption = ''none'',
     rm_signal_count = 12, rm_order_count = 24, rm_fill_count = 24, rm_closed_trades = 12, rm_hit_rate = None, rm_avg_win = None,
     rm_avg_loss = None, rm_expectancy = None, rm_profit_factor = None, rm_max_drawdown = Some (- 1 / 10), rm_exposure = None,
     rm_turnover = None, rm_time_in_market = None, rm_benchmark = default_benchmark_ref ''hold'' ''1.0'' ''declared'',
     rm_benchmark_result = None\<rparr>"

definition gate_sample_manifest :: run_manifest where
  "gate_sample_manifest = \<lparr>mf_schema_version = ''1.0'', mf_experiment_id = ''exp-1'', mf_run_id = ''run-1'', mf_attempt_id = ''a'',
     mf_git_commit = ''abcdef0'', mf_dataset_id = ''data'', mf_dataset_content_hash = ''hash'', mf_strategy_version = ''1.0'',
     mf_cost_model_version = ''1.0'', mf_metrics_schema_version = ''1.0'', mf_environment_fingerprint = ''env'',
     mf_identity_hash_algorithm = ''sha256'', mf_created_at_utc = 0, mf_status = MANIFEST_COMPLETE\<rparr>"

definition gate_sample_files :: files where
  "gate_sample_files = [(''metrics.json'', ''m''), (''run_manifest.json'', ''r'')]"

definition gate_sample_entry :: registry_entry where
  "gate_sample_entry = \<lparr>re_experiment_id = ''exp-1'', re_run_id = ''run-1'', re_attempt_id = ''a'', re_status = RUN_COMPLETE,
     re_strategy_version = ''1.0'', re_dataset_version = ''1'', re_cost_model_version = ''1.0'', re_benchmark_ref = ''hold'',
     re_created_at = 0, re_artifact_path = ''runs/run-1'', re_checksums = gate_sample_files\<rparr>"

definition gate_sample_registry :: registry where
  "gate_sample_registry = \<lparr>rg_log = [gate_sample_entry], rg_sidecars = [], rg_dirs = [(''runs/run-1'', gate_sample_files)]\<rparr>"

section \<open>The robustness tests\<close>

definition gate_sample_child :: raw where
  "gate_sample_child = RObject [(''child_id'', RText ''combined_elevated''), (''status'', RText ''complete''), (''run_id'', RText ''run-1'')]"

definition gate_sample_object :: "string \<Rightarrow> raw list \<Rightarrow> (string \<times> raw) list" where
  "gate_sample_object test_type cs =
     [(''schema_version'', RText ''1.0''), (''robustness_id'', RText test_type), (''base_run_id'', RText ''run-1''),
      (''test_type'', RText test_type), (''children'', RList cs),
      (''config'', RObject [(''block_length'', RNumber 5), (''n_simulations'', RNumber 9), (''seed'', RNumber 1)]),
      (''bootstrap_result'', RObject [(''net_pnl_quantiles'', RObject [(''q05'', RNumber 2)])])]"

definition gate_sample_loads :: "string \<Rightarrow> raw option" where
  "gate_sample_loads content =
     Some (RObject (if content \<in> {''m'', ''r''} then [] else gate_sample_object content (if content = ''bootstrap'' then [] else [gate_sample_child])))"

definition gate_sample_env :: gate_env where
  "gate_sample_env = \<lparr>ge_sha256 = (\<lambda>content. content), ge_dumps = (\<lambda>_. ''d''), ge_loads = gate_sample_loads, ge_print = (\<lambda>_. ''v''),
     ge_format = (\<lambda>_. ''n''), ge_str = (\<lambda>_. ''n''), ge_run_manifest = (\<lambda>_. ret gate_sample_manifest), ge_metrics = (\<lambda>_. ret gate_sample_metrics),
     ge_bootstrap = (\<lambda>_ _ _ _ _. ret [(''q05'', RNumber 2)]), ge_catalog = [], ge_head = Some (ret ''abcdef0''), ge_pins = [], ge_now = 7\<rparr>"

definition gate_sample_job :: "string \<Rightarrow> raw robustness_job" where
  "gate_sample_job i = \<lparr>jb_id = i, jb_status = JS_COMPLETED, jb_created_at = 0, jb_updated_at = 0, jb_started_at = None,
     jb_finished_at = None, jb_error = None, jb_error_detail = None, jb_dataset_catalog_id = None, jb_worker_id = None,
     jb_lease_id = None, jb_lease_expires_at = None, rb_base_experiment_id = ''exp-1'', rb_base_run_id = ''run-1'', rb_test_type = i,
     rb_config = None, rb_manifest_content_hash = Some i\<rparr>"

definition gate_sample_ids :: "string list" where
  "gate_sample_ids = [''bootstrap'', ''cost_stress'', ''parameter_stability'', ''walk_forward'']"

definition gate_sample_world :: gate_world where
  "gate_sample_world = \<lparr>gw_registry = gate_sample_registry, gw_jobs = map (\<lambda>i. (i, gate_sample_job i)) gate_sample_ids,
     gw_manifests = map (\<lambda>i. (i, i)) gate_sample_ids, gw_manifest_seals = [], gw_store = \<lparr>gs_log = [], gs_sidecars = []\<rparr>\<rparr>"

lemmas gate_samples = gate_sample_metrics_def gate_sample_manifest_def gate_sample_files_def gate_sample_entry_def gate_sample_registry_def
  gate_sample_child_def gate_sample_object_def gate_sample_loads_def gate_sample_env_def gate_sample_job_def gate_sample_ids_def
  gate_sample_world_def

section \<open>The evaluation\<close>

lemma gate_sample_passes:
  "case gate_record_of gate_sample_env gate_sample_world ''run-1'' ''1.1'' gate_sample_ids of
     Some (Inr r) \<Rightarrow> gg_overall_status r = OVERALL_PASS \<and> gg_gate_run_id r = ''gate_d'' | _ \<Rightarrow> False"
  by code_simp

definition gate_sample_record :: gate_run_record where
  "gate_sample_record = (case gate_record_of gate_sample_env gate_sample_world ''run-1'' ''1.1'' gate_sample_ids of
     Some (Inr r) \<Rightarrow> r | _ \<Rightarrow> undefined)"

definition gate_sample_done :: gate_world where
  "gate_sample_done = gate_sample_world\<lparr>gw_store := \<lparr>gs_log = [gate_sample_record], gs_sidecars = []\<rparr>\<rparr>"

definition gate_sample_invalid :: gate_store where
  "gate_sample_invalid = \<lparr>gs_log = [gate_sample_record,
       gate_sample_record\<lparr>gg_status := GATE_INVALIDATED, gg_invalidation_reason := Some ''wrong data''\<rparr>],
     gs_sidecars = append_sidecar ''gate_d'' []\<rparr>"

lemma gate_sample_made:
  "gate_record_of gate_sample_env gate_sample_world ''run-1'' ''1.1'' gate_sample_ids = ret gate_sample_record"
  "gg_overall_status gate_sample_record = OVERALL_PASS" "gg_gate_run_id gate_sample_record = ''gate_d''"
  using gate_sample_passes by (auto simp: gate_sample_record_def ret_def split: option.splits sum.splits)

lemma gate_sample_active: "gg_status gate_sample_record = GATE_ACTIVE"
  using gate_record_sound(2) [OF gate_sample_made(1)] .

lemma gate_sample_evaluated:
  "gate_evaluate gate_sample_env ''run-1'' ''1.1'' gate_sample_ids gate_sample_world = ret (gate_sample_record, gate_sample_done)"
proof -
  have store: "gw_store gate_sample_world = \<lparr>gs_log = [], gs_sidecars = []\<rparr>" by (simp add: gate_sample_world_def)
  show ?thesis
    unfolding gate_evaluate_def gate_sample_made(1) store
    by (simp add: gate_append_def gate_get_def sidecar_marks_iff gate_sample_done_def)
qed

lemma gate_sample_steps: "(gate_step (ge_format gate_sample_env))\<^sup>*\<^sup>* gate_sample_world gate_sample_done"
  by (rule r_into_rtranclp) (rule gate_step.evaluated [OF refl gate_sample_evaluated])

lemma gate_sample_get: "gate_get (gw_store gate_sample_done) ''gate_d'' = Some gate_sample_record"
  by (simp add: gate_sample_done_def gate_get_def gate_sample_made(3) apply_gate_sidecar_def sidecar_marks_iff)

lemma gate_sample_invalidated: "gate_invalidate ''gate_d'' ''wrong data'' (gw_store gate_sample_done) = ret gate_sample_invalid"
  unfolding gate_invalidate_def gate_sample_get
  by (simp add: gate_sample_active) (simp add: gate_sample_done_def gate_sample_invalid_def)

lemma gate_sample_empty: "gs_log (gw_store gate_sample_world) = []"
  by (simp add: gate_sample_world_def)

text \<open>The registration of the run.\<close>

definition gate_sample_unregistered :: registry where
  "gate_sample_unregistered = gate_sample_registry\<lparr>rg_log := []\<rparr>"

lemma gate_sample_registered:
  "register_complete (\<lambda>content. content) (\<lambda>_. raise (ValueError [])) 0 gate_sample_entry gate_sample_unregistered = ret gate_sample_registry"
  by code_simp

lemma gate_sample_registry_steps: "(registry_step (\<lambda>content. content))\<^sup>*\<^sup>* gate_sample_unregistered gate_sample_registry"
  by (rule r_into_rtranclp) (rule registry_step.register [OF gate_sample_registered])

lemma gate_sample_shown: "show_run (\<lambda>content. content) gate_sample_registry ''run-1'' True = ret gate_sample_entry"
  by code_simp


text \<open>The request for the evaluation.\<close>

definition gate_sample_request :: "(string \<times> raw) list" where
  "gate_sample_request = [(''run_id'', RText ''run-1''), (''policy_version'', RText ''1.1''),
     (''robustness_run_ids'', RList (map RText gate_sample_ids))]"

lemma gate_sample_requested: "evaluate_request gate_sample_env gate_sample_request = ret (''run-1'', ''1.1'', gate_sample_ids)"
  by code_simp

lemma gate_sample_plain: "plain_artifacts (gw_registry gate_sample_world)"
  by code_simp

lemma gate_sample_new: "gate_get (gw_store gate_sample_world) (gg_gate_run_id gate_sample_record) = None"
  by (simp add: gate_get_def gate_sample_empty)

lemma gate_sample_safe: "SAFE_ID (gg_gate_run_id gate_sample_record)"
  unfolding gate_sample_made(3) by code_simp


lemma gate_sample_served:
  "service_get gate_sample_env ''gate_d'' gate_sample_done = ret \<lparr>pr_record = gate_sample_record, pr_ok = True, pr_error = None\<rparr>"
  using service_evaluate_new [OF gate_sample_requested gate_sample_evaluated gate_sample_new gate_sample_plain]
    service_evaluate_ret [OF gate_sample_requested gate_sample_evaluated] gate_sample_safe gate_sample_get
  by (simp add: service_get_def assert_safe_id_def gate_sample_made(3))

end
