(* ===== verification/Spec2Isabelle.thy ===== *)
theory Spec2Isabelle
  imports Examples Market_Examples Bridge_Examples Recovery_Examples Research_Examples Gate_Examples
begin

text \<open>
  A verification of the core of a spot/perpetual trading bot.

  \<^bold>\<open>The program.\<close> The repository (Python) has a strategy engine that turns closed candles into
  entry signals (\<open>services/strategy_engine\<close>), a risk engine that sizes and admits a proposed trade
  (\<open>services/risk_engine\<close>, with \<open>services/trading_constraints\<close>), and an event-driven backtester
  (\<open>services/backtester\<close>) that drives both day by day and shares its lifecycle calculations with paper
  trading. Around it are market-data ingestion, the paper-trading service, research services and a
  web front end.

  \<^bold>\<open>Common ground.\<close> \<open>Prelude\<close>: the exceptions and the type \<open>'a comp\<close> of a computation that returns, raises
  or does not return. \<open>Decimal\<close>: Python's \<open>decimal.Decimal\<close> in the default context, as rationals with
  every operation rounded half-even to 28 significant digits (\<open>dround\<close>), and the interface
  \<open>rounding\<close> from which the order and sign facts follow. \<open>Datetime\<close>: UTC times in microseconds with the
  Gregorian calendar that printing needs. \<open>Py_Dict\<close>: insertion-ordered dictionaries.

  \<^bold>\<open>Strategy engine.\<close> \<open>Strategy_Models\<close> (\<open>models.py\<close>, \<open>constants.py\<close>), \<open>Indicators\<close> (\<open>indicators.py\<close>; interface
  \<open>causal_series\<close>: no indicator looks ahead), \<open>Entry_Rules\<close> (\<open>regime.py\<close>, \<open>trend.py\<close>, \<open>entry.py\<close>), \<open>Stops\<close>
  (\<open>stops.py\<close>; a stop never moves down), \<open>Candle_Validation\<close> (\<open>validation.py\<close>), \<open>Strategy_Engine\<close> (\<open>engine.py\<close>).

  \<^bold>\<open>Risk engine.\<close> \<open>Risk_Models\<close>, \<open>Trading_Constraints\<close>, \<open>Risk_Validation\<close>, \<open>Rounding\<close>, \<open>Risk_Sizing\<close> (\<open>portfolio.py\<close>,
  \<open>sizing.py\<close>; interfaces \<open>quantity_cap\<close> and \<open>two_caps\<close>), \<open>Risk_Engine\<close> (\<open>engine.py\<close>, stage by stage).

  \<^bold>\<open>Backtester.\<close> \<open>Backtest_Models\<close>, \<open>Paper_Lifecycle\<close> (\<open>execution.py\<close>, \<open>intent.py\<close>, \<open>portfolio.py\<close>,
  \<open>paper_lifecycle.py\<close>), \<open>Backtest_Data\<close> (\<open>data.py\<close>), \<open>Backtest_Metrics\<close> (\<open>metrics.py\<close>), \<open>Backtest_Engine\<close>
  (\<open>engine.py\<close>, the \<open>_Runtime\<close> as a record and each handler as a function on it). \<open>Backtest_Invariants\<close>
  lifts invariants of the handlers to whole runs (interface \<open>runtime_invariant\<close>) and states what the
  backtester needs of a risk engine (interface \<open>risk_gate\<close>, interpreted on \<open>risk_evaluate\<close>).
  \<open>Backtest_Lookahead\<close> shows that a run does not depend on later data.

  \<^bold>\<open>Market data.\<close> \<open>Market_Models\<close>, \<open>Timeframes\<close>, \<open>Market_Validation\<close>, \<open>Market_Aggregation\<close> and \<open>Market_Bundle\<close>
  (\<open>services/market_data\<close>): the calendar of the timeframes, normalisation, validation, gap detection,
  aggregation to weeks and months, the merge with native candles, the in-memory repository and the bundle
  the strategy engine gets.

  \<^bold>\<open>Paper trading.\<close> \<open>Paper_Models\<close> (\<open>enums.py\<close>, \<open>models.py\<close>, \<open>transitions.py\<close>, \<open>ids.py\<close>), \<open>Paper_Store\<close>, \<open>Paper_Runs\<close> and
  \<open>Paper_Listings\<close> (\<open>repository.py\<close>: the tables are lists of rows, an operation a function from database to
  result and database, \<open>'a db_op\<close>), \<open>Paper_Execution\<close>, \<open>Paper_Intents\<close>, \<open>Paper_Stops\<close> (\<open>execution.py\<close>,
  \<open>lifecycle.py\<close>, \<open>stops.py\<close>). \<open>Paper_Jobs\<close>: procedures made of transactions, which keep what was committed when
  a later one raises. \<open>Paper_Invariants\<close> has the interfaces \<open>state_preorder\<close> and \<open>db_preorder\<close> (what is kept by
  an operation is kept by its compositions) and what each operation keeps; \<open>Paper_Steps\<close> puts them together in
  the step relation \<open>paper_step\<close>; \<open>Paper_Idempotency\<close> shows that a fill is booked once.

  \<^bold>\<open>Scheduling and market events.\<close> \<open>Paper_Evaluation\<close>, \<open>Paper_Runtime\<close>, \<open>Paper_Scheduler\<close>, \<open>Paper_Context\<close>
  (\<open>evaluation.py\<close>, \<open>runtime.py\<close>, \<open>readiness.py\<close>, \<open>scheduler.py\<close>, \<open>scheduler_context.py\<close>) and \<open>Event_Fairness\<close>,
  \<open>Event_Detector\<close>, \<open>Event_Bridge\<close> (\<open>event_fairness.py\<close>, \<open>market_events.py\<close> and the committed poll of
  \<open>application.py\<close>): candles become events, events become runs of jobs, and the detector is told of the events
  whose work was committed. \<open>Bridge_Runs\<close> shows that all of it is runs of \<open>paper_step\<close> (\<open>bridge_step\<close> is one
  step of the process); \<open>Bridge_Properties\<close> has the results of procedures (\<open>gives\<close>), that jobs run once, that
  acknowledged events are backed by completed runs, and that no group of events starves.

  \<^bold>\<open>Recovery.\<close> \<open>Paper_Recovery\<close> (\<open>recovery.py\<close>, \<open>accounting_verification.py\<close>, \<open>state_verification.py\<close>): the checks at
  start-up, the repairs, the reconstruction of the wallet and the status a start-up ends in. \<open>Recovery_Chain\<close>: the
  links between orders, fills and positions (\<open>chain_ok\<close>) that the steps of the service keep and the checks look
  for. \<open>Recovery_Properties\<close>: what a recovery does and says, with the calculi \<open>reads\<close> (an operation that changes
  nothing), \<open>leads\<close> and \<open>calm\<close> (what a procedure ends in, and that it leaves the trading tables alone).
  \<open>Recovery_Accounting\<close>: the wallet is the sum of its fills (\<open>books\<close>).

  The environment is an argument: the rounding of the numeric columns (\<open>numeric\<close>, monotone and idempotent in
  the theorems that need it), the clock, the construction of an evaluation from its row, the input hash, the
  texts of exceptions, the readiness callback, the digest of a low, and the answer of the database to an
  attempt on the advisory lock. Identifiers come from a counter.

  \<^bold>\<open>Research.\<close> \<open>Research_Jobs\<close> (\<open>jobs.py\<close>, \<open>robustness_jobs.py\<close> of \<open>services/research\<close>): the store of the jobs with
  claims, leases, the watchdog and the recovery of orphans; \<open>job_trace\<close> is a history of the store, and \<open>traced\<close>
  what holds along it. \<open>Walk_Forward\<close> (\<open>walk_forward.py\<close>): the plan of a walk-forward study, over the months
  of the calendar in a row. \<open>Research_Registry\<close> (\<open>registry.py\<close>, \<open>artifacts.py\<close>): the log of the runs over directories of
  files, with the interface \<open>invalidation_log\<close> (a log that only grows, marks that stay, one active record) that the gate
  store has too. \<open>Research_Values\<close>: the JSON values and the texts that these services read. \<open>Research_Metrics\<close>
  (\<open>metrics_contract.py\<close>, \<open>run_manifest.py\<close>): the contracts of metrics and manifests. \<open>Research_Gates\<close> (\<open>gate_policy.py\<close>,
  \<open>gate_evaluator.py\<close>, the seals of \<open>robustness.py\<close>): policies, evidence, evaluation, the store of the results; its
  environment is the record \<open>gate_env\<close> (digest, JSON, printing, the commit and the bootstrap). \<open>Gate_Properties\<close>: what a
  result says (\<open>record_sound\<close>), the histories of the store (\<open>gate_step\<close>), and the evidence of a result (\<open>run_evidence\<close>,
  \<open>manifest_bound\<close>). \<open>Gate_Service\<close> (\<open>gate_service.py\<close>): the verification of a stored result against the files of today, and
  the service, whose operations keep what they wrote when their answer is an exception.

  \<open>Examples\<close>, \<open>Market_Examples\<close>, \<open>Paper_Examples\<close>, \<open>Bridge_Examples\<close>, \<open>Recovery_Examples\<close>, \<open>Research_Examples\<close> and
  \<open>Gate_Examples\<close> evaluate the components on concrete inputs.

  \<^bold>\<open>Bounds.\<close> The only loop of the code without an evident bound, \<open>apply_risk_cap_after_rounding\<close>, is a
  partial function; it is shown to return on grids \<open>grid_ok s n\<close>, where the multiples of the quantity
  step up to \<open>n\<close> steps are 28-digit numbers. With a step \<open>c * 10 ^ e\<close> that is every \<open>n\<close> with
  \<open>n * c \<le> 10 ^ 28\<close>. No fuel is used.

  \<^bold>\<open>Not modelled.\<close> NaN and infinite decimals (the pydantic models refuse them), the exponent range of
  decimals, negative indicator periods, naive datetimes, the three floating-point ratios of the metrics
  (parameters of \<open>compute_metrics\<close>), two processes on one database at the same time (the advisory lock keeps
  them apart), logging, the providers and web sockets of the market data, the wiring of the
  application, the HTTP APIs, the runner, services, scorecards and reports of the research side, its floating-point
  bootstrap (an argument of the gates), and the front end.
\<close>

section \<open>Risk engine\<close>

text \<open>
  C1. An approved trade stays within its budget: the quantity is a positive multiple of the
  step of at least the minimum size, and its loss down to the rounded stop is at most the
  equity times the configured fraction, itself at most half a percent.
\<close>

theorem risk_approved_within_budget:
  assumes "risk_evaluate proposal account cs ps ords processed params = ret d" and "approved d"
  shows "\<exists>q. rounded_quantity d = Some q \<and> 0 < q \<and> minimum_quantity cs \<le> q \<and>
    step_multiple (quantity_step cs) q \<and>
    minimum_notional cs \<le> dmul q (tp_entry_price proposal) \<and>
    actual_trade_risk_usd d = Some (dmul q (dsub (tp_entry_price proposal) (requested_stop_price d))) \<and>
    dmul q (dsub (tp_entry_price proposal) (requested_stop_price d))
      \<le> dmul (equity_usd account) (risk_per_trade_pct (params_or_default params)) \<and>
    risk_per_trade_pct (params_or_default params) \<le> 5 / 1000"
proof -
  from assms obtain stop q where "is_approval proposal account (params_or_default params) stop q d"
    and "approval_conditions proposal account cs ps ords processed (params_or_default params) stop q"
    by (rule risk_evaluate_approved)
  then show ?thesis
    by (auto simp: is_approval_def approval_conditions_def sized_ok_def risk_ok_def compute_risk_budget_def
        inputs_ok_def valid_parameters_def DEFAULT_RISK_PER_TRADE_PCT_def)
qed

theorem risk_approved_within_budget_witness:
  "\<exists>q. rounded_quantity sample_decision = Some q \<and> 0 < q \<and>
     dmul q (dsub 50000 (requested_stop_price sample_decision))
       \<le> dmul 100000 (risk_per_trade_pct default_risk_parameters)"
  using risk_approved_within_budget [OF sample_approved sample_decision_approved]
  by (auto simp: sample_proposal_def sample_account_def)

text \<open>
  C2. The loss bound in exact arithmetic: the true product of quantity and stop distance of an
  approved trade exceeds the true budget by the 28-digit rounding errors at most.
\<close>

theorem risk_approved_exact_loss:
  assumes "risk_evaluate proposal account cs ps ords processed params = ret d" and "approved d"
    and "rounded_quantity d = Some q"
  shows "q * (tp_entry_price proposal - requested_stop_price d) * (1 - 5 / 10 ^ dec_prec)\<^sup>2
    \<le> equity_usd account * risk_per_trade_pct (params_or_default params) * (1 + 5 / 10 ^ dec_prec)"
proof -
  let ?l = "1 - 5 / 10 ^ dec_prec :: rat"
  from assms(1,2) obtain stop q' where a: "is_approval proposal account (params_or_default params) stop q' d"
    and c: "approval_conditions proposal account cs ps ords processed (params_or_default params) stop q'"
    by (rule risk_evaluate_approved)
  from a assms(3) have stop: "requested_stop_price d = stop" "q' = q" by (auto simp: is_approval_def)
  have pos: "0 < q" "stop < tp_entry_price proposal" "0 < equity_usd account"
      "0 < risk_per_trade_pct (params_or_default params)"
    and le: "dmul q (dsub (tp_entry_price proposal) stop)
      \<le> dmul (equity_usd account) (risk_per_trade_pct (params_or_default params))"
    using c stop by (auto simp: approval_conditions_def sized_ok_def risk_ok_def compute_risk_budget_def
        inputs_ok_def valid_parameters_def valid_account_def)
  show ?thesis
    unfolding stop(1) by (rule exact_product_bound [OF pos(1,2) le]) (use pos in simp_all)
qed

theorem risk_approved_exact_loss_witness:
  "1 / 2 * (50000 - 49000) * (1 - 5 / 10 ^ dec_prec)\<^sup>2
     \<le> 100000 * risk_per_trade_pct default_risk_parameters * (1 + 5 / 10 ^ dec_prec)"
  using risk_approved_exact_loss [OF sample_approved sample_decision_approved, of "1 / 2"]
  by (simp add: sample_proposal_def sample_account_def sample_decision_fields) (simp add: sample_decision_def)



text \<open>
  C4. Fail-closed admission: an approved trade is a long entry of an approved signal on good data
  with the bot active, its intent was not processed before, no position and no pending entry order
  exists for its symbol, fewer than three positions are open, and its stop, rounded to the tick,
  lies below the entry price.
\<close>

theorem risk_approved_admission:
  assumes "risk_evaluate proposal account cs ps ords processed params = ret d" and "approved d"
  shows "tp_side proposal = LONG \<and> tp_signal_intent_kind proposal = LONG_ENTRY \<and>
    tp_strategy_approved proposal \<and> tp_market_data_status proposal = MD_OK \<and>
    tp_bot_system_state proposal = BOT_ACTIVE \<and>
    tp_client_intent_id proposal \<notin> processed \<and>
    tp_symbol proposal \<notin> ps_symbol ` set ps \<and>
    tp_symbol proposal \<notin> oo_symbol ` {ord \<in> set ords. oo_is_entry ord} \<and>
    length ps < 3 \<and>
    requested_stop_price d = fts (tp_stop_price proposal) (price_tick_size cs) \<and>
    requested_stop_price d < tp_entry_price proposal \<and>
    0 < equity_usd account \<and> check_loss_limits account (params_or_default params) = ret None"
proof -
  from assms obtain stop q where "is_approval proposal account (params_or_default params) stop q d"
    and c: "approval_conditions proposal account cs ps ords processed (params_or_default params) stop q"
    by (rule risk_evaluate_approved)
  moreover have "length ps < 3"
    using c by (simp add: approval_conditions_def admitted_def inputs_ok_def valid_parameters_def risk_defaults)
  ultimately show ?thesis
    by (auto simp: is_approval_def approval_conditions_def admitted_def inputs_ok_def valid_proposal_def valid_account_def)
qed

theorem risk_approved_admission_witness:
  "requested_stop_price sample_decision = fts 49000 (1 / 10) \<and> requested_stop_price sample_decision < 50000"
  using risk_approved_admission [OF sample_approved sample_decision_approved]
  by (simp add: sample_proposal_def sample_constraints_def)

text \<open>
  The shape of every decision: it is approved exactly when it has no error, exactly when its
  codes are \<open>[RC_RISK_APPROVED]\<close>, exactly when it has a quantity; a rejection carries at least
  one error, the codes of its errors in order, and never the code of an approval.
\<close>

theorem risk_decision_shape:
  assumes "risk_evaluate proposal account cs ps ords processed params = ret d"
  shows "(approved d \<longleftrightarrow> rd_errors d = []) \<and> (approved d \<longleftrightarrow> rd_reason_codes d = [RC_RISK_APPROVED]) \<and>
    (approved d \<longleftrightarrow> rounded_quantity d \<noteq> None) \<and>
    (\<not> approved d \<longrightarrow> rd_reason_codes d = map re_code (rd_errors d) \<and> RC_RISK_APPROVED \<notin> set (rd_reason_codes d)) \<and>
    rd_symbol d = tp_symbol proposal \<and> requested_entry_price d = tp_entry_price proposal"
  using risk_evaluate_cases [OF assms]
proof
  assume r: "is_rejection proposal (params_or_default params) d"
  then have "rd_symbol d = tp_symbol proposal \<and> requested_entry_price d = tp_entry_price proposal"
    by (auto simp: is_rejection_def reject_def)
  with is_rejection_not_approved [OF r] show ?thesis by auto
qed (auto simp: is_approval_def)



text \<open>
  C6. The loop that steps a quantity down until its risk fits returns, and returns the best answer:
  the largest multiple of the step, at most the start, whose risk is within the budget and the
  limit; or \<open>None\<close>, when no such multiple of at least the minimum exists.
\<close>

theorem risk_cap_optimal:
  assumes "grid_ok step n" and "0 < equity" and "0 < minq" and "k \<le> n"
  shows "\<exists>res. apply_risk_cap_after_rounding (of_int k * step) sd equity budget step minq p = ret res \<and>
    (case res of
       None \<Rightarrow> \<forall>j \<le> k. minq \<le> of_int j * step \<longrightarrow> \<not> risk_ok sd equity budget (trade_limit_of p) (of_int j * step)
     | Some r \<Rightarrow> \<exists>j \<le> k. r = of_int j * step \<and> minq \<le> r \<and> risk_ok sd equity budget (trade_limit_of p) r \<and>
         (\<forall>i. j < i \<and> i \<le> k \<longrightarrow> \<not> risk_ok sd equity budget (trade_limit_of p) (of_int i * step)))"
  using risk_cap_loop_grid [OF assms]
  unfolding apply_risk_cap_after_rounding_def Let_def cap_result_def .

theorem risk_cap_optimal_witness:
  "\<exists>res. apply_risk_cap_after_rounding (of_int 600 * (1 / 1000)) 1000 100000 500 (1 / 1000) (1 / 1000)
     default_risk_parameters = ret res"
  using risk_cap_optimal [OF sample_grid, of 100000 "1 / 1000" 600 1000 500 default_risk_parameters]
  by simp blast

text \<open>
  The leverage and the margin cap, in the order of the engine, never raise a quantity, keep it
  a multiple of the step, and leave it non-negative.
\<close>

theorem leverage_margin_caps_reduce:
  assumes "0 < entry_price" and "0 \<le> q" and "step_multiple step q"
    and "cbind (cap_quantity_for_leverage q entry_price equity total_notional step max_lev)
      (\<lambda>q. cap_quantity_for_margin q entry_price margin max_lev step) = ret r"
  shows "0 \<le> r \<and> r \<le> q \<and> step_multiple step r"
proof -
  have abs: "\<bar>entry_price\<bar> = entry_price" using assms(1) by simp
  note caps = lev_mar.both_le [of q entry_price equity total_notional step max_lev margin r]
    lev_mar.both_multiple [of step q entry_price equity total_notional max_lev margin r]
  from assms(4) obtain q1 where q1: "cap_quantity_for_leverage q entry_price equity total_notional step max_lev = ret q1"
    "cap_quantity_for_margin q1 entry_price margin max_lev step = ret r" by (rule cbind_retE)
  have "0 \<le> q1" using cap_leverage_nonneg [OF assms(1,2) q1(1)] .
  then have "0 \<le> r" using cap_margin_cases [OF q1(2)] assms(1) by (auto intro!: fts_nonneg dquot_nonneg)
  with caps assms(2-4) show ?thesis by (simp add: abs)
qed

text \<open>
  The validation of the exchange constraints accepts exactly the usable ones: positive finite
  tick, step and minimum quantity, a finite non-negative minimum notional, and a minimum quantity of
  at least one step whose quotient by the step is an integer.
\<close>

theorem constraints_accepted_iff:
  "validate_symbol_constraints_core cs = None \<longleftrightarrow>
     float_is_finite (price_tick_size cs) \<and> 0 < price_tick_size cs \<and>
     float_is_finite (quantity_step cs) \<and> 0 < quantity_step cs \<and>
     float_is_finite (minimum_quantity cs) \<and> quantity_step cs \<le> minimum_quantity cs \<and>
     float_is_finite (minimum_notional cs) \<and> 0 \<le> minimum_notional cs \<and>
     (\<exists>k::int. dquot (minimum_quantity cs) (quantity_step cs) = of_int k)"
  by (simp add: validate_core_None valid_constraints_def)

section \<open>Strategy engine\<close>

abbreviation parameters_or_default :: "strategy_parameters option \<Rightarrow> strategy_parameters" where
  "parameters_or_default parameters \<equiv>
     (case parameters of None \<Rightarrow> default_strategy_parameters | Some p \<Rightarrow> p)"

text \<open>
  C7. An entry signal is justified: the three series are well-formed and of one symbol, the monthly
  regime, the weekly trend and the volume filter hold, one of the two setups triggered and the breakout
  takes precedence, the entry price is the last daily close, and the stop is that price less a
  multiple of a positive ATR, strictly below it.
\<close>

theorem long_entry_justified:
  assumes "strategy_evaluate d w m et parameters = ret ev"
    and "si_kind (ev_signal_intent ev) = LONG_ENTRY"
  shows "inputs_well_formed d w m et \<and> entry_signal_ok ev (parameters_or_default parameters) (last (candles d)) \<and>
    ev_symbol ev = s_symbol d \<and> ev_data_quality ev = DQ_OK"
proof -
  obtain errs where run: "evaluate_series d w m et (parameters_or_default parameters) errs = ret ev"
    using strategy_evaluate_cases [OF assms refl] by blast
  have "inputs_well_formed d w m et"
    using strategy_evaluate_invalid_iff [OF assms(1)] assms(2) by simp
  with evaluate_series_entry [OF run assms(2)] show ?thesis by blast
qed

theorem long_entry_justified_witness:
  "\<exists>ev. strategy_evaluate (bars DAILY) (bars WEEKLY) (bars MONTHLY) 2 (Some short_parameters) = ret ev \<and>
     entry_signal_ok ev short_parameters (bar DAILY 1 100 120 100 120)"
proof -
  obtain ev where ev: "strategy_evaluate (bars DAILY) (bars WEEKLY) (bars MONTHLY) 2 (Some short_parameters) = ret ev"
    "si_kind (ev_signal_intent ev) = LONG_ENTRY" using bars_signal by blast
  from long_entry_justified [OF ev] ev(1) show ?thesis by auto
qed

text \<open>
  C8. The strategy engine is total: with positive periods it returns an evaluation for any three
  series, whatever their length, order, symbol or values.
\<close>

theorem strategy_evaluate_total:
  assumes "positive_periods (parameters_or_default parameters)"
  shows "\<exists>ev. strategy_evaluate d w m et parameters = ret ev"
  using assms by (rule strategy_evaluate_returns)

theorem strategy_evaluate_total_witness:
  "\<exists>ev. strategy_evaluate (bars DAILY) (bars DAILY) (bars MONTHLY) 0 None = ret ev"
  by (rule strategy_evaluate_total) simp

text \<open>
  C9. Fail-closed on bad data: the outcome is \<open>INVALID_DATA\<close> exactly when the symbols differ, a series
  has the wrong timeframe, is empty, is not strictly ordered in time, or contains a candle that is
  open, not yet closed at the evaluation, of another symbol or timeframe, or with impossible prices.
\<close>

theorem invalid_data_iff:
  assumes "strategy_evaluate d w m et parameters = ret ev"
  shows "si_kind (ev_signal_intent ev) = INVALID_DATA \<longleftrightarrow> \<not> inputs_well_formed d w m et"
  using assms by (rule strategy_evaluate_invalid_iff)

theorem invalid_data_iff_witness:
  "\<exists>ev. strategy_evaluate (bars DAILY) (bars DAILY) (bars MONTHLY) 2 None = ret ev \<and>
     si_kind (ev_signal_intent ev) = INVALID_DATA"
proof -
  obtain ev where ev: "strategy_evaluate (bars DAILY) (bars DAILY) (bars MONTHLY) 2 None = ret ev"
    using strategy_evaluate_returns [of None "bars DAILY" "bars DAILY" "bars MONTHLY" 2] by auto
  with invalid_data_iff [OF ev] show ?thesis by (simp add: inputs_well_formed_def)
qed

text \<open>
  The validation of one series: it is \<open>OK\<close>, which is the same as having no error, exactly for a
  well-formed series of the expected timeframe that is long enough for the warm-up.
\<close>

theorem series_ok_iff:
  "(fst (validate_candle_series series et (Some tf)) = DQ_OK \<longleftrightarrow>
     s_timeframe series = tf \<and> well_formed_series series et \<and>
     min_candles_for_warmup tf None \<le> length (candles series)) \<and>
   (snd (validate_candle_series series et (Some tf)) = [] \<longleftrightarrow>
     fst (validate_candle_series series et (Some tf)) = DQ_OK)"
  by (simp add: validate_OK validate_errors_Nil)

text \<open>
  No indicator looks ahead: on candles that are followed by others it has the values it has
  without them.
\<close>

theorem indicators_causal:
  "(compute_ema (xs @ zs) p = ret ys \<longrightarrow> compute_ema xs p = ret (take (length xs) ys)) \<and>
   (compute_wilder_atr (cs @ ds) p = ret ys \<longrightarrow> compute_wilder_atr cs p = ret (take (length cs) ys)) \<and>
   (compute_volume_ratio (xs @ zs) p = ret ys \<longrightarrow> compute_volume_ratio xs p = ret (take (length xs) ys)) \<and>
   (compute_high20 (xs @ zs) p = ret ys \<longrightarrow> compute_high20 xs p = ret (take (length xs) ys))"
  by (intro conjI impI; erule ema.ind_prefix atr.ind_prefix vratio.ind_prefix high.ind_prefix)

text \<open>
  C10. The breakout level at candle \<open>t\<close> is the highest high of the \<open>k\<close> candles before it; the
  candle itself is not among them.
\<close>

theorem breakout_level:
  assumes "0 < k" and "t < length highs"
  shows "\<exists>ys. compute_high20 highs k = ret ys \<and>
    ys ! t = (if t < k then None else Some (Max ((!) highs ` {t - k..<t})))"
  using compute_high20_returns [OF assms(1)] compute_high20_value [OF _ assms] by blast

theorem breakout_level_witness:
  "\<exists>ys. compute_high20 [105, 120] (Suc 0) = ret ys \<and> ys ! Suc 0 = Some 105"
  using breakout_level [of "Suc 0" "Suc 0" "[105, 120]"] by simp

text \<open>
  The exponential average: no value before the period is complete, then the mean of the first
  closes, then the recurrence with the factor two over the period plus one.
\<close>

theorem ema_recurrence:
  assumes "compute_ema closes p = ret ys" and "0 < p"
  shows "length ys = length closes \<and> (\<forall>i < length closes. Suc i < p \<longrightarrow> ys ! i = None) \<and>
    (p \<le> length closes \<longrightarrow> ys ! (p - 1) = Some (dquot (dsum (take p closes)) (of_nat p))) \<and>
    (\<forall>i < length closes. p \<le> i \<longrightarrow>
       (\<exists>prev. ys ! (i - 1) = Some prev \<and>
          ys ! i = Some (dadd (dmul (dquot 2 (of_nat (p + 1))) (closes ! i))
                              (dmul (dsub 1 (dquot 2 (of_nat (p + 1)))) prev))))"
  using ema.ind_length [OF assms(1)] compute_ema_undefined [OF assms(1)] compute_ema_seed [OF assms]
    compute_ema_step [OF assms] by blast

text \<open>
  C11. The trailing stop of a position never moves down: opened on a tick grid and updated with any
  sequence of daily closes and true ranges, it returns a state whose trailing and effective stops are at
  least what they were, and the effective stop is never below the initial one.
\<close>

theorem trailing_stop_monotone:
  assumes "grid_ok t n" and "0 \<le> trail_atr_mult params" and "0 \<le> stop" and "stop \<le> of_int n * t"
    and "entry \<le> of_int n * t" and "0 \<le> atr" and "\<forall>(c, a) \<in> set (days @ more_days). c \<le> of_int n * t \<and> 0 \<le> a"
  shows "\<exists>st st1 st2. initialize_trailing_stop entry atr stop params (Some t) = ret st \<and>
    run_updates params (Some t) st days = ret st1 \<and> run_updates params (Some t) st1 more_days = ret st2 \<and>
    ts_trail_stop st \<le> ts_trail_stop st1 \<and> ts_trail_stop st1 \<le> ts_trail_stop st2 \<and>
    ts_effective_stop st \<le> ts_effective_stop st1 \<and> ts_effective_stop st1 \<le> ts_effective_stop st2 \<and>
    stop \<le> ts_effective_stop st"
proof -
  obtain st where st: "initialize_trailing_stop entry atr stop params (Some t) = ret st" "stop_inv t n st"
      "ts_stop_initial st = stop"
    using initialize_trailing_stop_inv [OF assms(1,3,4,5,2,6)] by metis
  have days: "\<forall>(c, a) \<in> set days. c \<le> of_int n * t \<and> 0 \<le> a" "\<forall>(c, a) \<in> set more_days. c \<le> of_int n * t \<and> 0 \<le> a"
    using assms(7) by auto
  obtain st1 where st1: "run_updates params (Some t) st days = ret st1" "stop_inv t n st1"
      "ts_trail_stop st \<le> ts_trail_stop st1" "ts_effective_stop st \<le> ts_effective_stop st1"
    using run_updates_inv [OF assms(1,2) st(2) days(1)] by blast
  obtain st2 where "run_updates params (Some t) st1 more_days = ret st2"
      "ts_trail_stop st1 \<le> ts_trail_stop st2" "ts_effective_stop st1 \<le> ts_effective_stop st2"
    using run_updates_inv [OF assms(1,2) st1(2) days(2)] by blast
  moreover have "stop \<le> ts_effective_stop st" using st(2,3) by (auto simp: stop_inv_def)
  ultimately show ?thesis using st(1) st1 by blast
qed

theorem trailing_stop_monotone_witness:
  "\<exists>st st1. initialize_trailing_stop (1 / 2) (1 / 10) (2 / 5) default_strategy_parameters (Some (1 / 1000)) = ret st \<and>
     run_updates default_strategy_parameters (Some (1 / 1000)) st [(3 / 5, 1 / 10), (1 / 2, 1 / 5)] = ret st1 \<and>
     ts_trail_stop st \<le> ts_trail_stop st1"
  using trailing_stop_monotone [OF sample_grid, of default_strategy_parameters "2 / 5" "1 / 2" "1 / 10"
      "[(3 / 5, 1 / 10), (1 / 2, 1 / 5)]" "[]"]
  by (simp add: default_strategy_parameters_def) blast

text \<open>
  Flooring to a step that is a power of ten is a floor: on a decimal of at most 28 digits the result is the
  largest multiple of the step not above the value.
\<close>

theorem floor_to_step_floor:
  assumes "representable v" and "0 \<le> v" and "step = 10 powi e"
  shows "\<exists>r. floor_to_step v step = ret r \<and> r = of_int \<lfloor>v / step\<rfloor> * step \<and> r \<le> v \<and> v < r + step"
proof -
  have "0 < step" using assms(3) by simp
  then show ?thesis
    using fts_power_of_ten [OF assms] fts_power_of_ten_bounds [OF assms] by simp
qed

section \<open>Backtester\<close>

text \<open>
  C12. The books of a run agree, for any strategy and any risk engine: positions, active trades and stop
  histories have the same symbols in the same order, each position matches its trade, and the queue has at
  most one intent per symbol and none for a symbol with a position.
\<close>

theorem backtest_books_agree:
  assumes "simulate_days strategy risk config data days = ret rt"
  shows "distinct (dict_keys (rt_positions rt)) \<and>
    dict_keys (rt_active_trades rt) = dict_keys (rt_positions rt) \<and>
    dict_keys (rt_trail_history rt) = dict_keys (rt_positions rt) \<and>
    (\<forall>s p. dict_get (rt_positions rt) s = Some p \<longrightarrow>
       pos_symbol p = s \<and> (\<exists>t. dict_get (rt_active_trades rt) s = Some t \<and> trade_matches p t)) \<and>
    distinct (map pi_symbol (rt_pending_intents rt)) \<and>
    (\<forall>i \<in> set (rt_pending_intents rt). dict_get (rt_positions rt) (pi_symbol i) = None)"
proof -
  have inv: "linked (rt_positions rt) (rt_active_trades rt) (rt_trail_history rt)"
    "queue_ok (rt_pending_intents rt) (rt_positions rt)"
    using books.inv_run [OF assms] by (simp_all add: book_inv_def)
  have "pos_symbol p = s \<and> (\<exists>t. dict_get (rt_active_trades rt) s = Some t \<and> trade_matches p t)"
    if "dict_get (rt_positions rt) s = Some p" for s p
    using inv(1) that linked_active [OF inv(1) that] by (simp add: linked_def)
  with inv show ?thesis by (simp add: linked_def queue_ok_def)
qed

theorem backtest_books_agree_witness:
  "dict_keys (rt_active_trades sample_rt2) = dict_keys (rt_positions sample_rt2) \<and>
   distinct (map pi_symbol (rt_pending_intents sample_rt2))"
  using backtest_books_agree [OF sample_run] by blast

text \<open>
  C13. No intent is executed twice: the trades of a result, closed and open, have pairwise different
  intent ids, and every one of them is recorded as processed.
\<close>

theorem intents_executed_once:
  assumes "backtest_run strategy risk fm data config = ret res"
  shows "distinct (map bt_client_intent_id (br_trades res)) \<and>
    set (map bt_client_intent_id (br_trades res)) \<subseteq> set (br_processed_intent_ids res)"
  using assms
proof (cases rule: backtest_run_cases)
  case (simulated rt)
  have inv: "book_inv config rt" using books.inv_run [OF simulated(1)] .
  from book_inv_trade_ids [OF inv] show ?thesis
    by (simp add: simulated(2,4))
qed simp

theorem intents_executed_once_witness:
  "\<exists>res. backtest_run sample_strategy risk_evaluate sample_floats sample_data sample_config = ret res \<and>
     distinct (map bt_client_intent_id (br_trades res))"
proof -
  obtain res where "backtest_run sample_strategy risk_evaluate sample_floats sample_data sample_config = ret res"
    using sample_backtest by blast
  with intents_executed_once [OF this] show ?thesis by blast
qed

text \<open>
  The accounts of a closed trade balance: the exit fill is the reference price after slippage, the
  gross result is the price difference times the quantity, the net result deducts fees and funding, the
  R multiple relates it to the initial risk, and the exit was at a stop.
\<close>

theorem closed_trades_balance:
  assumes "simulate_days strategy risk config data days = ret rt" and "t \<in> set (rt_closed_trades rt)"
  shows "\<exists>ref fill gross net.
    bt_exit_reference_price t = Some ref \<and> bt_exit_fill_price t = Some fill \<and>
    fill = apply_exit_slippage ref (cfg_slippage_model config) \<and>
    bt_gross_pnl t = Some gross \<and> gross = dmul (dsub fill (bt_entry_fill_price t)) (bt_quantity t) \<and>
    bt_net_pnl t = Some net \<and> net = dsub (dsub gross (bt_fees t)) (bt_funding t) \<and>
    bt_r_multiple t = safe_r (bt_initial_risk_usd t) net \<and>
    bt_exit_reason t \<in> {Some STOP_GAP, Some STOP_TRAILING, Some STOP_INITIAL} \<and> bt_exit_time t \<noteq> None"
  using books.inv_run [OF assms(1)] assms(2) unfolding book_inv_def balanced_def by blast

text \<open>
  C14. The exposure of a run with the risk engine: on positive prices every open position has a
  positive size and entry price, and there are never more than the configured maximum, which is at
  most three.
\<close>

theorem backtest_exposure_bounded:
  assumes "simulate_days strategy risk_evaluate config data days = ret rt" and "positive_prices config data"
  shows "(\<forall>s p. dict_get (rt_positions rt) s = Some p \<longrightarrow> 0 < pos_quantity p \<and> 0 < pos_entry_price p) \<and>
    int (length (rt_positions rt)) \<le> max 0 (max_open_positions (risk_params config)) \<and>
    length (rt_positions rt) \<le> 3"
proof -
  have "exposure_ok config (rt_positions rt)"
    using gate.exposure.inv_run [OF assms(1)] assms(2) by (simp add: exposure_inv_def)
  then show ?thesis by (auto simp: exposure_ok_def risk_defaults)
qed

theorem backtest_exposure_bounded_witness: "length (rt_positions sample_rt2) \<le> 3"
  using backtest_exposure_bounded [OF sample_run] by (simp add: positive_prices_def sample_config_fields sample_daily)

text \<open>
  C15. No look-ahead: a run is the same on the data known at a time \<open>e\<close>, as long as every daily
  candle that has opened by one of its days is evaluated by \<open>e\<close>. Candles and funding events that
  come later cannot change it.
\<close>

theorem backtest_no_lookahead:
  assumes "evaluated_by e config data days" and "evaluated_by e config data' days"
    and "truncate_data e data = truncate_data e data'"
  shows "simulate_days strategy risk config data days = simulate_days strategy risk config data' days"
  using simulate_days_truncated [OF assms(1), of strategy risk] simulate_days_truncated [OF assms(2), of strategy risk] assms(3)
  by simp

theorem backtest_no_lookahead_witness:
  "simulate_days sample_strategy risk_evaluate sample_config
     (sample_data\<lparr>hd_daily := [(''BTC'', [sample_day 20000 49500, sample_day 20001 48000, sample_day 20002 1])]\<rparr>)
     [20000 * us_per_day, 20001 * us_per_day] = ret sample_rt2"
proof -
  let ?days = "[20000 * us_per_day, 20001 * us_per_day]" and ?e = "sample_eval 20001"
  let ?data = "sample_data\<lparr>hd_daily := [(''BTC'', [sample_day 20000 49500, sample_day 20001 48000, sample_day 20002 1])]\<rparr>"
  have "evaluated_by ?e sample_config ?data ?days" "evaluated_by ?e sample_config sample_data ?days"
    by (auto simp: evaluated_by_def sample_config_fields sample_data_def get_default_def sample_eval_time sample_eval_def
        us_per_day_def us_per_second_def)
  moreover have "truncate_data ?e ?data = truncate_data ?e sample_data"
    by (simp add: truncate_data_def truncate_candles_def sample_data_def sample_eval_def seconds_def us_per_day_def us_per_second_def)
  ultimately have "simulate_days sample_strategy risk_evaluate sample_config ?data ?days =
      simulate_days sample_strategy risk_evaluate sample_config sample_data ?days"
    by (rule backtest_no_lookahead)
  then show ?thesis using sample_run by simp
qed

text \<open>
  Fills see opens only: what happens to a pending intent at the open does not depend on the high,
  the low, the close or the volume of any candle of that day.
\<close>

theorem fills_use_opens_only:
  assumes "c_open c = c_open c'" and "open_time c = open_time c'" and "same_opens day day'"
  shows "fill_pending_at_open risk config s c day prior rt = fill_pending_at_open risk config s c' day' prior rt"
  using assms by (rule fill_pending_open_cong)



text \<open>
  A stop triggers exactly when the day trades at or below it; the exit is at the stop, or at the
  open when the day opens below, and the reason says which.
\<close>

theorem stop_trigger_spec:
  "case compute_stop_trigger c eff ini tr of
     None \<Rightarrow> eff \<le> c_open c \<and> eff < c_low c
   | Some r \<Rightarrow> (c_open c < eff \<or> c_low c \<le> eff) \<and> st_exit_reference r = min eff (c_open c) \<and>
       st_exit_reason r = (if c_open c < eff then STOP_GAP else if ini \<le> tr then STOP_TRAILING else STOP_INITIAL)"
  using compute_stop_trigger_iff [of c eff ini tr] compute_stop_trigger_reference [of c eff ini tr]
  by (auto split: option.splits)

text \<open>
  Slippage is adverse on both sides: an entry is filled at or above the reference price, an exit at
  or below it.
\<close>

theorem slippage_adverse:
  assumes "representable ref" and "0 \<le> ref" and "0 \<le> slippage_bps m"
  shows "apply_exit_slippage ref m \<le> ref \<and> ref \<le> apply_entry_slippage ref m"
  using entry_slippage_adverse [OF assms] exit_slippage_adverse [OF assms] by blast

text \<open>
  The drawdown curve has one entry per equity snapshot; each peak is the highest equity up to it,
  and each drawdown lies between zero and one as long as the equity is not negative.
\<close>

theorem drawdown_curve_spec:
  assumes "\<forall>s \<in> set (x # curve). representable (eq_equity s)" and "0 \<le> eq_equity x"
  shows "length (compute_drawdown_curve (x # curve)) = length (x # curve) \<and>
    (\<forall>i < length (x # curve).
       dd_peak_equity (compute_drawdown_curve (x # curve) ! i) = Max (eq_equity ` set (take (Suc i) (x # curve)))) \<and>
    (\<forall>s \<in> set (compute_drawdown_curve (x # curve)).
       0 \<le> dd_drawdown_pct s \<and> (0 \<le> dd_equity s \<longrightarrow> dd_drawdown_pct s \<le> 1))"
proof -
  have "representable 0" using representable_of_int [of 0] by simp
  note range = drawdown_loop_range [OF this order_refl assms(1)]
  have "dd_peak_equity (drawdown_loop 0 (x # curve) ! i) = Max (eq_equity ` set (take (Suc i) (x # curve)))"
    if "i < length (x # curve)" for i
    using drawdown_loop_peak [OF that, of 0] list_max_Max [of "eq_equity x" "map eq_equity (take i curve)"] assms(2)
    by (simp add: max_absorb2)
  with range show ?thesis
    by (simp add: compute_drawdown_curve_def del: drawdown_loop.simps)
qed

text \<open>
  The chronology check has no warning exactly for closed candles with strictly increasing opening
  times.
\<close>

theorem chronology_ok_iff:
  "validate_chronological cs = [] \<longleftrightarrow> (\<forall>c \<in> set cs. is_closed c) \<and> sorted_wrt (<) (map open_time cs)"
  by (rule validate_chronological_Nil)

text \<open>
  The metrics count each closed trade once: the trade counts of the per-symbol table add up to the
  total, and the longest winning and losing streaks together are at most the number of trades.
\<close>

theorem metrics_counts:
  "mt_trade_count (compute_metrics fm trades curve a b c d e ds de) = length (filter is_closed_trade trades) \<and>
   sum_list (map sm_trade_count (mt_per_symbol (compute_metrics fm trades curve a b c d e ds de))) =
     mt_trade_count (compute_metrics fm trades curve a b c d e ds de) \<and>
   mt_max_win_streak (compute_metrics fm trades curve a b c d e ds de) +
     mt_max_loss_streak (compute_metrics fm trades curve a b c d e ds de) \<le>
     mt_trade_count (compute_metrics fm trades curve a b c d e ds de)"
proof -
  let ?ts = "filter is_closed_trade trades"
  have "sk_max_win (compute_streaks ?ts) + sk_max_loss (compute_streaks ?ts) \<le> length ?ts"
    using compute_streaks_bound [of ?ts] sum_length_filter_compl [of is_winner ?ts] by linarith
  then show ?thesis
    using per_symbol_count [of ?ts] by (simp add: compute_metrics_def Let_def comp_def symbol_row_def del: filter_filter)
qed

section \<open>Market data\<close>


text \<open>
  Gap detection: for candles on the boundaries of their timeframe, in order, the opens reported
  missing are exactly the boundaries after the first candle that have no candle and either precede the
  last one or belong to a bucket that has already closed.
\<close>

theorem gaps_are_missing_opens:
  assumes "\<forall>c \<in> set cs. aligned tf (nc_open_time c)" and "sorted_wrt (<) (map nc_open_time cs)" and "cs \<noteq> []"
  shows "\<exists>gs. detect_gaps cs symbol tf et = ret gs \<and>
    cg_missing_open_time ` set gs =
      {t. aligned tf t \<and> nc_open_time (hd cs) < t \<and> t \<notin> nc_open_time ` set cs \<and>
          (t < nc_open_time (last cs) \<or> next_open_time t tf - seconds 1 \<le> et)}"
  by (rule detect_gaps_spec [OF assms])

text \<open>
  The merge of native and aggregated candles prefers no source silently: the result is sorted
  without repeated opens and contains only given candles of the symbol and timeframe; an open with a
  native candle keeps a native one; an aggregated candle either equals the kept one or is reported as a
  conflict with it; and every reported conflict is such a disagreement.
\<close>

theorem merge_prefers_nothing_silently:
  assumes "merge_native_and_aggregated native aggs symbol tf = (cs, conflicts)"
  shows "sorted_wrt (<) (map nc_open_time cs) \<and>
    (\<forall>c \<in> set cs. c \<in> set native \<union> set aggs \<and> nc_symbol c = symbol \<and> nc_timeframe c = tf) \<and>
    (\<forall>n \<in> set native. nc_symbol n = symbol \<and> nc_timeframe n = tf \<longrightarrow>
      (\<exists>c \<in> set cs. c \<in> set native \<and> nc_open_time c = nc_open_time n)) \<and>
    (\<forall>a \<in> set aggs. nc_symbol a = symbol \<and> nc_timeframe a = tf \<longrightarrow>
      (\<exists>c \<in> set cs. nc_open_time c = nc_open_time a \<and> (candles_equal c a \<or> merge_conflict symbol tf c a \<in> set conflicts))) \<and>
    (\<forall>x \<in> set conflicts. \<exists>a c. a \<in> set aggs \<and> c \<in> set cs \<and> nc_open_time c = nc_open_time a \<and>
      x = merge_conflict symbol tf c a \<and> \<not> candles_equal c a)"
proof (intro conjI)
  show "sorted_wrt (<) (map nc_open_time cs)" by (rule merge_ok(1) [OF assms])
qed (use merge_ok(2-5) [OF assms] in blast)+

text \<open>
  C18. A disagreement about a closed candle blocks its symbol: whatever is written live afterwards, the
  stored candle stays, a write that differs from it is recorded as a conflict, and no later bundle of
  the symbol is usable.
\<close>

theorem disagreement_blocks_symbol:
  assumes "dict_get (cr_store r) (nc_key c) = Some e" and "nc_is_closed e" and "nc_close_time e \<le> since"
    and "\<forall>w \<in> set writes. since \<le> fst w" and "(t, c) \<in> set writes" and "\<not> candles_equal e c"
    and "get_strategy_bundle (live_writes r writes) (nc_symbol c) et dmin wmin mmin agg = ret b"
  shows "dict_get (cr_store (live_writes r writes)) (nc_key c) = Some e \<and>
    \<lparr>cc_key = nc_key c, cc_existing = e, cc_incoming = c\<rparr> \<in> set (cr_conflicts (live_writes r writes)) \<and>
    \<not> is_usable b"
proof -
  have final: "live_final since e" using assms(2,3) by (simp add: is_candle_closed_def)
  note conflict = live_writes_reports [OF assms(1) final assms(4-6)]
  show ?thesis
    using live_writes_final [OF assms(1) final assms(4)] conflict conflict_blocks [OF assms(7) conflict]
    by (simp add: nc_key_def)
qed

theorem disagreement_blocks_symbol_witness:
  "\<exists>b. md_bundle_of (live_writes md_repository md_writes) = ret b \<and> \<not> is_usable b"
proof -
  let ?c = "md_candle MT_DAILY 19996 1 111"
  from md_blocked obtain b where b: "md_bundle_of (live_writes md_repository md_writes) = ret b"
    by (rule returns_case)
  have symbol: "nc_symbol ?c = BTC" by (simp add: md_candle_def)
  have "\<not> is_usable b"
    by (rule disagreement_blocks_symbol [OF md_store, where writes = md_writes and t = md_time and since = md_time and
          et = md_time and dmin = 1 and wmin = 1 and mmin = 1 and agg = True, THEN conjunct2, THEN conjunct2])
      (use b in \<open>simp_all add: md_bundle_of_def symbol md_writes_def candles_equal_def\<close>,
       simp_all add: md_candle_def md_time_def us_per_day_def us_per_second_def seconds_def)
  with b show ?thesis by blast
qed



section \<open>Paper trading service\<close>

text \<open>
  C20. The status machines of the service: an intent changes its status at most four times and an order
  at most twice, a terminal status is never left, and a killed runtime does not become ready again
  without having been stopped.
\<close>

theorem paper_status_machines:
  assumes "(intent_step ^^ n) s t" and "(order_step ^^ m) p q"
    and "(\<lambda>s t. runtime_step s t \<and> s \<noteq> RS_STOPPED)\<^sup>*\<^sup>* RS_KILLED r"
  shows "n \<le> 4 \<and> (s \<in> TERMINAL_INTENT_STATUSES \<longrightarrow> n = 0) \<and> m \<le> 2 \<and> (p \<in> TERMINAL_ORDER_STATUSES \<longrightarrow> m = 0) \<and>
    r \<in> {RS_KILLED, RS_SHUTTING_DOWN, RS_STOPPED, RS_FAILED}"
proof -
  have "n + intent_rank t \<le> intent_rank s" by (rule rank_bounds_run [OF intent_step_rank assms(1)])
  moreover have "intent_rank s \<le> 4" "s \<in> TERMINAL_INTENT_STATUSES \<Longrightarrow> intent_rank s = 0"
    by (cases s; simp add: TERMINAL_INTENT_STATUSES_def)+
  moreover have "m + order_rank q \<le> order_rank p" by (rule rank_bounds_run [OF order_step_rank assms(2)])
  moreover have "order_rank p \<le> 2" "p \<in> TERMINAL_ORDER_STATUSES \<Longrightarrow> order_rank p = 0"
    by (cases p; simp add: TERMINAL_ORDER_STATUSES_def)+
  ultimately show ?thesis using killed_until_stopped [OF assms(3)] by auto
qed

theorem paper_status_machines_witness:
  "intent_step TI_SCHEDULED TI_SUBMITTED \<and> order_step PO_PENDING PO_OPEN \<and> (1 :: nat) \<le> 4 \<and>
   RS_KILLED \<in> {RS_KILLED, RS_SHUTTING_DOWN, RS_STOPPED, RS_FAILED}"
proof -
  have i: "intent_step TI_SCHEDULED TI_SUBMITTED" and o: "order_step PO_PENDING PO_OPEN"
    by (simp_all add: intent_step_iff order_step_iff validate_intent_transition_def validate_order_transition_def transition_tables)
  from i o paper_status_machines [of 1 TI_SCHEDULED TI_SUBMITTED 1 PO_PENDING PO_OPEN RS_KILLED] show ?thesis by auto
qed



text \<open>
  C22. A fill happens once: after an execution that created the fill of an intent, executing the intent
  again at the same candle (with any risk engine, batch or cycle) returns the order and the fill that are
  already there, marked as not created, and leaves the database untouched.
\<close>

theorem paper_fill_idempotent:
  assumes "db_ok env db" and "i \<in> set (db_intents db)" and "ti_intent_id i = ti_intent_id intent" and "ti_status i = TI_SUBMITTED"
    and "execute_scheduled_paper_fill env risk ctx processed pending cid intent db = ret (FillDone res, db')" and "tf_created res"
    and "\<forall>p \<in> set (db_positions db'). readable_position p"
    and "fc_candle_open_time ctx' = fc_candle_open_time ctx"
    and "validate_symbol_constraints_core (fc_constraints ctx') = None"
  shows "\<exists>res'. execute_scheduled_paper_fill env risk' ctx' processed' pending' cid' intent db' = ret (FillDone res', db') \<and>
    \<not> tf_created res' \<and> tf_order res' = tf_order res \<and> tf_fill res' = tf_fill res"
  using assms by (rule execute_twice)

theorem paper_fill_idempotent_witness:
  "\<exists>res db res'.
     execute_scheduled_paper_fill paper_sample_env risk_evaluate paper_sample_context {} [] None paper_sample_intent
       paper_sample_submitted = ret (FillDone res, db) \<and> tf_created res \<and>
     execute_scheduled_paper_fill paper_sample_env risk_evaluate paper_sample_context {} [] None paper_sample_intent db =
       ret (FillDone res', db) \<and> \<not> tf_created res' \<and> tf_fill res' = tf_fill res"
proof -
  obtain res db where run: "execute_scheduled_paper_fill paper_sample_env risk_evaluate paper_sample_context {} [] None
      paper_sample_intent paper_sample_submitted = ret (FillDone res, db)" and res: "tf_created res"
      "db_positions db = [paper_sample_position]"
    using paper_sample_execute by metis
  have ok: "db_ok paper_sample_env paper_sample_submitted"
    by (simp add: db_ok_def paper_sample_submitted_def paper_sample_db_def)
  have mem: "hd (db_intents paper_sample_submitted) \<in> set (db_intents paper_sample_submitted)"
    "ti_intent_id (hd (db_intents paper_sample_submitted)) = ti_intent_id paper_sample_intent"
    "ti_status (hd (db_intents paper_sample_submitted)) = TI_SUBMITTED"
    by (simp_all add: paper_sample_submitted_def)
  have readable: "\<forall>p \<in> set (db_positions db). readable_position p"
    unfolding res(2) by (simp add: readable_position_def paper_sample_position_def)
  have valid: "validate_symbol_constraints_core (fc_constraints paper_sample_context) = None"
    by (simp add: paper_sample_fields paper_sample_constraints)
  from paper_fill_idempotent [OF ok mem run res(1) readable refl valid] run res(1) show ?thesis by metis
qed

text \<open>
  C23. What every reachable state of the database satisfies, whatever the order of the transactions of
  evaluations, new intents, opens, trailing updates, stop checks, runtime changes and snapshots, of
  operations that return or that raise half-way, and whatever the risk engine decides: one open position a symbol and at most three in all, every position opened by an intent
  of its own, of the same symbol and \<open>FILLED\<close>, a positive quantity, a stop that is not below the initial
  one, and a closing time exactly on the closed ones.
\<close>

theorem paper_reachable_database:
  assumes "numeric_ok env" and "db_ok env db0" and "(paper_step env)\<^sup>*\<^sup>* db0 db"
  shows "distinct (map pp_symbol (filter is_open_position (db_positions db))) \<and>
    length (filter is_open_position (db_positions db)) \<le> 3 \<and>
    distinct (map pp_entry_intent_id (db_positions db)) \<and>
    (\<forall>p \<in> set (db_positions db).
       (\<exists>i \<in> set (db_intents db). ti_intent_id i = pp_entry_intent_id p \<and> ti_status i = TI_FILLED \<and> ti_symbol i = pp_symbol p) \<and>
       0 < pp_quantity p \<and> pp_initial_stop p \<le> pp_current_stop p \<and> (pp_status p = PP_CLOSED \<longleftrightarrow> pp_closed_at p \<noteq> None))"
proof -
  have ok: "db_ok env db" using paper_steps_safe [OF assms] by blast
  have "length (filter is_open_position (db_positions db)) \<le> 3" by (rule open_positions_bound [OF ok])
  with ok show ?thesis unfolding db_ok_def position_ok_def by blast
qed

theorem paper_reachable_database_witness:
  "\<exists>db. (paper_step paper_sample_env)\<^sup>*\<^sup>* paper_sample_db db \<and> db_positions db = [paper_sample_position] \<and>
     distinct (map pp_symbol (filter is_open_position (db_positions db)))"
proof -
  obtain db where run: "(paper_step paper_sample_env)\<^sup>*\<^sup>* paper_sample_db db" and positions: "db_positions db = [paper_sample_position]"
    using paper_sample_run by metis
  from paper_reachable_database [OF paper_sample_numeric paper_sample_ok run] run positions show ?thesis by metis
qed

text \<open>
  C24. How a database changes along any run of the service: no row of the positions or the intents
  disappears; the stop of a position is never lowered, and its quantity, entry price, initial stop and
  intent never change; a closed position and an intent in a terminal status are final; the status of an
  intent moves along the transition table; and the fills that were booked stay as they are.
\<close>

theorem paper_history:
  assumes "numeric_ok env" and "db_ok env db0" and "(paper_step env)\<^sup>*\<^sup>* db0 db"
  shows "(\<forall>p \<in> set (db_positions db0). \<exists>p' \<in> set (db_positions db).
       pp_position_id p' = pp_position_id p \<and> pp_quantity p' = pp_quantity p \<and>
       pp_average_entry_price p' = pp_average_entry_price p \<and> pp_initial_stop p' = pp_initial_stop p \<and>
       pp_entry_intent_id p' = pp_entry_intent_id p \<and> pp_current_stop p \<le> pp_current_stop p' \<and>
       (pp_status p = PP_CLOSED \<longrightarrow> p' = p)) \<and>
    (\<forall>i \<in> set (db_intents db0). \<exists>i' \<in> set (db_intents db).
       ti_intent_id i' = ti_intent_id i \<and> ti_symbol i' = ti_symbol i \<and> ti_scheduled_fill_time i' = ti_scheduled_fill_time i \<and>
       intent_step\<^sup>*\<^sup>* (ti_status i) (ti_status i') \<and> (ti_status i \<in> TERMINAL_INTENT_STATUSES \<longrightarrow> i' = i)) \<and>
    (\<exists>new. db_fills db = db_fills db0 @ new)"
proof -
  have "evolves db0 db" using paper_steps_safe [OF assms] by blast
  then show ?thesis by (rule evolves_fields)
qed

theorem paper_history_witness:
  "\<exists>db. (paper_step paper_sample_env)\<^sup>*\<^sup>* paper_sample_db db \<and> db_positions db = [paper_sample_position] \<and>
     (\<exists>i' \<in> set (db_intents db). intent_step\<^sup>*\<^sup>* TI_SCHEDULED (ti_status i'))"
proof -
  obtain db where run: "(paper_step paper_sample_env)\<^sup>*\<^sup>* paper_sample_db db" and positions: "db_positions db = [paper_sample_position]"
    using paper_sample_run by metis
  have mem: "paper_sample_intent \<in> set (db_intents paper_sample_db)" by (simp add: paper_sample_db_def)
  from paper_history [OF paper_sample_numeric paper_sample_ok run, THEN conjunct2, THEN conjunct1, THEN bspec, OF mem]
  have "\<exists>i' \<in> set (db_intents db). intent_step\<^sup>*\<^sup>* TI_SCHEDULED (ti_status i')"
    unfolding paper_sample_intent_fields by blast
  with run positions show ?thesis by metis
qed

section \<open>Scheduling and market events\<close>



text \<open>
  C26. A job runs once: after a run of a job at a time that is reported completed, the job at that time,
  with whichever contexts it is asked again, is skipped, reported completed, and changes nothing.
\<close>

theorem job_runs_once:
  assumes "run_job own sv sk j t cid db = Some (Inr out, db')" and "jo_status out = SR_COMPLETED" and "sk_jobs_enabled sk'"
  shows "run_job own' sv' sk' j t cid' db' = Some (Inr (job_outcome j t SR_COMPLETED True None), db')"
proof (rule run_job_completed [OF _ assms(3)])
  have "run_job_body sv sk j t cid db = Some (Inr out, db')"
    using assms(1) by (cases own) (auto simp: run_job_def elim: savepoint_cases)
  from givesD [OF run_job_body_gives this] assms(2) show "run_recorded j t SR_COMPLETED db'" by blast
qed

theorem job_runs_once_witness:
  "\<exists>out db'. run_job True bridge_sample_services (br_scheduler bridge_sample) (job_value RUNTIME_HEARTBEAT) (20008 * us_per_day) None
      paper_sample_db = Some (Inr out, db') \<and>
    run_job True bridge_sample_services (br_scheduler bridge_sample) (job_value RUNTIME_HEARTBEAT) (20008 * us_per_day) None db' =
      Some (Inr (job_outcome (job_value RUNTIME_HEARTBEAT) (20008 * us_per_day) SR_COMPLETED True None), db')"
proof -
  obtain out db' where run: "run_job True bridge_sample_services (br_scheduler bridge_sample) (job_value RUNTIME_HEARTBEAT)
      (20008 * us_per_day) None paper_sample_db = Some (Inr out, db')" and completed: "jo_status out = SR_COMPLETED"
    using bridge_sample_heartbeat by blast
  have "sk_jobs_enabled (br_scheduler bridge_sample)" by (simp add: bridge_sample_def)
  from job_runs_once [OF run completed this] run show ?thesis by blast
qed



text \<open>
  C28. No group of events starves: in polls that find the same eligible groups, every group has an event
  processed within as many polls as there are groups, however few events a poll may process and
  whatever their outcomes, deferrals included.
\<close>

theorem no_group_starves:
  assumes "\<And>i. poll_groups (process_event bv) limit (et i) (candidates i) (s i) = Some (Inr (ps i), s' i)"
    and "\<And>i. fairness_cursor (snd (s (Suc i))) = fairness_cursor (snd (s' i))"
    and "\<And>i. eligible_in (candidates i) (et i) (snd (s i)) = keys"
    and "1 \<le> limit" and "key \<in> set keys"
  shows "\<exists>i < length keys. \<exists>out \<in> set (ps_outcomes (ps i)). market_event_group_key (eo_event out) = key"
proof -
  have event: "gives (process_event bv e) (\<lambda>out _. eo_event out = e)" for e
    using process_event_backed [of bv e] by (auto simp: gives_def backed_def)
  have "eligible_in (candidates i) (et i) (snd (s i)) \<noteq> []" for i using assms(3,5) by auto
  note visits = poll_visits [OF assms(1) event assms(4) this, unfolded assms(3)]
  have "\<exists>i < length keys. key \<in> set (take (ps_groups_rotated (ps i)) (poll_order (fairness_cursor (snd (s i))) keys))"
    using visits by (intro every_group_gets_a_turn [OF _ _ assms(5)]) (simp_all add: assms(2))
  with visits show ?thesis by blast
qed

theorem no_group_starves_witness:
  "\<exists>i < (2 :: nat). \<exists>out \<in> set (ps_outcomes (bridge_sample_poll (if even i then WEEKLY_CLOSED else MONTHLY_CLOSED))).
     market_event_group_key (eo_event out) = bridge_sample_key MONTHLY_CLOSED"
proof -
  let ?s = "\<lambda>i :: nat. (bridge_sample\<lparr>br_queue_overflow := True\<rparr>, bridge_sample_both (if even i then 0 else 1))"
  let ?s' = "\<lambda>i :: nat. (bridge_sample\<lparr>br_queue_overflow := True\<rparr>, bridge_sample_both (if even i then 1 else 0))"
  let ?ps = "\<lambda>i :: nat. bridge_sample_poll (if even i then WEEKLY_CLOSED else MONTHLY_CLOSED)"
  let ?keys = "[bridge_sample_key WEEKLY_CLOSED, bridge_sample_key MONTHLY_CLOSED]"
  have polls: "poll_groups (process_event bridge_sample_env) 1 0 bridge_sample_pair (?s i) = Some (Inr (?ps i), ?s' i)" for i
    by (cases "even i") (simp_all only: bridge_sample_polls if_True if_False)
  have "\<exists>i < length ?keys. \<exists>out \<in> set (ps_outcomes (?ps i)). market_event_group_key (eo_event out) = bridge_sample_key MONTHLY_CLOSED"
    by (rule no_group_starves [where s = ?s and s' = ?s' and et = "\<lambda>_. 0" and candidates = "\<lambda>_. bridge_sample_pair" and limit = 1,
          OF polls _ _ order_refl])
       (simp_all add: bridge_sample_eligible)
  moreover have "length ?keys = 2" by simp
  ultimately show ?thesis by metis
qed

text \<open>
  An acknowledged event stays silent: as long as its candle is the latest one, the detector announces
  the same kind of event for it again only for a live update with another low.
\<close>

theorem acknowledged_is_silent:
  assumes "repository_ok r" and "announces (acknowledge_completed e d) r t e'"
    and "me_symbol e' = me_symbol e" and "me_event_type e' = me_event_type e"
    and "me_candle_open_time e' = me_candle_open_time e"
  shows "me_event_type e = DAILY_LIVE_UPDATE \<and> me_observed_low e' \<noteq> me_observed_low e"
  using assms(2)
proof (rule announcesE)
  let ?d = "acknowledge_completed e d"
  fix s ms c
  assume c: "market_symbol_of s = ret ms" "get_latest r ms (event_timeframe (me_event_type e')) = Some c"
    "latest_event ?d t c (tracker ?d s) e'"
  from latest_event_fields(1) [OF c(3)] latest_in_series [OF assms(1) c(2)] market_symbol_of_value [OF c(1)] assms(3)
  have "s = me_symbol e" by simp
  with c(3) have "latest_event ?d t c (completed_tracker (me_event_type e) (me_candle_open_time e) (me_observed_low e) (tracker d s)) e'"
    by (simp add: tracker_acknowledged)
  from completed_silent [OF this assms(4,5)] show ?thesis by blast
qed

text \<open>
  C29. Entries fail closed: the readiness check always returns and changes nothing, and it allows entries only without any
  reason against it, with the runtime ready, a fresh heartbeat, market data, database, schema and lock in
  order, no recovery, no job running, and neither a pause nor the kill switch.
\<close>

theorem entry_readiness_fail_closed:
  "\<exists>snap. evaluate_readiness sv inp db = ret (snap, db) \<and> (rd_entry_readiness snap \<longleftrightarrow> rd_reasons snap = []) \<and>
    (rd_entry_readiness snap \<longrightarrow> rd_process_liveness snap \<and> rd_runtime_readiness snap \<and>
      ri_market_data_ready inp \<and> ri_database_ready inp \<and> ri_schema_problem inp = None \<and> ri_lock_held inp \<noteq> Some False \<and>
      \<not> ri_recovery_active inp \<and> (\<forall>r \<in> set (db_runs db). sr_status r \<noteq> SR_RUNNING) \<and>
      (\<exists>rs. db_runtime db = Some rs \<and> rs_status rs = RS_READY \<and> \<not> rs_paused rs \<and> \<not> rs_kill_switch rs \<and>
        sv_clock sv db - rs_heartbeat_at rs \<le> seconds (pc_stale_runtime_threshold_seconds (sv_config sv))))"
  by (rule entry_ready_ret)

theorem entry_readiness_fail_closed_witness:
  "\<exists>snap. evaluate_readiness bridge_sample_ready_services bridge_sample_inputs paper_sample_db = ret (snap, paper_sample_db) \<and>
     rd_entry_readiness snap \<and> rd_reasons snap = []"
proof -
  obtain snap where snap: "evaluate_readiness bridge_sample_ready_services bridge_sample_inputs paper_sample_db = ret (snap, paper_sample_db)"
    "rd_entry_readiness snap" using bridge_sample_readiness by blast
  with entry_readiness_fail_closed [of bridge_sample_ready_services bridge_sample_inputs paper_sample_db] show ?thesis by auto
qed

text \<open>
  The context of an open knows the open only: two candles of the day that differ in high, low, close and
  in being closed give the same contexts for the fills.
\<close>

theorem open_context_no_lookahead:
  assumes "same_open c d"
  shows "cbind (build_open_contexts sv cb symbol c) (\<lambda>(fills, _). ret fills) =
         cbind (build_open_contexts sv cb symbol d) (\<lambda>(fills, _). ret fills)"
proof -
  have "open_only_strategy_candle c = open_only_strategy_candle d"
    using assms by (simp add: open_only_strategy_candle_def to_strategy_candle_def same_open_def)
  then show ?thesis
    using assms by (simp add: build_open_contexts_def same_open_def Let_def cbind_assoc cbind_if cbind_option
        cong: if_cong option.case_cong)
qed

section \<open>Recovery\<close>

text \<open>
  C30. Start-up after any run: on every database that the service can reach from consistent tables (whose
  positions can be read back), recovery with a current schema changes no wallet, intent, order, fill,
  position, stop event or funding event, whether it returns or raises, and it does not end in
  \<open>FAILED\<close>: its checks find nothing fatal.
\<close>

theorem recovery_after_any_run:
  assumes "numeric_ok env" and "db_ok env db0" and "chain_ok db0" and "(paper_step env)\<^sup>*\<^sup>* db0 db"
    and "\<forall>p \<in> set (db_positions db). readable_position p"
    and "recover_on_startup sv accounting_text lock active True market_data_ready db = Some (r, db')"
  shows "trading_tables db' = trading_tables db \<and>
    (\<forall>res. r = Inr res \<longrightarrow> rr_final_status res \<noteq> RS_FAILED \<and> (\<forall>i \<in> set (rr_issues res). ci_severity i \<noteq> FATAL))"
proof -
  have "service_db env db"
    using paper_steps_safe [OF assms(1,2,4)] paper_steps_links [OF assms(4,3)] assms(5) by (simp add: service_db_def)
  from recovery_calm [OF this assms(6)] show ?thesis
    using recovery_outcome assms(6) by (auto simp: outcome_ok_def)
qed

theorem recovery_after_any_run_witness:
  "\<exists>res db. recover_on_startup bridge_sample_ready_services (\<lambda>_. '''') recovery_sample_lock False True True paper_sample_db = Some (Inr res, db) \<and>
     trading_tables db = trading_tables paper_sample_db \<and> rr_final_status res \<noteq> RS_FAILED"
proof -
  obtain res db where run: "recover_on_startup bridge_sample_ready_services (\<lambda>_. '''') recovery_sample_lock False True True paper_sample_db = Some (Inr res, db)"
    using recovery_sample_runs by metis
  have "\<forall>p \<in> set (db_positions paper_sample_db). readable_position p" by (simp add: paper_sample_db_def)
  from recovery_after_any_run [OF paper_sample_numeric paper_sample_ok recovery_sample_books(2) rtranclp.rtrancl_refl this run] run
  show ?thesis by metis
qed

text \<open>
  C31. What a recovery says is so: a returned result ends in \<open>READY\<close>, \<open>DEGRADED\<close> or \<open>FAILED\<close>, which is the
  status of the runtime row; entries are ready only in \<open>READY\<close> without pause and kill switch; \<open>READY\<close> needs
  market data and leaves no issue for an operator; \<open>FAILED\<close> means a fatal issue. A runtime that is paused,
  killed, failed, syncing or shutting down is refused and the database stays as it is.
\<close>

theorem recovery_result_true:
  "(\<forall>res db'. recover_on_startup sv accounting_text lock active migrated market_data_ready db = Some (Inr res, db') \<longrightarrow>
     rr_final_status res \<in> {RS_READY, RS_DEGRADED, RS_FAILED} \<and>
     (\<exists>rs. db_runtime db' = Some rs \<and> rs_status rs = rr_final_status res \<and>
        rr_entry_readiness res = (rr_final_status res = RS_READY \<and> \<not> rs_paused rs \<and> \<not> rs_kill_switch rs)) \<and>
     (rr_final_status res = RS_READY \<longrightarrow> market_data_ready \<and> (\<forall>i \<in> set (rr_issues res). ci_severity i = AUTO_REPAIRABLE)) \<and>
     (rr_final_status res = RS_FAILED \<longleftrightarrow> (\<exists>i \<in> set (rr_issues res). ci_severity i = FATAL))) \<and>
   (\<forall>rs. db_runtime db = Some rs \<longrightarrow> rs_status rs \<in> {RS_PAUSED, RS_KILLED, RS_FAILED, RS_SHUTTING_DOWN, RS_SYNCING} \<longrightarrow>
     try_acquire lock \<longrightarrow> \<not> active \<longrightarrow>
     (\<exists>msg. recover_on_startup sv accounting_text lock active migrated market_data_ready db = Some (Inl (ValueError msg), db)))"
proof (rule conjI; intro allI impI)
  fix res db'
  assume "recover_on_startup sv accounting_text lock active migrated market_data_ready db = Some (Inr res, db')"
  from recovery_outcome [OF this] show "rr_final_status res \<in> {RS_READY, RS_DEGRADED, RS_FAILED} \<and>
     (\<exists>rs. db_runtime db' = Some rs \<and> rs_status rs = rr_final_status res \<and>
        rr_entry_readiness res = (rr_final_status res = RS_READY \<and> \<not> rs_paused rs \<and> \<not> rs_kill_switch rs)) \<and>
     (rr_final_status res = RS_READY \<longrightarrow> market_data_ready \<and> (\<forall>i \<in> set (rr_issues res). ci_severity i = AUTO_REPAIRABLE)) \<and>
     (rr_final_status res = RS_FAILED \<longleftrightarrow> (\<exists>i \<in> set (rr_issues res). ci_severity i = FATAL))"
    unfolding outcome_ok_def by blast
qed (rule recovery_refused)

theorem recovery_result_true_witness:
  "(\<exists>res db rs. recover_on_startup bridge_sample_ready_services (\<lambda>_. '''') recovery_sample_lock False True True paper_sample_db = Some (Inr res, db) \<and>
     db_runtime db = Some rs \<and> rs_status rs = RS_READY) \<and>
   (\<exists>msg. recover_on_startup bridge_sample_ready_services (\<lambda>_. '''') recovery_sample_lock False True True recovery_sample_paused =
     Some (Inl (ValueError msg), recovery_sample_paused))"
proof
  obtain res db where run: "recover_on_startup bridge_sample_ready_services (\<lambda>_. '''') recovery_sample_lock False True True paper_sample_db = Some (Inr res, db)"
    and ready: "rr_final_status res = RS_READY"
    using recovery_sample_runs by metis
  from recovery_result_true [THEN conjunct1, rule_format, OF run] ready
  have "\<exists>rs. db_runtime db = Some rs \<and> rs_status rs = RS_READY" by metis
  with run show "\<exists>res db rs. recover_on_startup bridge_sample_ready_services (\<lambda>_. '''') recovery_sample_lock False True True paper_sample_db = Some (Inr res, db) \<and>
     db_runtime db = Some rs \<and> rs_status rs = RS_READY" by metis
  obtain rs where rs: "db_runtime recovery_sample_paused = Some rs" "rs_status rs = RS_PAUSED"
    by (simp add: recovery_sample_paused_def)
  then have "rs_status rs \<in> {RS_PAUSED, RS_KILLED, RS_FAILED, RS_SHUTTING_DOWN, RS_SYNCING}" "try_acquire recovery_sample_lock" "\<not> False"
    by (simp_all add: try_acquire_def recovery_sample_lock_def)
  from recovery_result_true [THEN conjunct2, THEN spec, THEN mp, OF rs(1), THEN mp, OF this(1), THEN mp, OF this(2), THEN mp, OF this(3)]
  show "\<exists>msg. recover_on_startup bridge_sample_ready_services (\<lambda>_. '''') recovery_sample_lock False True True recovery_sample_paused =
     Some (Inl (ValueError msg), recovery_sample_paused)" .
qed



section \<open>Research\<close>



text \<open>
  C34. The walk-forward plan: from the first day with the wanted number of whole months (and days) of history, the
  windows of the folds cover every day to the end once and in order, one window a fold. Each fold may use the history
  before its window only, its labels end the embargo before it, and it has the wanted months. A range that is too
  short is refused.
\<close>

theorem walk_forward_tiles:
  assumes "1 \<le> n" and "0 \<le> emb" and "1 \<le> months" and "\<forall>w. wd = Some w \<longrightarrow> 1 \<le> w"
  shows "\<exists>first. (\<forall>d. first \<le> d \<longleftrightarrow> months \<le> int (card (whole_months s (d - 1))) \<and> (\<forall>w. wd = Some w \<longrightarrow> s + w \<le> d)) \<and>
    (if first + n - 1 \<le> e \<and> s + emb < first
     then \<exists>folds. plan_walk_forward_folds s e n emb months wd = ret folds \<and> int (length folds) = n \<and>
       covered_days folds = [first..e] \<and> (\<forall>f \<in> set folds. fold_ok s emb months f)
     else \<exists>msg. plan_walk_forward_folds s e n emb months wd = raise (ValueError msg))"
proof (intro exI [of _ "first_eval_day s months wd"] conjI allI)
  show "first_eval_day s months wd \<le> d \<longleftrightarrow>
      months \<le> int (card (whole_months s (d - 1))) \<and> (\<forall>w. wd = Some w \<longrightarrow> s + w \<le> d)" for d
    by (rule first_eval_day_least [OF assms(3)])
  show "if first_eval_day s months wd + n - 1 \<le> e \<and> s + emb < first_eval_day s months wd
     then \<exists>folds. plan_walk_forward_folds s e n emb months wd = ret folds \<and> int (length folds) = n \<and>
       covered_days folds = [first_eval_day s months wd..e] \<and> (\<forall>f \<in> set folds. fold_ok s emb months f)
     else \<exists>msg. plan_walk_forward_folds s e n emb months wd = raise (ValueError msg)"
    using plan_tiles [OF assms] plan_rejects [OF assms] by (simp split: if_splits)
qed

theorem walk_forward_tiles_witness:
  "\<exists>first. (\<forall>d. first \<le> d \<longleftrightarrow> 2 \<le> int (card (whole_months 737425 (d - 1)))) \<and>
    (if first + 3 - 1 \<le> 737600 \<and> 737425 + 10 < first
     then \<exists>folds. plan_walk_forward_folds 737425 737600 3 10 2 None = ret folds \<and> int (length folds) = 3 \<and>
       covered_days folds = [first..737600] \<and> (\<forall>f \<in> set folds. fold_ok 737425 10 2 f)
     else \<exists>msg. plan_walk_forward_folds 737425 737600 3 10 2 None = raise (ValueError msg))"
  using walk_forward_tiles [of 3 10 2 None 737425 737600] by simp

text \<open>
  C35. The registry can be trusted: whatever was registered, invalidated, interrupted or changed on disk since it was
  empty, each run has at most one complete record, and a run is shown as complete only when no sidecar marks it and
  its directory holds exactly the files of its record (but for the seal itself), with their digests.
\<close>

theorem run_registry_trusted:
  assumes "(registry_step sha256)\<^sup>*\<^sup>* r r'" and "rg_log r = []"
  shows "length (filter (\<lambda>e. re_run_id e = i \<and> re_status e = RUN_COMPLETE) (rg_log r')) \<le> 1 \<and>
    (\<forall>e. show_run sha256 r' i True = ret e \<and> re_status e = RUN_COMPLETE \<longrightarrow>
      dict_get (rg_sidecars r') i = None \<and>
      (\<exists>d. dict_get (rg_dirs r') (re_artifact_path e) = Some d \<and>
         set (dict_keys d) - {checksums_file} \<subseteq> set (dict_keys (re_checksums e)) \<and>
         (\<forall>(rel, digest) \<in> set (re_checksums e). \<exists>content. dict_get d rel = Some content \<and> sha256 content = digest)))"
proof (intro conjI allI impI)
  show "length (filter (\<lambda>e. re_run_id e = i \<and> re_status e = RUN_COMPLETE) (rg_log r')) \<le> 1"
    using runs_log.one_active [OF assms(1), of i] assms(2) by (simp add: runs_log.actives_def)
next
  fix e
  assume e: "show_run sha256 r' i True = ret e \<and> re_status e = RUN_COMPLETE"
  then show "dict_get (rg_sidecars r') i = None"
    using marked_never_complete [of r' i sha256 True e] by (cases "dict_get (rg_sidecars r') i") (auto simp: sidecar_marks_iff)
  from show_run_verified(3) [OF conjunct1 [OF e]] e obtain d where
    "dict_get (rg_dirs r') (re_artifact_path e) = Some d" "verify_checksums_against sha256 d (re_checksums e) = ret ()" by blast
  then show "\<exists>d. dict_get (rg_dirs r') (re_artifact_path e) = Some d \<and>
      set (dict_keys d) - {checksums_file} \<subseteq> set (dict_keys (re_checksums e)) \<and>
      (\<forall>(rel, digest) \<in> set (re_checksums e). \<exists>content. dict_get d rel = Some content \<and> sha256 content = digest)"
    unfolding verify_checksums_iff by blast
qed

theorem run_registry_trusted_witness:
  "dict_get (rg_sidecars gate_sample_registry) ''run-1'' = None \<and> dict_get gate_sample_files ''metrics.json'' = Some ''m''"
  using run_registry_trusted [OF gate_sample_registry_steps, of "''run-1''"] gate_sample_shown
  by (auto simp: gate_sample_unregistered_def) (auto simp: gate_sample_registry_def gate_sample_entry_def gate_sample_files_def)

text \<open>
  C36. A pass is earned: in every history of the gate store from an empty one, a result has one verdict for each gate
  of its policy, and it passes only when each gate of the policy has a measurement of at least its threshold (in particular, missing
  evidence fails). No result promotes anything, and none permits the quality scores.
\<close>

theorem gate_pass_is_earned:
  assumes "(gate_step fmt)\<^sup>*\<^sup>* w w'" and "gs_log (gw_store w) = []" and "gate_get (gw_store w') i = Some r"
  shows "\<exists>p. get_policy (gg_policy_version r) = ret p \<and> map gr_name (gg_gates r) = map gd_name (gp_gates p) \<and>
    (gg_overall_status r = OVERALL_PASS \<longleftrightarrow> (\<forall>x \<in> set (gg_gates r). gr_outcome x = GO_PASS)) \<and>
    (gg_overall_status r = OVERALL_PASS \<longrightarrow> (\<forall>g \<in> set (gp_gates p). \<exists>m t.
       dict_get (gg_measurements r) (gd_metric g) = Some (fmt m) \<and> dec_of_text (gd_threshold g) = Some t \<and> t \<le> m)) \<and>
    gg_promotion_action r = ''none'' \<and> \<not> quality_scores_permitted r"
proof -
  have "all_sound fmt w" by (simp add: all_sound_def assms(2))
  from get_sound [OF steps_sound [OF assms(1) this] assms(3)] have r: "record_sound fmt r" .
  then have j: "judged fmt r" by (simp add: record_sound_def)
  then obtain p where p: "get_policy (gg_policy_version r) = ret p" by (auto simp: judged_def)
  from judged_pass [OF j p] p r show ?thesis
    by (intro exI [of _ p]) (auto simp: record_sound_def quality_scores_permitted_def)
qed

theorem gate_pass_is_earned_witness:
  "gg_overall_status gate_sample_record = OVERALL_PASS \<and> gg_promotion_action gate_sample_record = ''none'' \<and>
   \<not> quality_scores_permitted gate_sample_record \<and>
   (\<exists>p. get_policy (gg_policy_version gate_sample_record) = ret p \<and> map gr_name (gg_gates gate_sample_record) = map gd_name (gp_gates p))"
  using gate_pass_is_earned [OF gate_sample_steps gate_sample_empty gate_sample_get] gate_sample_made(2) by blast



text \<open>
  C38. An invalidation is final: after it, whatever happens to the store, the result stays listed and invalidated, the
  earlier records stay in the log, and an evaluation that comes to the same identifier is refused.
\<close>

theorem gate_invalidation_final:
  assumes "gate_invalidate i reason (gw_store w) = ret s" and "(gate_step fmt)\<^sup>*\<^sup>* (w\<lparr>gw_store := s\<rparr>) w'"
  shows "(\<exists>r. gate_get (gw_store w') i = Some r \<and> gg_status r = GATE_INVALIDATED) \<and>
    prefix (gs_log (gw_store w)) (gs_log (gw_store w')) \<and>
    (\<forall>env run_id version rids r. gate_record_of env w' run_id version rids = ret r \<and> gg_gate_run_id r = i \<longrightarrow>
       (\<exists>msg. gate_evaluate env run_id version rids w' = raise (GateEvaluationError msg)))"
proof -
  from assms(1) obtain e where e: "e \<in> set (gs_log (gw_store w))" "gg_gate_run_id e = i"
    "s = (gw_store w)\<lparr>gs_sidecars := append_sidecar i (gs_sidecars (gw_store w)),
       gs_log := gs_log (gw_store w) @ [e\<lparr>gg_status := GATE_INVALIDATED, gg_invalidation_reason := Some reason\<rparr>]\<rparr>"
    by (rule gate_invalidate_ret)
  have marked: "sidecar_marks_invalidated (gs_sidecars (gw_store w')) i"
    using gates_log.marked_final [OF assms(2), of i] by (simp add: e(3))
  have "gate_get (gw_store w') i \<noteq> None"
    by (rule get_kept [OF assms(2)], unfold gate_get_exists) (use e in auto)
  then obtain r where "gate_get (gw_store w') i = Some r" by blast
  moreover have "prefix (gs_log (gw_store w)) (gs_log (gw_store w'))"
    using gates_log.append_only [OF assms(2)] by (auto simp: e(3) elim: prefix_order.trans [rotated])
  ultimately show ?thesis using get_marked [OF marked] evaluate_marked marked by blast
qed

theorem gate_invalidation_final_witness:
  "\<exists>r. gate_get gate_sample_invalid ''gate_d'' = Some r \<and> gg_status r = GATE_INVALIDATED"
  using gate_invalidation_final [OF gate_sample_invalidated rtranclp.rtrancl_refl] by simp





end
